(* ===== verification/Prelude.thy ===== *)
theory Prelude
  imports Main "HOL-Library.Word"
begin

text \<open>
  What the components share: the Go types the source uses (fixed-width integers as words,
  byte slices as lists, the fixed-size arrays of solana-go as words of their width), Go's
  error values, the state-and-error form in which every effectful function of the source
  is written (\<open>exec\<close>) with its rules, and the little- and big-endian byte codecs of
  \<open>encoding/binary\<close> with their round trips.
\<close>

unbundle bit_operations_syntax

section \<open>Go values\<close>

type_synonym byte = "8 word"
type_synonym bytes = "8 word list"
type_synonym u16 = "16 word"
type_synonym u32 = "32 word"
type_synonym u64 = "64 word"

text \<open>
  The arrays \<open>solana.PublicKey\<close> and \<open>solana.Hash\<close> are \<open>[32]byte\<close>,
  \<open>solana.Signature\<close> is \<open>[64]byte\<close>: values of 256 and 512 bits. The zero value of
  the Go type is the word 0, and the bytes are read off by \<open>key_bytes\<close> and \<open>sig_bytes\<close>.
\<close>

type_synonym PublicKey = "256 word"
type_synonym Hash = "256 word"
type_synonym Signature = "512 word"

text \<open>
  Go's errors. \<open>Errorf\<close> is an error made by \<open>fmt.Errorf\<close> or \<open>errors.New\<close>,
  named by its format string; \<open>Wrapf\<close> is \<open>fmt.Errorf\<close> with a \<open>%w\<close> verb, which
  \<open>errors.Is\<close> and \<open>errors.As\<close> look through. \<open>RPCErr\<close> and \<open>HTTPErr\<close> are
  solana-go's \<open>*jsonrpc.RPCError\<close> and \<open>*jsonrpc.HTTPError\<close> with their codes,
  \<open>ExtErr\<close> any other error of code outside the repository. \<open>GoPanic\<close> is a run-time
  panic, \<open>OutOfFuel\<close> the end of the fuel given to a loop that might not return: neither
  is an error value, both end the call (\<open>stops\<close>), so they are never wrapped or caught.
\<close>

datatype go_error =
    Errorf String.literal
  | Wrapf String.literal go_error
  | RPCErr int
  | HTTPErr int
  | RateLimitErr int
  | ErrRetryTimeout
  | ErrRetryTryAgain
  | CtxDone
  | ExtErr String.literal
  | GoPanic String.literal
  | OutOfFuel

definition stops :: "go_error \<Rightarrow> bool" where
  "stops e = (case e of GoPanic _ \<Rightarrow> True | OutOfFuel \<Rightarrow> True | _ \<Rightarrow> False)"

definition wrapped :: "String.literal \<Rightarrow> go_error \<Rightarrow> go_error" where
  "wrapped msg e = (if stops e then e else Wrapf msg e)"

lemma stops_simps [simp]:
  "stops (GoPanic p)" "stops OutOfFuel" "\<not> stops (Errorf m)" "\<not> stops (Wrapf m e)" "\<not> stops (RPCErr c)"
  "\<not> stops (HTTPErr c)" "\<not> stops (RateLimitErr n)" "\<not> stops ErrRetryTimeout" "\<not> stops ErrRetryTryAgain"
  "\<not> stops CtxDone" "\<not> stops (ExtErr m)"
  by (simp_all add: stops_def)

section \<open>State, errors and their rules\<close>

text \<open>
  A Go method that changes a state and may return an error is a function from the state to
  a result and the state it leaves behind, also when it returns an error.
\<close>

type_synonym ('s, 'a) exec = "'s \<Rightarrow> (go_error + 'a) \<times> 's"

definition ret :: "'a \<Rightarrow> ('s, 'a) exec" where
  "ret a = (\<lambda>s. (Inr a, s))"

definition fail :: "go_error \<Rightarrow> ('s, 'a) exec" where
  "fail e = (\<lambda>s. (Inl e, s))"

definition bind :: "('s, 'a) exec \<Rightarrow> ('a \<Rightarrow> ('s, 'b) exec) \<Rightarrow> ('s, 'b) exec" where
  "bind m f = (\<lambda>s. case m s of (Inl e, s') \<Rightarrow> (Inl e, s') | (Inr a, s') \<Rightarrow> f a s')"

definition gets :: "('s \<Rightarrow> 'a) \<Rightarrow> ('s, 'a) exec" where
  "gets g = (\<lambda>s. (Inr (g s), s))"

definition modify :: "('s \<Rightarrow> 's) \<Rightarrow> ('s, unit) exec" where
  "modify g = (\<lambda>s. (Inr (), g s))"

definition liftR :: "go_error + 'a \<Rightarrow> ('s, 'a) exec" where
  "liftR r = (\<lambda>s. (r, s))"

definition wrapE :: "String.literal \<Rightarrow> ('s, 'a) exec \<Rightarrow> ('s, 'a) exec" where
  "wrapE msg m = (\<lambda>s. case m s of (Inl e, s') \<Rightarrow> (Inl (wrapped msg e), s') | (Inr a, s') \<Rightarrow> (Inr a, s'))"

text \<open>The call's error as a value, the \<open>err\<close> of \<open>x, err := m()\<close>; a panic is not one.\<close>

definition attempt :: "('s, 'a) exec \<Rightarrow> ('s, go_error + 'a) exec" where
  "attempt m = (\<lambda>s. case m s of
     (Inl e, s') \<Rightarrow> if stops e then (Inl e, s') else (Inr (Inl e), s')
   | (Inr a, s') \<Rightarrow> (Inr (Inr a), s'))"

text \<open>A part of the state: \<open>focus get put m\<close> runs \<open>m\<close> on the component \<open>get\<close> reads.\<close>

definition focus :: "('s \<Rightarrow> 't) \<Rightarrow> ('t \<Rightarrow> 's \<Rightarrow> 's) \<Rightarrow> ('t, 'a) exec \<Rightarrow> ('s, 'a) exec" where
  "focus get put m = (\<lambda>s. case m (get s) of (r, t) \<Rightarrow> (r, put t s))"

fun for_each :: "('a \<Rightarrow> ('s, unit) exec) \<Rightarrow> 'a list \<Rightarrow> ('s, unit) exec" where
  "for_each f [] = ret ()"
| "for_each f (x # xs) = bind (f x) (\<lambda>_. for_each f xs)"

text \<open>
  \<open>triple P m Q E\<close>: from a state with \<open>P\<close>, \<open>m\<close> returns a value and a state with
  \<open>Q\<close>, or an error and a state with \<open>E\<close>. \<open>keeps P m\<close>: \<open>P\<close> holds afterwards
  whatever \<open>m\<close> returned.
\<close>

definition triple :: "('s \<Rightarrow> bool) \<Rightarrow> ('s, 'a) exec \<Rightarrow> ('a \<Rightarrow> 's \<Rightarrow> bool) \<Rightarrow> (go_error \<Rightarrow> 's \<Rightarrow> bool) \<Rightarrow> bool" where
  "triple P m Q E \<longleftrightarrow> (\<forall>s. P s \<longrightarrow> (case m s of (Inr a, s') \<Rightarrow> Q a s' | (Inl e, s') \<Rightarrow> E e s'))"

definition keeps :: "('s \<Rightarrow> bool) \<Rightarrow> ('s, 'a) exec \<Rightarrow> bool" where
  "keeps P m \<longleftrightarrow> (\<forall>s. P s \<longrightarrow> P (snd (m s)))"

named_theorems exec_defs \<comment> \<open>the operations of \<open>exec\<close>, to compute a call\<close>
named_theorems keeps_rules \<comment> \<open>introduction rules for \<open>keeps\<close>\<close>

lemmas exec_basic_defs [exec_defs] =
  ret_def fail_def bind_def gets_def modify_def liftR_def wrapE_def attempt_def focus_def

lemma bind_Inr_iff:
  "bind m f s = (Inr b, s'') \<longleftrightarrow> (\<exists>a s'. m s = (Inr a, s') \<and> f a s' = (Inr b, s''))"
  by (auto simp: bind_def split: prod.splits sum.splits)

lemma bind_ok: "m s = (Inr a, s') \<Longrightarrow> bind m f s = f a s'"
  by (simp add: bind_def)

lemma bind_err: "m s = (Inl e, s') \<Longrightarrow> bind m f s = (Inl e, s')"
  by (simp add: bind_def)

lemma bind_ret [simp]: "bind (ret a) f = f a"
  by (simp add: bind_def ret_def)

lemma wrapE_Inr_iff: "wrapE msg m s = (Inr a, s') \<longleftrightarrow> m s = (Inr a, s')"
  by (auto simp: wrapE_def split: prod.splits sum.splits)

lemma snd_wrapE [simp]: "snd (wrapE msg m s) = snd (m s)"
  by (auto simp: wrapE_def split: prod.splits sum.splits)

lemma keepsI: "(\<And>s. P s \<Longrightarrow> P (snd (m s))) \<Longrightarrow> keeps P m"
  by (simp add: keeps_def)

lemma keepsD: "keeps P m \<Longrightarrow> P s \<Longrightarrow> m s = (r, s') \<Longrightarrow> P s'"
  by (auto simp: keeps_def dest!: spec [where x = s])

lemma keeps_ret [keeps_rules]: "keeps P (ret a)"
  and keeps_fail [keeps_rules]: "keeps P (fail e)"
  and keeps_gets [keeps_rules]: "keeps P (gets g)"
  and keeps_liftR [keeps_rules]: "keeps P (liftR r)"
  by (simp_all add: keeps_def ret_def fail_def gets_def liftR_def)

lemma keeps_modify [keeps_rules]: "(\<And>s. P s \<Longrightarrow> P (g s)) \<Longrightarrow> keeps P (modify g)"
  by (simp add: keeps_def modify_def)

lemma keeps_bind [keeps_rules]:
  "keeps P m \<Longrightarrow> (\<And>a. keeps P (f a)) \<Longrightarrow> keeps P (bind m f)"
  by (fastforce simp: keeps_def bind_def split: prod.splits sum.splits)

lemma keeps_wrapE [keeps_rules]: "keeps P m \<Longrightarrow> keeps P (wrapE msg m)"
  by (simp add: keeps_def)

lemma keeps_attempt [keeps_rules]: "keeps P m \<Longrightarrow> keeps P (attempt m)"
  by (fastforce simp: keeps_def attempt_def split: prod.splits sum.splits go_error.splits)

lemma keeps_focus [keeps_rules]:
  "(\<And>s. P s \<Longrightarrow> P (put (snd (m (get s))) s)) \<Longrightarrow> keeps P (focus get put m)"
  by (auto simp: keeps_def focus_def split: prod.splits) (metis snd_conv)

lemma keeps_for_each [keeps_rules]: "(\<And>x. keeps P (f x)) \<Longrightarrow> keeps P (for_each f xs)"
  by (induction xs) (auto intro: keeps_rules)

lemma keeps_sum_case [keeps_rules]:
  "(\<And>e. x = Inl e \<Longrightarrow> keeps P (f e)) \<Longrightarrow> (\<And>a. x = Inr a \<Longrightarrow> keeps P (g a)) \<Longrightarrow> keeps P (case x of Inl e \<Rightarrow> f e | Inr a \<Rightarrow> g a)"
  by (cases x) auto

lemma keeps_option_case [keeps_rules]:
  "(x = None \<Longrightarrow> keeps P f) \<Longrightarrow> (\<And>a. x = Some a \<Longrightarrow> keeps P (g a)) \<Longrightarrow> keeps P (case x of None \<Rightarrow> f | Some a \<Rightarrow> g a)"
  by (cases x) auto

lemma keeps_if [keeps_rules]:
  "(b \<Longrightarrow> keeps P m) \<Longrightarrow> (\<not> b \<Longrightarrow> keeps P n) \<Longrightarrow> keeps P (if b then m else n)"
  by simp

section \<open>Bytes\<close>

text \<open>
  \<open>le_bytes n w\<close> is the \<open>n\<close>-byte little-endian form of a word (\<open>PutUint16\<close>,
  \<open>PutUint64\<close> and \<open>AppendUint32\<close> of \<open>binary.LittleEndian\<close>), \<open>le_word\<close> reads one
  back; the big-endian forms are their reversals.
\<close>

primrec le_bytes :: "nat \<Rightarrow> 'a::len word \<Rightarrow> bytes" where
  "le_bytes 0 w = []"
| "le_bytes (Suc n) w = ucast w # le_bytes n (drop_bit 8 w)"

primrec le_word :: "bytes \<Rightarrow> 'a::len word" where
  "le_word [] = 0"
| "le_word (b # bs) = ucast b OR push_bit 8 (le_word bs)"

definition be_bytes :: "nat \<Rightarrow> 'a::len word \<Rightarrow> bytes" where
  "be_bytes n w = rev (le_bytes n w)"

definition be_word :: "bytes \<Rightarrow> 'a::len word" where
  "be_word bs = le_word (rev bs)"

definition key_bytes :: "PublicKey \<Rightarrow> bytes" where
  "key_bytes k = be_bytes 32 k"

definition sig_bytes :: "Signature \<Rightarrow> bytes" where
  "sig_bytes s = be_bytes 64 s"

lemma length_le_bytes [simp]: "length (le_bytes n w) = n"
  by (induction n arbitrary: w) auto

lemma length_be_bytes [simp]: "length (be_bytes n w) = n"
  by (simp add: be_bytes_def)

lemma length_key_bytes [simp]: "length (key_bytes k) = 32"
  and length_sig_bytes [simp]: "length (sig_bytes s) = 64"
  by (simp_all add: key_bytes_def sig_bytes_def)

lemma le_word_le_bytes_take_bit: "le_word (le_bytes n w) = take_bit (8 * n) w"
proof (induction n arbitrary: w)
  case 0
  then show ?case by simp
next
  case (Suc n)
  show ?case
    by (simp add: Suc.IH) (rule bit_word_eqI, auto simp: bit_simps)
qed

lemma le_word_le_bytes:
  fixes w :: "'a::len word"
  assumes "LENGTH('a) \<le> 8 * n"
  shows "le_word (le_bytes n w) = w"
proof -
  have "take_bit (8 * n) w = w"
    using assms by (intro bit_word_eqI) (auto simp: bit_simps dest: bit_imp_le_length)
  then show ?thesis by (simp add: le_word_le_bytes_take_bit)
qed

lemma be_word_be_bytes:
  fixes w :: "'a::len word"
  assumes "LENGTH('a) \<le> 8 * n"
  shows "be_word (be_bytes n w) = w"
  using assms by (simp add: be_word_def be_bytes_def le_word_le_bytes)

lemma le_bytes_inject:
  fixes v w :: "'a::len word"
  assumes "LENGTH('a) \<le> 8 * n"
  shows "le_bytes n v = le_bytes n w \<longleftrightarrow> v = w"
  using le_word_le_bytes [OF assms] by metis

lemma be_bytes_inject:
  fixes v w :: "'a::len word"
  assumes "LENGTH('a) \<le> 8 * n"
  shows "be_bytes n v = be_bytes n w \<longleftrightarrow> v = w"
  using be_word_be_bytes [OF assms] by metis

lemma key_bytes_inject [simp]: "key_bytes v = key_bytes w \<longleftrightarrow> v = w"
  by (simp add: key_bytes_def be_bytes_inject)

lemma sig_bytes_inject [simp]: "sig_bytes v = sig_bytes w \<longleftrightarrow> v = w"
  by (simp add: sig_bytes_def be_bytes_inject)

text \<open>\<open>[]byte("\<dots>")\<close> of an ASCII string.\<close>

definition str_bytes :: "string \<Rightarrow> bytes" where
  "str_bytes s = map of_char s"

lemma length_str_bytes [simp]: "length (str_bytes s) = length s"
  by (simp add: str_bytes_def)

text \<open>A sub-slice \<open>data[a : a+n]\<close>, and where appends put the pieces.\<close>

definition slice_of :: "nat \<Rightarrow> nat \<Rightarrow> 'a list \<Rightarrow> 'a list" where
  "slice_of a n xs = take n (drop a xs)"

lemma slice_of_append: "length xs = a \<Longrightarrow> length ys = n \<Longrightarrow> slice_of a n (xs @ ys @ zs) = ys"
  by (simp add: slice_of_def)

lemma slice_of_append2:
  "a + n \<le> length ys \<Longrightarrow> length xs = k \<Longrightarrow> slice_of (k + a) n (xs @ ys @ zs) = slice_of a n ys"
  by (simp add: slice_of_def)

lemma length_slice_of: "a + n \<le> length xs \<Longrightarrow> length (slice_of a n xs) = n"
  by (simp add: slice_of_def)

end
