(* ===== verification/Solana_Types.thy ===== *)
theory Solana_Types
  imports Prelude
begin

text \<open>
  The data that components exchange: instructions and account metas as the source builds
  them (\<open>solana.NewInstruction\<close>, \<open>solana.NewAccountMeta\<close>), the compiled instructions and
  inner instructions it reads from an RPC answer, the payload that validators sign
  (\<open>sendtx/data.go\<close>, \<open>wallet/token.go\<close>), and the program addresses that the source
  names. The structs of solana-go carry the fields the source uses.
\<close>

section \<open>Instructions\<close>

record AccountMeta =
  am_PublicKey :: PublicKey
  am_IsWritable :: bool
  am_IsSigner :: bool

definition NewAccountMeta :: "PublicKey \<Rightarrow> bool \<Rightarrow> bool \<Rightarrow> AccountMeta" where
  "NewAccountMeta k w s = \<lparr>am_PublicKey = k, am_IsWritable = w, am_IsSigner = s\<rparr>"

record Instruction =
  ix_ProgramID :: PublicKey
  ix_Accounts :: "AccountMeta list"
  ix_Data :: bytes

definition NewInstruction :: "PublicKey \<Rightarrow> AccountMeta list \<Rightarrow> bytes \<Rightarrow> Instruction" where
  "NewInstruction p as d = \<lparr>ix_ProgramID = p, ix_Accounts = as, ix_Data = d\<rparr>"

lemma NewInstruction_simps [simp]:
  "ix_ProgramID (NewInstruction p as d) = p"
  "ix_Accounts (NewInstruction p as d) = as"
  "ix_Data (NewInstruction p as d) = d"
  by (simp_all add: NewInstruction_def)

lemma NewAccountMeta_simps [simp]:
  "am_PublicKey (NewAccountMeta k w s) = k"
  "am_IsWritable (NewAccountMeta k w s) = w"
  "am_IsSigner (NewAccountMeta k w s) = s"
  by (simp_all add: NewAccountMeta_def)

text \<open>
  A compiled instruction names its program and its accounts by their index in the
  transaction's account keys. An inner instruction group holds the instructions that ran
  under the top-level instruction at \<open>ii_Index\<close>.
\<close>

record CompiledInstruction =
  ci_ProgramIDIndex :: u16
  ci_Accounts :: "u16 list"
  ci_Data :: bytes

record InnerInstruction =
  ii_Index :: u16
  ii_Instructions :: "CompiledInstruction list"

record LoadedAddresses =
  la_Writable :: "PublicKey list"
  la_ReadOnly :: "PublicKey list"

section \<open>The signed payload\<close>

record TokenAmount =
  ta_TokenID :: u16
  ta_Amount :: u64

record PayloadReceiver =
  pr_Address :: PublicKey
  pr_TokenAmount :: TokenAmount

record SolanaPayload =
  sp_Blockhash :: Hash
  sp_Receivers :: "PayloadReceiver list"
  sp_FeeAmount :: u64
  sp_BatchID :: u64

section \<open>Program addresses\<close>

text \<open>The values that the base58 strings of the source denote.\<close>

definition Ed25519ProgramID :: PublicKey where
  "Ed25519ProgramID = 0x37d46d67c93fbbe12f9428f838d40ff0570744927f48a64fcca704480000000"

definition NATIVE_SOL_MINT :: PublicKey where
  "NATIVE_SOL_MINT = 0"

end
