(* ===== verification/Ed25519_Batch.thy ===== *)
theory Ed25519_Batch
  imports Solana_Types
begin

text \<open>
  The batched Ed25519 verify instruction, from both sides: \<open>sendtx/tx_sender.go\<close> builds its
  data (\<open>buildBatchedEd25519Instruction\<close>), \<open>tracker/payload_parser.go\<close> reads the signed
  payload back out of it (\<open>ExtractSolanaPayloadFromEd25519\<close>). The lemmas give the layout
  byte for byte, what the reader accepts, and the round trip between the two.
\<close>

section \<open>The builder\<close>

definition current_instruction_index :: u16 where
  "current_instruction_index = 0xFFFF"

text \<open>
  One 14-byte offsets struct. The offsets are Go \<open>int\<close>s, written with \<open>uint16(x)\<close>,
  which keeps their low 16 bits.
\<close>

definition ed25519_offsets :: "nat \<Rightarrow> nat \<Rightarrow> nat \<Rightarrow> nat \<Rightarrow> bytes" where
  "ed25519_offsets signatureOffset publicKeyOffset sharedMsgOffset msgLen =
     le_bytes 2 (of_nat signatureOffset :: u16)
     @ le_bytes 2 current_instruction_index
     @ le_bytes 2 (of_nat publicKeyOffset :: u16)
     @ le_bytes 2 current_instruction_index
     @ le_bytes 2 (of_nat sharedMsgOffset :: u16)
     @ le_bytes 2 (of_nat msgLen :: u16)
     @ le_bytes 2 current_instruction_index"

text \<open>
  The loop over the signature pairs. The Go map is given as the list of its entries in the
  order the iteration visits them, which Go leaves open; \<open>data\<close> and \<open>payload\<close> are the
  two buffers it appends to.
\<close>

fun ed25519_loop ::
  "nat \<Rightarrow> nat \<Rightarrow> (PublicKey \<times> Signature) list \<Rightarrow> nat \<Rightarrow> bytes \<Rightarrow> bytes \<Rightarrow> bytes \<times> bytes" where
  "ed25519_loop sharedMsgOffset msgLen [] payloadOffset data payload = (data, payload)"
| "ed25519_loop sharedMsgOffset msgLen ((pubkey, signature) # rest) payloadOffset data payload =
     (let publicKeyOffset = payloadOffset;
          signatureOffset = publicKeyOffset + 32;
          offsets = ed25519_offsets signatureOffset publicKeyOffset sharedMsgOffset msgLen
      in ed25519_loop sharedMsgOffset msgLen rest (payloadOffset + (32 + 64))
           (data @ offsets) (payload @ key_bytes pubkey @ sig_bytes signature))"

definition buildBatchedEd25519Instruction ::
  "(PublicKey \<times> Signature) list \<Rightarrow> bytes \<Rightarrow> go_error + Instruction" where
  "buildBatchedEd25519Instruction signaturePairs payloadBytes =
     (let numSigs = length signaturePairs in
      if numSigs = 0 then Inl (Errorf STR ''no signature pairs provided'')
      else if numSigs > 255 then Inl (Errorf STR ''too many signature pairs: %d, max %d'')
      else if length payloadBytes = 0 then Inl (Errorf STR ''payload bytes is empty'')
      else
        (let baseOffset = 2 + numSigs * 14;
             pubkeySigSectionSize = numSigs * (32 + 64);
             sharedMsgOffset = baseOffset + pubkeySigSectionSize;
             (data, payload) =
               ed25519_loop sharedMsgOffset (length payloadBytes) signaturePairs baseOffset
                 [of_nat numSigs, 0] []
         in Inr (NewInstruction Ed25519ProgramID [] (data @ payload @ payloadBytes))))"

section \<open>The reader\<close>

text \<open>\<open>binary.LittleEndian.Uint16(data[off:])\<close>, read where the code has checked the range.\<close>

definition u16_at :: "bytes \<Rightarrow> nat \<Rightarrow> u16" where
  "u16_at data off = le_word (slice_of off 2 data)"

text \<open>
  The loop over the offsets entries. \<open>sharedMessage\<close> is nil until the first entry was
  read: a slice of the data is never nil, also when it is empty.
\<close>

fun ed25519_entries :: "bytes \<Rightarrow> u16 \<Rightarrow> nat list \<Rightarrow> bytes option \<Rightarrow> go_error + bytes option" where
  "ed25519_entries data ixIndex [] sharedMessage = Inr sharedMessage"
| "ed25519_entries data ixIndex (i # is) sharedMessage =
     (let entry = 2 + i * 14;
          isOwnInstruction = (\<lambda>idx. idx = current_instruction_index \<or> idx = ixIndex);
          field = (\<lambda>offset. u16_at data (entry + offset));
          sigOffset = unat (field 0);
          pubKeyOffset = unat (field 4);
          msgOffset = unat (field 8);
          msgSize = unat (field 10);
          message = slice_of msgOffset msgSize data
      in
      if entry + 14 > length data
      then Inl (Errorf STR ''ed25519 offsets entry %d exceeds data length %d'')
      else if \<not> isOwnInstruction (field 2) \<or> \<not> isOwnInstruction (field 6) \<or> \<not> isOwnInstruction (field 12)
      then Inl (Errorf STR ''ed25519 offsets entry %d references another instruction'')
      else if sigOffset + 64 > length data \<or> pubKeyOffset + 32 > length data
              \<or> msgOffset + msgSize > length data
      then Inl (Errorf STR ''ed25519 offsets entry %d points outside data length %d'')
      else
        (case sharedMessage of
           None \<Rightarrow> ed25519_entries data ixIndex is (Some message)
         | Some m \<Rightarrow>
             if m = message then ed25519_entries data ixIndex is (Some m)
             else Inl (Errorf STR ''ed25519 signature %d signs a different message than signature 0'')))"

text \<open>
  \<open>payload_Unmarshal\<close> is \<open>SolanaPayload.Unmarshal\<close>, which the third-party decoder
  \<open>gagliardetto/binary\<close> implements by reflection: a parameter.
\<close>

definition ExtractSolanaPayloadFromEd25519 ::
  "(bytes \<Rightarrow> go_error + SolanaPayload) \<Rightarrow> bytes \<Rightarrow> u16 \<Rightarrow> go_error + SolanaPayload" where
  "ExtractSolanaPayloadFromEd25519 payload_Unmarshal data ixIndex =
     (if length data < 2 then Inl (Errorf STR ''ed25519 data too short: got %d bytes'')
      else
        (let numSigs = unat (data ! 0) in
         if numSigs = 0 then Inl (Errorf STR ''ed25519 instruction has 0 signatures'')
         else
           (case ed25519_entries data ixIndex [0..<numSigs] None of
              Inl e \<Rightarrow> Inl e
            | Inr sharedMessage \<Rightarrow>
                (case payload_Unmarshal (case sharedMessage of None \<Rightarrow> [] | Some m \<Rightarrow> m) of
                   Inl e \<Rightarrow> Inl (wrapped STR ''failed to unmarshal SolanaPayload from ed25519 message: %w'' e)
                 | Inr payload \<Rightarrow> Inr payload))))"

section \<open>The layout the builder writes\<close>

lemma length_ed25519_offsets [simp]: "length (ed25519_offsets a b c d) = 14"
  by (simp add: ed25519_offsets_def)

definition offsets_section :: "nat \<Rightarrow> nat \<Rightarrow> nat \<Rightarrow> nat \<Rightarrow> bytes list" where
  "offsets_section sharedMsgOffset msgLen start n =
     map (\<lambda>i. ed25519_offsets (start + 96 * i + 32) (start + 96 * i) sharedMsgOffset msgLen) [0..<n]"

definition keysig_section :: "(PublicKey \<times> Signature) list \<Rightarrow> bytes list" where
  "keysig_section pairs = map (\<lambda>(k, s). key_bytes k @ sig_bytes s) pairs"

lemma offsets_section_Suc:
  "offsets_section smo ml start (Suc n) =
     ed25519_offsets (start + 32) start smo ml # offsets_section smo ml (start + 96) n"
  by (simp add: offsets_section_def map_upt_Suc add.assoc del: upt_Suc)

lemma ed25519_loop_eq:
  "ed25519_loop smo ml pairs start data payload =
     (data @ concat (offsets_section smo ml start (length pairs)), payload @ concat (keysig_section pairs))"
proof (induction pairs arbitrary: start data payload)
  case Nil
  then show ?case by (simp add: offsets_section_def keysig_section_def)
next
  case (Cons p pairs)
  then show ?case
    by (cases p) (simp add: Let_def offsets_section_Suc keysig_section_def add.commute)
qed

lemma u16_at_slice: "k + 2 \<le> n \<Longrightarrow> u16_at data (e + k) = u16_at (slice_of e n data) k"
  by (simp add: u16_at_def slice_of_def drop_take min_def add.commute)

lemma u16_at_first: "u16_at (le_bytes 2 w @ bs) 0 = (w :: u16)"
  by (simp add: u16_at_def slice_of_def le_word_le_bytes)

lemma u16_at_later: "2 \<le> k \<Longrightarrow> u16_at (le_bytes 2 w @ bs) k = u16_at bs (k - 2)"
  by (simp add: u16_at_def slice_of_def)

lemma u16_at_offsets:
  "u16_at (ed25519_offsets a b c d) 0 = of_nat a"
  "u16_at (ed25519_offsets a b c d) 2 = current_instruction_index"
  "u16_at (ed25519_offsets a b c d) 4 = of_nat b"
  "u16_at (ed25519_offsets a b c d) 6 = current_instruction_index"
  "u16_at (ed25519_offsets a b c d) 8 = of_nat c"
  "u16_at (ed25519_offsets a b c d) 10 = of_nat d"
  "u16_at (ed25519_offsets a b c d) 12 = current_instruction_index"
  by (simp_all add: ed25519_offsets_def u16_at_first u16_at_later
      u16_at_first [where bs = "[]", simplified])

lemma slice_of_concat:
  assumes "\<forall>x \<in> set xs. length x = c" "i < length xs"
  shows "slice_of (i * c) c (concat xs @ zs) = xs ! i"
  using assms
proof (induction xs arbitrary: i)
  case Nil
  then show ?case by simp
next
  case (Cons x xs)
  then show ?case
    by (cases i) (auto simp: slice_of_def)
qed

lemma length_concat_chunks: "\<forall>x \<in> set xs. length x = c \<Longrightarrow> length (concat xs) = length xs * c"
  by (induction xs) auto

lemma offsets_section_props:
  "length (offsets_section smo ml start n) = n"
  "\<forall>x \<in> set (offsets_section smo ml start n). length x = 14"
  by (auto simp: offsets_section_def)

lemma keysig_section_props:
  "length (keysig_section pairs) = length pairs"
  "\<forall>x \<in> set (keysig_section pairs). length x = 96"
  by (auto simp: keysig_section_def)

lemma length_sections [simp]:
  "length (concat (offsets_section smo ml start n)) = 14 * n"
  "length (concat (keysig_section pairs)) = 96 * length pairs"
  by (simp_all add: length_concat_chunks [OF offsets_section_props(2)] offsets_section_props(1)
      length_concat_chunks [OF keysig_section_props(2)] keysig_section_props(1))

text \<open>The whole data of the instruction built for \<open>n\<close> pairs and the message \<open>m\<close>.\<close>

definition batch_data :: "(PublicKey \<times> Signature) list \<Rightarrow> bytes \<Rightarrow> bytes" where
  "batch_data pairs m =
     (let n = length pairs in
      [of_nat n, 0]
      @ concat (offsets_section (2 + n * 14 + n * 96) (length m) (2 + n * 14) n)
      @ concat (keysig_section pairs) @ m)"

lemma build_Inr_iff:
  "buildBatchedEd25519Instruction pairs m = Inr ix \<longleftrightarrow>
     0 < length pairs \<and> length pairs \<le> 255 \<and> m \<noteq> [] \<and>
     ix = NewInstruction Ed25519ProgramID [] (batch_data pairs m)"
  by (auto simp: buildBatchedEd25519Instruction_def Let_def ed25519_loop_eq batch_data_def)

lemma length_batch_data: "length (batch_data pairs m) = 2 + 110 * length pairs + length m"
  by (simp add: batch_data_def Let_def)

lemma batch_data_offsets:
  assumes "i < length pairs"
  shows "slice_of (2 + i * 14) 14 (batch_data pairs m) =
    ed25519_offsets (2 + length pairs * 14 + 96 * i + 32) (2 + length pairs * 14 + 96 * i)
      (2 + 110 * length pairs) (length m)"
proof -
  let ?n = "length pairs"
  let ?os = "offsets_section (2 + ?n * 14 + ?n * 96) (length m) (2 + ?n * 14) ?n"
  have "slice_of (2 + i * 14) 14 (batch_data pairs m)
      = slice_of (i * 14) 14 (concat ?os @ concat (keysig_section pairs) @ m)"
    by (simp add: batch_data_def Let_def slice_of_def)
  also have "\<dots> = ?os ! i"
    using assms by (intro slice_of_concat) (auto simp: offsets_section_def)
  also have "\<dots> = ed25519_offsets (2 + ?n * 14 + 96 * i + 32) (2 + ?n * 14 + 96 * i)
      (2 + 110 * ?n) (length m)"
    using assms by (simp add: offsets_section_def)
  finally show ?thesis .
qed

lemma batch_data_keysig:
  assumes "i < length pairs"
  shows "slice_of (2 + length pairs * 14 + i * 96) 96 (batch_data pairs m) =
    key_bytes (fst (pairs ! i)) @ sig_bytes (snd (pairs ! i))"
proof -
  let ?n = "length pairs"
  let ?os = "offsets_section (2 + ?n * 14 + ?n * 96) (length m) (2 + ?n * 14) ?n"
  have "slice_of (2 + ?n * 14 + i * 96) 96 (batch_data pairs m)
      = slice_of (i * 96) 96 (concat (keysig_section pairs) @ m)"
    by (simp add: batch_data_def Let_def slice_of_def add.commute)
  also have "\<dots> = keysig_section pairs ! i"
    using assms by (intro slice_of_concat) (auto simp: keysig_section_def)
  also have "\<dots> = key_bytes (fst (pairs ! i)) @ sig_bytes (snd (pairs ! i))"
    using assms by (simp add: keysig_section_def split: prod.splits)
  finally show ?thesis .
qed

lemma batch_data_message:
  assumes "k \<le> length m"
  shows "slice_of (2 + 110 * length pairs) k (batch_data pairs m) = take k m"
  by (simp add: batch_data_def Let_def slice_of_def)

lemma batch_data_count: "length pairs \<le> 255 \<Longrightarrow> unat (batch_data pairs m ! 0) = length pairs"
  by (simp add: batch_data_def Let_def unat_of_nat)

section \<open>What the reader accepts\<close>

text \<open>
  The rule for one entry, as the program's \<open>parse_ed25519_batch\<close> has it: all three
  references name this instruction, all three ranges lie in the data, and the message is
  \<open>m\<close>.
\<close>

definition ed25519_entry_ok :: "bytes \<Rightarrow> u16 \<Rightarrow> nat \<Rightarrow> bytes \<Rightarrow> bool" where
  "ed25519_entry_ok data ixIndex i m \<longleftrightarrow>
     2 + i * 14 + 14 \<le> length data \<and>
     (\<forall>f \<in> {2, 6, 12}. u16_at data (2 + i * 14 + f) \<in> {0xFFFF, ixIndex}) \<and>
     unat (u16_at data (2 + i * 14)) + 64 \<le> length data \<and>
     unat (u16_at data (2 + i * 14 + 4)) + 32 \<le> length data \<and>
     unat (u16_at data (2 + i * 14 + 8)) + unat (u16_at data (2 + i * 14 + 10)) \<le> length data \<and>
     m = slice_of (unat (u16_at data (2 + i * 14 + 8))) (unat (u16_at data (2 + i * 14 + 10))) data"

lemma ed25519_entries_Some_iff:
  "ed25519_entries data ixIndex is (Some m) = Inr r \<longleftrightarrow>
     r = Some m \<and> (\<forall>i \<in> set is. ed25519_entry_ok data ixIndex i m)"
proof (induction "is")
  case Nil
  then show ?case by auto
next
  case (Cons i "is")
  then show ?case
    by (auto simp: Let_def ed25519_entry_ok_def current_instruction_index_def)
qed

lemma ed25519_entries_None_iff:
  "ed25519_entries data ixIndex (i # is) None = Inr r \<longleftrightarrow>
     (\<exists>m. r = Some m \<and> (\<forall>j \<in> set (i # is). ed25519_entry_ok data ixIndex j m))"
  by (auto simp: Let_def ed25519_entries_Some_iff ed25519_entry_ok_def current_instruction_index_def)

lemma ed25519_entries_all_iff:
  assumes "0 < n"
  shows "ed25519_entries data ixIndex [0..<n] None = Inr r \<longleftrightarrow>
     (\<exists>m. r = Some m \<and> (\<forall>i < n. ed25519_entry_ok data ixIndex i m))"
proof -
  have "[0..<n] = 0 # [1..<n]" using assms by (simp add: upt_conv_Cons)
  moreover have "set (0 # [1..<n]) = {..<n}" using assms by auto
  ultimately show ?thesis by (simp only: ed25519_entries_None_iff) auto
qed

lemma ed25519_entry_ok_unique:
  "ed25519_entry_ok data ixIndex i m \<Longrightarrow> ed25519_entry_ok data ixIndex i m' \<Longrightarrow> m = m'"
  by (simp add: ed25519_entry_ok_def)

lemma extract_Inr_iff:
  "ExtractSolanaPayloadFromEd25519 dec data ixIndex = Inr p \<longleftrightarrow>
     2 \<le> length data \<and> 0 < unat (data ! 0) \<and>
     (\<exists>m. (\<forall>i < unat (data ! 0). ed25519_entry_ok data ixIndex i m) \<and> dec m = Inr p)"
proof (cases "2 \<le> length data \<and> 0 < unat (data ! 0)")
  case False
  then show ?thesis
    by (auto simp: ExtractSolanaPayloadFromEd25519_def Let_def)
next
  case True
  let ?E = "ed25519_entries data ixIndex [0..<unat (data ! 0)] None"
  let ?ok = "\<lambda>m. \<forall>i < unat (data ! 0). ed25519_entry_ok data ixIndex i m"
  have iff: "?E = Inr r \<longleftrightarrow> (\<exists>m. r = Some m \<and> ?ok m)" for r
    using True by (intro ed25519_entries_all_iff) simp
  have unique: "?ok m \<Longrightarrow> ?ok m' \<Longrightarrow> m = m'" for m m'
    using True ed25519_entry_ok_unique by blast
  have "?E \<noteq> Inr None" using iff [of None] by simp
  then have "ExtractSolanaPayloadFromEd25519 dec data ixIndex = Inr p \<longleftrightarrow>
      (\<exists>m. ?E = Inr (Some m) \<and> dec m = Inr p)"
    using True
    by (cases ?E) (auto simp: ExtractSolanaPayloadFromEd25519_def Let_def split: sum.splits)
  then show ?thesis using True iff by auto
qed

lemma extract_all_ok:
  assumes "2 \<le> length data" "0 < unat (data ! 0)"
    and "\<forall>i < unat (data ! 0). ed25519_entry_ok data ixIndex i m"
  shows "ExtractSolanaPayloadFromEd25519 dec data ixIndex =
    (case dec m of
       Inl e \<Rightarrow> Inl (wrapped STR ''failed to unmarshal SolanaPayload from ed25519 message: %w'' e)
     | Inr p \<Rightarrow> Inr p)"
proof -
  have "ed25519_entries data ixIndex [0..<unat (data ! 0)] None = Inr (Some m)"
    using assms ed25519_entries_all_iff [OF assms(2)] by blast
  with assms(1,2) show ?thesis
    by (simp add: ExtractSolanaPayloadFromEd25519_def Let_def)
qed

section \<open>The round trip\<close>

lemma unat_of_nat_u16: "unat (of_nat n :: u16) = n mod 65536"
  by (simp add: unat_of_nat)

text \<open>The seven fields of the offsets entry \<open>i\<close>, at \<open>e\<close>.\<close>

lemma batch_data_fields:
  assumes "i < length pairs" "length pairs \<le> 255" and e: "e = 2 + i * 14"
  shows "unat (u16_at (batch_data pairs m) e) = 2 + length pairs * 14 + i * 96 + 32"
    and "u16_at (batch_data pairs m) (e + 2) = current_instruction_index"
    and "unat (u16_at (batch_data pairs m) (e + 4)) = 2 + length pairs * 14 + i * 96"
    and "u16_at (batch_data pairs m) (e + 6) = current_instruction_index"
    and "unat (u16_at (batch_data pairs m) (e + 8)) = 2 + 110 * length pairs"
    and "unat (u16_at (batch_data pairs m) (e + 10)) = length m mod 65536"
    and "u16_at (batch_data pairs m) (e + 12) = current_instruction_index"
proof -
  define a b c where "a = 2 + length pairs * 14 + i * 96 + 32"
    and "b = 2 + length pairs * 14 + i * 96" and "c = 2 + 110 * length pairs"
  have bounds: "a < 65536" "b < 65536" "c < 65536"
    using assms(1,2) unfolding a_def b_def c_def by linarith+
  have field: "u16_at (batch_data pairs m) (e + k) = u16_at (ed25519_offsets a b c (length m)) k"
    if "k + 2 \<le> 14" for k
  proof -
    have "slice_of e 14 (batch_data pairs m) = ed25519_offsets a b c (length m)"
      using batch_data_offsets [OF assms(1), of m] by (simp add: a_def b_def c_def e mult.commute)
    then show ?thesis using u16_at_slice [OF that, of "batch_data pairs m" e] by simp
  qed
  show "unat (u16_at (batch_data pairs m) e) = 2 + length pairs * 14 + i * 96 + 32"
    unfolding a_def [symmetric] using field [of 0] bounds by (simp add: u16_at_offsets unat_of_nat_u16)
  show "unat (u16_at (batch_data pairs m) (e + 4)) = 2 + length pairs * 14 + i * 96"
    unfolding b_def [symmetric] using field [of 4] bounds by (simp add: u16_at_offsets unat_of_nat_u16)
  show "unat (u16_at (batch_data pairs m) (e + 8)) = 2 + 110 * length pairs"
    unfolding c_def [symmetric] using field [of 8] bounds by (simp add: u16_at_offsets unat_of_nat_u16)
  show "unat (u16_at (batch_data pairs m) (e + 10)) = length m mod 65536"
    by (simp add: field u16_at_offsets unat_of_nat_u16)
  show "u16_at (batch_data pairs m) (e + 2) = current_instruction_index"
    "u16_at (batch_data pairs m) (e + 6) = current_instruction_index"
    "u16_at (batch_data pairs m) (e + 12) = current_instruction_index"
    using field [of 2] field [of 6] field [of 12] by (simp_all add: u16_at_offsets)
qed

lemma batch_data_entry_ok:
  assumes "i < length pairs" "length pairs \<le> 255"
  shows "ed25519_entry_ok (batch_data pairs m) ixIndex i (take (length m mod 65536) m)"
proof -
  define e where "e = 2 + i * 14"
  note fields = batch_data_fields [OF assms e_def, of m]
  have len: "length (batch_data pairs m) = 2 + 110 * length pairs + length m"
    by (rule length_batch_data)
  have "length m mod 65536 \<le> length m" by simp
  then have msg: "slice_of (2 + 110 * length pairs) (length m mod 65536) (batch_data pairs m) = take (length m mod 65536) m"
    by (rule batch_data_message)
  have "e + 14 \<le> 2 + 110 * length pairs" "2 + length pairs * 14 + i * 96 + 96 \<le> 2 + 110 * length pairs"
    using assms(1) unfolding e_def by linarith+
  moreover have "\<forall>f \<in> {2, 6, 12}. u16_at (batch_data pairs m) (e + f) \<in> {0xFFFF, ixIndex}"
    using fields(2,4,7) unfolding current_instruction_index_def by blast
  ultimately show ?thesis
    unfolding ed25519_entry_ok_def e_def [symmetric] fields len msg by simp
qed

lemma extract_of_build:
  assumes "buildBatchedEd25519Instruction pairs m = Inr ix"
  shows "ExtractSolanaPayloadFromEd25519 dec (ix_Data ix) ixIndex =
    (case dec (take (length m mod 65536) m) of
       Inl e \<Rightarrow> Inl (wrapped STR ''failed to unmarshal SolanaPayload from ed25519 message: %w'' e)
     | Inr p \<Rightarrow> Inr p)"
proof -
  from assms have n: "0 < length pairs" "length pairs \<le> 255" and ix: "ix_Data ix = batch_data pairs m"
    by (auto simp: build_Inr_iff)
  show ?thesis
    unfolding ix using n
    by (intro extract_all_ok) (auto simp: batch_data_count length_batch_data intro!: batch_data_entry_ok)
qed

text \<open>
  C24. Round trip between the two packages: whatever Ed25519 instruction the sender builds for
  a message of at most 65535 bytes (a transaction holds far less), the tracker's parser
  accepts at every instruction index and decodes exactly that message.
\<close>

theorem ed25519_build_extract:
  assumes "buildBatchedEd25519Instruction pairs m = Inr ix" and "length m < 65536"
    and "dec m = Inr p"
  shows "ExtractSolanaPayloadFromEd25519 dec (ix_Data ix) ixIndex = Inr p"
  using extract_of_build [OF assms(1), of dec ixIndex] assms(2,3) by simp

definition sample_payload :: SolanaPayload where
  "sample_payload = \<lparr>sp_Blockhash = 5, sp_Receivers = [], sp_FeeAmount = 1, sp_BatchID = 9\<rparr>"

theorem ed25519_build_extract_witness:
  "ExtractSolanaPayloadFromEd25519 (\<lambda>bs. if bs = [7, 8] then Inr sample_payload else Inl CtxDone)
     (batch_data [(1, 2), (3, 4)] [7, 8]) 3 = Inr sample_payload"
  using ed25519_build_extract [of "[(1, 2), (3, 4)]" "[7, 8]"
      "NewInstruction Ed25519ProgramID [] (batch_data [(1, 2), (3, 4)] [7, 8])"
      "\<lambda>bs. if bs = [7, 8] then Inr sample_payload else Inl CtxDone" sample_payload 3]
  by (simp add: build_Inr_iff)

text \<open>
  C23. The parser returns a payload exactly when the data has a positive signature count and
  there is one message that every offsets entry names, with all three references to this
  instruction and all three ranges inside the data, and that message decodes to the payload:
  no entry can point into another instruction or outside the data.
\<close>

theorem ed25519_extract_accepts_iff:
  "ExtractSolanaPayloadFromEd25519 dec data ixIndex = Inr p \<longleftrightarrow>
     2 \<le> length data \<and> 0 < unat (data ! 0) \<and>
     (\<exists>m. (\<forall>i < unat (data ! 0). ed25519_entry_ok data ixIndex i m) \<and> dec m = Inr p)"
  by (rule extract_Inr_iff)

theorem ed25519_extract_accepts_iff_witness:
  "\<exists>m. ed25519_entry_ok (batch_data [(1, 2)] [7]) 3 0 m"
proof -
  have "ExtractSolanaPayloadFromEd25519 (\<lambda>_. Inr sample_payload) (batch_data [(1, 2)] [7]) 3 = Inr sample_payload"
    using extract_of_build [of "[(1, 2)]" "[7]"] by (auto simp: build_Inr_iff)
  then show ?thesis
    using ed25519_extract_accepts_iff [of "\<lambda>_. Inr sample_payload" "batch_data [(1, 2)] [7]" 3 sample_payload]
    by auto
qed

text \<open>
  Every public key and signature lies where its offsets entry says, in the order the
  pairs were visited, so the runtime verifies exactly the pairs that were passed in.
\<close>

theorem ed25519_build_layout:
  assumes "buildBatchedEd25519Instruction pairs m = Inr ix" and "i < length pairs"
  shows "slice_of (unat (u16_at (ix_Data ix) (2 + i * 14 + 4))) 32 (ix_Data ix) = key_bytes (fst (pairs ! i))
    \<and> slice_of (unat (u16_at (ix_Data ix) (2 + i * 14))) 64 (ix_Data ix) = sig_bytes (snd (pairs ! i))
    \<and> unat (ix_Data ix ! 0) = length pairs"
proof (intro conjI)
  let ?d = "batch_data pairs m" and ?n = "length pairs"
  from assms have n: "?n \<le> 255" and ix: "ix_Data ix = ?d"
    by (auto simp: build_Inr_iff)
  define e k where "e = 2 + i * 14" and "k = 2 + ?n * 14 + i * 96"
  have slice: "slice_of (k + j) l ?d = slice_of j l (slice_of k 96 ?d)" if "j + l \<le> 96" for j l
    using that by (simp add: slice_of_def drop_take min_def add.commute)
  have ks: "slice_of k 96 ?d = key_bytes (fst (pairs ! i)) @ sig_bytes (snd (pairs ! i))"
    unfolding k_def by (rule batch_data_keysig [OF assms(2)])
  note fields = batch_data_fields [OF assms(2) n e_def, of m, folded k_def]
  show "slice_of (unat (u16_at (ix_Data ix) (2 + i * 14 + 4))) 32 (ix_Data ix) = key_bytes (fst (pairs ! i))"
    unfolding ix e_def [symmetric] fields using slice [of 0 32] by (simp add: ks) (simp add: slice_of_def)
  show "slice_of (unat (u16_at (ix_Data ix) (2 + i * 14))) 64 (ix_Data ix) = sig_bytes (snd (pairs ! i))"
    unfolding ix e_def [symmetric] fields using slice [of 32 64] by (simp add: ks) (simp add: slice_of_def)
  show "unat (ix_Data ix ! 0) = length pairs"
    using n by (simp add: ix batch_data_count)
qed

theorem ed25519_build_layout_witness:
  "slice_of (unat (u16_at (batch_data [(1, 2)] [7]) 6)) 32 (batch_data [(1, 2)] [7]) = key_bytes 1"
  using ed25519_build_layout [of "[(1, 2)]" "[7]" "NewInstruction Ed25519ProgramID [] (batch_data [(1, 2)] [7])" 0]
  by (simp add: build_Inr_iff)

text \<open>
  The message length is written as a \<open>uint16\<close> without a check, so of a longer message
  the parser reads back only the first \<open>length m mod 65536\<close> bytes: that, and nothing else,
  is what the sender and the tracker agree on for every message.
\<close>

theorem ed25519_oversized_message:
  assumes "buildBatchedEd25519Instruction pairs m = Inr ix"
    and "dec (take (length m mod 65536) m) = Inr p"
  shows "ExtractSolanaPayloadFromEd25519 dec (ix_Data ix) ixIndex = Inr p"
  using extract_of_build [OF assms(1), of dec ixIndex] assms(2) by simp

theorem ed25519_oversized_message_witness:
  "ExtractSolanaPayloadFromEd25519 (\<lambda>bs. if bs = [7] then Inr sample_payload else Inl CtxDone)
     (batch_data [(1, 2)] (7 # replicate 65536 0)) 0 = Inr sample_payload"
proof -
  have "take (length (7 # replicate 65536 (0 :: byte)) mod 65536) (7 # replicate 65536 0) = [7]"
    by simp
  then show ?thesis
    using ed25519_oversized_message [of "[(1, 2)]" "7 # replicate 65536 0"
        "NewInstruction Ed25519ProgramID [] (batch_data [(1, 2)] (7 # replicate 65536 0))"
        "\<lambda>bs. if bs = [7] then Inr sample_payload else Inl CtxDone" sample_payload 0]
    by (simp add: build_Inr_iff)
qed

end
