(* ===== verification/Cpi_Events.thy ===== *)
theory Cpi_Events
  imports Ed25519_Batch
begin

text \<open>
  \<open>tracker/cpi_events.go\<close> and \<open>instructionProgramEquals\<close> of
  \<open>tracker/payload_parser.go\<close>: reading the events a transaction emitted with
  \<open>emit_cpi!\<close> out of its inner instructions, and the payload of the batch that a
  top-level instruction executed. The lemmas say exactly which inner instructions count as
  events and which Ed25519 instruction supplies the payload.
\<close>

section \<open>Events in the inner instructions\<close>

definition eventAuthoritySeed :: bytes where
  "eventAuthoritySeed = str_bytes ''__event_authority''"

definition eventIxTagLE :: bytes where
  "eventIxTagLE = le_bytes 8 (0x1d9acb512ea545e4 :: u64)"

text \<open>
  \<open>FindProgramAddress\<close> is solana-go's derivation of a program address and its bump from
  seeds and a program: a parameter wherever it is used.
\<close>

definition deriveEventAuthority ::
  "(bytes list \<Rightarrow> PublicKey \<Rightarrow> go_error + PublicKey \<times> byte) \<Rightarrow> PublicKey \<Rightarrow> go_error + PublicKey" where
  "deriveEventAuthority FindProgramAddress programID =
     (case FindProgramAddress [eventAuthoritySeed] programID of
        Inl e \<Rightarrow> Inl (wrapped STR ''failed to derive event authority PDA for %s: %w'' e)
      | Inr (pda, _) \<Rightarrow> Inr pda)"

definition transactionAccountKeys :: "PublicKey list \<Rightarrow> LoadedAddresses \<Rightarrow> PublicKey list" where
  "transactionAccountKeys staticKeys loaded = staticKeys @ la_Writable loaded @ la_ReadOnly loaded"

record emittedEvent =
  ee_programID :: PublicKey
  ee_data :: bytes
  ee_topLevelIndex :: int

text \<open>The inner loop, over the instructions of one group, and the loop over the groups.\<close>

fun cpi_instructions ::
  "PublicKey list \<Rightarrow> (PublicKey \<Rightarrow> PublicKey option) \<Rightarrow> u16 \<Rightarrow> CompiledInstruction list \<Rightarrow>
   emittedEvent list \<Rightarrow> emittedEvent list" where
  "cpi_instructions keys eventAuthorityOf groupIndex [] events = events"
| "cpi_instructions keys eventAuthorityOf groupIndex (ix # ixs) events =
     (if unat (ci_ProgramIDIndex ix) \<ge> length keys
      then cpi_instructions keys eventAuthorityOf groupIndex ixs events
      else
        (let programID = keys ! unat (ci_ProgramIDIndex ix) in
         case eventAuthorityOf programID of
           None \<Rightarrow> cpi_instructions keys eventAuthorityOf groupIndex ixs events
         | Some eventAuthority \<Rightarrow>
             (let data = ci_Data ix in
              if length data \<le> length eventIxTagLE \<or> take (length eventIxTagLE) data \<noteq> eventIxTagLE
              then cpi_instructions keys eventAuthorityOf groupIndex ixs events
              else if ci_Accounts ix = [] \<or> unat (ci_Accounts ix ! 0) \<ge> length keys
                      \<or> keys ! unat (ci_Accounts ix ! 0) \<noteq> eventAuthority
              then cpi_instructions keys eventAuthorityOf groupIndex ixs events
              else cpi_instructions keys eventAuthorityOf groupIndex ixs
                     (events @ [\<lparr>ee_programID = programID,
                                 ee_data = drop (length eventIxTagLE) data,
                                 ee_topLevelIndex = uint groupIndex\<rparr>]))))"

fun cpi_groups ::
  "InnerInstruction list \<Rightarrow> PublicKey list \<Rightarrow> (PublicKey \<Rightarrow> PublicKey option) \<Rightarrow>
   emittedEvent list \<Rightarrow> emittedEvent list" where
  "cpi_groups [] keys eventAuthorityOf events = events"
| "cpi_groups (grp # groups) keys eventAuthorityOf events =
     cpi_groups groups keys eventAuthorityOf
       (cpi_instructions keys eventAuthorityOf (ii_Index grp) (ii_Instructions grp) events)"

definition collectCPIEvents ::
  "InnerInstruction list \<Rightarrow> PublicKey list \<Rightarrow> (PublicKey \<Rightarrow> PublicKey option) \<Rightarrow> emittedEvent list" where
  "collectCPIEvents innerInstructions keys eventAuthorityOf =
     cpi_groups innerInstructions keys eventAuthorityOf []"

section \<open>The payload of an executed batch\<close>

definition instructionProgramEquals ::
  "CompiledInstruction list \<Rightarrow> PublicKey list \<Rightarrow> int \<Rightarrow> PublicKey \<Rightarrow> bool" where
  "instructionProgramEquals instructions accountKeys idx programID =
     (if idx < 0 \<or> idx \<ge> int (length instructions) then False
      else
        (let ix = instructions ! nat idx in
         if unat (ci_ProgramIDIndex ix) \<ge> length accountKeys then False
         else accountKeys ! unat (ci_ProgramIDIndex ix) = programID))"

fun find_adjacent ::
  "(bytes \<Rightarrow> go_error + SolanaPayload) \<Rightarrow> CompiledInstruction list \<Rightarrow> PublicKey list \<Rightarrow> u64 \<Rightarrow>
   int list \<Rightarrow> go_error + SolanaPayload" where
  "find_adjacent payload_Unmarshal instructions keys eventBatchID [] =
     Inl (Errorf STR ''no ed25519 instruction adjacent to instruction %d'')"
| "find_adjacent payload_Unmarshal instructions keys eventBatchID (adjacent # rest) =
     (if \<not> instructionProgramEquals instructions keys adjacent Ed25519ProgramID
      then find_adjacent payload_Unmarshal instructions keys eventBatchID rest
      else
        (case ExtractSolanaPayloadFromEd25519 payload_Unmarshal (ci_Data (instructions ! nat adjacent))
                (of_int adjacent) of
           Inl e \<Rightarrow> Inl (wrapped STR ''failed to extract batch payload from ed25519 instruction %d: %w'' e)
         | Inr payload \<Rightarrow>
             if sp_BatchID payload \<noteq> eventBatchID
             then Inl (Errorf STR ''ed25519 instruction %d carries batch id %d, event reports %d'')
             else Inr payload))"

definition findBatchPayloadAtInstruction ::
  "(bytes \<Rightarrow> go_error + SolanaPayload) \<Rightarrow> CompiledInstruction list \<Rightarrow> PublicKey list \<Rightarrow> int \<Rightarrow> u64 \<Rightarrow>
   go_error + SolanaPayload" where
  "findBatchPayloadAtInstruction payload_Unmarshal instructions keys topLevelIndex eventBatchID =
     (if topLevelIndex < 0 \<or> topLevelIndex \<ge> int (length instructions)
      then Inl (Errorf STR ''event instruction index %d out of range (%d instructions)'')
      else find_adjacent payload_Unmarshal instructions keys eventBatchID
             [topLevelIndex - 1, topLevelIndex + 1])"

section \<open>Which inner instructions are events\<close>

text \<open>
  The shape of an \<open>emit_cpi!\<close> self-CPI: the instruction invokes a tracked program, its
  first account is that program's event authority, and its data is the event tag followed
  by at least one byte.
\<close>

definition is_event_cpi ::
  "PublicKey list \<Rightarrow> (PublicKey \<Rightarrow> PublicKey option) \<Rightarrow> CompiledInstruction \<Rightarrow> bool" where
  "is_event_cpi keys eventAuthorityOf ix \<longleftrightarrow>
     unat (ci_ProgramIDIndex ix) < length keys \<and>
     (case ci_Accounts ix of
        [] \<Rightarrow> False
      | a # _ \<Rightarrow> unat a < length keys \<and>
          eventAuthorityOf (keys ! unat (ci_ProgramIDIndex ix)) = Some (keys ! unat a)) \<and>
     8 < length (ci_Data ix) \<and> take 8 (ci_Data ix) = eventIxTagLE"

definition event_of_cpi :: "PublicKey list \<Rightarrow> u16 \<Rightarrow> CompiledInstruction \<Rightarrow> emittedEvent" where
  "event_of_cpi keys groupIndex ix =
     \<lparr>ee_programID = keys ! unat (ci_ProgramIDIndex ix), ee_data = drop 8 (ci_Data ix),
      ee_topLevelIndex = uint groupIndex\<rparr>"

lemma length_eventIxTagLE [simp]: "length eventIxTagLE = 8"
  by (simp add: eventIxTagLE_def)

lemma cpi_instructions_eq:
  "cpi_instructions keys auth g ixs events =
     events @ map (event_of_cpi keys g) (filter (is_event_cpi keys auth) ixs)"
proof (induction ixs arbitrary: events)
  case Nil
  then show ?case by simp
next
  case (Cons ix ixs)
  then show ?case
    by (cases "ci_Accounts ix")
      (auto simp: is_event_cpi_def event_of_cpi_def Let_def split: option.splits)
qed

lemma cpi_groups_eq:
  "cpi_groups groups keys auth events =
     events @ concat (map (\<lambda>g. map (event_of_cpi keys (ii_Index g))
                               (filter (is_event_cpi keys auth) (ii_Instructions g))) groups)"
  by (induction groups arbitrary: events) (simp_all add: cpi_instructions_eq)

text \<open>
  C16. The events read from a transaction are exactly the inner instructions of the
  \<open>emit_cpi!\<close> shape, in the order the transaction executed them, each under the top-level
  instruction it ran under: none is missed, none is invented and none is counted twice.
\<close>

theorem collectCPIEvents_eq:
  "collectCPIEvents groups keys auth =
     concat (map (\<lambda>g. map (event_of_cpi keys (ii_Index g))
                          (filter (is_event_cpi keys auth) (ii_Instructions g))) groups)"
  by (simp add: collectCPIEvents_def cpi_groups_eq)

lemma set_collectCPIEvents:
  "e \<in> set (collectCPIEvents groups keys auth) \<longleftrightarrow>
     (\<exists>g \<in> set groups. \<exists>ix \<in> set (ii_Instructions g).
        is_event_cpi keys auth ix \<and> e = event_of_cpi keys (ii_Index g) ix)"
  by (auto simp: collectCPIEvents_def cpi_groups_eq)

section \<open>Which Ed25519 instruction supplies the payload\<close>

lemma find_adjacent_Inr_iff:
  "find_adjacent dec ins keys b [i, j] = Inr p \<longleftrightarrow>
     (\<exists>k. (if instructionProgramEquals ins keys i Ed25519ProgramID then k = i
           else k = j \<and> instructionProgramEquals ins keys j Ed25519ProgramID) \<and>
          ExtractSolanaPayloadFromEd25519 dec (ci_Data (ins ! nat k)) (of_int k) = Inr p \<and>
          sp_BatchID p = b)"
  by (auto split: sum.splits if_splits)

text \<open>
  C26. The payload that is attributed to an event comes from the Ed25519 instruction right
  before the event's top-level instruction if there is one, and only otherwise from the one
  right after it, and it carries the event's batch id. An Ed25519 instruction anywhere else
  in the transaction, or one whose batch id differs, is never used; and a bad one right
  before is an error, it does not make the one after count.
\<close>

theorem findBatchPayload_iff:
  "findBatchPayloadAtInstruction dec ins keys t b = Inr p \<longleftrightarrow>
     0 \<le> t \<and> t < int (length ins) \<and> sp_BatchID p = b \<and>
     (if instructionProgramEquals ins keys (t - 1) Ed25519ProgramID
      then ExtractSolanaPayloadFromEd25519 dec (ci_Data (ins ! nat (t - 1))) (of_int (t - 1)) = Inr p
      else instructionProgramEquals ins keys (t + 1) Ed25519ProgramID \<and>
        ExtractSolanaPayloadFromEd25519 dec (ci_Data (ins ! nat (t + 1))) (of_int (t + 1)) = Inr p)"
  by (auto simp: findBatchPayloadAtInstruction_def find_adjacent_Inr_iff simp del: find_adjacent.simps)

lemma findBatchPayload_built:
  assumes "buildBatchedEd25519Instruction pairs m = Inr ed" "length m < 65536"
    and "dec m = Inr p"
    and "Suc i < length ins" "ci_Data (ins ! i) = ix_Data ed"
    and "unat (ci_ProgramIDIndex (ins ! i)) < length keys"
    and "keys ! unat (ci_ProgramIDIndex (ins ! i)) = Ed25519ProgramID"
  shows "findBatchPayloadAtInstruction dec ins keys (int (Suc i)) (sp_BatchID p) = Inr p"
proof -
  have "instructionProgramEquals ins keys (int i) Ed25519ProgramID"
    using assms by (simp add: instructionProgramEquals_def)
  moreover have "ExtractSolanaPayloadFromEd25519 dec (ix_Data ed) w = Inr p" for w
    using extract_of_build [OF assms(1), of dec w] assms(2,3) by simp
  ultimately show ?thesis
    using assms(4,5) by (simp add: findBatchPayloadAtInstruction_def)
qed

end
