(* ===== verification/Slot_Selection.thy ===== *)
theory Slot_Selection
  imports Prelude "HOL-Library.Sublist"
begin

text \<open>
  The two pure helpers of the chain-head refresher in \<open>tracker/tracker.go\<close>: which of the
  slots with blocks are fetched and stored (\<open>getSlotsToQueryBlocks\<close>), and how long to wait
  when the chain head was reached (\<open>chainHeadCatchUpWait\<close>), with its float64 arithmetic.
\<close>

section \<open>Which slots are fetched\<close>

text \<open>The loop over the slots; slot \<open>i + 1\<close> is looked at for slot \<open>i\<close>.\<close>

fun slots_loop :: "u64 \<Rightarrow> u64 list \<Rightarrow> u64 list" where
  "slots_loop threshold [] = []"
| "slots_loop threshold [x] = (if x mod threshold = 0 then [x] else [])"
| "slots_loop threshold (x # y # rest) =
     (if x mod threshold = 0 then x # slots_loop threshold (y # rest)
      else if y div threshold \<noteq> x div threshold \<and> y mod threshold \<noteq> 0
      then x # slots_loop threshold (y # rest)
      else slots_loop threshold (y # rest))"

text \<open>Go panics on a division by a zero threshold, which \<open>NewEventTracker\<close> never sets.\<close>

definition getSlotsToQueryBlocks :: "u64 list \<Rightarrow> u64 \<Rightarrow> go_error + u64 list" where
  "getSlotsToQueryBlocks slotsWithBlocks threshold =
     (if threshold = 0 \<and> slotsWithBlocks \<noteq> [] then Inl (GoPanic STR ''integer divide by zero'')
      else Inr (slots_loop threshold slotsWithBlocks))"

definition selected_before :: "u64 \<Rightarrow> u64 \<Rightarrow> u64 \<Rightarrow> bool" where
  "selected_before t x y \<longleftrightarrow> x mod t = 0 \<or> y div t \<noteq> x div t \<and> y mod t \<noteq> 0"

lemma slots_loop_Cons2:
  "slots_loop t (x # y # rest) = (if selected_before t x y then [x] else []) @ slots_loop t (y # rest)"
  by (simp add: selected_before_def)

lemmas slots_loop_eqs = slots_loop.simps(1,2) slots_loop_Cons2

declare slots_loop.simps(3) [simp del]

lemma subseq_slots_loop: "subseq (slots_loop t xs) xs"
  by (induction xs rule: induct_list012) (auto simp: slots_loop_eqs)

lemma slots_loop_multiple: "x \<in> set xs \<Longrightarrow> x mod t = 0 \<Longrightarrow> x \<in> set (slots_loop t xs)"
proof (induction xs rule: induct_list012)
  case (3 a b rest)
  show ?case
  proof (cases "x = a")
    case True
    then have "selected_before t a b" unfolding selected_before_def using "3.prems"(2) by blast
    then show ?thesis by (simp add: slots_loop_Cons2 True)
  next
    case False
    then have xb: "x \<in> set (b # rest)" using "3.prems"(1) by simp
    have "x \<in> set (slots_loop t (b # rest))" by (rule "3.IH"(2)) (rule xb, rule "3.prems"(2))
    then show ?thesis by (simp add: slots_loop_Cons2)
  qed
qed auto

lemma slots_loop_Cons_superset: "set (slots_loop t xs) \<subseteq> set (slots_loop t (a # xs))"
  by (cases xs) (auto simp add: slots_loop_Cons2)

lemma slots_loop_before_gap:
  "selected_before t x y \<Longrightarrow> x \<in> set (slots_loop t (ps @ x # y # qs))"
proof (induction ps)
  case Nil
  then show ?case by (simp add: slots_loop_Cons2)
next
  case (Cons a ps)
  from Cons.IH [OF Cons.prems] show ?case
    unfolding append_Cons by (rule subsetD [OF slots_loop_Cons_superset])
qed

lemma slots_loop_from_input:
  "x \<in> set (slots_loop t xs) \<Longrightarrow>
     x mod t = 0 \<or> (\<exists>as y bs. xs = as @ x # y # bs \<and> selected_before t x y)"
proof (induction xs rule: induct_list012)
  case (3 a b rest)
  show ?case
  proof (cases "x \<in> set (slots_loop t (b # rest))")
    case True
    then show ?thesis using "3.IH"(2) by (metis append_Cons)
  next
    case False
    with "3.prems" have "x = a" "selected_before t a b"
      by (auto simp: slots_loop_Cons2 split: if_splits)
    then show ?thesis by fastforce
  qed
qed (auto split: if_splits)

lemma word_div_less_multiple:
  fixes x b y t :: u64
  assumes "0 < t" "b mod t = 0" "x < b" "b \<le> y"
  shows "y div t \<noteq> x div t"
proof -
  have t: "0 < unat t" using assms(1) by (simp add: unat_gt_0)
  have "unat b mod unat t = 0" using assms(2) by (metis unat_mod unat_0)
  then have "unat b div unat t * unat t = unat b" by (metis add.right_neutral div_mult_mod_eq)
  moreover have "unat x < unat b" using assms(3) by (simp add: word_less_nat_alt)
  ultimately have "unat x div unat t < unat b div unat t"
    using t by (metis div_less_iff_less_mult)
  moreover have "unat b div unat t \<le> unat y div unat t"
    using assms(4) by (simp add: word_le_nat_alt div_le_mono)
  ultimately show ?thesis by (metis less_le_not_le unat_div)
qed

text \<open>
  C32. A slot selected for fetching is one of the answered slots, in the same order, and it is
  either a multiple of the threshold or the last slot with a block before a gap that skips a
  multiple. Conversely every multiple is selected, and where the chain skipped a multiple
  \<open>b\<close> between two consecutive slots with blocks \<open>x < b < y\<close>, the slot \<open>x\<close> that a lookup of
  \<open>b\<close> has to fall back to is selected, unless \<open>y\<close> is itself a multiple.
\<close>

theorem getSlotsToQueryBlocks_selects:
  assumes "getSlotsToQueryBlocks xs t = Inr sel" and "0 < t"
  shows "subseq sel xs
    \<and> (\<forall>x \<in> set xs. x mod t = 0 \<longrightarrow> x \<in> set sel)
    \<and> (\<forall>as x y bs b. xs = as @ x # y # bs \<longrightarrow> x < b \<longrightarrow> b < y \<longrightarrow> b mod t = 0 \<longrightarrow> y mod t \<noteq> 0 \<longrightarrow> x \<in> set sel)
    \<and> (\<forall>x \<in> set sel. x mod t = 0 \<or> (\<exists>as y bs. xs = as @ x # y # bs \<and> y div t \<noteq> x div t \<and> y mod t \<noteq> 0))"
proof (intro conjI)
  from assms have sel: "sel = slots_loop t xs"
    by (auto simp: getSlotsToQueryBlocks_def split: if_splits)
  show "subseq sel xs" unfolding sel by (rule subseq_slots_loop)
  show "\<forall>x \<in> set xs. x mod t = 0 \<longrightarrow> x \<in> set sel"
    unfolding sel by (intro ballI impI) (rule slots_loop_multiple)
  show "\<forall>x \<in> set sel. x mod t = 0 \<or> (\<exists>as y bs. xs = as @ x # y # bs \<and> y div t \<noteq> x div t \<and> y mod t \<noteq> 0)"
    unfolding sel using slots_loop_from_input selected_before_def by metis
  show "\<forall>as x y bs b. xs = as @ x # y # bs \<longrightarrow> x < b \<longrightarrow> b < y \<longrightarrow> b mod t = 0 \<longrightarrow> y mod t \<noteq> 0 \<longrightarrow> x \<in> set sel"
  proof (intro allI impI)
    fix "as" x y bs b
    assume h: "xs = as @ x # y # bs" "x < b" "b < y" "b mod t = 0" "y mod t \<noteq> 0"
    have "y div t \<noteq> x div t"
      using word_div_less_multiple [OF assms(2) h(4) h(2)] h(3) by simp
    then have "selected_before t x y" using h(5) by (simp only: selected_before_def simp_thms)
    then show "x \<in> set sel" unfolding sel h(1) by (rule slots_loop_before_gap)
  qed
qed

theorem getSlotsToQueryBlocks_selects_witness:
  "(18 :: u64) \<in> set (slots_loop 10 [10, 12, 18, 23, 30])"
proof -
  have "getSlotsToQueryBlocks [10, 12, 18, 23, 30] 10 = Inr (slots_loop 10 [10, 12, 18, 23, 30])"
    by (simp add: getSlotsToQueryBlocks_def)
  from getSlotsToQueryBlocks_selects [OF this, THEN conjunct2, THEN conjunct2, THEN conjunct1, rule_format,
      of "[10, 12]" 18 23 "[30]" 20]
  show ?thesis by simp
qed

text \<open>
  The exception in the rule is real: when the block after the gap sits on a multiple, the
  last block before the gap is not selected, so a lookup of a skipped multiple in that gap
  falls back to an older stored block.
\<close>

theorem getSlotsToQueryBlocks_gap_before_multiple:
  assumes "sorted_wrt (<) (as @ x # y # bs)" "0 < t" "x mod t \<noteq> 0" "y mod t = 0"
    and "getSlotsToQueryBlocks (as @ x # y # bs) t = Inr sel"
  shows "x \<notin> set sel"
proof
  assume "x \<in> set sel"
  with assms(5) have "x \<in> set (slots_loop t (as @ x # y # bs))"
    by (auto simp: getSlotsToQueryBlocks_def split: if_splits)
  from slots_loop_from_input [OF this] assms(3) obtain as' y' bs'
    where eq: "as @ x # y # bs = as' @ x # y' # bs'" and sel: "selected_before t x y'" by auto
  have "distinct (as @ x # y # bs)"
    using assms(1) by (simp add: strict_sorted_iff)
  then have "x \<notin> set as" "x \<notin> set (y # bs)" by auto
  with eq have "y # bs = y' # bs'" by (simp only: append_Cons_eq_iff simp_thms)
  then show False using sel assms(3,4) by (simp only: selected_before_def list.inject simp_thms)
qed

theorem getSlotsToQueryBlocks_gap_before_multiple_witness: "(18 :: u64) \<notin> set (slots_loop 10 [10, 18, 30])"
proof -
  have "getSlotsToQueryBlocks ([10] @ 18 # 30 # []) 10 = Inr (slots_loop 10 [10, 18, 30])"
    by (simp add: getSlotsToQueryBlocks_def)
  then show ?thesis
    by (intro getSlotsToQueryBlocks_gap_before_multiple [of "[10]" 18 30 "[]" 10]) simp_all
qed

section \<open>How long to wait at the head\<close>

text \<open>
  Go's \<open>float64\<close> on integers: a value below \<open>2 ^ 53\<close> is exact, a larger one is rounded to
  53 significant bits, to the nearest and to even on a tie. The values here stay far below
  the largest finite float64.
\<close>

fun bitlen :: "nat \<Rightarrow> nat" where
  "bitlen n = (if n = 0 then 0 else Suc (bitlen (n div 2)))"

declare bitlen.simps [simp del]

definition float64_nat :: "nat \<Rightarrow> nat" where
  "float64_nat n =
     (if n < 2 ^ 53 then n
      else
        (let e = bitlen n - 53; q = n div 2 ^ e; r = n mod 2 ^ e; half = 2 ^ (e - 1)
         in (if r > half \<or> (r = half \<and> odd q) then q + 1 else q) * 2 ^ e))"

definition float64_of :: "int \<Rightarrow> int" where
  "float64_of x = sgn x * int (float64_nat (nat \<bar>x\<bar>))"

text \<open>
  \<open>float64_mult\<close> rounds the exact product of two float64 values. The conversion back to
  \<open>time.Duration\<close>, an \<open>int64\<close>, is left to the implementation by the language
  specification when the value does not fit: the parameter \<open>ovf\<close>.
\<close>

definition float64_mult :: "int \<Rightarrow> int \<Rightarrow> int" where
  "float64_mult x y = float64_of (x * y)"

definition float64_to_duration :: "(int \<Rightarrow> int) \<Rightarrow> int \<Rightarrow> int" where
  "float64_to_duration ovf v = (if - (2 ^ 63) \<le> v \<and> v < 2 ^ 63 then v else ovf v)"

definition chainHeadCatchUpWait :: "(int \<Rightarrow> int) \<Rightarrow> int \<Rightarrow> u64 \<Rightarrow> int \<Rightarrow> int" where
  "chainHeadCatchUpWait ovf blocksWithSlots target avgSlotTime =
     (if blocksWithSlots < 0 \<or> (of_int blocksWithSlots :: u64) \<ge> target then 0
      else
        (let slotsNeeded = target - of_int blocksWithSlots
         in float64_to_duration ovf (float64_mult (float64_of (uint slotsNeeded)) (float64_of avgSlotTime))))"

lemma float64_of_exact: "\<bar>x\<bar> < 2 ^ 53 \<Longrightarrow> float64_of x = x"
  by (auto simp: float64_of_def float64_nat_def sgn_if)

lemma chainHeadCatchUpWait_exact:
  assumes "0 \<le> blocks" "blocks < uint target" "0 \<le> avg" "avg < 2 ^ 53" "uint target < 2 ^ 53"
    and "(uint target - blocks) * avg < 2 ^ 53"
  shows "chainHeadCatchUpWait ovf blocks target avg = (uint target - blocks) * avg"
proof -
  have b: "blocks < 2 ^ 64" using assms(2) uint_lt2p [of target] by simp
  then have u: "uint (of_int blocks :: u64) = blocks"
    using assms(1) by (simp add: uint_word_of_int)
  then have lt: "(of_int blocks :: u64) < target" using assms(2) by (simp add: word_less_def)
  have "uint (target - of_int blocks) = uint target - uint (of_int blocks :: u64)"
    using lt by (intro uint_minus_simple_alt [THEN iffD1]) simp
  then have need: "uint (target - of_int blocks) = uint target - blocks" by (simp only: u)
  have pos: "0 \<le> (uint target - blocks) * avg" using assms(2,3) by simp
  have "chainHeadCatchUpWait ovf blocks target avg
      = float64_to_duration ovf (float64_mult (float64_of (uint (target - of_int blocks))) (float64_of avg))"
    using assms(1) linorder_not_le [THEN iffD2, OF lt] by (simp add: chainHeadCatchUpWait_def Let_def)
  also have "\<dots> = float64_to_duration ovf ((uint target - blocks) * avg)"
    unfolding need using assms pos by (simp add: float64_mult_def float64_of_exact)
  also have "\<dots> = (uint target - blocks) * avg"
  proof -
    have "- (2 ^ 63) \<le> (uint target - blocks) * avg" "(uint target - blocks) * avg < 2 ^ 63"
      using pos assms(6) by simp_all
    then show ?thesis unfolding float64_to_duration_def by presburger
  qed
  finally show ?thesis .
qed

text \<open>
  Near the head the refresher waits exactly as long as the chain needs for the missing
  blocks, \<open>(target - blocks) * avgSlotTime\<close> nanoseconds with no rounding error, as long as
  the product is below \<open>2 ^ 53\<close> ns (about 104 days); with the target met it does not wait.
\<close>

theorem chainHeadCatchUpWait_value:
  assumes "0 \<le> blocks" "0 \<le> avg" "avg < 2 ^ 53" "uint target < 2 ^ 53" "blocks < 2 ^ 63"
    and "(uint target - blocks) * avg < 2 ^ 53"
  shows "chainHeadCatchUpWait ovf blocks target avg = max 0 (uint target - blocks) * avg"
proof (cases "blocks < uint target")
  case True
  then show ?thesis using chainHeadCatchUpWait_exact assms by simp
next
  case False
  have "uint (of_int blocks :: u64) = blocks"
    using assms(1,5) by (simp add: uint_word_of_int)
  with False have "target \<le> (of_int blocks :: u64)" by (simp add: word_le_def)
  then show ?thesis using False by (simp add: chainHeadCatchUpWait_def)
qed

theorem chainHeadCatchUpWait_value_witness:
  "chainHeadCatchUpWait (\<lambda>v. v) 12 30 166000000 = 2988000000"
  using chainHeadCatchUpWait_value [of 12 166000000 30 "\<lambda>v. v"] by simp

end
