(* ===== verification/Retry.thy ===== *)
theory Retry
  imports Prelude
begin

text \<open>
  \<open>tracker/helpers.go\<close>: the retry loop \<open>ExecuteWithRetry\<close>, its options, and the error
  predicates. The loop runs in any state; the \<open>select\<close> between the context and the timer is
  the parameter \<open>select_wait\<close>, which says whether \<open>ctx.Done()\<close> won. Logging has no
  effect on what is modelled and is left out throughout the development.
\<close>

section \<open>Error predicates\<close>

text \<open>\<open>errors.Is\<close> and \<open>errors.As\<close> follow the chain of wrapped errors.\<close>

fun errors_Is :: "go_error \<Rightarrow> go_error \<Rightarrow> bool" where
  "errors_Is (Wrapf msg e) target = (Wrapf msg e = target \<or> errors_Is e target)"
| "errors_Is e target = (e = target)"

fun errors_As_RPCError :: "go_error \<Rightarrow> int option" where
  "errors_As_RPCError (Wrapf msg e) = errors_As_RPCError e"
| "errors_As_RPCError (RPCErr code) = Some code"
| "errors_As_RPCError e = None"

definition IsRetryableError :: "go_error \<Rightarrow> bool" where
  "IsRetryableError err = errors_Is err ErrRetryTryAgain"

definition rpcErrCodeTxNotFound :: int where
  "rpcErrCodeTxNotFound = -32020"

definition IsCursorNotFoundErr :: "go_error \<Rightarrow> bool" where
  "IsCursorNotFoundErr err = (errors_As_RPCError err = Some rpcErrCodeTxNotFound)"

section \<open>Configuration\<close>

record RetryConfig =
  retryCount :: int
  retryWaitTime :: int
  isRetryableError :: "go_error \<Rightarrow> bool"

definition default_RetryConfig :: RetryConfig where
  "default_RetryConfig =
     \<lparr>retryCount = 10, retryWaitTime = 5 * 1000000000, isRetryableError = IsRetryableError\<rparr>"

definition WithRetryCount :: "int \<Rightarrow> RetryConfig \<Rightarrow> RetryConfig" where
  "WithRetryCount count c = c\<lparr>retryCount := count\<rparr>"

definition WithRetryWaitTime :: "int \<Rightarrow> RetryConfig \<Rightarrow> RetryConfig" where
  "WithRetryWaitTime wait c = c\<lparr>retryWaitTime := wait\<rparr>"

section \<open>The loop\<close>

text \<open>
  \<open>retry_loop\<close> recurses on the attempts that are left, \<open>retryCount - count\<close>; a negative
  count makes none. A panic of the handler is not an error value and passes through.
\<close>

fun retry_loop ::
  "(int \<Rightarrow> ('s, bool) exec) \<Rightarrow> RetryConfig \<Rightarrow> ('s, 'a) exec \<Rightarrow> nat \<Rightarrow> ('s, 'a) exec" where
  "retry_loop select_wait config handler 0 = fail ErrRetryTimeout"
| "retry_loop select_wait config handler (Suc n) =
     bind (attempt handler) (\<lambda>r.
       case r of
         Inr result \<Rightarrow> ret result
       | Inl err \<Rightarrow>
           if \<not> isRetryableError config err then fail err
           else bind (select_wait (retryWaitTime config)) (\<lambda>done.
             if done then fail CtxDone else retry_loop select_wait config handler n))"

definition ExecuteWithRetry ::
  "(int \<Rightarrow> ('s, bool) exec) \<Rightarrow> ('s, 'a) exec \<Rightarrow> (RetryConfig \<Rightarrow> RetryConfig) list \<Rightarrow> ('s, 'a) exec" where
  "ExecuteWithRetry select_wait handler options =
     (let config = fold (\<lambda>opt c. opt c) options default_RetryConfig
      in retry_loop select_wait config handler (nat (retryCount config)))"

section \<open>What it returns\<close>

text \<open>
  The state after \<open>k\<close> attempts that all failed with a retryable error and were followed by
  the full wait; \<open>None\<close> when one of them ended otherwise.
\<close>

primrec failed_attempts ::
  "(int \<Rightarrow> ('s, bool) exec) \<Rightarrow> RetryConfig \<Rightarrow> ('s, 'a) exec \<Rightarrow> nat \<Rightarrow> 's \<Rightarrow> 's option" where
  "failed_attempts sw c h 0 s = Some s"
| "failed_attempts sw c h (Suc k) s =
     (case h s of
        (Inl err, s1) \<Rightarrow>
          if isRetryableError c err then
            (case sw (retryWaitTime c) s1 of (Inr False, s2) \<Rightarrow> failed_attempts sw c h k s2 | _ \<Rightarrow> None)
          else None
      | _ \<Rightarrow> None)"

text \<open>The retry predicate of every caller: no panic is retried.\<close>

definition retries_errors :: "RetryConfig \<Rightarrow> bool" where
  "retries_errors c \<longleftrightarrow> (\<forall>e. stops e \<longrightarrow> \<not> isRetryableError c e)"

lemma IsRetryableError_simps [simp]:
  "IsRetryableError ErrRetryTryAgain" "\<not> IsRetryableError (GoPanic p)" "\<not> IsRetryableError CtxDone"
  "\<not> IsRetryableError ErrRetryTimeout"
  by (simp_all add: IsRetryableError_def)

lemma retry_loop_step:
  "retry_loop sw c h (Suc n) s =
     (case h s of
        (Inr a, s1) \<Rightarrow> (Inr a, s1)
      | (Inl e, s1) \<Rightarrow>
          if \<not> isRetryableError c e \<or> stops e then (Inl e, s1)
          else
            (case sw (retryWaitTime c) s1 of
               (Inl e', s2) \<Rightarrow> (Inl e', s2)
             | (Inr True, s2) \<Rightarrow> (Inl CtxDone, s2)
             | (Inr False, s2) \<Rightarrow> retry_loop sw c h n s2))"
  by (auto simp: exec_defs split: prod.splits sum.splits go_error.splits bool.splits)

declare retry_loop.simps(2) [simp del]

lemma retry_loop_Inr_iff:
  assumes "retries_errors c"
  shows "retry_loop sw c h n s = (Inr a, s') \<longleftrightarrow>
    (\<exists>k < n. \<exists>s1. failed_attempts sw c h k s = Some s1 \<and> h s1 = (Inr a, s'))"
proof (induction n arbitrary: s)
  case 0
  then show ?case by (simp add: fail_def)
next
  case (Suc n)
  have split_k: "(\<exists>k < Suc n. P k) \<longleftrightarrow> P 0 \<or> (\<exists>k < n. P (Suc k))" for P
    by (metis Ex_less_Suc2)
  show ?case unfolding split_k retry_loop_step
    using assms Suc.IH
    by (auto simp: retries_errors_def split: prod.splits sum.splits bool.splits)
qed

lemma retry_loop_timeout:
  assumes "retries_errors c"
  shows "failed_attempts sw c h n s = Some s' \<Longrightarrow> retry_loop sw c h n s = (Inl ErrRetryTimeout, s')"
proof (induction n arbitrary: s)
  case 0
  then show ?case by (simp add: fail_def)
next
  case (Suc n)
  then show ?case unfolding retry_loop_step
    using assms by (auto simp: retries_errors_def split: prod.splits sum.splits bool.splits if_splits)
qed

lemma keeps_retry_loop [keeps_rules]:
  "keeps P h \<Longrightarrow> (\<And>t. keeps P (sw t)) \<Longrightarrow> keeps P (retry_loop sw c h n)"
  by (induction n) (auto intro!: keeps_rules simp: retry_loop.simps(2) split: sum.split)

lemma keeps_ExecuteWithRetry [keeps_rules]:
  "keeps P h \<Longrightarrow> (\<And>t. keeps P (sw t)) \<Longrightarrow> keeps P (ExecuteWithRetry sw h opts)"
  by (auto simp: ExecuteWithRetry_def Let_def intro!: keeps_rules)

definition caller_RetryConfig :: "int \<Rightarrow> int \<Rightarrow> RetryConfig" where
  "caller_RetryConfig count wait =
     \<lparr>retryCount = count, retryWaitTime = wait, isRetryableError = IsRetryableError\<rparr>"

lemma ExecuteWithRetry_caller:
  "ExecuteWithRetry sw h [WithRetryCount n, WithRetryWaitTime w] = retry_loop sw (caller_RetryConfig n w) h (nat n)"
  by (simp add: ExecuteWithRetry_def WithRetryCount_def WithRetryWaitTime_def default_RetryConfig_def
      caller_RetryConfig_def Let_def)

lemma retries_errors_caller [simp]: "retries_errors (caller_RetryConfig n w)"
  by (auto simp: retries_errors_def caller_RetryConfig_def IsRetryableError_def stops_def split: go_error.splits)

text \<open>
  C28. The retry loop, as every caller configures it, succeeds exactly when one of its
  \<open>n\<close> attempts does and all before it failed with \<open>ErrRetryTryAgain\<close> and waited; it
  returns that attempt's result and state, so nothing runs after the success.
\<close>

theorem ExecuteWithRetry_success_iff:
  "ExecuteWithRetry sw h [WithRetryCount n, WithRetryWaitTime w] s = (Inr a, s') \<longleftrightarrow>
     (\<exists>k < nat n. \<exists>s1. failed_attempts sw (caller_RetryConfig n w) h k s = Some s1 \<and> h s1 = (Inr a, s'))"
  by (simp add: ExecuteWithRetry_caller retry_loop_Inr_iff)

text \<open>
  When all \<open>n\<close> attempts fail with a retryable error, the loop has run the handler
  exactly \<open>n\<close> times and returns \<open>ErrRetryTimeout\<close>; the error of the last attempt is lost.
\<close>

theorem ExecuteWithRetry_timeout:
  "failed_attempts sw (caller_RetryConfig n w) h (nat n) s = Some s' \<Longrightarrow>
     ExecuteWithRetry sw h [WithRetryCount n, WithRetryWaitTime w] s = (Inl ErrRetryTimeout, s')"
  by (simp add: ExecuteWithRetry_caller retry_loop_timeout)

theorem ExecuteWithRetry_timeout_witness:
  "ExecuteWithRetry (\<lambda>_. ret False) (\<lambda>k. (Inl ErrRetryTryAgain, k + 1) :: (go_error + bool) \<times> nat)
     [WithRetryCount 3, WithRetryWaitTime 7] 0 = (Inl ErrRetryTimeout, 3)"
  by (rule ExecuteWithRetry_timeout) (simp add: caller_RetryConfig_def ret_def eval_nat_numeral)

end
