(* ===== verification/Bolt_Api.thy ===== *)
theory Bolt_Api
  imports Prelude "HOL-Library.RBT" "HOL-Library.List_Lexorder"
begin

text \<open>
  The interface of the embedded key-value store (\<open>go.etcd.io/bbolt\<close>) that
  \<open>tracker/store/bolt_storage_handler.go\<close> calls. bbolt is not part of the repository, so
  its operations are the fields of a record the storage operations take as an argument, and
  what its documentation promises about them are the laws of a locale. \<open>mem_api\<close> is an
  in-memory store that satisfies the laws, so they can hold.
\<close>

section \<open>The operations\<close>

text \<open>
  \<open>'d\<close> is the database as a transaction sees it. \<open>tx.Bucket(b) != nil\<close> is
  \<open>bBucket\<close>, \<open>bEntries\<close> are the pairs a cursor visits from \<open>First\<close> by
  \<open>Next\<close>. \<open>bUpdate\<close> and \<open>bView\<close> run a function in a read-write or a read-only
  transaction.
\<close>

record 'd bolt_api =
  bBucket :: "bytes \<Rightarrow> 'd \<Rightarrow> bool"
  bGet :: "bytes \<Rightarrow> bytes \<Rightarrow> 'd \<Rightarrow> bytes option"
  bEntries :: "bytes \<Rightarrow> 'd \<Rightarrow> (bytes \<times> bytes) list"
  bPut :: "bytes \<Rightarrow> bytes \<Rightarrow> bytes \<Rightarrow> ('d, unit) exec"
  bDelete :: "bytes \<Rightarrow> bytes \<Rightarrow> ('d, unit) exec"
  bCreateBucketIfNotExists :: "bytes \<Rightarrow> ('d, unit) exec"
  bUpdate :: "('d, unit) exec \<Rightarrow> ('d, unit) exec"
  bView :: "('d \<Rightarrow> go_error option) \<Rightarrow> 'd \<Rightarrow> go_error option"

text \<open>
  \<open>db.View(func(tx) error { \<dots> })\<close> whose function assigns its result to a variable of the
  enclosing method, which then returns the variable and the error of \<open>View\<close>.
\<close>

definition view_with :: "'d bolt_api \<Rightarrow> ('d \<Rightarrow> go_error + 'a) \<Rightarrow> 'd \<Rightarrow> go_error + 'a" where
  "view_with api fn d =
     (case bView api (\<lambda>d. case fn d of Inl e \<Rightarrow> Some e | Inr _ \<Rightarrow> None) d of
        Some e \<Rightarrow> Inl e
      | None \<Rightarrow> fn d)"

section \<open>The laws\<close>

text \<open>
  Writes can fail at any time (a closed database, a full disk, an empty key); what is promised
  is what a write that returned nil has done. \<open>Update\<close> commits when the function and the
  commit succeeded and otherwise rolls everything back. A read-only transaction returns nil
  only when its function did.
\<close>

locale bolt_store =
  fixes api :: "'d bolt_api"
  assumes put_get: "bPut api b k v d = (Inr (), d') \<Longrightarrow> bBucket api b d \<Longrightarrow>
      bGet api b' k' d' = (if b' = b \<and> k' = k then Some v else bGet api b' k' d)"
    and put_bucket: "bPut api b k v d = (Inr (), d') \<Longrightarrow> bBucket api b' d' = bBucket api b' d"
    and delete_get: "bDelete api b k d = (Inr (), d') \<Longrightarrow> bBucket api b d \<Longrightarrow>
      bGet api b' k' d' = (if b' = b \<and> k' = k then None else bGet api b' k' d)"
    and delete_bucket: "bDelete api b k d = (Inr (), d') \<Longrightarrow> bBucket api b' d' = bBucket api b' d"
    and create_bucket: "bCreateBucketIfNotExists api b d = (Inr (), d') \<Longrightarrow>
      bBucket api b' d' = (b' = b \<or> bBucket api b' d)"
    and create_get: "bCreateBucketIfNotExists api b d = (Inr (), d') \<Longrightarrow> bGet api b' k' d' = bGet api b' k' d"
    and entries_get: "(k, v) \<in> set (bEntries api b d) \<longleftrightarrow> bGet api b k d = Some v"
    and entries_sorted: "sorted_wrt (<) (map fst (bEntries api b d))"
    and update_cases: "bUpdate api f d = (r, d') \<Longrightarrow>
      (r = Inr () \<and> f d = (Inr (), d')) \<or> ((\<exists>e. r = Inl e) \<and> d' = d)"
    and view_nil: "bView api g d = None \<Longrightarrow> g d = None"
begin

lemma view_with_Inr: "view_with api fn d = Inr a \<Longrightarrow> fn d = Inr a"
  by (auto simp: view_with_def split: option.splits)

lemma update_Inr: "bUpdate api f d = (Inr (), d') \<Longrightarrow> f d = (Inr (), d')"
  using update_cases by fastforce

lemma update_Inl: "bUpdate api f d = (Inl e, d') \<Longrightarrow> d' = d"
  using update_cases by fastforce

lemma keeps_update: "keeps P f \<Longrightarrow> keeps P (bUpdate api f)"
  unfolding keeps_def
  by (metis prod.collapse snd_conv update_cases)

end

text \<open>
  A store in which nothing goes wrong: every transaction begins and commits, and a write to
  an existing bucket under a non-empty key goes through. Under these laws an operation of
  the storage handler does not just keep its promise when it returns nil, it returns nil. This
  is an idealisation: bbolt also refuses a key above 32768 bytes and a value above 2 GiB. The keys
  of this code are fixed names, numbers of 8 bytes and hashes of 32, far below that; that every
  value fits is assumed where these laws are. What holds without them is stated over
  \<open>bolt_store\<close>, in which any write may fail.
\<close>

locale bolt_live = bolt_store +
  assumes put_live: "bBucket api b d \<Longrightarrow> k \<noteq> [] \<Longrightarrow> \<exists>d'. bPut api b k v d = (Inr (), d')"
    and delete_live: "bBucket api b d \<Longrightarrow> \<exists>d'. bDelete api b k d = (Inr (), d')"
    and create_live: "b \<noteq> [] \<Longrightarrow> \<exists>d'. bCreateBucketIfNotExists api b d = (Inr (), d')"
    and update_live: "f d = (Inr (), d') \<Longrightarrow> bUpdate api f d = (Inr (), d')"
    and view_live: "g d = None \<Longrightarrow> bView api g d = None"
begin

lemma view_with_live: "fn d = Inr a \<Longrightarrow> view_with api fn d = Inr a"
  by (simp add: view_with_def view_live)

end

section \<open>An in-memory store\<close>

type_synonym mem_db = "bytes \<Rightarrow> (bytes, bytes) rbt option"

definition mem_api :: "mem_db bolt_api" where
  "mem_api =
     \<lparr>bBucket = (\<lambda>b d. d b \<noteq> None),
      bGet = (\<lambda>b k d. case d b of None \<Rightarrow> None | Some t \<Rightarrow> RBT.lookup t k),
      bEntries = (\<lambda>b d. case d b of None \<Rightarrow> [] | Some t \<Rightarrow> RBT.entries t),
      bPut = (\<lambda>b k v d. case d b of
        None \<Rightarrow> (Inl (ExtErr STR ''bucket not found''), d)
      | Some t \<Rightarrow> if k = [] then (Inl (ExtErr STR ''key required''), d) else (Inr (), d(b \<mapsto> RBT.insert k v t))),
      bDelete = (\<lambda>b k d. case d b of
        None \<Rightarrow> (Inl (ExtErr STR ''bucket not found''), d)
      | Some t \<Rightarrow> (Inr (), d(b \<mapsto> RBT.delete k t))),
      bCreateBucketIfNotExists = (\<lambda>b d.
        if b = [] then (Inl (ExtErr STR ''bucket name required''), d)
        else (Inr (), case d b of None \<Rightarrow> d(b \<mapsto> RBT.empty) | Some _ \<Rightarrow> d)),
      bUpdate = (\<lambda>f d. case f d of (Inl e, _) \<Rightarrow> (Inl e, d) | (Inr u, d') \<Rightarrow> (Inr u, d')),
      bView = (\<lambda>g d. g d)\<rparr>"

lemma mem_entries_strict: "sorted_wrt (<) (map fst (RBT.entries (t :: (bytes, bytes) rbt)))"
  using RBT.sorted_entries [of t] RBT.distinct_entries [of t] by (simp add: strict_sorted_iff)

lemma mem_put_Inr_iff:
  "bPut mem_api b k v d = (Inr (), d') \<longleftrightarrow> (\<exists>t. d b = Some t \<and> k \<noteq> [] \<and> d' = d(b \<mapsto> RBT.insert k v t))"
  by (cases "d b") (auto simp: mem_api_def)

lemma mem_delete_Inr_iff:
  "bDelete mem_api b k d = (Inr (), d') \<longleftrightarrow> (\<exists>t. d b = Some t \<and> d' = d(b \<mapsto> RBT.delete k t))"
  by (cases "d b") (auto simp: mem_api_def)

lemma mem_create_Inr_iff:
  "bCreateBucketIfNotExists mem_api b d = (Inr (), d') \<longleftrightarrow>
     b \<noteq> [] \<and> d' = (case d b of None \<Rightarrow> d(b \<mapsto> RBT.empty) | Some _ \<Rightarrow> d)"
  by (auto simp: mem_api_def)

lemma mem_update:
  "bUpdate mem_api f d = (case f d of (Inl e, _) \<Rightarrow> (Inl e, d) | (Inr u, d') \<Rightarrow> (Inr u, d'))"
  by (simp add: mem_api_def)

lemma mem_update_Inr: "f d = (Inr (), d1) \<Longrightarrow> bUpdate mem_api f d = (Inr (), d1)"
  and mem_update_Inl: "f d = (Inl e, d1) \<Longrightarrow> bUpdate mem_api f d = (Inl e, d)"
  by (simp_all add: mem_update)

lemma mem_update_cases:
  assumes "bUpdate mem_api f d = (r, d')"
  shows "(r = Inr () \<and> f d = (Inr (), d')) \<or> ((\<exists>e. r = Inl e) \<and> d' = d)"
proof -
  obtain x y where fd: "f d = (x, y)" by (cases "f d")
  show ?thesis
  proof (cases x)
    case (Inl e)
    with fd have "bUpdate mem_api f d = (Inl e, d)" using mem_update_Inl by simp
    with assms show ?thesis by auto
  next
    case (Inr u)
    with fd have "f d = (Inr (), y)" by simp
    with assms mem_update_Inr [of f d y] show ?thesis by simp
  qed
qed

lemma mem_reads [simp]:
  "bBucket mem_api b d = (d b \<noteq> None)"
  "bGet mem_api b k d = (case d b of None \<Rightarrow> None | Some t \<Rightarrow> RBT.lookup t k)"
  "bEntries mem_api b d = (case d b of None \<Rightarrow> [] | Some t \<Rightarrow> RBT.entries t)"
  "bView mem_api g d = g d"
  by (simp_all add: mem_api_def)

interpretation mem: bolt_store mem_api
proof (unfold_locales, goal_cases)
  case (7 k v b d)
  then show ?case by (cases "d b") (simp_all add: RBT.lookup_in_tree)
next
  case (8 b d)
  then show ?case by (cases "d b") (simp_all add: mem_entries_strict)
next
  case (9 f d r d')
  then show ?case by (rule mem_update_cases)
qed (auto simp: mem_put_Inr_iff mem_delete_Inr_iff mem_create_Inr_iff split: option.splits if_splits)

interpretation mem: bolt_live mem_api
proof (unfold_locales, goal_cases)
  case (4 f d d')
  then show ?case by (rule mem_update_Inr)
qed (simp_all add: mem_put_Inr_iff mem_delete_Inr_iff mem_create_Inr_iff)

end
