(* ===== verification/Storage_Interface.thy ===== *)
theory Storage_Interface
  imports Prelude
begin

text \<open>
  The storage interface of the tracker (\<open>StorageHandler\<close> in
  \<open>tracker/store/bolt_storage_handler.go\<close>): its data, its methods as a record, and what the
  comments of the interface promise, as a locale over an abstract state. The tracker's lemmas
  are proved from these laws; \<open>Bolt_Refinement\<close> shows that the BoltDB handler keeps them.
\<close>

section \<open>Data\<close>

record BlockPoint =
  bp_BlockSlot :: u64
  bp_BlockHash :: Hash
  bp_BlockNumber :: u64

record TxPoint =
  tp_TxSignature :: Signature
  tp_Slot :: u64

definition zero_TxPoint :: TxPoint where
  "zero_TxPoint = \<lparr>tp_TxSignature = 0, tp_Slot = 0\<rparr>"

text \<open>
  \<open>'m\<close> is Go's \<open>map[string]interface{}\<close>, whatever \<open>json.Unmarshal\<close> puts into one.
\<close>

record 'm EventRecord =
  er_ID :: u64
  er_Slot :: u64
  er_BlockNumber :: u64
  er_TxSignature :: string
  er_Program :: string
  er_EventType :: string
  er_InnerActionHash :: Hash
  er_Data :: 'm

text \<open>
  A \<open>StorageTransaction\<close> is nil, a \<open>*bolt.Tx\<close>, or a value of another type. The state of
  a call made with a \<open>*bolt.Tx\<close> is the database as that transaction sees it.
\<close>

datatype StorageTransaction = NilTx | BoltTx | OtherTx

section \<open>The methods\<close>

record ('d, 'ev, 'm) StorageHandler =
  sh_StoreBlock :: "StorageTransaction \<Rightarrow> BlockPoint \<Rightarrow> ('d, unit) exec"
  sh_GetBlockhashBySlot :: "u64 \<Rightarrow> 'd \<Rightarrow> go_error + Hash"
  sh_GetBlockNumberByBlockhash :: "Hash \<Rightarrow> 'd \<Rightarrow> go_error + u64"
  sh_StoreLatestBlockPoint :: "StorageTransaction \<Rightarrow> BlockPoint \<Rightarrow> ('d, unit) exec"
  sh_GetLatestBlockPoint :: "'d \<Rightarrow> go_error + BlockPoint option"
  sh_StoreLatestFinalizedBlockNumber :: "u64 \<Rightarrow> ('d, unit) exec"
  sh_GetLatestFinalizedBlockNumber :: "'d \<Rightarrow> go_error + u64"
  sh_StoreEvent :: "StorageTransaction \<Rightarrow> u64 \<Rightarrow> u64 \<Rightarrow> Signature \<Rightarrow> PublicKey \<Rightarrow> string \<Rightarrow> Hash \<Rightarrow> 'ev \<Rightarrow> ('d, unit) exec"
  sh_GetEventsBySlot :: "u64 \<Rightarrow> 'd \<Rightarrow> go_error + 'm EventRecord list"
  sh_GetEventsByBlockNumber :: "u64 \<Rightarrow> 'd \<Rightarrow> go_error + 'm EventRecord list"
  sh_GetProcessedTxSignaturesBySlot :: "u64 \<Rightarrow> 'd \<Rightarrow> go_error + Signature list"
  sh_PushUnprocessedTransactions :: "TxPoint list \<Rightarrow> ('d, unit) exec"
  sh_GetAllUnprocessedTransactions :: "'d \<Rightarrow> go_error + TxPoint list"
  sh_FinalizeProcessedTransaction :: "Signature \<Rightarrow> ('d, unit) exec"
  sh_SetLastProcessedTransaction :: "TxPoint \<Rightarrow> ('d, unit) exec"
  sh_GetLastProcessedTransaction :: "'d \<Rightarrow> go_error + TxPoint"
  sh_StoreLatestQueriedTransaction :: "TxPoint \<Rightarrow> ('d, unit) exec"
  sh_GetLatestQueriedTransaction :: "'d \<Rightarrow> go_error + TxPoint"

section \<open>The abstract state and its operations\<close>

text \<open>
  What a storage holds: the queue, how many transactions have left it, the two cursors, the
  finalized block number, the chain head, the two block indexes and the events in the order
  they were stored.
\<close>

record 'm abs_store =
  as_queue :: "TxPoint list"
  as_popped :: nat
  as_processed :: TxPoint
  as_queried :: TxPoint
  as_finalized :: u64
  as_head :: "BlockPoint option"
  as_blocks :: "u64 \<Rightarrow> BlockPoint option"
  as_numbers :: "Hash \<Rightarrow> u64 option"
  as_events :: "'m EventRecord list"

definition spec_push :: "TxPoint list \<Rightarrow> 'm abs_store \<Rightarrow> 'm abs_store" where
  "spec_push pts s = s\<lparr>as_queue := as_queue s @ filter (\<lambda>p. tp_TxSignature p \<noteq> 0) pts\<rparr>"

definition spec_finalize :: "'m abs_store \<Rightarrow> 'm abs_store" where
  "spec_finalize s =
     s\<lparr>as_queue := tl (as_queue s), as_popped := Suc (as_popped s), as_processed := hd (as_queue s)\<rparr>"

definition spec_block :: "BlockPoint \<Rightarrow> 'm abs_store \<Rightarrow> 'm abs_store" where
  "spec_block bp s =
     s\<lparr>as_blocks := (as_blocks s)(bp_BlockSlot bp \<mapsto> bp),
       as_numbers := (as_numbers s)(bp_BlockHash bp \<mapsto> bp_BlockNumber bp)\<rparr>"

text \<open>The block a slot falls back to: the stored one with the greatest slot not above it.\<close>

definition latest_at :: "(u64 \<Rightarrow> BlockPoint option) \<Rightarrow> u64 \<Rightarrow> BlockPoint \<Rightarrow> bool" where
  "latest_at blocks slot bp \<longleftrightarrow>
     (\<exists>s \<le> slot. blocks s = Some bp \<and> (\<forall>s' \<le> slot. s < s' \<longrightarrow> blocks s' = None))"

text \<open>Counters of the store are 64 bits wide: a push or an event needs a free number.\<close>

definition push_room :: "nat \<Rightarrow> 'm abs_store \<Rightarrow> bool" where
  "push_room n s \<longleftrightarrow> as_popped s + length (as_queue s) + n < 2 ^ 64"

definition event_room :: "nat \<Rightarrow> 'm abs_store \<Rightarrow> bool" where
  "event_room n s \<longleftrightarrow> length (as_events s) + n < 2 ^ 64"

primrec first_occurrences :: "'a list \<Rightarrow> 'a list" where
  "first_occurrences [] = []"
| "first_occurrences (x # xs) = x # filter (\<lambda>y. y \<noteq> x) (first_occurrences xs)"

lemma set_first_occurrences [simp]: "set (first_occurrences xs) = set xs"
  and distinct_first_occurrences [simp]: "distinct (first_occurrences xs)"
  by (induction xs) auto

lemma map_first_occurrences: "inj f \<Longrightarrow> map f (first_occurrences xs) = first_occurrences (map f xs)"
proof (induction xs)
  case (Cons x xs)
  then show ?case by (simp add: filter_map comp_def inj_eq flip: Cons.IH)
qed simp

definition event_record_of ::
  "(Signature \<Rightarrow> string) \<Rightarrow> (PublicKey \<Rightarrow> string) \<Rightarrow> u64 \<Rightarrow> u64 \<Rightarrow> u64 \<Rightarrow> Signature \<Rightarrow> PublicKey \<Rightarrow> string \<Rightarrow> Hash \<Rightarrow> 'm \<Rightarrow>
   'm EventRecord" where
  "event_record_of sig_text key_text i slot blockNumber sig prog name hash m =
     \<lparr>er_ID = i, er_Slot = slot, er_BlockNumber = blockNumber, er_TxSignature = sig_text sig,
      er_Program = key_text prog, er_EventType = name, er_InnerActionHash = hash, er_Data = m\<rparr>"

section \<open>The contract\<close>

text \<open>
  A write either returns nil and has the effect of its specification, or returns an error and
  leaves the stored state as it was (\<open>writes\<close>); every write keeps the invariant. The laws of
  the readers say what a result returned without an error is.
\<close>

definition writes ::
  "('d \<Rightarrow> bool) \<Rightarrow> ('d \<Rightarrow> 'm abs_store) \<Rightarrow> ('m abs_store \<Rightarrow> 'm abs_store \<Rightarrow> bool) \<Rightarrow> ('d, unit) exec \<Rightarrow> 'd \<Rightarrow> bool" where
  "writes ok view R m d \<longleftrightarrow>
     (case m d of (r, d') \<Rightarrow> ok d' \<and> (case r of Inr _ \<Rightarrow> R (view d) (view d') | Inl _ \<Rightarrow> view d' = view d))"

locale storage_handler =
  fixes st :: "('d, 'ev, 'm) StorageHandler"
    and ok :: "'d \<Rightarrow> bool"
    and view :: "'d \<Rightarrow> 'm abs_store"
    and sig_text :: "Signature \<Rightarrow> string"
    and key_text :: "PublicKey \<Rightarrow> string"
  assumes push: "ok d \<Longrightarrow> push_room (length pts) (view d) \<Longrightarrow>
      writes ok view (\<lambda>s s'. s' = spec_push pts s) (sh_PushUnprocessedTransactions st pts) d"
    and finalize: "ok d \<Longrightarrow>
      writes ok view (\<lambda>s s'. as_queue s \<noteq> [] \<and> tp_TxSignature (hd (as_queue s)) = sig \<and> s' = spec_finalize s)
        (sh_FinalizeProcessedTransaction st sig) d"
    and set_processed: "ok d \<Longrightarrow>
      writes ok view (\<lambda>s s'. s' = s\<lparr>as_processed := p\<rparr>) (sh_SetLastProcessedTransaction st p) d"
    and set_queried: "ok d \<Longrightarrow>
      writes ok view (\<lambda>s s'. s' = s\<lparr>as_queried := p\<rparr>) (sh_StoreLatestQueriedTransaction st p) d"
    and set_finalized: "ok d \<Longrightarrow>
      writes ok view (\<lambda>s s'. s' = s\<lparr>as_finalized := n\<rparr>) (sh_StoreLatestFinalizedBlockNumber st n) d"
    and store_block: "ok d \<Longrightarrow>
      writes ok view (\<lambda>s s'. s' = spec_block bp s) (sh_StoreBlock st NilTx bp) d"
    and store_head: "ok d \<Longrightarrow>
      writes ok view (\<lambda>s s'. s' = s\<lparr>as_head := Some bp\<rparr>) (sh_StoreLatestBlockPoint st NilTx bp) d"
    and store_event: "ok d \<Longrightarrow> event_room 1 (view d) \<Longrightarrow>
      writes ok view (\<lambda>s s'. \<exists>m. s' = s\<lparr>as_events := as_events s @
          [event_record_of sig_text key_text (of_nat (Suc (length (as_events s)))) slot bn sig prog name hash m]\<rparr>)
        (sh_StoreEvent st NilTx slot bn sig prog name hash ev) d"
    and get_queue: "ok d \<Longrightarrow> sh_GetAllUnprocessedTransactions st d = Inr q \<Longrightarrow> q = as_queue (view d)"
    and get_processed: "ok d \<Longrightarrow> sh_GetLastProcessedTransaction st d = Inr p \<Longrightarrow> p = as_processed (view d)"
    and get_queried: "ok d \<Longrightarrow> sh_GetLatestQueriedTransaction st d = Inr p \<Longrightarrow> p = as_queried (view d)"
    and get_finalized: "ok d \<Longrightarrow> sh_GetLatestFinalizedBlockNumber st d = Inr n \<Longrightarrow> n = as_finalized (view d)"
    and get_head: "ok d \<Longrightarrow> sh_GetLatestBlockPoint st d = Inr b \<Longrightarrow> b = as_head (view d)"
    and get_hash: "ok d \<Longrightarrow> sh_GetBlockhashBySlot st slot d = Inr h \<Longrightarrow>
      \<exists>bp top. as_head (view d) = Some top \<and> slot \<le> bp_BlockSlot top \<and>
        latest_at (as_blocks (view d)) slot bp \<and> h = bp_BlockHash bp"
    and get_number: "ok d \<Longrightarrow> sh_GetBlockNumberByBlockhash st hash d = Inr n \<Longrightarrow> as_numbers (view d) hash = Some n"
    and get_events_slot: "ok d \<Longrightarrow> sh_GetEventsBySlot st slot d = Inr es \<Longrightarrow>
      es = filter (\<lambda>r. er_Slot r = slot) (as_events (view d))"
    and get_events_number: "ok d \<Longrightarrow> sh_GetEventsByBlockNumber st bn d = Inr es \<Longrightarrow>
      es = filter (\<lambda>r. er_BlockNumber r = bn) (as_events (view d))"
    and get_signatures: "ok d \<Longrightarrow> sh_GetProcessedTxSignaturesBySlot st slot d = Inr sigs \<Longrightarrow>
      map sig_text sigs = first_occurrences (map er_TxSignature (filter (\<lambda>r. er_Slot r = slot) (as_events (view d))))"
    and sig_text_inj: "sig_text s = sig_text s' \<Longrightarrow> s = s'"

end
