(* ===== verification/Bolt_Store.thy ===== *)
theory Bolt_Store
  imports Bolt_Api Storage_Interface
begin

text \<open>
  \<open>tracker/store/bolt_storage_handler.go\<close>: every operation of \<open>BoltStorageHandler\<close>, on
  the store interface of \<open>Bolt_Api\<close>. A method that writes is an \<open>exec\<close> over the
  database, a method that only reads is a function of it.
\<close>

section \<open>Codec and names\<close>

text \<open>
  The JSON of these types goes through the text marshallers of solana-go and through
  reflection, and its base58 strings are solana-go's: they are the codec, a parameter.
  \<open>'ev\<close> is the pointer to an event struct that \<open>StoreEvent\<close> is given, an \<open>any\<close>;
  \<open>json_event\<close> marshals the struct it points to.
\<close>

record ('ev, 'm) store_codec =
  json_BlockPoint :: "BlockPoint \<Rightarrow> go_error + bytes"
  unjson_BlockPoint :: "bytes \<Rightarrow> go_error + BlockPoint"
  json_event :: "'ev \<Rightarrow> go_error + bytes"
  unjson_map :: "bytes \<Rightarrow> go_error + 'm"
  json_EventRecord :: "'m EventRecord \<Rightarrow> go_error + bytes"
  unjson_EventRecord :: "bytes \<Rightarrow> go_error + 'm EventRecord"
  Signature_String :: "Signature \<Rightarrow> string"
  SignatureFromBase58 :: "string \<Rightarrow> go_error + Signature"
  PublicKey_String :: "PublicKey \<Rightarrow> string"

text \<open>The names of the buckets and of the fixed keys.\<close>

definition blocksBucket :: bytes where "blocksBucket = str_bytes ''blocks''"
definition blockHashToNumberBucket :: bytes where "blockHashToNumberBucket = str_bytes ''block_hash_to_number''"
definition latestBlockPointBucket :: bytes where "latestBlockPointBucket = str_bytes ''latestBlockPoint''"
definition unprocessedEventsBucket :: bytes where "unprocessedEventsBucket = str_bytes ''unprocessed_events''"
definition processedEventsBucket :: bytes where "processedEventsBucket = str_bytes ''processed_events''"
definition eventIDCounterBucket :: bytes where "eventIDCounterBucket = str_bytes ''event_id_counter''"
definition unprocessedTxSignaturesBucket :: bytes where
  "unprocessedTxSignaturesBucket = str_bytes ''unprocessed_tx_signatures''"
definition latestFinalizedBlockNumberBucket :: bytes where
  "latestFinalizedBlockNumberBucket = str_bytes ''latest_finalized_block_number''"
definition eventIDsByBlockNumberBucket :: bytes where
  "eventIDsByBlockNumberBucket = str_bytes ''event_ids_by_block_number''"
definition latestBlockPointKey :: bytes where "latestBlockPointKey = str_bytes ''latestBlockPointKey''"
definition unprocessedTxQueueHeadKey :: bytes where "unprocessedTxQueueHeadKey = str_bytes ''head''"
definition unprocessedTxQueueTailKey :: bytes where "unprocessedTxQueueTailKey = str_bytes ''tail''"
definition lastProcessedTxSignatureKey :: bytes where "lastProcessedTxSignatureKey = str_bytes ''last_processed''"
definition lastQueriedTxSignatureKey :: bytes where "lastQueriedTxSignatureKey = str_bytes ''last_queried''"
definition latestFinalizedBlockNumberKey :: bytes where
  "latestFinalizedBlockNumberKey = str_bytes ''latest_finalized_block_number_key''"
definition counterKey :: bytes where "counterKey = str_bytes ''counter''"

section \<open>Opening the store\<close>

definition bucket_creations :: "(bytes \<times> String.literal) list" where
  "bucket_creations =
     [(blocksBucket, STR ''cannot create the blocks bucket: %w''),
      (blockHashToNumberBucket, STR ''cannot create the blockHashToNumber bucket: %w''),
      (latestBlockPointBucket, STR ''cannot create the latestBlockPointBucket bucket: %w''),
      (unprocessedEventsBucket, STR ''cannot create the unprocessed events bucket: %w''),
      (processedEventsBucket, STR ''cannot create the processed events bucket: %w''),
      (eventIDCounterBucket, STR ''cannot create the event ID counter bucket: %w''),
      (unprocessedTxSignaturesBucket, STR ''cannot create the unprocessed tx signatures bucket: %w''),
      (latestFinalizedBlockNumberBucket, STR ''cannot create the latest finalized block number bucket: %w''),
      (eventIDsByBlockNumberBucket, STR ''cannot create the event IDs by block number bucket: %w'')]"

text \<open>\<open>bolt_Open\<close> is bbolt's \<open>Open\<close> on the path: the database in the file, or an error.\<close>

definition NewBoltStorageHandler :: "'d bolt_api \<Rightarrow> (string \<Rightarrow> go_error + 'd) \<Rightarrow> string \<Rightarrow> go_error + 'd" where
  "NewBoltStorageHandler api bolt_Open path =
     (case bolt_Open path of
        Inl e \<Rightarrow> Inl (wrapped STR ''cannot open bolt db: %w'' e)
      | Inr db \<Rightarrow>
          (case bUpdate api
                  (for_each (\<lambda>(b, msg). wrapE msg (bCreateBucketIfNotExists api b)) bucket_creations) db of
             (Inl e, _) \<Rightarrow> Inl e
           | (Inr _, db') \<Rightarrow> Inr db'))"

section \<open>Helpers\<close>

definition encodeUint64 :: "u64 \<Rightarrow> bytes" where
  "encodeUint64 v = be_bytes 8 v"

text \<open>\<open>binary.BigEndian.Uint64\<close> panics on fewer than 8 bytes and ignores bytes after them.\<close>

definition decodeUint64 :: "bytes \<Rightarrow> go_error + u64" where
  "decodeUint64 buf =
     (if length buf < 8 then Inl (GoPanic STR ''index out of range'') else Inr (be_word (take 8 buf)))"

definition run_in_tx :: "'d bolt_api \<Rightarrow> StorageTransaction \<Rightarrow> ('d, unit) exec \<Rightarrow> ('d, unit) exec" where
  "run_in_tx api tx storeFn =
     (case tx of
        NilTx \<Rightarrow> bUpdate api storeFn
      | BoltTx \<Rightarrow> storeFn
      | OtherTx \<Rightarrow> fail (Errorf STR ''unknown storage transaction type: %T''))"

definition need_bucket :: "'d bolt_api \<Rightarrow> bytes \<Rightarrow> String.literal \<Rightarrow> ('d, unit) exec" where
  "need_bucket api b msg = bind (gets (bBucket api b)) (\<lambda>found. if found then ret () else fail (Errorf msg))"

definition getNextEventID :: "'d bolt_api \<Rightarrow> ('d, u64) exec" where
  "getNextEventID api =
     bind (need_bucket api eventIDCounterBucket STR ''event ID counter bucket not found'') (\<lambda>_.
     bind (gets (bGet api eventIDCounterBucket counterKey)) (\<lambda>value.
     bind (case value of None \<Rightarrow> ret 1 | Some v \<Rightarrow> bind (liftR (decodeUint64 v)) (\<lambda>n. ret (n + 1))) (\<lambda>nextID.
     bind (wrapE STR ''failed to update event ID counter: %w''
             (bPut api eventIDCounterBucket counterKey (encodeUint64 nextID))) (\<lambda>_.
     ret nextID))))"

section \<open>Blocks\<close>

definition StoreBlock ::
  "'d bolt_api \<Rightarrow> ('ev, 'm) store_codec \<Rightarrow> StorageTransaction \<Rightarrow> BlockPoint \<Rightarrow> ('d, unit) exec" where
  "StoreBlock api codec tx bp =
     run_in_tx api tx
       (bind (need_bucket api blocksBucket STR ''cannot find blocks bucket'') (\<lambda>_.
        bind (need_bucket api blockHashToNumberBucket STR ''cannot find blockHashToNumber bucket'') (\<lambda>_.
        bind (wrapE STR ''cannot marshal block point: %w'' (liftR (json_BlockPoint codec bp))) (\<lambda>data.
        bind (wrapE STR ''cannot persist block point for slot %d: %w''
                (bPut api blocksBucket (encodeUint64 (bp_BlockSlot bp)) data)) (\<lambda>_.
        wrapE STR ''cannot persist block hash index for slot %d: %w''
          (bPut api blockHashToNumberBucket (key_bytes (bp_BlockHash bp)) (encodeUint64 (bp_BlockNumber bp))))))))"

text \<open>\<open>tx.Bucket(latestBlockPointBucket).Get\<close> dereferences a nil bucket when it is missing.\<close>

definition GetLatestBlockPoint ::
  "'d bolt_api \<Rightarrow> ('ev, 'm) store_codec \<Rightarrow> 'd \<Rightarrow> go_error + BlockPoint option" where
  "GetLatestBlockPoint api codec = view_with api (\<lambda>d.
     if \<not> bBucket api latestBlockPointBucket d then Inl (GoPanic STR ''nil pointer dereference'')
     else
       (case bGet api latestBlockPointBucket latestBlockPointKey d of
          None \<Rightarrow> Inr None
        | Some data \<Rightarrow>
            if data = [] then Inr None
            else (case unjson_BlockPoint codec data of Inl e \<Rightarrow> Inl e | Inr bp \<Rightarrow> Inr (Some bp))))"

text \<open>The loop \<open>for s := slot; ; s--\<close>, on the value of \<open>s\<close>.\<close>

fun block_walk :: "'d bolt_api \<Rightarrow> ('ev, 'm) store_codec \<Rightarrow> 'd \<Rightarrow> nat \<Rightarrow> go_error + Hash" where
  "block_walk api codec d s =
     (case bGet api blocksBucket (encodeUint64 (of_nat s)) d of
        None \<Rightarrow>
          (case s of
             0 \<Rightarrow> Inl (Errorf STR ''no block hash found at or before slot %d'')
           | Suc s' \<Rightarrow> block_walk api codec d s')
      | Some v \<Rightarrow>
          (case unjson_BlockPoint codec v of
             Inl e \<Rightarrow> Inl (wrapped STR ''cannot unmarshal block point at slot %d: %w'' e)
           | Inr entry \<Rightarrow> Inr (bp_BlockHash entry)))"

declare block_walk.simps [simp del]

definition GetBlockhashBySlot ::
  "'d bolt_api \<Rightarrow> ('ev, 'm) store_codec \<Rightarrow> u64 \<Rightarrow> 'd \<Rightarrow> go_error + Hash" where
  "GetBlockhashBySlot api codec slot d =
     (case GetLatestBlockPoint api codec d of
        Inl e \<Rightarrow> Inl (wrapped STR ''cannot read latest block point: %w'' e)
      | Inr None \<Rightarrow> Inl (Errorf STR ''no chain head stored yet'')
      | Inr (Some bp) \<Rightarrow>
          if slot > bp_BlockSlot bp
          then Inl (Errorf STR ''slot %d is beyond chain head (head slot is %d)'')
          else
            view_with api (\<lambda>d.
              if \<not> bBucket api blocksBucket d then Inl (Errorf STR ''cannot find blocks bucket'')
              else block_walk api codec d (unat slot)) d)"

definition GetBlockNumberByBlockhash :: "'d bolt_api \<Rightarrow> Hash \<Rightarrow> 'd \<Rightarrow> go_error + u64" where
  "GetBlockNumberByBlockhash api hash = view_with api (\<lambda>d.
     if \<not> bBucket api blockHashToNumberBucket d then Inl (Errorf STR ''cannot find blockHashToNumber bucket'')
     else
       (case bGet api blockHashToNumberBucket (key_bytes hash) d of
          None \<Rightarrow> Inl (Errorf STR ''no block number found for block hash %s'')
        | Some value \<Rightarrow>
            if length value \<noteq> 8 then Inl (Errorf STR ''invalid block number encoding for block hash %s'')
            else decodeUint64 value))"

definition StoreLatestBlockPoint ::
  "'d bolt_api \<Rightarrow> ('ev, 'm) store_codec \<Rightarrow> StorageTransaction \<Rightarrow> BlockPoint \<Rightarrow> ('d, unit) exec" where
  "StoreLatestBlockPoint api codec tx blockPoint =
     run_in_tx api tx
       (bind (need_bucket api latestBlockPointBucket STR ''cannot find latestBlockPoint bucket'') (\<lambda>_.
        bind (wrapE STR ''could not marshal latest block point: %w'' (liftR (json_BlockPoint codec blockPoint))) (\<lambda>bytes.
        wrapE STR ''latest block point write error: %w''
          (bPut api latestBlockPointBucket latestBlockPointKey bytes))))"

definition StoreLatestFinalizedBlockNumber :: "'d bolt_api \<Rightarrow> u64 \<Rightarrow> ('d, unit) exec" where
  "StoreLatestFinalizedBlockNumber api blockNumber =
     bUpdate api
       (bind (need_bucket api latestFinalizedBlockNumberBucket STR ''cannot find latestFinalizedBlockNumber bucket'') (\<lambda>_.
        wrapE STR ''cannot store latest finalized block number: %w''
          (bPut api latestFinalizedBlockNumberBucket latestFinalizedBlockNumberKey (encodeUint64 blockNumber))))"

definition GetLatestFinalizedBlockNumber :: "'d bolt_api \<Rightarrow> 'd \<Rightarrow> go_error + u64" where
  "GetLatestFinalizedBlockNumber api = view_with api (\<lambda>d.
     if \<not> bBucket api latestFinalizedBlockNumberBucket d
     then Inl (Errorf STR ''cannot find latestFinalizedBlockNumber bucket'')
     else
       (case bGet api latestFinalizedBlockNumberBucket latestFinalizedBlockNumberKey d of
          None \<Rightarrow> Inr 0
        | Some bnBytes \<Rightarrow> if bnBytes = [] then Inr 0 else decodeUint64 bnBytes))"

section \<open>Events\<close>

definition appendEventIDForBlockNumber :: "'d bolt_api \<Rightarrow> u64 \<Rightarrow> u64 \<Rightarrow> ('d, unit) exec" where
  "appendEventIDForBlockNumber api blockNumber eventID =
     bind (need_bucket api eventIDsByBlockNumberBucket STR ''event IDs by block number bucket not found'') (\<lambda>_.
     bind (gets (bGet api eventIDsByBlockNumberBucket (encodeUint64 blockNumber))) (\<lambda>existing.
     wrapE STR ''cannot index event %d under block %d: %w''
       (bPut api eventIDsByBlockNumberBucket (encodeUint64 blockNumber)
         ((case existing of None \<Rightarrow> [] | Some ids \<Rightarrow> ids) @ encodeUint64 eventID))))"

definition StoreEvent ::
  "'d bolt_api \<Rightarrow> ('ev, 'm) store_codec \<Rightarrow> StorageTransaction \<Rightarrow> u64 \<Rightarrow> u64 \<Rightarrow> Signature \<Rightarrow> PublicKey \<Rightarrow>
   string \<Rightarrow> Hash \<Rightarrow> 'ev \<Rightarrow> ('d, unit) exec" where
  "StoreEvent api codec tx slot blockNumber txSignature programID eventName innerActionHash eventData =
     run_in_tx api tx
       (bind (getNextEventID api) (\<lambda>eventID.
        bind (need_bucket api unprocessedEventsBucket STR ''unprocessed events bucket not found'') (\<lambda>_.
        bind (wrapE STR ''cannot serialize event data: %w'' (liftR (json_event codec eventData))) (\<lambda>eventDataValue.
        bind (wrapE STR ''cannot convert event data to map: %w'' (liftR (unjson_map codec eventDataValue))) (\<lambda>dataMap.
        bind (wrapE STR ''cannot marshal event record: %w''
                (liftR (json_EventRecord codec
                  \<lparr>er_ID = eventID, er_Slot = slot, er_BlockNumber = blockNumber,
                   er_TxSignature = Signature_String codec txSignature,
                   er_Program = PublicKey_String codec programID,
                   er_EventType = eventName, er_InnerActionHash = innerActionHash, er_Data = dataMap\<rparr>))) (\<lambda>recordBytes.
        bind (wrapE STR ''cannot persist event record %d: %w''
                (bPut api unprocessedEventsBucket (encodeUint64 eventID) recordBytes)) (\<lambda>_.
        appendEventIDForBlockNumber api blockNumber eventID)))))))"

text \<open>The cursor loop over one bucket, appending to \<open>results\<close>.\<close>

fun events_by_slot_loop ::
  "('ev, 'm) store_codec \<Rightarrow> u64 \<Rightarrow> (bytes \<times> bytes) list \<Rightarrow> 'm EventRecord list \<Rightarrow>
   go_error + 'm EventRecord list" where
  "events_by_slot_loop codec slot [] results = Inr results"
| "events_by_slot_loop codec slot ((k, v) # rest) results =
     (case unjson_EventRecord codec v of
        Inl e \<Rightarrow> Inl (wrapped STR ''failed to unmarshal event record: %w'' e)
      | Inr record \<Rightarrow>
          events_by_slot_loop codec slot rest
            (if er_Slot record = slot then results @ [record] else results))"

fun events_by_slot_buckets ::
  "'d bolt_api \<Rightarrow> ('ev, 'm) store_codec \<Rightarrow> u64 \<Rightarrow> 'd \<Rightarrow> bytes list \<Rightarrow> 'm EventRecord list \<Rightarrow>
   go_error + 'm EventRecord list" where
  "events_by_slot_buckets api codec slot d [] results = Inr results"
| "events_by_slot_buckets api codec slot d (b # rest) results =
     (if \<not> bBucket api b d then events_by_slot_buckets api codec slot d rest results
      else
        (case events_by_slot_loop codec slot (bEntries api b d) results of
           Inl e \<Rightarrow> Inl e
         | Inr results' \<Rightarrow> events_by_slot_buckets api codec slot d rest results'))"

definition GetEventsBySlot ::
  "'d bolt_api \<Rightarrow> ('ev, 'm) store_codec \<Rightarrow> u64 \<Rightarrow> 'd \<Rightarrow> go_error + 'm EventRecord list" where
  "GetEventsBySlot api codec slot = view_with api (\<lambda>d.
     events_by_slot_buckets api codec slot d [unprocessedEventsBucket, processedEventsBucket] [])"

text \<open>\<open>seen\<close> holds the signatures that are already in the result.\<close>

fun signatures_loop ::
  "('ev, 'm) store_codec \<Rightarrow> 'm EventRecord list \<Rightarrow> Signature set \<Rightarrow> Signature list \<Rightarrow> go_error + Signature list" where
  "signatures_loop codec [] seen signatures = Inr signatures"
| "signatures_loop codec (record # rest) seen signatures =
     (case SignatureFromBase58 codec (er_TxSignature record) of
        Inl e \<Rightarrow> Inl (wrapped STR ''invalid tx signature %q in event %d: %w'' e)
      | Inr txSignature \<Rightarrow>
          if txSignature \<in> seen then signatures_loop codec rest seen signatures
          else signatures_loop codec rest (insert txSignature seen) (signatures @ [txSignature]))"

definition GetProcessedTxSignaturesBySlot ::
  "'d bolt_api \<Rightarrow> ('ev, 'm) store_codec \<Rightarrow> u64 \<Rightarrow> 'd \<Rightarrow> go_error + Signature list" where
  "GetProcessedTxSignaturesBySlot api codec slot d =
     (case GetEventsBySlot api codec slot d of
        Inl e \<Rightarrow> Inl e
      | Inr records \<Rightarrow> signatures_loop codec records {} [])"

fun event_ids_loop :: "bytes \<Rightarrow> u64 list" where
  "event_ids_loop data =
     (if data = [] then [] else be_word (take 8 data) # event_ids_loop (drop 8 data))"

declare event_ids_loop.simps [simp del]

definition decodeEventIDs :: "bytes \<Rightarrow> go_error + u64 list" where
  "decodeEventIDs data =
     (if length data mod 8 \<noteq> 0 then Inl (Errorf STR ''invalid event ID list length %d'')
      else Inr (event_ids_loop data))"

fun events_by_id_loop ::
  "'d bolt_api \<Rightarrow> ('ev, 'm) store_codec \<Rightarrow> 'd \<Rightarrow> u64 list \<Rightarrow> 'm EventRecord list \<Rightarrow>
   go_error + 'm EventRecord list" where
  "events_by_id_loop api codec d [] results = Inr results"
| "events_by_id_loop api codec d (eventID # rest) results =
     (let key = encodeUint64 eventID;
          from_bucket = (\<lambda>b. if bBucket api b d then bGet api b key d else None);
          raw = (case from_bucket unprocessedEventsBucket of
                   Some v \<Rightarrow> Some v
                 | None \<Rightarrow> from_bucket processedEventsBucket)
      in
      case raw of
        None \<Rightarrow> Inl (Errorf STR ''event %d indexed under block %d is missing'')
      | Some v \<Rightarrow>
          (case unjson_EventRecord codec v of
             Inl e \<Rightarrow> Inl (wrapped STR ''failed to unmarshal event record %d: %w'' e)
           | Inr record \<Rightarrow> events_by_id_loop api codec d rest (results @ [record])))"

definition GetEventsByBlockNumber ::
  "'d bolt_api \<Rightarrow> ('ev, 'm) store_codec \<Rightarrow> u64 \<Rightarrow> 'd \<Rightarrow> go_error + 'm EventRecord list" where
  "GetEventsByBlockNumber api codec blockNumber = view_with api (\<lambda>d.
     if \<not> bBucket api eventIDsByBlockNumberBucket d
     then Inl (Errorf STR ''event IDs by block number bucket not found'')
     else
       (case bGet api eventIDsByBlockNumberBucket (encodeUint64 blockNumber) d of
          None \<Rightarrow> Inr []
        | Some data \<Rightarrow>
            (case decodeEventIDs data of
               Inl e \<Rightarrow> Inl (wrapped STR ''corrupt event index for block %d: %w'' e)
             | Inr eventIDs \<Rightarrow> events_by_id_loop api codec d eventIDs [])))"

section \<open>The queue of unprocessed transactions\<close>

record txQueueBounds =
  tq_head :: u64
  tq_tail :: u64

abbreviation txBucket :: bytes where "txBucket \<equiv> unprocessedTxSignaturesBucket"

definition need_tx_bucket :: "'d bolt_api \<Rightarrow> 'd \<Rightarrow> go_error + unit" where
  "need_tx_bucket api d =
     (if bBucket api txBucket d then Inr ()
      else Inl (Errorf STR ''unprocessed tx signatures bucket not found''))"

definition bound_at :: "'d bolt_api \<Rightarrow> bytes \<Rightarrow> 'd \<Rightarrow> go_error + u64" where
  "bound_at api key d = (case bGet api txBucket key d of None \<Rightarrow> Inr 0 | Some v \<Rightarrow> decodeUint64 v)"

definition loadTxQueueBounds :: "'d bolt_api \<Rightarrow> 'd \<Rightarrow> go_error + txQueueBounds" where
  "loadTxQueueBounds api d =
     (case bound_at api unprocessedTxQueueHeadKey d of
        Inl e \<Rightarrow> Inl e
      | Inr h \<Rightarrow>
          (case bound_at api unprocessedTxQueueTailKey d of
             Inl e \<Rightarrow> Inl e
           | Inr t \<Rightarrow> Inr \<lparr>tq_head = h, tq_tail = t\<rparr>))"

definition storeTxQueueHead :: "'d bolt_api \<Rightarrow> u64 \<Rightarrow> ('d, unit) exec" where
  "storeTxQueueHead api h = bPut api txBucket unprocessedTxQueueHeadKey (encodeUint64 h)"

definition storeTxQueueTail :: "'d bolt_api \<Rightarrow> u64 \<Rightarrow> ('d, unit) exec" where
  "storeTxQueueTail api t = bPut api txBucket unprocessedTxQueueTailKey (encodeUint64 t)"

definition encodeTxPoint :: "TxPoint \<Rightarrow> bytes" where
  "encodeTxPoint txPoint = sig_bytes (tp_TxSignature txPoint) @ encodeUint64 (tp_Slot txPoint)"

text \<open>A missing value is a nil slice of length 0.\<close>

definition txPointFromBucketValue :: "bytes option \<Rightarrow> go_error + TxPoint" where
  "txPointFromBucketValue value =
     (let data = (case value of None \<Rightarrow> [] | Some v \<Rightarrow> v); sigLen = 64 in
      if length data \<noteq> sigLen \<and> length data \<noteq> sigLen + 8
      then Inl (Errorf STR ''invalid tx point length %d'')
      else
        (let sig = be_word (take sigLen data) in
         if length data > sigLen
         then (case decodeUint64 (drop sigLen data) of
                 Inl e \<Rightarrow> Inl e
               | Inr slot \<Rightarrow> Inr \<lparr>tp_TxSignature = sig, tp_Slot = slot\<rparr>)
         else Inr \<lparr>tp_TxSignature = sig, tp_Slot = 0\<rparr>))"

fun push_loop :: "'d bolt_api \<Rightarrow> TxPoint list \<Rightarrow> u64 \<Rightarrow> ('d, u64) exec" where
  "push_loop api [] tail = ret tail"
| "push_loop api (txPoint # rest) tail =
     bind (wrapE STR ''cannot store unprocessed tx signature: %w''
             (bPut api txBucket (encodeUint64 tail) (encodeTxPoint txPoint))) (\<lambda>_.
     push_loop api rest (tail + 1))"

definition PushUnprocessedTransactions :: "'d bolt_api \<Rightarrow> TxPoint list \<Rightarrow> ('d, unit) exec" where
  "PushUnprocessedTransactions api txPoints =
     (let nonEmpty = filter (\<lambda>txPoint. tp_TxSignature txPoint \<noteq> 0) txPoints in
      if nonEmpty = [] then ret ()
      else
        bUpdate api
          (bind (\<lambda>d. (need_tx_bucket api d, d)) (\<lambda>_.
           bind (\<lambda>d. (loadTxQueueBounds api d, d)) (\<lambda>bounds.
           bind (push_loop api nonEmpty (tq_tail bounds)) (\<lambda>tail.
           storeTxQueueTail api tail)))))"

definition removeTransactionInBucket :: "'d bolt_api \<Rightarrow> Signature \<Rightarrow> ('d, TxPoint) exec" where
  "removeTransactionInBucket api txSignature =
     bind (\<lambda>d. (loadTxQueueBounds api d, d)) (\<lambda>bounds.
     if tq_head bounds \<ge> tq_tail bounds then fail (Errorf STR ''no unprocessed transactions to remove'')
     else
       (let headKey = encodeUint64 (tq_head bounds) in
        bind (wrapE STR ''corrupt unprocessed tx queue at index %d: %w''
                (\<lambda>d. (txPointFromBucketValue (bGet api txBucket headKey d), d))) (\<lambda>front.
        if tp_TxSignature front \<noteq> txSignature
        then fail (Errorf STR ''transaction %s is not at the front of the unprocessed queue (front is %s)'')
        else
          bind (wrapE STR ''cannot remove unprocessed tx signature: %w'' (bDelete api txBucket headKey)) (\<lambda>_.
          bind (storeTxQueueHead api (tq_head bounds + 1)) (\<lambda>_.
          ret front)))))"

definition setLastProcessedTransactionInBucket :: "'d bolt_api \<Rightarrow> TxPoint \<Rightarrow> ('d, unit) exec" where
  "setLastProcessedTransactionInBucket api txPoint =
     bPut api txBucket lastProcessedTxSignatureKey (encodeTxPoint txPoint)"

text \<open>The loop \<open>for i := head; i < tail; i++\<close>, on the indexes it visits.\<close>

fun queue_loop :: "'d bolt_api \<Rightarrow> 'd \<Rightarrow> nat list \<Rightarrow> TxPoint list \<Rightarrow> go_error + TxPoint list" where
  "queue_loop api d [] result = Inr result"
| "queue_loop api d (i # is) result =
     (case txPointFromBucketValue (bGet api txBucket (encodeUint64 (of_nat i)) d) of
        Inl e \<Rightarrow> Inl (wrapped STR ''corrupt unprocessed tx queue at index %d: %w'' e)
      | Inr txPoint \<Rightarrow> queue_loop api d is (result @ [txPoint]))"

definition GetAllUnprocessedTransactions :: "'d bolt_api \<Rightarrow> 'd \<Rightarrow> go_error + TxPoint list" where
  "GetAllUnprocessedTransactions api = view_with api (\<lambda>d.
     case need_tx_bucket api d of
       Inl e \<Rightarrow> Inl e
     | Inr _ \<Rightarrow>
         (case loadTxQueueBounds api d of
            Inl e \<Rightarrow> Inl e
          | Inr bounds \<Rightarrow>
              if tq_tail bounds < tq_head bounds
              then Inl (Errorf STR ''corrupt unprocessed tx queue: tail %d < head %d'')
              else queue_loop api d [unat (tq_head bounds)..<unat (tq_tail bounds)] []))"

definition SetLastProcessedTransaction :: "'d bolt_api \<Rightarrow> TxPoint \<Rightarrow> ('d, unit) exec" where
  "SetLastProcessedTransaction api txPoint =
     bUpdate api
       (bind (\<lambda>d. (need_tx_bucket api d, d)) (\<lambda>_. setLastProcessedTransactionInBucket api txPoint))"

definition FinalizeProcessedTransaction :: "'d bolt_api \<Rightarrow> Signature \<Rightarrow> ('d, unit) exec" where
  "FinalizeProcessedTransaction api txSignature =
     bUpdate api
       (bind (\<lambda>d. (need_tx_bucket api d, d)) (\<lambda>_.
        bind (removeTransactionInBucket api txSignature) (\<lambda>txPoint.
        setLastProcessedTransactionInBucket api txPoint)))"

definition StoreLatestQueriedTransaction :: "'d bolt_api \<Rightarrow> TxPoint \<Rightarrow> ('d, unit) exec" where
  "StoreLatestQueriedTransaction api txPoint =
     bUpdate api
       (bind (\<lambda>d. (need_tx_bucket api d, d)) (\<lambda>_.
        bPut api txBucket lastQueriedTxSignatureKey (encodeTxPoint txPoint)))"

definition getTxPointByKey :: "'d bolt_api \<Rightarrow> bytes \<Rightarrow> 'd \<Rightarrow> go_error + TxPoint" where
  "getTxPointByKey api key = view_with api (\<lambda>d.
     case need_tx_bucket api d of
       Inl e \<Rightarrow> Inl e
     | Inr _ \<Rightarrow>
         (case bGet api txBucket key d of
            None \<Rightarrow> Inr zero_TxPoint
          | Some data \<Rightarrow> txPointFromBucketValue (Some data)))"

definition GetLastProcessedTransaction :: "'d bolt_api \<Rightarrow> 'd \<Rightarrow> go_error + TxPoint" where
  "GetLastProcessedTransaction api = getTxPointByKey api lastProcessedTxSignatureKey"

definition GetLatestQueriedTransaction :: "'d bolt_api \<Rightarrow> 'd \<Rightarrow> go_error + TxPoint" where
  "GetLatestQueriedTransaction api = getTxPointByKey api lastQueriedTxSignatureKey"

end
