(* ===== verification/Bolt_Keys.thy ===== *)
theory Bolt_Keys
  imports Bolt_Store
begin

text \<open>
  The keys of the BoltDB store: the buckets and fixed keys are pairwise distinct, an index
  key never collides with a fixed key, and big-endian index keys sort like their numbers.
\<close>

section \<open>Keys\<close>

text \<open>
  The buckets that the operations of the store use. The list is the specification's own: that
  \<open>NewBoltStorageHandler\<close> creates every one of them is the theorem of C38.
\<close>

definition all_buckets :: "bytes list" where
  "all_buckets =
     [blocksBucket, blockHashToNumberBucket, latestBlockPointBucket, latestFinalizedBlockNumberBucket,
      eventIDCounterBucket, unprocessedEventsBucket, processedEventsBucket, unprocessedTxSignaturesBucket,
      eventIDsByBlockNumberBucket]"

lemmas bucket_names =
  blocksBucket_def blockHashToNumberBucket_def latestBlockPointBucket_def unprocessedEventsBucket_def
  processedEventsBucket_def eventIDCounterBucket_def unprocessedTxSignaturesBucket_def
  latestFinalizedBlockNumberBucket_def eventIDsByBlockNumberBucket_def

lemma distinct_all_buckets: "distinct all_buckets"
  by code_simp

lemma buckets_differ [simp]:
  "blocksBucket \<noteq> blockHashToNumberBucket" "blocksBucket \<noteq> latestBlockPointBucket"
  "blocksBucket \<noteq> unprocessedEventsBucket" "blocksBucket \<noteq> processedEventsBucket"
  "blocksBucket \<noteq> eventIDCounterBucket" "blocksBucket \<noteq> unprocessedTxSignaturesBucket"
  "blocksBucket \<noteq> latestFinalizedBlockNumberBucket" "blocksBucket \<noteq> eventIDsByBlockNumberBucket"
  "blockHashToNumberBucket \<noteq> blocksBucket" "blockHashToNumberBucket \<noteq> latestBlockPointBucket"
  "blockHashToNumberBucket \<noteq> unprocessedEventsBucket" "blockHashToNumberBucket \<noteq> processedEventsBucket"
  "blockHashToNumberBucket \<noteq> eventIDCounterBucket"
  "blockHashToNumberBucket \<noteq> unprocessedTxSignaturesBucket"
  "blockHashToNumberBucket \<noteq> latestFinalizedBlockNumberBucket"
  "blockHashToNumberBucket \<noteq> eventIDsByBlockNumberBucket" "latestBlockPointBucket \<noteq> blocksBucket"
  "latestBlockPointBucket \<noteq> blockHashToNumberBucket" "latestBlockPointBucket \<noteq> unprocessedEventsBucket"
  "latestBlockPointBucket \<noteq> processedEventsBucket" "latestBlockPointBucket \<noteq> eventIDCounterBucket"
  "latestBlockPointBucket \<noteq> unprocessedTxSignaturesBucket"
  "latestBlockPointBucket \<noteq> latestFinalizedBlockNumberBucket"
  "latestBlockPointBucket \<noteq> eventIDsByBlockNumberBucket" "unprocessedEventsBucket \<noteq> blocksBucket"
  "unprocessedEventsBucket \<noteq> blockHashToNumberBucket" "unprocessedEventsBucket \<noteq> latestBlockPointBucket"
  "unprocessedEventsBucket \<noteq> processedEventsBucket" "unprocessedEventsBucket \<noteq> eventIDCounterBucket"
  "unprocessedEventsBucket \<noteq> unprocessedTxSignaturesBucket"
  "unprocessedEventsBucket \<noteq> latestFinalizedBlockNumberBucket"
  "unprocessedEventsBucket \<noteq> eventIDsByBlockNumberBucket" "processedEventsBucket \<noteq> blocksBucket"
  "processedEventsBucket \<noteq> blockHashToNumberBucket" "processedEventsBucket \<noteq> latestBlockPointBucket"
  "processedEventsBucket \<noteq> unprocessedEventsBucket" "processedEventsBucket \<noteq> eventIDCounterBucket"
  "processedEventsBucket \<noteq> unprocessedTxSignaturesBucket"
  "processedEventsBucket \<noteq> latestFinalizedBlockNumberBucket"
  "processedEventsBucket \<noteq> eventIDsByBlockNumberBucket" "eventIDCounterBucket \<noteq> blocksBucket"
  "eventIDCounterBucket \<noteq> blockHashToNumberBucket" "eventIDCounterBucket \<noteq> latestBlockPointBucket"
  "eventIDCounterBucket \<noteq> unprocessedEventsBucket" "eventIDCounterBucket \<noteq> processedEventsBucket"
  "eventIDCounterBucket \<noteq> unprocessedTxSignaturesBucket"
  "eventIDCounterBucket \<noteq> latestFinalizedBlockNumberBucket"
  "eventIDCounterBucket \<noteq> eventIDsByBlockNumberBucket" "unprocessedTxSignaturesBucket \<noteq> blocksBucket"
  "unprocessedTxSignaturesBucket \<noteq> blockHashToNumberBucket"
  "unprocessedTxSignaturesBucket \<noteq> latestBlockPointBucket"
  "unprocessedTxSignaturesBucket \<noteq> unprocessedEventsBucket"
  "unprocessedTxSignaturesBucket \<noteq> processedEventsBucket"
  "unprocessedTxSignaturesBucket \<noteq> eventIDCounterBucket"
  "unprocessedTxSignaturesBucket \<noteq> latestFinalizedBlockNumberBucket"
  "unprocessedTxSignaturesBucket \<noteq> eventIDsByBlockNumberBucket"
  "latestFinalizedBlockNumberBucket \<noteq> blocksBucket"
  "latestFinalizedBlockNumberBucket \<noteq> blockHashToNumberBucket"
  "latestFinalizedBlockNumberBucket \<noteq> latestBlockPointBucket"
  "latestFinalizedBlockNumberBucket \<noteq> unprocessedEventsBucket"
  "latestFinalizedBlockNumberBucket \<noteq> processedEventsBucket"
  "latestFinalizedBlockNumberBucket \<noteq> eventIDCounterBucket"
  "latestFinalizedBlockNumberBucket \<noteq> unprocessedTxSignaturesBucket"
  "latestFinalizedBlockNumberBucket \<noteq> eventIDsByBlockNumberBucket"
  "eventIDsByBlockNumberBucket \<noteq> blocksBucket" "eventIDsByBlockNumberBucket \<noteq> blockHashToNumberBucket"
  "eventIDsByBlockNumberBucket \<noteq> latestBlockPointBucket"
  "eventIDsByBlockNumberBucket \<noteq> unprocessedEventsBucket"
  "eventIDsByBlockNumberBucket \<noteq> processedEventsBucket"
  "eventIDsByBlockNumberBucket \<noteq> eventIDCounterBucket"
  "eventIDsByBlockNumberBucket \<noteq> unprocessedTxSignaturesBucket"
  "eventIDsByBlockNumberBucket \<noteq> latestFinalizedBlockNumberBucket"
  using distinct_all_buckets distinct_rev [of all_buckets]
  by (simp_all add: all_buckets_def)

lemma length_encodeUint64 [simp]: "length (encodeUint64 v) = 8"
  by (simp add: encodeUint64_def)

lemma encodeUint64_nonempty [simp]: "encodeUint64 v \<noteq> []"
  by (metis length_encodeUint64 list.size(3) zero_neq_numeral)

lemma encodeUint64_inject [simp]: "encodeUint64 v = encodeUint64 w \<longleftrightarrow> v = w"
  by (simp add: encodeUint64_def be_bytes_inject)

lemma be_word_encodeUint64 [simp]: "be_word (encodeUint64 v) = v"
  by (simp add: encodeUint64_def be_word_be_bytes)

lemma decodeUint64_encodeUint64 [simp]: "decodeUint64 (encodeUint64 v) = Inr v"
  by (simp add: decodeUint64_def)

lemma fixed_key_lengths [simp]:
  "length unprocessedTxQueueHeadKey = 4" "length unprocessedTxQueueTailKey = 4"
  "length lastProcessedTxSignatureKey = 14" "length lastQueriedTxSignatureKey = 12"
  by (simp_all add: unprocessedTxQueueHeadKey_def unprocessedTxQueueTailKey_def
      lastProcessedTxSignatureKey_def lastQueriedTxSignatureKey_def)

lemma fixed_keys_differ [simp]:
  "unprocessedTxQueueHeadKey \<noteq> unprocessedTxQueueTailKey" "unprocessedTxQueueTailKey \<noteq> unprocessedTxQueueHeadKey"
  "lastProcessedTxSignatureKey \<noteq> lastQueriedTxSignatureKey" "lastQueriedTxSignatureKey \<noteq> lastProcessedTxSignatureKey"
  "lastProcessedTxSignatureKey \<noteq> unprocessedTxQueueHeadKey" "lastProcessedTxSignatureKey \<noteq> unprocessedTxQueueTailKey"
  "lastQueriedTxSignatureKey \<noteq> unprocessedTxQueueHeadKey" "lastQueriedTxSignatureKey \<noteq> unprocessedTxQueueTailKey"
  "unprocessedTxQueueHeadKey \<noteq> lastProcessedTxSignatureKey" "unprocessedTxQueueTailKey \<noteq> lastProcessedTxSignatureKey"
  "unprocessedTxQueueHeadKey \<noteq> lastQueriedTxSignatureKey" "unprocessedTxQueueTailKey \<noteq> lastQueriedTxSignatureKey"
  by code_simp+

lemma encoded_key_not_fixed [simp]:
  "encodeUint64 v \<noteq> unprocessedTxQueueHeadKey" "encodeUint64 v \<noteq> unprocessedTxQueueTailKey"
  "encodeUint64 v \<noteq> lastProcessedTxSignatureKey" "encodeUint64 v \<noteq> lastQueriedTxSignatureKey"
  "unprocessedTxQueueHeadKey \<noteq> encodeUint64 v" "unprocessedTxQueueTailKey \<noteq> encodeUint64 v"
  "lastProcessedTxSignatureKey \<noteq> encodeUint64 v" "lastQueriedTxSignatureKey \<noteq> encodeUint64 v"
  by (auto dest!: arg_cong [where f = length])

text \<open>Big-endian keys are ordered like the numbers they hold, so a cursor visits them in that order.\<close>

lemma be_bytes_Suc: "be_bytes (Suc n) w = be_bytes n (drop_bit 8 w) @ [ucast w]"
  by (simp add: be_bytes_def)

lemma lexord_append_same_length:
  fixes xs ys :: "'a::order list"
  shows "length xs = length ys \<Longrightarrow> xs @ [a] < ys @ [b] \<longleftrightarrow> xs < ys \<or> xs = ys \<and> a < b"
  by (induction xs ys rule: list_induct2) (auto simp: list_less_def lexord_simps)

lemma unat_drop_bit_8: "unat (drop_bit 8 (w :: u64)) = unat w div 256"
  by (simp add: drop_bit_eq_div unat_div)

lemma be_bytes_eq_iff:
  fixes v w :: u64
  assumes "unat v < 256 ^ n" "unat w < 256 ^ n"
  shows "be_bytes n v = be_bytes n w \<longleftrightarrow> v = w"
proof -
  have "take_bit (8 * n) x = x" if "unat x < 256 ^ n" for x :: u64
  proof -
    have "(256 :: nat) ^ n = 2 ^ (8 * n)" by (simp add: power_mult)
    with that have "take_bit (8 * n) (unat x) = unat x" by (simp add: take_bit_nat_eq_self)
    then have "unat (take_bit (8 * n) x) = unat x" by (simp only: unsigned_take_bit_eq)
    then show ?thesis by (simp only: word_unat_eq_iff)
  qed
  with assms show ?thesis by (metis be_bytes_def le_word_le_bytes_take_bit rev_is_rev_conv)
qed

lemma nat_less_div_mod: "(a :: nat) < b \<longleftrightarrow> a div c < b div c \<or> a div c = b div c \<and> a mod c < b mod c"
proof (cases rule: linorder_cases [of "a div c" "b div c"])
  case less
  then show ?thesis by (meson div_le_mono leD leI)
next
  case equal
  then show ?thesis by (metis add_less_cancel_left less_irrefl mult_div_mod_eq)
next
  case greater
  then show ?thesis by (metis div_le_mono leD less_imp_le order_less_imp_not_eq2)
qed

lemma be_bytes_less_iff:
  fixes v w :: u64
  assumes "unat v < 256 ^ n" "unat w < 256 ^ n"
  shows "be_bytes n v < be_bytes n w \<longleftrightarrow> v < w"
  using assms
proof (induction n arbitrary: v w)
  case 0
  then show ?case by (simp add: be_bytes_def unat_eq_0)
next
  case (Suc n)
  have bytes: "unat (ucast x :: byte) = unat x mod 256" for x :: u64
    by (simp add: unsigned_ucast_eq take_bit_eq_mod)
  have "unat v div 256 < 256 ^ n" "unat w div 256 < 256 ^ n"
    using Suc.prems by (auto simp: less_mult_imp_div_less mult.commute)
  then have IH: "be_bytes n (drop_bit 8 v) < be_bytes n (drop_bit 8 w) \<longleftrightarrow> unat v div 256 < unat w div 256"
    "be_bytes n (drop_bit 8 v) = be_bytes n (drop_bit 8 w) \<longleftrightarrow> unat v div 256 = unat w div 256"
    using Suc.IH [of "drop_bit 8 v" "drop_bit 8 w"] be_bytes_eq_iff [of "drop_bit 8 v" n "drop_bit 8 w"]
    by (simp_all only: unat_drop_bit_8 word_less_nat_alt word_unat_eq_iff)
  have "v < w \<longleftrightarrow> unat v div 256 < unat w div 256 \<or> unat v div 256 = unat w div 256 \<and> unat v mod 256 < unat w mod 256"
    unfolding word_less_nat_alt by (rule nat_less_div_mod)
  moreover have "(ucast v :: byte) < ucast w \<longleftrightarrow> unat v mod 256 < unat w mod 256"
    by (simp only: word_less_nat_alt bytes)
  moreover have "length (be_bytes n (drop_bit 8 v)) = length (be_bytes n (drop_bit 8 w))" by simp
  ultimately show ?case
    by (simp only: be_bytes_Suc lexord_append_same_length IH)
qed

lemma encodeUint64_less_iff: "encodeUint64 v < encodeUint64 w \<longleftrightarrow> v < w"
proof -
  have "unat x < 256 ^ 8" for x :: u64
    using unsigned_less [of x, where ?'a = nat] by simp
  then show ?thesis by (simp add: encodeUint64_def be_bytes_less_iff)
qed

end
