(* ===== verification/Bolt_Refinement.thy ===== *)
theory Bolt_Refinement
  imports Bolt_Keys
begin

text \<open>
  The BoltDB handler keeps the contract of the storage interface. The content of the database
  is read as an abstract state (\<open>bolt_view\<close>) under an invariant (\<open>bolt_ok\<close>); every
  operation of \<open>Bolt_Store\<close> is shown to implement its specification from the laws of the
  store and of the codec.
\<close>

section \<open>The abstract state of a database\<close>

text \<open>What the buckets hold; every reader but the event cursor sees the database through it.\<close>

type_synonym bucket = "bytes \<Rightarrow> bytes option"
type_synonym content = "bytes \<Rightarrow> bucket"

definition content_of :: "'d bolt_api \<Rightarrow> 'd \<Rightarrow> content" where
  "content_of api d = (\<lambda>b k. bGet api b k d)"

definition number_in :: "bucket \<Rightarrow> bytes \<Rightarrow> u64" where
  "number_in c key = (case c key of None \<Rightarrow> 0 | Some v \<Rightarrow> be_word (take 8 v))"

definition point_in :: "bucket \<Rightarrow> bytes \<Rightarrow> TxPoint" where
  "point_in c key =
     (case c key of
        None \<Rightarrow> zero_TxPoint
      | Some v \<Rightarrow> (case txPointFromBucketValue (Some v) of Inl _ \<Rightarrow> zero_TxPoint | Inr p \<Rightarrow> p))"

definition index_key :: "nat \<Rightarrow> bytes" where
  "index_key i = encodeUint64 (of_nat i)"

definition queue_head :: "bucket \<Rightarrow> nat" where
  "queue_head c = unat (number_in c unprocessedTxQueueHeadKey)"

definition queue_tail :: "bucket \<Rightarrow> nat" where
  "queue_tail c = unat (number_in c unprocessedTxQueueTailKey)"

definition queue_in :: "bucket \<Rightarrow> TxPoint list" where
  "queue_in c = map (\<lambda>i. point_in c (index_key i)) [queue_head c..<queue_tail c]"

definition block_in :: "('ev, 'm) store_codec \<Rightarrow> bucket \<Rightarrow> bytes \<Rightarrow> BlockPoint option" where
  "block_in codec c key =
     (case c key of
        None \<Rightarrow> None
      | Some v \<Rightarrow> (case unjson_BlockPoint codec v of Inl _ \<Rightarrow> None | Inr bp \<Rightarrow> Some bp))"

definition event_count :: "content \<Rightarrow> nat" where
  "event_count C = unat (number_in (C eventIDCounterBucket) counterKey)"

definition event_in :: "('ev, 'm) store_codec \<Rightarrow> content \<Rightarrow> nat \<Rightarrow> 'm EventRecord" where
  "event_in codec C i =
     (case unjson_EventRecord codec (the (C unprocessedEventsBucket (index_key i))) of
        Inl _ \<Rightarrow> undefined
      | Inr r \<Rightarrow> r)"

definition event_numbers :: "nat \<Rightarrow> nat list" where
  "event_numbers n = [1..<Suc n]"

definition events_in :: "('ev, 'm) store_codec \<Rightarrow> content \<Rightarrow> 'm EventRecord list" where
  "events_in codec C = map (event_in codec C) (event_numbers (event_count C))"

definition content_view :: "('ev, 'm) store_codec \<Rightarrow> content \<Rightarrow> 'm abs_store" where
  "content_view codec C =
     \<lparr>as_queue = queue_in (C txBucket),
      as_popped = queue_head (C txBucket),
      as_processed = point_in (C txBucket) lastProcessedTxSignatureKey,
      as_queried = point_in (C txBucket) lastQueriedTxSignatureKey,
      as_finalized = number_in (C latestFinalizedBlockNumberBucket) latestFinalizedBlockNumberKey,
      as_head = block_in codec (C latestBlockPointBucket) latestBlockPointKey,
      as_blocks = (\<lambda>s. block_in codec (C blocksBucket) (encodeUint64 s)),
      as_numbers = (\<lambda>h. map_option (\<lambda>v. be_word (take 8 v)) (C blockHashToNumberBucket (key_bytes h))),
      as_events = events_in codec C\<rparr>"

definition bolt_view :: "'d bolt_api \<Rightarrow> ('ev, 'm) store_codec \<Rightarrow> 'd \<Rightarrow> 'm abs_store" where
  "bolt_view api codec d = content_view codec (content_of api d)"

section \<open>The invariant\<close>

definition holds_number :: "bucket \<Rightarrow> bytes \<Rightarrow> bool" where
  "holds_number c key \<longleftrightarrow> (\<forall>v. c key = Some v \<longrightarrow> length v = 8)"

definition holds_point :: "bucket \<Rightarrow> bytes \<Rightarrow> bool" where
  "holds_point c key \<longleftrightarrow> (\<exists>p. txPointFromBucketValue (c key) = Inr p)"

definition tx_ok :: "bucket \<Rightarrow> bool" where
  "tx_ok c \<longleftrightarrow>
     holds_number c unprocessedTxQueueHeadKey \<and> holds_number c unprocessedTxQueueTailKey
     \<and> queue_head c \<le> queue_tail c
     \<and> (\<forall>i. queue_head c \<le> i \<longrightarrow> i < queue_tail c \<longrightarrow> holds_point c (index_key i))
     \<and> (c lastProcessedTxSignatureKey = None \<or> holds_point c lastProcessedTxSignatureKey)
     \<and> (c lastQueriedTxSignatureKey = None \<or> holds_point c lastQueriedTxSignatureKey)"

definition holds_block :: "('ev, 'm) store_codec \<Rightarrow> bucket \<Rightarrow> bytes \<Rightarrow> bool" where
  "holds_block codec c key \<longleftrightarrow>
     (\<forall>v. c key = Some v \<longrightarrow> v \<noteq> [] \<and> (\<exists>bp. unjson_BlockPoint codec v = Inr bp))"

definition blocks_ok :: "('ev, 'm) store_codec \<Rightarrow> content \<Rightarrow> bool" where
  "blocks_ok codec C \<longleftrightarrow>
     holds_block codec (C latestBlockPointBucket) latestBlockPointKey
     \<and> (\<forall>s. holds_block codec (C blocksBucket) (encodeUint64 s))
     \<and> (\<forall>h. holds_number (C blockHashToNumberBucket) (key_bytes h))
     \<and> holds_number (C latestFinalizedBlockNumberBucket) latestFinalizedBlockNumberKey"

text \<open>
  The records are stored under the keys 1 to the counter and no other, no event is ever moved
  to the bucket of processed events, and the index of a block number lists the IDs of exactly
  its events in order.
\<close>

definition events_ok :: "('ev, 'm) store_codec \<Rightarrow> content \<Rightarrow> bool" where
  "events_ok codec C \<longleftrightarrow>
     holds_number (C eventIDCounterBucket) counterKey
     \<and> (\<forall>i. 1 \<le> i \<longrightarrow> i \<le> event_count C \<longrightarrow>
          (\<exists>v r s. C unprocessedEventsBucket (index_key i) = Some v \<and> unjson_EventRecord codec v = Inr r
             \<and> er_ID r = of_nat i \<and> er_TxSignature r = Signature_String codec s))
     \<and> (\<forall>k. C unprocessedEventsBucket k \<noteq> None \<longrightarrow> (\<exists>i. 1 \<le> i \<and> i \<le> event_count C \<and> k = index_key i))
     \<and> (\<forall>k. C processedEventsBucket k = None)
     \<and> (\<forall>bn. (case C eventIDsByBlockNumberBucket (encodeUint64 bn) of None \<Rightarrow> [] | Some v \<Rightarrow> v)
          = concat (map index_key (filter (\<lambda>i. er_BlockNumber (event_in codec C i) = bn) (event_numbers (event_count C)))))"

definition content_ok :: "('ev, 'm) store_codec \<Rightarrow> content \<Rightarrow> bool" where
  "content_ok codec C \<longleftrightarrow> tx_ok (C txBucket) \<and> blocks_ok codec C \<and> events_ok codec C"

definition bolt_ok :: "'d bolt_api \<Rightarrow> ('ev, 'm) store_codec \<Rightarrow> 'd \<Rightarrow> bool" where
  "bolt_ok api codec d \<longleftrightarrow> (\<forall>b \<in> set all_buckets. bBucket api b d) \<and> content_ok codec (content_of api d)"

lemma set_event_numbers [simp]: "set (event_numbers n) = {1..n}"
  and length_event_numbers [simp]: "length (event_numbers n) = n"
  and event_numbers_0 [simp]: "event_numbers 0 = []"
  by (auto simp: event_numbers_def)

lemma event_numbers_Suc: "event_numbers (Suc n) = event_numbers n @ [Suc n]"
  by (simp add: event_numbers_def)

section \<open>Round trips of the values\<close>

lemma decode_TxPoint [simp]: "txPointFromBucketValue (Some (encodeTxPoint p)) = Inr p"
  by (simp add: txPointFromBucketValue_def encodeTxPoint_def Let_def sig_bytes_def be_word_be_bytes)

lemma decode_legacy_TxPoint: "txPointFromBucketValue (Some (sig_bytes s)) = Inr \<lparr>tp_TxSignature = s, tp_Slot = 0\<rparr>"
  by (simp add: txPointFromBucketValue_def Let_def sig_bytes_def be_word_be_bytes)

text \<open>
  A stored transaction point is read back unchanged, and the 64 bytes of a signature,
  written before slots were persisted, read as that signature with slot 0; data of any other
  length than 64 and 72 is an error, not a point.
\<close>

theorem txPointFromBucketValue_roundtrip:
  "txPointFromBucketValue (Some (encodeTxPoint p)) = Inr p
   \<and> txPointFromBucketValue (Some (sig_bytes s)) = Inr \<lparr>tp_TxSignature = s, tp_Slot = 0\<rparr>
   \<and> ((\<exists>q. txPointFromBucketValue v = Inr q) = (\<exists>data. v = Some data \<and> length data \<in> {64, 72}))"
proof (intro conjI)
  show "txPointFromBucketValue (Some (encodeTxPoint p)) = Inr p" by simp
  show "txPointFromBucketValue (Some (sig_bytes s)) = Inr \<lparr>tp_TxSignature = s, tp_Slot = 0\<rparr>"
    by (rule decode_legacy_TxPoint)
  show "(\<exists>q. txPointFromBucketValue v = Inr q) = (\<exists>data. v = Some data \<and> length data \<in> {64, 72})"
    by (auto simp: txPointFromBucketValue_def decodeUint64_def Let_def split: option.splits)
qed

lemma number_in_upd [simp]: "number_in (c(key \<mapsto> encodeUint64 n)) key = n"
  and number_in_other [simp]: "key \<noteq> key' \<Longrightarrow> number_in (c(key' := x)) key = number_in c key"
  by (simp_all add: number_in_def)

lemma point_in_upd [simp]: "point_in (c(key \<mapsto> encodeTxPoint p)) key = p"
  and point_in_other [simp]: "key \<noteq> key' \<Longrightarrow> point_in (c(key' := x)) key = point_in c key"
  by (simp_all add: point_in_def)

lemma holds_number_upd [simp]: "holds_number (c(key \<mapsto> encodeUint64 n)) key"
  and holds_number_other [simp]: "key \<noteq> key' \<Longrightarrow> holds_number (c(key' := x)) key = holds_number c key"
  by (simp_all add: holds_number_def)

lemma holds_point_upd [simp]: "holds_point (c(key \<mapsto> encodeTxPoint p)) key"
  and holds_point_other [simp]: "key \<noteq> key' \<Longrightarrow> holds_point (c(key' := x)) key = holds_point c key"
  by (simp_all add: holds_point_def)

lemma unat_of_nat_u64: "unat (of_nat n :: u64) = n mod 2 ^ 64"
  by (simp add: unsigned_of_nat take_bit_eq_mod)

lemma unat_plus_1: "unat (t :: u64) + 1 < 2 ^ 64 \<Longrightarrow> unat (t + 1) = Suc (unat t)"
  using unat_add_lem [of t 1] by simp

lemma index_key_inject: "i < 2 ^ 64 \<Longrightarrow> j < 2 ^ 64 \<Longrightarrow> index_key i = index_key j \<longleftrightarrow> i = j"
  unfolding index_key_def encodeUint64_inject
  by (metis mod_less unat_of_nat_u64)

lemma index_key_not_fixed [simp]:
  "index_key i \<noteq> unprocessedTxQueueHeadKey" "index_key i \<noteq> unprocessedTxQueueTailKey"
  "index_key i \<noteq> lastProcessedTxSignatureKey" "index_key i \<noteq> lastQueriedTxSignatureKey"
  "unprocessedTxQueueHeadKey \<noteq> index_key i" "unprocessedTxQueueTailKey \<noteq> index_key i"
  "lastProcessedTxSignatureKey \<noteq> index_key i" "lastQueriedTxSignatureKey \<noteq> index_key i"
  by (simp_all add: index_key_def)

lemma queue_bounds_less: "queue_head c < 2 ^ 64" "queue_tail c < 2 ^ 64"
  using unsigned_less [of "number_in c unprocessedTxQueueHeadKey", where ?'a = nat]
    unsigned_less [of "number_in c unprocessedTxQueueTailKey", where ?'a = nat]
  by (simp_all add: queue_head_def queue_tail_def)

lemma of_nat_unat_u64 [simp]: "of_nat (unat (x :: u64)) = x"
  by simp

section \<open>The laws on contents\<close>

locale bolt_handler = bolt_store api for api :: "'d bolt_api" +
  fixes codec :: "('ev, 'm) store_codec"
  assumes block_codec: "json_BlockPoint codec bp = Inr v \<Longrightarrow> v \<noteq> [] \<and> unjson_BlockPoint codec v = Inr bp"
    and record_codec: "json_EventRecord codec r = Inr v \<Longrightarrow> unjson_EventRecord codec v = Inr r"
    and signature_codec: "SignatureFromBase58 codec (Signature_String codec s) = Inr s"
begin

abbreviation ok :: "'d \<Rightarrow> bool" where "ok \<equiv> bolt_ok api codec"
abbreviation view :: "'d \<Rightarrow> 'm abs_store" where "view \<equiv> bolt_view api codec"
abbreviation cont :: "'d \<Rightarrow> content" where "cont \<equiv> content_of api"

text \<open>What one successful write does to the content and to the buckets.\<close>

definition wrote :: "'d \<Rightarrow> 'd \<Rightarrow> content \<Rightarrow> bool" where
  "wrote d d' C \<longleftrightarrow> (\<forall>b. bBucket api b d' = bBucket api b d) \<and> cont d' = C"

lemma put_wrote:
  "bPut api b k v d = (Inr (), d') \<Longrightarrow> bBucket api b d \<Longrightarrow> wrote d d' ((cont d)(b := (cont d b)(k \<mapsto> v)))"
  by (auto simp: wrote_def content_of_def put_bucket put_get fun_eq_iff)

lemma delete_wrote:
  "bDelete api b k d = (Inr (), d') \<Longrightarrow> bBucket api b d \<Longrightarrow> wrote d d' ((cont d)(b := (cont d b)(k := None)))"
  by (auto simp: wrote_def content_of_def delete_bucket delete_get fun_eq_iff)

lemma wrote_trans: "wrote d d1 C \<Longrightarrow> wrote d1 d2 C' \<Longrightarrow> wrote d d2 C'"
  by (simp add: wrote_def)

lemma wrote_cont: "wrote d d' C \<Longrightarrow> cont d' = C"
  by (simp add: wrote_def)

lemma wrote_bucket: "wrote d d' C \<Longrightarrow> bBucket api b d' = bBucket api b d"
  by (simp add: wrote_def)

lemma bGet_cont: "bGet api b k d = cont d b k"
  by (simp add: content_of_def)

text \<open>
  To show that an update implements its specification it is enough to look at a function
  that returned nil, and to compute the content it left.
\<close>

lemma writes_update:
  assumes "ok d"
    and "\<And>d'. f d = (Inr (), d') \<Longrightarrow> \<exists>C. wrote d d' C \<and> content_ok codec C \<and> R (view d) (content_view codec C)"
  shows "writes ok view R (bUpdate api f) d"
proof -
  obtain r d' where u: "bUpdate api f d = (r, d')" by (cases "bUpdate api f d")
  show ?thesis
  proof (cases r)
    case (Inl e)
    with u have "d' = d" using update_Inl by blast
    with u Inl assms(1) show ?thesis by (simp add: writes_def)
  next
    case (Inr a)
    with u have "f d = (Inr (), d')" using update_Inr by simp
    from assms(2) [OF this] obtain C
      where C: "wrote d d' C" "content_ok codec C" "R (view d) (content_view codec C)" by auto
    have "cont d' = C" using C(1) by (rule wrote_cont)
    with C have "ok d'" "view d' = content_view codec C"
      using assms(1) by (auto simp: bolt_ok_def bolt_view_def wrote_bucket)
    with C(3) Inr u show ?thesis by (simp add: writes_def)
  qed
qed

lemma need_bucket_Inr_iff: "need_bucket api b msg d = (Inr u, d') \<longleftrightarrow> bBucket api b d \<and> d' = d"
  by (auto simp: need_bucket_def exec_defs)

lemma need_tx_bucket_Inr_iff: "need_tx_bucket api d = Inr u \<longleftrightarrow> bBucket api txBucket d"
  by (simp add: need_tx_bucket_def)

lemma ok_bucket: "ok d \<Longrightarrow> b \<in> set all_buckets \<Longrightarrow> bBucket api b d"
  by (simp add: bolt_ok_def)

end

end
