(* ===== verification/Bolt_Queue.thy ===== *)
theory Bolt_Queue
  imports Bolt_Refinement
begin

text \<open>
  The transaction queue and the two cursors: their operations implement the abstract queue.
\<close>

section \<open>Changing the bucket of the queue\<close>

lemma content_view_tx:
  "content_view codec (C(txBucket := c)) =
     (content_view codec C)\<lparr>as_queue := queue_in c, as_popped := queue_head c,
       as_processed := point_in c lastProcessedTxSignatureKey, as_queried := point_in c lastQueriedTxSignatureKey\<rparr>"
  by (simp add: content_view_def events_in_def event_in_def event_count_def)

lemma content_ok_tx:
  "content_ok codec C \<Longrightarrow> content_ok codec (C(txBucket := c)) = tx_ok c"
  by (simp add: content_ok_def blocks_ok_def events_ok_def event_in_def event_count_def)

lemma content_ok_txD: "content_ok codec C \<Longrightarrow> tx_ok (C txBucket)"
  by (simp add: content_ok_def)

lemma queue_in_fixed [simp]:
  assumes "key \<notin> {unprocessedTxQueueHeadKey, unprocessedTxQueueTailKey}" "\<forall>i. key \<noteq> index_key i"
  shows "queue_in (c(key := x)) = queue_in c" "queue_head (c(key := x)) = queue_head c"
    "queue_tail (c(key := x)) = queue_tail c"
  using assms by (simp_all add: queue_in_def queue_head_def queue_tail_def not_sym)

section \<open>Pushing\<close>

text \<open>The entries a push writes, from index \<open>n\<close> on.\<close>

fun put_entries :: "bucket \<Rightarrow> nat \<Rightarrow> TxPoint list \<Rightarrow> bucket" where
  "put_entries c n [] = c"
| "put_entries c n (p # ps) = put_entries (c(index_key n \<mapsto> encodeTxPoint p)) (Suc n) ps"

lemma put_entries_other: "\<forall>i. key \<noteq> index_key i \<Longrightarrow> put_entries c n ps key = c key"
  by (induction ps arbitrary: c n) auto

lemma put_entries_index:
  "n + length ps \<le> 2 ^ 64 \<Longrightarrow> i < 2 ^ 64 \<Longrightarrow>
     put_entries c n ps (index_key i) =
       (if n \<le> i \<and> i < n + length ps then Some (encodeTxPoint (ps ! (i - n))) else c (index_key i))"
proof (induction ps arbitrary: c n)
  case Nil
  then show ?case by auto
next
  case (Cons p ps)
  have "n < 2 ^ 64" using Cons.prems(1) by simp
  with Cons.prems Cons.IH [of "Suc n"] show ?case
    by (auto simp: index_key_inject nth_Cons' Suc_le_eq)
qed

definition pushed :: "bucket \<Rightarrow> TxPoint list \<Rightarrow> bucket" where
  "pushed c ps = (put_entries c (queue_tail c) ps)
     (unprocessedTxQueueTailKey \<mapsto> encodeUint64 (of_nat (queue_tail c + length ps)))"

lemma pushed_fixed:
  "\<forall>i. key \<noteq> index_key i \<Longrightarrow> key \<noteq> unprocessedTxQueueTailKey \<Longrightarrow> pushed c ps key = c key"
  by (simp add: pushed_def put_entries_other)

lemma pushed_head: "queue_head (pushed c ps) = queue_head c"
  by (simp add: queue_head_def number_in_def pushed_fixed)

lemma pushed_tail: "queue_tail c + length ps < 2 ^ 64 \<Longrightarrow> queue_tail (pushed c ps) = queue_tail c + length ps"
  by (simp add: queue_tail_def pushed_def unat_of_nat_u64 del: of_nat_add)

lemma pushed_index:
  "queue_tail c + length ps < 2 ^ 64 \<Longrightarrow> i < 2 ^ 64 \<Longrightarrow>
     pushed c ps (index_key i) =
       (if queue_tail c \<le> i \<and> i < queue_tail c + length ps then Some (encodeTxPoint (ps ! (i - queue_tail c)))
        else c (index_key i))"
proof -
  assume h: "queue_tail c + length ps < 2 ^ 64" "i < 2 ^ 64"
  have "pushed c ps (index_key i) = put_entries c (queue_tail c) ps (index_key i)"
    unfolding pushed_def by (rule fun_upd_other) (rule index_key_not_fixed)
  then show ?thesis
    using put_entries_index [OF less_imp_le [OF h(1)] h(2)] by (rule trans)
qed

lemma queue_in_pushed:
  assumes room: "queue_tail c + length ps < 2 ^ 64" and order: "queue_head c \<le> queue_tail c"
  shows "queue_in (pushed c ps) = queue_in c @ ps"
proof -
  let ?h = "queue_head c" and ?t = "queue_tail c" and ?n = "length ps"
  have "[?t..<?t + ?n] = map (\<lambda>j. j + ?t) [0..<?n]"
    by (simp only: map_add_upt add.commute [of ?t])
  then have split: "[?h..<?t + ?n] = [?h..<?t] @ map (\<lambda>j. j + ?t) [0..<?n]"
    using upt_add_eq_append [OF order, of ?n] by simp
  have "point_in (pushed c ps) (index_key i) = point_in c (index_key i)" if "i < ?t" for i
    using that room pushed_index [OF room, of i] by (simp add: point_in_def)
  moreover have "point_in (pushed c ps) (index_key (j + ?t)) = ps ! j" if "j < ?n" for j
    using that room pushed_index [OF room, of "j + ?t"] by (simp add: point_in_def)
  ultimately show ?thesis
    by (simp add: queue_in_def pushed_head pushed_tail [OF room] split map_nth cong: map_cong)
      (rule nth_equalityI, simp_all)
qed

lemma tx_ok_pushed:
  assumes "tx_ok c" and room: "queue_tail c + length ps < 2 ^ 64"
  shows "tx_ok (pushed c ps)"
proof -
  have "holds_point (pushed c ps) (index_key i)" if "queue_head c \<le> i" "i < queue_tail c + length ps" for i
    using assms(1) that room pushed_index [OF room, of i]
    by (cases "i < queue_tail c") (auto simp: holds_point_def tx_ok_def)
  moreover have "pushed c ps lastProcessedTxSignatureKey = c lastProcessedTxSignatureKey"
    "pushed c ps lastQueriedTxSignatureKey = c lastQueriedTxSignatureKey"
    "pushed c ps unprocessedTxQueueHeadKey = c unprocessedTxQueueHeadKey"
    by (simp_all add: pushed_fixed)
  moreover have "holds_number (pushed c ps) unprocessedTxQueueTailKey" by (simp add: pushed_def)
  ultimately show ?thesis
    using assms(1) by (simp add: tx_ok_def pushed_head pushed_tail [OF room] holds_number_def holds_point_def)
qed

section \<open>Popping\<close>

definition popped :: "bucket \<Rightarrow> bucket" where
  "popped c = c(index_key (queue_head c) := None,
     unprocessedTxQueueHeadKey \<mapsto> encodeUint64 (of_nat (Suc (queue_head c))),
     lastProcessedTxSignatureKey \<mapsto> encodeTxPoint (point_in c (index_key (queue_head c))))"

lemma popped_facts:
  assumes "tx_ok c" "queue_head c < queue_tail c"
  shows "queue_in c = point_in c (index_key (queue_head c)) # queue_in (popped c)"
    and "queue_head (popped c) = Suc (queue_head c)"
    and "tx_ok (popped c)"
    and "point_in (popped c) lastProcessedTxSignatureKey = hd (queue_in c)"
    and "point_in (popped c) lastQueriedTxSignatureKey = point_in c lastQueriedTxSignatureKey"
proof -
  let ?h = "queue_head c" and ?t = "queue_tail c"
  have "Suc ?h < 2 ^ 64" using assms(2) queue_bounds_less(2) [of c] by simp
  then show head: "queue_head (popped c) = Suc ?h"
    by (simp add: queue_head_def popped_def unat_of_nat_u64 del: of_nat_Suc)
  have tail: "queue_tail (popped c) = ?t"
    by (simp add: queue_tail_def number_in_def popped_def)
  have entry: "popped c (index_key i) = c (index_key i)" if "?h < i" "i < ?t" for i
    using that queue_bounds_less [of c] by (simp add: popped_def index_key_inject)
  show queue: "queue_in c = point_in c (index_key ?h) # queue_in (popped c)"
    using assms(2) entry by (auto simp: queue_in_def head tail upt_conv_Cons point_in_def)
  show "point_in (popped c) lastProcessedTxSignatureKey = hd (queue_in c)"
    by (simp add: queue) (simp add: popped_def)
  show "point_in (popped c) lastQueriedTxSignatureKey = point_in c lastQueriedTxSignatureKey"
    by (simp add: popped_def)
  have "holds_point (popped c) (index_key i)" if "?h < i" "i < ?t" for i
    using assms(1) that entry [OF that] by (simp add: tx_ok_def holds_point_def)
  then show "tx_ok (popped c)"
    using assms unfolding tx_ok_def head tail
    by (auto simp: popped_def holds_number_def holds_point_def)
qed

section \<open>The operations\<close>

lemma txBucket_in_all [simp]: "txBucket \<in> set all_buckets"
  by (simp add: all_buckets_def)

lemma pure_read_Inr_iff: "(\<lambda>d. (f d, d)) d = (Inr a, d') \<longleftrightarrow> f d = Inr a \<and> d' = d"
  by auto

context bolt_handler
begin

lemma load_bounds:
  "loadTxQueueBounds api d = Inr bounds \<Longrightarrow>
     bounds = \<lparr>tq_head = number_in (cont d txBucket) unprocessedTxQueueHeadKey,
               tq_tail = number_in (cont d txBucket) unprocessedTxQueueTailKey\<rparr>"
  by (auto simp: loadTxQueueBounds_def bound_at_def decodeUint64_def number_in_def bGet_cont
      split: sum.splits option.splits if_splits)

lemma push_loop_wrote:
  "push_loop api ps t d = (Inr t', d') \<Longrightarrow> bBucket api txBucket d \<Longrightarrow> unat t + length ps < 2 ^ 64 \<Longrightarrow>
     wrote d d' ((cont d)(txBucket := put_entries (cont d txBucket) (unat t) ps))
     \<and> t' = of_nat (unat t + length ps)"
proof (induction ps arbitrary: t d)
  case Nil
  then show ?case by (simp add: ret_def wrote_def)
next
  case (Cons p ps)
  from Cons.prems(1) obtain d1 where
    put: "bPut api txBucket (encodeUint64 t) (encodeTxPoint p) d = (Inr (), d1)"
    and rest: "push_loop api ps (t + 1) d1 = (Inr t', d')"
    by (auto simp: bind_Inr_iff wrapE_Inr_iff)
  have w1: "wrote d d1 ((cont d)(txBucket := (cont d txBucket)(encodeUint64 t \<mapsto> encodeTxPoint p)))"
    using put_wrote [OF put Cons.prems(2)] .
  have t1: "unat (t + 1) = Suc (unat t)"
    using Cons.prems(3) by (intro unat_plus_1) simp
  have c1: "(cont d1)(txBucket := put_entries (cont d1 txBucket) (unat (t + 1)) ps)
      = (cont d)(txBucket := put_entries (cont d txBucket) (unat t) (p # ps))"
    unfolding wrote_cont [OF w1] t1 by (simp add: index_key_def)
  have "bBucket api txBucket d1" "unat (t + 1) + length ps < 2 ^ 64"
    using Cons.prems(2,3) w1 t1 by (simp_all add: wrote_bucket)
  note IH = Cons.IH [OF rest this, unfolded c1]
  have "t' = of_nat (unat t + length (p # ps))" using IH [THEN conjunct2] by (simp add: t1)
  then show ?case using wrote_trans [OF w1 IH [THEN conjunct1]] by (rule conjI [rotated])
qed

lemma push_writes:
  assumes d: "ok d" and room: "push_room (length pts) (view d)"
  shows "writes ok view (\<lambda>s s'. s' = spec_push pts s) (PushUnprocessedTransactions api pts) d"
proof -
  define ps where "ps = filter (\<lambda>p. tp_TxSignature p \<noteq> 0) pts"
  show ?thesis
  proof (cases "ps = []")
    case True
    then show ?thesis using d
      by (simp add: PushUnprocessedTransactions_def ps_def writes_def spec_push_def ret_def)
  next
    case False
    let ?c = "cont d txBucket"
    have tx: "tx_ok ?c" and cok: "content_ok codec (cont d)"
      using d by (auto simp: bolt_ok_def dest: content_ok_txD)
    have bucket: "bBucket api txBucket d" using d by (simp add: ok_bucket)
    have "length ps \<le> length pts" by (simp add: ps_def)
    then have fits: "queue_tail ?c + length ps < 2 ^ 64"
      using room tx by (simp add: push_room_def bolt_view_def content_view_def queue_in_def tx_ok_def)
    show ?thesis
      unfolding PushUnprocessedTransactions_def Let_def ps_def [symmetric] if_not_P [OF False]
    proof (rule writes_update [OF d])
      fix d'
      assume "bind (\<lambda>d. (need_tx_bucket api d, d)) (\<lambda>_. bind (\<lambda>d. (loadTxQueueBounds api d, d))
        (\<lambda>bounds. bind (push_loop api ps (tq_tail bounds)) (storeTxQueueTail api))) d = (Inr (), d')"
      then obtain bounds t d1 where b: "loadTxQueueBounds api d = Inr bounds"
        and loop: "push_loop api ps (tq_tail bounds) d = (Inr t, d1)"
        and tail: "storeTxQueueTail api t d1 = (Inr (), d')"
        by (auto simp: bind_Inr_iff)
      have bt: "unat (tq_tail bounds) = queue_tail ?c" using load_bounds [OF b] by (simp add: queue_tail_def)
      note w = push_loop_wrote [OF loop bucket, unfolded bt, OF fits]
      have "wrote d1 d' ((cont d1)(txBucket := (cont d1 txBucket)(unprocessedTxQueueTailKey \<mapsto> encodeUint64 t)))"
        using tail w bucket by (auto simp: storeTxQueueTail_def wrote_bucket intro: put_wrote)
      with w have "wrote d d' ((cont d)(txBucket := pushed ?c ps))"
        by (auto simp: wrote_cont pushed_def dest: wrote_trans)
      then show "\<exists>C. wrote d d' C \<and> content_ok codec C \<and> content_view codec C = spec_push pts (view d)"
        using cok tx tx_ok_pushed [OF tx fits]
        by (intro exI [of _ "(cont d)(txBucket := pushed ?c ps)"])
          (simp add: content_ok_tx content_view_tx queue_in_pushed [OF fits] tx_ok_def pushed_head bolt_view_def
            spec_push_def ps_def [symmetric] point_in_def pushed_fixed, simp add: content_view_def point_in_def)
    qed
  qed
qed

text \<open>The reads of the queue under the invariant.\<close>

lemma load_bounds_ok:
  assumes "tx_ok (cont d txBucket)"
  shows "loadTxQueueBounds api d = Inr \<lparr>tq_head = number_in (cont d txBucket) unprocessedTxQueueHeadKey,
               tq_tail = number_in (cont d txBucket) unprocessedTxQueueTailKey\<rparr>"
  using assms
  by (auto simp: loadTxQueueBounds_def bound_at_def decodeUint64_def number_in_def bGet_cont tx_ok_def holds_number_def
      split: option.splits)

lemma point_in_Inr: "txPointFromBucketValue (c key) = Inr p \<Longrightarrow> point_in c key = p"
  by (cases "c key") (simp_all add: point_in_def txPointFromBucketValue_def)

lemma queue_loop_Inr:
  "queue_loop api d is acc = Inr q \<Longrightarrow> q = acc @ map (\<lambda>i. point_in (cont d txBucket) (index_key i)) is"
proof (induction "is" arbitrary: acc)
  case Nil
  then show ?case by simp
next
  case (Cons i js)
  from Cons.prems obtain p where "txPointFromBucketValue (cont d txBucket (index_key i)) = Inr p"
    and rest: "queue_loop api d js (acc @ [p]) = Inr q"
    by (auto simp: bGet_cont index_key_def split: sum.splits)
  then have "point_in (cont d txBucket) (index_key i) = p" by (simp add: point_in_Inr)
  with Cons.IH [OF rest] show ?case by simp
qed

lemma queue_loop_ok:
  "\<forall>i \<in> set is. holds_point (cont d txBucket) (index_key i) \<Longrightarrow> \<exists>q. queue_loop api d is acc = Inr q"
  by (induction "is" arbitrary: acc) (auto simp: bGet_cont index_key_def holds_point_def split: sum.splits)

lemma removeTransactionInBucket_wrote:
  assumes rm: "removeTransactionInBucket api sig d = (Inr p, d')" and bucket: "bBucket api txBucket d"
    and tx: "tx_ok (cont d txBucket)"
  shows "queue_head (cont d txBucket) < queue_tail (cont d txBucket)"
    and "p = point_in (cont d txBucket) (index_key (queue_head (cont d txBucket)))" and "tp_TxSignature p = sig"
    and "wrote d d' ((cont d)(txBucket := (cont d txBucket)(index_key (queue_head (cont d txBucket)) := None,
           unprocessedTxQueueHeadKey \<mapsto> encodeUint64 (of_nat (Suc (queue_head (cont d txBucket)))))))"
proof -
  let ?c = "cont d txBucket"
  let ?hd = "number_in ?c unprocessedTxQueueHeadKey" and ?tl = "number_in ?c unprocessedTxQueueTailKey"
  have keys: "encodeUint64 ?hd = index_key (queue_head ?c)" "?hd + 1 = of_nat (Suc (queue_head ?c))"
    by (simp_all add: index_key_def queue_head_def add.commute)
  from rm obtain d1 where lt: "\<not> ?hd \<ge> ?tl"
    and p: "txPointFromBucketValue (bGet api txBucket (encodeUint64 ?hd) d) = Inr p"
    and sig: "tp_TxSignature p = sig"
    and del: "bDelete api txBucket (encodeUint64 ?hd) d = (Inr (), d1)"
    and hd: "storeTxQueueHead api (?hd + 1) d1 = (Inr (), d')"
    unfolding removeTransactionInBucket_def
    by (auto simp: bind_Inr_iff load_bounds_ok [OF tx] wrapE_Inr_iff Let_def fail_def ret_def split: if_splits)
  show "queue_head ?c < queue_tail ?c"
    using lt by (simp add: queue_head_def queue_tail_def word_less_nat_alt not_le)
  show "tp_TxSignature p = sig" by (rule sig)
  show "p = point_in ?c (index_key (queue_head ?c))"
    using p by (simp add: bGet_cont keys(1) point_in_Inr)
  have w1: "wrote d d1 ((cont d)(txBucket := ?c(index_key (queue_head ?c) := None)))"
    using delete_wrote [OF del bucket] unfolding keys .
  have b1: "bBucket api txBucket d1" using w1 bucket by (simp add: wrote_bucket)
  show "wrote d d' ((cont d)(txBucket := ?c(index_key (queue_head ?c) := None,
           unprocessedTxQueueHeadKey \<mapsto> encodeUint64 (of_nat (Suc (queue_head ?c))))))"
    using wrote_trans [OF w1 put_wrote [OF hd [unfolded storeTxQueueHead_def keys] b1]]
    by (simp add: wrote_cont [OF w1])
qed

lemma tx_put_writes:
  assumes d: "ok d" and f: "\<And>d'. f d = (Inr (), d') \<Longrightarrow> wrote d d' ((cont d)(txBucket := c'))"
    and c': "tx_ok c'" and R: "R (view d) ((view d)\<lparr>as_queue := queue_in c', as_popped := queue_head c',
       as_processed := point_in c' lastProcessedTxSignatureKey, as_queried := point_in c' lastQueriedTxSignatureKey\<rparr>)"
  shows "writes ok view R (bUpdate api f) d"
proof (rule writes_update [OF d])
  fix d' assume "f d = (Inr (), d')"
  from f [OF this] show "\<exists>C. wrote d d' C \<and> content_ok codec C \<and> R (view d) (content_view codec C)"
    using d c' R by (auto simp: content_ok_tx content_view_tx bolt_ok_def bolt_view_def)
qed

lemma finalize_writes:
  assumes d: "ok d"
  shows "writes ok view (\<lambda>s s'. as_queue s \<noteq> [] \<and> tp_TxSignature (hd (as_queue s)) = sig \<and> s' = spec_finalize s)
    (FinalizeProcessedTransaction api sig) d"
proof -
  let ?c = "cont d txBucket"
  have tx: "tx_ok ?c" and cok: "content_ok codec (cont d)"
    using d by (auto simp: bolt_ok_def dest: content_ok_txD)
  have bucket: "bBucket api txBucket d" using d by (simp add: ok_bucket)
  show ?thesis unfolding FinalizeProcessedTransaction_def
  proof (rule writes_update [OF d])
    fix d'
    assume "bind (\<lambda>d. (need_tx_bucket api d, d)) (\<lambda>_. bind (removeTransactionInBucket api sig)
      (setLastProcessedTransactionInBucket api)) d = (Inr (), d')"
    then obtain p d1 where rm: "removeTransactionInBucket api sig d = (Inr p, d1)"
      and put: "bPut api txBucket lastProcessedTxSignatureKey (encodeTxPoint p) d1 = (Inr (), d')"
      by (auto simp: bind_Inr_iff setLastProcessedTransactionInBucket_def)
    note rmf = removeTransactionInBucket_wrote [OF rm bucket tx]
    have "bBucket api txBucket d1" using rmf(4) bucket by (simp add: wrote_bucket)
    from wrote_trans [OF rmf(4) put_wrote [OF put this]]
    have w: "wrote d d' ((cont d)(txBucket := popped ?c))"
      by (simp add: wrote_cont [OF rmf(4)] popped_def rmf(2))
    note pf = popped_facts [OF tx rmf(1)]
    have "queue_in ?c \<noteq> [] \<and> hd (queue_in ?c) = p" using pf(1) rmf(2) by simp
    with pf rmf(3) have "as_queue (view d) \<noteq> [] \<and> tp_TxSignature (hd (as_queue (view d))) = sig
        \<and> content_view codec ((cont d)(txBucket := popped ?c)) = spec_finalize (view d)"
      by (simp add: content_view_tx) (simp add: bolt_view_def content_view_def spec_finalize_def)
    then show "\<exists>C. wrote d d' C \<and> content_ok codec C \<and> (as_queue (view d) \<noteq> [] \<and>
        tp_TxSignature (hd (as_queue (view d))) = sig \<and> content_view codec C = spec_finalize (view d))"
      using w content_ok_tx [OF cok] pf(3) by blast
  qed
qed

lemma tx_key_put_writes:
  assumes d: "ok d" and key: "key \<in> {lastProcessedTxSignatureKey, lastQueriedTxSignatureKey}"
    and f: "f = bind (\<lambda>d. (need_tx_bucket api d, d)) (\<lambda>_. bPut api txBucket key (encodeTxPoint p))"
    and R: "R (view d) ((view d)\<lparr>as_processed := point_in ((cont d txBucket)(key \<mapsto> encodeTxPoint p)) lastProcessedTxSignatureKey,
        as_queried := point_in ((cont d txBucket)(key \<mapsto> encodeTxPoint p)) lastQueriedTxSignatureKey\<rparr>)"
  shows "writes ok view R (bUpdate api f) d"
proof (rule tx_put_writes [OF d])
  let ?c = "cont d txBucket"
  fix d' assume "f d = (Inr (), d')"
  then show "wrote d d' ((cont d)(txBucket := ?c(key \<mapsto> encodeTxPoint p)))"
    using d by (auto simp: f bind_Inr_iff ok_bucket intro: put_wrote)
next
  let ?c = "cont d txBucket"
  have tx: "tx_ok ?c" using d by (auto simp: bolt_ok_def dest: content_ok_txD)
  show "tx_ok (?c(key \<mapsto> encodeTxPoint p))"
    using tx key by (auto simp: tx_ok_def queue_head_def queue_tail_def)
  show "R (view d) ((view d)\<lparr>as_queue := queue_in (?c(key \<mapsto> encodeTxPoint p)),
      as_popped := queue_head (?c(key \<mapsto> encodeTxPoint p)),
      as_processed := point_in (?c(key \<mapsto> encodeTxPoint p)) lastProcessedTxSignatureKey,
      as_queried := point_in (?c(key \<mapsto> encodeTxPoint p)) lastQueriedTxSignatureKey\<rparr>)"
    using R key by (auto simp: bolt_view_def content_view_def)
qed

lemma set_processed_writes:
  assumes "ok d"
  shows "writes ok view (\<lambda>s s'. s' = s\<lparr>as_processed := p\<rparr>) (SetLastProcessedTransaction api p) d"
  unfolding SetLastProcessedTransaction_def setLastProcessedTransactionInBucket_def
  by (rule tx_key_put_writes [OF assms, of lastProcessedTxSignatureKey, OF _ refl])
    (simp_all add: bolt_view_def content_view_def)

lemma set_queried_writes:
  assumes "ok d"
  shows "writes ok view (\<lambda>s s'. s' = s\<lparr>as_queried := p\<rparr>) (StoreLatestQueriedTransaction api p) d"
  unfolding StoreLatestQueriedTransaction_def
  by (rule tx_key_put_writes [OF assms, of lastQueriedTxSignatureKey, OF _ refl])
    (simp_all add: bolt_view_def content_view_def)

lemma get_queue_view:
  assumes "ok d" "GetAllUnprocessedTransactions api d = Inr q"
  shows "q = as_queue (view d)"
proof -
  have tx: "tx_ok (cont d txBucket)" using assms(1) by (auto simp: bolt_ok_def dest: content_ok_txD)
  from view_with_Inr [OF assms(2) [unfolded GetAllUnprocessedTransactions_def]]
  have "queue_loop api d [queue_head (cont d txBucket)..<queue_tail (cont d txBucket)] [] = Inr q"
    by (simp add: load_bounds_ok [OF tx] need_tx_bucket_def queue_head_def queue_tail_def split: if_splits)
  from queue_loop_Inr [OF this] show ?thesis by (simp add: bolt_view_def content_view_def queue_in_def)
qed

lemma getTxPointByKey_view:
  assumes "getTxPointByKey api key d = Inr p"
  shows "p = point_in (cont d txBucket) key"
  using view_with_Inr [OF assms [unfolded getTxPointByKey_def]]
  by (cases "cont d txBucket key") (simp_all add: bGet_cont point_in_def need_tx_bucket_def split: if_splits)

lemma get_processed_view: "ok d \<Longrightarrow> GetLastProcessedTransaction api d = Inr p \<Longrightarrow> p = as_processed (view d)"
  and get_queried_view: "ok d \<Longrightarrow> GetLatestQueriedTransaction api d = Inr p \<Longrightarrow> p = as_queried (view d)"
  using getTxPointByKey_view
  by (auto simp: GetLastProcessedTransaction_def GetLatestQueriedTransaction_def bolt_view_def content_view_def)

end

end
