(* ===== verification/Bolt_Contract.thy ===== *)
theory Bolt_Contract
  imports Bolt_Queue
begin

text \<open>
  Blocks and events, and the theorem that the BoltDB handler keeps the whole contract of the
  storage interface.
\<close>

section \<open>Blocks and the finalized block number\<close>

lemma buckets_in_all [simp]:
  "blocksBucket \<in> set all_buckets" "blockHashToNumberBucket \<in> set all_buckets"
  "latestBlockPointBucket \<in> set all_buckets" "latestFinalizedBlockNumberBucket \<in> set all_buckets"
  "eventIDCounterBucket \<in> set all_buckets" "unprocessedEventsBucket \<in> set all_buckets"
  "processedEventsBucket \<in> set all_buckets" "eventIDsByBlockNumberBucket \<in> set all_buckets"
  by (simp_all add: all_buckets_def)

lemma events_frame:
  assumes "b \<notin> {eventIDCounterBucket, unprocessedEventsBucket, processedEventsBucket, eventIDsByBlockNumberBucket}"
  shows "event_count (C(b := c)) = event_count C" "event_in codec (C(b := c)) i = event_in codec C i"
    "events_in codec (C(b := c)) = events_in codec C" "events_ok codec (C(b := c)) = events_ok codec C"
proof -
  from assms have neq: "eventIDCounterBucket \<noteq> b" "unprocessedEventsBucket \<noteq> b" "processedEventsBucket \<noteq> b"
    "eventIDsByBlockNumberBucket \<noteq> b" by auto
  then show count: "event_count (C(b := c)) = event_count C" by (simp add: event_count_def)
  from neq have ev: "event_in codec (C(b := c)) j = event_in codec C j" for j by (simp add: event_in_def)
  then show "event_in codec (C(b := c)) i = event_in codec C i" .
  show "events_in codec (C(b := c)) = events_in codec C" by (simp add: events_in_def count ev)
  show "events_ok codec (C(b := c)) = events_ok codec C"
    unfolding events_ok_def count ev fun_upd_other [OF neq(1)] fun_upd_other [OF neq(2)]
      fun_upd_other [OF neq(3)] fun_upd_other [OF neq(4)] by (rule refl)
qed

lemma block_in_upd:
  "unjson_BlockPoint codec v = Inr bp \<Longrightarrow> block_in codec (c(key \<mapsto> v)) key = Some bp"
  by (simp add: block_in_def)

lemma block_in_other: "key \<noteq> key' \<Longrightarrow> block_in codec (c(key' := x)) key = block_in codec c key"
  by (simp add: block_in_def)

context bolt_handler
begin

lemma store_block_writes:
  assumes d: "ok d"
  shows "writes ok view (\<lambda>s s'. s' = spec_block bp s) (StoreBlock api codec NilTx bp) d"
  unfolding StoreBlock_def run_in_tx_def StorageTransaction.case
proof (rule writes_update [OF d], goal_cases)
  case (1 d')
  then obtain data d1 where json: "json_BlockPoint codec bp = Inr data"
    and p1: "bPut api blocksBucket (encodeUint64 (bp_BlockSlot bp)) data d = (Inr (), d1)"
    and p2: "bPut api blockHashToNumberBucket (key_bytes (bp_BlockHash bp)) (encodeUint64 (bp_BlockNumber bp)) d1 = (Inr (), d')"
    by (auto simp: bind_Inr_iff need_bucket_Inr_iff wrapE_Inr_iff liftR_def)
  note dec = block_codec [OF json]
  let ?C = "(cont d)(blocksBucket := (cont d blocksBucket)(encodeUint64 (bp_BlockSlot bp) \<mapsto> data),
    blockHashToNumberBucket := (cont d blockHashToNumberBucket)(key_bytes (bp_BlockHash bp) \<mapsto> encodeUint64 (bp_BlockNumber bp)))"
  have w1: "wrote d d1 ((cont d)(blocksBucket := (cont d blocksBucket)(encodeUint64 (bp_BlockSlot bp) \<mapsto> data)))"
    using p1 d by (intro put_wrote) (simp_all add: ok_bucket)
  have "bBucket api blockHashToNumberBucket d1" using d w1 by (simp add: wrote_bucket ok_bucket)
  from wrote_trans [OF w1 put_wrote [OF p2 this]] have w: "wrote d d' ?C"
    by (simp add: wrote_cont [OF w1])
  have "content_ok codec ?C"
    using d dec by (auto simp: bolt_ok_def content_ok_def blocks_ok_def holds_block_def holds_number_def events_frame)
  moreover have "content_view codec ?C = spec_block bp (view d)"
    using dec by (auto simp: content_view_def bolt_view_def spec_block_def events_frame block_in_def fun_eq_iff)
  ultimately show ?case using w by blast
qed

lemma store_head_writes:
  assumes d: "ok d"
  shows "writes ok view (\<lambda>s s'. s' = s\<lparr>as_head := Some bp\<rparr>) (StoreLatestBlockPoint api codec NilTx bp) d"
  unfolding StoreLatestBlockPoint_def run_in_tx_def StorageTransaction.case
proof (rule writes_update [OF d], goal_cases)
  case (1 d')
  then obtain data where json: "json_BlockPoint codec bp = Inr data"
    and p: "bPut api latestBlockPointBucket latestBlockPointKey data d = (Inr (), d')"
    by (auto simp: bind_Inr_iff need_bucket_Inr_iff wrapE_Inr_iff liftR_def)
  note dec = block_codec [OF json]
  let ?C = "(cont d)(latestBlockPointBucket := (cont d latestBlockPointBucket)(latestBlockPointKey \<mapsto> data))"
  have w: "wrote d d' ?C" using p d by (intro put_wrote) (simp_all add: ok_bucket)
  have "content_ok codec ?C"
    using d dec by (auto simp: bolt_ok_def content_ok_def blocks_ok_def holds_block_def events_frame)
  moreover have "content_view codec ?C = (view d)\<lparr>as_head := Some bp\<rparr>"
    using dec by (simp add: content_view_def bolt_view_def events_frame block_in_upd)
  ultimately show ?case using w by blast
qed

lemma set_finalized_writes:
  assumes d: "ok d"
  shows "writes ok view (\<lambda>s s'. s' = s\<lparr>as_finalized := n\<rparr>) (StoreLatestFinalizedBlockNumber api n) d"
  unfolding StoreLatestFinalizedBlockNumber_def
proof (rule writes_update [OF d], goal_cases)
  case (1 d')
  then have p: "bPut api latestFinalizedBlockNumberBucket latestFinalizedBlockNumberKey (encodeUint64 n) d = (Inr (), d')"
    by (auto simp: bind_Inr_iff need_bucket_Inr_iff wrapE_Inr_iff)
  let ?C = "(cont d)(latestFinalizedBlockNumberBucket :=
    (cont d latestFinalizedBlockNumberBucket)(latestFinalizedBlockNumberKey \<mapsto> encodeUint64 n))"
  have w: "wrote d d' ?C" using p d by (intro put_wrote) (simp_all add: ok_bucket)
  have "content_ok codec ?C"
    using d by (simp add: bolt_ok_def content_ok_def blocks_ok_def events_frame)
  moreover have "content_view codec ?C = (view d)\<lparr>as_finalized := n\<rparr>"
    by (simp add: content_view_def bolt_view_def events_frame)
  ultimately show ?case using w by blast
qed

lemma get_head_view:
  assumes "ok d" "GetLatestBlockPoint api codec d = Inr b"
  shows "b = as_head (view d)"
  using view_with_Inr [OF assms(2) [unfolded GetLatestBlockPoint_def]] assms(1)
  by (cases "cont d latestBlockPointBucket latestBlockPointKey")
    (auto simp: bGet_cont bolt_ok_def content_ok_def blocks_ok_def holds_block_def bolt_view_def content_view_def block_in_def
      split: if_splits sum.splits)

lemma get_finalized_view:
  assumes "ok d" "GetLatestFinalizedBlockNumber api d = Inr n"
  shows "n = as_finalized (view d)"
  using view_with_Inr [OF assms(2) [unfolded GetLatestFinalizedBlockNumber_def]] assms(1)
  by (cases "cont d latestFinalizedBlockNumberBucket latestFinalizedBlockNumberKey")
    (auto simp: bGet_cont bolt_ok_def content_ok_def blocks_ok_def holds_number_def bolt_view_def content_view_def
      number_in_def decodeUint64_def split: if_splits)

lemma get_number_view:
  assumes "ok d" "GetBlockNumberByBlockhash api hash d = Inr n"
  shows "as_numbers (view d) hash = Some n"
  using view_with_Inr [OF assms(2) [unfolded GetBlockNumberByBlockhash_def]]
  by (cases "cont d blockHashToNumberBucket (key_bytes hash)")
    (auto simp: bGet_cont bolt_view_def content_view_def decodeUint64_def split: if_splits)

text \<open>The backward walk stops at the greatest stored slot that is not above its start.\<close>

lemma block_walk_Inr:
  "block_walk api codec d s = Inr h \<Longrightarrow> s < 2 ^ 64 \<Longrightarrow>
     \<exists>bp. latest_at (as_blocks (view d)) (of_nat s) bp \<and> h = bp_BlockHash bp"
proof (induction s)
  case 0
  then show ?case
    by (subst (asm) block_walk.simps)
      (auto simp: bGet_cont latest_at_def bolt_view_def content_view_def block_in_def split: option.splits sum.splits)
next
  case (Suc s)
  let ?s = "of_nat (Suc s) :: u64"
  show ?case
  proof (cases "cont d blocksBucket (encodeUint64 ?s)")
    case None
    with Suc.prems(1) have "block_walk api codec d s = Inr h"
      by (subst (asm) block_walk.simps) (simp add: bGet_cont del: of_nat_Suc)
    from Suc.IH [OF this] Suc.prems(2) obtain bp
      where bp: "latest_at (as_blocks (view d)) (of_nat s) bp" "h = bp_BlockHash bp" by auto
    have none: "as_blocks (view d) ?s = None"
      using None by (simp add: bolt_view_def content_view_def block_in_def del: of_nat_Suc)
    have le: "x \<le> ?s \<longleftrightarrow> x = ?s \<or> x \<le> of_nat s" for x :: u64
      using Suc.prems(2) by (simp add: word_le_nat_alt word_unat_eq_iff unat_of_nat_u64 le_Suc_eq del: of_nat_Suc) auto
    show ?thesis using bp none unfolding latest_at_def le by auto
  next
    case (Some v)
    with Suc.prems(1) obtain bp where "unjson_BlockPoint codec v = Inr bp" "h = bp_BlockHash bp"
      by (subst (asm) block_walk.simps) (auto simp: bGet_cont simp del: of_nat_Suc split: sum.splits)
    with Some have "as_blocks (view d) ?s = Some bp"
      by (simp add: bolt_view_def content_view_def block_in_def del: of_nat_Suc)
    with \<open>h = bp_BlockHash bp\<close> show ?thesis
      unfolding latest_at_def by (intro exI [of _ bp] conjI exI [of _ ?s]) auto
  qed
qed

lemma get_hash_view:
  assumes "ok d" "GetBlockhashBySlot api codec slot d = Inr h"
  shows "\<exists>bp top. as_head (view d) = Some top \<and> slot \<le> bp_BlockSlot top \<and>
    latest_at (as_blocks (view d)) slot bp \<and> h = bp_BlockHash bp"
proof -
  from assms(2) obtain top where top: "GetLatestBlockPoint api codec d = Inr (Some top)" "slot \<le> bp_BlockSlot top"
    and walk: "view_with api (\<lambda>d. if \<not> bBucket api blocksBucket d then Inl (Errorf STR ''cannot find blocks bucket'')
              else block_walk api codec d (unat slot)) d = Inr h"
    by (auto simp: GetBlockhashBySlot_def split: sum.splits option.splits if_splits)
  have "unat slot < 2 ^ 64" using unsigned_less [of slot, where ?'a = nat] by simp
  moreover have "block_walk api codec d (unat slot) = Inr h"
    using view_with_Inr [OF walk] by (simp split: if_splits)
  ultimately show ?thesis
    using block_walk_Inr [of d "unat slot" h] top get_head_view [OF assms(1) top(1), symmetric] by auto
qed

end

section \<open>Events\<close>

lemma event_ids_loop_concat: "event_ids_loop (concat (map encodeUint64 ws)) = ws"
proof (induction ws)
  case Nil
  then show ?case by (simp add: event_ids_loop.simps)
next
  case (Cons w ws)
  have "encodeUint64 w \<noteq> []"
    by (metis length_encodeUint64 list.size(3) zero_neq_numeral)
  with Cons show ?case by (subst event_ids_loop.simps) simp
qed

lemma length_concat_encode: "length (concat (map encodeUint64 ws)) = 8 * length ws"
  by (induction ws) auto

lemma decodeEventIDs_index: "decodeEventIDs (concat (map index_key is)) = Inr (map of_nat is)"
proof -
  have "concat (map index_key is) = concat (map encodeUint64 (map of_nat is))"
    by (induction "is") (simp_all add: index_key_def)
  then show ?thesis by (simp only: decodeEventIDs_def length_concat_encode event_ids_loop_concat) simp
qed

lemma events_by_slot_loop_eq:
  "\<forall>(k, v) \<in> set kvs. unjson_EventRecord codec v = Inr (f k) \<Longrightarrow>
     events_by_slot_loop codec slot kvs acc = Inr (acc @ filter (\<lambda>r. er_Slot r = slot) (map (f \<circ> fst) kvs))"
  by (induction kvs arbitrary: acc) (auto split: prod.splits)

fun uniq_from :: "'a set \<Rightarrow> 'a list \<Rightarrow> 'a list" where
  "uniq_from seen [] = []"
| "uniq_from seen (x # xs) = (if x \<in> seen then uniq_from seen xs else x # uniq_from (insert x seen) xs)"

lemma uniq_from_eq: "uniq_from seen xs = filter (\<lambda>x. x \<notin> seen) (first_occurrences xs)"
  by (induction xs arbitrary: seen) (auto intro!: filter_cong)

lemma index_key_sorted:
  assumes "n < 2 ^ 64"
  shows "sorted_wrt (<) (map index_key (event_numbers n))"
proof -
  have "index_key i < index_key j" if "i < j" "j \<le> n" for i j
  proof -
    have "i < 2 ^ 64" "j < 2 ^ 64" using that assms by simp_all
    then show ?thesis using that(1)
      by (simp add: index_key_def encodeUint64_less_iff word_less_nat_alt unat_of_nat_u64)
  qed
  then show ?thesis
    unfolding sorted_wrt_map event_numbers_def by (intro sorted_wrt_mono_rel [OF _ sorted_wrt_upt]) auto
qed

lemma event_count_less: "event_count C < 2 ^ 64"
  using unsigned_less [of "number_in (C eventIDCounterBucket) counterKey", where ?'a = nat]
  by (simp add: event_count_def)

text \<open>What the invariant says of one event, and that a new event extends the sequence.\<close>

lemma events_okD:
  assumes "events_ok codec C" "1 \<le> i" "i \<le> event_count C"
  shows "\<exists>v s. C unprocessedEventsBucket (index_key i) = Some v \<and> unjson_EventRecord codec v = Inr (event_in codec C i)
    \<and> er_ID (event_in codec C i) = of_nat i \<and> er_TxSignature (event_in codec C i) = Signature_String codec s"
  using assms by (fastforce simp: events_ok_def event_in_def)

lemma events_ok_keyD:
  "events_ok codec C \<Longrightarrow> C unprocessedEventsBucket k \<noteq> None \<Longrightarrow> \<exists>i. 1 \<le> i \<and> i \<le> event_count C \<and> k = index_key i"
  by (simp add: events_ok_def)

definition with_event :: "content \<Rightarrow> u64 \<Rightarrow> bytes \<Rightarrow> content" where
  "with_event C bn v =
     (let n = Suc (event_count C) in
      C(eventIDCounterBucket := (C eventIDCounterBucket)(counterKey \<mapsto> index_key n),
        unprocessedEventsBucket := (C unprocessedEventsBucket)(index_key n \<mapsto> v),
        eventIDsByBlockNumberBucket := (C eventIDsByBlockNumberBucket)(encodeUint64 bn \<mapsto>
          (case C eventIDsByBlockNumberBucket (encodeUint64 bn) of None \<Rightarrow> [] | Some ids \<Rightarrow> ids) @ index_key n)))"

lemma with_event_other:
  "b \<notin> {eventIDCounterBucket, unprocessedEventsBucket, eventIDsByBlockNumberBucket} \<Longrightarrow> with_event C bn v b = C b"
  by (simp add: with_event_def Let_def)

lemma with_event_count:
  "Suc (event_count C) < 2 ^ 64 \<Longrightarrow> event_count (with_event C bn v) = Suc (event_count C)"
  by (simp add: event_count_def with_event_def Let_def index_key_def unat_of_nat_u64 del: of_nat_Suc)

lemma with_event_in:
  assumes "Suc (event_count C) < 2 ^ 64" "i \<le> Suc (event_count C)"
  shows "with_event C bn v unprocessedEventsBucket (index_key i) =
      (if i = Suc (event_count C) then Some v else C unprocessedEventsBucket (index_key i))"
proof -
  have "i < 2 ^ 64" using assms by simp
  then show ?thesis using assms by (simp add: with_event_def Let_def index_key_inject)
qed

lemma events_ok_with_event:
  assumes okC: "events_ok codec C" and room: "Suc (event_count C) < 2 ^ 64"
    and v: "unjson_EventRecord codec v = Inr r" "er_ID r = of_nat (Suc (event_count C))"
      "er_TxSignature r = Signature_String codec s" "er_BlockNumber r = bn"
  shows "events_ok codec (with_event C bn v)" "events_in codec (with_event C bn v) = events_in codec C @ [r]"
proof -
  let ?C = "with_event C bn v" and ?n = "event_count C"
  note count = with_event_count [OF room]
  have new: "event_in codec ?C (Suc ?n) = r" by (simp add: event_in_def with_event_in [OF room] v(1))
  have old: "event_in codec ?C i = event_in codec C i" if "i \<le> ?n" for i
    using that by (simp add: event_in_def with_event_in [OF room])
  show "events_in codec ?C = events_in codec C @ [r]"
    by (simp add: events_in_def count event_numbers_Suc new old)
  have ctr: "holds_number (?C eventIDCounterBucket) counterKey"
    by (simp add: with_event_def Let_def index_key_def)
  have recs: "\<exists>v' r' s'. ?C unprocessedEventsBucket (index_key i) = Some v' \<and> unjson_EventRecord codec v' = Inr r'
      \<and> er_ID r' = of_nat i \<and> er_TxSignature r' = Signature_String codec s'" if "1 \<le> i" "i \<le> Suc ?n" for i
  proof (cases "i = Suc ?n")
    case True
    then show ?thesis using v(1-3) by (intro exI [of _ v] exI [of _ r] exI [of _ s]) (simp add: with_event_in [OF room])
  next
    case False
    then show ?thesis using that events_okD [OF okC that(1)] by (auto simp: with_event_in [OF room])
  qed
  have keys: "\<exists>i. 1 \<le> i \<and> i \<le> Suc ?n \<and> k = index_key i" if k: "?C unprocessedEventsBucket k \<noteq> None" for k
  proof (cases "k = index_key (Suc ?n)")
    case False
    with k have "C unprocessedEventsBucket k \<noteq> None" by (simp add: with_event_def Let_def)
    then show ?thesis using events_ok_keyD [OF okC] le_SucI by blast
  qed auto
  have index: "(case ?C eventIDsByBlockNumberBucket (encodeUint64 b) of None \<Rightarrow> [] | Some ids \<Rightarrow> ids) =
      concat (map index_key (filter (\<lambda>i. er_BlockNumber (event_in codec ?C i) = b) (event_numbers (Suc ?n))))" for b
  proof -
    have "filter (\<lambda>i. er_BlockNumber (event_in codec ?C i) = b) (event_numbers ?n)
        = filter (\<lambda>i. er_BlockNumber (event_in codec C i) = b) (event_numbers ?n)"
      by (intro filter_cong) (simp_all add: old)
    moreover have "(case C eventIDsByBlockNumberBucket (encodeUint64 b) of None \<Rightarrow> [] | Some v \<Rightarrow> v)
        = concat (map index_key (filter (\<lambda>i. er_BlockNumber (event_in codec C i) = b) (event_numbers ?n)))"
      using okC by (simp add: events_ok_def)
    ultimately show ?thesis
      by (simp add: event_numbers_Suc new v(4)) (simp add: with_event_def Let_def)
  qed
  show "events_ok codec ?C"
    unfolding events_ok_def count
    using ctr recs keys index okC by (auto simp: with_event_other events_ok_def)
qed

context bolt_handler
begin

lemma next_event_id:
  assumes "getNextEventID api d = (Inr n, d')" "ok d"
  shows "n = of_nat (Suc (event_count (cont d)))"
    and "wrote d d' ((cont d)(eventIDCounterBucket := (cont d eventIDCounterBucket)(counterKey \<mapsto> encodeUint64 n)))"
proof -
  from assms(1) have put: "bPut api eventIDCounterBucket counterKey (encodeUint64 n) d = (Inr (), d')"
    and n: "n = number_in (cont d eventIDCounterBucket) counterKey + 1"
    by (auto simp: getNextEventID_def bind_Inr_iff need_bucket_Inr_iff wrapE_Inr_iff gets_def ret_def liftR_def bGet_cont
        number_in_def decodeUint64_def split: option.splits if_splits)
  show "n = of_nat (Suc (event_count (cont d)))" using n by (simp add: event_count_def)
  show "wrote d d' ((cont d)(eventIDCounterBucket := (cont d eventIDCounterBucket)(counterKey \<mapsto> encodeUint64 n)))"
    using put assms(2) by (intro put_wrote) (simp_all add: ok_bucket)
qed

lemma appendEventID_wrote:
  assumes "appendEventIDForBlockNumber api bn n d = (Inr (), d')" "bBucket api eventIDsByBlockNumberBucket d"
  shows "wrote d d' ((cont d)(eventIDsByBlockNumberBucket := (cont d eventIDsByBlockNumberBucket)(encodeUint64 bn \<mapsto>
      (case cont d eventIDsByBlockNumberBucket (encodeUint64 bn) of None \<Rightarrow> [] | Some ids \<Rightarrow> ids) @ encodeUint64 n)))"
  using assms
  by (auto simp: appendEventIDForBlockNumber_def bind_Inr_iff need_bucket_Inr_iff wrapE_Inr_iff gets_def bGet_cont
      intro: put_wrote)

lemma store_event_writes:
  assumes d: "ok d" and room: "event_room 1 (view d)"
  shows "writes ok view (\<lambda>s s'. \<exists>m. s' = s\<lparr>as_events := as_events s @
          [event_record_of (Signature_String codec) (PublicKey_String codec) (of_nat (Suc (length (as_events s))))
             slot bn sig prog name hash m]\<rparr>)
        (StoreEvent api codec NilTx slot bn sig prog name hash ev) d"
  unfolding StoreEvent_def run_in_tx_def StorageTransaction.case
proof (rule writes_update [OF d], goal_cases)
  case (1 d')
  let ?C = "cont d" and ?n = "Suc (event_count (cont d))"
  let ?r = "\<lambda>i m. event_record_of (Signature_String codec) (PublicKey_String codec) i slot bn sig prog name hash m"
  from 1 obtain i d1 data m v d2 where id: "getNextEventID api d = (Inr i, d1)"
    and map: "unjson_map codec data = Inr m"
    and rec: "json_EventRecord codec (?r i m) = Inr v"
    and put: "bPut api unprocessedEventsBucket (encodeUint64 i) v d1 = (Inr (), d2)"
    and app: "appendEventIDForBlockNumber api bn i d2 = (Inr (), d')"
    unfolding bind_Inr_iff need_bucket_Inr_iff wrapE_Inr_iff liftR_def event_record_of_def prod.inject by auto
  note i = next_event_id [OF id d]
  have "bBucket api unprocessedEventsBucket d1" using d i(2) by (simp add: wrote_bucket ok_bucket)
  from wrote_trans [OF i(2) put_wrote [OF put this]]
  have w2: "wrote d d2 (?C(eventIDCounterBucket := (?C eventIDCounterBucket)(counterKey \<mapsto> encodeUint64 i),
      unprocessedEventsBucket := (?C unprocessedEventsBucket)(encodeUint64 i \<mapsto> v)))"
    by (simp add: wrote_cont [OF i(2)])
  have "bBucket api eventIDsByBlockNumberBucket d2" using d w2 by (simp add: wrote_bucket ok_bucket)
  from wrote_trans [OF w2 appendEventID_wrote [OF app this]]
  have w: "wrote d d' (with_event ?C bn v)"
    by (simp add: wrote_cont [OF w2] with_event_def Let_def index_key_def i(1) del: of_nat_Suc)
  have fits: "?n < 2 ^ 64" using room by (simp add: event_room_def bolt_view_def content_view_def events_in_def)
  have evok: "events_ok codec ?C" using d by (simp add: bolt_ok_def content_ok_def)
  have "unjson_EventRecord codec v = Inr (?r i m)" by (rule record_codec [OF rec])
  note ev = events_ok_with_event [OF evok fits this, of sig bn, unfolded event_record_of_def EventRecord.simps,
      folded event_record_of_def, OF i(1) refl refl]
  have "content_ok codec (with_event ?C bn v)"
    using d ev(1) by (simp add: bolt_ok_def content_ok_def blocks_ok_def with_event_other)
  moreover have "content_view codec (with_event ?C bn v) = (view d)\<lparr>as_events := as_events (view d) @
      [?r (of_nat (Suc (length (as_events (view d))))) m]\<rparr>"
    using ev(2) i(1)
    by (simp add: content_view_def bolt_view_def with_event_other event_record_of_def events_in_def del: of_nat_Suc)
  ultimately show ?case using w by blast
qed

lemma entries_unprocessed:
  assumes "events_ok codec (cont d)"
  shows "map fst (bEntries api unprocessedEventsBucket d) = map index_key (event_numbers (event_count (cont d)))"
proof (rule strict_sorted_equal)
  let ?n = "event_count (cont d)"
  show "sorted_wrt (<) (map index_key (event_numbers ?n))" by (rule index_key_sorted [OF event_count_less])
  show "sorted_wrt (<) (map fst (bEntries api unprocessedEventsBucket d))" by (rule entries_sorted)
  have "k \<in> set (map fst (bEntries api unprocessedEventsBucket d)) \<longleftrightarrow> k \<in> set (map index_key (event_numbers ?n))" for k
  proof
    assume "k \<in> set (map fst (bEntries api unprocessedEventsBucket d))"
    then obtain v where "cont d unprocessedEventsBucket k = Some v" by (auto simp: entries_get bGet_cont)
    then have "cont d unprocessedEventsBucket k \<noteq> None" by simp
    from events_ok_keyD [OF assms this] show "k \<in> set (map index_key (event_numbers ?n))" by auto
  next
    assume "k \<in> set (map index_key (event_numbers ?n))"
    then obtain i where i: "1 \<le> i" "i \<le> ?n" and k: "k = index_key i" by auto
    from events_okD [OF assms i] obtain v where "(k, v) \<in> set (bEntries api unprocessedEventsBucket d)"
      by (auto simp: entries_get bGet_cont k)
    then show "k \<in> set (map fst (bEntries api unprocessedEventsBucket d))" by force
  qed
  then show "set (map fst (bEntries api unprocessedEventsBucket d)) = set (map index_key (event_numbers ?n))"
    by (simp only: set_eq_iff simp_thms)
qed

lemma events_by_slot_buckets_view:
  assumes "ok d"
  shows "events_by_slot_buckets api codec slot d [unprocessedEventsBucket, processedEventsBucket] [] =
    Inr (filter (\<lambda>r. er_Slot r = slot) (as_events (view d)))"
proof -
  let ?C = "cont d" and ?u = "bEntries api unprocessedEventsBucket d"
  have evok: "events_ok codec ?C" using assms by (simp add: bolt_ok_def content_ok_def)
  define f where "f k = (case unjson_EventRecord codec (the (?C unprocessedEventsBucket k)) of Inl _ \<Rightarrow> undefined | Inr r \<Rightarrow> r)" for k
  have f: "f (index_key i) = event_in codec ?C i" for i by (simp add: f_def event_in_def)
  have "unjson_EventRecord codec v = Inr (f k)" if "(k, v) \<in> set ?u" for k v
  proof -
    have v: "?C unprocessedEventsBucket k = Some v" using that by (simp add: entries_get bGet_cont)
    with events_ok_keyD [OF evok, of k] obtain i where "1 \<le> i" "i \<le> event_count ?C" "k = index_key i" by auto
    with events_okD [OF evok this(1,2)] v f show ?thesis by auto
  qed
  then have u: "events_by_slot_loop codec slot ?u acc = Inr (acc @ filter (\<lambda>r. er_Slot r = slot) (map f (map fst ?u)))" for acc
    using events_by_slot_loop_eq [of ?u codec f slot acc] by auto
  have "(k, v) \<notin> set (bEntries api processedEventsBucket d)" for k v
    using evok by (simp add: entries_get bGet_cont events_ok_def)
  then have p: "bEntries api processedEventsBucket d = []"
    by (metis list.set_intros(1) neq_Nil_conv surj_pair)
  from assms show ?thesis
    by (simp add: ok_bucket u p entries_unprocessed [OF evok] comp_def f bolt_view_def content_view_def events_in_def)
qed

lemma get_events_slot_view:
  assumes "ok d" "GetEventsBySlot api codec slot d = Inr es"
  shows "es = filter (\<lambda>r. er_Slot r = slot) (as_events (view d))"
  using view_with_Inr [OF assms(2) [unfolded GetEventsBySlot_def]] events_by_slot_buckets_view [OF assms(1)] by simp

lemma events_by_id_loop_view:
  assumes evok: "events_ok codec (cont d)" and bucket: "bBucket api unprocessedEventsBucket d"
  shows "\<forall>i \<in> set is. 1 \<le> i \<and> i \<le> event_count (cont d) \<Longrightarrow>
     events_by_id_loop api codec d (map of_nat is) acc = Inr (acc @ map (event_in codec (cont d)) is)"
proof (induction "is" arbitrary: acc)
  case Nil
  then show ?case by simp
next
  case (Cons i js)
  then obtain v where "bGet api unprocessedEventsBucket (encodeUint64 (of_nat i)) d = Some v"
    "unjson_EventRecord codec v = Inr (event_in codec (cont d) i)"
    using events_okD [OF evok, of i] by (auto simp: bGet_cont index_key_def)
  with Cons bucket show ?case by simp
qed

lemma get_events_number_view:
  assumes "ok d" "GetEventsByBlockNumber api codec bn d = Inr es"
  shows "es = filter (\<lambda>r. er_BlockNumber r = bn) (as_events (view d))"
proof -
  let ?C = "cont d"
  let ?is = "filter (\<lambda>i. er_BlockNumber (event_in codec ?C i) = bn) (event_numbers (event_count ?C))"
  have evok: "events_ok codec ?C" using assms(1) by (simp add: bolt_ok_def content_ok_def)
  have index: "(case ?C eventIDsByBlockNumberBucket (encodeUint64 bn) of None \<Rightarrow> [] | Some v \<Rightarrow> v) = concat (map index_key ?is)"
    using evok by (simp add: events_ok_def)
  have ids: "map (event_in codec ?C) ?is = filter (\<lambda>r. er_BlockNumber r = bn) (as_events (view d))"
    by (simp add: bolt_view_def content_view_def events_in_def filter_map comp_def)
  note res = view_with_Inr [OF assms(2) [unfolded GetEventsByBlockNumber_def]]
  have loop: "events_by_id_loop api codec d (map of_nat ?is) [] = Inr ([] @ map (event_in codec ?C) ?is)"
    using assms(1) by (intro events_by_id_loop_view [OF evok]) (auto simp: ok_bucket)
  show ?thesis
  proof (cases "?C eventIDsByBlockNumberBucket (encodeUint64 bn)")
    case None
    have nonempty: "index_key i \<noteq> []" for i
      by (metis index_key_def length_encodeUint64 list.size(3) zero_neq_numeral)
    from None index have "?is = []" by (cases ?is) (auto simp: nonempty)
    with ids res None show ?thesis by (simp add: bGet_cont split: if_splits)
  next
    case (Some v)
    with index have "v = concat (map index_key ?is)" by simp
    with Some res loop ids show ?thesis
      by (simp add: bGet_cont decodeEventIDs_index split: if_splits)
  qed
qed

lemma inj_Signature_String: "inj (Signature_String codec)"
  by (rule injI) (metis signature_codec sum.inject(2))

lemma signatures_loop_eq:
  "map er_TxSignature rs = map (Signature_String codec) ss \<Longrightarrow>
     signatures_loop codec rs seen acc = Inr (acc @ uniq_from seen ss)"
proof (induction rs arbitrary: ss seen acc)
  case Nil
  then show ?case by simp
next
  case (Cons r rs)
  then obtain s ss' where ss: "ss = s # ss'" by (cases ss) auto
  with Cons.prems have "er_TxSignature r = Signature_String codec s" and rest: "map er_TxSignature rs = map (Signature_String codec) ss'"
    by auto
  with ss Cons.IH [OF rest] show ?case by (simp add: signature_codec)
qed

lemma signatures_loop_view:
  assumes "ok d"
  obtains sigs where "signatures_loop codec (filter (\<lambda>r. er_Slot r = slot) (as_events (view d))) {} [] = Inr sigs"
    "map (Signature_String codec) sigs = first_occurrences (map er_TxSignature (filter (\<lambda>r. er_Slot r = slot) (as_events (view d))))"
proof -
  let ?rs = "filter (\<lambda>r. er_Slot r = slot) (as_events (view d))"
  have evok: "events_ok codec (cont d)" using assms by (simp add: bolt_ok_def content_ok_def)
  have "\<exists>s. er_TxSignature r = Signature_String codec s" if "r \<in> set ?rs" for r
  proof -
    from that obtain i where i: "1 \<le> i" "i \<le> event_count (cont d)" and r: "r = event_in codec (cont d) i"
      by (auto simp: bolt_view_def content_view_def events_in_def)
    show ?thesis using events_okD [OF evok i] unfolding r by blast
  qed
  then have "\<exists>ss. map er_TxSignature ?rs = map (Signature_String codec) ss"
    by (intro ex_map_conv [THEN iffD2]) auto
  then obtain ss where ss: "map er_TxSignature ?rs = map (Signature_String codec) ss" by blast
  then show thesis
    by (intro that [of "first_occurrences ss"]) (simp_all add: signatures_loop_eq uniq_from_eq map_first_occurrences [OF inj_Signature_String])
qed

lemma get_signatures_view:
  assumes "ok d" "GetProcessedTxSignaturesBySlot api codec slot d = Inr sigs"
  shows "map (Signature_String codec) sigs =
    first_occurrences (map er_TxSignature (filter (\<lambda>r. er_Slot r = slot) (as_events (view d))))"
proof -
  from assms(2) obtain rs where rs: "GetEventsBySlot api codec slot d = Inr rs"
    and loop: "signatures_loop codec rs {} [] = Inr sigs"
    by (auto simp: GetProcessedTxSignaturesBySlot_def split: sum.splits)
  show ?thesis
    using signatures_loop_view [OF assms(1), of slot] loop [unfolded get_events_slot_view [OF assms(1) rs]]
    by (metis sum.inject(2))
qed

end

section \<open>The contract\<close>

text \<open>The methods of \<open>BoltStorageHandler\<close> as the interface sees them.\<close>

definition BoltStorageHandler :: "'d bolt_api \<Rightarrow> ('ev, 'm) store_codec \<Rightarrow> ('d, 'ev, 'm) StorageHandler" where
  "BoltStorageHandler api codec =
     \<lparr>sh_StoreBlock = StoreBlock api codec,
      sh_GetBlockhashBySlot = GetBlockhashBySlot api codec,
      sh_GetBlockNumberByBlockhash = GetBlockNumberByBlockhash api,
      sh_StoreLatestBlockPoint = StoreLatestBlockPoint api codec,
      sh_GetLatestBlockPoint = GetLatestBlockPoint api codec,
      sh_StoreLatestFinalizedBlockNumber = StoreLatestFinalizedBlockNumber api,
      sh_GetLatestFinalizedBlockNumber = GetLatestFinalizedBlockNumber api,
      sh_StoreEvent = StoreEvent api codec,
      sh_GetEventsBySlot = GetEventsBySlot api codec,
      sh_GetEventsByBlockNumber = GetEventsByBlockNumber api codec,
      sh_GetProcessedTxSignaturesBySlot = GetProcessedTxSignaturesBySlot api codec,
      sh_PushUnprocessedTransactions = PushUnprocessedTransactions api,
      sh_GetAllUnprocessedTransactions = GetAllUnprocessedTransactions api,
      sh_FinalizeProcessedTransaction = FinalizeProcessedTransaction api,
      sh_SetLastProcessedTransaction = SetLastProcessedTransaction api,
      sh_GetLastProcessedTransaction = GetLastProcessedTransaction api,
      sh_StoreLatestQueriedTransaction = StoreLatestQueriedTransaction api,
      sh_GetLatestQueriedTransaction = GetLatestQueriedTransaction api\<rparr>"

sublocale bolt_handler \<subseteq> st: storage_handler "BoltStorageHandler api codec" "bolt_ok api codec" "bolt_view api codec"
  "Signature_String codec" "PublicKey_String codec"
  by unfold_locales
    (simp_all add: BoltStorageHandler_def push_writes finalize_writes set_processed_writes set_queried_writes
      set_finalized_writes store_block_writes store_head_writes store_event_writes get_queue_view get_processed_view
      get_queried_view get_finalized_view get_head_view get_hash_view get_number_view get_events_slot_view
      get_events_number_view get_signatures_view inj_eq [OF inj_Signature_String] del: of_nat_Suc One_nat_def)

end
