(* ===== verification/Bolt_Live.thy ===== *)
theory Bolt_Live
  imports Bolt_Contract
begin

text \<open>
  On a store in which nothing goes wrong the handler's operations return nil, and a codec and
  an in-memory store on which all of the laws hold. The properties of the storage follow.
\<close>

section \<open>Progress\<close>

locale bolt_live_handler = bolt_handler api codec + bolt_live api
  for api :: "'d bolt_api" and codec :: "('ev, 'm) store_codec"
begin

lemma push_loop_live:
  "bBucket api txBucket d \<Longrightarrow> \<exists>t' d'. push_loop api ps t d = (Inr t', d') \<and> bBucket api txBucket d'"
proof (induction ps arbitrary: t d)
  case Nil
  then show ?case by (simp add: ret_def)
next
  case (Cons p ps)
  have "encodeUint64 t \<noteq> []" by (metis length_encodeUint64 list.size(3) zero_neq_numeral)
  from put_live [OF Cons.prems this, of "encodeTxPoint p"] obtain d1
    where put: "bPut api txBucket (encodeUint64 t) (encodeTxPoint p) d = (Inr (), d1)" by blast
  have "bBucket api txBucket d1" using Cons.prems put_bucket [OF put] by simp
  from Cons.IH [OF this, of "t + 1"] show ?case
    by (auto simp: bind_def wrapE_def put)
qed

lemma tx_okD: "ok d \<Longrightarrow> tx_ok (cont d txBucket)"
  by (auto simp: bolt_ok_def dest: content_ok_txD)

lemma fixed_keys_nonempty [simp]:
  "unprocessedTxQueueTailKey \<noteq> []" "unprocessedTxQueueHeadKey \<noteq> []" "lastProcessedTxSignatureKey \<noteq> []"
  "lastQueriedTxSignatureKey \<noteq> []"
  by code_simp+

lemma push_live:
  assumes "ok d"
  shows "\<exists>d'. PushUnprocessedTransactions api pts d = (Inr (), d')"
proof (cases "filter (\<lambda>p. tp_TxSignature p \<noteq> 0) pts = []")
  case True
  then show ?thesis by (simp add: PushUnprocessedTransactions_def ret_def)
next
  case False
  have bucket: "bBucket api txBucket d" using assms by (simp add: ok_bucket)
  obtain t d1 where loop: "push_loop api (filter (\<lambda>p. tp_TxSignature p \<noteq> 0) pts)
      (number_in (cont d txBucket) unprocessedTxQueueTailKey) d = (Inr t, d1)" and b1: "bBucket api txBucket d1"
    using push_loop_live [OF bucket] by blast
  obtain d2 where "bPut api txBucket unprocessedTxQueueTailKey (encodeUint64 t) d1 = (Inr (), d2)"
    using put_live [OF b1] by force
  with False loop bucket show ?thesis
    unfolding PushUnprocessedTransactions_def Let_def if_not_P [OF False]
    by (intro exI [of _ d2] update_live)
      (simp add: bind_def need_tx_bucket_def load_bounds_ok [OF tx_okD [OF assms]] storeTxQueueTail_def)
qed

lemma get_queue_live:
  assumes "ok d"
  shows "GetAllUnprocessedTransactions api d = Inr (as_queue (view d))"
proof -
  let ?c = "cont d txBucket"
  have tx: "tx_ok ?c" by (rule tx_okD [OF assms])
  then have "\<forall>i \<in> set [queue_head ?c..<queue_tail ?c]. holds_point ?c (index_key i)" by (simp add: tx_ok_def)
  from queue_loop_ok [OF this] obtain q where "queue_loop api d [queue_head ?c..<queue_tail ?c] [] = Inr q" by blast
  then have "GetAllUnprocessedTransactions api d = Inr q"
    unfolding GetAllUnprocessedTransactions_def
    using tx assms
    by (intro view_with_live)
      (simp add: need_tx_bucket_def ok_bucket load_bounds_ok [OF tx] tx_ok_def queue_head_def queue_tail_def
        word_less_nat_alt)
  with get_queue_view [OF assms] show ?thesis by simp
qed

lemma get_processed_live:
  assumes "ok d"
  shows "GetLastProcessedTransaction api d = Inr (as_processed (view d))"
proof -
  let ?c = "cont d txBucket"
  have bucket: "bBucket api txBucket d" using assms by (simp add: ok_bucket)
  have "?c lastProcessedTxSignatureKey = None \<or> holds_point ?c lastProcessedTxSignatureKey"
    using tx_okD [OF assms] by (simp add: tx_ok_def)
  then obtain p where p: "(case ?c lastProcessedTxSignatureKey of None \<Rightarrow> Inr zero_TxPoint
      | Some data \<Rightarrow> txPointFromBucketValue (Some data)) = Inr p"
    by (cases "?c lastProcessedTxSignatureKey") (auto simp: holds_point_def)
  have "GetLastProcessedTransaction api d = Inr p"
    unfolding GetLastProcessedTransaction_def getTxPointByKey_def
    by (rule view_with_live) (simp add: need_tx_bucket_def bucket bGet_cont p)
  with get_processed_view [OF assms] show ?thesis by auto
qed

lemma set_queried_live:
  assumes "ok d"
  shows "\<exists>d'. StoreLatestQueriedTransaction api p d = (Inr (), d')"
proof -
  have bucket: "bBucket api txBucket d" using assms by (simp add: ok_bucket)
  obtain d1 where put: "bPut api txBucket lastQueriedTxSignatureKey (encodeTxPoint p) d = (Inr (), d1)"
    using put_live [OF bucket] by force
  have "bind (\<lambda>d. (need_tx_bucket api d, d)) (\<lambda>_. bPut api txBucket lastQueriedTxSignatureKey (encodeTxPoint p)) d = (Inr (), d1)"
    using bucket put by (simp add: bind_def need_tx_bucket_def)
  then show ?thesis
    unfolding StoreLatestQueriedTransaction_def by (intro exI [of _ d1]) (rule update_live)
qed

lemma set_processed_live:
  assumes "ok d"
  shows "\<exists>d'. SetLastProcessedTransaction api p d = (Inr (), d')"
proof -
  have bucket: "bBucket api txBucket d" using assms by (simp add: ok_bucket)
  obtain d1 where put: "setLastProcessedTransactionInBucket api p d = (Inr (), d1)"
    using put_live [OF bucket] by (force simp: setLastProcessedTransactionInBucket_def)
  have "bind (\<lambda>d. (need_tx_bucket api d, d)) (\<lambda>_. setLastProcessedTransactionInBucket api p) d = (Inr (), d1)"
    using bucket put by (simp add: bind_def need_tx_bucket_def)
  then show ?thesis
    unfolding SetLastProcessedTransaction_def by (intro exI [of _ d1]) (rule update_live)
qed

lemma get_queried_live:
  assumes "ok d"
  shows "GetLatestQueriedTransaction api d = Inr (as_queried (view d))"
proof -
  let ?c = "cont d txBucket"
  have bucket: "bBucket api txBucket d" using assms by (simp add: ok_bucket)
  have "?c lastQueriedTxSignatureKey = None \<or> holds_point ?c lastQueriedTxSignatureKey"
    using tx_okD [OF assms] by (simp add: tx_ok_def)
  then obtain p where p: "(case ?c lastQueriedTxSignatureKey of None \<Rightarrow> Inr zero_TxPoint
      | Some data \<Rightarrow> txPointFromBucketValue (Some data)) = Inr p"
    by (cases "?c lastQueriedTxSignatureKey") (auto simp: holds_point_def)
  have "GetLatestQueriedTransaction api d = Inr p"
    unfolding GetLatestQueriedTransaction_def getTxPointByKey_def
    by (rule view_with_live) (simp add: need_tx_bucket_def bucket bGet_cont p)
  with get_queried_view [OF assms] show ?thesis by auto
qed

lemma store_block_live:
  assumes "ok d" "json_BlockPoint codec bp = Inr data"
  shows "\<exists>d'. StoreBlock api codec NilTx bp d = (Inr (), d')"
proof -
  have buckets: "bBucket api blocksBucket d" "bBucket api blockHashToNumberBucket d" using assms(1) by (simp_all add: ok_bucket)
  have keys: "encodeUint64 (bp_BlockSlot bp) \<noteq> []" "key_bytes (bp_BlockHash bp) \<noteq> []"
    by (metis length_encodeUint64 list.size(3) zero_neq_numeral, metis length_key_bytes list.size(3) zero_neq_numeral)
  obtain d1 where p1: "bPut api blocksBucket (encodeUint64 (bp_BlockSlot bp)) data d = (Inr (), d1)"
    using put_live [OF buckets(1) keys(1)] by blast
  have "bBucket api blockHashToNumberBucket d1" using buckets(2) put_bucket [OF p1] by simp
  then obtain d2 where p2: "bPut api blockHashToNumberBucket (key_bytes (bp_BlockHash bp)) (encodeUint64 (bp_BlockNumber bp)) d1 = (Inr (), d2)"
    using put_live [OF _ keys(2)] by blast
  show ?thesis
    unfolding StoreBlock_def run_in_tx_def StorageTransaction.case
    by (intro exI [of _ d2] update_live)
      (simp add: bind_def need_bucket_def gets_def ret_def buckets wrapE_def liftR_def assms(2) p1 p2)
qed

lemma store_head_live:
  assumes "ok d" "json_BlockPoint codec bp = Inr data"
  shows "\<exists>d'. StoreLatestBlockPoint api codec NilTx bp d = (Inr (), d')"
proof -
  have bucket: "bBucket api latestBlockPointBucket d" using assms(1) by (simp add: ok_bucket)
  have "latestBlockPointKey \<noteq> []" by code_simp
  then obtain d1 where put: "bPut api latestBlockPointBucket latestBlockPointKey data d = (Inr (), d1)"
    using put_live [OF bucket] by blast
  show ?thesis
    unfolding StoreLatestBlockPoint_def run_in_tx_def StorageTransaction.case
    by (intro exI [of _ d1] update_live)
      (simp add: bind_def need_bucket_def gets_def ret_def bucket wrapE_def liftR_def assms(2) put)
qed

lemma set_finalized_live:
  assumes "ok d"
  shows "\<exists>d'. StoreLatestFinalizedBlockNumber api n d = (Inr (), d')"
proof -
  have bucket: "bBucket api latestFinalizedBlockNumberBucket d" using assms by (simp add: ok_bucket)
  have "latestFinalizedBlockNumberKey \<noteq> []" by code_simp
  then obtain d1 where put: "bPut api latestFinalizedBlockNumberBucket latestFinalizedBlockNumberKey (encodeUint64 n) d = (Inr (), d1)"
    using put_live [OF bucket] by blast
  show ?thesis
    unfolding StoreLatestFinalizedBlockNumber_def
    by (intro exI [of _ d1] update_live) (simp add: bind_def need_bucket_def gets_def bucket wrapE_def put ret_def)
qed

lemma finalize_live:
  assumes d: "ok d" and q: "as_queue (view d) = p # ps"
  shows "\<exists>d'. FinalizeProcessedTransaction api (tp_TxSignature p) d = (Inr (), d')"
proof -
  let ?c = "cont d txBucket"
  let ?hd = "number_in ?c unprocessedTxQueueHeadKey" and ?tl = "number_in ?c unprocessedTxQueueTailKey"
  have tx: "tx_ok ?c" by (rule tx_okD [OF d])
  have bucket: "bBucket api txBucket d" using d by (simp add: ok_bucket)
  have lt: "queue_head ?c < queue_tail ?c"
    using q by (cases "queue_head ?c < queue_tail ?c") (simp_all add: bolt_view_def content_view_def queue_in_def)
  have key: "encodeUint64 ?hd = index_key (queue_head ?c)" by (simp add: index_key_def queue_head_def)
  have "hd (queue_in ?c) = p" using q by (simp add: bolt_view_def content_view_def)
  with popped_facts(1) [OF tx lt] have "point_in ?c (index_key (queue_head ?c)) = p" by simp
  moreover have "holds_point ?c (index_key (queue_head ?c))" using tx lt by (simp add: tx_ok_def)
  ultimately have front: "txPointFromBucketValue (bGet api txBucket (encodeUint64 ?hd) d) = Inr p"
    by (auto simp: holds_point_def key bGet_cont dest: point_in_Inr)
  have nlt: "\<not> ?tl \<le> ?hd" using lt by (simp add: queue_head_def queue_tail_def word_le_nat_alt)
  obtain d1 where del: "bDelete api txBucket (encodeUint64 ?hd) d = (Inr (), d1)"
    using delete_live [OF bucket] by blast
  have b1: "bBucket api txBucket d1" using delete_bucket [OF del] bucket by simp
  obtain d2 where put: "bPut api txBucket unprocessedTxQueueHeadKey (encodeUint64 (?hd + 1)) d1 = (Inr (), d2)"
    using put_live [OF b1] by force
  have b2: "bBucket api txBucket d2" using put_bucket [OF put] b1 by simp
  obtain d3 where set: "bPut api txBucket lastProcessedTxSignatureKey (encodeTxPoint p) d2 = (Inr (), d3)"
    using put_live [OF b2] by force
  have "removeTransactionInBucket api (tp_TxSignature p) d = (Inr p, d2)"
    using nlt front del put
    by (simp add: removeTransactionInBucket_def bind_def load_bounds_ok [OF tx] Let_def wrapE_def storeTxQueueHead_def ret_def)
  then show ?thesis
    unfolding FinalizeProcessedTransaction_def using bucket set
    by (intro exI [of _ d3] update_live)
      (simp add: bind_def need_tx_bucket_def setLastProcessedTransactionInBucket_def)
qed

text \<open>Processing a whole queue from the front.\<close>

lemma drain_live:
  "ok d \<Longrightarrow> as_queue (view d) = ps \<Longrightarrow>
     \<exists>d'. for_each (FinalizeProcessedTransaction api) (map tp_TxSignature ps) d = (Inr (), d') \<and> ok d'
       \<and> as_queue (view d') = [] \<and> as_processed (view d') = (if ps = [] then as_processed (view d) else last ps)"
proof (induction ps arbitrary: d)
  case Nil
  then show ?case by (simp add: ret_def)
next
  case (Cons p ps)
  obtain d1 where fin: "FinalizeProcessedTransaction api (tp_TxSignature p) d = (Inr (), d1)"
    using finalize_live [OF Cons.prems] by blast
  with finalize_writes [OF Cons.prems(1), of "tp_TxSignature p"]
  have d1: "ok d1" "view d1 = spec_finalize (view d)" by (auto simp: writes_def)
  then have "as_queue (view d1) = ps" "as_processed (view d1) = p"
    using Cons.prems(2) by (simp_all add: spec_finalize_def)
  with Cons.IH [OF d1(1)] fin show ?case by (auto simp: bind_def)
qed

text \<open>Pushing onto an empty queue and processing everything that was pushed.\<close>

lemma push_drain:
  assumes d: "ok d" and empty: "GetAllUnprocessedTransactions api d = Inr []"
    and room: "push_room (length pts) (view d)" and sigs: "\<forall>p \<in> set pts. tp_TxSignature p \<noteq> 0"
  shows "\<exists>d' d''. PushUnprocessedTransactions api pts d = (Inr (), d') \<and> GetAllUnprocessedTransactions api d' = Inr pts
     \<and> for_each (FinalizeProcessedTransaction api) (map tp_TxSignature pts) d' = (Inr (), d'')
     \<and> GetAllUnprocessedTransactions api d'' = Inr []
     \<and> GetLastProcessedTransaction api d'' = (if pts = [] then GetLastProcessedTransaction api d else Inr (last pts))"
proof -
  obtain d' where push: "PushUnprocessedTransactions api pts d = (Inr (), d')" using push_live [OF d] by blast
  with push_writes [OF d room] have d': "ok d'" and v: "view d' = spec_push pts (view d)" by (auto simp: writes_def)
  have "filter (\<lambda>p. tp_TxSignature p \<noteq> 0) pts = pts" using sigs by simp
  with v get_queue_live [OF d] empty have q: "as_queue (view d') = pts" "as_processed (view d') = as_processed (view d)"
    by (simp_all add: spec_push_def)
  from drain_live [OF d' q(1)] obtain d'' where
    "for_each (FinalizeProcessedTransaction api) (map tp_TxSignature pts) d' = (Inr (), d'')" "ok d''"
    "as_queue (view d'') = []" "as_processed (view d'') = (if pts = [] then as_processed (view d') else last pts)" by blast
  with push q get_queue_live [OF d'] get_queue_live [of d''] get_processed_live [of d''] get_processed_live [OF d]
  show ?thesis by auto
qed

text \<open>The block lookups.\<close>

lemma blocks_okD: "ok d \<Longrightarrow> blocks_ok codec (cont d)"
  by (simp add: bolt_ok_def content_ok_def)

lemma get_head_live:
  assumes d: "ok d"
  shows "GetLatestBlockPoint api codec d = Inr (as_head (view d))"
proof -
  have "holds_block codec (cont d latestBlockPointBucket) latestBlockPointKey"
    using blocks_okD [OF d] by (simp add: blocks_ok_def)
  then have "\<exists>b. GetLatestBlockPoint api codec d = Inr b"
    unfolding GetLatestBlockPoint_def using d
    by (cases "cont d latestBlockPointBucket latestBlockPointKey")
      (force simp: holds_block_def ok_bucket bGet_cont intro: view_with_live)+
  with get_head_view [OF d] show ?thesis by auto
qed

lemma block_walk_live:
  assumes d: "ok d"
  shows "s < 2 ^ 64 \<Longrightarrow> latest_at (as_blocks (view d)) (of_nat s) bp \<Longrightarrow> block_walk api codec d s = Inr (bp_BlockHash bp)"
proof (induction s)
  case 0
  then show ?case
    by (subst block_walk.simps)
      (auto simp: latest_at_def bolt_view_def content_view_def block_in_def bGet_cont split: option.splits sum.splits)
next
  case (Suc s)
  let ?s = "of_nat (Suc s) :: u64"
  have le: "x \<le> ?s \<longleftrightarrow> x = ?s \<or> x \<le> of_nat s" for x :: u64
    using Suc.prems(1) by (simp add: word_le_nat_alt word_unat_eq_iff unat_of_nat_u64 le_Suc_eq del: of_nat_Suc) auto
  have gt: "x \<le> of_nat s \<Longrightarrow> x < ?s" for x :: u64
    using Suc.prems(1) by (simp add: word_le_nat_alt word_less_nat_alt unat_of_nat_u64 del: of_nat_Suc)
  have block: "as_blocks (view d) ?s = block_in codec (cont d blocksBucket) (encodeUint64 ?s)"
    by (simp add: bolt_view_def content_view_def)
  show ?case
  proof (cases "cont d blocksBucket (encodeUint64 ?s)")
    case None
    with block have none: "as_blocks (view d) ?s = None" by (simp add: block_in_def)
    from Suc.prems(2) none have "latest_at (as_blocks (view d)) (of_nat s) bp" unfolding latest_at_def le by auto
    with Suc.IH Suc.prems(1) None show ?thesis
      by (subst block_walk.simps) (simp add: bGet_cont del: of_nat_Suc)
  next
    case (Some v)
    have "holds_block codec (cont d blocksBucket) (encodeUint64 ?s)"
      using blocks_okD [OF d] unfolding blocks_ok_def by blast
    with Some obtain b where b: "unjson_BlockPoint codec v = Inr b" by (auto simp: holds_block_def)
    with Some block have "as_blocks (view d) ?s = Some b" by (simp add: block_in_def)
    with Suc.prems(2) have "bp = b" unfolding latest_at_def le using gt by force
    with Some b show ?thesis by (subst block_walk.simps) (simp add: bGet_cont del: of_nat_Suc)
  qed
qed

lemma GetBlockhashBySlot_iff:
  assumes d: "ok d"
  shows "GetBlockhashBySlot api codec slot d = Inr h \<longleftrightarrow>
    (\<exists>top bp. GetLatestBlockPoint api codec d = Inr (Some top) \<and> slot \<le> bp_BlockSlot top
       \<and> latest_at (as_blocks (view d)) slot bp \<and> h = bp_BlockHash bp)"
proof
  assume "GetBlockhashBySlot api codec slot d = Inr h"
  from get_hash_view [OF d this] show "\<exists>top bp. GetLatestBlockPoint api codec d = Inr (Some top) \<and> slot \<le> bp_BlockSlot top
       \<and> latest_at (as_blocks (view d)) slot bp \<and> h = bp_BlockHash bp"
    by (auto simp: get_head_live [OF d])
next
  assume "\<exists>top bp. GetLatestBlockPoint api codec d = Inr (Some top) \<and> slot \<le> bp_BlockSlot top
       \<and> latest_at (as_blocks (view d)) slot bp \<and> h = bp_BlockHash bp"
  then obtain top bp where h: "GetLatestBlockPoint api codec d = Inr (Some top)" "slot \<le> bp_BlockSlot top"
    "latest_at (as_blocks (view d)) slot bp" "h = bp_BlockHash bp" by blast
  have "unat slot < 2 ^ 64" using unsigned_less [of slot, where ?'a = nat] by simp
  from block_walk_live [OF d this, of bp] h(3) have "block_walk api codec d (unat slot) = Inr (bp_BlockHash bp)" by simp
  with h d show "GetBlockhashBySlot api codec slot d = Inr h"
    by (simp add: GetBlockhashBySlot_def not_less ok_bucket view_with_live)
qed

text \<open>Storing an event.\<close>

lemma get_events_number_live:
  assumes d: "ok d"
  shows "GetEventsByBlockNumber api codec bn d = Inr (filter (\<lambda>r. er_BlockNumber r = bn) (as_events (view d)))"
proof -
  let ?C = "cont d"
  let ?is = "filter (\<lambda>i. er_BlockNumber (event_in codec ?C i) = bn) (event_numbers (event_count ?C))"
  have evok: "events_ok codec ?C" using d by (simp add: bolt_ok_def content_ok_def)
  have loop: "events_by_id_loop api codec d (map of_nat ?is) [] = Inr ([] @ map (event_in codec ?C) ?is)"
    using d by (intro events_by_id_loop_view [OF evok]) (auto simp: ok_bucket)
  have index: "(case ?C eventIDsByBlockNumberBucket (encodeUint64 bn) of None \<Rightarrow> [] | Some v \<Rightarrow> v) = concat (map index_key ?is)"
    using evok by (simp add: events_ok_def)
  have "\<exists>es. GetEventsByBlockNumber api codec bn d = Inr es"
  proof (cases "?C eventIDsByBlockNumberBucket (encodeUint64 bn)")
    case None
    then show ?thesis using d
      by (auto simp: GetEventsByBlockNumber_def bGet_cont ok_bucket intro!: exI view_with_live)
  next
    case (Some v)
    with index have "v = concat (map index_key ?is)" by simp
    with Some loop d show ?thesis
      by (auto simp: GetEventsByBlockNumber_def bGet_cont ok_bucket decodeEventIDs_index intro!: exI view_with_live)
  qed
  with get_events_number_view [OF d] show ?thesis by auto
qed

lemma get_signatures_live:
  assumes d: "ok d"
  shows "\<exists>sigs. GetProcessedTxSignaturesBySlot api codec slot d = Inr sigs"
proof -
  have "GetEventsBySlot api codec slot d = Inr (filter (\<lambda>r. er_Slot r = slot) (as_events (view d)))"
    unfolding GetEventsBySlot_def using d by (intro view_with_live) (rule events_by_slot_buckets_view)
  with signatures_loop_view [OF d, of slot] show ?thesis by (auto simp: GetProcessedTxSignaturesBySlot_def)
qed

lemma store_event_live:
  assumes d: "ok d" and json: "json_event codec ev = Inr data" "unjson_map codec data = Inr m"
    and rec: "json_EventRecord codec (event_record_of (Signature_String codec) (PublicKey_String codec)
       (of_nat (Suc (length (as_events (view d))))) slot bn sig prog name hash m) = Inr v"
  shows "\<exists>d'. StoreEvent api codec NilTx slot bn sig prog name hash ev d = (Inr (), d')"
proof -
  let ?i = "of_nat (Suc (event_count (cont d))) :: u64"
  have n: "length (as_events (view d)) = event_count (cont d)"
    by (simp add: bolt_view_def content_view_def events_in_def)
  have cb: "bBucket api eventIDCounterBucket d" and ub: "bBucket api unprocessedEventsBucket d"
    and ib: "bBucket api eventIDsByBlockNumberBucket d" using d by (simp_all add: ok_bucket)
  have key: "counterKey \<noteq> []" by code_simp
  obtain d1 where p1: "bPut api eventIDCounterBucket counterKey (encodeUint64 ?i) d = (Inr (), d1)"
    using put_live [OF cb key] by blast
  have ctr: "holds_number (cont d eventIDCounterBucket) counterKey"
    using d by (simp add: bolt_ok_def content_ok_def events_ok_def)
  have id: "getNextEventID api d = (Inr ?i, d1)"
    using p1 cb ctr
    by (cases "cont d eventIDCounterBucket counterKey")
      (auto simp: getNextEventID_def bind_def need_bucket_def gets_def ret_def liftR_def wrapE_def bGet_cont
        event_count_def number_in_def holds_number_def decodeUint64_def add.commute)
  have ub1: "bBucket api unprocessedEventsBucket d1" and ib1: "bBucket api eventIDsByBlockNumberBucket d1"
    using put_bucket [OF p1] ub ib by simp_all
  obtain d2 where p2: "bPut api unprocessedEventsBucket (encodeUint64 ?i) v d1 = (Inr (), d2)"
    using put_live [OF ub1 encodeUint64_nonempty] by blast
  have ib2: "bBucket api eventIDsByBlockNumberBucket d2" using put_bucket [OF p2] ib1 by simp
  define ids where "ids = (case bGet api eventIDsByBlockNumberBucket (encodeUint64 bn) d2 of None \<Rightarrow> [] | Some ids \<Rightarrow> ids)"
  obtain d3 where "bPut api eventIDsByBlockNumberBucket (encodeUint64 bn) (ids @ encodeUint64 ?i) d2 = (Inr (), d3)"
    using put_live [OF ib2 encodeUint64_nonempty] by blast
  then have p3: "appendEventIDForBlockNumber api bn ?i d2 = (Inr (), d3)"
    by (simp add: appendEventIDForBlockNumber_def bind_def need_bucket_def gets_def wrapE_def ib2 ret_def ids_def)
  show ?thesis
    unfolding StoreEvent_def run_in_tx_def StorageTransaction.case
    by (intro exI [of _ d3] update_live)
      (simp add: bind_def id need_bucket_def gets_def ret_def liftR_def wrapE_def ub1 json
        rec [unfolded n event_record_of_def] p2 p3 del: of_nat_Suc)
qed

lemma store_event_indexed:
  assumes d: "ok d" and room: "event_room 1 (view d)"
    and json: "json_event codec ev = Inr data" "unjson_map codec data = Inr m"
    and rec: "json_EventRecord codec (event_record_of (Signature_String codec) (PublicKey_String codec)
       (of_nat (Suc (length (as_events (view d))))) slot bn sig prog name hash m) = Inr v"
  shows "\<exists>d' m'. StoreEvent api codec NilTx slot bn sig prog name hash ev d = (Inr (), d') \<and> ok d'
    \<and> (\<forall>b. GetEventsByBlockNumber api codec b d' = Inr (filter (\<lambda>r. er_BlockNumber r = b) (as_events (view d)) @
        (if b = bn then [event_record_of (Signature_String codec) (PublicKey_String codec)
          (of_nat (Suc (length (as_events (view d))))) slot bn sig prog name hash m'] else [])))"
proof -
  obtain d' where st: "StoreEvent api codec NilTx slot bn sig prog name hash ev d = (Inr (), d')"
    using store_event_live [OF d json rec] by blast
  with store_event_writes [OF d room, of slot bn sig prog name hash ev] obtain m'
    where d': "ok d'" and v: "as_events (view d') = as_events (view d) @
        [event_record_of (Signature_String codec) (PublicKey_String codec)
          (of_nat (Suc (length (as_events (view d))))) slot bn sig prog name hash m']"
    by (auto simp: writes_def simp del: of_nat_Suc)
  show ?thesis using st d' get_events_number_live [OF d'] v
    by (intro exI [of _ d'] exI [of _ m']) (auto simp: event_record_of_def)
qed

end

section \<open>An instance of the laws\<close>

text \<open>
  A concrete codec: fixed-width fields and strings behind their length. A string of
  \<open>2 ^ 64\<close> characters or more is refused.
\<close>

definition byte_char :: "byte \<Rightarrow> char" where
  "byte_char b = char_of (unat b)"

lemma byte_char_of_char [simp]: "byte_char (of_char c) = c"
proof -
  have "unat (of_nat (of_char c) :: byte) = of_char c"
    by (simp only: unsigned_of_nat) (simp add: take_bit_eq_mod)
  then show ?thesis by (simp add: byte_char_def of_nat_of_char)
qed

lemma of_char_byte_char [simp]: "of_char (byte_char b) = b"
proof -
  have "unat b mod 256 = unat b" using unsigned_less [of b, where ?'a = nat] by simp
  then have "of_nat (of_char (char_of (unat b)) :: nat) = b" by (simp only: of_char_of) simp
  then show ?thesis by (simp only: byte_char_def of_nat_of_char)
qed

definition put_string :: "string \<Rightarrow> bytes" where
  "put_string s = encodeUint64 (of_nat (length s)) @ str_bytes s"

definition take_string :: "bytes \<Rightarrow> string \<times> bytes" where
  "take_string v =
     (let n = unat (be_word (take 8 v) :: u64) in (map byte_char (take n (drop 8 v)), drop (8 + n) v))"

lemma take_put_string [simp]: "length s < 2 ^ 64 \<Longrightarrow> take_string (put_string s @ rest) = (s, rest)"
  by (simp add: take_string_def put_string_def Let_def unat_of_nat_u64 str_bytes_def comp_def)

lemma take_put_string_last [simp]: "length s < 2 ^ 64 \<Longrightarrow> take_string (put_string s) = (s, [])"
  using take_put_string [of s "[]"] by simp

definition mem_json_EventRecord :: "unit EventRecord \<Rightarrow> go_error + bytes" where
  "mem_json_EventRecord r =
     (if length (er_TxSignature r) < 2 ^ 64 \<and> length (er_Program r) < 2 ^ 64 \<and> length (er_EventType r) < 2 ^ 64
      then Inr (encodeUint64 (er_ID r) @ encodeUint64 (er_Slot r) @ encodeUint64 (er_BlockNumber r)
        @ key_bytes (er_InnerActionHash r)
        @ put_string (er_TxSignature r) @ put_string (er_Program r) @ put_string (er_EventType r))
      else Inl (ExtErr STR ''string too long''))"

definition mem_unjson_EventRecord :: "bytes \<Rightarrow> go_error + unit EventRecord" where
  "mem_unjson_EventRecord v =
     (let (sig, v1) = take_string (drop 56 v);
          (prog, v2) = take_string v1;
          (name, v3) = take_string v2
      in Inr \<lparr>er_ID = be_word (take 8 v), er_Slot = be_word (slice_of 8 8 v), er_BlockNumber = be_word (slice_of 16 8 v),
           er_TxSignature = sig, er_Program = prog, er_EventType = name,
           er_InnerActionHash = be_word (slice_of 24 32 v), er_Data = ()\<rparr>)"

definition mem_codec :: "(unit, unit) store_codec" where
  "mem_codec =
     \<lparr>json_BlockPoint = (\<lambda>bp. Inr (encodeUint64 (bp_BlockSlot bp) @ key_bytes (bp_BlockHash bp) @ encodeUint64 (bp_BlockNumber bp))),
      unjson_BlockPoint = (\<lambda>v. if length v = 48
        then Inr \<lparr>bp_BlockSlot = be_word (take 8 v), bp_BlockHash = be_word (slice_of 8 32 v), bp_BlockNumber = be_word (drop 40 v)\<rparr>
        else Inl (ExtErr STR ''invalid block point'')),
      json_event = (\<lambda>_. Inr []),
      unjson_map = (\<lambda>_. Inr ()),
      json_EventRecord = mem_json_EventRecord,
      unjson_EventRecord = mem_unjson_EventRecord,
      Signature_String = (\<lambda>s. map byte_char (sig_bytes s)),
      SignatureFromBase58 = (\<lambda>s. Inr (be_word (str_bytes s))),
      PublicKey_String = (\<lambda>k. map byte_char (key_bytes k))\<rparr>"

lemma be_word_key_bytes [simp]: "be_word (key_bytes k) = k"
  by (simp add: key_bytes_def be_word_be_bytes)

lemma be_word_sig_bytes [simp]: "be_word (sig_bytes k) = k"
  by (simp add: sig_bytes_def be_word_be_bytes)

lemma mem_record_codec: "mem_json_EventRecord r = Inr v \<Longrightarrow> mem_unjson_EventRecord v = Inr r"
proof -
  assume "mem_json_EventRecord r = Inr v"
  then have small: "length (er_TxSignature r) < 2 ^ 64" "length (er_Program r) < 2 ^ 64" "length (er_EventType r) < 2 ^ 64"
    and v: "v = encodeUint64 (er_ID r) @ encodeUint64 (er_Slot r) @ encodeUint64 (er_BlockNumber r)
        @ key_bytes (er_InnerActionHash r)
        @ put_string (er_TxSignature r) @ put_string (er_Program r) @ put_string (er_EventType r) @ []"
    by (simp_all add: mem_json_EventRecord_def split: if_splits)
  have "slice_of 8 8 v = encodeUint64 (er_Slot r)" "slice_of 16 8 v = encodeUint64 (er_BlockNumber r)"
    "slice_of 24 32 v = key_bytes (er_InnerActionHash r)" "take 8 v = encodeUint64 (er_ID r)"
    "drop 56 v = put_string (er_TxSignature r) @ put_string (er_Program r) @ put_string (er_EventType r) @ []"
    by (simp_all add: v slice_of_def)
  then show ?thesis using small by (simp add: mem_unjson_EventRecord_def)
qed

interpretation mem_handler: bolt_live_handler mem_api mem_codec
  by unfold_locales (auto simp: mem_codec_def mem_record_codec slice_of_def str_bytes_def comp_def)

text \<open>The database as \<open>NewBoltStorageHandler\<close> leaves an empty file.\<close>

definition mem_new :: mem_db where
  "mem_new = (\<lambda>b. if b \<in> set all_buckets then Some RBT.empty else None)"

lemma mem_new_reads: "content_of mem_api mem_new = (\<lambda>b k. None)"
  by (simp add: content_of_def mem_new_def fun_eq_iff)

lemma empty_content_ok: "content_ok codec (\<lambda>b k. None)"
  by (simp add: content_ok_def tx_ok_def blocks_ok_def events_ok_def holds_number_def
      holds_block_def queue_head_def queue_tail_def number_in_def event_count_def)

lemma mem_new_ok: "bolt_ok mem_api mem_codec mem_new"
  unfolding bolt_ok_def mem_new_reads using empty_content_ok by (auto simp: mem_new_def)

lemma mem_new_view: "bolt_view mem_api mem_codec mem_new =
    \<lparr>as_queue = [], as_popped = 0, as_processed = zero_TxPoint, as_queried = zero_TxPoint, as_finalized = 0,
     as_head = None, as_blocks = (\<lambda>_. None), as_numbers = (\<lambda>_. None), as_events = []\<rparr>"
  by (simp add: bolt_view_def content_view_def mem_new_reads queue_in_def queue_head_def queue_tail_def number_in_def
      point_in_def block_in_def events_in_def event_count_def)

end
