(* ===== verification/Storage_Properties.thy ===== *)
theory Storage_Properties
  imports Bolt_Live
begin

text \<open>
  The properties of the BoltDB storage, stated over the operations of the code for every
  store and codec that keep their documented laws, with the in-memory store as an instance.
\<close>

section \<open>Opening\<close>

context bolt_handler
begin

lemma handler_contract:
  "storage_handler (BoltStorageHandler api codec) (bolt_ok api codec) (bolt_view api codec)
     (Signature_String codec) (PublicKey_String codec)"
  by unfold_locales

lemma create_buckets:
  "for_each (\<lambda>(b, msg). wrapE msg (bCreateBucketIfNotExists api b)) bs d = (Inr (), d') \<Longrightarrow>
     (\<forall>b. bBucket api b d' = (b \<in> set (map fst bs) \<or> bBucket api b d)) \<and> cont d' = cont d"
proof (induction bs arbitrary: d)
  case Nil
  then show ?case by (simp add: ret_def)
next
  case (Cons x bs)
  obtain b msg where x: "x = (b, msg)" by (cases x)
  with Cons.prems obtain d1 where c: "bCreateBucketIfNotExists api b d = (Inr (), d1)"
    and rest: "for_each (\<lambda>(b, msg). wrapE msg (bCreateBucketIfNotExists api b)) bs d1 = (Inr (), d')"
    by (auto simp: bind_Inr_iff wrapE_Inr_iff)
  have "cont d1 = cont d" using create_get [OF c] by (simp add: content_of_def fun_eq_iff)
  with Cons.IH [OF rest] create_bucket [OF c] x show ?case by auto
qed

lemma new_handler_ok:
  assumes open_db: "bolt_Open path = Inr db" and "content_ok codec (cont db)"
    and new: "NewBoltStorageHandler api bolt_Open path = Inr d"
  shows "ok d" "cont d = cont db"
proof -
  from new open_db have "bUpdate api (for_each (\<lambda>(b, msg). wrapE msg (bCreateBucketIfNotExists api b)) bucket_creations) db
      = (Inr (), d)"
    by (auto simp: NewBoltStorageHandler_def split: prod.splits sum.splits)
  from create_buckets [OF update_Inr [OF this]] assms(2) show "ok d" "cont d = cont db"
    by (simp_all add: bolt_ok_def all_buckets_def bucket_creations_def)
qed

end

text \<open>
  C2. The BoltDB handler implements the storage interface: every write that returns nil has
  exactly the effect its specification gives on the queue, the cursors, the block indexes and
  the events, every write that returns an error changes nothing, every write keeps the
  invariant, and every reader that returns without an error returns what the state holds.
\<close>

theorem BoltStorageHandler_implements_interface:
  assumes "bolt_handler api codec"
  shows "storage_handler (BoltStorageHandler api codec) (bolt_ok api codec) (bolt_view api codec)
     (Signature_String codec) (PublicKey_String codec)"
  using assms by (rule bolt_handler.handler_contract)

theorem BoltStorageHandler_implements_interface_witness:
  "storage_handler (BoltStorageHandler mem_api mem_codec) (bolt_ok mem_api mem_codec) (bolt_view mem_api mem_codec)
     (Signature_String mem_codec) (PublicKey_String mem_codec)"
  by (rule BoltStorageHandler_implements_interface [OF mem_handler.bolt_handler_axioms])

text \<open>
  C38. Opening a database, a fresh one or one that an earlier run left in good order, creates
  every bucket that the operations of the handler use, and yields a handler whose invariant holds
  and whose content is what the file held.
\<close>

theorem NewBoltStorageHandler_ok:
  assumes "bolt_handler api codec" "bolt_Open path = Inr db" "content_ok codec (content_of api db)"
    and "NewBoltStorageHandler api bolt_Open path = Inr d"
  shows "(\<forall>b \<in> set all_buckets. bBucket api b d) \<and> bolt_ok api codec d \<and> bolt_view api codec d = bolt_view api codec db"
  using bolt_handler.new_handler_ok [OF assms] by (simp add: bolt_view_def bolt_ok_def)

definition mem_open :: "string \<Rightarrow> go_error + mem_db" where
  "mem_open path = Inr (\<lambda>_. None)"

lemma mem_create_buckets:
  "[] \<notin> set (map fst bs) \<Longrightarrow> \<exists>d'. for_each (\<lambda>(b, msg). wrapE msg (bCreateBucketIfNotExists mem_api b)) bs d = (Inr (), d')"
  by (induction bs arbitrary: d) (auto simp: ret_def bind_def wrapE_def mem_api_def)

lemma NewBoltStorageHandler_mem: "\<exists>d. NewBoltStorageHandler mem_api mem_open path = Inr d"
proof -
  have "[] \<notin> set (map fst bucket_creations)" by code_simp
  from mem_create_buckets [OF this, of "\<lambda>_. None"] show ?thesis
    by (auto simp: NewBoltStorageHandler_def mem_open_def mem_update_Inr)
qed

theorem NewBoltStorageHandler_ok_witness:
  "\<exists>d. NewBoltStorageHandler mem_api mem_open ''events.db'' = Inr d \<and> bolt_ok mem_api mem_codec d"
proof -
  obtain d where d: "NewBoltStorageHandler mem_api mem_open ''events.db'' = Inr d"
    using NewBoltStorageHandler_mem by blast
  have "content_ok mem_codec (content_of mem_api (\<lambda>_. None))"
    using empty_content_ok by (simp add: content_of_def)
  from NewBoltStorageHandler_ok [OF mem_handler.bolt_handler_axioms mem_open_def this d] d show ?thesis by blast
qed

section \<open>The queue\<close>

text \<open>
  C18. The queue is first in, first out, and works to the end: on a store that fails no write,
  pushing transactions onto an empty queue succeeds and lists them in the order they were
  passed in, finalizing them in that order succeeds one after the other, leaves the queue
  empty, and the last one is then the last processed transaction.
\<close>

theorem queue_push_drain:
  assumes "bolt_live_handler api codec" and "bolt_ok api codec d"
    and "GetAllUnprocessedTransactions api d = Inr []" and "push_room (length pts) (bolt_view api codec d)"
    and "\<forall>p \<in> set pts. tp_TxSignature p \<noteq> 0"
  shows "\<exists>d' d''. PushUnprocessedTransactions api pts d = (Inr (), d') \<and> GetAllUnprocessedTransactions api d' = Inr pts
     \<and> for_each (FinalizeProcessedTransaction api) (map tp_TxSignature pts) d' = (Inr (), d'')
     \<and> GetAllUnprocessedTransactions api d'' = Inr []
     \<and> GetLastProcessedTransaction api d'' = (if pts = [] then GetLastProcessedTransaction api d else Inr (last pts))"
  using assms by (rule bolt_live_handler.push_drain)

lemma mem_new_queue: "GetAllUnprocessedTransactions mem_api mem_new = Inr []"
  using mem_handler.get_queue_live [OF mem_new_ok] by (simp add: mem_new_view)

definition sample_points :: "TxPoint list" where
  "sample_points = [\<lparr>tp_TxSignature = 5, tp_Slot = 100\<rparr>, \<lparr>tp_TxSignature = 7, tp_Slot = 100\<rparr>]"

theorem queue_push_drain_witness:
  "\<exists>d' d''. PushUnprocessedTransactions mem_api sample_points mem_new = (Inr (), d')
     \<and> GetAllUnprocessedTransactions mem_api d' = Inr sample_points
     \<and> for_each (FinalizeProcessedTransaction mem_api) [5, 7] d' = (Inr (), d'')
     \<and> GetAllUnprocessedTransactions mem_api d'' = Inr []"
  using queue_push_drain [OF mem_handler.bolt_live_handler_axioms mem_new_ok mem_new_queue, of sample_points]
  by (auto simp: mem_new_view push_room_def sample_points_def)

text \<open>
  The writes of a storage in the order a tracker interleaves them. A run keeps, beside the state,
  the transactions whose push returned nil and the signatures whose finalize returned nil; a
  write that returns an error is passed over.
\<close>

datatype 'ev storage_write =
    PushTxs "TxPoint list"
  | FinalizeTx Signature
  | SaveQueried TxPoint
  | SaveFinalizedNumber u64
  | SaveBlock BlockPoint
  | SaveHead BlockPoint
  | SaveEvent u64 u64 Signature PublicKey string Hash 'ev

fun run_write :: "('d, 'ev, 'm) StorageHandler \<Rightarrow> 'ev storage_write \<Rightarrow> ('d, unit) exec" where
  "run_write st (PushTxs pts) = sh_PushUnprocessedTransactions st pts"
| "run_write st (FinalizeTx sig) = sh_FinalizeProcessedTransaction st sig"
| "run_write st (SaveQueried p) = sh_StoreLatestQueriedTransaction st p"
| "run_write st (SaveFinalizedNumber n) = sh_StoreLatestFinalizedBlockNumber st n"
| "run_write st (SaveBlock bp) = sh_StoreBlock st NilTx bp"
| "run_write st (SaveHead bp) = sh_StoreLatestBlockPoint st NilTx bp"
| "run_write st (SaveEvent slot bn sig prog name hash ev) = sh_StoreEvent st NilTx slot bn sig prog name hash ev"

fun pushed_by :: "'ev storage_write \<Rightarrow> TxPoint list" where
  "pushed_by (PushTxs pts) = filter (\<lambda>p. tp_TxSignature p \<noteq> 0) pts"
| "pushed_by _ = []"

fun finalized_by :: "'ev storage_write \<Rightarrow> Signature list" where
  "finalized_by (FinalizeTx sig) = [sig]"
| "finalized_by _ = []"

fun run_writes :: "('d, 'ev, 'm) StorageHandler \<Rightarrow> 'ev storage_write list \<Rightarrow> 'd \<Rightarrow> TxPoint list \<times> Signature list \<times> 'd" where
  "run_writes st [] d = ([], [], d)"
| "run_writes st (x # xs) d =
     (case run_write st x d of (r, d1) \<Rightarrow>
      case run_writes st xs d1 of (entered, finalized, d') \<Rightarrow>
        if isl r then (entered, finalized, d') else (pushed_by x @ entered, finalized_by x @ finalized, d'))"

fun write_size :: "'ev storage_write \<Rightarrow> nat" where
  "write_size (PushTxs pts) = length pts"
| "write_size (SaveEvent _ _ _ _ _ _ _) = 1"
| "write_size _ = 0"

context storage_handler
begin

text \<open>One write, on a state with room for it: what it moves through the queue.\<close>

lemma run_write_queue:
  assumes "ok d" "push_room (write_size x + n) (view d)" "event_room (write_size x + n) (view d)" "run_write st x d = (r, d')"
  shows "ok d'" "push_room n (view d')" "event_room n (view d')"
    "\<not> isl r \<Longrightarrow> map tp_TxSignature (take (length (finalized_by x)) (as_queue (view d))) = finalized_by x \<and>
       length (finalized_by x) \<le> length (as_queue (view d)) \<and>
       as_queue (view d') = drop (length (finalized_by x)) (as_queue (view d)) @ pushed_by x \<and>
       as_processed (view d') = (if finalized_by x = [] then as_processed (view d) else hd (as_queue (view d)))"
    "isl r \<Longrightarrow> view d' = view d"
proof -
  have room: "push_room (write_size x) (view d)" "event_room (write_size x) (view d)"
    using assms(2,3) by (simp_all add: push_room_def event_room_def)
  have "ok d' \<and> push_room n (view d') \<and> event_room n (view d') \<and> (isl r \<longrightarrow> view d' = view d) \<and>
    (\<not> isl r \<longrightarrow> map tp_TxSignature (take (length (finalized_by x)) (as_queue (view d))) = finalized_by x \<and>
       length (finalized_by x) \<le> length (as_queue (view d)) \<and>
       as_queue (view d') = drop (length (finalized_by x)) (as_queue (view d)) @ pushed_by x \<and>
       as_processed (view d') = (if finalized_by x = [] then as_processed (view d) else hd (as_queue (view d))))"
  proof (cases x)
    case (PushTxs pts)
    obtain k where "length pts = length (filter (\<lambda>p. tp_TxSignature p \<noteq> 0) pts) + k"
      using le_Suc_ex [OF length_filter_le] by blast
    with PushTxs assms push [OF assms(1), of pts] room show ?thesis
      by (cases r) (auto simp: writes_def spec_push_def push_room_def event_room_def)
  next
    case (FinalizeTx sig)
    with assms finalize [OF assms(1), of sig] show ?thesis
      by (cases r; cases "as_queue (view d)") (auto simp: writes_def spec_finalize_def push_room_def event_room_def)
  next
    case (SaveQueried p)
    with assms set_queried [OF assms(1), of p] show ?thesis
      by (cases r) (auto simp: writes_def push_room_def event_room_def)
  next
    case (SaveFinalizedNumber k)
    with assms set_finalized [OF assms(1), of k] show ?thesis
      by (cases r) (auto simp: writes_def push_room_def event_room_def)
  next
    case (SaveBlock bp)
    with assms store_block [OF assms(1), of bp] show ?thesis
      by (cases r) (auto simp: writes_def spec_block_def push_room_def event_room_def)
  next
    case (SaveHead bp)
    with assms store_head [OF assms(1), of bp] show ?thesis
      by (cases r) (auto simp: writes_def push_room_def event_room_def)
  next
    case (SaveEvent slot bn sig prog name hash ev)
    with assms store_event [OF assms(1), of slot bn sig prog name hash ev] room show ?thesis
      by (cases r) (auto simp: writes_def push_room_def event_room_def)
  qed
  then show "ok d'" "push_room n (view d')" "event_room n (view d')"
    "\<not> isl r \<Longrightarrow> map tp_TxSignature (take (length (finalized_by x)) (as_queue (view d))) = finalized_by x \<and>
       length (finalized_by x) \<le> length (as_queue (view d)) \<and>
       as_queue (view d') = drop (length (finalized_by x)) (as_queue (view d)) @ pushed_by x \<and>
       as_processed (view d') = (if finalized_by x = [] then as_processed (view d) else hd (as_queue (view d)))"
    "isl r \<Longrightarrow> view d' = view d"
    by blast+
qed

lemma run_writes_queue:
  assumes "ok d" "push_room (sum_list (map write_size xs)) (view d)" "event_room (sum_list (map write_size xs)) (view d)"
    and "run_writes st xs d = (entered, finalized, d')"
  shows "ok d' \<and> length finalized \<le> length (as_queue (view d) @ entered) \<and>
    finalized = map tp_TxSignature (take (length finalized) (as_queue (view d) @ entered)) \<and>
    as_queue (view d') = drop (length finalized) (as_queue (view d) @ entered) \<and>
    as_processed (view d') = (if finalized = [] then as_processed (view d) else (as_queue (view d) @ entered) ! (length finalized - 1))"
  using assms
proof (induction xs arbitrary: d entered finalized)
  case (Cons x xs)
  obtain r d1 where x: "run_write st x d = (r, d1)" by fastforce
  obtain entered1 finalized1 where rest: "run_writes st xs d1 = (entered1, finalized1, d')"
    using Cons.prems(4) x by (auto split: prod.splits if_splits)
  note step = run_write_queue [OF Cons.prems(1) Cons.prems(2) [simplified] Cons.prems(3) [simplified] x]
  note IH = Cons.IH [OF step(1-3) rest]
  show ?case
  proof (cases "isl r")
    case True
    with IH step(5) Cons.prems(4) x rest show ?thesis by simp
  next
    case False
    let ?q = "as_queue (view d)" and ?n = "length (finalized_by x)"
    have out: "entered = pushed_by x @ entered1" "finalized = finalized_by x @ finalized1"
      using Cons.prems(4) x rest False by simp_all
    from step(4) [OF False] have now: "finalized_by x = map tp_TxSignature (take ?n ?q)" "?n \<le> length ?q"
      "as_queue (view d1) = drop ?n ?q @ pushed_by x"
      "as_processed (view d1) = (if finalized_by x = [] then as_processed (view d) else hd ?q)"
      by simp_all
    have all: "?q @ entered = take ?n ?q @ as_queue (view d1) @ entered1" by (simp add: out now(3))
    have n: "length (take ?n ?q) = ?n" using now(2) by simp
    have "as_processed (view d') = (?q @ entered) ! (length finalized - 1)" if "finalized \<noteq> []"
    proof (cases "finalized1 = []")
      case True
      with that out(2) have one: "?n = 1" by (cases x) auto
      with now(2) have "?q \<noteq> []" by auto
      with True IH now(4) one out(2) show ?thesis by (simp add: nth_append hd_conv_nth split: if_splits)
    next
      case False
      then have at: "length finalized - 1 = ?n + (length finalized1 - 1)" by (cases finalized1) (simp_all add: out(2))
      from False IH show ?thesis unfolding all at using n by (simp add: nth_append)
    qed
    moreover have "as_processed (view d') = as_processed (view d)" if "finalized = []"
      using that IH now(4) out(2) by simp
    moreover have "finalized = map tp_TxSignature (take (length finalized) (?q @ entered))"
      unfolding all using IH now(1) n by (simp add: out(2))
    moreover have "length finalized \<le> length (?q @ entered)" unfolding all using IH n by (simp add: out(2))
    moreover have "as_queue (view d') = drop (length finalized) (?q @ entered)"
      unfolding all using IH n by (simp add: out(2))
    ultimately show ?thesis using IH by simp
  qed
qed simp

end





section \<open>Blocks and events\<close>

text \<open>
  C22. A block hash is found for a slot exactly when a chain head at or above the slot is
  stored and some block at or below it; it is the hash of the stored block with the greatest
  slot that is not above the one asked for.
\<close>

theorem GetBlockhashBySlot_finds:
  assumes "bolt_live_handler api codec" "bolt_ok api codec d"
  shows "GetBlockhashBySlot api codec slot d = Inr h \<longleftrightarrow>
    (\<exists>top bp. GetLatestBlockPoint api codec d = Inr (Some top) \<and> slot \<le> bp_BlockSlot top
       \<and> latest_at (as_blocks (bolt_view api codec d)) slot bp \<and> h = bp_BlockHash bp)"
  using assms by (rule bolt_live_handler.GetBlockhashBySlot_iff)

text \<open>A block at slot 10 that is also the head: its hash is found for slot 10, and none for slot 12.\<close>

theorem GetBlockhashBySlot_finds_witness:
  "\<exists>d. GetBlockhashBySlot mem_api mem_codec 10 d = Inr 77 \<and> \<not> (\<exists>h. GetBlockhashBySlot mem_api mem_codec 12 d = Inr h)"
proof -
  let ?bp = "\<lparr>bp_BlockSlot = 10, bp_BlockHash = 77, bp_BlockNumber = 9\<rparr>"
  have json: "\<exists>data. json_BlockPoint mem_codec ?bp = Inr data" by (simp add: mem_codec_def)
  obtain d1 where block: "StoreBlock mem_api mem_codec NilTx ?bp mem_new = (Inr (), d1)"
    using mem_handler.store_block_live [OF mem_new_ok] json by blast
  with mem_handler.store_block_writes [OF mem_new_ok, of ?bp] have d1: "bolt_ok mem_api mem_codec d1"
    "bolt_view mem_api mem_codec d1 = spec_block ?bp (bolt_view mem_api mem_codec mem_new)"
    by (simp_all add: writes_def)
  obtain d where head: "StoreLatestBlockPoint mem_api mem_codec NilTx ?bp d1 = (Inr (), d)"
    using mem_handler.store_head_live [OF d1(1)] json by blast
  with mem_handler.store_head_writes [OF d1(1), of ?bp] have d: "bolt_ok mem_api mem_codec d"
    "bolt_view mem_api mem_codec d = (bolt_view mem_api mem_codec d1)\<lparr>as_head := Some ?bp\<rparr>"
    by (simp_all add: writes_def)
  have blocks: "as_blocks (bolt_view mem_api mem_codec d) = [10 \<mapsto> ?bp]"
    by (simp add: d(2) d1(2) spec_block_def mem_new_view)
  have top: "GetLatestBlockPoint mem_api mem_codec d = Inr (Some ?bp)"
    using mem_handler.get_head_live [OF d(1)] by (simp add: d(2))
  have "latest_at (as_blocks (bolt_view mem_api mem_codec d)) 10 ?bp" by (simp add: blocks latest_at_def)
  with GetBlockhashBySlot_finds [OF mem_handler.bolt_live_handler_axioms d(1)] top show ?thesis
    by (intro exI [of _ d] conjI) (simp, intro exI [of _ ?bp], simp_all)
qed

text \<open>
  C21. An event that was stored is found under its block number, after the events stored there
  before and under the next free ID, and no other block number lists anything new.
\<close>

theorem StoreEvent_indexed:
  assumes "bolt_live_handler api codec" "bolt_ok api codec d" "event_room 1 (bolt_view api codec d)"
    and "json_event codec ev = Inr data" "unjson_map codec data = Inr m"
    and "json_EventRecord codec (event_record_of (Signature_String codec) (PublicKey_String codec)
       (of_nat (Suc (length (as_events (bolt_view api codec d))))) slot bn sig prog name hash m) = Inr v"
  shows "\<exists>d' m'. StoreEvent api codec NilTx slot bn sig prog name hash ev d = (Inr (), d') \<and> bolt_ok api codec d'
    \<and> (\<forall>b. GetEventsByBlockNumber api codec b d' =
        Inr (filter (\<lambda>r. er_BlockNumber r = b) (as_events (bolt_view api codec d)) @
        (if b = bn then [event_record_of (Signature_String codec) (PublicKey_String codec)
          (of_nat (Suc (length (as_events (bolt_view api codec d))))) slot bn sig prog name hash m'] else [])))"
  using assms by (rule bolt_live_handler.store_event_indexed)

theorem StoreEvent_indexed_witness:
  "\<exists>d' e. StoreEvent mem_api mem_codec NilTx 100 90 5 6 ''Ev'' 7 () mem_new = (Inr (), d')
     \<and> GetEventsByBlockNumber mem_api mem_codec 90 d' = Inr [e] \<and> GetEventsByBlockNumber mem_api mem_codec 91 d' = Inr []"
proof -
  let ?r = "event_record_of (Signature_String mem_codec) (PublicKey_String mem_codec) 1 100 90 5 6 ''Ev'' 7 ()"
  have "\<exists>v. json_EventRecord mem_codec ?r = Inr v"
    by (simp add: mem_codec_def mem_json_EventRecord_def event_record_of_def)
  then obtain v where v: "json_EventRecord mem_codec ?r = Inr v" by blast
  have room: "event_room 1 (bolt_view mem_api mem_codec mem_new)" by (simp add: mem_new_view event_room_def)
  have json: "json_event mem_codec () = Inr []" "unjson_map mem_codec [] = Inr ()" by (simp_all add: mem_codec_def)
  have n: "of_nat (Suc (length (as_events (bolt_view mem_api mem_codec mem_new)))) = (1 :: u64)"
    by (simp add: mem_new_view)
  from StoreEvent_indexed [OF mem_handler.bolt_live_handler_axioms mem_new_ok room json, unfolded n, OF v]
  obtain d' m' where st: "StoreEvent mem_api mem_codec NilTx 100 90 5 6 ''Ev'' 7 () mem_new = (Inr (), d')"
    and ev: "\<forall>b. GetEventsByBlockNumber mem_api mem_codec b d' = Inr (filter (\<lambda>r. er_BlockNumber r = b) [] @
        (if b = 90 then [event_record_of (Signature_String mem_codec) (PublicKey_String mem_codec) 1 100 90 5 6 ''Ev'' 7 m'] else []))"
    by (auto simp: mem_new_view)
  have "GetEventsByBlockNumber mem_api mem_codec 91 d' = Inr []" using ev [rule_format, of 91] by simp
  with st ev [rule_format, of 90] show ?thesis by auto
qed

end
