(* ===== verification/Sha256.thy ===== *)
theory Sha256
  imports Prelude
begin

text \<open>
  SHA-256 (FIPS 180-4), the \<open>crypto/sha256.Sum256\<close> with which the tracker computes event
  discriminators and the hash of an executed batch, on byte lists.
\<close>

definition sha256_K :: "u32 list" where
  "sha256_K =
     [1116352408, 1899447441, 3049323471, 3921009573, 961987163, 1508970993, 2453635748, 2870763221,
      3624381080, 310598401, 607225278, 1426881987, 1925078388, 2162078206, 2614888103, 3248222580,
      3835390401, 4022224774, 264347078, 604807628, 770255983, 1249150122, 1555081692, 1996064986,
      2554220882, 2821834349, 2952996808, 3210313671, 3336571891, 3584528711, 113926993, 338241895,
      666307205, 773529912, 1294757372, 1396182291, 1695183700, 1986661051, 2177026350, 2456956037,
      2730485921, 2820302411, 3259730800, 3345764771, 3516065817, 3600352804, 4094571909, 275423344,
      430227734, 506948616, 659060556, 883997877, 958139571, 1322822218, 1537002063, 1747873779,
      1955562222, 2024104815, 2227730452, 2361852424, 2428436474, 2756734187, 3204031479, 3329325298]"

definition sha256_H0 :: "u32 list" where
  "sha256_H0 = [1779033703, 3144134277, 1013904242, 2773480762, 1359893119, 2600822924, 528734635, 1541459225]"

definition rotr32 :: "nat \<Rightarrow> u32 \<Rightarrow> u32" where
  "rotr32 n w = drop_bit n w OR push_bit (32 - n) w"

text \<open>The message is padded with a one bit, zeros and its bit length to a multiple of 64 bytes.\<close>

definition sha256_pad :: "bytes \<Rightarrow> bytes" where
  "sha256_pad m =
     m @ [0x80] @ replicate ((119 - length m mod 64) mod 64) 0 @ be_bytes 8 (of_nat (8 * length m) :: u64)"

fun be_words32 :: "bytes \<Rightarrow> u32 list" where
  "be_words32 (a # b # c # d # rest) = be_word [a, b, c, d] # be_words32 rest"
| "be_words32 _ = []"

text \<open>The schedule, kept with its newest word first.\<close>

primrec sha256_extend :: "nat \<Rightarrow> u32 list \<Rightarrow> u32 list" where
  "sha256_extend 0 ws = ws"
| "sha256_extend (Suc n) ws =
     (let w15 = ws ! 14; w2 = ws ! 1;
          s0 = rotr32 7 w15 XOR rotr32 18 w15 XOR drop_bit 3 w15;
          s1 = rotr32 17 w2 XOR rotr32 19 w2 XOR drop_bit 10 w2
      in sha256_extend n ((ws ! 15 + s0 + ws ! 6 + s1) # ws))"

fun sha256_round :: "u32 \<times> u32 \<Rightarrow> u32 list \<Rightarrow> u32 list" where
  "sha256_round (k, w) [a, b, c, d, e, f, g, h] =
     (let s1 = rotr32 6 e XOR rotr32 11 e XOR rotr32 25 e;
          ch = (e AND f) XOR (NOT e AND g);
          t1 = h + s1 + ch + k + w;
          s0 = rotr32 2 a XOR rotr32 13 a XOR rotr32 22 a;
          maj = (a AND b) XOR (a AND c) XOR (b AND c)
      in [t1 + (s0 + maj), a, b, c, d + t1, e, f, g])"
| "sha256_round _ hs = hs"

definition sha256_block :: "bytes \<Rightarrow> u32 list \<Rightarrow> u32 list" where
  "sha256_block block hs =
     (let ws = rev (sha256_extend 48 (rev (be_words32 block)))
      in map2 (+) hs (fold sha256_round (zip sha256_K ws) hs))"

fun sha256_blocks :: "nat \<Rightarrow> bytes \<Rightarrow> u32 list \<Rightarrow> u32 list" where
  "sha256_blocks 0 m hs = hs"
| "sha256_blocks (Suc n) m hs = sha256_blocks n (drop 64 m) (sha256_block (take 64 m) hs)"

definition Sum256 :: "bytes \<Rightarrow> bytes" where
  "Sum256 m =
     (let p = sha256_pad m
      in concat (map (be_bytes 4) (sha256_blocks (length p div 64) p sha256_H0)))"

lemma length_sha256_round [simp]: "length (sha256_round kw hs) = length hs"
  by (cases "(kw, hs)" rule: sha256_round.cases) (auto simp: Let_def)

lemma length_fold_sha256_round [simp]: "length (fold sha256_round kws hs) = length hs"
  by (induction kws arbitrary: hs) auto

lemma length_sha256_blocks [simp]: "length (sha256_blocks n m hs) = length hs"
  by (induction n m hs rule: sha256_blocks.induct) (auto simp: sha256_block_def Let_def)

lemma length_Sum256 [simp]: "length (Sum256 m) = 32"
proof -
  have "length (concat (map (be_bytes 4) ws)) = 4 * length ws" for ws :: "u32 list"
    by (induction ws) auto
  then show ?thesis by (simp add: Sum256_def Let_def sha256_H0_def)
qed

end
