(* ===== verification/Tracker_Config.thy ===== *)
theory Tracker_Config
  imports Cpi_Events Sha256 Storage_Interface Slot_Selection Retry
begin

text \<open>
  The configuration side of the tracker: event specifications
  (\<open>tracker/event_specification.go\<close>), the data of \<open>tracker/tracker.go\<close>, the constructor
  \<open>NewEventTracker\<close> with its validation, and \<open>parseEvent\<close>.
\<close>

section \<open>Event specifications\<close>

text \<open>
  \<open>'ty\<close> are Go's struct types that can be given as an event type. The \<open>any\<close> passed to
  \<open>AddEventSpec\<close> is nil, a value, a pointer to one, or a nil pointer.
\<close>

datatype 'ty event_any = NilAny | ValAny 'ty | PtrAny 'ty | NilPtrAny 'ty

record 'ty eventSpec =
  es_eventType :: 'ty
  es_name :: string
  es_discriminant :: bytes

type_synonym 'ty ProgramEventSpecs = "'ty eventSpec list"

definition calculateEventDiscriminant :: "string \<Rightarrow> bytes" where
  "calculateEventDiscriminant eventName = take 8 (Sum256 (str_bytes (''event:'' @ eventName)))"

definition AddEventSpec :: "'ty event_any \<Rightarrow> string \<Rightarrow> 'ty ProgramEventSpecs \<Rightarrow> go_error + 'ty ProgramEventSpecs" where
  "AddEventSpec eventType name specs =
     (let spec = (\<lambda>ty. specs @ [\<lparr>es_eventType = ty, es_name = name, es_discriminant = calculateEventDiscriminant name\<rparr>])
      in case eventType of
        NilAny \<Rightarrow> Inl (Errorf STR ''eventType cannot be nil for event %s'')
      | NilPtrAny _ \<Rightarrow> Inl (GoPanic STR ''Interface of zero Value'')
      | PtrAny ty \<Rightarrow> Inr (spec ty)
      | ValAny ty \<Rightarrow> Inr (spec ty))"

section \<open>Data of the tracker\<close>

datatype CommitmentType = CommitmentFinalized | CommitmentConfirmed

record 'ev EventNotification =
  en_SlotNumber :: u64
  en_BlockNumber :: u64
  en_TxSignature :: Signature
  en_InnerActionHash :: Hash
  en_Program :: PublicKey
  en_EventName :: string
  en_EventData :: 'ev

record LatestGetBlocksState =
  lg_chainHeadSlot :: u64
  lg_queriedBlocksWithSlotsLen :: int

text \<open>
  The configuration of a tracker. A Go map of programs is given as its entries in the order
  the iteration visits them. \<open>'c\<close> is the \<open>*rpc.Client\<close>, \<open>'l\<close> the
  \<open>*RPCMethodLimitsConfig\<close>; the interfaces are nil or not.
\<close>

record ('ty, 'c, 'l) EventTrackerConfig =
  tc_RPCEndpoint :: string
  tc_Client :: "'c option"
  tc_RPCMethodLimitsConfig :: "'l option"
  tc_TrackedPrograms :: "(string \<times> 'ty ProgramEventSpecs) list"
  tc_Commitment :: string
  tc_RetryTimeout :: int
  tc_StartFromSlot :: u64
  tc_BlockRoundingThreshold :: u64
  tc_AvgSlotTime :: int
  tc_ChainHeadTargetBlockCount :: u64
  tc_ChainHeadSlotOffset :: u64
  tc_EventSubscriber :: bool
  tc_DisableRateLimiting :: bool

text \<open>
  The fields of \<open>EventTracker\<close> that do not change after construction; the two that do,
  \<open>chainHeadSlot\<close> and \<open>latestGetBlocksState\<close>, are part of the state of the handlers.
\<close>

record ('ty, 'c, 'l) EventTracker =
  et_client :: "'c \<times> 'l option"
  et_trackedPrograms :: "(PublicKey \<times> 'ty ProgramEventSpecs) list"
  et_eventAuthorities :: "PublicKey \<Rightarrow> PublicKey option"
  et_commitment :: CommitmentType
  et_pollTime :: int
  et_startFromSlot :: u64
  et_chainHeadSlotOffset :: u64
  et_chainHeadTargetBlockCount :: u64
  et_avgSlotTime :: int
  et_blockRoundingThreshold :: u64

definition defaultAvgSlotTime :: int where "defaultAvgSlotTime = 166 * 1000000"
definition defaultChainHeadTargetBlockCount :: u64 where "defaultChainHeadTargetBlockCount = 30"
definition defaultChainHeadSlotOffset :: u64 where "defaultChainHeadSlotOffset = 80"
definition emptySlotsWithBlocksBackoff :: u64 where "emptySlotsWithBlocksBackoff = 3"
definition getSignaturesForAddressMaxLimit :: nat where "getSignaturesForAddressMaxLimit = 1000"

section \<open>Construction\<close>

text \<open>
  Outside the repository: base58 decoding and program addresses (solana-go), and the two
  constructors of a client. \<open>limit_GlobalRPSLimit\<close> reads the field of the limits.
\<close>

record ('c, 'l) tracker_lib =
  PublicKeyFromBase58 :: "string \<Rightarrow> go_error + PublicKey"
  FindProgramAddress :: "bytes list \<Rightarrow> PublicKey \<Rightarrow> go_error + PublicKey \<times> byte"
  rpc_New :: "string \<Rightarrow> 'c"
  NewRateLimitedRPCClient :: "string \<Rightarrow> int \<Rightarrow> 'c"
  limit_GlobalRPSLimit :: "'l \<Rightarrow> int"

definition setupClientNew ::
  "('c, 'l) tracker_lib \<Rightarrow> ('ty, 'c, 'l) EventTrackerConfig \<Rightarrow> go_error + ('ty, 'c, 'l) EventTrackerConfig" where
  "setupClientNew lib config =
     (if tc_Client config \<noteq> None then Inr config
      else if tc_RPCEndpoint config = '''' then Inl (Errorf STR ''either config.Client or config.RPCEndpoint must be set'')
      else if tc_DisableRateLimiting config then Inr (config\<lparr>tc_Client := Some (rpc_New lib (tc_RPCEndpoint config))\<rparr>)
      else
        (let globalRPSLimit = (case tc_RPCMethodLimitsConfig config of None \<Rightarrow> 7 | Some l \<Rightarrow> limit_GlobalRPSLimit lib l)
         in Inr (config\<lparr>tc_Client := Some (NewRateLimitedRPCClient lib (tc_RPCEndpoint config) globalRPSLimit)\<rparr>)))"

text \<open>
  Setting a key of a Go map: an entry that is already there is overwritten in place, which
  happens when two base58 strings decode to the same key.
\<close>

fun map_set :: "'k \<Rightarrow> 'v \<Rightarrow> ('k \<times> 'v) list \<Rightarrow> ('k \<times> 'v) list" where
  "map_set k v [] = [(k, v)]"
| "map_set k v ((k', v') # rest) = (if k' = k then (k, v) # rest else (k', v') # map_set k v rest)"

fun programs_loop ::
  "('c, 'l) tracker_lib \<Rightarrow> (string \<times> 'ty ProgramEventSpecs) list \<Rightarrow>
   (PublicKey \<times> 'ty ProgramEventSpecs) list \<Rightarrow> (PublicKey \<Rightarrow> PublicKey option) \<Rightarrow>
   go_error + (PublicKey \<times> 'ty ProgramEventSpecs) list \<times> (PublicKey \<Rightarrow> PublicKey option)" where
  "programs_loop lib [] trackedPrograms eventAuthorities = Inr (trackedPrograms, eventAuthorities)"
| "programs_loop lib ((programIDstr, eventSpecs) # rest) trackedPrograms eventAuthorities =
     (case PublicKeyFromBase58 lib programIDstr of
        Inl e \<Rightarrow> Inl (wrapped STR ''invalid program ID %s: %w'' e)
      | Inr programID \<Rightarrow>
          (case deriveEventAuthority (FindProgramAddress lib) programID of
             Inl e \<Rightarrow> Inl e
           | Inr eventAuthority \<Rightarrow>
               programs_loop lib rest (map_set programID eventSpecs trackedPrograms)
                 (eventAuthorities(programID \<mapsto> eventAuthority))))"

definition or_default :: "'a \<Rightarrow> 'a :: zero \<Rightarrow> 'a" where
  "or_default d x = (if x = 0 then d else x)"

text \<open>
  \<open>config = None\<close> is a nil config, \<open>storage\<close> says whether the storage is non-nil. The
  result is the tracker with the initial values of its two variable fields.
\<close>

definition NewEventTracker ::
  "('c, 'l) tracker_lib \<Rightarrow> ('ty, 'c, 'l) EventTrackerConfig option \<Rightarrow> bool \<Rightarrow>
   go_error + ('ty, 'c, 'l) EventTracker \<times> u64 \<times> LatestGetBlocksState" where
  "NewEventTracker lib config_opt storage =
     (case config_opt of None \<Rightarrow> Inl (Errorf STR ''config cannot be nil'') | Some config \<Rightarrow>
      if \<not> storage then Inl (Errorf STR ''storage cannot be nil'')
      else if \<not> tc_EventSubscriber config
      then Inl (Errorf STR ''invalid configuration, event subscriber not set. Failed to init Event Tracker'')
      else if tc_TrackedPrograms config = [] then Inl (Errorf STR ''must track at least one program'')
      else
        (case programs_loop lib (tc_TrackedPrograms config) [] (\<lambda>_. None) of
           Inl e \<Rightarrow> Inl e
         | Inr (trackedPrograms, eventAuthorities) \<Rightarrow>
        (case setupClientNew lib config of
           Inl e \<Rightarrow> Inl e
         | Inr config \<Rightarrow>
        (let pollTime = or_default (500 * 1000000) (tc_RetryTimeout config);
             commitment = (if tc_Commitment config = ''confirmed'' then CommitmentConfirmed else CommitmentFinalized);
             blockRoundingThreshold = or_default 10 (tc_BlockRoundingThreshold config);
             avgSlotTime = or_default defaultAvgSlotTime (tc_AvgSlotTime config);
             chainHeadSlotOffset = or_default defaultChainHeadSlotOffset (tc_ChainHeadSlotOffset config);
             chainHeadTargetBlockCount = or_default defaultChainHeadTargetBlockCount (tc_ChainHeadTargetBlockCount config)
         in
         if avgSlotTime < 0 then Inl (Errorf STR ''avg slot time cannot be negative, got %s'')
         else if chainHeadTargetBlockCount \<le> emptySlotsWithBlocksBackoff
         then Inl (Errorf STR ''chain head target block count must be greater than %d, got %d'')
         else if chainHeadTargetBlockCount > chainHeadSlotOffset
         then Inl (Errorf STR ''chain head target block count %d exceeds chain head slot offset %d, so it can never be met'')
         else
           Inr (\<lparr>et_client = (the (tc_Client config), tc_RPCMethodLimitsConfig config),
                 et_trackedPrograms = trackedPrograms, et_eventAuthorities = eventAuthorities,
                 et_commitment = commitment, et_pollTime = pollTime, et_startFromSlot = tc_StartFromSlot config,
                 et_chainHeadSlotOffset = chainHeadSlotOffset,
                 et_chainHeadTargetBlockCount = chainHeadTargetBlockCount,
                 et_avgSlotTime = avgSlotTime, et_blockRoundingThreshold = blockRoundingThreshold\<rparr>,
                tc_StartFromSlot config,
                \<lparr>lg_chainHeadSlot = tc_StartFromSlot config, lg_queriedBlocksWithSlotsLen = 0\<rparr>)))))"

section \<open>Parsing an event\<close>

text \<open>
  Outside the repository: the borsh decoder. \<open>ReadDiscriminator\<close> gives the discriminator
  and the decoder's remaining data; \<open>UnmarshalWithDecoder ty\<close> is None for a type without
  that method. \<open>'ev\<close> is the pointer to the decoded struct; \<open>as_TransactionExecutedEvent\<close>
  is the type assertion to \<open>*TransactionExecutedEvent\<close>, giving its \<open>BatchId\<close>.
\<close>

record ('ty, 'ev) event_lib =
  ReadDiscriminator :: "bytes \<Rightarrow> go_error + bytes \<times> bytes"
  UnmarshalWithDecoder :: "'ty \<Rightarrow> bytes \<Rightarrow> (go_error + 'ev) option"
  as_TransactionExecutedEvent :: "'ev \<Rightarrow> u64 option"
  payload_Marshal :: "SolanaPayload \<Rightarrow> go_error + bytes"
  payload_Unmarshal :: "bytes \<Rightarrow> go_error + SolanaPayload"

fun parse_loop :: "('ty, 'ev) event_lib \<Rightarrow> bytes \<Rightarrow> bytes \<Rightarrow> 'ty ProgramEventSpecs \<Rightarrow> go_error + ('ev \<times> string) option" where
  "parse_loop lib discriminator data [] = Inr None"
| "parse_loop lib discriminator data (event # rest) =
     (if es_discriminant event = discriminator then
        (case UnmarshalWithDecoder lib (es_eventType event) data of
           None \<Rightarrow> Inl (Errorf STR ''event type %T for event %s (program %s) does not implement UnmarshalWithDecoder method'')
         | Some (Inl e) \<Rightarrow> Inl (wrapped STR ''failed to unmarshal event %s (discriminator: %x, program: %s): %w'' e)
         | Some (Inr deserValue) \<Rightarrow> Inr (Some (deserValue, es_name event)))
      else parse_loop lib discriminator data rest)"

definition parseEvent ::
  "('ty, 'c, 'l) EventTracker \<Rightarrow> ('ty, 'ev) event_lib \<Rightarrow> bytes \<Rightarrow> PublicKey \<Rightarrow> go_error + ('ev \<times> string) option" where
  "parseEvent t lib eventData programID =
     (case ReadDiscriminator lib eventData of
        Inl e \<Rightarrow> Inl (wrapped STR ''failed to get event discriminator: %w'' e)
      | Inr (discriminator, data) \<Rightarrow>
          (case map_of (et_trackedPrograms t) programID of
             None \<Rightarrow> Inr None
           | Some trackedEvents \<Rightarrow> parse_loop lib discriminator data trackedEvents))"

text \<open>\<open>transactionResponse.Meta\<close>, as far as the tracker reads it; a nil slice is None.\<close>

record TransactionMeta =
  tm_Err :: bool
  tm_InnerInstructions :: "InnerInstruction list option"
  tm_LoadedAddresses :: LoadedAddresses

definition collectTransactionEvents ::
  "('ty, 'c, 'l) EventTracker \<Rightarrow> TransactionMeta \<Rightarrow> PublicKey list \<Rightarrow> emittedEvent list" where
  "collectTransactionEvents t meta accountKeys =
     collectCPIEvents (case tm_InnerInstructions meta of None \<Rightarrow> [] | Some gs \<Rightarrow> gs) accountKeys (et_eventAuthorities t)"

end
