(* ===== verification/Tracker.thy ===== *)
theory Tracker
  imports Tracker_Config
begin

text \<open>
  The handlers of \<open>tracker/tracker.go\<close>: fetching new signatures, processing the queue,
  refreshing the chain head, and one pass of each of the two loops. The RPC client, the event
  subscriber, the timer and the context are the outside world \<open>'w\<close>, acted on by the
  operations of a record; the storage is any \<open>StorageHandler\<close>.
\<close>

section \<open>The outside world\<close>

record TransactionSignature =
  ts_Signature :: Signature
  ts_Slot :: u64

record SignaturesOpts =
  so_Commitment :: CommitmentType
  so_Before :: Signature
  so_Until :: Signature

record GetBlockResult =
  gb_Blockhash :: Hash
  gb_BlockHeight :: "u64 option"

record Transaction =
  tx_AccountKeys :: "PublicKey list"
  tx_Instructions :: "CompiledInstruction list"

text \<open>\<open>tr_Transaction\<close> is what \<open>Transaction.GetTransaction()\<close>, solana-go's decoder, returns.\<close>

record GetTransactionResult =
  tr_Slot :: u64
  tr_Meta :: "TransactionMeta option"
  tr_Transaction :: "go_error + Transaction"

text \<open>
  The operations of the RPC client the tracker calls, with the arguments it varies;
  \<open>w_select_wait\<close> is the \<open>select\<close> of \<open>ExecuteWithRetry\<close> and says whether the context ended.
\<close>

record ('w, 'ev) tracker_world =
  w_GetBlocks :: "u64 \<Rightarrow> u64 \<Rightarrow> CommitmentType \<Rightarrow> ('w, u64 list) exec"
  w_GetBlockWithOpts :: "u64 \<Rightarrow> CommitmentType \<Rightarrow> ('w, GetBlockResult option) exec"
  w_GetSlot :: "CommitmentType \<Rightarrow> ('w, u64) exec"
  w_GetBlockHeight :: "CommitmentType \<Rightarrow> ('w, u64) exec"
  w_GetTransaction :: "Signature \<Rightarrow> CommitmentType \<Rightarrow> ('w, GetTransactionResult option) exec"
  w_GetSignaturesForAddressWithOpts :: "PublicKey \<Rightarrow> SignaturesOpts \<Rightarrow> ('w, TransactionSignature list) exec"
  w_AddEvent :: "'ev EventNotification \<Rightarrow> ('w, unit) exec"
  w_select_wait :: "int \<Rightarrow> ('w, bool) exec"

record ('d, 'w) tracker_state =
  chainHeadSlot :: u64
  latestGetBlocksState :: LatestGetBlocksState
  storage :: 'd
  world :: 'w

definition on_storage :: "('d, 'a) exec \<Rightarrow> (('d, 'w) tracker_state, 'a) exec" where
  "on_storage m = focus storage (\<lambda>d s. s\<lparr>storage := d\<rparr>) m"

definition on_world :: "('w, 'a) exec \<Rightarrow> (('d, 'w) tracker_state, 'a) exec" where
  "on_world m = focus world (\<lambda>w s. s\<lparr>world := w\<rparr>) m"

definition from_storage :: "('d \<Rightarrow> go_error + 'a) \<Rightarrow> (('d, 'w) tracker_state, 'a) exec" where
  "from_storage f = (\<lambda>s. (f (storage s), s))"

text \<open>A handler given to the retry loop that turns every error into \<open>ErrRetryTryAgain\<close>.\<close>

definition try_again :: "('s, 'a) exec \<Rightarrow> ('s, 'a) exec" where
  "try_again m = (\<lambda>s. case m s of
     (Inl e, s') \<Rightarrow> (Inl (if stops e then e else ErrRetryTryAgain), s')
   | (Inr a, s') \<Rightarrow> (Inr a, s'))"

text \<open>The call of \<open>ExecuteWithRetry\<close> that the tracker makes everywhere: 10 attempts, \<open>pollTime\<close> apart.\<close>

definition with_retry ::
  "('ty, 'c, 'l) EventTracker \<Rightarrow> ('w, 'ev) tracker_world \<Rightarrow> ('w, 'a) exec \<Rightarrow> (('d, 'w) tracker_state, 'a) exec" where
  "with_retry t env m =
     ExecuteWithRetry (\<lambda>d. on_world (w_select_wait env d)) (try_again (on_world m))
       [WithRetryCount 10, WithRetryWaitTime (et_pollTime t)]"

section \<open>Fetching signatures\<close>

definition getSignaturesForAddressHelper ::
  "('ty, 'c, 'l) EventTracker \<Rightarrow> ('w, 'ev) tracker_world \<Rightarrow> PublicKey \<Rightarrow> Signature option \<Rightarrow> Signature option \<Rightarrow>
   ('w, TransactionSignature list) exec" where
  "getSignaturesForAddressHelper t env programID before until =
     (let opts = \<lparr>so_Commitment = et_commitment t, so_Before = 0, so_Until = 0\<rparr>;
          opts = (case before of Some b \<Rightarrow> (if b \<noteq> 0 then opts\<lparr>so_Before := b\<rparr> else opts) | None \<Rightarrow> opts);
          opts = (case until of Some u \<Rightarrow> (if u \<noteq> 0 then opts\<lparr>so_Until := u\<rparr> else opts) | None \<Rightarrow> opts)
      in w_GetSignaturesForAddressWithOpts env programID opts)"

text \<open>
  The loop of \<open>catchUpLoop\<close> reads page after page of older signatures until one is short;
  nothing in the code bounds the number of pages, so it runs on fuel.
\<close>

fun catch_up_pages ::
  "('ty, 'c, 'l) EventTracker \<Rightarrow> ('w, 'ev) tracker_world \<Rightarrow> PublicKey \<Rightarrow> TxPoint \<Rightarrow> bool \<Rightarrow> Signature \<Rightarrow>
   nat \<Rightarrow> Signature \<Rightarrow> TransactionSignature list \<Rightarrow> (('d, 'w) tracker_state, TransactionSignature list) exec" where
  "catch_up_pages t env programID lastQueried cursorNotFound until 0 before signatures = fail OutOfFuel"
| "catch_up_pages t env programID lastQueried cursorNotFound until (Suc fuel) before signatures =
     bind (with_retry t env (getSignaturesForAddressHelper t env programID (Some before) (Some until))) (\<lambda>txSignatures.
       let appended = (if cursorNotFound then filter (\<lambda>txSig. ts_Slot txSig \<ge> tp_Slot lastQueried) txSignatures
                       else txSignatures);
           signatures = signatures @ appended
       in if length appended < getSignaturesForAddressMaxLimit then ret signatures
          else catch_up_pages t env programID lastQueried cursorNotFound until fuel
                 (ts_Signature (last txSignatures)) signatures)"

definition catchUpLoop ::
  "('ty, 'c, 'l) EventTracker \<Rightarrow> ('w, 'ev) tracker_world \<Rightarrow> nat \<Rightarrow> PublicKey \<Rightarrow> TxPoint \<Rightarrow> Signature \<Rightarrow> bool \<Rightarrow>
   (('d, 'w) tracker_state, TransactionSignature list) exec" where
  "catchUpLoop t env fuel programID lastQueried beforeStart cursorNotFound =
     catch_up_pages t env programID lastQueried cursorNotFound
       (if cursorNotFound then 0 else tp_TxSignature lastQueried) fuel beforeStart []"

definition signaturesForAddressFetcher ::
  "('ty, 'c, 'l) EventTracker \<Rightarrow> ('w, 'ev) tracker_world \<Rightarrow> nat \<Rightarrow> PublicKey \<Rightarrow> TxPoint \<Rightarrow>
   (('d, 'w) tracker_state, TransactionSignature list) exec" where
  "signaturesForAddressFetcher t env fuel programID lastQueried =
     bind (attempt (on_world
             (getSignaturesForAddressHelper t env programID None (Some (tp_TxSignature lastQueried))))) (\<lambda>r.
     bind (case r of
             Inr txSignatures \<Rightarrow> ret (False, txSignatures)
           | Inl err \<Rightarrow>
               if \<not> IsCursorNotFoundErr err then fail err
               else
                 bind (on_world (getSignaturesForAddressHelper t env programID None None)) (\<lambda>txSignatures.
                 ret (True, filter (\<lambda>txSig. ts_Slot txSig \<ge> tp_Slot lastQueried) txSignatures)))
       (\<lambda>(cursorNotFound, txSignatures).
     if length txSignatures = getSignaturesForAddressMaxLimit then
       bind (catchUpLoop t env fuel programID lastQueried (ts_Signature (last txSignatures)) cursorNotFound) (\<lambda>signatures.
       ret (txSignatures @ signatures))
     else ret txSignatures))"

definition getQueuedTxSignatures ::
  "('d, 'ev, 'm) StorageHandler \<Rightarrow> u64 \<Rightarrow> 'd \<Rightarrow> go_error + Signature set" where
  "getQueuedTxSignatures st slot d =
     (case sh_GetAllUnprocessedTransactions st d of
        Inl e \<Rightarrow> Inl (wrapped STR ''failed to get all unprocessed transactions: %w'' e)
      | Inr unprocessedTxSignatures \<Rightarrow>
     (case sh_GetProcessedTxSignaturesBySlot st slot d of
        Inl e \<Rightarrow> Inl (wrapped STR ''failed to get processed transaction signatures: %w'' e)
      | Inr processedTxSignatures \<Rightarrow>
     (case sh_GetLastProcessedTransaction st d of
        Inl e \<Rightarrow> Inl (wrapped STR ''failed to get last processed transaction: %w'' e)
      | Inr lastProcessed \<Rightarrow>
          Inr ((if tp_TxSignature lastProcessed \<noteq> 0 then {tp_TxSignature lastProcessed} else {})
            \<union> tp_TxSignature ` set unprocessedTxSignatures \<union> set processedTxSignatures))))"

text \<open>The points to queue: the new signatures oldest first, less those skipped on the first run.\<close>

fun points_loop :: "('ty, 'c, 'l) EventTracker \<Rightarrow> TxPoint \<Rightarrow> TransactionSignature list \<Rightarrow> TxPoint list \<Rightarrow> TxPoint list" where
  "points_loop t lastQueried [] points = points"
| "points_loop t lastQueried (txSig # rest) points =
     (if tp_TxSignature lastQueried = 0 \<and> et_startFromSlot t > ts_Slot txSig
      then points_loop t lastQueried rest points
      else points_loop t lastQueried rest
             (points @ [\<lparr>tp_TxSignature = ts_Signature txSig, tp_Slot = ts_Slot txSig\<rparr>]))"

definition fetchNextGetSignaturesForAddress ::
  "('ty, 'c, 'l) EventTracker \<Rightarrow> ('w, 'ev) tracker_world \<Rightarrow> ('d, 'ev, 'm) StorageHandler \<Rightarrow> nat \<Rightarrow>
   PublicKey \<Rightarrow> TxPoint \<Rightarrow> (('d, 'w) tracker_state, unit) exec" where
  "fetchNextGetSignaturesForAddress t env st fuel programID lastQueried =
     bind (on_world (w_GetBlockHeight env CommitmentFinalized)) (\<lambda>latestFinalizedBlockNumber.
     bind (signaturesForAddressFetcher t env fuel programID lastQueried) (\<lambda>txSignatures.
     bind (wrapE STR ''failed to get queued tx signatures: %w''
             (from_storage (getQueuedTxSignatures st (tp_Slot lastQueried)))) (\<lambda>queuedTxSignatures.
     let txSignatures = filter (\<lambda>txSig. ts_Signature txSig \<notin> queuedTxSignatures) txSignatures in
     if txSignatures = [] then
       wrapE STR ''failed to store latest finalized block number: %w''
         (on_storage (sh_StoreLatestFinalizedBlockNumber st latestFinalizedBlockNumber))
     else
       (let unprocessedTxPoints = points_loop t lastQueried (rev txSignatures) [] in
        if unprocessedTxPoints = [] then
          (let newestTxPoint = \<lparr>tp_TxSignature = ts_Signature (txSignatures ! 0), tp_Slot = ts_Slot (txSignatures ! 0)\<rparr> in
           bind (wrapE STR ''failed to set last processed transaction on start: %w''
                   (on_storage (sh_SetLastProcessedTransaction st newestTxPoint))) (\<lambda>_.
           wrapE STR ''failed to store latest queried transaction on start: %w''
             (on_storage (sh_StoreLatestQueriedTransaction st newestTxPoint))))
        else
          bind (wrapE STR ''failed to push unprocessed transactions: %w''
                  (on_storage (sh_PushUnprocessedTransactions st unprocessedTxPoints))) (\<lambda>_.
          wrapE STR ''failed to store latest queried transaction: %w''
            (on_storage (sh_StoreLatestQueriedTransaction st (last unprocessedTxPoints))))))))"

section \<open>Processing the queue\<close>

text \<open>The hash reported with an event, or None when the loop goes on to the next event.\<close>

definition event_action_hash ::
  "('ty, 'ev) event_lib \<Rightarrow> Transaction \<Rightarrow> PublicKey list \<Rightarrow> emittedEvent \<Rightarrow> 'ev \<Rightarrow> string \<Rightarrow> go_error + Hash option" where
  "event_action_hash lib transaction accountKeys emitted parsed name =
     (if name = ''TransactionExecutedEvent'' then
        (case as_TransactionExecutedEvent lib parsed of
           None \<Rightarrow> Inr None
         | Some batchId \<Rightarrow>
             (case findBatchPayloadAtInstruction (payload_Unmarshal lib) (tx_Instructions transaction) accountKeys
                     (ee_topLevelIndex emitted) batchId of
                Inl e \<Rightarrow> if stops e then Inl e else Inr None
              | Inr payload \<Rightarrow>
                  (case payload_Marshal lib payload of
                     Inl e \<Rightarrow> if stops e then Inl e else Inr None
                   | Inr payloadBytes \<Rightarrow> Inr (Some (be_word (Sum256 payloadBytes))))))
      else Inr (Some 0))"

text \<open>What the loop reports for one emitted event: nothing, or the event with its hash.\<close>

definition event_to_report ::
  "('ty, 'c, 'l) EventTracker \<Rightarrow> ('ty, 'ev) event_lib \<Rightarrow> Transaction \<Rightarrow> PublicKey list \<Rightarrow> emittedEvent \<Rightarrow>
   go_error + ('ev \<times> string \<times> Hash) option" where
  "event_to_report t lib transaction accountKeys emitted =
     (case parseEvent t lib (ee_data emitted) (ee_programID emitted) of
        Inl e \<Rightarrow> if stops e then Inl e else Inr None
      | Inr None \<Rightarrow> Inr None
      | Inr (Some (parsed, name)) \<Rightarrow>
          (case event_action_hash lib transaction accountKeys emitted parsed name of
             Inl e \<Rightarrow> Inl e
           | Inr None \<Rightarrow> Inr None
           | Inr (Some innerActionHash) \<Rightarrow> Inr (Some (parsed, name, innerActionHash))))"

definition report_event ::
  "('ty, 'c, 'l) EventTracker \<Rightarrow> ('w, 'ev) tracker_world \<Rightarrow> ('d, 'ev, 'm) StorageHandler \<Rightarrow> u64 \<Rightarrow> Signature \<Rightarrow>
   PublicKey \<Rightarrow> 'ev \<times> string \<times> Hash \<Rightarrow> (('d, 'w) tracker_state, unit) exec" where
  "report_event t env st slot txSignature programID = (\<lambda>(parsed, name, innerActionHash).
     bind (wrapE STR ''failed to get block for event at slot %d: %w''
             (with_retry t env (w_GetBlockWithOpts env slot (et_commitment t)))) (\<lambda>block_opt.
     case block_opt of None \<Rightarrow> fail (Errorf STR ''no block found at slot %d for transaction %s'') | Some block \<Rightarrow>
     (case gb_BlockHeight block of
        None \<Rightarrow> fail (Errorf STR ''no block height found for block at slot %d for transaction %s'')
      | Some height \<Rightarrow>
          bind (wrapE STR ''failed to store latest finalized block number for transaction %s: %w''
                  (on_storage (sh_StoreLatestFinalizedBlockNumber st height))) (\<lambda>_.
          let event = \<lparr>en_SlotNumber = slot, en_BlockNumber = height, en_TxSignature = txSignature,
                       en_InnerActionHash = innerActionHash, en_Program = programID,
                       en_EventName = name, en_EventData = parsed\<rparr>
          in
          bind (wrapE STR ''failed to add event: %w'' (on_world (w_AddEvent env event))) (\<lambda>_.
          wrapE STR ''failed to store event: %w''
            (on_storage (sh_StoreEvent st NilTx (en_SlotNumber event) (en_BlockNumber event) (en_TxSignature event)
              (en_Program event) (en_EventName event) (en_InnerActionHash event) (en_EventData event))))))))"

definition process_emitted ::
  "('ty, 'c, 'l) EventTracker \<Rightarrow> ('w, 'ev) tracker_world \<Rightarrow> ('d, 'ev, 'm) StorageHandler \<Rightarrow> ('ty, 'ev) event_lib \<Rightarrow>
   u64 \<Rightarrow> Signature \<Rightarrow> Transaction \<Rightarrow> PublicKey list \<Rightarrow> emittedEvent \<Rightarrow> (('d, 'w) tracker_state, unit) exec" where
  "process_emitted t env st lib slot txSignature transaction accountKeys emitted =
     bind (liftR (event_to_report t lib transaction accountKeys emitted)) (\<lambda>r.
     case r of None \<Rightarrow> ret ()
     | Some ev \<Rightarrow> report_event t env st slot txSignature (ee_programID emitted) ev)"

definition fetchNextGetFullTxBySignature ::
  "('ty, 'c, 'l) EventTracker \<Rightarrow> ('w, 'ev) tracker_world \<Rightarrow> ('d, 'ev, 'm) StorageHandler \<Rightarrow> ('ty, 'ev) event_lib \<Rightarrow>
   (('d, 'w) tracker_state, unit) exec" where
  "fetchNextGetFullTxBySignature t env st lib =
     bind (from_storage (sh_GetAllUnprocessedTransactions st)) (\<lambda>unprocessedTxPoints.
     if unprocessedTxPoints = [] then ret ()
     else
     bind (from_storage (sh_GetLastProcessedTransaction st)) (\<lambda>lastProcessed.
     let txSignature = tp_TxSignature (unprocessedTxPoints ! 0) in
     if txSignature = tp_TxSignature lastProcessed
     then on_storage (sh_FinalizeProcessedTransaction st txSignature)
     else
     bind (on_world (w_GetTransaction env txSignature (et_commitment t))) (\<lambda>response.
     case response of None \<Rightarrow> fail (Errorf STR ''transaction not found'') | Some transactionResponse \<Rightarrow>
     (case tr_Meta transactionResponse of
        None \<Rightarrow> fail (Errorf STR ''cannot read meta data for the transaction'')
      | Some meta \<Rightarrow>
          if tm_Err meta
          then wrapE STR ''failed to finalize processed transaction: %w''
                 (on_storage (sh_FinalizeProcessedTransaction st txSignature))
          else
          bind (wrapE STR ''failed to get transaction: %w'' (liftR (tr_Transaction transactionResponse))) (\<lambda>transaction.
          if tm_InnerInstructions meta = None
          then wrapE STR ''failed to finalize processed transaction: %w''
                 (on_storage (sh_FinalizeProcessedTransaction st txSignature))
          else
            (let accountKeys = transactionAccountKeys (tx_AccountKeys transaction) (tm_LoadedAddresses meta) in
             bind (for_each (process_emitted t env st lib (tr_Slot transactionResponse) txSignature transaction accountKeys)
                     (collectTransactionEvents t meta accountKeys)) (\<lambda>_.
             wrapE STR ''failed to finalize processed transaction: %w''
               (on_storage (sh_FinalizeProcessedTransaction st txSignature)))))))))"

section \<open>The chain head\<close>

fun refresh_loop ::
  "('ty, 'c, 'l) EventTracker \<Rightarrow> ('w, 'ev) tracker_world \<Rightarrow> ('d, 'ev, 'm) StorageHandler \<Rightarrow> u64 list \<Rightarrow> BlockPoint \<Rightarrow>
   (('d, 'w) tracker_state, BlockPoint) exec" where
  "refresh_loop t env st [] bp = ret bp"
| "refresh_loop t env st (slot # rest) bp =
     bind (gets chainHeadSlot) (\<lambda>headSlot.
     if slot = headSlot then refresh_loop t env st rest bp
     else
     bind (attempt (with_retry t env (w_GetBlockWithOpts env slot CommitmentConfirmed))) (\<lambda>r.
     case r of Inl err \<Rightarrow> fail (Errorf STR ''no block found at slot %d'')
     | Inr None \<Rightarrow> fail (Errorf STR ''get block returned nil at slot %d'')
     | Inr (Some block) \<Rightarrow>
         (let blockNumber = (case gb_BlockHeight block of Some n \<Rightarrow> n | None \<Rightarrow> 0);
              bp = \<lparr>bp_BlockSlot = slot, bp_BlockHash = gb_Blockhash block, bp_BlockNumber = blockNumber\<rparr>
          in
          bind (on_storage (sh_StoreBlock st NilTx bp)) (\<lambda>_.
          bind (modify (\<lambda>s. s\<lparr>chainHeadSlot := slot\<rparr>)) (\<lambda>_.
          refresh_loop t env st rest bp)))))"

text \<open>
  The two results \<open>(idleWait, err)\<close> of the refresher, which the caller both uses: the error
  is None for nil.
\<close>

definition unstickChainHead ::
  "('ty, 'c, 'l) EventTracker \<Rightarrow> ('w, 'ev) tracker_world \<Rightarrow> u64 list \<Rightarrow>
   (('d, 'w) tracker_state, int \<times> go_error option) exec" where
  "unstickChainHead t env slotsWithBlocks =
     bind (gets chainHeadSlot) (\<lambda>headSlot.
     let advanced = headSlot + et_chainHeadTargetBlockCount t - emptySlotsWithBlocksBackoff;
         finish = (\<lambda>newChainHeadSlot.
           bind (modify (\<lambda>s. s\<lparr>chainHeadSlot := newChainHeadSlot,
               latestGetBlocksState := \<lparr>lg_chainHeadSlot = newChainHeadSlot, lg_queriedBlocksWithSlotsLen = 0\<rparr>\<rparr>)) (\<lambda>_.
           ret (0, None)))
     in
     if length slotsWithBlocks > 1 then finish (last slotsWithBlocks)
     else
       bind (attempt (on_world (w_GetSlot env CommitmentConfirmed))) (\<lambda>r.
       case r of
         Inl err \<Rightarrow> ret (0, Some (wrapped STR ''failed to get current slot: %w'' err))
       | Inr currentSlot \<Rightarrow> finish (if advanced > currentSlot then headSlot else advanced)))"

definition refreshChainHead ::
  "(int \<Rightarrow> int) \<Rightarrow> ('ty, 'c, 'l) EventTracker \<Rightarrow> ('w, 'ev) tracker_world \<Rightarrow> ('d, 'ev, 'm) StorageHandler \<Rightarrow>
   (('d, 'w) tracker_state, int \<times> go_error option) exec" where
  "refreshChainHead ovf t env st =
     bind (gets chainHeadSlot) (\<lambda>startSlot.
     let endSlot = startSlot + et_chainHeadSlotOffset t in
     bind (attempt (on_world (w_GetBlocks env startSlot endSlot CommitmentConfirmed))) (\<lambda>r.
     case r of Inl err \<Rightarrow> ret (0, None) | Inr slotsWithBlocks \<Rightarrow>
     (let state = \<lparr>lg_chainHeadSlot = startSlot, lg_queriedBlocksWithSlotsLen = int (length slotsWithBlocks)\<rparr>;
          catchUpWait = (\<lambda>n. chainHeadCatchUpWait ovf n (et_chainHeadTargetBlockCount t) (et_avgSlotTime t))
      in
      bind (gets latestGetBlocksState) (\<lambda>latest.
      if state = latest then unstickChainHead t env slotsWithBlocks
      else
      bind (modify (\<lambda>s. s\<lparr>latestGetBlocksState := state\<rparr>)) (\<lambda>_.
      if slotsWithBlocks = [] then ret (catchUpWait 0, None)
      else
      bind (liftR (getSlotsToQueryBlocks slotsWithBlocks (et_blockRoundingThreshold t))) (\<lambda>slotsToQueryBlocks.
      bind (attempt (refresh_loop t env st slotsToQueryBlocks
              \<lparr>bp_BlockSlot = 0, bp_BlockHash = 0, bp_BlockNumber = 0\<rparr>)) (\<lambda>r.
      case r of
        Inl err \<Rightarrow> ret (0, Some err)
      | Inr bp \<Rightarrow>
          if bp_BlockSlot bp > 0 then
            bind (attempt (on_storage (sh_StoreLatestBlockPoint st NilTx bp))) (\<lambda>r.
            ret (catchUpWait (int (length slotsWithBlocks)), case r of Inl err \<Rightarrow> Some err | Inr _ \<Rightarrow> None))
          else ret (catchUpWait (int (length slotsWithBlocks)), None))))))))"

section \<open>The loops\<close>

definition initialize :: "('d, 'ev, 'm) StorageHandler \<Rightarrow> (('d, 'w) tracker_state, unit) exec" where
  "initialize st =
     bind (from_storage (sh_GetLatestBlockPoint st)) (\<lambda>latestBlockPoint.
     case latestBlockPoint of
       None \<Rightarrow> ret ()
     | Some bp \<Rightarrow>
         bind (gets chainHeadSlot) (\<lambda>headSlot.
         if bp_BlockSlot bp > headSlot then modify (\<lambda>s. s\<lparr>chainHeadSlot := bp_BlockSlot bp\<rparr>) else ret ()))"

text \<open>One pass of \<open>runTransactionPolling\<close>: errors are logged and the loop goes on.\<close>

definition transactionPollingPass ::
  "('ty, 'c, 'l) EventTracker \<Rightarrow> ('w, 'ev) tracker_world \<Rightarrow> ('d, 'ev, 'm) StorageHandler \<Rightarrow> ('ty, 'ev) event_lib \<Rightarrow> nat \<Rightarrow>
   (('d, 'w) tracker_state, unit) exec" where
  "transactionPollingPass t env st lib fuel =
     bind (attempt (from_storage (sh_GetLastProcessedTransaction st))) (\<lambda>r1.
     case r1 of Inl _ \<Rightarrow> ret () | Inr lastProcessed \<Rightarrow>
     bind (attempt (from_storage (sh_GetLatestQueriedTransaction st))) (\<lambda>r2.
     case r2 of Inl _ \<Rightarrow> ret () | Inr lastQueried \<Rightarrow>
     if tp_TxSignature lastQueried \<noteq> tp_TxSignature lastProcessed
     then bind (attempt (fetchNextGetFullTxBySignature t env st lib)) (\<lambda>_. ret ())
     else
       for_each (\<lambda>programID.
           bind (attempt (fetchNextGetSignaturesForAddress t env st fuel programID lastQueried)) (\<lambda>_. ret ()))
         (map fst (et_trackedPrograms t))))"

text \<open>
  One pass of \<open>runChainHeadRefresh\<close>: the wait of the refresher is made with \<open>w_select_wait\<close>;
  the result says whether the loop goes on.
\<close>

definition chainHeadRefreshPass ::
  "(int \<Rightarrow> int) \<Rightarrow> ('ty, 'c, 'l) EventTracker \<Rightarrow> ('w, 'ev) tracker_world \<Rightarrow> ('d, 'ev, 'm) StorageHandler \<Rightarrow>
   (('d, 'w) tracker_state, bool) exec" where
  "chainHeadRefreshPass ovf t env st =
     bind (refreshChainHead ovf t env st) (\<lambda>(idleWait, err).
     if idleWait > 0 then
       bind (on_world (w_select_wait env idleWait)) (\<lambda>done. ret (\<not> done))
     else ret True)"

text \<open>
  \<open>Start\<close>: nothing runs when the initialisation fails; otherwise both loops run until the
  context is done. \<open>schedule\<close> is the order in which the two goroutines make their passes up to
  then; a refresher that saw the context done while waiting makes none after it.
\<close>

datatype goroutine = RunChainHeadRefresh | RunTransactionPolling

fun run_loops ::
  "(int \<Rightarrow> int) \<Rightarrow> ('ty, 'c, 'l) EventTracker \<Rightarrow> ('w, 'ev) tracker_world \<Rightarrow> ('d, 'ev, 'm) StorageHandler \<Rightarrow>
   ('ty, 'ev) event_lib \<Rightarrow> nat \<Rightarrow> bool \<Rightarrow> goroutine list \<Rightarrow> (('d, 'w) tracker_state, unit) exec" where
  "run_loops ovf t env st lib fuel refreshing [] = ret ()"
| "run_loops ovf t env st lib fuel refreshing (RunTransactionPolling # schedule) =
     bind (attempt (transactionPollingPass t env st lib fuel)) (\<lambda>_. run_loops ovf t env st lib fuel refreshing schedule)"
| "run_loops ovf t env st lib fuel refreshing (RunChainHeadRefresh # schedule) =
     (if refreshing
      then bind (attempt (chainHeadRefreshPass ovf t env st)) (\<lambda>r.
           run_loops ovf t env st lib fuel (case r of Inl _ \<Rightarrow> True | Inr goes_on \<Rightarrow> goes_on) schedule)
      else run_loops ovf t env st lib fuel refreshing schedule)"

definition EventTracker_Start ::
  "(int \<Rightarrow> int) \<Rightarrow> ('ty, 'c, 'l) EventTracker \<Rightarrow> ('w, 'ev) tracker_world \<Rightarrow> ('d, 'ev, 'm) StorageHandler \<Rightarrow>
   ('ty, 'ev) event_lib \<Rightarrow> nat \<Rightarrow> goroutine list \<Rightarrow> (('d, 'w) tracker_state, unit) exec" where
  "EventTracker_Start ovf t env st lib fuel schedule =
     bind (attempt (initialize st)) (\<lambda>r.
     case r of Inl _ \<Rightarrow> ret () | Inr _ \<Rightarrow> run_loops ovf t env st lib fuel True schedule)"

end
