(* ===== verification/Tracker_Polling.thy ===== *)
theory Tracker_Polling
  imports Tracker
begin

text \<open>
  What the transaction polling of the tracker does to the storage, from the contract of the
  storage interface: the queue and the two cursors, and the events of a transaction.
\<close>

section \<open>Operations on parts of the state\<close>

lemma on_storage_simp: "on_storage m s = (case m (storage s) of (r, d) \<Rightarrow> (r, s\<lparr>storage := d\<rparr>))"
  by (simp add: on_storage_def focus_def)

lemma on_world_simp: "on_world m s = (case m (world s) of (r, w) \<Rightarrow> (r, s\<lparr>world := w\<rparr>))"
  by (simp add: on_world_def focus_def)

lemma keeps_from_storage [keeps_rules]: "keeps P (from_storage f)"
  by (simp add: from_storage_def keeps_def)

text \<open>A call that leaves everything but the outside world as it was.\<close>

definition world_only :: "(('d, 'w) tracker_state, 'a) exec \<Rightarrow> bool" where
  "world_only m \<longleftrightarrow> (\<forall>s. \<exists>r w. m s = (r, s\<lparr>world := w\<rparr>))"

lemma world_onlyD: "world_only m \<Longrightarrow> m s = (r, s') \<Longrightarrow> \<exists>w. s' = s\<lparr>world := w\<rparr>"
  unfolding world_only_def by (metis prod.inject)

lemma world_onlyI: "(\<And>s r s'. m s = (r, s') \<Longrightarrow> \<exists>w. s' = s\<lparr>world := w\<rparr>) \<Longrightarrow> world_only m"
  unfolding world_only_def by (metis surj_pair)

named_theorems world_rules

lemma world_only_on_world [world_rules]: "world_only (on_world m)"
  by (auto simp: world_only_def on_world_simp split: prod.splits)

lemma world_only_same: "(\<And>s. snd (m s) = s) \<Longrightarrow> world_only m"
  by (rule world_onlyI) (metis snd_conv tracker_state.surjective tracker_state.update_convs(4))

lemma world_only_ret [world_rules]: "world_only (ret a)"
  and world_only_fail [world_rules]: "world_only (fail e)"
  and world_only_from_storage [world_rules]: "world_only (from_storage f)"
  and world_only_liftR [world_rules]: "world_only (liftR r)"
  and world_only_gets [world_rules]: "world_only (gets g)"
  by (rule world_only_same; simp add: ret_def fail_def from_storage_def liftR_def gets_def)+

lemma world_only_bind [world_rules]:
  assumes "world_only m" "\<And>a. world_only (f a)"
  shows "world_only (bind m f)"
proof (rule world_onlyI)
  fix s r s' assume h: "bind m f s = (r, s')"
  obtain x s1 where m: "m s = (x, s1)" by (cases "m s")
  with assms(1) obtain w1 where s1: "s1 = s\<lparr>world := w1\<rparr>" using world_onlyD by blast
  show "\<exists>w. s' = s\<lparr>world := w\<rparr>"
  proof (cases x)
    case (Inl e)
    with h m s1 show ?thesis by (auto simp: bind_def)
  next
    case (Inr a)
    with h m have "f a s1 = (r, s')" by (simp add: bind_def)
    with assms(2) obtain w2 where "s' = s1\<lparr>world := w2\<rparr>" using world_onlyD by blast
    with s1 show ?thesis by auto
  qed
qed

lemma world_only_wrapE [world_rules]: "world_only m \<Longrightarrow> world_only (wrapE msg m)"
  by (rule world_onlyI) (metis snd_conv snd_wrapE surj_pair world_onlyD)

lemma snd_attempt [simp]: "snd (attempt m s) = snd (m s)"
  by (auto simp: attempt_def split: prod.splits sum.splits)

lemma snd_try_again [simp]: "snd (try_again m s) = snd (m s)"
  by (auto simp: try_again_def split: prod.splits sum.splits)

lemma world_only_attempt [world_rules]: "world_only m \<Longrightarrow> world_only (attempt m)"
  by (rule world_onlyI) (metis snd_conv snd_attempt surj_pair world_onlyD)

lemma world_only_try_again [world_rules]: "world_only m \<Longrightarrow> world_only (try_again m)"
  by (rule world_onlyI) (metis snd_conv snd_try_again surj_pair world_onlyD)

lemma world_only_sum_case [world_rules]:
  "(\<And>e. world_only (f e)) \<Longrightarrow> (\<And>a. world_only (g a)) \<Longrightarrow> world_only (case x of Inl e \<Rightarrow> f e | Inr a \<Rightarrow> g a)"
  by (cases x) auto

lemma world_only_option_case [world_rules]:
  "world_only f \<Longrightarrow> (\<And>a. world_only (g a)) \<Longrightarrow> world_only (case x of None \<Rightarrow> f | Some a \<Rightarrow> g a)"
  by (cases x) auto

lemma world_only_if [world_rules]: "world_only m \<Longrightarrow> world_only n \<Longrightarrow> world_only (if b then m else n)"
  by simp

lemma world_only_retry_loop: "world_only h \<Longrightarrow> (\<And>d. world_only (sw d)) \<Longrightarrow> world_only (retry_loop sw c h n)"
  by (induction n) (auto intro!: world_rules simp: retry_loop.simps(2) split: sum.split)

lemma world_only_with_retry [world_rules]: "world_only (with_retry t env m)"
  unfolding with_retry_def ExecuteWithRetry_caller by (intro world_only_retry_loop world_rules)

lemma world_only_catch_up_pages [world_rules]:
  "world_only (catch_up_pages t env p lq c u fuel before sigs)"
  by (induction fuel arbitrary: before sigs) (auto intro!: world_rules simp: Let_def)

lemma world_only_fetcher [world_rules]: "world_only (signaturesForAddressFetcher t env fuel p lq)"
  unfolding signaturesForAddressFetcher_def catchUpLoop_def
  by (intro world_rules) (auto intro!: world_rules split: prod.split)

section \<open>New signatures\<close>

definition point_of :: "TransactionSignature \<Rightarrow> TxPoint" where
  "point_of x = \<lparr>tp_TxSignature = ts_Signature x, tp_Slot = ts_Slot x\<rparr>"

text \<open>What is queued of the new signatures: oldest first, without those before the start slot on a first run.\<close>

definition new_points :: "('ty, 'c, 'l) EventTracker \<Rightarrow> TxPoint \<Rightarrow> TransactionSignature list \<Rightarrow> TxPoint list" where
  "new_points t lastQueried sigs =
     map point_of (filter (\<lambda>x. tp_TxSignature lastQueried \<noteq> 0 \<or> et_startFromSlot t \<le> ts_Slot x) (rev sigs))"

lemma points_loop_eq: "points_loop t lq sigs acc = acc @ map point_of
    (filter (\<lambda>x. tp_TxSignature lq \<noteq> 0 \<or> et_startFromSlot t \<le> ts_Slot x) sigs)"
  by (induction sigs arbitrary: acc) (auto simp: point_of_def not_less)

lemma points_loop_new_points: "points_loop t lq (rev sigs) [] = new_points t lq sigs"
  by (simp add: points_loop_eq new_points_def)

lemma length_new_points: "length (new_points t lq sigs) \<le> length sigs"
  unfolding new_points_def by (metis length_filter_le length_map length_rev)

lemma set_new_points: "p \<in> set (new_points t lq sigs) \<Longrightarrow> \<exists>x \<in> set sigs. p = point_of x"
  by (auto simp: new_points_def)

lemma new_points_cursor: "tp_TxSignature lq \<noteq> 0 \<or> et_startFromSlot t = 0 \<Longrightarrow> new_points t lq sigs = map point_of (rev sigs)"
  by (auto simp: new_points_def)

text \<open>What a fetch of new signatures makes of the stored state.\<close>

definition spec_signatures ::
  "('ty, 'c, 'l) EventTracker \<Rightarrow> TxPoint \<Rightarrow> u64 \<Rightarrow> TransactionSignature list \<Rightarrow> 'm abs_store \<Rightarrow> 'm abs_store" where
  "spec_signatures t lq height new v =
     (if new = [] then v\<lparr>as_finalized := height\<rparr>
      else if new_points t lq new = [] then v\<lparr>as_processed := point_of (hd new), as_queried := point_of (hd new)\<rparr>
      else (spec_push (new_points t lq new) v)\<lparr>as_queried := last (new_points t lq new)\<rparr>)"

text \<open>The signatures that count as known: queued, last processed, or with events stored in the cursor's slot.\<close>

definition known_signatures :: "(Signature \<Rightarrow> string) \<Rightarrow> u64 \<Rightarrow> 'm abs_store \<Rightarrow> Signature set" where
  "known_signatures sig_text slot v =
     {s. s = tp_TxSignature (as_processed v) \<and> s \<noteq> 0} \<union> tp_TxSignature ` set (as_queue v)
     \<union> {s. sig_text s \<in> er_TxSignature ` {r \<in> set (as_events v). er_Slot r = slot}}"

text \<open>The one write of a fetch that must not fail once the queue was written.\<close>

definition cursor_writes_succeed :: "('d, 'ev, 'm) StorageHandler \<Rightarrow> ('d \<Rightarrow> bool) \<Rightarrow> bool" where
  "cursor_writes_succeed st ok \<longleftrightarrow> (\<forall>p d. ok d \<longrightarrow> fst (sh_StoreLatestQueriedTransaction st p d) = Inr ())"

context storage_handler
begin

lemma writesD:
  assumes "writes ok view R m d" "m d = (r, d')"
  shows "ok d'" and "r = Inr () \<Longrightarrow> R (view d) (view d')" and "\<And>e. r = Inl e \<Longrightarrow> view d' = view d"
  using assms by (auto simp: writes_def)

lemma get_known:
  assumes "ok d" "getQueuedTxSignatures st slot d = Inr S"
  shows "S = known_signatures sig_text slot (view d)"
proof -
  from assms(2) obtain q sigs p where q: "sh_GetAllUnprocessedTransactions st d = Inr q"
    and sigs: "sh_GetProcessedTxSignaturesBySlot st slot d = Inr sigs"
    and p: "sh_GetLastProcessedTransaction st d = Inr p"
    and S: "S = (if tp_TxSignature p \<noteq> 0 then {tp_TxSignature p} else {}) \<union> tp_TxSignature ` set q \<union> set sigs"
    by (auto simp: getQueuedTxSignatures_def split: sum.splits)
  have "set (map sig_text sigs) = er_TxSignature ` {r \<in> set (as_events (view d)). er_Slot r = slot}"
    by (simp add: get_signatures [OF assms(1) sigs])
  moreover have "s \<in> set sigs \<longleftrightarrow> sig_text s \<in> set (map sig_text sigs)" for s
    by (auto dest: sig_text_inj)
  ultimately have "set sigs = {s. sig_text s \<in> er_TxSignature ` {r \<in> set (as_events (view d)). er_Slot r = slot}}"
    by blast
  then show ?thesis
    unfolding S known_signatures_def get_queue [OF assms(1) q] get_processed [OF assms(1) p] by auto
qed

text \<open>
  A fetch that returned nil has done exactly \<open>spec_signatures\<close> with the new ones among the
  signatures the RPC gave.
\<close>

lemma fetchNext_success:
  assumes ok: "ok (storage s)"
    and height: "w_GetBlockHeight env CommitmentFinalized (world s) = (Inr h, w1)"
    and fetch: "signaturesForAddressFetcher t env fuel p lq (s\<lparr>world := w1\<rparr>) = (Inr sigs, s2)"
    and room: "push_room (length sigs) (view (storage s))"
    and run: "fetchNextGetSignaturesForAddress t env st fuel p lq s = (Inr (), s')"
  shows "ok (storage s') \<and> view (storage s') = spec_signatures t lq h
    (filter (\<lambda>x. ts_Signature x \<notin> known_signatures sig_text (tp_Slot lq) (view (storage s))) sigs) (view (storage s))"
proof -
  obtain w2 where s2: "s2 = s\<lparr>world := w2\<rparr>"
    using world_onlyD [OF world_only_fetcher fetch] by auto
  from run obtain S where S: "getQueuedTxSignatures st (tp_Slot lq) (storage s) = Inr S"
    unfolding fetchNextGetSignaturesForAddress_def
    by (cases "getQueuedTxSignatures st (tp_Slot lq) (storage s)")
      (simp_all add: bind_def on_world_simp height fetch s2 wrapE_def from_storage_def)
  note known = get_known [OF ok S]
  define new where "new = filter (\<lambda>x. ts_Signature x \<notin> S) sigs"
  have len: "length (new_points t lq new) \<le> length sigs"
    using length_new_points [of t lq new] length_filter_le le_trans unfolding new_def by blast
  have room': "push_room (length (new_points t lq new)) (view (storage s))"
    using room len by (simp add: push_room_def)
  note run' = run [unfolded fetchNextGetSignaturesForAddress_def bind_def on_world_simp height prod.case sum.case
      fetch s2 wrapE_def from_storage_def, simplified, unfolded S, simplified, folded new_def]
  show ?thesis
  proof (cases "new = []")
    case True
    obtain r d where "sh_StoreLatestFinalizedBlockNumber st h (storage s) = (r, d)"
      by (cases "sh_StoreLatestFinalizedBlockNumber st h (storage s)")
    with run' True writesD [OF set_finalized [OF ok] this] show ?thesis
      by (auto simp: spec_signatures_def on_storage_simp known [symmetric] new_def [symmetric] split: sum.splits)
  next
    case False
    have new: "filter (\<lambda>x. ts_Signature x \<notin> known_signatures sig_text (tp_Slot lq) (view (storage s))) sigs = new"
      by (simp add: new_def known)
    show ?thesis
    proof (cases "new_points t lq new = []")
      case True
      let ?p = "point_of (hd new)"
      have hd: "\<lparr>tp_TxSignature = ts_Signature (new ! 0), tp_Slot = ts_Slot (new ! 0)\<rparr> = ?p"
        using False by (simp add: point_of_def hd_conv_nth)
      obtain r1 d1 where p1: "sh_SetLastProcessedTransaction st ?p (storage s) = (r1, d1)"
        by (cases "sh_SetLastProcessedTransaction st ?p (storage s)")
      obtain r2 d2 where p2: "sh_StoreLatestQueriedTransaction st ?p d1 = (r2, d2)"
        by (cases "sh_StoreLatestQueriedTransaction st ?p d1")
      from run' have r: "r1 = Inr ()" "r2 = Inr ()" "storage s' = d2"
        by (auto simp: False True points_loop_new_points Let_def hd p1 p2 on_storage_simp split: sum.splits)
      note w1 = writesD [OF set_processed [OF ok] p1]
      note w2 = writesD [OF set_queried [OF w1(1)] p2]
      show ?thesis using w1(2) [OF r(1)] w2(1) w2(2) [OF r(2)] by (simp add: spec_signatures_def new False True r(3))
    next
      case pts: False
      let ?ps = "new_points t lq new"
      obtain r1 d1 where p1: "sh_PushUnprocessedTransactions st ?ps (storage s) = (r1, d1)"
        by (cases "sh_PushUnprocessedTransactions st ?ps (storage s)")
      obtain r2 d2 where p2: "sh_StoreLatestQueriedTransaction st (last ?ps) d1 = (r2, d2)"
        by (cases "sh_StoreLatestQueriedTransaction st (last ?ps) d1")
      from run' have r: "r1 = Inr ()" "r2 = Inr ()" "storage s' = d2"
        by (auto simp: False pts points_loop_new_points Let_def p1 p2 on_storage_simp split: sum.splits)
      note w1 = writesD [OF push [OF ok room'] p1]
      note w2 = writesD [OF set_queried [OF w1(1)] p2]
      show ?thesis using w1(2) [OF r(1)] w2(1) w2(2) [OF r(2)] by (simp add: spec_signatures_def new False pts r(3))
    qed
  qed
qed

text \<open>
  Without write failures of the cursor, a fetch either leaves the stored state as it was or
  does all of \<open>spec_signatures\<close>, whatever it returned.
\<close>

lemma fetchNext_cases:
  fixes s :: "('d, 'w) tracker_state"
  assumes ok: "ok (storage s)" and cursor: "cursor_writes_succeed st ok"
    and room: "\<And>(s1 :: ('d, 'w) tracker_state) sigs s2. signaturesForAddressFetcher t env fuel p lq s1 = (Inr sigs, s2) \<Longrightarrow>
      push_room (length sigs) (view (storage s))"
    and run: "fetchNextGetSignaturesForAddress t env st fuel p lq s = (r, s')"
  shows "ok (storage s') \<and> chainHeadSlot s' = chainHeadSlot s \<and> (view (storage s') = view (storage s) \<or>
    (\<exists>h sigs (s1 :: ('d, 'w) tracker_state) s2. signaturesForAddressFetcher t env fuel p lq s1 = (Inr sigs, s2) \<and>
       view (storage s') = spec_signatures t lq h
         (filter (\<lambda>x. ts_Signature x \<notin> known_signatures sig_text (tp_Slot lq) (view (storage s))) sigs) (view (storage s))))"
proof -
  obtain rh w1 where height: "w_GetBlockHeight env CommitmentFinalized (world s) = (rh, w1)"
    by (cases "w_GetBlockHeight env CommitmentFinalized (world s)")
  note defs = fetchNextGetSignaturesForAddress_def bind_def on_world_simp height prod.case
  show ?thesis
  proof (cases rh)
    case (Inl e)
    with run ok show ?thesis by (auto simp: defs)
  next
    case (Inr h)
    obtain rf s2 where fetch: "signaturesForAddressFetcher t env fuel p lq (s\<lparr>world := w1\<rparr>) = (rf, s2)"
      by (cases "signaturesForAddressFetcher t env fuel p lq (s\<lparr>world := w1\<rparr>)")
    obtain w2 where s2: "s2 = s\<lparr>world := w2\<rparr>" using world_onlyD [OF world_only_fetcher fetch] by auto
    show ?thesis
    proof (cases rf)
      case (Inl e)
      with run ok s2 \<open>rh = Inr h\<close> fetch show ?thesis by (auto simp: defs)
    next
      case fetched: (Inr sigs)
      have room_s: "push_room (length sigs) (view (storage s))" by (rule room [OF fetch [unfolded fetched]])
      show ?thesis
      proof (cases r)
        case (Inr u)
        then have "fetchNextGetSignaturesForAddress t env st fuel p lq s = (Inr (), s')" using run by simp
        from fetchNext_success [OF ok height [unfolded \<open>rh = Inr h\<close>] fetch [unfolded fetched] room_s this]
        have "ok (storage s') \<and> view (storage s') = spec_signatures t lq h
         (filter (\<lambda>x. ts_Signature x \<notin> known_signatures sig_text (tp_Slot lq) (view (storage s))) sigs) (view (storage s))" .
        moreover have "chainHeadSlot s' = chainHeadSlot s"
          using run \<open>rh = Inr h\<close> fetch fetched s2
          by (auto simp: defs wrapE_def from_storage_def on_storage_simp Let_def split: prod.splits sum.splits if_splits)
        ultimately show ?thesis using fetch fetched by blast
      next
        case (Inl e)
        have "ok (storage s') \<and> chainHeadSlot s' = chainHeadSlot s \<and> view (storage s') = view (storage s)"
        proof (cases "getQueuedTxSignatures st (tp_Slot lq) (storage s)")
          case (Inl e')
          with run \<open>rh = Inr h\<close> fetch fetched s2 ok show ?thesis
            by (auto simp: defs wrapE_def from_storage_def)
        next
          case (Inr S)
          let ?new = "filter (\<lambda>x. ts_Signature x \<notin> S) sigs"
          let ?ps = "new_points t lq ?new"
          note run' = run [unfolded defs \<open>rh = Inr h\<close> sum.case fetch fetched s2 wrapE_def from_storage_def, simplified,
              unfolded Inr, simplified, unfolded points_loop_new_points \<open>r = Inl e\<close>]
          have "length ?ps \<le> length sigs"
            using length_new_points [of t lq ?new] length_filter_le le_trans by blast
          then have room': "push_room (length ?ps) (view (storage s))" using room_s by (simp add: push_room_def)
          have queried: "\<exists>d2. sh_StoreLatestQueriedTransaction st p' d1 = (Inr (), d2)" if "ok d1" for p' d1
            using cursor that unfolding cursor_writes_succeed_def by (metis prod.collapse)
          show ?thesis
          proof (cases "?new = []")
            case True
            obtain r1 d1 where p1: "sh_StoreLatestFinalizedBlockNumber st h (storage s) = (r1, d1)"
              by (cases "sh_StoreLatestFinalizedBlockNumber st h (storage s)")
            show ?thesis using run' True p1 writesD [OF set_finalized [OF ok] p1]
              by (auto simp: on_storage_simp split: sum.splits)
          next
            case False
            show ?thesis
            proof (cases "?ps = []")
              case True
              let ?p = "\<lparr>tp_TxSignature = ts_Signature (?new ! 0), tp_Slot = ts_Slot (?new ! 0)\<rparr>"
              obtain r1 d1 where p1: "sh_SetLastProcessedTransaction st ?p (storage s) = (r1, d1)"
                by (cases "sh_SetLastProcessedTransaction st ?p (storage s)")
              note w1 = writesD [OF set_processed [OF ok] p1]
              from queried [OF w1(1), of ?p] obtain d2 where "sh_StoreLatestQueriedTransaction st ?p d1 = (Inr (), d2)" by blast
              with run' False True p1 w1 show ?thesis
                by (auto simp: on_storage_simp Let_def split: sum.splits)
            next
              case pts: False
              obtain r1 d1 where p1: "sh_PushUnprocessedTransactions st ?ps (storage s) = (r1, d1)"
                by (cases "sh_PushUnprocessedTransactions st ?ps (storage s)")
              note w1 = writesD [OF push [OF ok room'] p1]
              from queried [OF w1(1), of "last ?ps"] obtain d2
                where "sh_StoreLatestQueriedTransaction st (last ?ps) d1 = (Inr (), d2)" by blast
              with run' False pts p1 w1 show ?thesis
                by (auto simp: on_storage_simp Let_def split: sum.splits)
            qed
          qed
        qed
        then show ?thesis by blast
      qed
    qed
  qed
qed

end

end
