(* ===== verification/Tracker_Processing.thy ===== *)
theory Tracker_Processing
  imports Tracker_Polling "HOL-Library.Sublist"
begin

text \<open>
  What processing the front of the queue does to the storage: the events of the transaction
  are stored in order, then the transaction leaves the queue.
\<close>

section \<open>The events of a transaction\<close>

text \<open>The reports of a list of emitted events, in order; a stop in one of them ends the list.\<close>

fun reports_of ::
  "('ty, 'c, 'l) EventTracker \<Rightarrow> ('ty, 'ev) event_lib \<Rightarrow> Transaction \<Rightarrow> PublicKey list \<Rightarrow> emittedEvent list \<Rightarrow>
   (PublicKey \<times> string \<times> Hash) list" where
  "reports_of t lib tx keys [] = []"
| "reports_of t lib tx keys (e # es) =
     (case event_to_report t lib tx keys e of
        Inl _ \<Rightarrow> []
      | Inr None \<Rightarrow> reports_of t lib tx keys es
      | Inr (Some (parsed, name, hash)) \<Rightarrow> (ee_programID e, name, hash) # reports_of t lib tx keys es)"

text \<open>The fields of a stored event that come from its transaction.\<close>

definition event_key :: "'m EventRecord \<Rightarrow> u64 \<times> string \<times> string \<times> string \<times> Hash" where
  "event_key r = (er_Slot r, er_TxSignature r, er_Program r, er_EventType r, er_InnerActionHash r)"

definition report_key ::
  "(Signature \<Rightarrow> string) \<Rightarrow> (PublicKey \<Rightarrow> string) \<Rightarrow> u64 \<Rightarrow> Signature \<Rightarrow> PublicKey \<times> string \<times> Hash \<Rightarrow>
   u64 \<times> string \<times> string \<times> string \<times> Hash" where
  "report_key sig_text key_text slot sig = (\<lambda>(prog, name, hash). (slot, sig_text sig, key_text prog, name, hash))"

lemma event_key_of [simp]:
  "event_key (event_record_of sig_text key_text i slot bn sig prog name hash m) =
     report_key sig_text key_text slot sig (prog, name, hash)"
  by (simp add: event_key_def event_record_of_def report_key_def)

text \<open>Two stored states that differ in the finalized number and in the events only.\<close>

definition same_queue :: "'m abs_store \<Rightarrow> 'm abs_store \<Rightarrow> bool" where
  "same_queue v v' \<longleftrightarrow> v' = v\<lparr>as_finalized := as_finalized v', as_events := as_events v'\<rparr>"

lemma same_queue_refl [simp]: "same_queue v v"
  by (simp add: same_queue_def)

lemma same_queue_trans: "same_queue v v1 \<Longrightarrow> same_queue v1 v2 \<Longrightarrow> same_queue v v2"
  by (cases v; cases v1; cases v2) (simp add: same_queue_def)

lemma same_queueD:
  "same_queue v v' \<Longrightarrow> as_queue v' = as_queue v \<and> as_popped v' = as_popped v \<and> as_processed v' = as_processed v
     \<and> as_queried v' = as_queried v \<and> as_head v' = as_head v \<and> as_blocks v' = as_blocks v"
  by (cases v; cases v') (simp add: same_queue_def)

text \<open>Possibly with new events, the queue is as before or its front has moved to the cursor.\<close>

definition moved :: "'m abs_store \<Rightarrow> 'm abs_store \<Rightarrow> bool" where
  "moved v v' \<longleftrightarrow> (\<exists>u. same_queue v u \<and> (v' = u \<or> as_queue u \<noteq> [] \<and> v' = spec_finalize u))"

lemma moved_refl [simp]: "moved v v"
  and moved_same: "same_queue v v' \<Longrightarrow> moved v v'"
  and moved_finalize: "as_queue v \<noteq> [] \<Longrightarrow> moved v (spec_finalize v)"
  by (auto simp: moved_def intro: same_queue_refl)

lemma moved_same_trans: "same_queue v u \<Longrightarrow> moved u v' \<Longrightarrow> moved v v'"
  unfolding moved_def using same_queue_trans by blast

text \<open>The event counter has room for the events of any transaction the node may give.\<close>

definition events_fit :: "('ty, 'c, 'l) EventTracker \<Rightarrow> ('w, 'ev) tracker_world \<Rightarrow> 'm abs_store \<Rightarrow> bool" where
  "events_fit t env v \<longleftrightarrow> (\<forall>sig w resp w' meta keys.
     w_GetTransaction env sig (et_commitment t) w = (Inr (Some resp), w') \<longrightarrow> tr_Meta resp = Some meta \<longrightarrow>
     event_room (length (collectTransactionEvents t meta keys)) v)"

context storage_handler
begin

lemma report_event_effect:
  assumes ok: "ok (storage s)" and room: "event_room 1 (view (storage s))"
    and run: "report_event t env st slot sig prog (parsed, name, hash) s = (r, s')"
  shows "ok (storage s') \<and> chainHeadSlot s' = chainHeadSlot s \<and> same_queue (view (storage s)) (view (storage s'))
    \<and> (case r of
         Inl _ \<Rightarrow> as_events (view (storage s')) = as_events (view (storage s))
       | Inr _ \<Rightarrow> \<exists>rec. as_events (view (storage s')) = as_events (view (storage s)) @ [rec]
           \<and> event_key rec = report_key sig_text key_text slot sig (prog, name, hash))"
proof -
  obtain rb s1 where block: "with_retry t env (w_GetBlockWithOpts env slot (et_commitment t)) s = (rb, s1)"
    by (cases "with_retry t env (w_GetBlockWithOpts env slot (et_commitment t)) s")
  obtain w1 where s1: "s1 = s\<lparr>world := w1\<rparr>" using world_onlyD [OF world_only_with_retry block] by blast
  note defs = report_event_def bind_def wrapE_def block s1
  show ?thesis
  proof (cases rb)
    case (Inl e)
    with run ok show ?thesis by (auto simp: defs)
  next
    case rb: (Inr bo)
    show ?thesis
    proof (cases "\<exists>b h. bo = Some b \<and> gb_BlockHeight b = Some h")
      case False
      with run ok rb show ?thesis by (auto simp: defs fail_def split: option.splits)
    next
      case True
      then obtain b h where b: "bo = Some b" "gb_BlockHeight b = Some h" by blast
      define event where "event = \<lparr>en_SlotNumber = slot, en_BlockNumber = h, en_TxSignature = sig,
        en_InnerActionHash = hash, en_Program = prog, en_EventName = name, en_EventData = parsed\<rparr>"
      obtain r1 d1 where p1: "sh_StoreLatestFinalizedBlockNumber st h (storage s) = (r1, d1)"
        by (cases "sh_StoreLatestFinalizedBlockNumber st h (storage s)")
      note w1 = writesD [OF set_finalized [OF ok] p1]
      obtain r2 w2 where add: "w_AddEvent env event w1 = (r2, w2)" by (cases "w_AddEvent env event w1")
      obtain r3 d3 where p3: "sh_StoreEvent st NilTx slot h sig prog name hash parsed d1 = (r3, d3)"
        by (cases "sh_StoreEvent st NilTx slot h sig prog name hash parsed d1")
      note steps = defs rb b on_storage_simp on_world_simp p1 add [unfolded event_def] p3 Let_def
      show ?thesis
      proof (cases r1)
        case (Inl e)
        with run w1 show ?thesis by (auto simp: steps)
      next
        case r1: (Inr u)
        have v1: "view d1 = (view (storage s))\<lparr>as_finalized := h\<rparr>" using w1(2) r1 by simp
        then have room1: "event_room 1 (view d1)" using room by (simp add: event_room_def)
        note w3 = writesD [OF store_event [OF w1(1) room1] p3]
        show ?thesis
        proof (cases r2)
          case (Inl e)
          with run r1 v1 w1 show ?thesis by (auto simp: steps same_queue_def)
        next
          case (Inr u2)
          note r2 = this
          show ?thesis
          proof (cases r3)
            case (Inl e)
            with run r1 v1 r2 w3 show ?thesis by (auto simp: steps same_queue_def)
          next
            case (Inr u3)
            with w3(2) obtain m where v3: "view d3 = (view d1)\<lparr>as_events := as_events (view d1) @
                [event_record_of sig_text key_text (of_nat (Suc (length (as_events (view d1))))) slot h sig prog name hash m]\<rparr>"
              by auto
            with Inr run r1 v1 r2 w3(1) show ?thesis by (auto simp: steps same_queue_def)
          qed
        qed
      qed
    qed
  qed
qed

lemma process_emitted_effect:
  assumes ok: "ok (storage s)" and room: "event_room 1 (view (storage s))"
    and run: "process_emitted t env st lib slot sig tx keys e s = (r, s')"
  shows "ok (storage s') \<and> chainHeadSlot s' = chainHeadSlot s \<and> same_queue (view (storage s)) (view (storage s'))
    \<and> (case r of
         Inl _ \<Rightarrow> as_events (view (storage s')) = as_events (view (storage s))
       | Inr _ \<Rightarrow> \<exists>recs. as_events (view (storage s')) = as_events (view (storage s)) @ recs
           \<and> map event_key recs = map (report_key sig_text key_text slot sig) (reports_of t lib tx keys [e])
           \<and> (\<exists>x. event_to_report t lib tx keys e = Inr x))"
proof (cases "event_to_report t lib tx keys e")
  case (Inl e')
  with run ok show ?thesis by (auto simp: process_emitted_def bind_def liftR_def)
next
  case (Inr x)
  show ?thesis
  proof (cases x)
    case None
    with run ok Inr show ?thesis by (auto simp: process_emitted_def bind_def liftR_def ret_def)
  next
    case (Some ev)
    obtain parsed name hash where ev: "ev = (parsed, name, hash)" by (cases ev)
    with run Inr Some have "report_event t env st slot sig (ee_programID e) (parsed, name, hash) s = (r, s')"
      by (simp add: process_emitted_def bind_def liftR_def)
    from report_event_effect [OF ok room this] Inr Some ev show ?thesis
      by (auto split: sum.splits)
  qed
qed

lemma reports_of_Cons:
  "event_to_report t lib tx keys e = Inr x \<Longrightarrow>
     reports_of t lib tx keys (e # es) = reports_of t lib tx keys [e] @ reports_of t lib tx keys es"
  by (cases x) auto

lemma length_reports_of: "length (reports_of t lib tx keys es) \<le> length es"
  by (induction es) (auto split: sum.split option.split)

lemma process_all_effect:
  "ok (storage s) \<Longrightarrow> event_room (length es) (view (storage s)) \<Longrightarrow>
   for_each (process_emitted t env st lib slot sig tx keys) es s = (r, s') \<Longrightarrow>
     ok (storage s') \<and> chainHeadSlot s' = chainHeadSlot s \<and> same_queue (view (storage s)) (view (storage s'))
    \<and> (\<exists>recs. as_events (view (storage s')) = as_events (view (storage s)) @ recs
         \<and> prefix (map event_key recs) (map (report_key sig_text key_text slot sig) (reports_of t lib tx keys es))
         \<and> (r = Inr () \<longrightarrow> map event_key recs = map (report_key sig_text key_text slot sig) (reports_of t lib tx keys es)))"
proof (induction es arbitrary: s)
  case Nil
  then show ?case by (simp add: ret_def)
next
  case (Cons e es)
  obtain r1 s1 where one: "process_emitted t env st lib slot sig tx keys e s = (r1, s1)"
    by (cases "process_emitted t env st lib slot sig tx keys e s")
  have "event_room 1 (view (storage s))" using Cons.prems(2) by (simp add: event_room_def)
  note eff = process_emitted_effect [OF Cons.prems(1) this one]
  show ?case
  proof (cases r1)
    case (Inl err)
    with Cons.prems(3) one have "r = Inl err" "s' = s1" by (simp_all add: bind_def)
    with eff Inl show ?thesis by (intro conjI exI [of _ "[]"]) simp_all
  next
    case (Inr u)
    have "\<exists>recs. as_events (view (storage s1)) = as_events (view (storage s)) @ recs
        \<and> map event_key recs = map (report_key sig_text key_text slot sig) (reports_of t lib tx keys [e])
        \<and> (\<exists>x. event_to_report t lib tx keys e = Inr x)"
      using eff unfolding Inr by (simp only: sum.case) 
    then obtain recs1 x where ev1: "as_events (view (storage s1)) = as_events (view (storage s)) @ recs1"
      and key1: "map event_key recs1 = map (report_key sig_text key_text slot sig) (reports_of t lib tx keys [e])"
      and rep: "event_to_report t lib tx keys e = Inr x"
      by blast
    have rest: "for_each (process_emitted t env st lib slot sig tx keys) es s1 = (r, s')"
      using Cons.prems(3) one Inr by (simp add: bind_def)
    have "length recs1 \<le> 1"
      using length_reports_of [of t lib tx keys "[e]"] arg_cong [OF key1, of length] by simp
    then have room1: "event_room (length es) (view (storage s1))"
      using Cons.prems(2) ev1 by (simp add: event_room_def)
    from Cons.IH [OF _ room1 rest] eff obtain recs2
      where ih: "ok (storage s')" "chainHeadSlot s' = chainHeadSlot s1" "same_queue (view (storage s1)) (view (storage s'))"
        "as_events (view (storage s')) = as_events (view (storage s1)) @ recs2"
        "prefix (map event_key recs2) (map (report_key sig_text key_text slot sig) (reports_of t lib tx keys es))"
        "r = Inr () \<longrightarrow> map event_key recs2 = map (report_key sig_text key_text slot sig) (reports_of t lib tx keys es)"
      by blast
    have keys: "map (report_key sig_text key_text slot sig) (reports_of t lib tx keys (e # es))
        = map event_key recs1 @ map (report_key sig_text key_text slot sig) (reports_of t lib tx keys es)"
      by (subst reports_of_Cons [OF rep]) (simp only: map_append key1)
    show ?thesis unfolding keys
    proof (intro conjI exI [of _ "recs1 @ recs2"])
      show "ok (storage s')" "chainHeadSlot s' = chainHeadSlot s" using ih(1,2) eff by simp_all
      show "same_queue (view (storage s)) (view (storage s'))" using eff ih(3) same_queue_trans by blast
      show "as_events (view (storage s')) = as_events (view (storage s)) @ recs1 @ recs2" by (simp add: ih(4) ev1)
      show "prefix (map event_key (recs1 @ recs2)) (map event_key recs1 @
          map (report_key sig_text key_text slot sig) (reports_of t lib tx keys es))"
        using ih(5) by simp
      show "r = Inr () \<longrightarrow> map event_key (recs1 @ recs2) = map event_key recs1 @
          map (report_key sig_text key_text slot sig) (reports_of t lib tx keys es)"
        using ih(6) by simp
    qed
  qed
qed

section \<open>The front of the queue\<close>

lemma read_queue:
  assumes "ok (storage s)" "sh_GetAllUnprocessedTransactions st (storage s) = Inr q"
  shows "q = as_queue (view (storage s))"
  using assms by (rule get_queue)

lemma finalize_effect:
  assumes ok: "ok d" and run: "sh_FinalizeProcessedTransaction st sig d = (r, d')"
  shows "ok d' \<and> (case r of Inl _ \<Rightarrow> view d' = view d
    | Inr _ \<Rightarrow> as_queue (view d) \<noteq> [] \<and> tp_TxSignature (hd (as_queue (view d))) = sig \<and> view d' = spec_finalize (view d))"
  using writesD [OF finalize [OF ok, of sig] run] by (auto split: sum.splits)

lemma wrapE_on_storage:
  "wrapE msg (on_storage m) s = (case m (storage s) of
     (Inl e, d) \<Rightarrow> (Inl (wrapped msg e), s\<lparr>storage := d\<rparr>) | (Inr a, d) \<Rightarrow> (Inr a, s\<lparr>storage := d\<rparr>))"
  by (auto simp: wrapE_def on_storage_simp split: prod.splits sum.splits)

lemma finalize_step:
  assumes "ok (storage s)"
    and "wrapE msg (on_storage (sh_FinalizeProcessedTransaction st sig)) s = (r, s')
      \<or> on_storage (sh_FinalizeProcessedTransaction st sig) s = (r, s')"
  shows "ok (storage s') \<and> chainHeadSlot s' = chainHeadSlot s \<and>
    (case r of Inl _ \<Rightarrow> view (storage s') = view (storage s)
     | Inr _ \<Rightarrow> as_queue (view (storage s)) \<noteq> [] \<and> tp_TxSignature (hd (as_queue (view (storage s)))) = sig
         \<and> view (storage s') = spec_finalize (view (storage s)))"
proof -
  obtain rf d where f: "sh_FinalizeProcessedTransaction st sig (storage s) = (rf, d)"
    by (cases "sh_FinalizeProcessedTransaction st sig (storage s)")
  from assms(2) finalize_effect [OF assms(1) f] show ?thesis
    by (auto simp: wrapE_on_storage on_storage_simp f split: sum.splits)
qed

lemma finalize_tail: "wrapE msg (liftR (Inr a)) s = (Inr a, s)" "wrapE msg (liftR (Inl e)) s = (Inl (wrapped msg e), s)"
  by (simp_all add: wrapE_def liftR_def)

text \<open>
  Whatever the processing of the front returns: the queue and the cursors are as before, or
  the front has moved to the cursor; and only records of this transaction were added.
\<close>

lemma fetchNextFull_cases:
  assumes ok: "ok (storage s)" and fits: "events_fit t env (view (storage s))"
    and run: "fetchNextGetFullTxBySignature t env st lib s = (r, s')"
  shows "ok (storage s') \<and> chainHeadSlot s' = chainHeadSlot s \<and> moved (view (storage s)) (view (storage s'))"
proof (cases "sh_GetAllUnprocessedTransactions st (storage s)")
  case (Inl e)
  with run ok show ?thesis by (auto simp: fetchNextGetFullTxBySignature_def bind_def from_storage_def)
next
  case q: (Inr q)
  show ?thesis
  proof (cases "q = [] \<or> (\<exists>e. sh_GetLastProcessedTransaction st (storage s) = Inl e)")
    case True
    with run ok q show ?thesis
      by (cases "q = []") (auto simp: fetchNextGetFullTxBySignature_def bind_def from_storage_def ret_def)
  next
    case False
    then obtain lp where lp: "sh_GetLastProcessedTransaction st (storage s) = Inr lp"
      by (cases "sh_GetLastProcessedTransaction st (storage s)") auto
    note defs = fetchNextGetFullTxBySignature_def bind_def from_storage_def q lp Let_def
    let ?sig = "tp_TxSignature (q ! 0)"
    show ?thesis
    proof (cases "?sig = tp_TxSignature lp")
      case True
      with run False have "on_storage (sh_FinalizeProcessedTransaction st ?sig) s = (r, s')" by (simp add: defs)
      from finalize_step [OF ok disjI2 [OF this]] show ?thesis
        by (auto split: sum.splits intro: moved_finalize)
    next
      case sig: False
      obtain rt w where gt: "w_GetTransaction env ?sig (et_commitment t) (world s) = (rt, w)"
        by (cases "w_GetTransaction env ?sig (et_commitment t) (world s)")
      show ?thesis
      proof (cases "\<exists>resp meta. rt = Inr (Some resp) \<and> tr_Meta resp = Some meta")
        case no: False
        with run False sig gt ok show ?thesis
          by (auto simp: defs on_world_simp fail_def split: sum.splits option.splits)
      next
        case True
        then obtain resp meta where rt: "rt = Inr (Some resp)" "tr_Meta resp = Some meta" by blast
        let ?s1 = "s\<lparr>world := w\<rparr>"
        note defs' = defs on_world_simp gt rt
        show ?thesis
        proof (cases "tm_Err meta \<or> (tm_InnerInstructions meta = None \<and> (\<exists>tx. tr_Transaction resp = Inr tx))")
          case True
          with run False sig have
            "wrapE STR ''failed to finalize processed transaction: %w'' (on_storage (sh_FinalizeProcessedTransaction st ?sig)) ?s1 = (r, s')"
            by (cases "tm_Err meta") (auto simp: defs' finalize_tail)
          from finalize_step [OF _ disjI1 [OF this]] ok show ?thesis
            by (auto split: sum.splits intro: moved_finalize)
        next
          case proc: False
          show ?thesis
          proof (cases "tr_Transaction resp")
            case (Inl e)
            with run False sig proc ok show ?thesis by (auto simp: defs' wrapE_def liftR_def)
          next
            case tx: (Inr tx)
            let ?keys = "transactionAccountKeys (tx_AccountKeys tx) (tm_LoadedAddresses meta)"
            let ?loop = "for_each (process_emitted t env st lib (tr_Slot resp) ?sig tx ?keys) (collectTransactionEvents t meta ?keys)"
            obtain rl s2 where loop: "?loop ?s1 = (rl, s2)" by (cases "?loop ?s1")
            have room: "event_room (length (collectTransactionEvents t meta ?keys)) (view (storage ?s1))"
              using fits gt rt unfolding events_fit_def by simp blast
            have ok1: "ok (storage ?s1)" using ok by simp
            note eff = process_all_effect [OF ok1 room loop]
            show ?thesis
            proof (cases rl)
              case (Inl e)
              with run False sig proc tx loop have "s' = s2" by (auto simp: defs' wrapE_def liftR_def)
              with eff show ?thesis by (auto intro: moved_same)
            next
              case (Inr u)
              with run False sig proc tx loop have
                "wrapE STR ''failed to finalize processed transaction: %w'' (on_storage (sh_FinalizeProcessedTransaction st ?sig)) s2 = (r, s')"
                by (auto simp: defs' finalize_tail)
              from finalize_step [OF _ disjI1 [OF this]] eff show ?thesis
                by (auto split: sum.splits intro: moved_same moved_same_trans moved_finalize)
            qed
          qed
        qed
      qed
    qed
  qed
qed

text \<open>
  A transaction that succeeded on chain and has its inner instructions: its reports are stored
  in order, all of them exactly when the processing returns nil, and only then does it leave the
  queue for the cursor.
\<close>

lemma fetchNextFull_processes:
  assumes ok: "ok (storage s)"
    and queue: "as_queue (view (storage s)) = p # rest"
    and fresh: "tp_TxSignature p \<noteq> tp_TxSignature (as_processed (view (storage s)))"
    and gt: "w_GetTransaction env (tp_TxSignature p) (et_commitment t) (world s) = (Inr (Some resp), w)"
    and meta: "tr_Meta resp = Some meta" "\<not> tm_Err meta" "tm_InnerInstructions meta \<noteq> None"
    and tx: "tr_Transaction resp = Inr tx"
    and room: "event_room (length (collectTransactionEvents t meta
        (transactionAccountKeys (tx_AccountKeys tx) (tm_LoadedAddresses meta)))) (view (storage s))"
    and run: "fetchNextGetFullTxBySignature t env st lib s = (r, s')"
  shows "ok (storage s') \<and> (let keys = transactionAccountKeys (tx_AccountKeys tx) (tm_LoadedAddresses meta);
      reports = map (report_key sig_text key_text (tr_Slot resp) (tp_TxSignature p))
        (reports_of t lib tx keys (collectTransactionEvents t meta keys)) in
    \<exists>recs. as_events (view (storage s')) = as_events (view (storage s)) @ recs \<and> prefix (map event_key recs) reports \<and>
      (if r = Inr () then map event_key recs = reports \<and> as_queue (view (storage s')) = rest \<and> as_processed (view (storage s')) = p
       else as_queue (view (storage s')) = p # rest \<and> as_processed (view (storage s')) = as_processed (view (storage s))))"
proof -
  let ?keys = "transactionAccountKeys (tx_AccountKeys tx) (tm_LoadedAddresses meta)"
  let ?reports = "map (report_key sig_text key_text (tr_Slot resp) (tp_TxSignature p))
        (reports_of t lib tx ?keys (collectTransactionEvents t meta ?keys))"
  let ?goal = "ok (storage s') \<and> (\<exists>recs. as_events (view (storage s')) = as_events (view (storage s)) @ recs \<and> prefix (map event_key recs) ?reports \<and>
      (if r = Inr () then map event_key recs = ?reports \<and> as_queue (view (storage s')) = rest \<and> as_processed (view (storage s')) = p
       else as_queue (view (storage s')) = p # rest \<and> as_processed (view (storage s')) = as_processed (view (storage s))))"
  have unchanged: ?goal if "\<exists>e. r = Inl e" "s' = s"
    using that ok queue by auto
  note defs = fetchNextGetFullTxBySignature_def bind_def from_storage_def Let_def
  have ?goal
  proof (cases "sh_GetAllUnprocessedTransactions st (storage s)")
    case (Inl e)
    with run show ?thesis by (intro unchanged) (auto simp: defs)
  next
    case (Inr q)
    with read_queue [OF ok] queue have q: "sh_GetAllUnprocessedTransactions st (storage s) = Inr (p # rest)" by simp
    show ?thesis
    proof (cases "sh_GetLastProcessedTransaction st (storage s)")
      case (Inl e)
      with run q show ?thesis by (intro unchanged) (auto simp: defs)
    next
      case (Inr lp)
      with get_processed [OF ok] fresh have lp: "sh_GetLastProcessedTransaction st (storage s) = Inr lp"
        "tp_TxSignature p \<noteq> tp_TxSignature lp" by auto
      let ?s1 = "s\<lparr>world := w\<rparr>"
      let ?loop = "for_each (process_emitted t env st lib (tr_Slot resp) (tp_TxSignature p) tx ?keys) (collectTransactionEvents t meta ?keys)"
      obtain rl s2 where loop: "?loop ?s1 = (rl, s2)" by (cases "?loop ?s1")
      have ok1: "ok (storage ?s1)" and room1: "event_room (length (collectTransactionEvents t meta ?keys)) (view (storage ?s1))"
        using ok room by simp_all
      note eff = process_all_effect [OF ok1 room1 loop]
      then obtain recs where recs: "as_events (view (storage s2)) = as_events (view (storage s)) @ recs"
        "prefix (map event_key recs) ?reports" "rl = Inr () \<longrightarrow> map event_key recs = ?reports"
        and same: "same_queue (view (storage s)) (view (storage s2))" and ok2: "ok (storage s2)" by auto
      note kept = same_queueD [OF same]
      note defs' = defs q lp on_world_simp gt meta tx finalize_tail loop
      show ?thesis
      proof (cases rl)
        case (Inl e)
        with run have "r = Inl e" "s' = s2" by (simp_all add: defs')
        with recs kept ok2 queue show ?thesis by auto
      next
        case (Inr u)
        with run have
          "wrapE STR ''failed to finalize processed transaction: %w'' (on_storage (sh_FinalizeProcessedTransaction st (tp_TxSignature p))) s2 = (r, s')"
          by (simp add: defs')
        note fin = finalize_step [OF ok2 disjI1 [OF this]]
        show ?thesis
        proof (cases r)
          case (Inl e)
          with fin recs kept queue show ?thesis by auto
        next
          case (Inr u2)
          with fin recs kept queue \<open>rl = Inr u\<close> show ?thesis by (auto simp: spec_finalize_def)
        qed
      qed
    qed
  qed
  then show ?thesis by (simp only: Let_def)
qed

text \<open>A transaction that failed on chain leaves the queue and stores no event.\<close>

lemma fetchNextFull_skips:
  assumes ok: "ok (storage s)"
    and queue: "as_queue (view (storage s)) = p # rest"
    and gt: "w_GetTransaction env (tp_TxSignature p) (et_commitment t) (world s) = (Inr (Some resp), w)"
    and meta: "tr_Meta resp = Some meta" "tm_Err meta"
    and run: "fetchNextGetFullTxBySignature t env st lib s = (r, s')"
  shows "ok (storage s') \<and> as_events (view (storage s')) = as_events (view (storage s)) \<and>
    (if r = Inr () then as_queue (view (storage s')) = rest \<and> as_processed (view (storage s')) = p
     else view (storage s') = view (storage s))"
proof -
  note defs = fetchNextGetFullTxBySignature_def bind_def from_storage_def Let_def
  consider (err) e where "r = Inl e" "s' = s" | (fin) s1 msg where "storage s1 = storage s"
    "wrapE msg (on_storage (sh_FinalizeProcessedTransaction st (tp_TxSignature p))) s1 = (r, s')
     \<or> on_storage (sh_FinalizeProcessedTransaction st (tp_TxSignature p)) s1 = (r, s')"
  proof (cases "sh_GetAllUnprocessedTransactions st (storage s)")
    case (Inl e)
    with run err show ?thesis by (auto simp: defs)
  next
    case (Inr q)
    with read_queue [OF ok] queue have q: "sh_GetAllUnprocessedTransactions st (storage s) = Inr (p # rest)" by simp
    show ?thesis
    proof (cases "sh_GetLastProcessedTransaction st (storage s)")
      case (Inl e)
      with run q err show ?thesis by (auto simp: defs)
    next
      case lp: (Inr lp)
      show ?thesis
      proof (cases "tp_TxSignature p = tp_TxSignature lp")
        case True
        with run q lp fin [of s] show ?thesis by (auto simp: defs)
      next
        case False
        with run q lp gt meta show ?thesis
          by (intro fin [of "s\<lparr>world := w\<rparr>" "STR ''failed to finalize processed transaction: %w''"])
            (simp_all add: defs on_world_simp)
      qed
    qed
  qed
  then show ?thesis
  proof cases
    case err
    with ok show ?thesis by auto
  next
    case fin
    have "ok (storage s1)" using ok fin(1) by simp
    from finalize_step [OF this fin(2)] show ?thesis
      using queue fin(1) by (cases r) (auto simp: spec_finalize_def)
  qed
qed

end

section \<open>What is reported\<close>

text \<open>Every report comes from a collected event, decoded by a specification of its program.\<close>

lemma reports_of_from:
  "(prog, name, hash) \<in> set (reports_of t lib tx keys es) \<Longrightarrow>
     \<exists>e \<in> set es. \<exists>parsed. ee_programID e = prog \<and> event_to_report t lib tx keys e = Inr (Some (parsed, name, hash))"
proof (induction es)
  case (Cons e es)
  show ?case
  proof (cases "event_to_report t lib tx keys e")
    case (Inl err)
    with Cons.prems show ?thesis by simp
  next
    case (Inr x)
    show ?thesis
    proof (cases x)
      case None
      with Cons Inr show ?thesis by auto
    next
      case (Some ev)
      obtain parsed name' hash' where "ev = (parsed, name', hash')" by (cases ev)
      with Cons Inr Some show ?thesis by auto
    qed
  qed
qed simp

lemma event_to_report_Some:
  assumes "event_to_report t lib tx keys e = Inr (Some (parsed, name, hash))"
  shows "parseEvent t lib (ee_data e) (ee_programID e) = Inr (Some (parsed, name)) \<and>
    (name = ''TransactionExecutedEvent'' \<longrightarrow> (\<exists>batchId payload payloadBytes. as_TransactionExecutedEvent lib parsed = Some batchId \<and>
       findBatchPayloadAtInstruction (payload_Unmarshal lib) (tx_Instructions tx) keys (ee_topLevelIndex e) batchId = Inr payload \<and>
       payload_Marshal lib payload = Inr payloadBytes \<and> hash = be_word (Sum256 payloadBytes))) \<and>
    (name \<noteq> ''TransactionExecutedEvent'' \<longrightarrow> hash = 0)"
  using assms by (auto simp: event_to_report_def event_action_hash_def split: sum.splits option.splits if_splits)

end
