(* ===== verification/Tracker_Head.thy ===== *)
theory Tracker_Head
  imports Tracker_Polling
begin

text \<open>
  The chain-head refresher: what it stores, and that the head only moves forward, from the
  contract of the storage and the documented answers of \<open>getBlocks\<close>.
\<close>

section \<open>What a refresh may change\<close>

text \<open>The refresher writes the block indexes and the head; the rest of the stored state stays.\<close>

definition same_polling :: "'m abs_store \<Rightarrow> 'm abs_store \<Rightarrow> bool" where
  "same_polling v v' \<longleftrightarrow>
     v' = v\<lparr>as_head := as_head v', as_blocks := as_blocks v', as_numbers := as_numbers v'\<rparr>"

lemma same_polling_refl [simp]: "same_polling v v"
  and same_polling_block [simp]: "same_polling v (spec_block bp v)"
  and same_polling_head [simp]: "same_polling v (v\<lparr>as_head := b\<rparr>)"
  by (simp_all add: same_polling_def spec_block_def)

lemma same_polling_trans: "same_polling v v1 \<Longrightarrow> same_polling v1 v2 \<Longrightarrow> same_polling v v2"
  by (cases v; cases v1; cases v2) (simp add: same_polling_def)

lemma same_pollingD:
  "same_polling v v' \<Longrightarrow> as_queue v' = as_queue v \<and> as_popped v' = as_popped v \<and> as_processed v' = as_processed v
     \<and> as_queried v' = as_queried v \<and> as_events v' = as_events v \<and> as_finalized v' = as_finalized v"
  by (cases v; cases v') (simp add: same_polling_def)

text \<open>The stored head is a stored block, and the slot the refresher has reached is not below it.\<close>

definition head_inv :: "u64 \<Rightarrow> 'm abs_store \<Rightarrow> bool" where
  "head_inv slot v \<longleftrightarrow> (\<forall>bp. as_head v = Some bp \<longrightarrow>
     as_blocks v (bp_BlockSlot bp) = Some bp \<and> bp_BlockSlot bp \<le> slot)"

lemma head_inv_None: "as_head v = None \<Longrightarrow> head_inv slot v"
  by (simp add: head_inv_def)

lemma head_inv_mono: "head_inv slot v \<Longrightarrow> slot \<le> slot' \<Longrightarrow> head_inv slot' v"
  by (fastforce simp: head_inv_def)

lemma head_inv_block: "head_inv slot v \<Longrightarrow> slot < bp_BlockSlot bp \<Longrightarrow> head_inv (bp_BlockSlot bp) (spec_block bp v)"
  by (auto simp: head_inv_def spec_block_def)

text \<open>
  The documented answer of \<open>getBlocks\<close>: the slots between the two given ones that have a
  confirmed block, in ascending order.
\<close>

definition blocks_between :: "('w, 'ev) tracker_world \<Rightarrow> bool" where
  "blocks_between env \<longleftrightarrow> (\<forall>a b c w slots w'. w_GetBlocks env a b c w = (Inr slots, w') \<longrightarrow>
     sorted slots \<and> (\<forall>x \<in> set slots. a \<le> x \<and> x \<le> b))"

lemma sorted_slots:
  assumes "getSlotsToQueryBlocks slots threshold = Inr sel" "sorted slots"
  shows "sorted sel \<and> set sel \<subseteq> set slots"
proof -
  have "subseq sel slots"
    using assms(1) subseq_slots_loop by (auto simp: getSlotsToQueryBlocks_def split: if_splits)
  then obtain N where "sel = nths slots N" using subseq_conv_nths by blast
  with assms(2) show ?thesis by (simp add: sorted_nths set_nths_subset)
qed

section \<open>The loop over the selected slots\<close>

text \<open>What a pass over the slots has done when it ends: \<open>stored_blocks\<close> relates the states.\<close>

definition stored_blocks :: "u64 list \<Rightarrow> u64 \<Rightarrow> 'm abs_store \<Rightarrow> u64 \<Rightarrow> 'm abs_store \<Rightarrow> bool" where
  "stored_blocks slots slot v slot' v' \<longleftrightarrow> same_polling v v' \<and> as_head v' = as_head v \<and> slot \<le> slot' \<and>
     (slot' = slot \<or> slot' \<in> set slots) \<and> (\<forall>x \<le> slot. as_blocks v' x = as_blocks v x)"

context storage_handler
begin

lemma refresh_loop_effect:
  assumes "ok (storage s)" "sorted slots" "\<forall>x \<in> set slots. chainHeadSlot s \<le> x"
    and "head_inv (chainHeadSlot s) (view (storage s))"
    and "refresh_loop t env st slots bp0 s = (r, s')"
  shows "ok (storage s') \<and> stored_blocks slots (chainHeadSlot s) (view (storage s)) (chainHeadSlot s') (view (storage s'))
    \<and> head_inv (chainHeadSlot s') (view (storage s'))
    \<and> (\<forall>bp. r = Inr bp \<longrightarrow>
        (\<forall>x \<in> set slots. x = chainHeadSlot s \<or> (\<exists>b. as_blocks (view (storage s')) x = Some b \<and> bp_BlockSlot b = x)) \<and>
        (if bp = bp0 \<and> chainHeadSlot s' = chainHeadSlot s then view (storage s') = view (storage s)
         else bp_BlockSlot bp = chainHeadSlot s' \<and> as_blocks (view (storage s')) (chainHeadSlot s') = Some bp))"
  using assms
proof (induction slots arbitrary: s bp0)
  case Nil
  then show ?case by (auto simp: ret_def stored_blocks_def)
next
  case (Cons slot slots)
  have rest: "sorted slots" "\<forall>x \<in> set slots. slot \<le> x" using Cons.prems(2) by simp_all
  show ?case
  proof (cases "slot = chainHeadSlot s")
    case True
    then have loop: "refresh_loop t env st slots bp0 s = (r, s')"
      using Cons.prems(5) by (simp add: bind_def gets_def)
    have above: "\<forall>x \<in> set slots. chainHeadSlot s \<le> x" using rest(2) True by simp
    note ih = Cons.IH [OF Cons.prems(1) rest(1) above Cons.prems(4) loop]
    show ?thesis
    proof (intro conjI allI impI)
      show "ok (storage s')" "head_inv (chainHeadSlot s') (view (storage s'))" using ih by blast+
      show "stored_blocks (slot # slots) (chainHeadSlot s) (view (storage s)) (chainHeadSlot s') (view (storage s'))"
        using conjunct1 [OF conjunct2 [OF ih]] unfolding stored_blocks_def set_simps insert_iff by blast
      fix bp assume r: "r = Inr bp"
      show "\<forall>x \<in> set (slot # slots). x = chainHeadSlot s \<or>
          (\<exists>b. as_blocks (view (storage s')) x = Some b \<and> bp_BlockSlot b = x)"
        using ih r unfolding set_simps True by blast
      show "if bp = bp0 \<and> chainHeadSlot s' = chainHeadSlot s then view (storage s') = view (storage s)
         else bp_BlockSlot bp = chainHeadSlot s' \<and> as_blocks (view (storage s')) (chainHeadSlot s') = Some bp"
        using ih r by blast
    qed
  next
    case False
    with Cons.prems(3) have less: "chainHeadSlot s < slot" by (auto simp: order.strict_iff_order)
    obtain rb s1 where block: "with_retry t env (w_GetBlockWithOpts env slot CommitmentConfirmed) s = (rb, s1)"
      by (cases "with_retry t env (w_GetBlockWithOpts env slot CommitmentConfirmed) s")
    obtain w1 where s1: "s1 = s\<lparr>world := w1\<rparr>" using world_onlyD [OF world_only_with_retry block] by blast
    note run = Cons.prems(5) [unfolded refresh_loop.simps bind_def gets_def, simplified prod.case sum.case if_not_P [OF False],
        unfolded attempt_def block s1 prod.case]
    have stay: ?thesis if "\<exists>e. r = Inl e" "storage s' = storage s" "chainHeadSlot s' = chainHeadSlot s"
      using that Cons.prems(1,4) by (auto simp: stored_blocks_def)
    show ?thesis
    proof (cases "\<exists>b. rb = Inr (Some b)")
      case no: False
      show ?thesis
      proof (rule stay)
        show "\<exists>e. r = Inl e" "storage s' = storage s" "chainHeadSlot s' = chainHeadSlot s"
          using run no by (auto simp: fail_def split: sum.splits option.splits if_splits)
      qed
    next
      case True
      then obtain b where rb: "rb = Inr (Some b)" by blast
      define bp where "bp = \<lparr>bp_BlockSlot = slot, bp_BlockHash = gb_Blockhash b,
        bp_BlockNumber = (case gb_BlockHeight b of Some n \<Rightarrow> n | None \<Rightarrow> 0)\<rparr>"
      have bp_slot [simp]: "bp_BlockSlot bp = slot" by (simp add: bp_def)
      obtain r2 d2 where p2: "sh_StoreBlock st NilTx bp (storage s) = (r2, d2)"
        by (cases "sh_StoreBlock st NilTx bp (storage s)")
      note w2 = writesD [OF store_block [OF Cons.prems(1)] p2]
      note run2 = run [unfolded rb, simplified, folded bp_def, unfolded Let_def on_storage_simp, simplified, unfolded p2, simplified]
      show ?thesis
      proof (cases r2)
        case (Inl e)
        with run2 have r: "r = Inl e" "storage s' = d2" "chainHeadSlot s' = chainHeadSlot s"
          by (auto simp: on_storage_simp p2)
        from w2(3) [OF Inl] w2(1) Cons.prems(4) r show ?thesis by (simp add: stored_blocks_def)
      next
        case (Inr u)
        let ?s2 = "s\<lparr>world := w1, storage := d2, chainHeadSlot := slot\<rparr>"
        have v2: "view d2 = spec_block bp (view (storage s))" using w2(2) Inr by simp
        have loop: "refresh_loop t env st slots bp ?s2 = (r, s')"
          using run2 Inr by (simp add: on_storage_simp p2 modify_def)
        have ok2: "ok (storage ?s2)" and above: "\<forall>x \<in> set slots. chainHeadSlot ?s2 \<le> x"
          using w2(1) rest(2) by simp_all
        have hd2: "head_inv (chainHeadSlot ?s2) (view (storage ?s2))"
          using head_inv_block [OF Cons.prems(4), of bp] less v2 by simp
        note ih = Cons.IH [OF ok2 rest(1) above hd2 loop]
        have at_slot: "as_blocks (view d2) slot = Some bp"
          and below: "x < slot \<Longrightarrow> as_blocks (view d2) x = as_blocks (view (storage s)) x" for x
          using v2 by (auto simp: spec_block_def)
        have ih_ok: "ok (storage s')" and ih_st: "stored_blocks slots slot (view d2) (chainHeadSlot s') (view (storage s'))"
          and ih_inv: "head_inv (chainHeadSlot s') (view (storage s'))" using ih by simp_all
        have at_slot': "as_blocks (view (storage s')) slot = Some bp"
          using ih_st at_slot by (simp add: stored_blocks_def)
        show ?thesis
        proof (intro conjI allI impI)
          show "ok (storage s')" "head_inv (chainHeadSlot s') (view (storage s'))" by (rule ih_ok ih_inv)+
          have "same_polling (view (storage s)) (view d2)" "as_head (view d2) = as_head (view (storage s))"
            by (simp_all add: v2 spec_block_def same_polling_def)
          then show "stored_blocks (slot # slots) (chainHeadSlot s) (view (storage s)) (chainHeadSlot s') (view (storage s'))"
            using ih_st less below by (auto simp: stored_blocks_def intro: same_polling_trans)
        next
          fix bp' assume r: "r = Inr bp'"
          have parts: "chainHeadSlot ?s2 = slot" "storage ?s2 = d2" by simp_all
          note ih_r = mp [OF spec [OF conjunct2 [OF conjunct2 [OF conjunct2 [OF ih]]]] r, unfolded parts]
          have sel: "\<forall>x \<in> set slots. x = slot \<or> (\<exists>b. as_blocks (view (storage s')) x = Some b \<and> bp_BlockSlot b = x)"
            by (rule conjunct1 [OF ih_r])
          have last_bp: "if bp' = bp \<and> chainHeadSlot s' = slot then view (storage s') = view d2
              else bp_BlockSlot bp' = chainHeadSlot s' \<and> as_blocks (view (storage s')) (chainHeadSlot s') = Some bp'"
            by (rule conjunct2 [OF ih_r])
          show "\<forall>x \<in> set (slot # slots). x = chainHeadSlot s \<or>
              (\<exists>b. as_blocks (view (storage s')) x = Some b \<and> bp_BlockSlot b = x)"
            using sel at_slot' bp_slot by (metis set_ConsD)
          have "slot \<le> chainHeadSlot s'" using ih_st by (simp add: stored_blocks_def)
          with less have "chainHeadSlot s' \<noteq> chainHeadSlot s" by auto
          moreover have "bp_BlockSlot bp' = chainHeadSlot s' \<and> as_blocks (view (storage s')) (chainHeadSlot s') = Some bp'"
            using last_bp at_slot' bp_slot by metis
          ultimately show "if bp' = bp0 \<and> chainHeadSlot s' = chainHeadSlot s then view (storage s') = view (storage s)
              else bp_BlockSlot bp' = chainHeadSlot s' \<and> as_blocks (view (storage s')) (chainHeadSlot s') = Some bp'"
            by simp
        qed
      qed
    qed
  qed
qed

end

section \<open>Leaving a stuck head\<close>

text \<open>The bounds of the tracker's configuration, as \<open>NewEventTracker\<close> checks them.\<close>

definition head_config_ok :: "('ty, 'c, 'l) EventTracker \<Rightarrow> bool" where
  "head_config_ok t \<longleftrightarrow> emptySlotsWithBlocksBackoff < et_chainHeadTargetBlockCount t \<and>
     et_chainHeadTargetBlockCount t \<le> et_chainHeadSlotOffset t"

definition no_slot_overflow :: "('ty, 'c, 'l) EventTracker \<Rightarrow> u64 \<Rightarrow> bool" where
  "no_slot_overflow t slot \<longleftrightarrow> unat slot + unat (et_chainHeadSlotOffset t) < 2 ^ 64"

lemma slot_bounds:
  assumes "head_config_ok t" "no_slot_overflow t h"
  shows "h \<le> h + et_chainHeadSlotOffset t"
    and "h < h + et_chainHeadTargetBlockCount t - emptySlotsWithBlocksBackoff"
    and "h + et_chainHeadTargetBlockCount t - emptySlotsWithBlocksBackoff \<le> h + et_chainHeadSlotOffset t"
proof -
  let ?t = "et_chainHeadTargetBlockCount t" and ?o = "et_chainHeadSlotOffset t"
  have le: "3 < unat ?t" "unat ?t \<le> unat ?o" "unat h + unat ?o < 2 ^ 64"
    using assms by (simp_all add: head_config_ok_def no_slot_overflow_def emptySlotsWithBlocksBackoff_def
        word_less_nat_alt word_le_nat_alt)
  have o: "unat (h + ?o) = unat h + unat ?o" using le by (subst unat_add_lem [THEN iffD1]) simp_all
  have t: "unat (h + ?t) = unat h + unat ?t" using le by (subst unat_add_lem [THEN iffD1]) simp_all
  have "unat (h + ?t - 3) = unat h + unat ?t - 3" using le t by (subst unat_sub) (simp_all add: word_le_nat_alt)
  with le o show "h \<le> h + ?o" "h < h + ?t - emptySlotsWithBlocksBackoff" "h + ?t - emptySlotsWithBlocksBackoff \<le> h + ?o"
    by (simp_all add: word_le_nat_alt word_less_nat_alt emptySlotsWithBlocksBackoff_def)
qed

lemma unstick_effect:
  assumes "head_config_ok t" "no_slot_overflow t (chainHeadSlot s)"
    and "\<forall>x \<in> set slots. chainHeadSlot s \<le> x \<and> x \<le> chainHeadSlot s + et_chainHeadSlotOffset t"
    and "unstickChainHead t env slots s = (r, s')"
  shows "storage s' = storage s \<and> chainHeadSlot s \<le> chainHeadSlot s' \<and>
    chainHeadSlot s' \<le> chainHeadSlot s + et_chainHeadSlotOffset t \<and>
    (1 < length slots \<longrightarrow> r = Inr (0, None) \<and> chainHeadSlot s' = last slots)"
proof (cases "1 < length slots")
  case True
  with assms(4) have "s' = s\<lparr>chainHeadSlot := last slots,
      latestGetBlocksState := \<lparr>lg_chainHeadSlot = last slots, lg_queriedBlocksWithSlotsLen = 0\<rparr>\<rparr>" "r = Inr (0, None)"
    by (simp_all add: unstickChainHead_def bind_def gets_def modify_def ret_def Let_def)
  moreover have "last slots \<in> set slots" using True by (intro last_in_set) auto
  ultimately show ?thesis using assms(3) True by auto
next
  case False
  note bounds = slot_bounds [OF assms(1,2)]
  obtain rs w where slot: "w_GetSlot env CommitmentConfirmed (world s) = (rs, w)"
    by (cases "w_GetSlot env CommitmentConfirmed (world s)")
  show ?thesis
  proof (cases rs)
    case (Inl e)
    with False assms(4) slot bounds(1) show ?thesis
      by (auto simp: unstickChainHead_def bind_def gets_def attempt_def on_world_simp ret_def Let_def split: if_splits)
  next
    case (Inr cur)
    with False assms(4) slot bounds show ?thesis
      by (auto simp: unstickChainHead_def bind_def gets_def attempt_def on_world_simp modify_def ret_def Let_def
          split: if_splits)
  qed
qed

section \<open>A refresh\<close>

context storage_handler
begin

lemma refreshChainHead_effect:
  assumes ok: "ok (storage s)" and inv: "head_inv (chainHeadSlot s) (view (storage s))"
    and env: "blocks_between env" and conf: "head_config_ok t" and room: "no_slot_overflow t (chainHeadSlot s)"
    and run: "refreshChainHead ovf t env st s = (r, s')"
  shows "ok (storage s') \<and> head_inv (chainHeadSlot s') (view (storage s'))
    \<and> same_polling (view (storage s)) (view (storage s'))
    \<and> chainHeadSlot s \<le> chainHeadSlot s' \<and> chainHeadSlot s' \<le> chainHeadSlot s + et_chainHeadSlotOffset t"
proof -
  let ?h = "chainHeadSlot s"
  note bounds = slot_bounds [OF conf room]
  obtain rb w where blocks: "w_GetBlocks env ?h (?h + et_chainHeadSlotOffset t) CommitmentConfirmed (world s) = (rb, w)"
    by (cases "w_GetBlocks env ?h (?h + et_chainHeadSlotOffset t) CommitmentConfirmed (world s)")
  let ?s1 = "s\<lparr>world := w\<rparr>"
  note defs = refreshChainHead_def bind_def gets_def attempt_def on_world_simp blocks Let_def prod.case sum.case
  have stay: ?thesis if "storage s' = storage s" "chainHeadSlot s' = ?h"
    using that ok inv bounds(1) by simp
  show ?thesis
  proof (cases rb)
    case (Inl e)
    with run show ?thesis by (intro stay) (auto simp: defs ret_def split: if_splits)
  next
    case (Inr slots)
    note rb = this
    have slots: "sorted slots" "\<forall>x \<in> set slots. ?h \<le> x \<and> x \<le> ?h + et_chainHeadSlotOffset t"
      using env blocks rb unfolding blocks_between_def by blast+
    show ?thesis
    proof (cases "\<lparr>lg_chainHeadSlot = ?h, lg_queriedBlocksWithSlotsLen = int (length slots)\<rparr> = latestGetBlocksState s")
      case True
      with run rb have unstick: "unstickChainHead t env slots ?s1 = (r, s')" by (simp add: defs)
      have "no_slot_overflow t (chainHeadSlot ?s1)"
        "\<forall>x \<in> set slots. chainHeadSlot ?s1 \<le> x \<and> x \<le> chainHeadSlot ?s1 + et_chainHeadSlotOffset t"
        using room slots by simp_all
      from unstick_effect [OF conf this unstick] ok inv show ?thesis by (auto intro: head_inv_mono)
    next
      case False
      let ?st = "\<lparr>lg_chainHeadSlot = ?h, lg_queriedBlocksWithSlotsLen = int (length slots)\<rparr>"
      let ?s2 = "s\<lparr>world := w, latestGetBlocksState := ?st\<rparr>"
      show ?thesis
      proof (cases "slots = [] \<or> (\<exists>e. getSlotsToQueryBlocks slots (et_blockRoundingThreshold t) = Inl e)")
        case True
        with run rb False show ?thesis
          by (intro stay) (auto simp: defs ret_def modify_def liftR_def split: if_splits)
      next
        case go: False
        then obtain sel where sel: "getSlotsToQueryBlocks slots (et_blockRoundingThreshold t) = Inr sel"
          by (cases "getSlotsToQueryBlocks slots (et_blockRoundingThreshold t)") auto
        let ?bp0 = "\<lparr>bp_BlockSlot = 0, bp_BlockHash = 0, bp_BlockNumber = 0\<rparr>"
        obtain rl s3 where loop: "refresh_loop t env st sel ?bp0 ?s2 = (rl, s3)"
          by (cases "refresh_loop t env st sel ?bp0 ?s2")
        have pre: "ok (storage ?s2)" "sorted sel" "\<forall>x \<in> set sel. chainHeadSlot ?s2 \<le> x"
          "head_inv (chainHeadSlot ?s2) (view (storage ?s2))"
          using ok inv slots sorted_slots [OF sel slots(1)] by auto
        have parts: "storage ?s2 = storage s" "chainHeadSlot ?s2 = ?h" by simp_all
        note eff = refresh_loop_effect [OF pre loop, unfolded parts]
        note ok3 = conjunct1 [OF eff] and stored = conjunct1 [OF conjunct2 [OF eff]]
          and inv3 = conjunct1 [OF conjunct2 [OF conjunct2 [OF eff]]]
          and done3 = conjunct2 [OF conjunct2 [OF conjunct2 [OF eff]]]
        have reach: "chainHeadSlot s3 \<le> ?h + et_chainHeadSlotOffset t" "?h \<le> chainHeadSlot s3"
          and same3: "same_polling (view (storage s)) (view (storage s3))"
          using stored slots sorted_slots [OF sel slots(1)] bounds(1) unfolding stored_blocks_def by auto
        have run': "bind (attempt (refresh_loop t env st sel ?bp0)) (\<lambda>r. case r of
            Inl err \<Rightarrow> ret (0, Some err)
          | Inr bp \<Rightarrow>
            if bp_BlockSlot bp > 0 then
              bind (attempt (on_storage (sh_StoreLatestBlockPoint st NilTx bp))) (\<lambda>r.
              ret (chainHeadCatchUpWait ovf (int (length slots)) (et_chainHeadTargetBlockCount t) (et_avgSlotTime t),
                case r of Inl err \<Rightarrow> Some err | Inr _ \<Rightarrow> None))
            else ret (chainHeadCatchUpWait ovf (int (length slots)) (et_chainHeadTargetBlockCount t) (et_avgSlotTime t), None)) ?s2
          = (r, s')"
          using run rb False go sel by (simp add: refreshChainHead_def bind_def gets_def attempt_def on_world_simp blocks Let_def
              modify_def liftR_def)
        have "s' = s3 \<or> (\<exists>bp rh d. rl = Inr bp \<and> 0 < bp_BlockSlot bp \<and>
            sh_StoreLatestBlockPoint st NilTx bp (storage s3) = (rh, d) \<and> s' = s3\<lparr>storage := d\<rparr>)"
          using run' by (auto simp: bind_def attempt_def loop ret_def on_storage_simp split: sum.splits if_splits prod.splits)
        then show ?thesis
        proof
          assume "s' = s3"
          with ok3 inv3 same3 reach show ?thesis by simp
        next
          assume "\<exists>bp rh d. rl = Inr bp \<and> 0 < bp_BlockSlot bp \<and>
            sh_StoreLatestBlockPoint st NilTx bp (storage s3) = (rh, d) \<and> s' = s3\<lparr>storage := d\<rparr>"
          then obtain bp rh d where bp: "rl = Inr bp" "0 < bp_BlockSlot bp"
            and head: "sh_StoreLatestBlockPoint st NilTx bp (storage s3) = (rh, d)" and s': "s' = s3\<lparr>storage := d\<rparr>" by blast
          have "bp \<noteq> ?bp0" using bp(2) by auto
          with done3 bp(1) have at: "bp_BlockSlot bp = chainHeadSlot s3" "as_blocks (view (storage s3)) (chainHeadSlot s3) = Some bp"
            by (auto split: if_splits)
          note w = writesD [OF store_head [OF ok3] head]
          have "view d = view (storage s3) \<or> view d = (view (storage s3))\<lparr>as_head := Some bp\<rparr>"
            using w(2,3) by (cases rh) auto
          then have "head_inv (chainHeadSlot s3) (view d) \<and> same_polling (view (storage s)) (view d)"
            using inv3 at same3 same_polling_trans [OF same3 same_polling_head] by (auto simp: head_inv_def)
          with w(1) reach show ?thesis by (simp add: s')
        qed
      qed
    qed
  qed
qed

lemma chainHeadRefreshPass_effect:
  assumes "ok (storage s)" "head_inv (chainHeadSlot s) (view (storage s))"
    and "blocks_between env" "head_config_ok t" "no_slot_overflow t (chainHeadSlot s)"
    and "chainHeadRefreshPass ovf t env st s = (r, s')"
  shows "ok (storage s') \<and> head_inv (chainHeadSlot s') (view (storage s'))
    \<and> same_polling (view (storage s)) (view (storage s'))
    \<and> chainHeadSlot s \<le> chainHeadSlot s' \<and> chainHeadSlot s' \<le> chainHeadSlot s + et_chainHeadSlotOffset t"
proof -
  obtain r1 s1 where refresh: "refreshChainHead ovf t env st s = (r1, s1)" by (cases "refreshChainHead ovf t env st s")
  from assms(6) have "storage s' = storage s1 \<and> chainHeadSlot s' = chainHeadSlot s1"
    by (auto simp: chainHeadRefreshPass_def bind_def refresh on_world_simp ret_def split: sum.splits prod.splits if_splits)
  with refreshChainHead_effect [OF assms(1-5) refresh] show ?thesis by simp
qed

text \<open>A start of the tracker takes the stored head as its slot if that is the later one.\<close>

lemma initialize_effect:
  assumes ok: "ok (storage s)" and stored: "\<forall>bp. as_head (view (storage s)) = Some bp \<longrightarrow> as_blocks (view (storage s)) (bp_BlockSlot bp) = Some bp"
    and run: "initialize st s = (Inr (), s')"
  shows "storage s' = storage s \<and> head_inv (chainHeadSlot s') (view (storage s')) \<and> chainHeadSlot s \<le> chainHeadSlot s'"
proof (cases "sh_GetLatestBlockPoint st (storage s)")
  case (Inl e)
  with run show ?thesis by (simp add: initialize_def bind_def from_storage_def)
next
  case (Inr b)
  note get = get_head [OF ok this]
  show ?thesis
  proof (cases b)
    case None
    with run get Inr show ?thesis by (auto simp: initialize_def bind_def from_storage_def ret_def head_inv_def)
  next
    case (Some bp)
    have h: "as_head (view (storage s)) = Some bp" using get Some by simp
    note g = Inr [unfolded Some]
    show ?thesis
    proof (cases "chainHeadSlot s < bp_BlockSlot bp")
      case True
      with run g h stored show ?thesis
        by (auto simp: initialize_def bind_def from_storage_def gets_def modify_def head_inv_def)
    next
      case False
      with run g h stored show ?thesis
        by (auto simp: initialize_def bind_def from_storage_def gets_def ret_def head_inv_def)
    qed
  qed
qed

end

end
