(* ===== verification/Tracker_Fetch.thy ===== *)
theory Tracker_Fetch
  imports Tracker_Polling
begin

text \<open>
  Fetching the signatures of a program page by page (\<open>signaturesForAddressFetcher\<close> and
  \<open>catchUpLoop\<close>) against the documented answers of \<open>getSignaturesForAddress\<close>: the
  fetcher returns every signature newer than the cursor, and reads finitely many pages.
\<close>

section \<open>The documented RPC\<close>

text \<open>
  The answer for an address with the history \<open>hist\<close>, newest first: at most 1000 entries,
  from just after \<open>before\<close> (from the newest one, when it is not given) up to but not including
  \<open>until\<close>. An \<open>until\<close> that is not in the history is the error -32020.
\<close>

definition history_after :: "TransactionSignature list \<Rightarrow> Signature \<Rightarrow> TransactionSignature list" where
  "history_after hist before =
     (if before = 0 then hist else tl (dropWhile (\<lambda>x. ts_Signature x \<noteq> before) hist))"

definition history_page :: "TransactionSignature list \<Rightarrow> SignaturesOpts \<Rightarrow> TransactionSignature list" where
  "history_page hist opts =
     take getSignaturesForAddressMaxLimit
       (takeWhile (\<lambda>x. so_Until opts = 0 \<or> ts_Signature x \<noteq> so_Until opts) (history_after hist (so_Before opts)))"

definition unknown_until :: "TransactionSignature list \<Rightarrow> SignaturesOpts \<Rightarrow> bool" where
  "unknown_until hist opts \<longleftrightarrow> so_Until opts \<noteq> 0 \<and> so_Until opts \<notin> ts_Signature ` set hist"

text \<open>
  How a client pages back: from the newest entry, or from one it was given that is newer than
  \<open>until\<close>. Nothing is assumed of other questions, which nodes answer in different ways.
\<close>

definition paging_opts :: "TransactionSignature list \<Rightarrow> SignaturesOpts \<Rightarrow> bool" where
  "paging_opts hist opts \<longleftrightarrow> so_Before opts = 0
     \<or> so_Before opts \<in> ts_Signature ` set (takeWhile (\<lambda>x. ts_Signature x \<noteq> so_Until opts) hist)"

text \<open>
  \<open>history_rpc\<close>: a call may fail, but answers as documented when it does not, and reports an
  unknown cursor only for one; \<open>history_serves\<close>: every call answers.
\<close>

definition history_rpc :: "('w, 'ev) tracker_world \<Rightarrow> PublicKey \<Rightarrow> TransactionSignature list \<Rightarrow> bool" where
  "history_rpc env prog hist \<longleftrightarrow> (\<forall>opts w r w'. paging_opts hist opts \<longrightarrow> w_GetSignaturesForAddressWithOpts env prog opts w = (r, w') \<longrightarrow>
     (case r of Inr sigs \<Rightarrow> \<not> unknown_until hist opts \<and> sigs = history_page hist opts
      | Inl e \<Rightarrow> IsCursorNotFoundErr e \<longrightarrow> unknown_until hist opts))"

definition history_serves :: "('w, 'ev) tracker_world \<Rightarrow> PublicKey \<Rightarrow> TransactionSignature list \<Rightarrow> bool" where
  "history_serves env prog hist \<longleftrightarrow> (\<forall>opts w. paging_opts hist opts \<longrightarrow> fst (w_GetSignaturesForAddressWithOpts env prog opts w) =
     (if unknown_until hist opts then Inl (RPCErr rpcErrCodeTxNotFound) else Inr (history_page hist opts)))"

lemma cursor_not_found [simp]: "IsCursorNotFoundErr (RPCErr rpcErrCodeTxNotFound)"
  by (simp add: IsCursorNotFoundErr_def)

lemma history_serves_rpc:
  assumes "history_serves env prog hist"
  shows "history_rpc env prog hist"
  unfolding history_rpc_def
proof (intro allI impI)
  fix opts w r w'
  assume "paging_opts hist opts" "w_GetSignaturesForAddressWithOpts env prog opts w = (r, w')"
  with assms have "r = (if unknown_until hist opts then Inl (RPCErr rpcErrCodeTxNotFound) else Inr (history_page hist opts))"
    unfolding history_serves_def by (metis fst_conv)
  then show "case r of Inr sigs \<Rightarrow> \<not> unknown_until hist opts \<and> sigs = history_page hist opts
      | Inl e \<Rightarrow> IsCursorNotFoundErr e \<longrightarrow> unknown_until hist opts"
    by simp
qed

lemma history_rpcD:
  assumes "history_rpc env prog hist" "paging_opts hist opts"
  shows "w_GetSignaturesForAddressWithOpts env prog opts w = (Inr page, w') \<Longrightarrow>
      \<not> unknown_until hist opts \<and> page = history_page hist opts"
    and "w_GetSignaturesForAddressWithOpts env prog opts w = (Inl e, w') \<Longrightarrow> IsCursorNotFoundErr e \<Longrightarrow>
      unknown_until hist opts"
  using assms unfolding history_rpc_def by fastforce+

text \<open>A history is a list of distinct signatures, none of them zero, by descending slot.\<close>

definition history_ok :: "TransactionSignature list \<Rightarrow> bool" where
  "history_ok hist \<longleftrightarrow> distinct (map ts_Signature hist) \<and> 0 \<notin> ts_Signature ` set hist \<and>
     sorted_wrt (\<lambda>x y. ts_Slot y \<le> ts_Slot x) hist"

lemma history_after_split:
  assumes "history_ok (pre @ [x] @ suf)"
  shows "history_after (pre @ [x] @ suf) (ts_Signature x) = suf"
proof -
  have before: "\<forall>y \<in> set pre. ts_Signature y \<noteq> ts_Signature x"
  proof -
    have "ts_Signature x \<notin> ts_Signature ` set pre"
      using assms unfolding history_ok_def map_append distinct_append by auto
    then show ?thesis by (metis imageI)
  qed
  have "dropWhile (\<lambda>y. ts_Signature y \<noteq> ts_Signature x) (pre @ [x] @ suf) = [x] @ suf"
    using before by (subst dropWhile_append2) auto
  moreover have "ts_Signature x \<noteq> 0" using assms by (auto simp: history_ok_def image_iff)
  ultimately show ?thesis by (simp add: history_after_def)
qed

lemma takeWhile_take: "takeWhile P (take n xs) = take n (takeWhile P xs)"
proof (induction xs arbitrary: n)
  case (Cons x xs)
  then show ?case by (cases n) auto
qed simp

lemma filter_sorted_slots:
  "sorted_wrt (\<lambda>x y. ts_Slot y \<le> ts_Slot x) xs \<Longrightarrow>
     filter (\<lambda>x. (b :: u64) \<le> ts_Slot x) xs = takeWhile (\<lambda>x. b \<le> ts_Slot x) xs"
proof (induction xs)
  case (Cons x xs)
  show ?case
  proof (cases "b \<le> ts_Slot x")
    case True
    with Cons show ?thesis by simp
  next
    case False
    have "\<not> b \<le> ts_Slot y" if "y \<in> set xs" for y
      using that False Cons.prems order_trans by (metis sorted_wrt.simps(2))
    with False show ?thesis by (simp add: filter_empty_conv)
  qed
qed simp

section \<open>One page\<close>

lemma with_retry_Inr:
  assumes "with_retry t env m s = (Inr a, s')"
  shows "\<exists>w w'. m w = (Inr a, w')"
proof -
  from assms obtain s1 where "try_again (on_world m) s1 = (Inr a, s')"
    unfolding with_retry_def ExecuteWithRetry_caller by (auto simp: retry_loop_Inr_iff)
  then show ?thesis
    by (auto simp: try_again_def on_world_simp split: prod.splits sum.splits)
qed

lemma with_retry_first: "m (world s) = (Inr a, w) \<Longrightarrow> with_retry t env m s = (Inr a, s\<lparr>world := w\<rparr>)"
  unfolding with_retry_def ExecuteWithRetry_caller
  by (simp add: eval_nat_numeral retry_loop_step try_again_def on_world_simp)

text \<open>The options of a page: an absent or zero signature is left out.\<close>

lemma helper_call:
  "getSignaturesForAddressHelper t env prog b u =
     w_GetSignaturesForAddressWithOpts env prog
       \<lparr>so_Commitment = et_commitment t, so_Before = (case b of Some x \<Rightarrow> x | None \<Rightarrow> 0),
        so_Until = (case u of Some x \<Rightarrow> x | None \<Rightarrow> 0)\<rparr>"
  by (auto simp: getSignaturesForAddressHelper_def Let_def split: option.split)

text \<open>
  The entries the fetcher keeps of a stretch of the history: up to the cursor when it is known,
  from its slot on when it is not.
\<close>

definition kept :: "TxPoint \<Rightarrow> bool \<Rightarrow> TransactionSignature \<Rightarrow> bool" where
  "kept lq cursorNotFound x \<longleftrightarrow>
     (if cursorNotFound then tp_Slot lq \<le> ts_Slot x else tp_TxSignature lq = 0 \<or> ts_Signature x \<noteq> tp_TxSignature lq)"

definition page_of :: "TxPoint \<Rightarrow> bool \<Rightarrow> TransactionSignature list \<Rightarrow> TransactionSignature list" where
  "page_of lq cursorNotFound suf = take getSignaturesForAddressMaxLimit
     (if cursorNotFound then suf else takeWhile (kept lq False) suf)"

definition appended_of :: "TxPoint \<Rightarrow> bool \<Rightarrow> TransactionSignature list \<Rightarrow> TransactionSignature list" where
  "appended_of lq cursorNotFound page = (if cursorNotFound then filter (\<lambda>x. ts_Slot x \<ge> tp_Slot lq) page else page)"

lemma appended_page:
  assumes "sorted_wrt (\<lambda>x y. ts_Slot y \<le> ts_Slot x) suf"
  shows "appended_of lq cnf (page_of lq cnf suf) = take getSignaturesForAddressMaxLimit (takeWhile (kept lq cnf) suf)"
proof (cases cnf)
  case True
  have "sorted_wrt (\<lambda>x y. ts_Slot y \<le> ts_Slot x) (take getSignaturesForAddressMaxLimit suf)"
    using assms by (rule sorted_wrt_take)
  with True show ?thesis
    by (simp add: appended_of_def page_of_def filter_sorted_slots takeWhile_take kept_def [abs_def])
qed (simp add: appended_of_def page_of_def)

lemma full_page:
  assumes "\<not> length (take n (takeWhile P suf)) < n" and "0 < n"
  shows "take n (takeWhile P suf) = take n suf \<and> take n suf \<noteq> [] \<and> n \<le> length suf
    \<and> takeWhile P suf = take n suf @ takeWhile P (drop n suf)"
proof -
  have len: "n \<le> length (takeWhile P suf)" using assms(1) by simp
  then have le: "n \<le> length suf" using length_takeWhile_le le_trans by blast
  have eq: "take n (takeWhile P suf) = take n suf"
    using len by (metis takeWhile_eq_take take_take min.absorb1)
  have all: "\<forall>x \<in> set (take n suf). P x" using set_takeWhileD in_set_takeD eq by metis
  have "takeWhile P suf = takeWhile P (take n suf @ drop n suf)" by simp
  also have "\<dots> = take n suf @ takeWhile P (drop n suf)" using all by (subst takeWhile_append2) auto
  finally show ?thesis using eq le assms(2) by auto
qed

text \<open>The answer of a page of the catch-up loop, where the loop stands before \<open>suf\<close>.\<close>

definition page_opts :: "('ty, 'c, 'l) EventTracker \<Rightarrow> TxPoint \<Rightarrow> bool \<Rightarrow> Signature \<Rightarrow> SignaturesOpts" where
  "page_opts t lq cnf before = \<lparr>so_Commitment = et_commitment t, so_Before = before,
     so_Until = (if cnf then 0 else tp_TxSignature lq)\<rparr>"

lemma history_page_opts:
  "history_page hist (page_opts t lq cnf before) = page_of lq cnf (history_after hist before)"
  by (cases cnf) (simp_all add: history_page_def page_opts_def page_of_def kept_def [abs_def]
      takeWhile_eq_all_conv [THEN iffD2])

text \<open>
  Where the loop stands: all entries before it were kept, and \<open>before\<close> is one of them.
\<close>

definition paged_to :: "TxPoint \<Rightarrow> bool \<Rightarrow> TransactionSignature list \<Rightarrow> Signature \<Rightarrow> bool" where
  "paged_to lq cnf pre before \<longleftrightarrow> (\<forall>x \<in> set pre. kept lq cnf x) \<and> (before = 0 \<or> before \<in> ts_Signature ` set pre)"

lemma paging_page_opts:
  assumes "history_ok (pre @ suf)" "paged_to lq cnf pre before"
  shows "paging_opts (pre @ suf) (page_opts t lq cnf before)"
proof (cases "before = 0")
  case True
  then show ?thesis by (simp add: paging_opts_def page_opts_def)
next
  case False
  let ?until = "so_Until (page_opts t lq cnf before)"
  have "ts_Signature x \<noteq> ?until" if "x \<in> set pre" for x
    using assms that by (auto simp: history_ok_def paged_to_def page_opts_def kept_def image_iff)
  then have "takeWhile (\<lambda>x. ts_Signature x \<noteq> ?until) (pre @ suf) = pre @ takeWhile (\<lambda>x. ts_Signature x \<noteq> ?until) suf"
    by (simp add: takeWhile_append2)
  moreover have "before \<in> ts_Signature ` set pre" using assms(2) False by (simp add: paged_to_def)
  ultimately show ?thesis by (simp add: paging_opts_def page_opts_def image_Un)
qed

lemma first_paging [simp]: "paging_opts hist (page_opts t lq cnf 0)"
  by (simp add: paging_opts_def page_opts_def)

section \<open>All pages\<close>

lemma limit_pos: "0 < getSignaturesForAddressMaxLimit"
  by (simp add: getSignaturesForAddressMaxLimit_def)

text \<open>A page that is full moves the loop on by as many entries.\<close>

lemma next_page:
  assumes "history_ok (pre @ suf)" and "\<not> length (appended_of lq cnf (page_of lq cnf suf)) < getSignaturesForAddressMaxLimit"
  shows "let n = getSignaturesForAddressMaxLimit in
    appended_of lq cnf (page_of lq cnf suf) = take n suf \<and> n \<le> length suf \<and>
    history_after (pre @ suf) (ts_Signature (last (page_of lq cnf suf))) = drop n suf \<and>
    takeWhile (kept lq cnf) suf = take n suf @ takeWhile (kept lq cnf) (drop n suf) \<and>
    (\<forall>x \<in> set (take n suf). kept lq cnf x) \<and>
    ts_Signature (last (page_of lq cnf suf)) \<in> ts_Signature ` set (take n suf)"
proof -
  let ?n = getSignaturesForAddressMaxLimit
  have sorted: "sorted_wrt (\<lambda>x y. ts_Slot y \<le> ts_Slot x) suf"
    using assms(1) by (simp add: history_ok_def sorted_wrt_append)
  note app = appended_page [OF sorted, of lq cnf]
  note full = full_page [OF assms(2) [unfolded app] limit_pos]
  have page: "page_of lq cnf suf = take ?n suf"
    using full app by (cases cnf) (simp_all add: page_of_def appended_of_def)
  obtain ys y where y: "take ?n suf = ys @ [y]" using full by (metis append_butlast_last_id)
  have split: "pre @ suf = (pre @ ys) @ [y] @ drop ?n suf"
    using y by (metis append.assoc append_take_drop_id)
  have "history_after (pre @ suf) (ts_Signature y) = drop ?n suf"
    using history_after_split [of "pre @ ys" y "drop ?n suf"] assms(1) split by simp
  then have "history_after (pre @ suf) (ts_Signature (last (page_of lq cnf suf))) = drop ?n suf" by (simp add: page y)
  moreover have "\<forall>x \<in> set (take ?n suf). kept lq cnf x"
    using full by (metis UnCI set_append set_takeWhileD)
  moreover have "last (page_of lq cnf suf) \<in> set (take ?n suf)"
    using full page by (metis last_in_set)
  ultimately show ?thesis using full app unfolding Let_def by (metis imageI)
qed

lemma catch_up_step:
  assumes "with_retry t env (getSignaturesForAddressHelper t env prog (Some before) (Some u)) s = (Inr page, s1)"
  shows "catch_up_pages t env prog lq cnf u (Suc fuel) before sigs s =
    (if length (appended_of lq cnf page) < getSignaturesForAddressMaxLimit then (Inr (sigs @ appended_of lq cnf page), s1)
     else catch_up_pages t env prog lq cnf u fuel (ts_Signature (last page)) (sigs @ appended_of lq cnf page) s1)"
  using assms by (cases cnf) (simp_all add: bind_def ret_def appended_of_def Let_def)

lemma catch_up_pages_result:
  assumes "history_rpc env prog (pre @ suf)" "history_ok (pre @ suf)"
    and "history_after (pre @ suf) before = suf" "paged_to lq cnf pre before"
    and "catch_up_pages t env prog lq cnf (if cnf then 0 else tp_TxSignature lq) fuel before sigs s = (Inr res, s')"
  shows "res = sigs @ takeWhile (kept lq cnf) suf"
  using assms
proof (induction fuel arbitrary: pre suf before sigs s)
  case 0
  then show ?case by (simp add: fail_def)
next
  case (Suc fuel)
  let ?n = getSignaturesForAddressMaxLimit
  let ?call = "getSignaturesForAddressHelper t env prog (Some before) (Some (if cnf then 0 else tp_TxSignature lq))"
  have sorted: "sorted_wrt (\<lambda>x y. ts_Slot y \<le> ts_Slot x) suf"
    using Suc.prems(2) by (simp add: history_ok_def sorted_wrt_append)
  from Suc.prems(5) obtain page s1 where page: "with_retry t env ?call s = (Inr page, s1)"
    by (cases "with_retry t env ?call s"; cases "fst (with_retry t env ?call s)") (auto simp: bind_def)
  obtain w w' where "?call w = (Inr page, w')" using with_retry_Inr [OF page] by blast
  then have "w_GetSignaturesForAddressWithOpts env prog (page_opts t lq cnf before) w = (Inr page, w')"
    by (simp add: helper_call page_opts_def)
  then have "page = history_page (pre @ suf) (page_opts t lq cnf before)"
    using history_rpcD(1) [OF Suc.prems(1) paging_page_opts [OF Suc.prems(2,4)]] by blast
  then have page_eq: "page = page_of lq cnf suf" by (simp add: history_page_opts Suc.prems(3))
  note run = Suc.prems(5) [unfolded catch_up_pages.simps bind_def page prod.case sum.case Let_def,
      folded appended_of_def, unfolded page_eq]
  show ?case
  proof (cases "length (appended_of lq cnf (page_of lq cnf suf)) < ?n")
    case True
    with run have "res = sigs @ appended_of lq cnf (page_of lq cnf suf)" by (simp add: ret_def)
    moreover have "appended_of lq cnf (page_of lq cnf suf) = takeWhile (kept lq cnf) suf"
      using True appended_page [OF sorted, of lq cnf] by simp
    ultimately show ?thesis by simp
  next
    case False
    note nxt = next_page [OF Suc.prems(2) False, unfolded Let_def]
    have split: "(pre @ take ?n suf) @ drop ?n suf = pre @ suf" by simp
    have "res = (sigs @ take ?n suf) @ takeWhile (kept lq cnf) (drop ?n suf)"
    proof (rule Suc.IH [of "pre @ take ?n suf" "drop ?n suf"])
      show "history_rpc env prog ((pre @ take ?n suf) @ drop ?n suf)" "history_ok ((pre @ take ?n suf) @ drop ?n suf)"
        using Suc.prems(1,2) by simp_all
      show "history_after ((pre @ take ?n suf) @ drop ?n suf) (ts_Signature (last (page_of lq cnf suf))) = drop ?n suf"
        using nxt by simp
      show "paged_to lq cnf (pre @ take ?n suf) (ts_Signature (last (page_of lq cnf suf)))"
        using nxt Suc.prems(4) by (auto simp: paged_to_def)
      show "catch_up_pages t env prog lq cnf (if cnf then 0 else tp_TxSignature lq) fuel
          (ts_Signature (last (page_of lq cnf suf))) (sigs @ take ?n suf) s1 = (Inr res, s')"
        using run False nxt by simp
    qed
    with nxt show ?thesis by simp
  qed
qed

text \<open>With an answer to every call, the loop ends after one page more than the full ones.\<close>

lemma catch_up_pages_total:
  assumes "history_serves env prog (pre @ suf)" "history_ok (pre @ suf)"
    and "history_after (pre @ suf) before = suf" and "\<not> cnf \<longrightarrow> \<not> unknown_until (pre @ suf) (page_opts t lq cnf 0)"
    and "paged_to lq cnf pre before" and "length suf div getSignaturesForAddressMaxLimit < fuel"
  shows "\<exists>res s'. catch_up_pages t env prog lq cnf (if cnf then 0 else tp_TxSignature lq) fuel before sigs s = (Inr res, s')"
  using assms
proof (induction fuel arbitrary: pre suf before sigs s)
  case 0
  then show ?case by simp
next
  case (Suc fuel)
  let ?n = getSignaturesForAddressMaxLimit
  let ?call = "getSignaturesForAddressHelper t env prog (Some before) (Some (if cnf then 0 else tp_TxSignature lq))"
  have known: "\<not> unknown_until (pre @ suf) (page_opts t lq cnf before)"
    using Suc.prems(4) by (auto simp: unknown_until_def page_opts_def)
  obtain r w where call: "w_GetSignaturesForAddressWithOpts env prog (page_opts t lq cnf before) (world s) = (r, w)"
    by (cases "w_GetSignaturesForAddressWithOpts env prog (page_opts t lq cnf before) (world s)")
  have "r = Inr (page_of lq cnf suf)"
    using Suc.prems(1) known call Suc.prems(3) paging_page_opts [OF Suc.prems(2,5)] unfolding history_serves_def
    by (metis fst_conv history_page_opts)
  with call have "?call (world s) = (Inr (page_of lq cnf suf), w)"
    by (simp add: helper_call page_opts_def)
  note page = with_retry_first [of ?call, OF this, of t env]
  note run = catch_up_step [OF page, of lq cnf fuel sigs]
  show ?case
  proof (cases "length (appended_of lq cnf (page_of lq cnf suf)) < ?n")
    case True
    then show ?thesis unfolding run by simp
  next
    case False
    note nxt = next_page [OF Suc.prems(2) False, unfolded Let_def]
    have "\<exists>res s'. catch_up_pages t env prog lq cnf (if cnf then 0 else tp_TxSignature lq) fuel
        (ts_Signature (last (page_of lq cnf suf))) (sigs @ take ?n suf) (s\<lparr>world := w\<rparr>) = (Inr res, s')"
    proof (rule Suc.IH [of "pre @ take ?n suf" "drop ?n suf"])
      show "history_serves env prog ((pre @ take ?n suf) @ drop ?n suf)" "history_ok ((pre @ take ?n suf) @ drop ?n suf)"
        "\<not> cnf \<longrightarrow> \<not> unknown_until ((pre @ take ?n suf) @ drop ?n suf) (page_opts t lq cnf 0)"
        using Suc.prems(1,2,4) by simp_all
      show "history_after ((pre @ take ?n suf) @ drop ?n suf) (ts_Signature (last (page_of lq cnf suf))) = drop ?n suf"
        using nxt by simp
      show "paged_to lq cnf (pre @ take ?n suf) (ts_Signature (last (page_of lq cnf suf)))"
        using nxt Suc.prems(5) by (auto simp: paged_to_def)
      have "length suf div ?n = Suc ((length suf - ?n) div ?n)"
        using nxt limit_pos by (simp add: le_div_geq)
      then show "length (drop ?n suf) div ?n < fuel" using Suc.prems(6) by simp
    qed
    moreover have "appended_of lq cnf (page_of lq cnf suf) = take ?n suf" using nxt by blast
    ultimately show ?thesis using False unfolding run by simp
  qed
qed

section \<open>The fetcher\<close>

text \<open>
  The signatures newer than the cursor: those before it in the history or, for a cursor that is
  not part of the history any more, those from its slot on.
\<close>

definition newer_than :: "TxPoint \<Rightarrow> TransactionSignature list \<Rightarrow> TransactionSignature list" where
  "newer_than lq hist =
     (if tp_TxSignature lq \<noteq> 0 \<and> tp_TxSignature lq \<notin> ts_Signature ` set hist
      then filter (\<lambda>x. tp_Slot lq \<le> ts_Slot x) hist
      else takeWhile (\<lambda>x. ts_Signature x \<noteq> tp_TxSignature lq) hist)"

lemma newer_than_kept:
  assumes "history_ok hist"
  shows "newer_than lq hist = takeWhile (kept lq (unknown_until hist (page_opts t lq False 0))) hist"
proof (cases "unknown_until hist (page_opts t lq False 0)")
  case True
  with assms show ?thesis
    by (simp add: newer_than_def unknown_until_def page_opts_def filter_sorted_slots history_ok_def kept_def [abs_def])
next
  case known: False
  show ?thesis
  proof (cases "tp_TxSignature lq = 0")
    case True
    then have "\<forall>x \<in> set hist. ts_Signature x \<noteq> tp_TxSignature lq" using assms by (auto simp: history_ok_def image_iff)
    then have "newer_than lq hist = hist" using True by (simp add: newer_than_def takeWhile_eq_all_conv)
    moreover have "takeWhile (kept lq (unknown_until hist (page_opts t lq False 0))) hist = hist"
      using known True by (simp add: takeWhile_eq_all_conv kept_def)
    ultimately show ?thesis by (rule trans [OF _ sym])
  next
    case False
    with known show ?thesis by (simp add: newer_than_def unknown_until_def page_opts_def kept_def [abs_def])
  qed
qed

lemma history_after_0 [simp]: "history_after hist 0 = hist"
  by (simp add: history_after_def)

text \<open>The rest of the fetcher, once it holds the entries kept of the first page.\<close>

lemma fetch_rest_result:
  assumes "history_rpc env prog hist" "history_ok hist"
    and "(if length (appended_of lq cnf (page_of lq cnf hist)) = getSignaturesForAddressMaxLimit
      then bind (catchUpLoop t env fuel prog lq (ts_Signature (last (appended_of lq cnf (page_of lq cnf hist)))) cnf)
        (\<lambda>signatures. ret (appended_of lq cnf (page_of lq cnf hist) @ signatures))
      else ret (appended_of lq cnf (page_of lq cnf hist))) s = (Inr res, s')"
  shows "res = takeWhile (kept lq cnf) hist"
proof -
  let ?n = getSignaturesForAddressMaxLimit
  have sorted: "sorted_wrt (\<lambda>x y. ts_Slot y \<le> ts_Slot x) hist" using assms(2) by (simp add: history_ok_def)
  note app = appended_page [OF sorted, of lq cnf]
  show ?thesis
  proof (cases "length (appended_of lq cnf (page_of lq cnf hist)) < ?n")
    case True
    moreover from this have "res = appended_of lq cnf (page_of lq cnf hist)" using assms(3) by (simp add: ret_def)
    ultimately show ?thesis using app by simp
  next
    case False
    have full: "length (appended_of lq cnf (page_of lq cnf hist)) = ?n"
      using False unfolding app by (auto simp: min_def split: if_splits)
    have nil: "history_ok ([] @ hist)" using assms(2) by simp
    note nxt = next_page [OF nil False, unfolded Let_def append_Nil]
    have page: "page_of lq cnf hist = take ?n hist"
      using nxt app full_page [OF False [unfolded app] limit_pos]
      by (cases cnf) (simp_all add: page_of_def appended_of_def)
    from assms(3) full nxt obtain sigs where
      "catch_up_pages t env prog lq cnf (if cnf then 0 else tp_TxSignature lq) fuel (ts_Signature (last (take ?n hist))) [] s = (Inr sigs, s')"
      and res: "res = take ?n hist @ sigs"
      by (auto simp: bind_Inr_iff ret_def catchUpLoop_def)
    then have "sigs = [] @ takeWhile (kept lq cnf) (drop ?n hist)"
      using assms(1,2) nxt page by (intro catch_up_pages_result [of env prog "take ?n hist" "drop ?n hist"]) (simp_all add: paged_to_def)
    with res nxt show ?thesis by simp
  qed
qed

lemma fetch_rest_total:
  assumes "history_serves env prog hist" "history_ok hist" "\<not> cnf \<longrightarrow> \<not> unknown_until hist (page_opts t lq cnf 0)"
    and "length hist div getSignaturesForAddressMaxLimit \<le> fuel"
  shows "\<exists>res s'. (if length (appended_of lq cnf (page_of lq cnf hist)) = getSignaturesForAddressMaxLimit
      then bind (catchUpLoop t env fuel prog lq (ts_Signature (last (appended_of lq cnf (page_of lq cnf hist)))) cnf)
        (\<lambda>signatures. ret (appended_of lq cnf (page_of lq cnf hist) @ signatures))
      else ret (appended_of lq cnf (page_of lq cnf hist))) s = (Inr res, s')"
proof (cases "length (appended_of lq cnf (page_of lq cnf hist)) = getSignaturesForAddressMaxLimit")
  case True
  let ?n = getSignaturesForAddressMaxLimit
  have sorted: "sorted_wrt (\<lambda>x y. ts_Slot y \<le> ts_Slot x) hist" using assms(2) by (simp add: history_ok_def)
  note app = appended_page [OF sorted, of lq cnf]
  have nil: "history_ok ([] @ hist)" using assms(2) by simp
  have "\<not> length (appended_of lq cnf (page_of lq cnf hist)) < ?n" using True by simp
  note nxt = next_page [OF nil this, unfolded Let_def append_Nil]
  have page: "page_of lq cnf hist = take ?n hist"
    using nxt full_page [OF _ limit_pos, of "kept lq cnf" hist] True [unfolded app] app
    by (cases cnf) (simp_all add: page_of_def appended_of_def)
  have "length hist div ?n = Suc ((length hist - ?n) div ?n)" using nxt limit_pos by (simp add: le_div_geq)
  then have "\<exists>res s'. catch_up_pages t env prog lq cnf (if cnf then 0 else tp_TxSignature lq) fuel
      (ts_Signature (last (take ?n hist))) [] s = (Inr res, s')"
    using assms nxt page by (intro catch_up_pages_total [of env prog "take ?n hist" "drop ?n hist"]) (simp_all add: paged_to_def)
  then obtain res s' where loop: "catch_up_pages t env prog lq cnf (if cnf then 0 else tp_TxSignature lq) fuel
      (ts_Signature (last (take ?n hist))) [] s = (Inr res, s')" by blast
  have app: "appended_of lq cnf (page_of lq cnf hist) = take ?n hist" using nxt by blast
  show ?thesis using loop True unfolding app by (simp add: catchUpLoop_def bind_def ret_def)
qed (simp add: ret_def)

text \<open>The fetcher with the entries of its first page named.\<close>

lemma fetcher_first_ok:
  assumes "w_GetSignaturesForAddressWithOpts env prog (page_opts t lq False 0) (world s) = (Inr page, w)"
  shows "signaturesForAddressFetcher t env fuel prog lq s =
     (if length (appended_of lq False page) = getSignaturesForAddressMaxLimit
      then bind (catchUpLoop t env fuel prog lq (ts_Signature (last (appended_of lq False page))) False)
        (\<lambda>signatures. ret (appended_of lq False page @ signatures))
      else ret (appended_of lq False page)) (s\<lparr>world := w\<rparr>)"
  using assms
  by (simp add: signaturesForAddressFetcher_def bind_def attempt_def on_world_simp helper_call page_opts_def ret_def appended_of_def)

lemma fetcher_not_found:
  assumes "w_GetSignaturesForAddressWithOpts env prog (page_opts t lq False 0) (world s) = (Inl e, w)"
    and "IsCursorNotFoundErr e" "\<not> stops e"
    and "w_GetSignaturesForAddressWithOpts env prog (page_opts t lq True 0) w = (Inr page, w')"
  shows "signaturesForAddressFetcher t env fuel prog lq s =
     (if length (appended_of lq True page) = getSignaturesForAddressMaxLimit
      then bind (catchUpLoop t env fuel prog lq (ts_Signature (last (appended_of lq True page))) True)
        (\<lambda>signatures. ret (appended_of lq True page @ signatures))
      else ret (appended_of lq True page)) (s\<lparr>world := w'\<rparr>)"
  using assms
  by (simp add: signaturesForAddressFetcher_def bind_def attempt_def on_world_simp helper_call page_opts_def ret_def appended_of_def)

lemma fetcher_Inr_cases:
  assumes "signaturesForAddressFetcher t env fuel prog lq s = (Inr res, s')"
  obtains (ok) page w where "w_GetSignaturesForAddressWithOpts env prog (page_opts t lq False 0) (world s) = (Inr page, w)"
  | (lost) e w page w' where "w_GetSignaturesForAddressWithOpts env prog (page_opts t lq False 0) (world s) = (Inl e, w)"
      "IsCursorNotFoundErr e" "\<not> stops e"
      "w_GetSignaturesForAddressWithOpts env prog (page_opts t lq True 0) w = (Inr page, w')"
proof -
  obtain r w where call: "w_GetSignaturesForAddressWithOpts env prog (page_opts t lq False 0) (world s) = (r, w)"
    by (cases "w_GetSignaturesForAddressWithOpts env prog (page_opts t lq False 0) (world s)")
  obtain r2 w2 where call2: "w_GetSignaturesForAddressWithOpts env prog (page_opts t lq True 0) w = (r2, w2)"
    by (cases "w_GetSignaturesForAddressWithOpts env prog (page_opts t lq True 0) w")
  show thesis
  proof (cases r)
    case (Inr page)
    with call show ?thesis by (intro ok) simp
  next
    case (Inl e)
    note defs = signaturesForAddressFetcher_def bind_def attempt_def on_world_simp helper_call
    have "\<not> stops e" using assms call Inl by (auto simp: defs page_opts_def)
    moreover from this have "IsCursorNotFoundErr e"
      using assms call Inl by (auto simp: defs page_opts_def fail_def split: if_splits)
    moreover from calculation obtain page where "r2 = Inr page"
      using assms call call2 Inl by (cases r2) (auto simp: defs page_opts_def)
    ultimately show ?thesis using call call2 Inl by (intro lost) simp_all
  qed
qed

lemma fetcher_result:
  fixes s s' :: "('d, 'w) tracker_state"
  assumes "history_rpc env prog hist" "history_ok hist"
    and "signaturesForAddressFetcher t env fuel prog lq s = (Inr sigs, s')"
  shows "sigs = newer_than lq hist \<and> distinct (map ts_Signature sigs)"
proof -
  have "sigs = takeWhile (kept lq (unknown_until hist (page_opts t lq False 0))) hist"
    using assms(3)
  proof (cases rule: fetcher_Inr_cases)
    case (ok page w)
    have "page = history_page hist (page_opts t lq False 0)" "\<not> unknown_until hist (page_opts t lq False 0)"
      using history_rpcD(1) [OF assms(1) first_paging ok] by blast+
    then have page: "page = page_of lq False hist" and "\<not> unknown_until hist (page_opts t lq False 0)"
      by (simp_all add: history_page_opts)
    with fetch_rest_result [OF assms(1,2) assms(3) [unfolded fetcher_first_ok [OF ok] page]] show ?thesis by simp
  next
    case (lost e w page w')
    have "page = history_page hist (page_opts t lq True 0)" "unknown_until hist (page_opts t lq False 0)"
      using history_rpcD(1) [OF assms(1) first_paging lost(4)] history_rpcD(2) [OF assms(1) first_paging lost(1,2)] by blast+
    then have page: "page = page_of lq True hist" and "unknown_until hist (page_opts t lq False 0)"
      by (simp_all add: history_page_opts)
    with fetch_rest_result [OF assms(1,2) assms(3) [unfolded fetcher_not_found [OF lost] page]] show ?thesis by simp
  qed
  then have eq: "sigs = newer_than lq hist" by (simp only: newer_than_kept [OF assms(2), of lq t])
  moreover have "distinct (map ts_Signature (takeWhile P hist))" for P
    using assms(2) by (metis distinct_append history_ok_def map_append takeWhile_dropWhile_id)
  moreover have "distinct (map ts_Signature (filter P hist))" for P
    using assms(2) by (simp add: history_ok_def distinct_map_filter)
  ultimately show ?thesis by (simp add: newer_than_def)
qed

lemma fetcher_total:
  fixes s :: "('d, 'w) tracker_state"
  assumes "history_serves env prog hist" "history_ok hist"
    and "length hist div getSignaturesForAddressMaxLimit \<le> fuel"
  shows "\<exists>s' :: ('d, 'w) tracker_state. signaturesForAddressFetcher t env fuel prog lq s = (Inr (newer_than lq hist), s')"
proof -
  obtain r w where call: "w_GetSignaturesForAddressWithOpts env prog (page_opts t lq False 0) (world s) = (r, w)"
    by (cases "w_GetSignaturesForAddressWithOpts env prog (page_opts t lq False 0) (world s)")
  obtain r2 w2 where call2: "w_GetSignaturesForAddressWithOpts env prog (page_opts t lq True 0) w = (r2, w2)"
    by (cases "w_GetSignaturesForAddressWithOpts env prog (page_opts t lq True 0) w")
  have answers: "fst (w_GetSignaturesForAddressWithOpts env prog (page_opts t lq cnf 0) w) =
     (if unknown_until hist (page_opts t lq cnf 0) then Inl (RPCErr rpcErrCodeTxNotFound)
      else Inr (history_page hist (page_opts t lq cnf 0)))" for cnf w
    using assms(1) first_paging unfolding history_serves_def by blast
  have "\<exists>res (s' :: ('d, 'w) tracker_state). signaturesForAddressFetcher t env fuel prog lq s = (Inr res, s')"
  proof (cases "unknown_until hist (page_opts t lq False 0)")
    case True
    with answers [of False "world s"] call have r: "r = Inl (RPCErr rpcErrCodeTxNotFound)" by simp
    have "\<not> unknown_until hist (page_opts t lq True 0)" by (simp add: unknown_until_def page_opts_def)
    with answers [of True w] call2 have r2: "r2 = Inr (page_of lq True hist)"
      by (simp add: history_page_opts)
    show ?thesis
      unfolding fetcher_not_found [OF call [unfolded r] cursor_not_found stops_simps(5) call2 [unfolded r2]]
      by (rule fetch_rest_total [OF assms(1,2) _ assms(3)]) simp
  next
    case False
    with answers [of False "world s"] call have r: "r = Inr (page_of lq False hist)"
      by (simp add: history_page_opts)
    show ?thesis
      unfolding fetcher_first_ok [OF call [unfolded r]]
      by (rule fetch_rest_total [OF assms(1,2) _ assms(3)]) (simp add: False)
  qed
  then obtain res and s' :: "('d, 'w) tracker_state" where "signaturesForAddressFetcher t env fuel prog lq s = (Inr res, s')" by blast
  then show ?thesis
    using fetcher_result [OF history_serves_rpc [OF assms(1)] assms(2)] by blast
qed

text \<open>
  C11. Against an RPC node with a fixed history, whatever calls fail on the way, a fetch that
  returns has every signature newer than the cursor, newest first and none twice: the pages of
  the catch-up loop neither skip an entry nor repeat one, and a cursor the node does not know
  any more is replaced by its slot.
\<close>

theorem signaturesForAddressFetcher_complete:
  fixes s s' :: "('d, 'w) tracker_state"
  assumes "history_rpc env prog hist" "history_ok hist"
    and "signaturesForAddressFetcher t env fuel prog lq s = (Inr sigs, s')"
  shows "sigs = newer_than lq hist \<and> distinct (map ts_Signature sigs)"
  using assms by (rule fetcher_result)

text \<open>
  C31. The fetch ends: with an answer to every call, the loop returns when its fuel is the
  number of full pages of the history, so no history makes it run for ever.
\<close>

theorem signaturesForAddressFetcher_terminates:
  fixes s :: "('d, 'w) tracker_state"
  assumes "history_serves env prog hist" "history_ok hist"
    and "length hist div getSignaturesForAddressMaxLimit \<le> fuel"
  shows "\<exists>s' :: ('d, 'w) tracker_state. signaturesForAddressFetcher t env fuel prog lq s = (Inr (newer_than lq hist), s')"
  using assms by (rule fetcher_total)

section \<open>A concrete world\<close>

text \<open>
  A world for concrete runs: it serves one history to every program, one answer per
  transaction, a fixed list of blocks, and never fails.
\<close>

definition replay_world ::
  "TransactionSignature list \<Rightarrow> (Signature \<Rightarrow> GetTransactionResult option) \<Rightarrow> u64 list \<Rightarrow> (nat, 'ev) tracker_world" where
  "replay_world hist txs blocks =
     \<lparr>w_GetBlocks = (\<lambda>a b c. ret (filter (\<lambda>x. a \<le> x \<and> x \<le> b) blocks)),
      w_GetBlockWithOpts = (\<lambda>slot c. ret (Some \<lparr>gb_Blockhash = ucast slot, gb_BlockHeight = Some slot\<rparr>)),
      w_GetSlot = (\<lambda>c. ret 1000), w_GetBlockHeight = (\<lambda>c. ret 900),
      w_GetTransaction = (\<lambda>sig c. ret (txs sig)),
      w_GetSignaturesForAddressWithOpts = (\<lambda>prog opts.
        if unknown_until hist opts then fail (RPCErr rpcErrCodeTxNotFound) else ret (history_page hist opts)),
      w_AddEvent = (\<lambda>e. modify Suc), w_select_wait = (\<lambda>d. ret False)\<rparr>"

lemma replay_serves: "history_serves (replay_world hist txs blocks) prog hist"
  by (simp add: history_serves_def replay_world_def ret_def fail_def)

text \<open>A history of \<open>n\<close> transactions, number \<open>i\<close> in slot \<open>i\<close>.\<close>

definition long_history :: "nat \<Rightarrow> TransactionSignature list" where
  "long_history n = map (\<lambda>i. \<lparr>ts_Signature = of_nat i, ts_Slot = of_nat i\<rparr>) (rev [1..<Suc n])"

lemma long_history_ok:
  assumes "n < 2 ^ 64"
  shows "history_ok (long_history n)"
proof -
  have u512: "unat (of_nat i :: Signature) = i" and u64: "unat (of_nat i :: u64) = i" if "i \<in> set [1..<Suc n]" for i
  proof -
    have "i < 2 ^ 64" using that assms by auto
    moreover from this have "i < 2 ^ 512" by (rule less_trans) simp
    ultimately show "unat (of_nat i :: Signature) = i" "unat (of_nat i :: u64) = i" by (simp_all add: unat_of_nat)
  qed
  have "inj_on (\<lambda>i. of_nat i :: Signature) (set [1..<Suc n])"
    by (rule inj_onI) (metis u512)
  then have "distinct (map (\<lambda>i. of_nat i :: Signature) (rev [1..<Suc n]))" by (simp add: distinct_map)
  moreover have "of_nat i \<noteq> (0 :: Signature)" if "i \<in> set [1..<Suc n]" for i
    using u512 [OF that] that by auto
  moreover have "sorted_wrt (\<lambda>x y. (of_nat y :: u64) \<le> of_nat x) (rev [1..<Suc n])"
    unfolding sorted_wrt_rev
  proof (rule sorted_wrt_mono_rel [OF _ sorted_wrt_upt])
    fix x y assume xy: "x \<in> set [1..<Suc n]" "y \<in> set [1..<Suc n]" "x < y"
    show "(of_nat x :: u64) \<le> of_nat y"
      using xy(3) unfolding word_le_nat_alt u64 [OF xy(1)] u64 [OF xy(2)] by simp
  qed
  ultimately show ?thesis
    by (auto simp: history_ok_def long_history_def sorted_wrt_map comp_def)
qed

definition example_tracker :: "(unit, unit, unit) EventTracker" where
  "example_tracker =
     \<lparr>et_client = ((), None), et_trackedPrograms = [(9, [\<lparr>es_eventType = (), es_name = ''Deposited'', es_discriminant = replicate 8 5\<rparr>])],
      et_eventAuthorities = [9 \<mapsto> 77], et_commitment = CommitmentFinalized, et_pollTime = 500000000, et_startFromSlot = 0,
      et_chainHeadSlotOffset = 80, et_chainHeadTargetBlockCount = 30, et_avgSlotTime = 166000000, et_blockRoundingThreshold = 10\<rparr>"

definition example_state :: "'d \<Rightarrow> ('d, nat) tracker_state" where
  "example_state d = \<lparr>chainHeadSlot = 20, latestGetBlocksState = \<lparr>lg_chainHeadSlot = 20, lg_queriedBlocksWithSlotsLen = 0\<rparr>,
     storage = d, world = 0\<rparr>"

theorem signaturesForAddressFetcher_terminates_witness:
  "\<exists>s'. signaturesForAddressFetcher example_tracker (replay_world (long_history 2500) (\<lambda>_. None) []) 2 9
      \<lparr>tp_TxSignature = 100, tp_Slot = 100\<rparr> (example_state ()) = (Inr (newer_than \<lparr>tp_TxSignature = 100, tp_Slot = 100\<rparr> (long_history 2500)), s')"
  by (rule signaturesForAddressFetcher_terminates [OF replay_serves long_history_ok])
    (simp_all add: long_history_def getSignaturesForAddressMaxLimit_def)

theorem signaturesForAddressFetcher_complete_witness:
  "\<exists>sigs. fst (signaturesForAddressFetcher example_tracker (replay_world (long_history 3) (\<lambda>_. None) [] :: (nat, unit) tracker_world) 2 9
      \<lparr>tp_TxSignature = 1, tp_Slot = 1\<rparr> (example_state ())) = Inr sigs \<and> map ts_Signature sigs = [3, 2] \<and> distinct (map ts_Signature sigs)"
proof -
  have hist: "long_history 3 = map (\<lambda>i. \<lparr>ts_Signature = i, ts_Slot = ucast i\<rparr>) [3, 2, 1]"
    by (simp add: long_history_def upt_rec)
  obtain s' where run: "signaturesForAddressFetcher example_tracker (replay_world (long_history 3) (\<lambda>_. None) [] :: (nat, unit) tracker_world) 2 9
      \<lparr>tp_TxSignature = 1, tp_Slot = 1\<rparr> (example_state ()) =
      (Inr (map (\<lambda>i. \<lparr>ts_Signature = i, ts_Slot = ucast i\<rparr>) [3, 2]), s')"
    unfolding hist
    by (simp add: signaturesForAddressFetcher_def bind_def attempt_def on_world_simp helper_call replay_world_def
        unknown_until_def history_page_def ret_def getSignaturesForAddressMaxLimit_def example_tracker_def)
  have "history_rpc (replay_world (long_history 3) (\<lambda>_. None) [] :: (nat, unit) tracker_world) 9 (long_history 3)"
    by (rule history_serves_rpc [OF replay_serves])
  note complete = signaturesForAddressFetcher_complete [OF this _ run]
  have "history_ok (long_history 3)" by (rule long_history_ok) simp
  from conjunct2 [OF complete [OF this]] run show ?thesis
    by (intro exI [of _ "map (\<lambda>i. \<lparr>ts_Signature = i, ts_Slot = ucast i\<rparr>) [3, 2]"]) simp
qed

end
