(* ===== verification/Tracker_System.thy ===== *)
theory Tracker_System
  imports Tracker_Processing Tracker_Head Tracker_Fetch
begin

text \<open>
  The tracker as a whole: its two loops and its restarts as a step relation, and the
  invariants of every state it reaches.
\<close>

section \<open>The invariant of the queue\<close>

text \<open>
  The two cursors agree when the queue is empty; otherwise the query cursor is the last entry.
  No transaction is queued twice, and the last processed one is not queued.
\<close>

definition queue_inv :: "'m abs_store \<Rightarrow> bool" where
  "queue_inv v \<longleftrightarrow>
     (if as_queue v = [] then tp_TxSignature (as_queried v) = tp_TxSignature (as_processed v)
      else tp_TxSignature (as_queried v) = tp_TxSignature (last (as_queue v))) \<and>
     distinct (map tp_TxSignature (as_queue v)) \<and> tp_TxSignature (as_processed v) \<notin> tp_TxSignature ` set (as_queue v)"

lemma queue_inv_cursors:
  "queue_inv v \<Longrightarrow> tp_TxSignature (as_queried v) \<noteq> tp_TxSignature (as_processed v) \<longleftrightarrow> as_queue v \<noteq> []"
  unfolding queue_inv_def by (metis imageI last_in_set)

lemma queue_inv_same: "same_queue v v' \<Longrightarrow> queue_inv v' = queue_inv v"
  by (drule same_queueD) (simp add: queue_inv_def)

lemma queue_inv_polling: "same_polling v v' \<Longrightarrow> queue_inv v' = queue_inv v"
  by (drule same_pollingD) (simp add: queue_inv_def)

lemma queue_inv_finalize: "queue_inv v \<Longrightarrow> as_queue v \<noteq> [] \<Longrightarrow> queue_inv (spec_finalize v)"
  by (cases "as_queue v") (auto simp: queue_inv_def spec_finalize_def)

lemma queue_inv_moved: "moved v v' \<Longrightarrow> queue_inv v \<Longrightarrow> queue_inv v'"
  unfolding moved_def by (metis queue_inv_same queue_inv_finalize)

lemma queue_inv_push:
  assumes inv: "queue_inv v" and pts: "pts \<noteq> []" "distinct (map tp_TxSignature pts)" "0 \<notin> tp_TxSignature ` set pts"
    and new: "tp_TxSignature ` set pts \<inter> known_signatures sig_text slot v = {}"
  shows "queue_inv ((spec_push pts v)\<lparr>as_queried := last pts\<rparr>)"
proof -
  let ?v = "(spec_push pts v)\<lparr>as_queried := last pts\<rparr>"
  have "filter (\<lambda>p. tp_TxSignature p \<noteq> 0) pts = pts" using pts(3) by (intro filter_True) auto
  then have v: "as_queue ?v = as_queue v @ pts" "as_queried ?v = last pts" "as_processed ?v = as_processed v"
    by (simp_all add: spec_push_def)
  have apart: "tp_TxSignature ` set (as_queue v) \<inter> tp_TxSignature ` set pts = {}"
  proof -
    have "tp_TxSignature ` set (as_queue v) \<subseteq> known_signatures sig_text slot v" by (simp add: known_signatures_def le_supI1)
    with new show ?thesis by blast
  qed
  have fresh: "tp_TxSignature (as_processed v) \<notin> tp_TxSignature ` set pts"
  proof
    assume h: "tp_TxSignature (as_processed v) \<in> tp_TxSignature ` set pts"
    then have "tp_TxSignature (as_processed v) \<noteq> 0" using pts(3) by metis
    then have "tp_TxSignature (as_processed v) \<in> known_signatures sig_text slot v" by (simp add: known_signatures_def)
    with h new show False by blast
  qed
  note parts = conjunct2 [OF inv [unfolded queue_inv_def]]
  show ?thesis unfolding queue_inv_def v
  proof (intro conjI)
    show "if as_queue v @ pts = [] then tp_TxSignature (last pts) = tp_TxSignature (as_processed v)
        else tp_TxSignature (last pts) = tp_TxSignature (last (as_queue v @ pts))"
      using pts(1) by simp
    show "distinct (map tp_TxSignature (as_queue v @ pts))"
      using parts pts(2) apart by simp
    show "tp_TxSignature (as_processed v) \<notin> tp_TxSignature ` set (as_queue v @ pts)"
      using parts fresh by (simp add: image_Un)
  qed
qed

text \<open>
  The answers of the node to the fetcher: no signature twice, none zero, and no more than
  \<open>n\<close>.
\<close>

definition fetches_ok :: "('ty, 'c, 'l) EventTracker \<Rightarrow> ('w, 'ev) tracker_world \<Rightarrow> nat \<Rightarrow> nat \<Rightarrow> 'd itself \<Rightarrow> bool" where
  "fetches_ok t env fuel n d \<longleftrightarrow> (\<forall>prog lq (s :: ('d, 'w) tracker_state) sigs s'.
     signaturesForAddressFetcher t env fuel prog lq s = (Inr sigs, s') \<longrightarrow>
     distinct (map ts_Signature sigs) \<and> 0 \<notin> ts_Signature ` set sigs \<and> length sigs \<le> n)"

lemma sig_point_of [simp]: "tp_TxSignature (point_of x) = ts_Signature x"
  by (simp add: point_of_def)

text \<open>
  The skip of old transactions on a first run is sound for one program, or when there is
  nothing to skip.
\<close>

definition skips_apply :: "('ty, 'c, 'l) EventTracker \<Rightarrow> TxPoint \<Rightarrow> 'm abs_store \<Rightarrow> bool" where
  "skips_apply t lq v \<longleftrightarrow> as_queue v = [] \<or> et_startFromSlot t = 0 \<or> tp_TxSignature lq \<noteq> 0"

lemma queue_inv_signatures:
  assumes inv: "queue_inv v" and sigs: "distinct (map ts_Signature sigs)" "0 \<notin> ts_Signature ` set sigs"
    and skip: "skips_apply t lq v"
    and new: "new = filter (\<lambda>x. ts_Signature x \<notin> known_signatures sig_text slot v) sigs"
  shows "queue_inv (spec_signatures t lq h new v)"
proof (cases "new = [] \<or> new_points t lq new = []")
  case True
  show ?thesis
  proof (cases "new = []")
    case True
    then show ?thesis using inv by (simp add: spec_signatures_def queue_inv_def)
  next
    case False
    with True have pts: "new_points t lq new = []" by simp
    with False have "as_queue v = []"
      using skip new_points_cursor [of lq t new] by (auto simp: skips_apply_def)
    with False pts show ?thesis by (simp add: spec_signatures_def queue_inv_def)
  qed
next
  case False
  let ?pts = "new_points t lq new"
  have sub: "set ?pts \<subseteq> point_of ` set new" using set_new_points by fastforce
  have "distinct (map ts_Signature new)" using sigs(1) by (simp add: new distinct_map_filter)
  then have "distinct (map tp_TxSignature ?pts)"
    by (simp add: new_points_def comp_def rev_filter [symmetric] rev_map [symmetric] distinct_map_filter)
  moreover have "0 \<notin> tp_TxSignature ` set ?pts" using sub sigs(2) by (force simp: new)
  moreover have "tp_TxSignature ` set ?pts \<inter> known_signatures sig_text slot v = {}" using sub by (force simp: new)
  ultimately have "queue_inv ((spec_push ?pts v)\<lparr>as_queried := last ?pts\<rparr>)"
    using False inv by (intro queue_inv_push [of v ?pts sig_text slot]) simp_all
  then show ?thesis using False by (simp add: spec_signatures_def)
qed

lemma spec_signatures_head:
  "as_head (spec_signatures t lq h new v) = as_head v \<and> as_blocks (spec_signatures t lq h new v) = as_blocks v"
  by (simp add: spec_signatures_def spec_push_def)

lemma spec_signatures_counts:
  "as_popped (spec_signatures t lq h new v) + length (as_queue (spec_signatures t lq h new v))
     \<le> as_popped v + length (as_queue v) + length new"
proof -
  have "length (filter (\<lambda>p. tp_TxSignature p \<noteq> 0) (new_points t lq new)) \<le> length new"
    using length_new_points [of t lq new] length_filter_le le_trans by blast
  then show ?thesis by (simp add: spec_signatures_def spec_push_def)
qed

lemma moved_head: "moved v v' \<Longrightarrow> as_head v' = as_head v \<and> as_blocks v' = as_blocks v"
  unfolding moved_def by (auto dest: same_queueD simp: spec_finalize_def)

section \<open>One polling pass\<close>

text \<open>The counters have room for what \<open>k\<close> fetches of \<open>n\<close> signatures may add.\<close>

definition fetch_room :: "nat \<Rightarrow> nat \<Rightarrow> 'm abs_store \<Rightarrow> bool" where
  "fetch_room n k v \<longleftrightarrow> as_popped v + length (as_queue v) + n * k < 2 ^ 64"

context storage_handler
begin

text \<open>What a pass keeps: the invariants, the slot, and the head with its blocks.\<close>

definition pass_kept :: "('d, 'w) tracker_state \<Rightarrow> ('d, 'w) tracker_state \<Rightarrow> bool" where
  "pass_kept s s' \<longleftrightarrow> ok (storage s') \<and> queue_inv (view (storage s')) \<and> chainHeadSlot s' = chainHeadSlot s \<and>
     as_head (view (storage s')) = as_head (view (storage s)) \<and> as_blocks (view (storage s')) = as_blocks (view (storage s))"

lemma fetch_step:
  fixes s :: "('d, 'w) tracker_state"
  assumes ok: "ok (storage s)" and inv: "queue_inv (view (storage s))" and cursor: "cursor_writes_succeed st ok"
    and fetches: "fetches_ok t env fuel n TYPE('d)" and room: "fetch_room n (Suc k) (view (storage s))"
    and skip: "skips_apply t lq (view (storage s))"
    and run: "fetchNextGetSignaturesForAddress t env st fuel p lq s = (r, s')"
  shows "pass_kept s s' \<and> fetch_room n k (view (storage s'))"
proof -
  have bound: "length sigs \<le> n" "distinct (map ts_Signature sigs)" "0 \<notin> ts_Signature ` set sigs"
    if "signaturesForAddressFetcher t env fuel p lq (s1 :: ('d, 'w) tracker_state) = (Inr sigs, s2)" for s1 sigs s2
    using fetches that unfolding fetches_ok_def by blast+
  have room': "push_room (length sigs) (view (storage s))"
    if "signaturesForAddressFetcher t env fuel p lq (s1 :: ('d, 'w) tracker_state) = (Inr sigs, s2)" for s1 sigs s2
    using bound(1) [OF that] room unfolding push_room_def fetch_room_def by simp
  have cases: "ok (storage s') \<and> chainHeadSlot s' = chainHeadSlot s \<and> (view (storage s') = view (storage s) \<or>
    (\<exists>h sigs (s1 :: ('d, 'w) tracker_state) s2. signaturesForAddressFetcher t env fuel p lq s1 = (Inr sigs, s2) \<and>
       view (storage s') = spec_signatures t lq h
         (filter (\<lambda>x. ts_Signature x \<notin> known_signatures sig_text (tp_Slot lq) (view (storage s))) sigs) (view (storage s))))"
    by (rule fetchNext_cases [OF ok cursor _ run]) (rule room')
  then consider (same) "view (storage s') = view (storage s)"
    | (new) h sigs s1 s2 where "signaturesForAddressFetcher t env fuel p lq (s1 :: ('d, 'w) tracker_state) = (Inr sigs, s2)"
      "view (storage s') = spec_signatures t lq h
         (filter (\<lambda>x. ts_Signature x \<notin> known_signatures sig_text (tp_Slot lq) (view (storage s))) sigs) (view (storage s))"
    by blast
  then show ?thesis
  proof cases
    case same
    with cases inv room show ?thesis by (simp add: pass_kept_def fetch_room_def)
  next
    case new
    let ?new = "filter (\<lambda>x. ts_Signature x \<notin> known_signatures sig_text (tp_Slot lq) (view (storage s))) sigs"
    have "queue_inv (view (storage s'))"
      unfolding new(2) by (rule queue_inv_signatures [OF inv bound(2,3) [OF new(1)] skip refl])
    moreover have "length ?new \<le> n" using bound(1) [OF new(1)] length_filter_le le_trans by blast
    then have "fetch_room n k (view (storage s'))"
      using room spec_signatures_counts [of t lq h ?new "view (storage s)"] unfolding fetch_room_def new(2) by simp
    ultimately show ?thesis
      using cases spec_signatures_head [of t lq h ?new "view (storage s)"] unfolding pass_kept_def new(2) by simp
  qed
qed

lemma skips_apply_kept: "et_startFromSlot t = 0 \<or> tp_TxSignature lq \<noteq> 0 \<Longrightarrow> skips_apply t lq v"
  by (auto simp: skips_apply_def)

lemma fetch_all:
  fixes s :: "('d, 'w) tracker_state"
  assumes "ok (storage s)" "queue_inv (view (storage s))" "cursor_writes_succeed st ok" "fetches_ok t env fuel n TYPE('d)"
    and "fetch_room n (length ps) (view (storage s))" "skips_apply t lq (view (storage s))"
    and "length ps \<le> 1 \<or> et_startFromSlot t = 0 \<or> tp_TxSignature lq \<noteq> 0"
    and "for_each (\<lambda>p. bind (attempt (fetchNextGetSignaturesForAddress t env st fuel p lq)) (\<lambda>_. ret ())) ps s = (r, s')"
  shows "pass_kept s s'"
  using assms
proof (induction ps arbitrary: s)
  case Nil
  then show ?case by (simp add: ret_def pass_kept_def)
next
  case (Cons p ps)
  obtain r1 s1 where one: "fetchNextGetSignaturesForAddress t env st fuel p lq s = (r1, s1)"
    by (cases "fetchNextGetSignaturesForAddress t env st fuel p lq s")
  have "fetch_room n (Suc (length ps)) (view (storage s))" using Cons.prems(5) by simp
  from fetch_step [OF Cons.prems(1-4) this Cons.prems(6) one]
  have kept: "pass_kept s s1" and room: "fetch_room n (length ps) (view (storage s1))" by blast+
  from Cons.prems(8) consider "s' = s1" |
    "for_each (\<lambda>p. bind (attempt (fetchNextGetSignaturesForAddress t env st fuel p lq)) (\<lambda>_. ret ())) ps s1 = (r, s')"
    by (auto simp: bind_def attempt_def one ret_def split: sum.splits if_splits)
  then show ?case
  proof cases
    case 1
    with kept show ?thesis by simp
  next
    case 2
    show ?thesis
    proof (cases "ps = []")
      case True
      with 2 kept show ?thesis by (simp add: ret_def)
    next
      case False
      with Cons.prems(7) have skip: "et_startFromSlot t = 0 \<or> tp_TxSignature lq \<noteq> 0" by (cases ps) auto
      have "ok (storage s1)" "queue_inv (view (storage s1))" using kept by (simp_all add: pass_kept_def)
      from Cons.IH [OF this Cons.prems(3,4) room skips_apply_kept [OF skip] disjI2 [OF skip] 2] kept
      show ?thesis by (simp add: pass_kept_def)
    qed
  qed
qed

lemma polling_pass:
  fixes s :: "('d, 'w) tracker_state"
  assumes ok: "ok (storage s)" and inv: "queue_inv (view (storage s))" and cursor: "cursor_writes_succeed st ok"
    and fetches: "fetches_ok t env fuel n TYPE('d)" and room: "fetch_room n (length (et_trackedPrograms t)) (view (storage s))"
    and events: "events_fit t env (view (storage s))"
    and single: "length (et_trackedPrograms t) \<le> 1 \<or> et_startFromSlot t = 0"
    and run: "transactionPollingPass t env st lib fuel s = (r, s')"
  shows "pass_kept s s'"
proof -
  have stay: "pass_kept s s" using ok inv by (simp add: pass_kept_def)
  show ?thesis
  proof (cases "sh_GetLastProcessedTransaction st (storage s)")
    case (Inl e)
    with run have "s' = s"
      by (cases "stops e") (simp_all add: transactionPollingPass_def bind_def attempt_def from_storage_def ret_def)
    with stay show ?thesis by simp
  next
    case lp: (Inr lp)
    show ?thesis
    proof (cases "sh_GetLatestQueriedTransaction st (storage s)")
      case (Inl e)
      with run lp have "s' = s"
        by (cases "stops e") (simp_all add: transactionPollingPass_def bind_def attempt_def from_storage_def ret_def)
      with stay show ?thesis by simp
    next
      case lq: (Inr lq)
      note cursors = get_processed [OF ok lp] get_queried [OF ok lq]
      show ?thesis
      proof (cases "tp_TxSignature lq = tp_TxSignature lp")
        case True
        with queue_inv_cursors [OF inv] cursors have "as_queue (view (storage s)) = []" by simp
        then have skip: "skips_apply t lq (view (storage s))" by (simp add: skips_apply_def)
        have progs: "length (map fst (et_trackedPrograms t)) \<le> 1 \<or> et_startFromSlot t = 0 \<or> tp_TxSignature lq \<noteq> 0"
          using single by auto
        have room': "fetch_room n (length (map fst (et_trackedPrograms t))) (view (storage s))" using room by simp
        from run lp lq True have
          "for_each (\<lambda>p. bind (attempt (fetchNextGetSignaturesForAddress t env st fuel p lq)) (\<lambda>_. ret ()))
             (map fst (et_trackedPrograms t)) s = (r, s')"
          by (simp add: transactionPollingPass_def bind_def attempt_def from_storage_def)
        from fetch_all [OF ok inv cursor fetches room' skip progs this] show ?thesis .
      next
        case False
        obtain rf sf where full: "fetchNextGetFullTxBySignature t env st lib s = (rf, sf)"
          by (cases "fetchNextGetFullTxBySignature t env st lib s")
        from run lp lq False have "s' = sf"
          by (cases rf; cases "stops (projl rf)")
            (simp_all add: transactionPollingPass_def bind_def attempt_def from_storage_def ret_def full)
        with fetchNextFull_cases [OF ok events full] queue_inv_moved [OF _ inv] moved_head show ?thesis
          unfolding pass_kept_def by blast
      qed
    qed
  qed
qed

end

section \<open>The steps of the tracker\<close>

text \<open>
  A pass of either loop, anything the outside world does, or a restart: the process ends in
  any state and starts again with the storage it left. The passes of the two loops are atomic
  here; in the code they interleave, but the polling loop and the refresher touch different
  parts of the storage and of the tracker (\<open>same_polling\<close>, \<open>pass_kept\<close>). \<open>room\<close> says that
  the 64-bit counters and slots have room for the pass.
\<close>

inductive tracker_step ::
  "(int \<Rightarrow> int) \<Rightarrow> ('ty, 'c, 'l) EventTracker \<Rightarrow> ('w, 'ev) tracker_world \<Rightarrow> ('d, 'ev, 'm) StorageHandler \<Rightarrow>
   ('ty, 'ev) event_lib \<Rightarrow> nat \<Rightarrow> (('d, 'w) tracker_state \<Rightarrow> bool) \<Rightarrow>
   ('d, 'w) tracker_state \<Rightarrow> ('d, 'w) tracker_state \<Rightarrow> bool"
  for ovf t env st lib fuel room where
  poll: "room s \<Longrightarrow> transactionPollingPass t env st lib fuel s = (r, s') \<Longrightarrow> tracker_step ovf t env st lib fuel room s s'"
| refresh: "room s \<Longrightarrow> chainHeadRefreshPass ovf t env st s = (r, s') \<Longrightarrow> tracker_step ovf t env st lib fuel room s s'"
| outside: "tracker_step ovf t env st lib fuel room s (s\<lparr>world := w\<rparr>)"
| restart: "initialize st (s\<lparr>chainHeadSlot := et_startFromSlot t,
      latestGetBlocksState := \<lparr>lg_chainHeadSlot = et_startFromSlot t, lg_queriedBlocksWithSlotsLen = 0\<rparr>\<rparr>) = (Inr (), s') \<Longrightarrow>
    tracker_step ovf t env st lib fuel room s s'"

inductive_cases tracker_stepE: "tracker_step ovf t env st lib fuel room s s'"

text \<open>
  A run of \<open>Start\<close> is a run of this relation, whatever the order of the passes, as long as the
  states it goes through leave room.
\<close>

lemma attempt_state: "attempt m s = (r, s') \<Longrightarrow> \<exists>r'. m s = (r', s')"
  by (auto simp: attempt_def split: prod.splits sum.splits if_splits)

lemma run_loops_steps:
  assumes "run_loops ovf t env st lib fuel refreshing schedule s = (r, s')"
    and "\<And>s'. (tracker_step ovf t env st lib fuel (\<lambda>_. True))\<^sup>*\<^sup>* s s' \<Longrightarrow> room s'"
  shows "(tracker_step ovf t env st lib fuel room)\<^sup>*\<^sup>* s s'"
  using assms
proof (induction ovf t env st lib fuel refreshing schedule arbitrary: s r rule: run_loops.induct)
  case (1 ovf t env st lib fuel refreshing)
  then show ?case by (simp add: ret_def)
next
  case (2 ovf t env st lib fuel refreshing schedule)
  obtain r1 s1 where pass: "attempt (transactionPollingPass t env st lib fuel) s = (r1, s1)" by fastforce
  then obtain r' where "transactionPollingPass t env st lib fuel s = (r', s1)" using attempt_state [OF pass] by blast
  note step = tracker_step.poll [where room = room, OF _ this] and any = tracker_step.poll [where room = "\<lambda>_. True", OF TrueI this]
  have rest: "\<And>s'. (tracker_step ovf t env st lib fuel (\<lambda>_. True))\<^sup>*\<^sup>* s1 s' \<Longrightarrow> room s'"
    using 2(3) converse_rtranclp_into_rtranclp [of "tracker_step ovf t env st lib fuel (\<lambda>_. True)", OF any] by blast
  have first: "tracker_step ovf t env st lib fuel room s s1" using step 2(3) by blast
  show ?case
  proof (cases r1)
    case (Inl e)
    with 2(2) pass first show ?thesis by (simp add: bind_def)
  next
    case (Inr x)
    with 2(2) pass have "run_loops ovf t env st lib fuel refreshing schedule s1 = (r, s')" by (simp add: bind_def)
    from converse_rtranclp_into_rtranclp [OF first 2(1) [OF this rest]] show ?thesis .
  qed
next
  case (3 ovf t env st lib fuel refreshing schedule)
  show ?case
  proof (cases refreshing)
    case False
    with 3 show ?thesis by simp
  next
    case True
    obtain r1 s1 where pass: "attempt (chainHeadRefreshPass ovf t env st) s = (r1, s1)" by fastforce
    then obtain r' where "chainHeadRefreshPass ovf t env st s = (r', s1)" using attempt_state [OF pass] by blast
    note step = tracker_step.refresh [where room = room, OF _ this] and any = tracker_step.refresh [where room = "\<lambda>_. True", OF TrueI this]
    have rest: "\<And>s'. (tracker_step ovf t env st lib fuel (\<lambda>_. True))\<^sup>*\<^sup>* s1 s' \<Longrightarrow> room s'"
      using 3(4) converse_rtranclp_into_rtranclp [of "tracker_step ovf t env st lib fuel (\<lambda>_. True)", OF any] by blast
    have first: "tracker_step ovf t env st lib fuel room s s1" using step 3(4) by blast
    show ?thesis
    proof (cases r1)
      case (Inl e)
      with 3(3) pass first True show ?thesis by (simp add: bind_def)
    next
      case (Inr x)
      with 3(3) pass True have "run_loops ovf t env st lib fuel (case x of Inl _ \<Rightarrow> True | Inr goes_on \<Rightarrow> goes_on) schedule s1 = (r, s')"
        by (simp add: bind_def)
      from converse_rtranclp_into_rtranclp [OF first 3(1) [OF True this rest]] show ?thesis .
    qed
  qed
qed

lemma initialize_failed: "initialize st s = (Inl e, s') \<Longrightarrow> s' = s"
  by (auto simp: initialize_def bind_def from_storage_def liftR_def gets_def modify_def ret_def fail_def
      split: sum.splits option.splits if_splits)

lemma EventTracker_Start_steps:
  fixes s :: "('d, 'w) tracker_state"
  assumes run: "EventTracker_Start ovf t env st lib fuel schedule s = (r, s')"
    and fresh: "chainHeadSlot s = et_startFromSlot t"
      "latestGetBlocksState s = \<lparr>lg_chainHeadSlot = et_startFromSlot t, lg_queriedBlocksWithSlotsLen = 0\<rparr>"
    and room: "\<And>s'. (tracker_step ovf t env st lib fuel (\<lambda>_. True))\<^sup>*\<^sup>* s s' \<Longrightarrow> room s'"
  shows "(tracker_step ovf t env st lib fuel room)\<^sup>*\<^sup>* s s'"
proof (cases "initialize st s")
  case (Pair r1 s1)
  show ?thesis
  proof (cases r1)
    case (Inl e)
    with Pair initialize_failed [of st s e s1] run have "s' = s"
      by (auto simp: EventTracker_Start_def bind_def attempt_def ret_def split: if_splits)
    then show ?thesis by simp
  next
    case (Inr u)
    have "s\<lparr>chainHeadSlot := et_startFromSlot t,
        latestGetBlocksState := \<lparr>lg_chainHeadSlot = et_startFromSlot t, lg_queriedBlocksWithSlotsLen = 0\<rparr>\<rparr> = s"
      using fresh by (cases s) simp
    with Pair Inr have "initialize st (s\<lparr>chainHeadSlot := et_startFromSlot t,
        latestGetBlocksState := \<lparr>lg_chainHeadSlot = et_startFromSlot t, lg_queriedBlocksWithSlotsLen = 0\<rparr>\<rparr>) = (Inr (), s1)"
      by simp
    note step = tracker_step.restart [OF this]
    have loops: "run_loops ovf t env st lib fuel True schedule s1 = (r, s')"
      using run Pair Inr by (simp add: EventTracker_Start_def bind_def attempt_def)
    have "\<And>s'. (tracker_step ovf t env st lib fuel (\<lambda>_. True))\<^sup>*\<^sup>* s1 s' \<Longrightarrow> room s'"
      using room step by (meson converse_rtranclp_into_rtranclp)
    with loops have "(tracker_step ovf t env st lib fuel room)\<^sup>*\<^sup>* s1 s'" by (rule run_loops_steps)
    with step show ?thesis by (meson converse_rtranclp_into_rtranclp)
  qed
qed

definition tracker_room ::
  "('d \<Rightarrow> 'm abs_store) \<Rightarrow> ('ty, 'c, 'l) EventTracker \<Rightarrow> ('w, 'ev) tracker_world \<Rightarrow> nat \<Rightarrow> ('d, 'w) tracker_state \<Rightarrow> bool" where
  "tracker_room view t env n s \<longleftrightarrow> fetch_room n (length (et_trackedPrograms t)) (view (storage s)) \<and>
     events_fit t env (view (storage s)) \<and> no_slot_overflow t (chainHeadSlot s)"

definition tracker_inv :: "('d \<Rightarrow> bool) \<Rightarrow> ('d \<Rightarrow> 'm abs_store) \<Rightarrow> ('d, 'w) tracker_state \<Rightarrow> bool" where
  "tracker_inv ok view s \<longleftrightarrow>
     ok (storage s) \<and> queue_inv (view (storage s)) \<and> head_inv (chainHeadSlot s) (view (storage s))"

text \<open>The node answers as documented, and one program is tracked or the start slot is zero.\<close>

definition tracker_setting ::
  "('ty, 'c, 'l) EventTracker \<Rightarrow> ('w, 'ev) tracker_world \<Rightarrow> ('d, 'ev, 'm) StorageHandler \<Rightarrow> ('d \<Rightarrow> bool) \<Rightarrow> nat \<Rightarrow> nat \<Rightarrow> bool" where
  "tracker_setting t env st ok fuel n \<longleftrightarrow> cursor_writes_succeed st ok \<and> fetches_ok t env fuel n TYPE('d) \<and> blocks_between env \<and>
     head_config_ok t \<and> (length (et_trackedPrograms t) \<le> 1 \<or> et_startFromSlot t = 0)"

context storage_handler
begin

lemma tracker_step_inv:
  fixes s :: "('d, 'w) tracker_state"
  assumes setting: "tracker_setting t env st ok fuel n"
    and step: "tracker_step ovf t env st lib fuel (tracker_room view t env n) s s'"
    and inv: "tracker_inv ok view s"
  shows "tracker_inv ok view s'"
  using step
proof (cases rule: tracker_stepE [consumes 1, case_names poll refresh outside restart])
  case (poll r)
  note parts = inv [unfolded tracker_inv_def] setting [unfolded tracker_setting_def] poll(1) [unfolded tracker_room_def]
  have "pass_kept s s'"
    by (rule polling_pass [OF _ _ _ _ _ _ _ poll(2)]) (use parts in blast)+
  with parts show ?thesis by (simp add: tracker_inv_def pass_kept_def head_inv_def)
next
  case (refresh r)
  note parts = inv [unfolded tracker_inv_def] setting [unfolded tracker_setting_def] refresh(1) [unfolded tracker_room_def]
  have "ok (storage s') \<and> head_inv (chainHeadSlot s') (view (storage s')) \<and> same_polling (view (storage s)) (view (storage s'))"
    using chainHeadRefreshPass_effect [OF _ _ _ _ _ refresh(2)] parts by blast
  with parts show ?thesis using queue_inv_polling unfolding tracker_inv_def by blast
next
  case (outside w)
  with inv show ?thesis by (simp add: tracker_inv_def)
next
  case restart
  let ?s = "s\<lparr>chainHeadSlot := et_startFromSlot t,
      latestGetBlocksState := \<lparr>lg_chainHeadSlot = et_startFromSlot t, lg_queriedBlocksWithSlotsLen = 0\<rparr>\<rparr>"
  have "ok (storage ?s)" "\<forall>bp. as_head (view (storage ?s)) = Some bp \<longrightarrow> as_blocks (view (storage ?s)) (bp_BlockSlot bp) = Some bp"
    using inv by (simp_all add: tracker_inv_def head_inv_def)
  note start = initialize_effect [OF this restart]
  have "storage s' = storage s" using conjunct1 [OF start] by simp
  with inv conjunct1 [OF conjunct2 [OF start]] show ?thesis unfolding tracker_inv_def by metis
qed

lemma tracker_run_inv:
  fixes s0 :: "('d, 'w) tracker_state"
  assumes "tracker_setting t env st ok fuel n" "tracker_inv ok view s0"
    and "(tracker_step ovf t env st lib fuel (tracker_room view t env n))\<^sup>*\<^sup>* s0 s"
  shows "tracker_inv ok view s"
  using assms(3,2)
proof (induction rule: rtranclp_induct)
  case (step s1 s2)
  then show ?case using tracker_step_inv [OF assms(1)] by blast
qed

end

section \<open>A queue without its cursor\<close>

text \<open>
  The queue and the query cursor are written one after the other. When the second write fails,
  the queue holds transactions that the cursors do not show.
\<close>

definition stranded :: "'m abs_store \<Rightarrow> bool" where
  "stranded v \<longleftrightarrow> as_queue v \<noteq> [] \<and> tp_TxSignature (as_queried v) = tp_TxSignature (as_processed v)"

text \<open>A fetch that finds nothing new.\<close>

definition only_known ::
  "('ty, 'c, 'l) EventTracker \<Rightarrow> ('w, 'ev) tracker_world \<Rightarrow> nat \<Rightarrow> PublicKey \<Rightarrow> TxPoint \<Rightarrow> Signature set \<Rightarrow> 'd itself \<Rightarrow>
   bool" where
  "only_known t env fuel prog lq known d \<longleftrightarrow> (\<forall>(s :: ('d, 'w) tracker_state) sigs s'.
     signaturesForAddressFetcher t env fuel prog lq s = (Inr sigs, s') \<longrightarrow> ts_Signature ` set sigs \<subseteq> known)"

lemma known_finalized [simp]: "known_signatures sig_text slot (v\<lparr>as_finalized := n\<rparr>) = known_signatures sig_text slot v"
  by (simp add: known_signatures_def)

context storage_handler
begin

lemma fetchNext_known:
  fixes s :: "('d, 'w) tracker_state"
  assumes ok: "ok (storage s)" and known: "only_known t env fuel p lq (known_signatures sig_text (tp_Slot lq) (view (storage s))) TYPE('d)"
    and run: "fetchNextGetSignaturesForAddress t env st fuel p lq s = (r, s')"
  shows "ok (storage s') \<and> (\<exists>n. view (storage s') = (view (storage s))\<lparr>as_finalized := n\<rparr>)"
proof -
  have stay: ?thesis if "storage s' = storage s"
    using that ok by (intro conjI exI [of _ "as_finalized (view (storage s))"]) simp_all
  obtain rh w1 where height: "w_GetBlockHeight env CommitmentFinalized (world s) = (rh, w1)"
    by (cases "w_GetBlockHeight env CommitmentFinalized (world s)")
  obtain rf s2 where fetch: "signaturesForAddressFetcher t env fuel p lq (s\<lparr>world := w1\<rparr>) = (rf, s2)"
    by (cases "signaturesForAddressFetcher t env fuel p lq (s\<lparr>world := w1\<rparr>)")
  obtain w2 where s2: "s2 = s\<lparr>world := w2\<rparr>" using world_onlyD [OF world_only_fetcher fetch] by auto
  note defs = fetchNextGetSignaturesForAddress_def bind_def on_world_simp height fetch s2 wrapE_def from_storage_def
  show ?thesis
  proof (cases rh)
    case (Inl e)
    with run have "s' = s\<lparr>world := w1\<rparr>" by (simp add: defs)
    then show ?thesis by (intro stay) simp
  next
    case h: (Inr h)
    show ?thesis
    proof (cases rf)
      case (Inl e)
      with run h have "s' = s2" by (simp add: defs)
      then show ?thesis by (intro stay) (simp add: s2)
    next
      case sigs: (Inr sigs)
      show ?thesis
      proof (cases "getQueuedTxSignatures st (tp_Slot lq) (storage s)")
        case (Inl e)
        with run h sigs have "s' = s2" by (simp add: defs)
        then show ?thesis by (intro stay) (simp add: s2)
      next
        case (Inr S)
        have "ts_Signature ` set sigs \<subseteq> S"
          using known fetch sigs get_known [OF ok Inr] unfolding only_known_def by blast
        then have none: "filter (\<lambda>x. ts_Signature x \<notin> S) sigs = []" by (auto simp: filter_empty_conv)
        obtain rw d where wr: "sh_StoreLatestFinalizedBlockNumber st h (storage s) = (rw, d)"
          by (cases "sh_StoreLatestFinalizedBlockNumber st h (storage s)")
        have "storage s' = d" using run h sigs Inr none wr
          by (cases rw) (auto simp: defs on_storage_simp)
        with writesD [OF set_finalized [OF ok] wr] show ?thesis
          by (cases rw) (auto intro: exI [of _ "as_finalized (view (storage s))"])
      qed
    qed
  qed
qed

lemma fetch_all_known:
  fixes s :: "('d, 'w) tracker_state"
  assumes "ok (storage s)"
    and "\<forall>p \<in> set ps. only_known t env fuel p lq (known_signatures sig_text (tp_Slot lq) (view (storage s))) TYPE('d)"
    and "for_each (\<lambda>p. bind (attempt (fetchNextGetSignaturesForAddress t env st fuel p lq)) (\<lambda>_. ret ())) ps s = (r, s')"
  shows "ok (storage s') \<and> (\<exists>n. view (storage s') = (view (storage s))\<lparr>as_finalized := n\<rparr>)"
  using assms
proof (induction ps arbitrary: s)
  case Nil
  then have "s' = s" by (simp add: ret_def)
  with Nil.prems(1) show ?case by (intro conjI exI [of _ "as_finalized (view (storage s))"]) simp_all
next
  case (Cons p ps)
  obtain r1 s1 where one: "fetchNextGetSignaturesForAddress t env st fuel p lq s = (r1, s1)"
    by (cases "fetchNextGetSignaturesForAddress t env st fuel p lq s")
  from fetchNext_known [OF Cons.prems(1) bspec [OF Cons.prems(2) list.set_intros(1)] one] obtain n where ok1: "ok (storage s1)"
    and v1: "view (storage s1) = (view (storage s))\<lparr>as_finalized := n\<rparr>" by blast
  from Cons.prems(3) consider "s' = s1" |
    "for_each (\<lambda>p. bind (attempt (fetchNextGetSignaturesForAddress t env st fuel p lq)) (\<lambda>_. ret ())) ps s1 = (r, s')"
    by (auto simp: bind_def attempt_def one ret_def split: sum.splits if_splits)
  then show ?case
  proof cases
    case 1
    with ok1 v1 show ?thesis by blast
  next
    case 2
    have "\<forall>p \<in> set ps. only_known t env fuel p lq (known_signatures sig_text (tp_Slot lq) (view (storage s1))) TYPE('d)"
      using Cons.prems(2) by (simp add: v1)
    from Cons.IH [OF ok1 this 2] v1 show ?thesis by auto
  qed
qed

lemma stranded_pass:
  fixes s :: "('d, 'w) tracker_state"
  assumes ok: "ok (storage s)" and stranded: "stranded (view (storage s))"
    and known: "\<forall>p \<in> set (map fst (et_trackedPrograms t)). only_known t env fuel p (as_queried (view (storage s)))
      (known_signatures sig_text (tp_Slot (as_queried (view (storage s)))) (view (storage s))) TYPE('d)"
    and run: "transactionPollingPass t env st lib fuel s = (r, s')"
  shows "ok (storage s') \<and> (\<exists>n. view (storage s') = (view (storage s))\<lparr>as_finalized := n\<rparr>)"
proof -
  have stay: ?thesis if "s' = s"
    using that ok by (intro conjI exI [of _ "as_finalized (view (storage s))"]) simp_all
  show ?thesis
  proof (cases "sh_GetLastProcessedTransaction st (storage s)")
    case (Inl e)
    with run show ?thesis
      by (intro stay, cases "stops e") (simp_all add: transactionPollingPass_def bind_def attempt_def from_storage_def ret_def)
  next
    case lp: (Inr lp)
    show ?thesis
    proof (cases "sh_GetLatestQueriedTransaction st (storage s)")
      case (Inl e)
      with run lp show ?thesis
        by (intro stay, cases "stops e") (simp_all add: transactionPollingPass_def bind_def attempt_def from_storage_def ret_def)
    next
      case lq: (Inr lq)
      have eq: "tp_TxSignature lq = tp_TxSignature lp" and queried: "lq = as_queried (view (storage s))"
        using stranded get_processed [OF ok lp] get_queried [OF ok lq] by (simp_all add: stranded_def)
      from run lp lq eq have
        "for_each (\<lambda>p. bind (attempt (fetchNextGetSignaturesForAddress t env st fuel p lq)) (\<lambda>_. ret ()))
           (map fst (et_trackedPrograms t)) s = (r, s')"
        by (simp add: transactionPollingPass_def bind_def attempt_def from_storage_def)
      with known ok fetch_all_known show ?thesis unfolding queried by blast
    qed
  qed
qed

text \<open>A fetch that pushed and then failed on the cursor leaves the queue stranded.\<close>

lemma fetchNext_strands:
  fixes s :: "('d, 'w) tracker_state"
  assumes ok: "ok (storage s)"
    and cursors: "tp_TxSignature (as_queried (view (storage s))) = tp_TxSignature (as_processed (view (storage s)))"
    and room: "\<And>(s1 :: ('d, 'w) tracker_state) sigs s2. signaturesForAddressFetcher t env fuel p lq s1 = (Inr sigs, s2) \<Longrightarrow>
      push_room (length sigs) (view (storage s))"
    and run: "fetchNextGetSignaturesForAddress t env st fuel p lq s = (Inl e, s')"
    and changed: "as_queue (view (storage s')) \<noteq> as_queue (view (storage s))"
  shows "ok (storage s') \<and> stranded (view (storage s')) \<and>
    (\<exists>sigs (s1 :: ('d, 'w) tracker_state) s2. signaturesForAddressFetcher t env fuel p lq s1 = (Inr sigs, s2) \<and> view (storage s') =
      spec_push (new_points t lq (filter (\<lambda>x. ts_Signature x \<notin> known_signatures sig_text (tp_Slot lq) (view (storage s))) sigs))
        (view (storage s)))"
proof -
  obtain rh w1 where height: "w_GetBlockHeight env CommitmentFinalized (world s) = (rh, w1)"
    by (cases "w_GetBlockHeight env CommitmentFinalized (world s)")
  obtain rf s2 where fetch: "signaturesForAddressFetcher t env fuel p lq (s\<lparr>world := w1\<rparr>) = (rf, s2)"
    by (cases "signaturesForAddressFetcher t env fuel p lq (s\<lparr>world := w1\<rparr>)")
  obtain w2 where s2: "s2 = s\<lparr>world := w2\<rparr>" using world_onlyD [OF world_only_fetcher fetch] by auto
  note defs = fetchNextGetSignaturesForAddress_def bind_def on_world_simp height fetch s2 wrapE_def from_storage_def
  obtain h where h: "rh = Inr h"
    using run changed by (cases rh) (auto simp: defs)
  obtain sigs where sigs: "rf = Inr sigs"
    using run changed h by (cases rf) (auto simp: defs)
  obtain S where S: "getQueuedTxSignatures st (tp_Slot lq) (storage s) = Inr S"
    using run changed h sigs by (cases "getQueuedTxSignatures st (tp_Slot lq) (storage s)") (auto simp: defs)
  note known = get_known [OF ok S]
  let ?new = "filter (\<lambda>x. ts_Signature x \<notin> S) sigs"
  let ?pts = "new_points t lq ?new"
  have "length ?pts \<le> length sigs" using length_new_points [of t lq ?new] length_filter_le le_trans by blast
  then have room': "push_room (length ?pts) (view (storage s))"
    using room [OF fetch [unfolded sigs]] by (simp add: push_room_def)
  note defs' = defs h sigs S on_storage_simp points_loop_new_points Let_def
  have new: "?new \<noteq> []"
  proof
    assume none: "?new = []"
    obtain r1 d1 where p1: "sh_StoreLatestFinalizedBlockNumber st h (storage s) = (r1, d1)"
      by (cases "sh_StoreLatestFinalizedBlockNumber st h (storage s)")
    from run none p1 have "storage s' = d1" by (cases r1) (auto simp: defs')
    with writesD [OF set_finalized [OF ok] p1] changed show False by (cases r1) auto
  qed
  have pts: "?pts \<noteq> []"
  proof
    assume none: "?pts = []"
    let ?p = "\<lparr>tp_TxSignature = ts_Signature (?new ! 0), tp_Slot = ts_Slot (?new ! 0)\<rparr>"
    obtain r1 d1 where p1: "sh_SetLastProcessedTransaction st ?p (storage s) = (r1, d1)"
      by (cases "sh_SetLastProcessedTransaction st ?p (storage s)")
    obtain r2 d2 where p2: "sh_StoreLatestQueriedTransaction st ?p d1 = (r2, d2)"
      by (cases "sh_StoreLatestQueriedTransaction st ?p d1")
    note w1 = writesD [OF set_processed [OF ok] p1]
    note w2 = writesD [OF set_queried [OF w1(1)] p2]
    have "storage s' = d1 \<or> storage s' = d2"
      using run none new p1 p2 by (cases r1; cases r2) (auto simp: defs')
    moreover have "as_queue (view d1) = as_queue (view (storage s))" using w1(2,3) by (cases r1) auto
    moreover have "as_queue (view d2) = as_queue (view d1)" using w2(2,3) by (cases r2) auto
    ultimately show False using changed by metis
  qed
  obtain r1 d1 where p1: "sh_PushUnprocessedTransactions st ?pts (storage s) = (r1, d1)"
    by (cases "sh_PushUnprocessedTransactions st ?pts (storage s)")
  obtain r2 d2 where p2: "sh_StoreLatestQueriedTransaction st (last ?pts) d1 = (r2, d2)"
    by (cases "sh_StoreLatestQueriedTransaction st (last ?pts) d1")
  note w1 = writesD [OF push [OF ok room'] p1]
  note w2 = writesD [OF set_queried [OF w1(1)] p2]
  obtain u where r1: "r1 = Inr u"
  proof (cases r1)
    case (Inl e')
    with run new pts p1 have "storage s' = d1" by (auto simp: defs')
    with w1(3) [OF Inl] changed show ?thesis by simp
  qed
  with run new pts p1 p2 have "storage s' = d2 \<and> (\<exists>e. r2 = Inl e)" by (cases r2) (auto simp: defs')
  with w1(2) w2(1,3) r1 have st': "storage s' = d2" "ok d2" and v': "view d2 = spec_push ?pts (view (storage s))" by auto
  have "as_queue (view d2) \<noteq> []" using changed by (auto simp: st' v' spec_push_def)
  then have "stranded (view d2)" using cursors by (simp add: stranded_def v' spec_push_def)
  then show ?thesis using st' v' fetch [unfolded sigs] unfolding known by blast
qed

end

end
