(* ===== verification/Tracker_Failures.thy ===== *)
theory Tracker_Failures
  imports Tracker_System
begin

text \<open>
  What is left of the invariant of the tracker when any write may fail, the write of the query
  cursor included, and any number of programs is tracked from any slot: nothing is queued twice,
  and the last processed transaction is not queued.
\<close>

section \<open>The invariant\<close>

definition queue_sound :: "'m abs_store \<Rightarrow> bool" where
  "queue_sound v \<longleftrightarrow> distinct (map tp_TxSignature (as_queue v)) \<and>
     tp_TxSignature (as_processed v) \<notin> tp_TxSignature ` set (as_queue v)"

lemma queue_inv_sound: "queue_inv v \<Longrightarrow> queue_sound v"
  by (simp add: queue_inv_def queue_sound_def)

lemma queue_sound_same: "same_queue v v' \<Longrightarrow> queue_sound v' = queue_sound v"
  by (drule same_queueD) (simp add: queue_sound_def)

lemma queue_sound_polling: "same_polling v v' \<Longrightarrow> queue_sound v' = queue_sound v"
  by (drule same_pollingD) (simp add: queue_sound_def)

lemma queue_sound_finalize: "queue_sound v \<Longrightarrow> as_queue v \<noteq> [] \<Longrightarrow> queue_sound (spec_finalize v)"
  by (cases "as_queue v") (auto simp: queue_sound_def spec_finalize_def)

lemma queue_sound_moved: "moved v v' \<Longrightarrow> queue_sound v \<Longrightarrow> queue_sound v'"
  unfolding moved_def by (metis queue_sound_same queue_sound_finalize)

section \<open>A fetch that may fail anywhere\<close>

text \<open>What a fetch may have done with the new signatures and their points when it ends.\<close>

definition fetched_into :: "TransactionSignature list \<Rightarrow> TxPoint list \<Rightarrow> 'm abs_store \<Rightarrow> 'm abs_store \<Rightarrow> bool" where
  "fetched_into new pts v v' \<longleftrightarrow> as_head v' = as_head v \<and> as_blocks v' = as_blocks v \<and> as_popped v' = as_popped v \<and>
     (as_queue v' = as_queue v \<and> as_processed v' = as_processed v \<or>
      as_queue v' = as_queue v @ filter (\<lambda>p. tp_TxSignature p \<noteq> 0) pts \<and> as_processed v' = as_processed v \<or>
      as_queue v' = as_queue v \<and> tp_TxSignature (as_processed v') \<in> ts_Signature ` set new)"

lemma fetched_into_same: "fetched_into new pts v v"
  by (simp add: fetched_into_def)

lemma queue_sound_fetched:
  assumes "queue_sound v" "fetched_into new pts v v'" "distinct (map ts_Signature new)"
    and "ts_Signature ` set new \<inter> known_signatures sig_text slot v = {}" and pts: "pts = new_points t lq new"
  shows "queue_sound v'"
proof -
  let ?nz = "filter (\<lambda>p. tp_TxSignature p \<noteq> 0) pts"
  have queued: "tp_TxSignature ` set (as_queue v) \<inter> ts_Signature ` set new = {}"
    using assms(4) by (auto simp: known_signatures_def)
  have processed: "tp_TxSignature (as_processed v) \<noteq> 0 \<Longrightarrow> tp_TxSignature (as_processed v) \<notin> ts_Signature ` set new"
    using assms(4) by (auto simp: known_signatures_def)
  have sub: "tp_TxSignature ` set pts \<subseteq> ts_Signature ` set new"
    unfolding pts by (auto dest!: set_new_points)
  have "distinct (map tp_TxSignature pts)"
    using assms(3) by (simp add: pts new_points_def comp_def rev_filter [symmetric] rev_map [symmetric] distinct_map_filter)
  then have "distinct (map tp_TxSignature ?nz)" by (rule distinct_map_filter)
  moreover have "tp_TxSignature ` set (as_queue v) \<inter> tp_TxSignature ` set ?nz = {}" using queued sub by fastforce
  moreover have "tp_TxSignature (as_processed v) \<notin> tp_TxSignature ` set ?nz" using processed sub by fastforce
  ultimately have push: "queue_sound v'" if "as_queue v' = as_queue v @ ?nz" "as_processed v' = as_processed v"
    using that assms(1) by (simp add: queue_sound_def image_Un)
  have skip: "queue_sound v'" if "as_queue v' = as_queue v" "tp_TxSignature (as_processed v') \<in> ts_Signature ` set new"
    using that assms(1) queued by (auto simp: queue_sound_def)
  from assms(2) consider "as_queue v' = as_queue v" "as_processed v' = as_processed v"
    | "as_queue v' = as_queue v @ ?nz" "as_processed v' = as_processed v"
    | "as_queue v' = as_queue v" "tp_TxSignature (as_processed v') \<in> ts_Signature ` set new"
    unfolding fetched_into_def by blast
  then show ?thesis
  proof cases
    case 1
    with assms(1) show ?thesis by (simp add: queue_sound_def)
  qed (fact push skip)+
qed

context storage_handler
begin

lemma fetchNext_any:
  fixes s :: "('d, 'w) tracker_state"
  assumes ok: "ok (storage s)"
    and room: "\<And>(s1 :: ('d, 'w) tracker_state) sigs s2. signaturesForAddressFetcher t env fuel p lq s1 = (Inr sigs, s2) \<Longrightarrow>
      push_room (length sigs) (view (storage s))"
    and run: "fetchNextGetSignaturesForAddress t env st fuel p lq s = (r, s')"
  shows "ok (storage s') \<and> chainHeadSlot s' = chainHeadSlot s \<and> (view (storage s') = view (storage s) \<or>
    (\<exists>sigs new (s1 :: ('d, 'w) tracker_state) s2. signaturesForAddressFetcher t env fuel p lq s1 = (Inr sigs, s2) \<and>
       new = filter (\<lambda>x. ts_Signature x \<notin> known_signatures sig_text (tp_Slot lq) (view (storage s))) sigs \<and>
       fetched_into new (new_points t lq new) (view (storage s)) (view (storage s'))))"
proof -
  obtain rh w1 where height: "w_GetBlockHeight env CommitmentFinalized (world s) = (rh, w1)"
    by (cases "w_GetBlockHeight env CommitmentFinalized (world s)")
  obtain rf s2 where fetch: "signaturesForAddressFetcher t env fuel p lq (s\<lparr>world := w1\<rparr>) = (rf, s2)"
    by (cases "signaturesForAddressFetcher t env fuel p lq (s\<lparr>world := w1\<rparr>)")
  obtain w2 where s2: "s2 = s\<lparr>world := w2\<rparr>" using world_onlyD [OF world_only_fetcher fetch] by auto
  note defs = fetchNextGetSignaturesForAddress_def bind_def on_world_simp height fetch s2 wrapE_def from_storage_def
  have stay: ?thesis if "storage s' = storage s" "chainHeadSlot s' = chainHeadSlot s"
    using that ok by simp
  show ?thesis
  proof (cases "\<exists>h sigs S. rh = Inr h \<and> rf = Inr sigs \<and> getQueuedTxSignatures st (tp_Slot lq) (storage s) = Inr S")
    case False
    show ?thesis
    proof (rule stay)
      show "storage s' = storage s" "chainHeadSlot s' = chainHeadSlot s"
        using False run by (cases rh; cases rf; cases "getQueuedTxSignatures st (tp_Slot lq) (storage s)"; auto simp: defs)+
    qed
  next
    case True
    then obtain h sigs S where h: "rh = Inr h" and sigs: "rf = Inr sigs"
      and S: "getQueuedTxSignatures st (tp_Slot lq) (storage s) = Inr S" by blast
    note known = get_known [OF ok S]
    let ?new = "filter (\<lambda>x. ts_Signature x \<notin> S) sigs"
    let ?pts = "new_points t lq ?new"
    have "length ?pts \<le> length sigs" using length_new_points [of t lq ?new] length_filter_le le_trans by blast
    then have room': "push_room (length ?pts) (view (storage s))"
      using room [OF fetch [unfolded sigs]] by (simp add: push_room_def)
    note defs' = defs h sigs S on_storage_simp points_loop_new_points Let_def
    have "ok (storage s') \<and> chainHeadSlot s' = chainHeadSlot s \<and>
      fetched_into ?new ?pts (view (storage s)) (view (storage s'))"
    proof (cases "?new = []")
      case True
      obtain r1 d1 where p1: "sh_StoreLatestFinalizedBlockNumber st h (storage s) = (r1, d1)"
        by (cases "sh_StoreLatestFinalizedBlockNumber st h (storage s)")
      from run True p1 have "storage s' = d1" "chainHeadSlot s' = chainHeadSlot s" by (cases r1; auto simp: defs')+
      with writesD [OF set_finalized [OF ok] p1] show ?thesis by (cases r1) (auto simp: fetched_into_def)
    next
      case new: False
      show ?thesis
      proof (cases "?pts = []")
        case True
        let ?p = "\<lparr>tp_TxSignature = ts_Signature (?new ! 0), tp_Slot = ts_Slot (?new ! 0)\<rparr>"
        obtain r1 d1 where p1: "sh_SetLastProcessedTransaction st ?p (storage s) = (r1, d1)"
          by (cases "sh_SetLastProcessedTransaction st ?p (storage s)")
        obtain r2 d2 where p2: "sh_StoreLatestQueriedTransaction st ?p d1 = (r2, d2)"
          by (cases "sh_StoreLatestQueriedTransaction st ?p d1")
        note w1 = writesD [OF set_processed [OF ok] p1]
        note w2 = writesD [OF set_queried [OF w1(1)] p2]
        have "?new ! 0 \<in> set ?new" using new by (intro nth_mem) simp
        then have newest: "tp_TxSignature ?p \<in> ts_Signature ` set ?new" by simp
        have "view d2 = view d1 \<or> view d2 = (view d1)\<lparr>as_queried := ?p\<rparr>" using w2(2,3) by (cases r2) auto
        moreover have "view d1 = view (storage s) \<or> view d1 = (view (storage s))\<lparr>as_processed := ?p\<rparr>"
          using w1(2,3) by (cases r1) auto
        moreover have "storage s' = d1 \<or> storage s' = d2" "chainHeadSlot s' = chainHeadSlot s"
          using run True new p1 p2 by (cases r1; cases r2; auto simp: defs')+
        ultimately show ?thesis using w1(1) w2(1) newest unfolding fetched_into_def by auto
      next
        case False
        obtain r1 d1 where p1: "sh_PushUnprocessedTransactions st ?pts (storage s) = (r1, d1)"
          by (cases "sh_PushUnprocessedTransactions st ?pts (storage s)")
        obtain r2 d2 where p2: "sh_StoreLatestQueriedTransaction st (last ?pts) d1 = (r2, d2)"
          by (cases "sh_StoreLatestQueriedTransaction st (last ?pts) d1")
        note w1 = writesD [OF push [OF ok room'] p1]
        note w2 = writesD [OF set_queried [OF w1(1)] p2]
        have "view d2 = view d1 \<or> view d2 = (view d1)\<lparr>as_queried := last ?pts\<rparr>" using w2(2,3) by (cases r2) auto
        moreover have "view d1 = view (storage s) \<or> view d1 = spec_push ?pts (view (storage s))"
          using w1(2,3) by (cases r1) auto
        moreover have "storage s' = d1 \<or> storage s' = d2" "chainHeadSlot s' = chainHeadSlot s"
          using run False new p1 p2 by (cases r1; cases r2; auto simp: defs')+
        ultimately show ?thesis using w1(1) w2(1) unfolding fetched_into_def spec_push_def by auto
      qed
    qed
    then show ?thesis using fetch [unfolded sigs] unfolding known by blast
  qed
qed

text \<open>What every fetch and every polling pass keeps.\<close>

definition sound_kept :: "('d, 'w) tracker_state \<Rightarrow> ('d, 'w) tracker_state \<Rightarrow> bool" where
  "sound_kept s s' \<longleftrightarrow> ok (storage s') \<and> queue_sound (view (storage s')) \<and> chainHeadSlot s' = chainHeadSlot s \<and>
     as_head (view (storage s')) = as_head (view (storage s)) \<and> as_blocks (view (storage s')) = as_blocks (view (storage s))"

lemma sound_kept_trans: "sound_kept s s1 \<Longrightarrow> sound_kept s1 s' \<Longrightarrow> sound_kept s s'"
  by (simp add: sound_kept_def)

lemma fetch_step_any:
  fixes s :: "('d, 'w) tracker_state"
  assumes ok: "ok (storage s)" and inv: "queue_sound (view (storage s))"
    and fetches: "fetches_ok t env fuel n TYPE('d)" and room: "fetch_room n (Suc k) (view (storage s))"
    and run: "fetchNextGetSignaturesForAddress t env st fuel p lq s = (r, s')"
  shows "sound_kept s s' \<and> fetch_room n k (view (storage s'))"
proof -
  have bound: "length sigs \<le> n" "distinct (map ts_Signature sigs)"
    if "signaturesForAddressFetcher t env fuel p lq (s1 :: ('d, 'w) tracker_state) = (Inr sigs, s2)" for s1 sigs s2
    using fetches that unfolding fetches_ok_def by blast+
  have room': "push_room (length sigs) (view (storage s))"
    if "signaturesForAddressFetcher t env fuel p lq (s1 :: ('d, 'w) tracker_state) = (Inr sigs, s2)" for s1 sigs s2
    using bound(1) [OF that] room unfolding push_room_def fetch_room_def by simp
  have cases: "ok (storage s') \<and> chainHeadSlot s' = chainHeadSlot s \<and> (view (storage s') = view (storage s) \<or>
    (\<exists>sigs new (s1 :: ('d, 'w) tracker_state) s2. signaturesForAddressFetcher t env fuel p lq s1 = (Inr sigs, s2) \<and>
       new = filter (\<lambda>x. ts_Signature x \<notin> known_signatures sig_text (tp_Slot lq) (view (storage s))) sigs \<and>
       fetched_into new (new_points t lq new) (view (storage s)) (view (storage s'))))"
    by (rule fetchNext_any [OF ok _ run]) (rule room')
  then consider (same) "view (storage s') = view (storage s)"
    | (new) sigs new and s1 s2 :: "('d, 'w) tracker_state" where "signaturesForAddressFetcher t env fuel p lq s1 = (Inr sigs, s2)"
      "new = filter (\<lambda>x. ts_Signature x \<notin> known_signatures sig_text (tp_Slot lq) (view (storage s))) sigs"
      "fetched_into new (new_points t lq new) (view (storage s)) (view (storage s'))"
    by blast
  then show ?thesis
  proof cases
    case same
    with cases inv room show ?thesis by (simp add: sound_kept_def fetch_room_def)
  next
    case new
    have "distinct (map ts_Signature new)" using bound(2) [OF new(1)] by (simp add: new(2) distinct_map_filter)
    moreover have "ts_Signature ` set new \<inter> known_signatures sig_text (tp_Slot lq) (view (storage s)) = {}" by (auto simp: new(2))
    ultimately have "queue_sound (view (storage s'))" by (rule queue_sound_fetched [OF inv new(3) _ _ refl])
    moreover have "length (filter (\<lambda>p. tp_TxSignature p \<noteq> 0) (new_points t lq new)) \<le> n"
      using length_filter_le [of "\<lambda>p. tp_TxSignature p \<noteq> 0" "new_points t lq new"] length_new_points [of t lq new] bound(1) [OF new(1)]
        length_filter_le [of "\<lambda>x. ts_Signature x \<notin> known_signatures sig_text (tp_Slot lq) (view (storage s))" sigs]
      unfolding new(2) by linarith
    then have "fetch_room n k (view (storage s'))" using room new(3) by (auto simp: fetched_into_def fetch_room_def)
    ultimately show ?thesis using cases new(3) by (simp add: sound_kept_def fetched_into_def)
  qed
qed

lemma fetch_all_any:
  fixes s :: "('d, 'w) tracker_state"
  assumes "ok (storage s)" "queue_sound (view (storage s))" "fetches_ok t env fuel n TYPE('d)"
    and "fetch_room n (length ps) (view (storage s))"
    and "for_each (\<lambda>p. bind (attempt (fetchNextGetSignaturesForAddress t env st fuel p lq)) (\<lambda>_. ret ())) ps s = (r, s')"
  shows "sound_kept s s'"
  using assms
proof (induction ps arbitrary: s)
  case Nil
  then show ?case by (simp add: ret_def sound_kept_def)
next
  case (Cons p ps)
  obtain r1 s1 where one: "fetchNextGetSignaturesForAddress t env st fuel p lq s = (r1, s1)"
    by (cases "fetchNextGetSignaturesForAddress t env st fuel p lq s")
  have "fetch_room n (Suc (length ps)) (view (storage s))" using Cons.prems(4) by simp
  from fetch_step_any [OF Cons.prems(1-3) this one]
  have kept: "sound_kept s s1" and room: "fetch_room n (length ps) (view (storage s1))" by blast+
  from Cons.prems(5) consider "s' = s1" |
    "for_each (\<lambda>p. bind (attempt (fetchNextGetSignaturesForAddress t env st fuel p lq)) (\<lambda>_. ret ())) ps s1 = (r, s')"
    by (auto simp: bind_def attempt_def one ret_def split: sum.splits if_splits)
  then show ?case
  proof cases
    case 2
    have "ok (storage s1)" "queue_sound (view (storage s1))" using kept by (simp_all add: sound_kept_def)
    from sound_kept_trans [OF kept Cons.IH [OF this Cons.prems(3) room 2]] show ?thesis .
  qed (use kept in simp)
qed

lemma polling_pass_any:
  fixes s :: "('d, 'w) tracker_state"
  assumes ok: "ok (storage s)" and inv: "queue_sound (view (storage s))" and fetches: "fetches_ok t env fuel n TYPE('d)"
    and room: "fetch_room n (length (et_trackedPrograms t)) (view (storage s))" and events: "events_fit t env (view (storage s))"
    and run: "transactionPollingPass t env st lib fuel s = (r, s')"
  shows "sound_kept s s'"
proof -
  note pass = transactionPollingPass_def bind_def attempt_def from_storage_def ret_def
  have stay: "sound_kept s s" using ok inv by (simp add: sound_kept_def)
  show ?thesis
  proof (cases "sh_GetLastProcessedTransaction st (storage s)")
    case (Inl e)
    with run have "s' = s" by (cases "stops e") (simp_all add: pass)
    with stay show ?thesis by simp
  next
    case lp: (Inr lp)
    show ?thesis
    proof (cases "sh_GetLatestQueriedTransaction st (storage s)")
      case (Inl e)
      with run lp have "s' = s" by (cases "stops e") (simp_all add: pass)
      with stay show ?thesis by simp
    next
      case lq: (Inr lq)
      show ?thesis
      proof (cases "tp_TxSignature lq = tp_TxSignature lp")
        case True
        have room': "fetch_room n (length (map fst (et_trackedPrograms t))) (view (storage s))" using room by simp
        from run lp lq True have
          "for_each (\<lambda>p. bind (attempt (fetchNextGetSignaturesForAddress t env st fuel p lq)) (\<lambda>_. ret ()))
             (map fst (et_trackedPrograms t)) s = (r, s')"
          by (simp add: transactionPollingPass_def bind_def attempt_def from_storage_def)
        from fetch_all_any [OF ok inv fetches room' this] show ?thesis .
      next
        case False
        obtain rf sf where full: "fetchNextGetFullTxBySignature t env st lib s = (rf, sf)"
          by (cases "fetchNextGetFullTxBySignature t env st lib s")
        from run lp lq False have "s' = sf"
          by (cases rf; cases "stops (projl rf)") (simp_all add: pass full)
        with fetchNextFull_cases [OF ok events full] queue_sound_moved [OF _ inv] moved_head show ?thesis
          unfolding sound_kept_def by blast
      qed
    qed
  qed
qed

section \<open>Every reachable state\<close>

lemma tracker_run_sound:
  fixes s0 :: "('d, 'w) tracker_state"
  assumes fetches: "fetches_ok t env fuel n TYPE('d)" and node: "blocks_between env" "head_config_ok t"
    and start: "ok (storage s0)" "queue_sound (view (storage s0))" "head_inv (chainHeadSlot s0) (view (storage s0))"
    and run: "(tracker_step ovf t env st lib fuel (tracker_room view t env n))\<^sup>*\<^sup>* s0 s"
  shows "ok (storage s) \<and> queue_sound (view (storage s)) \<and> head_inv (chainHeadSlot s) (view (storage s))"
  using run
proof (induction rule: rtranclp_induct)
  case base
  with start show ?case by blast
next
  case (step s1 s2)
  note inv = conjunct1 [OF step.IH] conjunct1 [OF conjunct2 [OF step.IH]] conjunct2 [OF conjunct2 [OF step.IH]]
  from step.hyps(2) show ?case
  proof (cases rule: tracker_stepE [consumes 1, case_names poll refresh outside restart])
    case (poll r)
    have "sound_kept s1 s2"
      by (rule polling_pass_any [OF inv(1,2) fetches _ _ poll(2)]) (use poll(1) [unfolded tracker_room_def] in blast)+
    with inv show ?thesis by (simp add: sound_kept_def head_inv_def)
  next
    case (refresh r)
    have "ok (storage s2) \<and> head_inv (chainHeadSlot s2) (view (storage s2)) \<and> same_polling (view (storage s1)) (view (storage s2))"
      using chainHeadRefreshPass_effect [OF inv(1,3) node _ refresh(2)] refresh(1) [unfolded tracker_room_def] by blast
    with inv(2) show ?thesis using queue_sound_polling by blast
  next
    case (outside w)
    with inv show ?thesis by simp
  next
    case restart
    let ?s = "s1\<lparr>chainHeadSlot := et_startFromSlot t,
        latestGetBlocksState := \<lparr>lg_chainHeadSlot = et_startFromSlot t, lg_queriedBlocksWithSlotsLen = 0\<rparr>\<rparr>"
    have "ok (storage ?s)" "\<forall>bp. as_head (view (storage ?s)) = Some bp \<longrightarrow> as_blocks (view (storage ?s)) (bp_BlockSlot bp) = Some bp"
      using inv by (simp_all add: head_inv_def)
    note effect = initialize_effect [OF this restart]
    have "storage s2 = storage s1" using conjunct1 [OF effect] by simp
    with inv conjunct1 [OF conjunct2 [OF effect]] show ?thesis by metis
  qed
qed

end

end
