(* ===== verification/Tracker_Properties.thy ===== *)
theory Tracker_Properties
  imports Tracker_Failures Storage_Properties
begin

text \<open>
  The properties of the tracker, for every storage that keeps the contract of the interface and
  every node that answers as documented, with the BoltDB handler on the in-memory store and a
  replayed node as the instance.
\<close>

section \<open>The instance\<close>

abbreviation mem_storage :: "(mem_db, unit, unit) StorageHandler" where
  "mem_storage \<equiv> BoltStorageHandler mem_api mem_codec"

abbreviation mem_ok :: "mem_db \<Rightarrow> bool" where
  "mem_ok \<equiv> bolt_ok mem_api mem_codec"

abbreviation mem_view :: "mem_db \<Rightarrow> unit abs_store" where
  "mem_view \<equiv> bolt_view mem_api mem_codec"

lemmas mem_contract = mem_handler.handler_contract

lemma mem_ops [simp]:
  "sh_StoreLatestFinalizedBlockNumber mem_storage = StoreLatestFinalizedBlockNumber mem_api"
  "sh_GetProcessedTxSignaturesBySlot mem_storage = GetProcessedTxSignaturesBySlot mem_api mem_codec"
  "sh_PushUnprocessedTransactions mem_storage = PushUnprocessedTransactions mem_api"
  "sh_GetAllUnprocessedTransactions mem_storage = GetAllUnprocessedTransactions mem_api"
  "sh_FinalizeProcessedTransaction mem_storage = FinalizeProcessedTransaction mem_api"
  "sh_GetLastProcessedTransaction mem_storage = GetLastProcessedTransaction mem_api"
  "sh_StoreLatestQueriedTransaction mem_storage = StoreLatestQueriedTransaction mem_api"
  "sh_GetLatestQueriedTransaction mem_storage = GetLatestQueriedTransaction mem_api"
  "sh_SetLastProcessedTransaction mem_storage = SetLastProcessedTransaction mem_api"
  by (simp_all add: BoltStorageHandler_def)

lemma mem_cursor_writes: "cursor_writes_succeed mem_storage mem_ok"
  unfolding cursor_writes_succeed_def using mem_handler.set_queried_live by (metis fst_conv mem_ops(7))

definition new_state :: "(mem_db, nat) tracker_state" where
  "new_state = example_state mem_new"

lemma new_state_simps [simp]:
  "storage new_state = mem_new" "chainHeadSlot new_state = 20" "world new_state = 0"
  "latestGetBlocksState new_state = \<lparr>lg_chainHeadSlot = 20, lg_queriedBlocksWithSlotsLen = 0\<rparr>"
  by (simp_all add: new_state_def example_state_def)

lemma new_state_inv: "tracker_inv mem_ok mem_view new_state"
  by (simp add: tracker_inv_def mem_new_ok queue_inv_def head_inv_def mem_new_view)

definition example_world :: "(Signature \<Rightarrow> GetTransactionResult option) \<Rightarrow> (nat, unit) tracker_world" where
  "example_world txs = replay_world (long_history 3) txs [20, 21, 28, 33, 41]"

lemma example_rpc: "history_rpc (example_world txs) prog (long_history 3)"
  unfolding example_world_def by (rule history_serves_rpc [OF replay_serves])

lemma long_history_3: "history_ok (long_history 3)"
  by (rule long_history_ok) simp

lemma example_blocks: "blocks_between (example_world txs)"
  by (auto simp: blocks_between_def example_world_def replay_world_def ret_def)

lemma example_bounds: "head_config_ok example_tracker" "no_slot_overflow example_tracker 20"
  by (simp_all add: head_config_ok_def no_slot_overflow_def example_tracker_def emptySlotsWithBlocksBackoff_def)

text \<open>What a node with one history gives to the fetcher is bounded by the history.\<close>

lemma history_fetches_ok:
  fixes env :: "('w, 'ev) tracker_world"
  assumes "\<And>prog. history_rpc env prog hist" "history_ok hist"
  shows "fetches_ok t env fuel (length hist) TYPE('d)"
  unfolding fetches_ok_def
proof (intro allI impI)
  fix prog lq sigs and s s' :: "('d, 'w) tracker_state"
  assume "signaturesForAddressFetcher t env fuel prog lq s = (Inr sigs, s')"
  from fetcher_result [OF assms this] have sigs: "sigs = newer_than lq hist" and "distinct (map ts_Signature sigs)" by blast+
  moreover have "set sigs \<subseteq> set hist" "length sigs \<le> length hist"
    by (auto simp: sigs newer_than_def length_takeWhile_le dest: set_takeWhileD)
  ultimately show "distinct (map ts_Signature sigs) \<and> 0 \<notin> ts_Signature ` set sigs \<and> length sigs \<le> length hist"
    using assms(2) unfolding history_ok_def by blast
qed

lemma example_setting: "tracker_setting example_tracker (example_world txs) mem_storage mem_ok fuel 3"
proof -
  have "length (long_history 3) = 3" by (simp add: long_history_def)
  with history_fetches_ok [OF example_rpc long_history_3] mem_cursor_writes example_blocks example_bounds show ?thesis
    by (simp add: tracker_setting_def example_tracker_def)
qed

section \<open>The system\<close>

text \<open>
  C1. Take a tracker whose cursor writes succeed (C35 shows that this is needed), over a node
  that answers as documented: no fetch gives a signature twice, a zero one or more than \<open>n\<close>, and
  \<open>getBlocks\<close> stays in the range asked for, in order. Let it track one program, or start from slot
  zero, with the head settings that \<open>NewEventTracker\<close> checks. Then in every state it reaches, by
  any sequence of polling passes, head refreshes, restarts and changes of the outside world, for
  which the 64-bit counters and slots have room, the storage is in order, no transaction is
  queued twice or queued and last processed, and the recorded head is a stored block at or below
  the slot the refresher is at. In particular the test of the polling loop, whether the two
  cursors differ, tells exactly whether there is something to process.
\<close>

theorem tracker_reachable_invariant:
  fixes s0 s :: "('d, 'w) tracker_state"
  assumes "storage_handler st ok view sig_text key_text"
    and "cursor_writes_succeed st ok" "fetches_ok t env fuel n TYPE('d)" "blocks_between env" "head_config_ok t"
    and "length (et_trackedPrograms t) \<le> 1 \<or> et_startFromSlot t = 0"
    and "tracker_inv ok view s0"
    and "(tracker_step ovf t env st lib fuel (tracker_room view t env n))\<^sup>*\<^sup>* s0 s"
  shows "ok (storage s) \<and>
    distinct (map tp_TxSignature (as_queue (view (storage s)))) \<and>
    tp_TxSignature (as_processed (view (storage s))) \<notin> tp_TxSignature ` set (as_queue (view (storage s))) \<and>
    (\<forall>bp. as_head (view (storage s)) = Some bp \<longrightarrow>
      as_blocks (view (storage s)) (bp_BlockSlot bp) = Some bp \<and> bp_BlockSlot bp \<le> chainHeadSlot s) \<and>
    tracker_inv ok view s \<and>
    (tp_TxSignature (as_queried (view (storage s))) \<noteq> tp_TxSignature (as_processed (view (storage s))) \<longleftrightarrow>
      as_queue (view (storage s)) \<noteq> [])"
proof -
  have "tracker_setting t env st ok fuel n" using assms(2-6) by (simp add: tracker_setting_def)
  from storage_handler.tracker_run_inv [OF assms(1) this assms(7,8)] have inv: "tracker_inv ok view s" .
  then have queue: "queue_inv (view (storage s))" by (simp add: tracker_inv_def)
  from inv queue_inv_sound [OF queue] show ?thesis
    unfolding queue_inv_cursors [OF queue] by (simp add: tracker_inv_def queue_sound_def head_inv_def)
qed

definition example_lib :: "(unit, unit) event_lib" where
  "example_lib = \<lparr>ReadDiscriminator = (\<lambda>d. if length d < 8 then Inl (ExtErr STR ''EOF'') else Inr (take 8 d, drop 8 d)),
     UnmarshalWithDecoder = (\<lambda>ty d. Some (Inr ())), as_TransactionExecutedEvent = (\<lambda>ev. None),
     payload_Marshal = (\<lambda>p. Inr []), payload_Unmarshal = (\<lambda>b. Inl (ExtErr STR ''EOF''))\<rparr>"

theorem tracker_reachable_invariant_witness:
  "\<exists>s. (tracker_step (\<lambda>x. x) example_tracker (example_world (\<lambda>_. None)) mem_storage example_lib 1
      (tracker_room mem_view example_tracker (example_world (\<lambda>_. None)) 3))\<^sup>*\<^sup>* new_state s
    \<and> queue_inv (mem_view (storage s)) \<and> head_inv (chainHeadSlot s) (mem_view (storage s))"
proof -
  let ?step = "tracker_step (\<lambda>x. x) example_tracker (example_world (\<lambda>_. None)) mem_storage example_lib 1
      (tracker_room mem_view example_tracker (example_world (\<lambda>_. None)) 3)"
  have room: "tracker_room mem_view example_tracker (example_world (\<lambda>_. None)) 3 new_state"
    using example_bounds(2)
    by (simp add: tracker_room_def fetch_room_def mem_new_view events_fit_def example_world_def replay_world_def ret_def
        example_tracker_def)
  obtain r s where "transactionPollingPass example_tracker (example_world (\<lambda>_. None)) mem_storage example_lib 1 new_state = (r, s)"
    by (cases "transactionPollingPass example_tracker (example_world (\<lambda>_. None)) mem_storage example_lib 1 new_state")
  with room have "?step new_state s" by (rule tracker_step.poll)
  then have run: "?step\<^sup>*\<^sup>* new_state s" by (rule r_into_rtranclp)
  note setting = example_setting [unfolded tracker_setting_def, of "\<lambda>_. None" 1]
  from tracker_reachable_invariant [OF mem_contract _ _ _ _ _ new_state_inv run] setting run show ?thesis
    by (auto simp: tracker_inv_def)
qed

text \<open>
  C15. A pass of the refresher never moves the chain head back and never past the window it
  asked for, leaves the queue, the cursors and the events alone, and keeps the recorded head a
  stored block at or below the slot it is at, whichever of its calls and writes fail.
\<close>

theorem chainHeadRefreshPass_monotone:
  fixes s s' :: "('d, 'w) tracker_state"
  assumes "storage_handler st ok view sig_text key_text"
    and "ok (storage s)" "head_inv (chainHeadSlot s) (view (storage s))"
    and "blocks_between env" "head_config_ok t" "no_slot_overflow t (chainHeadSlot s)"
    and "chainHeadRefreshPass ovf t env st s = (r, s')"
  shows "ok (storage s') \<and> head_inv (chainHeadSlot s') (view (storage s'))
    \<and> same_polling (view (storage s)) (view (storage s'))
    \<and> chainHeadSlot s \<le> chainHeadSlot s' \<and> chainHeadSlot s' \<le> chainHeadSlot s + et_chainHeadSlotOffset t"
  using assms by (rule storage_handler.chainHeadRefreshPass_effect)

theorem chainHeadRefreshPass_monotone_witness:
  "\<exists>r s'. chainHeadRefreshPass (\<lambda>x. x) example_tracker (example_world (\<lambda>_. None)) mem_storage new_state = (r, s') \<and>
     20 \<le> chainHeadSlot s' \<and> chainHeadSlot s' \<le> 100"
proof -
  obtain r s' where run: "chainHeadRefreshPass (\<lambda>x. x) example_tracker (example_world (\<lambda>_. None)) mem_storage new_state = (r, s')"
    by (cases "chainHeadRefreshPass (\<lambda>x. x) example_tracker (example_world (\<lambda>_. None)) mem_storage new_state")
  have "ok (storage new_state)" if "ok = mem_ok" for ok using that mem_new_ok by simp
  with chainHeadRefreshPass_monotone [OF mem_contract _ _ example_blocks example_bounds(1) _ run] run
    new_state_inv example_bounds(2) show ?thesis
    by (auto simp: tracker_inv_def example_tracker_def)
qed

section \<open>Queueing\<close>

lemma newer_than_subset: "set (newer_than lq hist) \<subseteq> set hist"
  and length_newer_than: "length (newer_than lq hist) \<le> length hist"
  by (auto simp: newer_than_def length_takeWhile_le dest: set_takeWhileD)

lemma nonzero_points:
  assumes "history_ok hist" "set new \<subseteq> set hist"
  shows "filter (\<lambda>p. tp_TxSignature p \<noteq> 0) (new_points t lq new) = new_points t lq new"
proof (rule filter_True, rule ballI)
  fix p assume "p \<in> set (new_points t lq new)"
  then obtain x where "x \<in> set new" "p = point_of x" using set_new_points by blast
  with assms show "tp_TxSignature p \<noteq> 0" by (auto simp: history_ok_def image_iff)
qed

context storage_handler
begin

lemma fetchNext_history:
  fixes s s' :: "('d, 'w) tracker_state"
  assumes ok: "ok (storage s)" and hist: "history_rpc env prog hist" "history_ok hist"
    and room: "push_room (length hist) (view (storage s))"
    and run: "fetchNextGetSignaturesForAddress t env st fuel prog lq s = (Inr (), s')"
  shows "ok (storage s') \<and> (\<exists>h. view (storage s') = spec_signatures t lq h
    (filter (\<lambda>x. ts_Signature x \<notin> known_signatures sig_text (tp_Slot lq) (view (storage s))) (newer_than lq hist)) (view (storage s)))"
proof -
  obtain rh w1 where height: "w_GetBlockHeight env CommitmentFinalized (world s) = (rh, w1)"
    by (cases "w_GetBlockHeight env CommitmentFinalized (world s)")
  obtain rf s2 where fetch: "signaturesForAddressFetcher t env fuel prog lq (s\<lparr>world := w1\<rparr>) = (rf, s2)"
    by (cases "signaturesForAddressFetcher t env fuel prog lq (s\<lparr>world := w1\<rparr>)")
  from run obtain h where h: "rh = Inr h"
    by (cases rh) (simp_all add: fetchNextGetSignaturesForAddress_def bind_def on_world_simp height)
  from run obtain sigs where sigs: "rf = Inr sigs"
    by (cases rf) (simp_all add: fetchNextGetSignaturesForAddress_def bind_def on_world_simp height h fetch)
  have eq: "sigs = newer_than lq hist" using fetcher_result [OF hist fetch [unfolded sigs]] by blast
  have "push_room (length sigs) (view (storage s))"
    using room length_newer_than [of lq hist] by (simp add: push_room_def eq)
  from fetchNext_success [OF ok height [unfolded h] fetch [unfolded sigs] this run] show ?thesis
    unfolding eq by blast
qed

end

text \<open>A poll of the example succeeds on the empty store.\<close>

lemma mem_new_signatures: "GetProcessedTxSignaturesBySlot mem_api mem_codec slot mem_new = Inr []"
proof -
  have "unprocessedEventsBucket \<in> set all_buckets" "processedEventsBucket \<in> set all_buckets" by code_simp+
  moreover have "RBT.entries (RBT.empty :: (bytes, bytes) rbt) = []"
    by (metis RBT.lookup_in_tree RBT.lookup_empty list.set_intros(1) neq_Nil_conv option.distinct(1) surj_pair)
  ultimately have "GetEventsBySlot mem_api mem_codec slot mem_new = Inr []"
    by (simp add: GetEventsBySlot_def view_with_def mem_new_def)
  then show ?thesis by (simp add: GetProcessedTxSignaturesBySlot_def)
qed

lemma new_state_fetch:
  "\<exists>s1. signaturesForAddressFetcher example_tracker (example_world txs) 2 9 lq new_state = (Inr (newer_than lq (long_history 3)), s1)"
  "new_state\<lparr>world := 0\<rparr> = new_state" "w_GetBlockHeight (example_world txs) c w = (Inr 900, w)"
  "getQueuedTxSignatures mem_storage slot mem_new = Inr {}"
proof -
  have "length (long_history 3) div getSignaturesForAddressMaxLimit \<le> 2"
    by (simp add: long_history_def getSignaturesForAddressMaxLimit_def)
  then show "\<exists>s1. signaturesForAddressFetcher example_tracker (example_world txs) 2 9 lq new_state = (Inr (newer_than lq (long_history 3)), s1)"
    unfolding example_world_def using fetcher_total [OF replay_serves long_history_3] by blast
  show "new_state\<lparr>world := 0\<rparr> = new_state" by (simp add: new_state_def example_state_def)
  show "w_GetBlockHeight (example_world txs) c w = (Inr 900, w)"
    by (simp add: example_world_def replay_world_def ret_def)
  show "getQueuedTxSignatures mem_storage slot mem_new = Inr {}"
    using mem_new_queue mem_new_signatures mem_handler.get_processed_live [OF mem_new_ok]
    by (simp add: getQueuedTxSignatures_def mem_new_view zero_TxPoint_def)
qed

lemma fetchNext_new_state:
  "\<exists>s'. fetchNextGetSignaturesForAddress example_tracker (example_world txs) mem_storage 2 9 lq new_state = (Inr (), s')"
proof -
  obtain s1 where fetch: "signaturesForAddressFetcher example_tracker (example_world txs) 2 9 lq new_state
      = (Inr (newer_than lq (long_history 3)), s1)"
    using new_state_fetch(1) by blast
  then obtain w where s1: "s1 = new_state\<lparr>world := w\<rparr>" using world_onlyD [OF world_only_fetcher fetch] by auto
  note s0 = new_state_fetch(2) and height = new_state_fetch(3) and known = new_state_fetch(4)
  note run = fetchNextGetSignaturesForAddress_def bind_def on_world_simp height s0 fetch s1 wrapE_def from_storage_def known
  let ?new = "newer_than lq (long_history 3)" and ?pts = "new_points example_tracker lq (newer_than lq (long_history 3))"
  show ?thesis
  proof (cases "?new = []")
    case True
    obtain d where "StoreLatestFinalizedBlockNumber mem_api 900 mem_new = (Inr (), d)"
      using mem_handler.set_finalized_live [OF mem_new_ok] by blast
    with True show ?thesis by (simp add: run on_storage_simp)
  next
    case False
    have pts: "?pts \<noteq> []" using False new_points_cursor [of lq example_tracker ?new] by (simp add: example_tracker_def)
    obtain d1 where push: "PushUnprocessedTransactions mem_api ?pts mem_new = (Inr (), d1)"
      using mem_handler.push_live [OF mem_new_ok] by blast
    have "push_room (length ?pts) (mem_view mem_new)"
      using length_new_points [of example_tracker lq ?new] length_newer_than [of lq "long_history 3"]
      by (simp add: push_room_def mem_new_view long_history_def)
    from mem_handler.push_writes [OF mem_new_ok this] push have d1: "mem_ok d1" by (simp add: writes_def)
    obtain d2 where "StoreLatestQueriedTransaction mem_api (last ?pts) d1 = (Inr (), d2)"
      using mem_handler.set_queried_live [OF d1] by blast
    with False pts push show ?thesis
      by (simp add: run on_storage_simp points_loop_new_points Let_def)
  qed
qed

text \<open>
  C10. A poll of a program that returns nil has appended to the queue exactly the transactions
  of the program's history that are newer than the cursor and not known yet, oldest first, and
  moved the query cursor to the newest of them; those before the start slot of a first run are
  skipped, and when nothing is left to queue only the finalized number or the cursors move.
\<close>

theorem fetchNextGetSignaturesForAddress_queues:
  fixes s s' :: "('d, 'w) tracker_state"
  assumes "storage_handler st ok view sig_text key_text"
    and "ok (storage s)" "history_rpc env prog hist" "history_ok hist" "push_room (length hist) (view (storage s))"
    and "fetchNextGetSignaturesForAddress t env st fuel prog lq s = (Inr (), s')"
  shows "let v = view (storage s); v' = view (storage s');
      new = filter (\<lambda>x. ts_Signature x \<notin> known_signatures sig_text (tp_Slot lq) v) (newer_than lq hist);
      points = map point_of (filter (\<lambda>x. tp_TxSignature lq \<noteq> 0 \<or> et_startFromSlot t \<le> ts_Slot x) (rev new)) in
    ok (storage s') \<and>
    (if new = [] then v' = v\<lparr>as_finalized := as_finalized v'\<rparr>
     else if points = [] then v' = v\<lparr>as_processed := point_of (hd new), as_queried := point_of (hd new)\<rparr>
     else v' = v\<lparr>as_queue := as_queue v @ points, as_queried := last points\<rparr>)"
proof -
  let ?v = "view (storage s)"
  let ?new = "filter (\<lambda>x. ts_Signature x \<notin> known_signatures sig_text (tp_Slot lq) ?v) (newer_than lq hist)"
  from storage_handler.fetchNext_history [OF assms] obtain h
    where ok: "ok (storage s')" and v': "view (storage s') = spec_signatures t lq h ?new ?v" by blast
  have "set ?new \<subseteq> set hist" using newer_than_subset by auto
  note points = nonzero_points [OF assms(4) this]
  show ?thesis
    unfolding Let_def new_points_def [symmetric]
    using ok by (simp add: v' spec_signatures_def spec_push_def points)
qed

theorem fetchNextGetSignaturesForAddress_queues_witness:
  "\<exists>s'. fetchNextGetSignaturesForAddress example_tracker (example_world (\<lambda>_. None)) mem_storage 2 9
        \<lparr>tp_TxSignature = 1, tp_Slot = 1\<rparr> new_state = (Inr (), s')
     \<and> as_queue (mem_view (storage s')) = [\<lparr>tp_TxSignature = 2, tp_Slot = 2\<rparr>, \<lparr>tp_TxSignature = 3, tp_Slot = 3\<rparr>]"
proof -
  let ?lq = "\<lparr>tp_TxSignature = 1, tp_Slot = 1\<rparr> :: TxPoint"
  let ?env = "example_world (\<lambda>_. None)"
  let ?x = "\<lambda>i :: Signature. \<lparr>ts_Signature = i, ts_Slot = ucast i\<rparr>"
  have hist: "long_history 3 = map ?x [3, 2, 1]" by (simp add: long_history_def upt_rec)
  then have newer: "newer_than ?lq (long_history 3) = map ?x [3, 2]" by (simp add: newer_than_def)
  have known: "known_signatures (Signature_String mem_codec) 1 (mem_view mem_new) = {}"
    by (simp add: known_signatures_def mem_new_view zero_TxPoint_def)
  obtain s' where run: "fetchNextGetSignaturesForAddress example_tracker ?env mem_storage 2 9 ?lq new_state = (Inr (), s')"
    using fetchNext_new_state [of "\<lambda>_. None" ?lq] by auto
  have room: "push_room (length (long_history 3)) (mem_view (storage new_state))"
    by (simp add: push_room_def mem_new_view long_history_def)
  have ok: "mem_ok (storage new_state)" by (simp add: mem_new_ok)
  from fetchNextGetSignaturesForAddress_queues [OF mem_contract ok example_rpc long_history_3 room run] run
  show ?thesis by (simp add: newer known [unfolded mem_new_view] Let_def mem_new_view point_of_def)
qed

section \<open>Processing\<close>

text \<open>
  C4. Processing the front of the queue, a transaction that succeeded on chain: whatever
  fails on the way, the records it adds are, in order, the first ones of its reports; when it
  returns nil they are all of them, and exactly then the transaction has left the queue and is
  the last processed one.
\<close>

theorem fetchNextGetFullTxBySignature_processes:
  assumes "storage_handler st ok view sig_text key_text"
    and "ok (storage s)" "as_queue (view (storage s)) = p # rest"
    and "tp_TxSignature p \<noteq> tp_TxSignature (as_processed (view (storage s)))"
    and "w_GetTransaction env (tp_TxSignature p) (et_commitment t) (world s) = (Inr (Some resp), w)"
    and "tr_Meta resp = Some meta" "\<not> tm_Err meta" "tm_InnerInstructions meta \<noteq> None" "tr_Transaction resp = Inr tx"
    and "event_room (length (collectTransactionEvents t meta
        (transactionAccountKeys (tx_AccountKeys tx) (tm_LoadedAddresses meta)))) (view (storage s))"
    and "fetchNextGetFullTxBySignature t env st lib s = (r, s')"
  shows "ok (storage s') \<and> (let keys = transactionAccountKeys (tx_AccountKeys tx) (tm_LoadedAddresses meta);
      reports = map (report_key sig_text key_text (tr_Slot resp) (tp_TxSignature p))
        (reports_of t lib tx keys (collectTransactionEvents t meta keys)) in
    \<exists>recs. as_events (view (storage s')) = as_events (view (storage s)) @ recs \<and> prefix (map event_key recs) reports \<and>
      (if r = Inr () then map event_key recs = reports \<and> as_queue (view (storage s')) = rest \<and> as_processed (view (storage s')) = p
       else as_queue (view (storage s')) = p # rest \<and> as_processed (view (storage s')) = as_processed (view (storage s))))"
  using assms by (rule storage_handler.fetchNextFull_processes)

text \<open>
  A transaction of the tracked program 9 with one event under its authority 77, and the
  in-memory store with the transaction queued.
\<close>

definition event_tx :: GetTransactionResult where
  "event_tx = \<lparr>tr_Slot = 5,
     tr_Meta = Some \<lparr>tm_Err = False,
       tm_InnerInstructions = Some [\<lparr>ii_Index = 0, ii_Instructions =
         [\<lparr>ci_ProgramIDIndex = 1, ci_Accounts = [2], ci_Data = eventIxTagLE @ replicate 8 5 @ [1]\<rparr>]\<rparr>],
       tm_LoadedAddresses = \<lparr>la_Writable = [77], la_ReadOnly = []\<rparr>\<rparr>,
     tr_Transaction = Inr \<lparr>tx_AccountKeys = [3, 9], tx_Instructions = []\<rparr>\<rparr>"

definition queued_db :: mem_db where
  "queued_db = snd (PushUnprocessedTransactions mem_api sample_points mem_new)"

lemma queued_db: "mem_ok queued_db \<and> mem_view queued_db = (mem_view mem_new)\<lparr>as_queue := sample_points\<rparr>"
proof -
  obtain d where push: "PushUnprocessedTransactions mem_api sample_points mem_new = (Inr (), d)"
    using mem_handler.push_live [OF mem_new_ok] by blast
  have "push_room (length sample_points) (mem_view mem_new)"
    by (simp add: push_room_def mem_new_view sample_points_def)
  from mem_handler.push_writes [OF mem_new_ok this] push show ?thesis
    by (simp add: queued_db_def writes_def spec_push_def mem_new_view sample_points_def)
qed

definition queued_state :: "(mem_db, nat) tracker_state" where
  "queued_state = example_state queued_db"

lemma queued_state_simps [simp]: "storage queued_state = queued_db" "world queued_state = 0"
  by (simp_all add: queued_state_def example_state_def)

lemma event_tx_events:
  "collectTransactionEvents example_tracker (the (tr_Meta event_tx)) [3, 9, 77] =
     [\<lparr>ee_programID = 9, ee_data = replicate 8 5 @ [1], ee_topLevelIndex = 0\<rparr>]"
  by (simp add: collectTransactionEvents_def collectCPIEvents_def event_tx_def example_tracker_def)

theorem fetchNextGetFullTxBySignature_processes_witness:
  "\<exists>r s' recs. fetchNextGetFullTxBySignature example_tracker (example_world (\<lambda>_. Some event_tx)) mem_storage example_lib
      queued_state = (r, s') \<and> as_events (mem_view (storage s')) = recs \<and>
    prefix (map event_key recs) [(5, Signature_String mem_codec 5, PublicKey_String mem_codec 9, ''Deposited'', 0)] \<and>
    (if r = Inr () then length recs = 1 \<and> as_queue (mem_view (storage s')) = [\<lparr>tp_TxSignature = 7, tp_Slot = 100\<rparr>]
     else as_queue (mem_view (storage s')) = sample_points)"
proof -
  let ?env = "example_world (\<lambda>_. Some event_tx)"
  obtain r s' where run: "fetchNextGetFullTxBySignature example_tracker ?env mem_storage example_lib queued_state = (r, s')"
    by (cases "fetchNextGetFullTxBySignature example_tracker ?env mem_storage example_lib queued_state")
  have ok: "mem_ok (storage queued_state)" using queued_db by simp
  have queue: "as_queue (mem_view (storage queued_state)) = \<lparr>tp_TxSignature = 5, tp_Slot = 100\<rparr> # [\<lparr>tp_TxSignature = 7, tp_Slot = 100\<rparr>]"
    using queued_db by (simp add: sample_points_def)
  have fresh: "tp_TxSignature \<lparr>tp_TxSignature = 5, tp_Slot = 100\<rparr> \<noteq> tp_TxSignature (as_processed (mem_view (storage queued_state)))"
    using queued_db by (simp add: mem_new_view zero_TxPoint_def)
  have gt: "w_GetTransaction ?env (tp_TxSignature \<lparr>tp_TxSignature = 5, tp_Slot = 100\<rparr>) (et_commitment example_tracker)
      (world queued_state) = (Inr (Some event_tx), 0)"
    by (simp add: example_world_def replay_world_def ret_def)
  let ?meta = "the (tr_Meta event_tx)" and ?tx = "\<lparr>tx_AccountKeys = [3, 9], tx_Instructions = []\<rparr> :: Transaction"
  have meta: "tr_Meta event_tx = Some ?meta" "\<not> tm_Err ?meta" "tm_InnerInstructions ?meta \<noteq> None" "tr_Transaction event_tx = Inr ?tx"
    by (simp_all add: event_tx_def)
  have keys: "transactionAccountKeys (tx_AccountKeys ?tx) (tm_LoadedAddresses ?meta) = [3, 9, 77]"
    by (simp add: transactionAccountKeys_def event_tx_def)
  have room: "event_room (length (collectTransactionEvents example_tracker ?meta
      (transactionAccountKeys (tx_AccountKeys ?tx) (tm_LoadedAddresses ?meta)))) (mem_view (storage queued_state))"
    unfolding keys event_tx_events using queued_db by (simp add: event_room_def mem_new_view)
  have reports: "reports_of example_tracker example_lib ?tx [3, 9, 77]
      (collectTransactionEvents example_tracker ?meta [3, 9, 77]) = [(9, ''Deposited'', 0)]"
    unfolding event_tx_events
    by (simp add: event_to_report_def parseEvent_def example_lib_def example_tracker_def event_action_hash_def)
  note result = fetchNextGetFullTxBySignature_processes [OF mem_contract ok queue fresh gt meta room run]
  have none: "as_events (mem_view (storage queued_state)) = []" using queued_db by (simp add: mem_new_view)
  from result [unfolded keys reports none Let_def] run show ?thesis
    by (auto simp: report_key_def event_tx_def sample_points_def dest: arg_cong [of _ _ length])
qed

text \<open>
  C36. A transaction that failed on chain yields no event, whatever its inner instructions hold:
  it leaves the queue when the finalize succeeds, and otherwise nothing changes.
\<close>

theorem fetchNextGetFullTxBySignature_skips_failed:
  assumes "storage_handler st ok view sig_text key_text"
    and "ok (storage s)" "as_queue (view (storage s)) = p # rest"
    and "w_GetTransaction env (tp_TxSignature p) (et_commitment t) (world s) = (Inr (Some resp), w)"
    and "tr_Meta resp = Some meta" "tm_Err meta"
    and "fetchNextGetFullTxBySignature t env st lib s = (r, s')"
  shows "ok (storage s') \<and> as_events (view (storage s')) = as_events (view (storage s)) \<and>
    (if r = Inr () then as_queue (view (storage s')) = rest \<and> as_processed (view (storage s')) = p
     else view (storage s') = view (storage s))"
  using assms by (rule storage_handler.fetchNextFull_skips)

definition failed_tx :: GetTransactionResult where
  "failed_tx = event_tx\<lparr>tr_Meta := map_option (\<lambda>m. m\<lparr>tm_Err := True\<rparr>) (tr_Meta event_tx)\<rparr>"

theorem fetchNextGetFullTxBySignature_skips_failed_witness:
  "\<exists>r s'. fetchNextGetFullTxBySignature example_tracker (example_world (\<lambda>_. Some failed_tx)) mem_storage example_lib
      queued_state = (r, s') \<and> as_events (mem_view (storage s')) = []"
proof -
  let ?env = "example_world (\<lambda>_. Some failed_tx)"
  obtain r s' where run: "fetchNextGetFullTxBySignature example_tracker ?env mem_storage example_lib queued_state = (r, s')"
    by (cases "fetchNextGetFullTxBySignature example_tracker ?env mem_storage example_lib queued_state")
  have ok: "mem_ok (storage queued_state)" using queued_db by simp
  have queue: "as_queue (mem_view (storage queued_state)) = \<lparr>tp_TxSignature = 5, tp_Slot = 100\<rparr> # [\<lparr>tp_TxSignature = 7, tp_Slot = 100\<rparr>]"
    using queued_db by (simp add: sample_points_def)
  have gt: "w_GetTransaction ?env (tp_TxSignature \<lparr>tp_TxSignature = 5, tp_Slot = 100\<rparr>) (et_commitment example_tracker)
      (world queued_state) = (Inr (Some failed_tx), 0)"
    by (simp add: example_world_def replay_world_def ret_def)
  have meta: "tr_Meta failed_tx = Some (the (tr_Meta failed_tx))" "tm_Err (the (tr_Meta failed_tx))"
    by (simp_all add: failed_tx_def event_tx_def)
  have "as_events (mem_view (storage queued_state)) = []" using queued_db by (simp add: mem_new_view)
  with fetchNextGetFullTxBySignature_skips_failed [OF mem_contract ok queue gt meta run] run show ?thesis by auto
qed

text \<open>
  C7. Nothing forged is reported: a reported event was emitted by an inner instruction that
  called a tracked program with the program's own event authority, and was decoded by a
  specification of that program. An executed batch is reported with the hash of the payload of
  the Ed25519 instruction next to the top-level instruction the event was emitted under, every
  other event with the zero hash.
\<close>

theorem reported_events_genuine:
  assumes "(prog, name, hash) \<in> set (reports_of t lib tx keys (collectTransactionEvents t meta keys))"
  shows "\<exists>groups g ix parsed authority.
      tm_InnerInstructions meta = Some groups \<and> g \<in> set groups \<and> ix \<in> set (ii_Instructions g) \<and>
      is_event_cpi keys (et_eventAuthorities t) ix \<and> prog = keys ! unat (ci_ProgramIDIndex ix) \<and>
      et_eventAuthorities t prog = Some authority \<and> keys ! unat (ci_Accounts ix ! 0) = authority \<and>
      parseEvent t lib (drop 8 (ci_Data ix)) prog = Inr (Some (parsed, name)) \<and>
      (if name = ''TransactionExecutedEvent''
       then \<exists>batchId payload payloadBytes. as_TransactionExecutedEvent lib parsed = Some batchId \<and>
         findBatchPayloadAtInstruction (payload_Unmarshal lib) (tx_Instructions tx) keys (uint (ii_Index g)) batchId = Inr payload \<and>
         payload_Marshal lib payload = Inr payloadBytes \<and> hash = be_word (Sum256 payloadBytes)
       else hash = 0)"
proof -
  from reports_of_from [OF assms] obtain e parsed
    where e: "e \<in> set (collectTransactionEvents t meta keys)" and prog: "ee_programID e = prog"
      and rep: "event_to_report t lib tx keys e = Inr (Some (parsed, name, hash))" by blast
  from e obtain groups where groups: "tm_InnerInstructions meta = Some groups"
    by (cases "tm_InnerInstructions meta") (simp_all add: collectTransactionEvents_def set_collectCPIEvents)
  with e obtain g ix where g: "g \<in> set groups" "ix \<in> set (ii_Instructions g)"
    and cpi: "is_event_cpi keys (et_eventAuthorities t) ix" and ev: "e = event_of_cpi keys (ii_Index g) ix"
    by (auto simp: collectTransactionEvents_def set_collectCPIEvents)
  have p: "prog = keys ! unat (ci_ProgramIDIndex ix)" using prog ev by (simp add: event_of_cpi_def)
  from cpi obtain a as where a: "ci_Accounts ix = a # as" "et_eventAuthorities t prog = Some (keys ! unat a)"
    by (auto simp: is_event_cpi_def p split: list.splits)
  have data: "ee_data e = drop 8 (ci_Data ix)" "ee_topLevelIndex e = uint (ii_Index g)" by (simp_all add: ev event_of_cpi_def)
  show ?thesis
    using groups g cpi p a event_to_report_Some [OF rep, unfolded data prog]
    by (intro exI [of _ groups] exI [of _ g] exI [of _ ix] exI [of _ parsed] exI [of _ "keys ! unat a"]) auto
qed

theorem reported_events_genuine_witness:
  "\<exists>(g :: InnerInstruction) ix. ix \<in> set (ii_Instructions g) \<and> is_event_cpi [3, 9, 77] (et_eventAuthorities example_tracker) ix \<and>
     parseEvent example_tracker example_lib (drop 8 (ci_Data ix)) 9 = Inr (Some ((), ''Deposited''))"
proof -
  let ?tx = "\<lparr>tx_AccountKeys = [3, 9], tx_Instructions = []\<rparr> :: Transaction"
  have "(9, ''Deposited'', 0) \<in> set (reports_of example_tracker example_lib ?tx [3, 9, 77]
      (collectTransactionEvents example_tracker (the (tr_Meta event_tx)) [3, 9, 77]))"
    unfolding event_tx_events
    by (simp add: event_to_report_def parseEvent_def example_lib_def example_tracker_def event_action_hash_def)
  from reported_events_genuine [OF this]
  have "\<exists>(g :: InnerInstruction) ix parsed. ix \<in> set (ii_Instructions g) \<and> is_event_cpi [3, 9, 77] (et_eventAuthorities example_tracker) ix \<and>
     parseEvent example_tracker example_lib (drop 8 (ci_Data ix)) 9 = Inr (Some (parsed, ''Deposited''))"
    by blast
  then show ?thesis by simp
qed

section \<open>The chain head does not get stuck\<close>

text \<open>
  C33. When \<open>getBlocks\<close> answers for the same head with as many slots as the time before, the
  refresher stores nothing and tries to get past the window. With more than one slot the head
  moves forward, to the last of them. With at most one slot it asks for the current slot: if
  that call fails the head stays, and otherwise the head moves on by the target less the backoff
  exactly when the chain is that far already, and stays where it is when it is not, so that it is
  not moved ahead of the chain. Unless that call fails, the window is forgotten: the next
  answer for the head is not taken for a repetition unless it is empty.
\<close>

theorem refreshChainHead_unsticks:
  fixes s :: "('d, 'w) tracker_state"
  assumes "head_config_ok t" "no_slot_overflow t (chainHeadSlot s)"
    and window: "w_GetBlocks env (chainHeadSlot s) (chainHeadSlot s + et_chainHeadSlotOffset t) CommitmentConfirmed (world s)
      = (Inr slots, w)"
    and same: "latestGetBlocksState s = \<lparr>lg_chainHeadSlot = chainHeadSlot s, lg_queriedBlocksWithSlotsLen = int (length slots)\<rparr>"
    and slots: "sorted_wrt (<) slots" "\<forall>x \<in> set slots. chainHeadSlot s \<le> x"
    and run: "refreshChainHead ovf t env st s = (r, s')"
  shows "storage s' = storage s \<and>
    (if 1 < length slots
     then r = Inr (0, None) \<and> chainHeadSlot s' = last slots \<and> chainHeadSlot s < chainHeadSlot s' \<and>
       latestGetBlocksState s' = \<lparr>lg_chainHeadSlot = chainHeadSlot s', lg_queriedBlocksWithSlotsLen = 0\<rparr>
     else case w_GetSlot env CommitmentConfirmed w of
       (Inl e, w') \<Rightarrow> r \<noteq> Inr (0, None) \<and> chainHeadSlot s' = chainHeadSlot s \<and> latestGetBlocksState s' = latestGetBlocksState s
     | (Inr tip, w') \<Rightarrow> r = Inr (0, None) \<and>
         chainHeadSlot s < chainHeadSlot s + et_chainHeadTargetBlockCount t - emptySlotsWithBlocksBackoff \<and>
         chainHeadSlot s' = (if chainHeadSlot s + et_chainHeadTargetBlockCount t - emptySlotsWithBlocksBackoff \<le> tip
           then chainHeadSlot s + et_chainHeadTargetBlockCount t - emptySlotsWithBlocksBackoff else chainHeadSlot s) \<and>
         latestGetBlocksState s' = \<lparr>lg_chainHeadSlot = chainHeadSlot s', lg_queriedBlocksWithSlotsLen = 0\<rparr>)"
proof -
  have unstick: "unstickChainHead t env slots (s\<lparr>world := w\<rparr>) = (r, s')"
    using run by (simp add: refreshChainHead_def bind_def gets_def attempt_def on_world_simp window same Let_def)
  note defs = unstickChainHead_def bind_def gets_def modify_def ret_def attempt_def on_world_simp Let_def
  show ?thesis
  proof (cases "1 < length slots")
    case True
    then obtain x xs where xs: "slots = x # xs" "xs \<noteq> []" by (cases slots) auto
    then have "x < last slots" using slots(1) by simp
    moreover have "chainHeadSlot s \<le> x" using slots(2) xs by simp
    ultimately have "chainHeadSlot s < last slots" by simp
    with True unstick show ?thesis by (auto simp: defs)
  next
    case False
    obtain a w' where slot: "w_GetSlot env CommitmentConfirmed w = (a, w')" by (cases "w_GetSlot env CommitmentConfirmed w")
    from False unstick slot_bounds(2) [OF assms(1,2)] show ?thesis
      by (cases a) (auto simp: defs slot not_less split: if_splits)
  qed
qed

definition stuck_state :: "(mem_db, nat) tracker_state" where
  "stuck_state = new_state\<lparr>latestGetBlocksState := \<lparr>lg_chainHeadSlot = 20, lg_queriedBlocksWithSlotsLen = 5\<rparr>\<rparr>"

theorem refreshChainHead_unsticks_witness:
  "chainHeadSlot (snd (refreshChainHead (\<lambda>x. x) example_tracker (example_world (\<lambda>_. None)) mem_storage stuck_state)) = 41"
proof -
  have conf: "head_config_ok example_tracker" "no_slot_overflow example_tracker (chainHeadSlot stuck_state)"
    using example_bounds by (simp_all add: stuck_state_def)
  have window: "w_GetBlocks (example_world (\<lambda>_. None)) (chainHeadSlot stuck_state)
      (chainHeadSlot stuck_state + et_chainHeadSlotOffset example_tracker) CommitmentConfirmed (world stuck_state)
      = (Inr [20, 21, 28, 33, 41], 0)"
    by (simp add: example_world_def replay_world_def stuck_state_def example_tracker_def ret_def)
  have same: "latestGetBlocksState stuck_state =
      \<lparr>lg_chainHeadSlot = chainHeadSlot stuck_state, lg_queriedBlocksWithSlotsLen = int (length [20, 21, 28, 33, 41 :: u64])\<rparr>"
    by (simp add: stuck_state_def)
  have slots: "sorted_wrt (<) [20, 21, 28, 33, 41 :: u64]" "\<forall>x \<in> set [20, 21, 28, 33, 41]. chainHeadSlot stuck_state \<le> x"
    by (simp_all add: stuck_state_def)
  obtain r s' where run: "refreshChainHead (\<lambda>x. x) example_tracker (example_world (\<lambda>_. None)) mem_storage stuck_state = (r, s')"
    by (cases "refreshChainHead (\<lambda>x. x) example_tracker (example_world (\<lambda>_. None)) mem_storage stuck_state")
  from refreshChainHead_unsticks [OF conf window same slots run] run show ?thesis by simp
qed

section \<open>Construction\<close>

text \<open>What the loop over the configured programs builds.\<close>

definition programs_ok ::
  "('c, 'l) tracker_lib \<Rightarrow> (PublicKey \<times> 'ty ProgramEventSpecs) list \<Rightarrow> (PublicKey \<Rightarrow> PublicKey option) \<Rightarrow> bool" where
  "programs_ok lib programs authorities \<longleftrightarrow> distinct (map fst programs) \<and> dom authorities = set (map fst programs) \<and>
     (\<forall>p a. authorities p = Some a \<longrightarrow> deriveEventAuthority (FindProgramAddress lib) p = Inr a)"

lemma set_map_set: "set (map fst (map_set k v xs)) = insert k (set (map fst xs))"
  by (induction k v xs rule: map_set.induct) auto

lemma distinct_map_set: "distinct (map fst xs) \<Longrightarrow> distinct (map fst (map_set k v xs))"
proof (induction k v xs rule: map_set.induct)
  case (2 k v k' v' rest)
  then show ?case using set_map_set [of k v rest] by auto
qed simp

lemma programs_loop_ok:
  "programs_loop lib entries programs authorities = Inr (programs', authorities') \<Longrightarrow>
     programs_ok lib programs authorities \<Longrightarrow>
     programs_ok lib programs' authorities' \<and> (entries \<noteq> [] \<or> programs \<noteq> [] \<longrightarrow> programs' \<noteq> [])"
proof (induction lib entries programs authorities rule: programs_loop.induct)
  case (2 lib programIDstr eventSpecs rest programs authorities)
  from "2.prems"(1) obtain p a where p: "PublicKeyFromBase58 lib programIDstr = Inr p"
    and a: "deriveEventAuthority (FindProgramAddress lib) p = Inr a"
    and rest: "programs_loop lib rest (map_set p eventSpecs programs) (authorities(p \<mapsto> a)) = Inr (programs', authorities')"
    by (auto split: sum.splits)
  have "programs_ok lib (map_set p eventSpecs programs) (authorities(p \<mapsto> a))"
    using "2.prems"(2) a set_map_set [of p eventSpecs programs] distinct_map_set
    by (auto simp: programs_ok_def)
  moreover have "map_set p eventSpecs programs \<noteq> []" using set_map_set [of p eventSpecs programs] by auto
  ultimately show ?case using "2.IH" [OF p a rest] by blast
qed simp

text \<open>
  C39. A tracker that could be constructed is well formed: it tracks at least one program, each
  once, and holds exactly their event authorities; the rounding threshold is not zero, so the
  slot selection never divides by zero; slots take time; and the target lies strictly above the
  backoff and within the window, the bounds the refresher needs.
\<close>

theorem NewEventTracker_well_formed:
  assumes "NewEventTracker lib config hasStorage = Inr (t, slot, latest)"
  shows "et_trackedPrograms t \<noteq> [] \<and> programs_ok lib (et_trackedPrograms t) (et_eventAuthorities t) \<and>
    head_config_ok t \<and> et_blockRoundingThreshold t \<noteq> 0 \<and> 0 < et_avgSlotTime t \<and> et_pollTime t \<noteq> 0 \<and>
    slot = et_startFromSlot t \<and> latest = \<lparr>lg_chainHeadSlot = slot, lg_queriedBlocksWithSlotsLen = 0\<rparr>"
proof -
  from assms obtain c where c: "config = Some c" by (cases config) (simp_all add: NewEventTracker_def)
  note new = assms [unfolded NewEventTracker_def c option.case]
  from new have entries: "tc_TrackedPrograms c \<noteq> []" by (simp split: if_splits)
  from new obtain programs authorities where loop: "programs_loop lib (tc_TrackedPrograms c) [] (\<lambda>_. None) = Inr (programs, authorities)"
    by (auto split: if_splits sum.splits)
  from new loop obtain c' where client: "setupClientNew lib c = Inr c'" by (auto split: if_splits sum.splits)
  have programs: "programs_ok lib programs authorities" "programs \<noteq> []"
    using programs_loop_ok [OF loop] entries by (simp_all add: programs_ok_def)
  have pos: "or_default (500 * 1000000) (x :: int) \<noteq> 0" "or_default 10 (w :: u64) \<noteq> 0"
    "or_default defaultAvgSlotTime x \<noteq> 0" for x w
    by (simp_all add: or_default_def defaultAvgSlotTime_def)
  from new loop client have t: "et_trackedPrograms t = programs" "et_eventAuthorities t = authorities"
    "et_blockRoundingThreshold t = or_default 10 (tc_BlockRoundingThreshold c')"
    "et_avgSlotTime t = or_default defaultAvgSlotTime (tc_AvgSlotTime c')" "\<not> et_avgSlotTime t < 0"
    "et_pollTime t = or_default (500 * 1000000) (tc_RetryTimeout c')"
    "\<not> et_chainHeadTargetBlockCount t \<le> emptySlotsWithBlocksBackoff"
    "\<not> et_chainHeadSlotOffset t < et_chainHeadTargetBlockCount t"
    "slot = et_startFromSlot t" "latest = \<lparr>lg_chainHeadSlot = slot, lg_queriedBlocksWithSlotsLen = 0\<rparr>"
    by (auto simp: Let_def split: if_splits)
  with programs pos show ?thesis
    by (simp add: head_config_ok_def not_less not_le) (simp add: order.strict_iff_order)
qed

definition example_tracker_lib :: "(unit, unit) tracker_lib" where
  "example_tracker_lib = \<lparr>PublicKeyFromBase58 = (\<lambda>s. Inr (of_nat (length s))), FindProgramAddress = (\<lambda>seeds p. Inr (p + 68, 255)),
     rpc_New = (\<lambda>s. ()), NewRateLimitedRPCClient = (\<lambda>s n. ()), limit_GlobalRPSLimit = (\<lambda>l. 7)\<rparr>"

definition example_config :: "(unit, unit, unit) EventTrackerConfig" where
  "example_config = \<lparr>tc_RPCEndpoint = ''http://localhost'', tc_Client = None, tc_RPCMethodLimitsConfig = None,
     tc_TrackedPrograms = [(''Skyline11'', [\<lparr>es_eventType = (), es_name = ''Deposited'', es_discriminant = replicate 8 5\<rparr>])],
     tc_Commitment = ''confirmed'', tc_RetryTimeout = 0, tc_StartFromSlot = 20, tc_BlockRoundingThreshold = 0, tc_AvgSlotTime = 0,
     tc_ChainHeadTargetBlockCount = 0, tc_ChainHeadSlotOffset = 0, tc_EventSubscriber = True, tc_DisableRateLimiting = True\<rparr>"

theorem NewEventTracker_well_formed_witness:
  "\<exists>t slot latest. NewEventTracker example_tracker_lib (Some example_config) True = Inr (t, slot, latest) \<and>
     slot = 20 \<and> head_config_ok t \<and> et_blockRoundingThreshold t \<noteq> 0 \<and> et_eventAuthorities t 9 = Some 77"
proof -
  have "\<exists>t slot latest. NewEventTracker example_tracker_lib (Some example_config) True = Inr (t, slot, latest) \<and>
      slot = 20 \<and> et_eventAuthorities t 9 = Some 77"
    by (simp add: NewEventTracker_def example_config_def example_tracker_lib_def deriveEventAuthority_def setupClientNew_def
        or_default_def defaultAvgSlotTime_def defaultChainHeadTargetBlockCount_def defaultChainHeadSlotOffset_def
        emptySlotsWithBlocksBackoff_def Let_def)
  with NewEventTracker_well_formed show ?thesis by blast
qed

section \<open>A lost cursor\<close>

context storage_handler
begin

lemma stranded_forever:
  fixes s :: "('d, 'w) tracker_state"
  assumes single: "et_trackedPrograms t = [(prog, specs)]" and hist: "history_rpc env prog hist" "history_ok hist"
    and ok: "ok (storage s)" and stranded: "stranded (view (storage s))"
    and known: "ts_Signature ` set (newer_than (as_queried (view (storage s))) hist) \<subseteq>
      known_signatures sig_text (tp_Slot (as_queried (view (storage s)))) (view (storage s))"
  shows "ok (storage (((\<lambda>u. snd (transactionPollingPass t env st lib fuel u)) ^^ n) s)) \<and>
    (\<exists>k. view (storage (((\<lambda>u. snd (transactionPollingPass t env st lib fuel u)) ^^ n) s)) = (view (storage s))\<lparr>as_finalized := k\<rparr>)"
proof (induction n)
  case 0
  show ?case using ok by (intro conjI exI [of _ "as_finalized (view (storage s))"]) simp_all
next
  case (Suc n)
  let ?s = "((\<lambda>u. snd (transactionPollingPass t env st lib fuel u)) ^^ n) s"
  from Suc obtain k where oks: "ok (storage ?s)" and v: "view (storage ?s) = (view (storage s))\<lparr>as_finalized := k\<rparr>" by blast
  have "stranded (view (storage ?s))" using stranded by (simp add: v stranded_def)
  moreover have "\<forall>p \<in> set (map fst (et_trackedPrograms t)). only_known t env fuel p (as_queried (view (storage ?s)))
      (known_signatures sig_text (tp_Slot (as_queried (view (storage ?s)))) (view (storage ?s))) TYPE('d)"
    using known single unfolding only_known_def v by (auto dest!: fetcher_result [OF hist])
  ultimately have "ok (storage (snd (transactionPollingPass t env st lib fuel ?s))) \<and>
      (\<exists>n. view (storage (snd (transactionPollingPass t env st lib fuel ?s))) = (view (storage ?s))\<lparr>as_finalized := n\<rparr>)"
    by (intro stranded_pass [OF oks, of t env fuel lib "fst (transactionPollingPass t env st lib fuel ?s)"]) simp_all
  then show ?case by (auto simp: v)
qed

lemma fetchNext_strands_forever:
  fixes s s' :: "('d, 'w) tracker_state"
  assumes single: "et_trackedPrograms t = [(prog, specs)]" and hist: "history_rpc env prog hist" "history_ok hist"
    and ok: "ok (storage s)" and room: "push_room (length hist) (view (storage s))"
    and cursors: "tp_TxSignature (as_queried (view (storage s))) = tp_TxSignature (as_processed (view (storage s)))"
    and skip: "tp_TxSignature (as_queried (view (storage s))) \<noteq> 0 \<or> et_startFromSlot t = 0"
    and run: "fetchNextGetSignaturesForAddress t env st fuel prog (as_queried (view (storage s))) s = (Inl e, s')"
    and changed: "as_queue (view (storage s')) \<noteq> as_queue (view (storage s))"
  shows "stranded (view (storage s')) \<and>
    as_queue (view (storage (((\<lambda>u. snd (transactionPollingPass t env st lib fuel u)) ^^ n) s'))) = as_queue (view (storage s'))"
proof -
  let ?v = "view (storage s)" and ?v' = "view (storage s')" and ?lq = "as_queried (view (storage s))"
  let ?K = "known_signatures sig_text (tp_Slot ?lq) ?v"
  have room': "push_room (length sigs) ?v"
    if "signaturesForAddressFetcher t env fuel prog ?lq (s1 :: ('d, 'w) tracker_state) = (Inr sigs, s2)" for s1 sigs s2
    using room fetcher_result [OF hist that] length_newer_than [of ?lq hist] by (simp add: push_room_def)
  have "ok (storage s') \<and> stranded ?v' \<and>
    (\<exists>sigs (s1 :: ('d, 'w) tracker_state) s2. signaturesForAddressFetcher t env fuel prog ?lq s1 = (Inr sigs, s2) \<and> ?v' =
      spec_push (new_points t ?lq (filter (\<lambda>x. ts_Signature x \<notin> ?K) sigs)) ?v)"
    by (rule fetchNext_strands [OF ok cursors _ run changed]) (rule room')
  then obtain sigs and s1 s2 :: "('d, 'w) tracker_state" where ok': "ok (storage s')" and stranded: "stranded ?v'"
    and fetch: "signaturesForAddressFetcher t env fuel prog ?lq s1 = (Inr sigs, s2)"
    and v': "?v' = spec_push (new_points t ?lq (filter (\<lambda>x. ts_Signature x \<notin> ?K) sigs)) ?v" by blast
  have sigs: "sigs = newer_than ?lq hist" using fetcher_result [OF hist fetch] by blast
  have queried: "as_queried ?v' = ?lq" by (simp add: v' spec_push_def)
  have pts: "new_points t ?lq (filter (\<lambda>x. ts_Signature x \<notin> ?K) sigs) =
      map point_of (rev (filter (\<lambda>x. ts_Signature x \<notin> ?K) sigs))"
    using new_points_cursor skip by blast
  have "ts_Signature ` set (newer_than ?lq hist) \<subseteq> known_signatures sig_text (tp_Slot ?lq) ?v'"
  proof
    fix x assume "x \<in> ts_Signature ` set (newer_than ?lq hist)"
    then obtain y where y: "y \<in> set sigs" "x = ts_Signature y" by (auto simp: sigs)
    show "x \<in> known_signatures sig_text (tp_Slot ?lq) ?v'"
    proof (cases "x \<in> ?K")
      case True
      then show ?thesis by (auto simp: v' known_signatures_def spec_push_def)
    next
      case False
      have "ts_Signature y \<noteq> 0" using y(1) hist(2) newer_than_subset [of ?lq hist] by (auto simp: sigs history_ok_def image_iff)
      then have "point_of y \<in> set (as_queue ?v')"
        using False y by (auto simp: v' spec_push_def pts)
      then have "tp_TxSignature (point_of y) \<in> tp_TxSignature ` set (as_queue ?v')" by (rule imageI)
      then show ?thesis using y by (simp add: known_signatures_def)
    qed
  qed
  then have "ts_Signature ` set (newer_than (as_queried ?v') hist) \<subseteq> known_signatures sig_text (tp_Slot (as_queried ?v')) ?v'"
    by (simp only: queried)
  from stranded_forever [OF single hist ok' stranded this, where lib = lib and fuel = fuel and n = n] stranded show ?thesis by auto
qed

end

text \<open>
  C35. The queue and the query cursor are not written together. Let a tracker of one program,
  past its first fetch or with no slot to start from, poll a node whose history of that program
  does not change, and let the poll fail after the queue was written, at the write of the
  cursor. Then the cursors still agree, and as long as the history stays what it is, every later
  pass takes the queue for empty and polls again, finds only signatures that are queued already,
  and leaves the queue as it is: however many passes run, none of the queued transactions is
  processed.
\<close>

theorem failed_cursor_write_strands_queue:
  fixes s s' :: "('d, 'w) tracker_state"
  assumes "storage_handler st ok view sig_text key_text"
    and "et_trackedPrograms t = [(prog, specs)]" "history_rpc env prog hist" "history_ok hist"
    and "ok (storage s)" "push_room (length hist) (view (storage s))"
    and "tp_TxSignature (as_queried (view (storage s))) = tp_TxSignature (as_processed (view (storage s)))"
    and "tp_TxSignature (as_queried (view (storage s))) \<noteq> 0 \<or> et_startFromSlot t = 0"
    and "fetchNextGetSignaturesForAddress t env st fuel prog (as_queried (view (storage s))) s = (Inl e, s')"
    and "as_queue (view (storage s')) \<noteq> as_queue (view (storage s))"
  shows "stranded (view (storage s')) \<and>
    as_queue (view (storage (((\<lambda>u. snd (transactionPollingPass t env st lib fuel u)) ^^ n) s'))) = as_queue (view (storage s'))"
  using assms by (rule storage_handler.fetchNext_strands_forever)

text \<open>The in-memory store with a cursor that cannot be written.\<close>

definition lossy_storage :: "(mem_db, unit, unit) StorageHandler" where
  "lossy_storage = mem_storage\<lparr>sh_StoreLatestQueriedTransaction := (\<lambda>p d. (Inl (ExtErr STR ''disk full''), d))\<rparr>"

lemma lossy_contract: "storage_handler lossy_storage mem_ok mem_view (Signature_String mem_codec) (PublicKey_String mem_codec)"
  using mem_contract unfolding storage_handler_def lossy_storage_def
  by (simp add: writes_def)

lemma lossy_fetch:
  "\<exists>e s'. fetchNextGetSignaturesForAddress example_tracker (example_world txs) lossy_storage 2 9 zero_TxPoint new_state = (Inl e, s')
     \<and> as_queue (mem_view (storage s')) \<noteq> []"
proof -
  let ?lq = zero_TxPoint
  obtain s1 where fetch: "signaturesForAddressFetcher example_tracker (example_world txs) 2 9 ?lq new_state
      = (Inr (newer_than ?lq (long_history 3)), s1)" and s0: "new_state\<lparr>world := 0\<rparr> = new_state"
    using new_state_fetch(1,2) by blast
  note height = new_state_fetch(3) and known = new_state_fetch(4)
  obtain w where s1: "s1 = new_state\<lparr>world := w\<rparr>" using world_onlyD [OF world_only_fetcher fetch] by auto
  have known': "getQueuedTxSignatures lossy_storage slot mem_new = Inr {}" for slot
  proof -
    have "sh_GetAllUnprocessedTransactions lossy_storage = sh_GetAllUnprocessedTransactions mem_storage"
      "sh_GetProcessedTxSignaturesBySlot lossy_storage = sh_GetProcessedTxSignaturesBySlot mem_storage"
      "sh_GetLastProcessedTransaction lossy_storage = sh_GetLastProcessedTransaction mem_storage"
      by (simp_all add: lossy_storage_def)
    with known [of slot] show ?thesis unfolding getQueuedTxSignatures_def by metis
  qed
  let ?x = "\<lambda>i :: Signature. \<lparr>ts_Signature = i, ts_Slot = ucast i\<rparr>"
  have "long_history 3 = map ?x [3, 2, 1]" by (simp add: long_history_def upt_rec)
  then have newer: "newer_than ?lq (long_history 3) = map ?x [3, 2, 1]" by (simp add: newer_than_def zero_TxPoint_def)
  let ?pts = "map (\<lambda>i :: Signature. \<lparr>tp_TxSignature = i, tp_Slot = ucast i\<rparr>) [1, 2, 3]"
  have pts: "new_points example_tracker ?lq (map ?x [3, 2, 1]) = ?pts"
    by (simp add: new_points_def point_of_def example_tracker_def)
  obtain d1 where push: "PushUnprocessedTransactions mem_api ?pts mem_new = (Inr (), d1)"
    using mem_handler.push_live [OF mem_new_ok] by blast
  have "push_room (length ?pts) (mem_view mem_new)" by (simp add: push_room_def mem_new_view)
  from mem_handler.push_writes [OF mem_new_ok this] push have v1: "as_queue (mem_view d1) \<noteq> []"
    by (simp add: writes_def spec_push_def)
  have ops: "sh_PushUnprocessedTransactions lossy_storage = PushUnprocessedTransactions mem_api"
    "sh_StoreLatestQueriedTransaction lossy_storage = (\<lambda>p d. (Inl (ExtErr STR ''disk full''), d))"
    by (simp_all add: lossy_storage_def)
  have "newer_than ?lq (long_history 3) \<noteq> []" by (simp add: newer)
  moreover have "points_loop example_tracker ?lq (rev (newer_than ?lq (long_history 3))) [] = ?pts"
    unfolding points_loop_new_points newer pts ..
  ultimately show ?thesis
    using push v1
    by (simp add: fetchNextGetSignaturesForAddress_def bind_def on_world_simp height s0 fetch s1 wrapE_def from_storage_def
        known' on_storage_simp ops Let_def del: list.map)
qed

theorem failed_cursor_write_strands_queue_witness:
  "\<exists>e s'. fetchNextGetSignaturesForAddress example_tracker (example_world (\<lambda>_. None)) lossy_storage 2 9 zero_TxPoint new_state = (Inl e, s')
     \<and> as_queue (mem_view (storage (snd (transactionPollingPass example_tracker (example_world (\<lambda>_. None)) lossy_storage example_lib 2 s')))) =
       as_queue (mem_view (storage s')) \<and> as_queue (mem_view (storage s')) \<noteq> []"
proof -
  let ?env = "example_world (\<lambda>_. None)"
  obtain e s' where run: "fetchNextGetSignaturesForAddress example_tracker ?env lossy_storage 2 9 zero_TxPoint new_state = (Inl e, s')"
    and queue: "as_queue (mem_view (storage s')) \<noteq> []"
    using lossy_fetch by blast
  have single: "et_trackedPrograms example_tracker =
      [(9, [\<lparr>es_eventType = (), es_name = ''Deposited'', es_discriminant = replicate 8 5\<rparr>])]"
    by (simp add: example_tracker_def)
  have zero: "as_queried (mem_view (storage new_state)) = zero_TxPoint" "as_queue (mem_view (storage new_state)) = []"
    by (simp_all add: mem_new_view)
  have ok: "mem_ok (storage new_state)" and room: "push_room (length (long_history 3)) (mem_view (storage new_state))"
    and cursors: "tp_TxSignature (as_queried (mem_view (storage new_state))) = tp_TxSignature (as_processed (mem_view (storage new_state)))"
    by (simp_all add: mem_new_ok push_room_def mem_new_view long_history_def)
  have skip: "tp_TxSignature (as_queried (mem_view (storage new_state))) \<noteq> 0 \<or> et_startFromSlot example_tracker = 0"
    by (simp add: example_tracker_def)
  have changed: "as_queue (mem_view (storage s')) \<noteq> as_queue (mem_view (storage new_state))" using queue zero by simp
  have run': "fetchNextGetSignaturesForAddress example_tracker ?env lossy_storage 2 9 (as_queried (mem_view (storage new_state))) new_state
      = (Inl e, s')" unfolding zero(1) by (rule run)
  note strands = failed_cursor_write_strands_queue [OF lossy_contract, OF single, OF example_rpc,
      OF long_history_3, OF ok, OF room, OF cursors, OF skip]
  from strands [OF run' changed, where n = 1 and lib = example_lib] run queue show ?thesis
    by auto
qed

text \<open>
  C25. No failure makes the tracker queue a transaction twice. Take a node of which no fetch gives
  a signature twice, a zero one or more than \<open>n\<close> and whose \<open>getBlocks\<close> stays in the range asked
  for, in order, the head settings that \<open>NewEventTracker\<close> checks, any number of programs and any
  start slot. In every state that is reached by any sequence of polling passes, head refreshes,
  restarts and changes of the outside world, for which the 64-bit counters and slots have room, and
  in which any read, any call of the node and any write of the storage may fail, the one of the
  query cursor included: the queue holds no signature twice, the last processed transaction is not
  queued, and the recorded head is a stored block at or below the slot the refresher is at.
\<close>

theorem tracker_queue_sound:
  fixes s0 s :: "('d, 'w) tracker_state"
  assumes "storage_handler st ok view sig_text key_text"
    and "fetches_ok t env fuel n TYPE('d)" "blocks_between env" "head_config_ok t"
    and "ok (storage s0)" "queue_sound (view (storage s0))" "head_inv (chainHeadSlot s0) (view (storage s0))"
    and "(tracker_step ovf t env st lib fuel (tracker_room view t env n))\<^sup>*\<^sup>* s0 s"
  shows "ok (storage s) \<and> distinct (map tp_TxSignature (as_queue (view (storage s)))) \<and>
    tp_TxSignature (as_processed (view (storage s))) \<notin> tp_TxSignature ` set (as_queue (view (storage s))) \<and>
    (\<forall>bp. as_head (view (storage s)) = Some bp \<longrightarrow>
      as_blocks (view (storage s)) (bp_BlockSlot bp) = Some bp \<and> bp_BlockSlot bp \<le> chainHeadSlot s)"
  using storage_handler.tracker_run_sound [OF assms] by (simp add: queue_sound_def head_inv_def)

text \<open>A poll over the store whose cursor cannot be written leaves three transactions queued.\<close>

theorem tracker_queue_sound_witness:
  "\<exists>s. (tracker_step (\<lambda>x. x) example_tracker (example_world (\<lambda>_. None)) lossy_storage example_lib 2
      (tracker_room mem_view example_tracker (example_world (\<lambda>_. None)) 3))\<^sup>*\<^sup>* new_state s
    \<and> as_queue (mem_view (storage s)) \<noteq> [] \<and> distinct (map tp_TxSignature (as_queue (mem_view (storage s))))"
proof -
  let ?env = "example_world (\<lambda>_. None)"
  let ?step = "tracker_step (\<lambda>x. x) example_tracker ?env lossy_storage example_lib 2 (tracker_room mem_view example_tracker ?env 3)"
  have room: "tracker_room mem_view example_tracker ?env 3 new_state"
    using example_bounds(2)
    by (simp add: tracker_room_def fetch_room_def mem_new_view events_fit_def example_world_def replay_world_def ret_def
        example_tracker_def)
  obtain e s' where fetch: "fetchNextGetSignaturesForAddress example_tracker ?env lossy_storage 2 9 zero_TxPoint new_state = (Inl e, s')"
    and queue: "as_queue (mem_view (storage s')) \<noteq> []"
    using lossy_fetch by blast
  have ops: "sh_GetLastProcessedTransaction lossy_storage = GetLastProcessedTransaction mem_api"
    "sh_GetLatestQueriedTransaction lossy_storage = GetLatestQueriedTransaction mem_api"
    by (simp_all add: lossy_storage_def)
  have reads: "GetLastProcessedTransaction mem_api mem_new = Inr zero_TxPoint" "GetLatestQueriedTransaction mem_api mem_new = Inr zero_TxPoint"
    using mem_handler.get_processed_live [OF mem_new_ok] mem_handler.get_queried_live [OF mem_new_ok] by (simp_all add: mem_new_view)
  have progs: "map fst (et_trackedPrograms example_tracker) = [9]" by (simp add: example_tracker_def)
  obtain r where "transactionPollingPass example_tracker ?env lossy_storage example_lib 2 new_state = (r, s')"
    using fetch by (cases "stops e") (simp_all add: transactionPollingPass_def bind_def attempt_def from_storage_def ops reads progs ret_def)
  with room have "?step new_state s'" by (rule tracker_step.poll)
  then have run: "?step\<^sup>*\<^sup>* new_state s'" by (rule r_into_rtranclp)
  have start: "mem_ok (storage new_state)" "queue_sound (mem_view (storage new_state))"
    "head_inv (chainHeadSlot new_state) (mem_view (storage new_state))"
    using new_state_inv by (simp_all add: tracker_inv_def queue_inv_sound)
  note setting = example_setting [unfolded tracker_setting_def, of "\<lambda>_. None" 2]
  from tracker_queue_sound [OF lossy_contract _ _ _ start run] setting queue run show ?thesis by auto
qed

end
