(* ===== verification/Rpc_Limits.thy ===== *)
theory Rpc_Limits
  imports Tracker "HOL-Library.Signed_Division"
begin

text \<open>
  \<open>common/mutex_rpc_client.go\<close>: the client that limits the calls of every RPC method, backs
  off after a 429 answer and calls again. The limiters of \<open>golang.org/x/time/rate\<close>, the clock,
  the timer and the underlying client are parameters. The locks of the code make the calls of
  one method run one after the other, which is how the state is passed here.
\<close>

section \<open>Limits\<close>

definition rpcMethodLimitWindow :: int where "rpcMethodLimitWindow = 10 * 1000000000"

definition rpcMethodGetBalance :: string where "rpcMethodGetBalance = ''getBalance''"
definition rpcMethodGetTokenAccountBalance :: string where "rpcMethodGetTokenAccountBalance = ''getTokenAccountBalance''"
definition rpcMethodGetAccountInfo :: string where "rpcMethodGetAccountInfo = ''getAccountInfo''"
definition rpcMethodGetProgramAccounts :: string where "rpcMethodGetProgramAccounts = ''getProgramAccounts''"
definition rpcMethodGetLatestBlockhash :: string where "rpcMethodGetLatestBlockhash = ''getLatestBlockhash''"
definition rpcMethodGetSlot :: string where "rpcMethodGetSlot = ''getSlot''"
definition rpcMethodSendTransaction :: string where "rpcMethodSendTransaction = ''sendTransaction''"
definition rpcMethodGetSignatureStatuses :: string where "rpcMethodGetSignatureStatuses = ''getSignatureStatuses''"
definition rpcMethodSimulateTransaction :: string where "rpcMethodSimulateTransaction = ''simulateTransaction''"
definition rpcMethodRequestAirdrop :: string where "rpcMethodRequestAirdrop = ''requestAirdrop''"
definition rpcMethodGetTransaction :: string where "rpcMethodGetTransaction = ''getTransaction''"
definition rpcMethodGetSignaturesForAddress :: string where "rpcMethodGetSignaturesForAddress = ''getSignaturesForAddress''"
definition rpcMethodGetBlocks :: string where "rpcMethodGetBlocks = ''getBlocks''"
definition rpcMethodGetBlock :: string where "rpcMethodGetBlock = ''getBlock''"
definition rpcMethodGetBlockHeight :: string where "rpcMethodGetBlockHeight = ''getBlockHeight''"

record RPCMethodLimitsConfig =
  lc_GlobalRPSLimit :: int
  lc_GetBalance :: int
  lc_GetTokenAccountBalance :: int
  lc_GetAccountInfo :: int
  lc_GetProgramAccounts :: int
  lc_GetLatestBlockhash :: int
  lc_GetSlot :: int
  lc_SendTransaction :: int
  lc_GetSignatureStatuses :: int
  lc_SimulateTransaction :: int
  lc_RequestAirdrop :: int
  lc_GetTransaction :: int
  lc_GetSignaturesForAddress :: int
  lc_GetBlocks :: int
  lc_GetBlock :: int
  lc_GetBlockHeight :: int

definition default_RPCMethodLimitsConfig :: RPCMethodLimitsConfig where
  "default_RPCMethodLimitsConfig =
     \<lparr>lc_GlobalRPSLimit = 7, lc_GetBalance = 38, lc_GetTokenAccountBalance = 40, lc_GetAccountInfo = 40,
      lc_GetProgramAccounts = 10, lc_GetLatestBlockhash = 40, lc_GetSlot = 40, lc_SendTransaction = 20,
      lc_GetSignatureStatuses = 10, lc_SimulateTransaction = 40, lc_RequestAirdrop = 40, lc_GetTransaction = 10,
      lc_GetSignaturesForAddress = 10, lc_GetBlocks = 40, lc_GetBlock = 6, lc_GetBlockHeight = 40\<rparr>"

text \<open>
  \<open>rate_Every\<close> and \<open>NewLimiter\<close> are those of \<open>x/time/rate\<close>. Go's division truncates and
  panics on zero. The counts are far from the bounds of Go's 64-bit int.
\<close>

definition newRPCMethodLimiter :: "(int \<Rightarrow> 'r) \<Rightarrow> ('r \<Rightarrow> int \<Rightarrow> 'lim) \<Rightarrow> int \<Rightarrow> int \<Rightarrow> go_error + 'lim" where
  "newRPCMethodLimiter rate_Every NewLimiter window limitCount =
     (let burst = max (limitCount sdiv 10) 1;
          sustained = limitCount - burst
      in if sustained = 0 then Inl (GoPanic STR ''integer divide by zero'')
         else Inr (NewLimiter (rate_Every (window sdiv sustained)) burst))"

text \<open>The map literal of \<open>NewMutexRPCClient\<close>, as the counts of its keys.\<close>

definition method_counts :: "RPCMethodLimitsConfig \<Rightarrow> (string \<times> int) list" where
  "method_counts config =
     [(rpcMethodGetBalance, lc_GetBalance config),
      (rpcMethodGetTokenAccountBalance, lc_GetTokenAccountBalance config),
      (rpcMethodGetAccountInfo, lc_GetAccountInfo config),
      (rpcMethodGetProgramAccounts, lc_GetProgramAccounts config),
      (rpcMethodGetLatestBlockhash, lc_GetLatestBlockhash config),
      (rpcMethodGetSlot, lc_GetSlot config),
      (rpcMethodSendTransaction, lc_SendTransaction config),
      (rpcMethodGetSignatureStatuses, lc_GetSignatureStatuses config),
      (rpcMethodSimulateTransaction, lc_SimulateTransaction config),
      (rpcMethodRequestAirdrop, lc_RequestAirdrop config),
      (rpcMethodGetTransaction, lc_GetTransaction config),
      (rpcMethodGetSignaturesForAddress, lc_GetSignaturesForAddress config),
      (rpcMethodGetBlocks, lc_GetBlocks config),
      (rpcMethodGetBlock, lc_GetBlock config),
      (rpcMethodGetBlockHeight, lc_GetBlockHeight config)]"

fun build_limiters ::
  "(int \<Rightarrow> 'r) \<Rightarrow> ('r \<Rightarrow> int \<Rightarrow> 'lim) \<Rightarrow> (string \<times> int) list \<Rightarrow> go_error + (string \<times> 'lim) list" where
  "build_limiters rate_Every NewLimiter [] = Inr []"
| "build_limiters rate_Every NewLimiter ((method, n) # rest) =
     (case newRPCMethodLimiter rate_Every NewLimiter rpcMethodLimitWindow n of
        Inl e \<Rightarrow> Inl e
      | Inr limiter \<Rightarrow>
          (case build_limiters rate_Every NewLimiter rest of
             Inl e \<Rightarrow> Inl e
           | Inr limiters \<Rightarrow> Inr ((method, limiter) # limiters)))"

record ('c, 'lim) MutexRPCClient =
  mc_rpcClient :: 'c
  mc_methodComps :: "(string \<times> 'lim) list"

definition NewMutexRPCClient ::
  "(int \<Rightarrow> 'r) \<Rightarrow> ('r \<Rightarrow> int \<Rightarrow> 'lim) \<Rightarrow> 'c \<Rightarrow> RPCMethodLimitsConfig option \<Rightarrow> go_error + ('c, 'lim) MutexRPCClient" where
  "NewMutexRPCClient rate_Every NewLimiter rpcClient config =
     (let config = (case config of None \<Rightarrow> default_RPCMethodLimitsConfig | Some c \<Rightarrow> c) in
      case build_limiters rate_Every NewLimiter (method_counts config) of
        Inl e \<Rightarrow> Inl e
      | Inr limiters \<Rightarrow> Inr \<lparr>mc_rpcClient = rpcClient, mc_methodComps = limiters\<rparr>)"

section \<open>Backing off\<close>

definition defaultRetryAfter :: int where "defaultRetryAfter = 10 * 1000000000"

text \<open>\<open>strconv.Atoi\<close>: an optional sign and decimal digits, within 64 bits.\<close>

fun digits_value :: "string \<Rightarrow> int \<Rightarrow> int option" where
  "digits_value [] acc = Some acc"
| "digits_value (c # cs) acc =
     (let d = int (of_char c) - 48 in if 0 \<le> d \<and> d \<le> 9 then digits_value cs (10 * acc + d) else None)"

definition strconv_Atoi :: "string \<Rightarrow> int option" where
  "strconv_Atoi s =
     (let (sign, ds) = (case s of c # cs \<Rightarrow> if c = CHR ''-'' then (-1, cs) else if c = CHR ''+'' then (1, cs) else (1, s)
                        | [] \<Rightarrow> (1, s))
      in if ds = [] then None
         else case digits_value ds 0 of
           None \<Rightarrow> None
         | Some n \<Rightarrow> if - (2 ^ 63) \<le> sign * n \<and> sign * n < 2 ^ 63 then Some (sign * n) else None)"

text \<open>A \<open>time.Duration\<close> is 64 bits wide and its product wraps.\<close>

definition duration_wrap :: "int \<Rightarrow> int" where
  "duration_wrap n = sint (word_of_int n :: 64 word)"

text \<open>\<open>ParseTime\<close> is \<open>http.ParseTime\<close>, giving the instant; \<open>now\<close> the clock.\<close>

definition parseRetryAfter :: "(string \<Rightarrow> go_error + int) \<Rightarrow> int \<Rightarrow> string \<Rightarrow> int" where
  "parseRetryAfter ParseTime now header =
     (if header = '''' then defaultRetryAfter
      else case strconv_Atoi header of
        Some seconds \<Rightarrow> if seconds \<le> 0 then defaultRetryAfter else duration_wrap (seconds * 1000000000)
      | None \<Rightarrow>
          (case ParseTime header of
             Inr t \<Rightarrow> if t - now > 0 then t - now else defaultRetryAfter
           | Inl _ \<Rightarrow> defaultRetryAfter))"

fun errors_As_rateLimitError :: "go_error \<Rightarrow> int option" where
  "errors_As_rateLimitError (Wrapf msg e) = errors_As_rateLimitError e"
| "errors_As_rateLimitError (RateLimitErr d) = Some d"
| "errors_As_rateLimitError e = None"

fun errors_As_HTTPError :: "go_error \<Rightarrow> int option" where
  "errors_As_HTTPError (Wrapf msg e) = errors_As_HTTPError e"
| "errors_As_HTTPError (HTTPErr code) = Some code"
| "errors_As_HTTPError e = None"

text \<open>The error of the call, None for nil; the result is the back-off, None for not limited.\<close>

definition rateLimitRetryAfter :: "go_error option \<Rightarrow> int option" where
  "rateLimitRetryAfter err_opt =
     (case err_opt of None \<Rightarrow> None | Some err \<Rightarrow>
      case errors_As_rateLimitError err of Some retryAfter \<Rightarrow> Some retryAfter | None \<Rightarrow>
        if errors_As_RPCError err = Some 429 then Some defaultRetryAfter
        else if errors_As_HTTPError err = Some 429 then Some defaultRetryAfter
        else None)"

section \<open>The limited call\<close>

text \<open>
  \<open>cooldownUntil\<close> of every method, and the outside world. The zero \<open>time.Time\<close> is the
  instant 0. The clock is read in the state the operations before it have left.
\<close>

record 'w limits_state =
  ls_cooldownUntil :: "string \<Rightarrow> int"
  ls_world :: 'w

record ('w, 'lim) limits_world =
  lw_Now :: "'w \<Rightarrow> int"
  lw_select_wait :: "int \<Rightarrow> ('w, bool) exec"
  lw_limiter_Wait :: "'lim \<Rightarrow> ('w, unit) exec"

definition on_node :: "('w, 'a) exec \<Rightarrow> ('w limits_state, 'a) exec" where
  "on_node m = focus ls_world (\<lambda>w s. s\<lparr>ls_world := w\<rparr>) m"

text \<open>Nothing bounds how often a node answers 429, so the loop runs on fuel.\<close>

fun rpc_limits_loop ::
  "('w, 'lim) limits_world \<Rightarrow> 'lim \<Rightarrow> string \<Rightarrow> ('w limits_state, 'a) exec \<Rightarrow> nat \<Rightarrow> ('w limits_state, 'a) exec" where
  "rpc_limits_loop env limiter method call 0 = fail OutOfFuel"
| "rpc_limits_loop env limiter method call (Suc fuel) =
     bind (gets (\<lambda>s. ls_cooldownUntil s method - lw_Now env (ls_world s))) (\<lambda>wait.
     bind (if wait > 0 then on_node (lw_select_wait env wait) else ret False) (\<lambda>done.
     if done then fail CtxDone
     else
     bind (on_node (lw_limiter_Wait env limiter)) (\<lambda>_.
     bind (attempt call) (\<lambda>r.
     case rateLimitRetryAfter (case r of Inl err \<Rightarrow> Some err | Inr _ \<Rightarrow> None) of
       None \<Rightarrow> (case r of Inl err \<Rightarrow> fail err | Inr result \<Rightarrow> ret result)
     | Some retryAfter \<Rightarrow>
         bind (modify (\<lambda>s. s\<lparr>ls_cooldownUntil := (ls_cooldownUntil s)(method := lw_Now env (ls_world s) + retryAfter)\<rparr>)) (\<lambda>_.
         rpc_limits_loop env limiter method call fuel)))))"

definition withRPCLimits ::
  "('w, 'lim) limits_world \<Rightarrow> nat \<Rightarrow> ('c, 'lim) MutexRPCClient \<Rightarrow> string \<Rightarrow> ('w limits_state, 'a) exec \<Rightarrow>
   ('w limits_state, 'a) exec" where
  "withRPCLimits env fuel c method call =
     (case map_of (mc_methodComps c) method of
        None \<Rightarrow> fail (Errorf STR ''method %s not found in methodComps'')
      | Some limiter \<Rightarrow> rpc_limits_loop env limiter method call fuel)"

section \<open>The methods of the client\<close>

text \<open>
  The methods of \<open>rpc.Client\<close> that are called, with the arguments the source varies; the type
  variables are the results the source only passes on; options without a commitment are None,
  the options of the program accounts are their memcmp filters, offset and bytes, and those of
  the signatures are the tracker's, or a limit alone. A nil entry of a result is None.
\<close>

record ('w, 'bal, 'tb, 'acc, 'prog, 'bh, 'tx, 'stat, 'sim) rpc_client =
  rc_GetBalance :: "PublicKey \<Rightarrow> CommitmentType \<Rightarrow> ('w, 'bal) exec"
  rc_GetTokenAccountBalance :: "PublicKey \<Rightarrow> CommitmentType \<Rightarrow> ('w, 'tb) exec"
  rc_GetAccountInfoWithOpts :: "PublicKey \<Rightarrow> CommitmentType option \<Rightarrow> ('w, 'acc) exec"
  rc_GetProgramAccountsWithOpts :: "PublicKey \<Rightarrow> (nat \<times> bytes) list \<Rightarrow> ('w, 'prog) exec"
  rc_GetLatestBlockhash :: "CommitmentType \<Rightarrow> ('w, 'bh) exec"
  rc_GetSlot :: "CommitmentType \<Rightarrow> ('w, u64) exec"
  rc_SendTransactionWithOpts :: "'tx \<Rightarrow> ('w, Signature) exec"
  rc_SimulateTransactionWithOpts :: "'tx \<Rightarrow> ('w, 'sim) exec"
  rc_RequestAirdrop :: "PublicKey \<Rightarrow> u64 \<Rightarrow> CommitmentType \<Rightarrow> ('w, Signature) exec"
  rc_GetTransaction :: "Signature \<Rightarrow> CommitmentType \<Rightarrow> ('w, GetTransactionResult option) exec"
  rc_GetSignaturesForAddressWithOpts :: "PublicKey \<Rightarrow> SignaturesOpts + int \<Rightarrow> ('w, TransactionSignature option list) exec"
  rc_GetBlocks :: "u64 \<Rightarrow> u64 \<Rightarrow> CommitmentType \<Rightarrow> ('w, u64 list) exec"
  rc_GetBlockWithOpts :: "u64 \<Rightarrow> CommitmentType \<Rightarrow> ('w, GetBlockResult option) exec"
  rc_GetBlockHeight :: "CommitmentType \<Rightarrow> ('w, u64) exec"
  rc_getSignatureStatuses :: "bool \<Rightarrow> Signature list \<Rightarrow> ('w, int \<times> string \<times> (go_error + go_error option \<times> (go_error + 'stat option))) exec"

text \<open>
  \<open>rc_getSignatureStatuses\<close> is the HTTP exchange of \<open>RPCCallWithCallback\<close>: the status code,
  the \<open>Retry-After\<close> header, and the decoded body with its error field and \<open>GetObject\<close>, whose
  None is a nil object or value.
\<close>

definition MutexRPCClient_GetBalance where
  "MutexRPCClient_GetBalance env fuel c publicKey commitment =
     withRPCLimits env fuel c rpcMethodGetBalance (on_node (rc_GetBalance (mc_rpcClient c) publicKey commitment))"

definition MutexRPCClient_GetTokenAccountBalance where
  "MutexRPCClient_GetTokenAccountBalance env fuel c account commitment =
     withRPCLimits env fuel c rpcMethodGetTokenAccountBalance
       (on_node (rc_GetTokenAccountBalance (mc_rpcClient c) account commitment))"

definition MutexRPCClient_GetAccountInfoWithOpts where
  "MutexRPCClient_GetAccountInfoWithOpts env fuel c account opts =
     withRPCLimits env fuel c rpcMethodGetAccountInfo (on_node (rc_GetAccountInfoWithOpts (mc_rpcClient c) account opts))"

definition MutexRPCClient_GetProgramAccountsWithOpts where
  "MutexRPCClient_GetProgramAccountsWithOpts env fuel c publicKey opts =
     withRPCLimits env fuel c rpcMethodGetProgramAccounts
       (on_node (rc_GetProgramAccountsWithOpts (mc_rpcClient c) publicKey opts))"

definition MutexRPCClient_GetLatestBlockhash where
  "MutexRPCClient_GetLatestBlockhash env fuel c commitment =
     withRPCLimits env fuel c rpcMethodGetLatestBlockhash (on_node (rc_GetLatestBlockhash (mc_rpcClient c) commitment))"

definition MutexRPCClient_GetSlot where
  "MutexRPCClient_GetSlot env fuel c commitment =
     withRPCLimits env fuel c rpcMethodGetSlot (on_node (rc_GetSlot (mc_rpcClient c) commitment))"

definition MutexRPCClient_SendTransactionWithOpts where
  "MutexRPCClient_SendTransactionWithOpts env fuel c transaction =
     withRPCLimits env fuel c rpcMethodSendTransaction (on_node (rc_SendTransactionWithOpts (mc_rpcClient c) transaction))"

definition MutexRPCClient_GetSignatureStatuses ::
  "(string \<Rightarrow> go_error + int) \<Rightarrow> ('w, 'lim) limits_world \<Rightarrow> nat \<Rightarrow>
   (('w, 'bal, 'tb, 'acc, 'prog, 'bh, 'tx, 'stat, 'sim) rpc_client, 'lim) MutexRPCClient \<Rightarrow>
   bool \<Rightarrow> Signature list \<Rightarrow> ('w limits_state, 'stat) exec" where
  "MutexRPCClient_GetSignatureStatuses ParseTime env fuel c searchTransactionHistory transactionSignatures =
     withRPCLimits env fuel c rpcMethodGetSignatureStatuses
       (bind (on_node (rc_getSignatureStatuses (mc_rpcClient c) searchTransactionHistory transactionSignatures))
         (\<lambda>(statusCode, retryAfterHeader, body).
           if statusCode = 429 then
             bind (gets (\<lambda>s. lw_Now env (ls_world s))) (\<lambda>now. fail (RateLimitErr (parseRetryAfter ParseTime now retryAfterHeader)))
           else case body of
             Inl e \<Rightarrow>
               if statusCode \<ge> 400 then fail (wrapped STR ''rpc call getSignatureStatuses status code: %v: %w'' e)
               else fail (wrapped STR ''rpc call getSignatureStatuses: %w'' e)
           | Inr (Some rpcError, _) \<Rightarrow> fail rpcError
           | Inr (None, Inl e) \<Rightarrow> fail e
           | Inr (None, Inr None) \<Rightarrow> fail (ExtErr STR ''not found'')
           | Inr (None, Inr (Some out)) \<Rightarrow> ret out))"

definition MutexRPCClient_SimulateTransactionWithOpts where
  "MutexRPCClient_SimulateTransactionWithOpts env fuel c transaction =
     withRPCLimits env fuel c rpcMethodSimulateTransaction
       (on_node (rc_SimulateTransactionWithOpts (mc_rpcClient c) transaction))"

definition MutexRPCClient_RequestAirdrop where
  "MutexRPCClient_RequestAirdrop env fuel c account lamports commitment =
     withRPCLimits env fuel c rpcMethodRequestAirdrop (on_node (rc_RequestAirdrop (mc_rpcClient c) account lamports commitment))"

definition MutexRPCClient_GetTransaction where
  "MutexRPCClient_GetTransaction env fuel c txSig opts =
     withRPCLimits env fuel c rpcMethodGetTransaction (on_node (rc_GetTransaction (mc_rpcClient c) txSig opts))"

definition MutexRPCClient_GetSignaturesForAddressWithOpts where
  "MutexRPCClient_GetSignaturesForAddressWithOpts env fuel c account opts =
     withRPCLimits env fuel c rpcMethodGetSignaturesForAddress
       (on_node (rc_GetSignaturesForAddressWithOpts (mc_rpcClient c) account opts))"

definition MutexRPCClient_GetBlocks where
  "MutexRPCClient_GetBlocks env fuel c startSlot endSlot commitment =
     withRPCLimits env fuel c rpcMethodGetBlocks (on_node (rc_GetBlocks (mc_rpcClient c) startSlot endSlot commitment))"

definition MutexRPCClient_GetBlockWithOpts where
  "MutexRPCClient_GetBlockWithOpts env fuel c slot opts =
     withRPCLimits env fuel c rpcMethodGetBlock (on_node (rc_GetBlockWithOpts (mc_rpcClient c) slot opts))"

definition MutexRPCClient_GetBlockHeight where
  "MutexRPCClient_GetBlockHeight env fuel c commitment =
     withRPCLimits env fuel c rpcMethodGetBlockHeight (on_node (rc_GetBlockHeight (mc_rpcClient c) commitment))"

end
