(* ===== verification/Rpc_Limits_Properties.thy ===== *)
theory Rpc_Limits_Properties
  imports Rpc_Limits Tracker_Fetch
begin

text \<open>
  What the limits of \<open>Rpc_Limits\<close> give: the rounds of the loop of \<open>withRPCLimits\<close>, its
  result, the back-off it keeps, the quota of the limiters, and the back-off read from a
  \<open>Retry-After\<close> header.
\<close>

section \<open>The rounds of the loop\<close>

text \<open>
  What runs before a call, None when the context or the limiter ended it, and the state in
  which the call after \<open>k\<close> rate-limited ones is made.
\<close>

definition before_call ::
  "('w, 'lim) limits_world \<Rightarrow> 'lim \<Rightarrow> string \<Rightarrow> ('w limits_state, unit) exec" where
  "before_call env limiter method =
     bind (gets (\<lambda>s. ls_cooldownUntil s method - lw_Now env (ls_world s))) (\<lambda>wait.
     bind (if wait > 0 then on_node (lw_select_wait env wait) else ret False) (\<lambda>done.
     if done then fail CtxDone else on_node (lw_limiter_Wait env limiter)))"

definition back_off :: "('w, 'lim) limits_world \<Rightarrow> string \<Rightarrow> int \<Rightarrow> 'w limits_state \<Rightarrow> 'w limits_state" where
  "back_off env method d s =
     s\<lparr>ls_cooldownUntil := (ls_cooldownUntil s)(method := lw_Now env (ls_world s) + d)\<rparr>"

primrec limited_calls ::
  "('w, 'lim) limits_world \<Rightarrow> 'lim \<Rightarrow> string \<Rightarrow> ('w limits_state, 'a) exec \<Rightarrow> nat \<Rightarrow> 'w limits_state \<Rightarrow>
   'w limits_state option" where
  "limited_calls env limiter method call 0 s =
     (case before_call env limiter method s of (Inr _, t) \<Rightarrow> Some t | _ \<Rightarrow> None)"
| "limited_calls env limiter method call (Suc k) s =
     (case before_call env limiter method s of
        (Inr _, t) \<Rightarrow>
          (case call t of
             (Inl err, u) \<Rightarrow>
               (case rateLimitRetryAfter (Some err) of
                  Some d \<Rightarrow> limited_calls env limiter method call k (back_off env method d u)
                | None \<Rightarrow> None)
           | _ \<Rightarrow> None)
      | _ \<Rightarrow> None)"

lemma rateLimit_not_stops: "rateLimitRetryAfter (Some e) = Some d \<Longrightarrow> \<not> stops e"
  by (cases e) (auto simp: rateLimitRetryAfter_def)

lemma rateLimit_nil [simp]: "rateLimitRetryAfter None = None"
  by (simp add: rateLimitRetryAfter_def)

lemma rpc_limits_loop_step:
  "rpc_limits_loop env limiter method call (Suc fuel) s =
     (case before_call env limiter method s of
        (Inl e, t) \<Rightarrow> (Inl e, t)
      | (Inr _, t) \<Rightarrow>
          (case call t of
             (Inr a, u) \<Rightarrow> (Inr a, u)
           | (Inl err, u) \<Rightarrow>
               (case rateLimitRetryAfter (Some err) of
                  None \<Rightarrow> (Inl err, u)
                | Some d \<Rightarrow> rpc_limits_loop env limiter method call fuel (back_off env method d u))))"
  by (auto simp: before_call_def back_off_def exec_defs dest: rateLimit_not_stops
      split: prod.splits sum.splits option.splits if_splits)

declare rpc_limits_loop.simps(2) [simp del]

lemma rpc_limits_loop_Inr_iff:
  "rpc_limits_loop env limiter method call fuel s = (Inr a, s') \<longleftrightarrow>
     (\<exists>k < fuel. \<exists>t. limited_calls env limiter method call k s = Some t \<and> call t = (Inr a, s'))"
proof (induction fuel arbitrary: s)
  case 0
  then show ?case by (simp add: fail_def)
next
  case (Suc fuel)
  have split_k: "(\<exists>k < Suc fuel. P k) \<longleftrightarrow> P 0 \<or> (\<exists>k < fuel. P (Suc k))" for P
    by (metis Ex_less_Suc2)
  show ?case unfolding split_k rpc_limits_loop_step
    using Suc.IH by (auto split: prod.splits sum.splits option.splits)
qed

text \<open>
  C17. A limited call returns a value exactly when its method has a limiter and the underlying
  call returns that value after some number of rate-limited answers, each followed by its
  back-off: it is called again after every 429 and never again after a success, and its result
  and the state it leaves are those of the last call.
\<close>

theorem withRPCLimits_success_iff:
  "withRPCLimits env fuel c method call s = (Inr a, s') \<longleftrightarrow>
     (\<exists>limiter k t. map_of (mc_methodComps c) method = Some limiter \<and> k < fuel \<and>
        limited_calls env limiter method call k s = Some t \<and> call t = (Inr a, s'))"
  by (auto simp: withRPCLimits_def fail_def rpc_limits_loop_Inr_iff split: option.splits)

section \<open>Cooldowns\<close>

text \<open>A clock that never goes back, a timer that does not fire early, a limiter that takes time.\<close>

definition clock_ok :: "('w, 'lim) limits_world \<Rightarrow> bool" where
  "clock_ok env \<longleftrightarrow>
     (\<forall>d w w'. lw_select_wait env d w = (Inr False, w') \<longrightarrow> lw_Now env w + d \<le> lw_Now env w') \<and>
     (\<forall>l w r w'. lw_limiter_Wait env l w = (r, w') \<longrightarrow> lw_Now env w \<le> lw_Now env w')"

text \<open>The call, with a panic where it would be made before the end of its method's cooldown.\<close>

definition guarded ::
  "('w, 'lim) limits_world \<Rightarrow> string \<Rightarrow> ('w limits_state, 'a) exec \<Rightarrow> ('w limits_state, 'a) exec" where
  "guarded env method call = (\<lambda>s.
     if lw_Now env (ls_world s) < ls_cooldownUntil s method then (Inl (GoPanic STR ''called during the cooldown''), s)
     else call s)"

lemma before_call_after_cooldown:
  assumes "clock_ok env" "before_call env limiter method s = (Inr x, t)"
  shows "ls_cooldownUntil t method \<le> lw_Now env (ls_world t)" "ls_cooldownUntil t = ls_cooldownUntil s"
  using assms unfolding clock_ok_def before_call_def on_node_def
  by (auto simp: exec_defs split: prod.splits sum.splits if_splits) (smt (verit))+

lemma rpc_limits_loop_guarded:
  assumes "clock_ok env"
  shows "rpc_limits_loop env limiter method (guarded env method call) fuel s =
    rpc_limits_loop env limiter method call fuel s"
proof (induction fuel arbitrary: s)
  case 0
  then show ?case by simp
next
  case (Suc fuel)
  show ?case
  proof (cases "before_call env limiter method s")
    case (Pair r t)
    show ?thesis
    proof (cases r)
      case (Inl e)
      with Pair show ?thesis by (simp add: rpc_limits_loop_step)
    next
      case (Inr x)
      with Pair have "guarded env method call t = call t"
        using before_call_after_cooldown(1) [OF assms] by (fastforce simp: guarded_def)
      with Pair Inr show ?thesis by (simp add: rpc_limits_loop_step Suc.IH cong: option.case_cong sum.case_cong)
    qed
  qed
qed

lemma on_node_cooldown: "on_node m s = (r, t) \<Longrightarrow> ls_cooldownUntil t = ls_cooldownUntil s"
  by (auto simp: on_node_def focus_def split: prod.splits)

lemma before_call_cooldown:
  "before_call env limiter method s = (r, t) \<Longrightarrow> ls_cooldownUntil t = ls_cooldownUntil s"
  by (auto simp: before_call_def on_node_def exec_defs split: prod.splits sum.splits if_splits)

text \<open>
  Runs that agree on the world and on the cooldown of the method called do the same, whatever
  the cooldowns of the other methods are in each, and leave those as they were.
\<close>

lemma before_call_others:
  assumes "cd method = ls_cooldownUntil s method"
  shows "before_call env limiter method (s\<lparr>ls_cooldownUntil := cd\<rparr>) =
    (case before_call env limiter method s of (r, t) \<Rightarrow> (r, t\<lparr>ls_cooldownUntil := cd\<rparr>))"
  using assms by (auto simp: before_call_def on_node_def exec_defs split: prod.splits sum.splits)

lemma rpc_limits_loop_others:
  assumes "cd method = ls_cooldownUntil s method"
  shows "rpc_limits_loop env limiter method (on_node m) fuel (s\<lparr>ls_cooldownUntil := cd\<rparr>) =
    (case rpc_limits_loop env limiter method (on_node m) fuel s of
       (r, t) \<Rightarrow> (r, t\<lparr>ls_cooldownUntil := cd(method := ls_cooldownUntil t method)\<rparr>))"
  using assms
proof (induction fuel arbitrary: s cd)
  case 0
  have "cd(method := ls_cooldownUntil s method) = cd" using 0 by (rule fun_upd_idem)
  then show ?case by (simp add: fail_def del: fun_upd_apply)
next
  case (Suc fuel)
  obtain r t where before: "before_call env limiter method s = (r, t)" by fastforce
  have t: "ls_cooldownUntil t = ls_cooldownUntil s" using before_call_cooldown [OF before] .
  then have same: "cd(method := ls_cooldownUntil t method) = cd" using Suc.prems by (simp add: fun_upd_idem)
  note before' = before_call_others [where s = s and cd = cd, OF Suc.prems, of env limiter, unfolded before prod.case]
  obtain r' w where call: "m (ls_world t) = (r', w)" by fastforce
  let ?u = "t\<lparr>ls_world := w\<rparr>"
  have run: "on_node m t = (r', ?u)" "on_node m (t\<lparr>ls_cooldownUntil := cd\<rparr>) = (r', ?u\<lparr>ls_cooldownUntil := cd\<rparr>)"
    using call by (simp_all add: on_node_def focus_def)
  have u: "ls_cooldownUntil ?u = ls_cooldownUntil t" by simp
  have other: "back_off env method d (?u\<lparr>ls_cooldownUntil := cd\<rparr>) =
      (back_off env method d ?u)\<lparr>ls_cooldownUntil := cd(method := ls_cooldownUntil (back_off env method d ?u) method)\<rparr>" for d
    by (simp add: back_off_def)
  show ?case
  proof (cases r)
    case (Inl e)
    show ?thesis unfolding rpc_limits_loop_step before before' Inl by (simp add: same del: fun_upd_apply)
  next
    case (Inr x)
    show ?thesis
    proof (cases r')
      case (Inr a)
      show ?thesis unfolding rpc_limits_loop_step before before' \<open>r = Inr x\<close> prod.case sum.case run Inr u same ..
    next
      case (Inl err)
      show ?thesis
      proof (cases "rateLimitRetryAfter (Some err)")
        case None
        show ?thesis unfolding rpc_limits_loop_step before before' \<open>r = Inr x\<close> prod.case sum.case run Inl None option.case u same ..
      next
        case (Some d)
        have "rpc_limits_loop env limiter method (on_node m) fuel
            ((back_off env method d ?u)\<lparr>ls_cooldownUntil := cd(method := ls_cooldownUntil (back_off env method d ?u) method)\<rparr>) =
          (case rpc_limits_loop env limiter method (on_node m) fuel (back_off env method d ?u) of
            (r, t) \<Rightarrow> (r, t\<lparr>ls_cooldownUntil := (cd(method := ls_cooldownUntil (back_off env method d ?u) method))
              (method := ls_cooldownUntil t method)\<rparr>))"
          by (rule Suc.IH) simp
        then show ?thesis
          unfolding rpc_limits_loop_step before before' \<open>r = Inr x\<close> prod.case sum.case run Inl Some option.case other fun_upd_upd .
      qed
    qed
  qed
qed

lemma withRPCLimits_others:
  assumes "ls_world t = ls_world s" "ls_cooldownUntil t method = ls_cooldownUntil s method"
  shows "withRPCLimits env fuel c method (on_node m) t = (case withRPCLimits env fuel c method (on_node m) s of
      (r, u) \<Rightarrow> (r, u\<lparr>ls_cooldownUntil := (ls_cooldownUntil t)(method := ls_cooldownUntil u method)\<rparr>))"
proof -
  have t: "t = s\<lparr>ls_cooldownUntil := ls_cooldownUntil t\<rparr>" using assms(1) by simp
  have same: "(ls_cooldownUntil t)(method := ls_cooldownUntil s method) = ls_cooldownUntil t"
    using assms(2) by (rule fun_upd_idem)
  show ?thesis
  proof (cases "map_of (mc_methodComps c) method")
    case None
    show ?thesis unfolding withRPCLimits_def None option.case fail_def prod.case same using t by simp
  next
    case (Some limiter)
    show ?thesis
      unfolding withRPCLimits_def Some option.case using rpc_limits_loop_others [where cd = "ls_cooldownUntil t", OF assms(2), of env limiter m fuel]
      by (subst t)
  qed
qed

text \<open>
  C12. On a clock that does not go back, with timers that do not fire early, the call of a method
  is never made before the cooldown that its last 429 set has ended: with a guard in front of the
  call that would panic then, the limited call behaves the same. And a cooldown is its method's own: from states that differ only in the cooldowns of other
  methods, the limited call returns the same result, leaves the same world, with the waits
  and requests that the world has seen, and sets the same cooldown of its own method, and it leaves the cooldowns of all other
  methods as they were. (What the methods do share is the lock around each single call, which
  keeps the requests of the client from overlapping; one step of this model is one request.)
\<close>

theorem withRPCLimits_honours_cooldown:
  assumes "clock_ok env"
  shows "withRPCLimits env fuel c method (guarded env method (on_node m)) s = withRPCLimits env fuel c method (on_node m) s
    \<and> (\<forall>method'. method' \<noteq> method \<longrightarrow>
        ls_cooldownUntil (snd (withRPCLimits env fuel c method (on_node m) s)) method' = ls_cooldownUntil s method')
    \<and> (\<forall>t. ls_world t = ls_world s \<and> ls_cooldownUntil t method = ls_cooldownUntil s method \<longrightarrow>
        fst (withRPCLimits env fuel c method (on_node m) t) = fst (withRPCLimits env fuel c method (on_node m) s) \<and>
        ls_world (snd (withRPCLimits env fuel c method (on_node m) t)) = ls_world (snd (withRPCLimits env fuel c method (on_node m) s)) \<and>
        ls_cooldownUntil (snd (withRPCLimits env fuel c method (on_node m) t)) method =
          ls_cooldownUntil (snd (withRPCLimits env fuel c method (on_node m) s)) method)"
proof (intro conjI allI impI; (elim conjE)?)
  show "withRPCLimits env fuel c method (guarded env method (on_node m)) s = withRPCLimits env fuel c method (on_node m) s"
    by (simp add: withRPCLimits_def rpc_limits_loop_guarded [OF assms] split: option.splits)
next
  fix method' assume other: "method' \<noteq> method"
  obtain r u where run: "withRPCLimits env fuel c method (on_node m) s = (r, u)" by fastforce
  have "u = u\<lparr>ls_cooldownUntil := (ls_cooldownUntil s)(method := ls_cooldownUntil u method)\<rparr>"
    using withRPCLimits_others [OF refl refl, of env fuel c "method" m s, unfolded run prod.case] by simp
  then have "ls_cooldownUntil u = (ls_cooldownUntil s)(method := ls_cooldownUntil u method)"
    by (metis limits_state.select_convs(1) limits_state.surjective limits_state.update_convs(1))
  then have "ls_cooldownUntil u method' = ls_cooldownUntil s method'" using other by (metis fun_upd_other)
  then show "ls_cooldownUntil (snd (withRPCLimits env fuel c method (on_node m) s)) method' = ls_cooldownUntil s method'"
    by (simp add: run)
next
  fix t :: "'a limits_state"
  assume t: "ls_world t = ls_world s" "ls_cooldownUntil t method = ls_cooldownUntil s method"
  show "fst (withRPCLimits env fuel c method (on_node m) t) = fst (withRPCLimits env fuel c method (on_node m) s)"
    "ls_world (snd (withRPCLimits env fuel c method (on_node m) t)) = ls_world (snd (withRPCLimits env fuel c method (on_node m) s))"
    "ls_cooldownUntil (snd (withRPCLimits env fuel c method (on_node m) t)) method =
      ls_cooldownUntil (snd (withRPCLimits env fuel c method (on_node m) s)) method"
    unfolding withRPCLimits_others [OF t] by (simp_all split: prod.splits)
qed

text \<open>A world that is its own clock, and a node that answers 429 until its clock is past \<open>100\<close>.\<close>

definition clock_world :: "(int, unit) limits_world" where
  "clock_world =
     \<lparr>lw_Now = \<lambda>w. w, lw_select_wait = \<lambda>d w. (Inr False, w + d), lw_limiter_Wait = \<lambda>l w. (Inr (), w + 1)\<rparr>"

definition busy_node :: "(int, nat) exec" where
  "busy_node = (\<lambda>w. if w < 100 then (Inl (RateLimitErr 60), w) else (Inr 7, w))"

definition clock_client :: "(unit, unit) MutexRPCClient" where
  "clock_client = \<lparr>mc_rpcClient = (), mc_methodComps = [(rpcMethodGetSlot, ())]\<rparr>"

lemma clock_world_ok: "clock_ok clock_world"
  by (simp add: clock_ok_def clock_world_def)

lemma busy_node_calls:
  "withRPCLimits clock_world 4 clock_client rpcMethodGetSlot (on_node busy_node)
     \<lparr>ls_cooldownUntil = \<lambda>_. 0, ls_world = 5\<rparr> =
   (Inr 7, \<lparr>ls_cooldownUntil = (\<lambda>_. 0)(rpcMethodGetSlot := 127), ls_world = 128\<rparr>)"
  by (simp add: withRPCLimits_def clock_client_def rpc_limits_loop_step eval_nat_numeral before_call_def back_off_def
      on_node_def clock_world_def busy_node_def rateLimitRetryAfter_def exec_defs fun_upd_def)
     (rule ext, simp)

text \<open>The cooldown of another method, here far in the future, changes nothing.\<close>

theorem withRPCLimits_honours_cooldown_witness:
  "fst (withRPCLimits clock_world 4 clock_client rpcMethodGetSlot
      (guarded clock_world rpcMethodGetSlot (on_node busy_node)) \<lparr>ls_cooldownUntil = \<lambda>_. 0, ls_world = 5\<rparr>) = Inr 7 \<and>
    fst (withRPCLimits clock_world 4 clock_client rpcMethodGetSlot (on_node busy_node)
      \<lparr>ls_cooldownUntil = (\<lambda>_. 0)(rpcMethodGetBlock := 9000), ls_world = 5\<rparr>) = Inr 7 \<and>
    ls_world (snd (withRPCLimits clock_world 4 clock_client rpcMethodGetSlot (on_node busy_node)
      \<lparr>ls_cooldownUntil = (\<lambda>_. 0)(rpcMethodGetBlock := 9000), ls_world = 5\<rparr>)) = 128"
proof -
  have other: "((\<lambda>_. 0 :: int)(rpcMethodGetBlock := 9000)) rpcMethodGetSlot = 0"
    by (simp add: rpcMethodGetBlock_def rpcMethodGetSlot_def)
  note honours = withRPCLimits_honours_cooldown [OF clock_world_ok, of 4 clock_client rpcMethodGetSlot busy_node
      "\<lparr>ls_cooldownUntil = \<lambda>_. 0, ls_world = 5\<rparr>"]
  from honours [THEN conjunct1] honours [THEN conjunct2, THEN conjunct2, rule_format,
      of "\<lparr>ls_cooldownUntil = (\<lambda>_. 0)(rpcMethodGetBlock := 9000), ls_world = 5\<rparr>"] other
  show ?thesis by (simp add: busy_node_calls)
qed

section \<open>Quotas\<close>

lemma interval_refill:
  fixes w s :: int
  assumes "0 < s" "s * s \<le> w"
  shows "0 < w div s" "w div (w div s) = s"
proof -
  have "s \<le> w div s" using zdiv_mono1 [OF assms(2) assms(1)] assms(1) by simp
  then show pos: "0 < w div s" using assms(1) by linarith
  have "w = s * (w div s) + w mod s" by simp
  moreover have "0 \<le> w mod s" "w mod s < w div s"
    using assms(1) pos_mod_bound [of s w] pos_mod_sign [of s w] \<open>s \<le> w div s\<close> by linarith+
  ultimately show "w div (w div s) = s"
    by (metis int_div_pos_eq mult.commute)
qed

text \<open>The limits under which the integer divisions lose nothing of the quota.\<close>

definition workable_limit :: "int \<Rightarrow> bool" where
  "workable_limit n \<longleftrightarrow> 2 \<le> n \<and> n \<le> 100000"

lemma newRPCMethodLimiter_quota:
  assumes "workable_limit n"
  shows "\<exists>interval burst. newRPCMethodLimiter rate_Every NewLimiter rpcMethodLimitWindow n = Inr (NewLimiter (rate_Every interval) burst) \<and>
    0 < interval \<and> 1 \<le> burst \<and> burst + rpcMethodLimitWindow div interval = n"
proof -
  define burst where "burst = max (n sdiv 10) 1"
  have quot: "n sdiv 10 = n div 10"
    using assms by (simp add: workable_limit_def signed_divide_int_def)
  then have burst: "1 \<le> burst" "burst < n"
    using assms by (auto simp: burst_def workable_limit_def)
  have "(n - burst) * (n - burst) \<le> 100000 * 100000"
    using burst assms by (intro mult_mono) (auto simp: workable_limit_def)
  then have sq: "(n - burst) * (n - burst) \<le> rpcMethodLimitWindow" by (simp add: rpcMethodLimitWindow_def)
  have "rpcMethodLimitWindow sdiv (n - burst) = rpcMethodLimitWindow div (n - burst)"
    using burst by (simp add: signed_divide_int_def rpcMethodLimitWindow_def)
  moreover note interval_refill [of "n - burst", OF _ sq]
  ultimately show ?thesis
    using burst
    by (intro exI [of _ "rpcMethodLimitWindow div (n - burst)"] exI [of _ burst])
       (auto simp: newRPCMethodLimiter_def burst_def [symmetric] Let_def)
qed

lemma build_limiters_quota:
  assumes "\<forall>(method, n) \<in> set counts. workable_limit n"
  shows "\<exists>limiters. build_limiters rate_Every NewLimiter counts = Inr limiters \<and>
    (\<forall>method n. map_of counts method = Some n \<longrightarrow> (\<exists>interval burst.
       map_of limiters method = Some (NewLimiter (rate_Every interval) burst) \<and>
       0 < interval \<and> 1 \<le> burst \<and> burst + rpcMethodLimitWindow div interval = n))"
  using assms
proof (induction counts)
  case Nil
  then show ?case by simp
next
  case (Cons p counts)
  obtain m n where p [simp]: "p = (m, n)" by (cases p)
  from Cons.prems obtain interval burst where
    head: "newRPCMethodLimiter rate_Every NewLimiter rpcMethodLimitWindow n = Inr (NewLimiter (rate_Every interval) burst)"
      "0 < interval" "1 \<le> burst" "burst + rpcMethodLimitWindow div interval = n"
    using newRPCMethodLimiter_quota [of n rate_Every NewLimiter] by auto
  from Cons obtain limiters where
    tail: "build_limiters rate_Every NewLimiter counts = Inr limiters"
      "\<forall>method n. map_of counts method = Some n \<longrightarrow> (\<exists>interval burst.
         map_of limiters method = Some (NewLimiter (rate_Every interval) burst) \<and>
         0 < interval \<and> 1 \<le> burst \<and> burst + rpcMethodLimitWindow div interval = n)"
    by auto
  show ?case
    using head tail by (intro exI [of _ "(m, NewLimiter (rate_Every interval) burst) # limiters"]) auto
qed

text \<open>The limiter of a method allows \<open>n\<close> calls in a window of ten seconds.\<close>

definition allows_in_window ::
  "(int \<Rightarrow> 'r) \<Rightarrow> ('r \<Rightarrow> int \<Rightarrow> 'lim) \<Rightarrow> ('c, 'lim) MutexRPCClient \<Rightarrow> string \<Rightarrow> int \<Rightarrow> bool" where
  "allows_in_window rate_Every NewLimiter c method n \<longleftrightarrow>
     (\<exists>interval burst. map_of (mc_methodComps c) method = Some (NewLimiter (rate_Every interval) burst) \<and>
        0 < interval \<and> 1 \<le> burst \<and> burst + 10000000000 div interval = n)"

text \<open>The methods of the interface, each with its entry of the configuration.\<close>

definition configured_limits :: "RPCMethodLimitsConfig \<Rightarrow> (string \<times> int) set" where
  "configured_limits config =
     {(''getBalance'', lc_GetBalance config), (''getTokenAccountBalance'', lc_GetTokenAccountBalance config),
      (''getAccountInfo'', lc_GetAccountInfo config), (''getProgramAccounts'', lc_GetProgramAccounts config),
      (''getLatestBlockhash'', lc_GetLatestBlockhash config), (''getSlot'', lc_GetSlot config),
      (''sendTransaction'', lc_SendTransaction config), (''getSignatureStatuses'', lc_GetSignatureStatuses config),
      (''simulateTransaction'', lc_SimulateTransaction config), (''requestAirdrop'', lc_RequestAirdrop config),
      (''getTransaction'', lc_GetTransaction config), (''getSignaturesForAddress'', lc_GetSignaturesForAddress config),
      (''getBlocks'', lc_GetBlocks config), (''getBlock'', lc_GetBlock config), (''getBlockHeight'', lc_GetBlockHeight config)}"

lemmas rpc_method_defs =
  rpcMethodGetBalance_def rpcMethodGetTokenAccountBalance_def rpcMethodGetAccountInfo_def
  rpcMethodGetProgramAccounts_def rpcMethodGetLatestBlockhash_def rpcMethodGetSlot_def
  rpcMethodSendTransaction_def rpcMethodGetSignatureStatuses_def rpcMethodSimulateTransaction_def
  rpcMethodRequestAirdrop_def rpcMethodGetTransaction_def rpcMethodGetSignaturesForAddress_def
  rpcMethodGetBlocks_def rpcMethodGetBlock_def rpcMethodGetBlockHeight_def

lemma build_limiters_keys: "build_limiters rate_Every NewLimiter counts = Inr limiters \<Longrightarrow> map fst limiters = map fst counts"
  by (induction counts arbitrary: limiters) (auto split: sum.splits)

lemma method_counts_configured:
  "set (method_counts config) = configured_limits config" "distinct (map fst (method_counts config))"
  by (simp_all add: configured_limits_def method_counts_def rpc_method_defs)

text \<open>
  C37. With limits from \<open>2\<close> to \<open>100000\<close> the client is constructed over the given RPC client,
  and its table has a limiter for each of the fifteen methods of the interface and for no other:
  the one of a method has a positive refill interval and a burst of at least one call, and a
  full burst and all the refills of a window of ten seconds are together exactly the calls that
  the method's own entry of the configuration allows.
\<close>

theorem NewMutexRPCClient_quota:
  assumes "\<forall>(method, n) \<in> configured_limits config. workable_limit n"
  shows "\<exists>c. NewMutexRPCClient rate_Every NewLimiter client (Some config) = Inr c \<and> mc_rpcClient c = client \<and>
    set (map fst (mc_methodComps c)) = fst ` configured_limits config \<and>
    (\<forall>(method, n) \<in> configured_limits config. allows_in_window rate_Every NewLimiter c method n)"
proof -
  have limits: "\<forall>(method, n) \<in> set (method_counts config). workable_limit n"
    using assms by (simp add: method_counts_configured(1))
  from build_limiters_quota [OF limits, of rate_Every NewLimiter] obtain limiters where
    built: "build_limiters rate_Every NewLimiter (method_counts config) = Inr limiters" and
    quota: "\<forall>method n. map_of (method_counts config) method = Some n \<longrightarrow> (\<exists>interval burst.
       map_of limiters method = Some (NewLimiter (rate_Every interval) burst) \<and>
       0 < interval \<and> 1 \<le> burst \<and> burst + rpcMethodLimitWindow div interval = n)"
    by blast
  have "set (map fst limiters) = fst ` configured_limits config"
    unfolding build_limiters_keys [OF built] by (simp add: method_counts_configured(1))
  moreover have "\<forall>(method, n) \<in> configured_limits config.
      allows_in_window rate_Every NewLimiter \<lparr>mc_rpcClient = client, mc_methodComps = limiters\<rparr> method n"
    using quota by (auto simp: allows_in_window_def method_counts_configured(1) [symmetric] rpcMethodLimitWindow_def
        map_of_eq_Some_iff [OF method_counts_configured(2)])
  ultimately show ?thesis using built by (simp add: NewMutexRPCClient_def)
qed

lemma default_limits_workable:
  "\<forall>(method, n) \<in> configured_limits default_RPCMethodLimitsConfig. workable_limit n"
  by (simp add: configured_limits_def default_RPCMethodLimitsConfig_def workable_limit_def)

theorem NewMutexRPCClient_quota_witness:
  "\<exists>c. NewMutexRPCClient (\<lambda>i. i) Pair () (Some default_RPCMethodLimitsConfig) = Inr c \<and>
     allows_in_window (\<lambda>i. i) Pair c ''getBlock'' 6 \<and> allows_in_window (\<lambda>i. i) Pair c ''getTokenAccountBalance'' 40"
proof -
  have "(''getBlock'', 6) \<in> configured_limits default_RPCMethodLimitsConfig"
    "(''getTokenAccountBalance'', 40) \<in> configured_limits default_RPCMethodLimitsConfig"
    by (simp_all add: configured_limits_def default_RPCMethodLimitsConfig_def)
  then show ?thesis
    using NewMutexRPCClient_quota [OF default_limits_workable, of "\<lambda>i. i" Pair "()"] by fastforce
qed

text \<open>A limit of one request divides by zero.\<close>

lemma newRPCMethodLimiter_one:
  "newRPCMethodLimiter rate_Every NewLimiter window 1 = Inl (GoPanic STR ''integer divide by zero'')"
  by (simp add: newRPCMethodLimiter_def signed_divide_int_def)

section \<open>The \<open>Retry-After\<close> header\<close>

lemma duration_wrap_id: "- (2 ^ 63) \<le> n \<Longrightarrow> n < 2 ^ 63 \<Longrightarrow> duration_wrap n = n"
  by (simp add: duration_wrap_def int_word_sint mod_pos_pos_trivial)

text \<open>
  The back-off read from a \<open>Retry-After\<close> header is positive, whatever the header is,
  and exactly the seconds the header gives when they are a positive number: as long as that
  number is at most \<open>9223372036\<close>.
\<close>

theorem parseRetryAfter_bounds:
  assumes "\<And>n. strconv_Atoi header = Some n \<Longrightarrow> n \<le> 9223372036"
  shows "0 < parseRetryAfter ParseTime now header \<and>
    (\<forall>n. strconv_Atoi header = Some n \<and> 0 < n \<longrightarrow> parseRetryAfter ParseTime now header = n * 1000000000)"
proof -
  have "header \<noteq> ''''" if "strconv_Atoi header = Some n" for n
    using that by (auto simp: strconv_Atoi_def)
  moreover have "duration_wrap (n * 1000000000) = n * 1000000000" if "strconv_Atoi header = Some n" "0 < n" for n
    using assms that by (intro duration_wrap_id) fastforce+
  ultimately show ?thesis
    by (auto simp: parseRetryAfter_def defaultRetryAfter_def split: option.splits sum.splits)
qed

theorem parseRetryAfter_bounds_witness:
  "parseRetryAfter (\<lambda>_. Inl CtxDone) 0 ''120'' = 120000000000"
proof -
  have "strconv_Atoi ''120'' = Some 120" by code_simp
  then show ?thesis
    using parseRetryAfter_bounds [of "''120''"] by simp
qed

text \<open>One second more, and the 64-bit product wraps to a back-off in the past.\<close>

lemma parseRetryAfter_wraps:
  "parseRetryAfter ParseTime now ''9223372037'' = - 9223372036709551616"
proof -
  have "strconv_Atoi ''9223372037'' = Some 9223372037" by code_simp
  moreover have "duration_wrap (9223372037 * 1000000000) = - 9223372036709551616"
    by code_simp
  ultimately show ?thesis by (simp add: parseRetryAfter_def)
qed

end
