(* ===== verification/Rpc_Transport.thy ===== *)
theory Rpc_Transport
  imports Rpc_Limits
begin

text \<open>
  \<open>common/rate_limited_rpc_client.go\<close>: the HTTP transport that reports the headers of a 429
  answer and closes its connection, and the JSON-RPC client with a limit on all calls. The base
  transport, the JSON-RPC client, \<open>encoding/json\<close> and the limiter of \<open>go.uber.org/ratelimit\<close> are
  parameters. The attributes and bodies no code here reads are left out.
\<close>

section \<open>Requests and responses\<close>

text \<open>
  A header map as \<open>Get\<close> reads it, empty for a missing key. \<open>rq_GetBody\<close> is None for nil; the
  reader it makes gives, for a bound, the result of reading at most that many bytes to the end.
\<close>

record http_response =
  rs_StatusCode :: int
  rs_Header :: "string \<Rightarrow> string"
  rs_Close :: bool

record http_request =
  rq_Host :: string
  rq_GetBody :: "(go_error + (nat \<Rightarrow> go_error + bytes)) option"

text \<open>The two shapes \<open>json.Unmarshal\<close> is asked for: an object's method, an array's methods.\<close>

record json_lib =
  json_method :: "bytes \<Rightarrow> go_error + string"
  json_methods :: "bytes \<Rightarrow> go_error + string list"

fun strings_Join :: "string list \<Rightarrow> string \<Rightarrow> string" where
  "strings_Join [] sep = ''''"
| "strings_Join [x] sep = x"
| "strings_Join (x # y # xs) sep = x @ sep @ strings_Join (y # xs) sep"

definition rpcMethodFromRequest :: "json_lib \<Rightarrow> http_request \<Rightarrow> string" where
  "rpcMethodFromRequest json req =
     (case rq_GetBody req of
        None \<Rightarrow> ''''
      | Some (Inl err) \<Rightarrow> ''''
      | Some (Inr body) \<Rightarrow>
          (case body (64 * 1024) of
             Inl err \<Rightarrow> ''''
           | Inr raw \<Rightarrow>
               (case json_method json raw of
                  Inr single \<Rightarrow>
                    if single \<noteq> '''' then single
                    else (case json_methods json raw of Inr batch \<Rightarrow> strings_Join batch '','' | Inl _ \<Rightarrow> '''')
                | Inl _ \<Rightarrow> (case json_methods json raw of Inr batch \<Rightarrow> strings_Join batch '','' | Inl _ \<Rightarrow> ''''))))"

section \<open>The reporting transport\<close>

record limit_report =
  lr_method :: string
  lr_host :: string
  lr_methodLimit :: string
  lr_methodRemaining :: string
  lr_rpsLimit :: string
  lr_rpsRemaining :: string
  lr_connLimit :: string
  lr_connRemaining :: string
  lr_retryAfter :: string

text \<open>\<open>'b\<close> are the transports and \<open>'l\<close> the loggers; nil is None.\<close>

record ('b, 'l) RateLimitLoggingTransport =
  tr_Base :: "'b option"
  tr_Logger :: "'l option"

record ('w, 'b, 'l) transport_env =
  te_RoundTrip :: "'b \<Rightarrow> http_request \<Rightarrow> ('w, http_response) exec"
  te_DefaultTransport :: 'b
  te_DefaultLogger :: 'l

text \<open>The outside world, and what was reported to which logger.\<close>

record ('w, 'l) transport_state =
  tr_world :: 'w
  tr_reports :: "('l \<times> limit_report) list"

definition on_transport :: "('w, 'a) exec \<Rightarrow> (('w, 'l) transport_state, 'a) exec" where
  "on_transport m = focus tr_world (\<lambda>w s. s\<lparr>tr_world := w\<rparr>) m"

definition limit_report_of :: "json_lib \<Rightarrow> http_request \<Rightarrow> (string \<Rightarrow> string) \<Rightarrow> limit_report" where
  "limit_report_of json req h =
     \<lparr>lr_method = rpcMethodFromRequest json req, lr_host = rq_Host req,
      lr_methodLimit = h ''X-Ratelimit-Method-Limit'', lr_methodRemaining = h ''X-Ratelimit-Method-Remaining'',
      lr_rpsLimit = h ''X-Ratelimit-Rps-Limit'', lr_rpsRemaining = h ''X-Ratelimit-Rps-Remaining'',
      lr_connLimit = h ''X-Ratelimit-Conn-Limit'', lr_connRemaining = h ''X-Ratelimit-Conn-Remaining'',
      lr_retryAfter = h ''Retry-After''\<rparr>"

definition RoundTrip ::
  "json_lib \<Rightarrow> ('w, 'b, 'l) transport_env \<Rightarrow> ('b, 'l) RateLimitLoggingTransport \<Rightarrow> http_request \<Rightarrow>
   (('w, 'l) transport_state, http_response) exec" where
  "RoundTrip json env t req =
     (let base = (case tr_Base t of None \<Rightarrow> te_DefaultTransport env | Some b \<Rightarrow> b);
          logger = (case tr_Logger t of None \<Rightarrow> te_DefaultLogger env | Some l \<Rightarrow> l)
      in bind (on_transport (te_RoundTrip env base req)) (\<lambda>resp.
         if rs_StatusCode resp \<noteq> 429 then ret resp
         else
         bind (modify (\<lambda>s. s\<lparr>tr_reports := tr_reports s @ [(logger, limit_report_of json req (rs_Header resp))]\<rparr>)) (\<lambda>_.
         ret (resp\<lparr>rs_Header := (rs_Header resp)(''Connection'' := ''close''), rs_Close := True\<rparr>))))"

text \<open>
  The transport changes nothing but 429 answers, and of those only what closes the connection,
  so the back-off still sees the status and the \<open>Retry-After\<close> header the node sent.
\<close>

lemma RoundTrip_Inr:
  assumes "RoundTrip json env t req s = (Inr resp', s')"
  obtains resp w where
    "te_RoundTrip env (case tr_Base t of None \<Rightarrow> te_DefaultTransport env | Some b \<Rightarrow> b) req (tr_world s) = (Inr resp, w)"
    "tr_world s' = w" "rs_StatusCode resp' = rs_StatusCode resp"
    "rs_Header resp' ''Retry-After'' = rs_Header resp ''Retry-After''"
    "rs_StatusCode resp = 429 \<longrightarrow> rs_Close resp' \<and> length (tr_reports s') = Suc (length (tr_reports s))"
    "rs_StatusCode resp \<noteq> 429 \<longrightarrow> resp' = resp \<and> tr_reports s' = tr_reports s"
  using assms
  by (fastforce simp: RoundTrip_def Let_def on_transport_def exec_defs split: prod.splits sum.splits if_splits)

lemma RoundTrip_Inl:
  assumes "RoundTrip json env t req s = (Inl err, s')"
  shows "tr_reports s' = tr_reports s"
  using assms
  by (auto simp: RoundTrip_def Let_def on_transport_def exec_defs split: prod.splits sum.splits if_splits)

section \<open>The limit on all calls\<close>

text \<open>
  The JSON-RPC client, with the argument and result types of its three calls as type variables;
  \<open>jr_Close\<close> is None where the client is not an \<open>io.Closer\<close>.
\<close>

record ('w, 'p, 'out, 'q, 'resps) jsonrpc_client =
  jr_CallForInto :: "string \<Rightarrow> 'p \<Rightarrow> ('w, 'out) exec"
  jr_CallWithCallback :: "string \<Rightarrow> 'p \<Rightarrow> (http_request \<Rightarrow> http_response \<Rightarrow> ('w, unit) exec) \<Rightarrow> ('w, unit) exec"
  jr_CallBatch :: "'q \<Rightarrow> ('w, 'resps) exec"
  jr_Close :: "('w, unit) exec option"

record ('w, 'p, 'out, 'q, 'resps) rateLimitedJSONRPCClient =
  rl_rpcClient :: "('w, 'p, 'out, 'q, 'resps) jsonrpc_client"
  rl_Take :: "('w, unit) exec"

definition NewRateLimitedJSONRPCClient ::
  "(int \<Rightarrow> ('w, unit) exec) \<Rightarrow> ('w, 'p, 'out, 'q, 'resps) jsonrpc_client \<Rightarrow> int \<Rightarrow>
   ('w, 'p, 'out, 'q, 'resps) rateLimitedJSONRPCClient" where
  "NewRateLimitedJSONRPCClient ratelimit_New rpcClient rps = \<lparr>rl_rpcClient = rpcClient, rl_Take = ratelimit_New rps\<rparr>"

definition CallForInto ::
  "('w, 'p, 'out, 'q, 'resps) rateLimitedJSONRPCClient \<Rightarrow> string \<Rightarrow> 'p \<Rightarrow> ('w, 'out) exec" where
  "CallForInto c method params = bind (rl_Take c) (\<lambda>_. jr_CallForInto (rl_rpcClient c) method params)"

definition CallWithCallback ::
  "('w, 'p, 'out, 'q, 'resps) rateLimitedJSONRPCClient \<Rightarrow> string \<Rightarrow> 'p \<Rightarrow>
   (http_request \<Rightarrow> http_response \<Rightarrow> ('w, unit) exec) \<Rightarrow> ('w, unit) exec" where
  "CallWithCallback c method params callback =
     bind (rl_Take c) (\<lambda>_. jr_CallWithCallback (rl_rpcClient c) method params callback)"

definition CallBatch :: "('w, 'p, 'out, 'q, 'resps) rateLimitedJSONRPCClient \<Rightarrow> 'q \<Rightarrow> ('w, 'resps) exec" where
  "CallBatch c requests = bind (rl_Take c) (\<lambda>_. jr_CallBatch (rl_rpcClient c) requests)"

definition rateLimited_Close :: "('w, 'p, 'out, 'q, 'resps) rateLimitedJSONRPCClient \<Rightarrow> ('w, unit) exec" where
  "rateLimited_Close c = (case jr_Close (rl_rpcClient c) of Some close \<Rightarrow> close | None \<Rightarrow> ret ())"

text \<open>
  When the limiter lets calls through at least \<open>gap\<close> apart, so are the calls of the client, of
  whatever kind and however they are mixed: \<open>granted w\<close> is when the last call was let through.
\<close>

datatype ('p, 'q) rpc_call =
    ForInto string 'p
  | WithCallback string 'p
  | Batch 'q

fun run_call :: "('w, 'p, 'out, 'q, 'resps) rateLimitedJSONRPCClient \<Rightarrow> ('p, 'q) rpc_call \<Rightarrow> ('w, unit) exec" where
  "run_call c (ForInto method p) = bind (CallForInto c method p) (\<lambda>_. ret ())"
| "run_call c (WithCallback method p) = CallWithCallback c method p (\<lambda>_ _. ret ())"
| "run_call c (Batch q) = bind (CallBatch c q) (\<lambda>_. ret ())"

definition paced :: "('w \<Rightarrow> int) \<Rightarrow> int \<Rightarrow> ('w, 'p, 'out, 'q, 'resps) rateLimitedJSONRPCClient \<Rightarrow> bool" where
  "paced granted gap c \<longleftrightarrow>
     (\<forall>w. \<exists>w'. rl_Take c w = (Inr (), w') \<and> granted w + gap \<le> granted w') \<and>
     (\<forall>t. (\<forall>m p. keeps (\<lambda>w. granted w = t) (jr_CallForInto (rl_rpcClient c) m p)) \<and>
          (\<forall>m p cb. keeps (\<lambda>w. granted w = t) (jr_CallWithCallback (rl_rpcClient c) m p cb)) \<and>
          (\<forall>q. keeps (\<lambda>w. granted w = t) (jr_CallBatch (rl_rpcClient c) q)))"

lemma run_call_paced:
  assumes "paced granted gap c"
  shows "granted w + gap \<le> granted (snd (run_call c call w))"
proof -
  from assms obtain w1 where took: "rl_Take c w = (Inr (), w1)" "granted w + gap \<le> granted w1"
    unfolding paced_def by blast
  have kept: "keeps (\<lambda>w. granted w = granted w1) (jr_CallForInto (rl_rpcClient c) m p)"
    "keeps (\<lambda>w. granted w = granted w1) (jr_CallWithCallback (rl_rpcClient c) m p cb)"
    "keeps (\<lambda>w. granted w = granted w1) (jr_CallBatch (rl_rpcClient c) q)" for m p cb q
    using assms unfolding paced_def by blast+
  define rest where "rest = (case call of
      ForInto m p \<Rightarrow> bind (jr_CallForInto (rl_rpcClient c) m p) (\<lambda>_. ret ())
    | WithCallback m p \<Rightarrow> jr_CallWithCallback (rl_rpcClient c) m p (\<lambda>_ _. ret ())
    | Batch q \<Rightarrow> bind (jr_CallBatch (rl_rpcClient c) q) (\<lambda>_. ret ()))"
  have "keeps (\<lambda>w. granted w = granted w1) rest"
    unfolding rest_def by (cases call) (auto intro: kept keeps_rules)
  moreover have "run_call c call w = rest w1"
    using took(1) by (cases call) (simp_all add: rest_def CallForInto_def CallWithCallback_def CallBatch_def bind_def)
  ultimately have "granted (snd (run_call c call w)) = granted w1" by (simp add: keeps_def)
  then show ?thesis using took(2) by simp
qed

lemma calls_paced:
  assumes "paced granted gap c"
  shows "granted w + int (length calls) * gap \<le> granted (fold (\<lambda>call w. snd (run_call c call w)) calls w)"
proof (induction calls arbitrary: w)
  case Nil
  show ?case by simp
next
  case (Cons call calls)
  have "granted w + gap \<le> granted (snd (run_call c call w))" by (rule run_call_paced [OF assms])
  with Cons.IH [of "snd (run_call c call w)"] show ?case by (simp add: algebra_simps)
qed

section \<open>The client of an endpoint\<close>

definition defaultHTTPTimeout :: int where "defaultHTTPTimeout = 15 * 1000000000"
definition defaultHTTPKeepAlive :: int where "defaultHTTPKeepAlive = 30 * 1000000000"
definition defaultMaxIdleConnsPerHost :: int where "defaultMaxIdleConnsPerHost = 100"

record http_transport =
  ht_IdleConnTimeout :: int
  ht_MaxIdleConns :: int
  ht_MaxConnsPerHost :: int
  ht_MaxIdleConnsPerHost :: int
  ht_Dialer_Timeout :: int
  ht_Dialer_KeepAlive :: int
  ht_ForceAttemptHTTP2 :: bool
  ht_TLSHandshakeTimeout :: int
  ht_ResponseHeaderTimeout :: int
  ht_DisableKeepAlives :: bool

record 'l http_client =
  hc_Timeout :: int
  hc_Transport :: "(http_transport, 'l) RateLimitLoggingTransport"

definition NewRateLimitedRPCClient_http :: "'l option \<Rightarrow> 'l http_client" where
  "NewRateLimitedRPCClient_http logger =
     (let transport =
        \<lparr>ht_IdleConnTimeout = defaultHTTPTimeout, ht_MaxIdleConns = defaultMaxIdleConnsPerHost,
         ht_MaxConnsPerHost = defaultMaxIdleConnsPerHost, ht_MaxIdleConnsPerHost = defaultMaxIdleConnsPerHost,
         ht_Dialer_Timeout = defaultHTTPTimeout, ht_Dialer_KeepAlive = defaultHTTPKeepAlive,
         ht_ForceAttemptHTTP2 = True, ht_TLSHandshakeTimeout = 10 * 1000000000,
         ht_ResponseHeaderTimeout = 5 * 1000000000, ht_DisableKeepAlives = False\<rparr>
      in \<lparr>hc_Timeout = defaultHTTPTimeout, hc_Transport = \<lparr>tr_Base = Some transport, tr_Logger = logger\<rparr>\<rparr>)"

text \<open>\<open>NewClientWithOpts\<close>, \<open>NewWithCustomRPCClient\<close> and \<open>ratelimit.New\<close> are those of the packages.\<close>

definition NewRateLimitedRPCClient_over ::
  "(string \<Rightarrow> 'l http_client \<Rightarrow> ('w, 'p, 'out, 'q, 'resps) jsonrpc_client) \<Rightarrow>
   (('w, 'p, 'out, 'q, 'resps) rateLimitedJSONRPCClient \<Rightarrow> 'c) \<Rightarrow> (int \<Rightarrow> ('w, unit) exec) \<Rightarrow>
   string \<Rightarrow> int \<Rightarrow> 'l option \<Rightarrow> 'c" where
  "NewRateLimitedRPCClient_over NewClientWithOpts NewWithCustomRPCClient ratelimit_New endpoint rps logger =
     (let rpcClient = NewClientWithOpts endpoint (NewRateLimitedRPCClient_http logger)
      in NewWithCustomRPCClient (NewRateLimitedJSONRPCClient ratelimit_New rpcClient rps))"

end
