(* ===== verification/Wallet_Address.thy ===== *)
theory Wallet_Address
  imports Solana_Types
begin

text \<open>
  \<open>wallet/address.go\<close>: checking and parsing addresses. The base58 codec, the curve test, the
  derivations and the well-known addresses of solana-go are outside the repository: the fields of
  \<open>solana_lib\<close>.
\<close>

record solana_lib =
  sol_PublicKeyFromBase58 :: "string \<Rightarrow> go_error + PublicKey"
  sol_PublicKey_String :: "PublicKey \<Rightarrow> string"
  sol_IsOnCurve :: "PublicKey \<Rightarrow> bool"
  sol_FindProgramAddress :: "bytes list \<Rightarrow> PublicKey \<Rightarrow> go_error + PublicKey \<times> byte"
  sol_FindAssociatedTokenAddress :: "PublicKey \<Rightarrow> PublicKey \<Rightarrow> go_error + PublicKey \<times> byte"
  sol_TokenProgramID :: PublicKey
  sol_TokenMetadataProgramID :: PublicKey
  sol_SystemProgramID :: PublicKey
  sol_SPLAssociatedTokenAccountProgramID :: PublicKey
  sol_SysVarRentPubkey :: PublicKey
  sol_SysVarInstructionsPubkey :: PublicKey
  sol_BPFLoaderUpgradeableProgramID :: PublicKey
  sol_ComputeBudget :: PublicKey

text \<open>An entry of \<open>getProgramAccounts\<close>; a nil account or nil data is None.\<close>

record KeyedAccount =
  ka_Pubkey :: PublicKey
  ka_Data :: "bytes option"

text \<open>A function that returns only an error: None is nil.\<close>

definition ValidateAddress :: "solana_lib \<Rightarrow> string \<Rightarrow> bool \<Rightarrow> go_error option" where
  "ValidateAddress sol address acceptOffCurve =
     (case sol_PublicKeyFromBase58 sol address of
        Inl err \<Rightarrow> Some (wrapped STR ''invalid address: %w'' err)
      | Inr pubKey \<Rightarrow>
          if \<not> acceptOffCurve \<and> \<not> sol_IsOnCurve sol pubKey
          then Some (Errorf STR ''invalid address: public key is off-curve'')
          else None)"

text \<open>A key has 32 bytes by its type, so the length check of the code never fails.\<close>

definition ValidatePublicKey :: "solana_lib \<Rightarrow> PublicKey \<Rightarrow> bool \<Rightarrow> go_error option" where
  "ValidatePublicKey sol pubKey acceptOffCurve =
     (if pubKey = 0 then Some (Errorf STR ''public key cannot be zero'')
      else if length (key_bytes pubKey) \<noteq> 32 then Some (Errorf STR ''invalid length, expected %v, got %d'')
      else case sol_PublicKeyFromBase58 sol (sol_PublicKey_String sol pubKey) of
        Inl err \<Rightarrow> Some (wrapped STR ''invalid public key base58 encoding: %w'' err)
      | Inr _ \<Rightarrow>
          if \<not> acceptOffCurve \<and> \<not> sol_IsOnCurve sol pubKey
          then Some (Errorf STR ''invalid public key: public key is off-curve'')
          else None)"

definition PublicKeyFromAddress :: "solana_lib \<Rightarrow> string \<Rightarrow> go_error + PublicKey" where
  "PublicKeyFromAddress sol address =
     (case sol_PublicKeyFromBase58 sol address of
        Inl err \<Rightarrow> Inl (wrapped STR ''invalid address: %w'' err)
      | Inr pubKey \<Rightarrow> Inr pubKey)"

definition PublicKeyFromBytes :: "bytes \<Rightarrow> go_error + PublicKey" where
  "PublicKeyFromBytes input =
     (let byteCount = length input in
      if byteCount \<noteq> 32 then Inl (Errorf STR ''invalid public key size, expected %v, got %d'')
      else Inr (be_word input))"

definition FindAssociatedTokenAddress :: "solana_lib \<Rightarrow> PublicKey \<Rightarrow> PublicKey \<Rightarrow> go_error + PublicKey \<times> byte" where
  "FindAssociatedTokenAddress sol walletAddress tokenMint =
     (case sol_FindAssociatedTokenAddress sol walletAddress tokenMint of
        Inl err \<Rightarrow> Inl (wrapped STR ''failed to find associated token address: %w'' err)
      | Inr (associatedTokenAddress, bumpSeed) \<Rightarrow>
          (case ValidatePublicKey sol associatedTokenAddress True of
             Some err \<Rightarrow> Inl (wrapped STR ''invalid associated token address: %w'' err)
           | None \<Rightarrow> Inr (associatedTokenAddress, bumpSeed)))"

section \<open>What the checks give\<close>

lemma ValidateAddress_None:
  "ValidateAddress sol address acc = None \<longleftrightarrow>
     (\<exists>k. PublicKeyFromAddress sol address = Inr k \<and> (acc \<or> sol_IsOnCurve sol k))"
  by (auto simp: ValidateAddress_def PublicKeyFromAddress_def split: sum.splits)

lemma ValidatePublicKey_None: "ValidatePublicKey sol k acc = None \<Longrightarrow> k \<noteq> 0 \<and> (acc \<or> sol_IsOnCurve sol k)"
  by (auto simp: ValidatePublicKey_def split: sum.splits if_splits)

lemma PublicKeyFromBytes_key_bytes: "PublicKeyFromBytes (key_bytes k) = Inr k"
  by (simp add: PublicKeyFromBytes_def key_bytes_def be_word_be_bytes)

end
