(* ===== verification/Provider.thy ===== *)
theory Provider
  imports Rpc_Transport Wallet_Address
begin

text \<open>
  \<open>wallet/txprovider.go\<close>: the provider over the limited RPC client. A nil result, or a nil value
  in it, is None. \<open>WaitForSignature\<close> polls in a loop that nothing bounds, on fuel.
\<close>

section \<open>The methods\<close>

record SignatureStatus =
  st_Err :: bool
  st_ConfirmationStatus :: string

record LatestBlockhashAndExpiry =
  lb_Blockhash :: Hash
  lb_LastValidBlockHeight :: u64

text \<open>
  The provider is its limited client, with results as far as it reads them: the balance in
  lamports, an opaque token balance, the binary of an account, the entries of a program's
  accounts, a block hash with its expiry, the statuses of signatures, an opaque simulation.
\<close>

type_synonym ('w, 'tb, 'tx, 'sim, 'lim) Provider =
  "(('w, u64 option, 'tb option, bytes option, KeyedAccount option list, LatestBlockhashAndExpiry option, 'tx,
     SignatureStatus option list, 'sim option) rpc_client, 'lim) MutexRPCClient"

text \<open>
  \<open>NewProvider\<close> over the transport that \<open>connect\<close> makes of an endpoint and a global limit. With no
  configuration the limit is the default of the limiter's own configuration.
\<close>

definition NewProvider ::
  "(int \<Rightarrow> 'r) \<Rightarrow> ('r \<Rightarrow> int \<Rightarrow> 'lim) \<Rightarrow> (string \<Rightarrow> int \<Rightarrow> 'c) \<Rightarrow> string \<Rightarrow> RPCMethodLimitsConfig option \<Rightarrow>
   go_error + ('c, 'lim) MutexRPCClient" where
  "NewProvider rate_Every NewLimiter connect endpoint config =
     (case config of
        None \<Rightarrow> NewMutexRPCClient rate_Every NewLimiter (connect endpoint 7) config
      | Some limits \<Rightarrow>
          if lc_GlobalRPSLimit limits = 0 then Inl (Errorf STR ''global RPS limit cannot be 0'')
          else NewMutexRPCClient rate_Every NewLimiter (connect endpoint (lc_GlobalRPSLimit limits)) config)"

definition not_empty :: "String.literal \<Rightarrow> ('s, 'a option) exec \<Rightarrow> ('s, 'a) exec" where
  "not_empty msg m = bind m (\<lambda>out. case out of None \<Rightarrow> fail (Errorf msg) | Some v \<Rightarrow> ret v)"

definition Provider_GetBalance ::
  "('w, 'lim) limits_world \<Rightarrow> nat \<Rightarrow> ('w, 'tb, 'tx, 'sim, 'lim) Provider \<Rightarrow> PublicKey \<Rightarrow> ('w limits_state, u64) exec" where
  "Provider_GetBalance env fuel p pubkey =
     not_empty STR ''getBalance returned empty result'' (MutexRPCClient_GetBalance env fuel p pubkey CommitmentConfirmed)"

definition Provider_GetTokenAccountBalance ::
  "('w, 'lim) limits_world \<Rightarrow> nat \<Rightarrow> ('w, 'tb, 'tx, 'sim, 'lim) Provider \<Rightarrow> PublicKey \<Rightarrow> ('w limits_state, 'tb) exec" where
  "Provider_GetTokenAccountBalance env fuel p pubkey =
     not_empty STR ''getTokenAccountBalance returned empty result''
       (MutexRPCClient_GetTokenAccountBalance env fuel p pubkey CommitmentConfirmed)"

definition Provider_GetAccountInfo ::
  "('w, 'lim) limits_world \<Rightarrow> nat \<Rightarrow> ('w, 'tb, 'tx, 'sim, 'lim) Provider \<Rightarrow> PublicKey \<Rightarrow> ('w limits_state, bytes option) exec" where
  "Provider_GetAccountInfo env fuel p pubkey = MutexRPCClient_GetAccountInfoWithOpts env fuel p pubkey (Some CommitmentConfirmed)"

definition Provider_GetProgramAccounts ::
  "('w, 'lim) limits_world \<Rightarrow> nat \<Rightarrow> ('w, 'tb, 'tx, 'sim, 'lim) Provider \<Rightarrow> PublicKey \<Rightarrow> (nat \<times> bytes) list \<Rightarrow>
   ('w limits_state, KeyedAccount option list) exec" where
  "Provider_GetProgramAccounts env fuel p programID opts =
     bind (MutexRPCClient_GetProgramAccountsWithOpts env fuel p programID opts) (\<lambda>accounts.
     if list_ex (\<lambda>account. case account of None \<Rightarrow> True | Some a \<Rightarrow> ka_Data a = None) accounts
     then fail (Errorf STR ''getProgramAccounts returned empty entry at index %d'')
     else ret accounts)"

definition Provider_GetLatestBlockhash ::
  "('w, 'lim) limits_world \<Rightarrow> nat \<Rightarrow> ('w, 'tb, 'tx, 'sim, 'lim) Provider \<Rightarrow> ('w limits_state, Hash) exec" where
  "Provider_GetLatestBlockhash env fuel p =
     bind (not_empty STR ''getLatestBlockhash returned empty result'' (MutexRPCClient_GetLatestBlockhash env fuel p CommitmentFinalized))
       (\<lambda>res. ret (lb_Blockhash res))"

definition Provider_GetLatestBlockhashAndExpiry ::
  "('w, 'lim) limits_world \<Rightarrow> nat \<Rightarrow> ('w, 'tb, 'tx, 'sim, 'lim) Provider \<Rightarrow> ('w limits_state, LatestBlockhashAndExpiry) exec" where
  "Provider_GetLatestBlockhashAndExpiry env fuel p =
     not_empty STR ''getLatestBlockhash returned empty result'' (MutexRPCClient_GetLatestBlockhash env fuel p CommitmentFinalized)"

definition Provider_GetSlot ::
  "('w, 'lim) limits_world \<Rightarrow> nat \<Rightarrow> ('w, 'tb, 'tx, 'sim, 'lim) Provider \<Rightarrow> ('w limits_state, u64) exec" where
  "Provider_GetSlot env fuel p = MutexRPCClient_GetSlot env fuel p CommitmentConfirmed"

definition Provider_GetFinalizedSlot ::
  "('w, 'lim) limits_world \<Rightarrow> nat \<Rightarrow> ('w, 'tb, 'tx, 'sim, 'lim) Provider \<Rightarrow> ('w limits_state, u64) exec" where
  "Provider_GetFinalizedSlot env fuel p = MutexRPCClient_GetSlot env fuel p CommitmentFinalized"

definition Provider_GetBlockHeight ::
  "('w, 'lim) limits_world \<Rightarrow> nat \<Rightarrow> ('w, 'tb, 'tx, 'sim, 'lim) Provider \<Rightarrow> ('w limits_state, u64) exec" where
  "Provider_GetBlockHeight env fuel p = MutexRPCClient_GetBlockHeight env fuel p CommitmentFinalized"

definition Provider_GetBlock ::
  "('w, 'lim) limits_world \<Rightarrow> nat \<Rightarrow> ('w, 'tb, 'tx, 'sim, 'lim) Provider \<Rightarrow> u64 \<Rightarrow> ('w limits_state, GetBlockResult option) exec" where
  "Provider_GetBlock env fuel p slot = MutexRPCClient_GetBlockWithOpts env fuel p slot CommitmentConfirmed"

text \<open>A zero signature is refused.\<close>

definition not_zero :: "String.literal \<Rightarrow> ('s, Signature) exec \<Rightarrow> ('s, Signature) exec" where
  "not_zero msg m = bind m (\<lambda>sig. if sig = 0 then fail (Errorf msg) else ret sig)"

definition Provider_SendTransaction ::
  "('w, 'lim) limits_world \<Rightarrow> nat \<Rightarrow> ('w, 'tb, 'tx, 'sim, 'lim) Provider \<Rightarrow> 'tx \<Rightarrow> ('w limits_state, Signature) exec" where
  "Provider_SendTransaction env fuel p tx =
     not_zero STR ''sendTransaction returned empty signature'' (MutexRPCClient_SendTransactionWithOpts env fuel p tx)"

definition Provider_GetSignatureStatus ::
  "(string \<Rightarrow> go_error + int) \<Rightarrow> ('w, 'lim) limits_world \<Rightarrow> nat \<Rightarrow> ('w, 'tb, 'tx, 'sim, 'lim) Provider \<Rightarrow> Signature \<Rightarrow>
   ('w limits_state, SignatureStatus option list) exec" where
  "Provider_GetSignatureStatus ParseTime env fuel p sig = MutexRPCClient_GetSignatureStatuses ParseTime env fuel p True [sig]"

definition Provider_GetTransaction ::
  "('w, 'lim) limits_world \<Rightarrow> nat \<Rightarrow> ('w, 'tb, 'tx, 'sim, 'lim) Provider \<Rightarrow> Signature \<Rightarrow>
   ('w limits_state, GetTransactionResult option) exec" where
  "Provider_GetTransaction env fuel p sig = MutexRPCClient_GetTransaction env fuel p sig CommitmentConfirmed"

definition Provider_GetSignaturesForAddress ::
  "('w, 'lim) limits_world \<Rightarrow> nat \<Rightarrow> ('w, 'tb, 'tx, 'sim, 'lim) Provider \<Rightarrow> PublicKey \<Rightarrow> int \<Rightarrow>
   ('w limits_state, TransactionSignature option list) exec" where
  "Provider_GetSignaturesForAddress env fuel p address limit =
     bind (MutexRPCClient_GetSignaturesForAddressWithOpts env fuel p address (Inr limit)) (\<lambda>signatures.
     if None \<in> set signatures
     then fail (Errorf STR ''getSignaturesForAddress returned empty entry at index %d'')
     else ret signatures)"

text \<open>\<open>DecodeState\<close> is solana-go's decoder of a lookup table account.\<close>

definition Provider_GetAddressLookupTable ::
  "(bytes \<Rightarrow> go_error + PublicKey list option) \<Rightarrow> ('w, 'lim) limits_world \<Rightarrow> nat \<Rightarrow> ('w, 'tb, 'tx, 'sim, 'lim) Provider \<Rightarrow>
   PublicKey \<Rightarrow> ('w limits_state, PublicKey list option) exec" where
  "Provider_GetAddressLookupTable DecodeState env fuel p address =
     bind (not_empty STR ''account not found'' (MutexRPCClient_GetAccountInfoWithOpts env fuel p address None)) (\<lambda>data.
     liftR (DecodeState data))"

definition Provider_SimulateTransaction ::
  "('w, 'lim) limits_world \<Rightarrow> nat \<Rightarrow> ('w, 'tb, 'tx, 'sim, 'lim) Provider \<Rightarrow> 'tx \<Rightarrow> ('w limits_state, 'sim) exec" where
  "Provider_SimulateTransaction env fuel p tx =
     not_empty STR ''simulateTransaction returned empty result'' (MutexRPCClient_SimulateTransactionWithOpts env fuel p tx)"

definition Provider_RequestSolAirdrop ::
  "('w, 'lim) limits_world \<Rightarrow> nat \<Rightarrow> ('w, 'tb, 'tx, 'sim, 'lim) Provider \<Rightarrow> PublicKey \<Rightarrow> u64 \<Rightarrow> ('w limits_state, Signature) exec" where
  "Provider_RequestSolAirdrop env fuel p address amount =
     not_zero STR ''requestAirdrop returned empty signature''
       (MutexRPCClient_RequestAirdrop env fuel p address amount CommitmentFinalized)"

section \<open>Waiting for a signature\<close>

text \<open>
  Which case of the \<open>select\<close> was taken: the context, the timer of \<open>maxWaitTime\<close>, the timer of one
  second. Both timers are made anew on every round.
\<close>

datatype wait_case = WaitDone | WaitTimeout | WaitTick

definition confirmed_as :: "string \<Rightarrow> SignatureStatus \<Rightarrow> bool" where
  "confirmed_as commitment status \<longleftrightarrow>
     st_ConfirmationStatus status \<noteq> '''' \<and> st_ConfirmationStatus status = ''finalized''
     \<or> st_ConfirmationStatus status = commitment"

fun WaitForSignature ::
  "(int \<Rightarrow> int \<Rightarrow> ('s, wait_case) exec) \<Rightarrow> ('s, SignatureStatus option list) exec \<Rightarrow> nat \<Rightarrow> string \<Rightarrow> int \<Rightarrow>
   ('s, unit) exec" where
  "WaitForSignature select GetSignatureStatus 0 commitment maxWaitTime = fail OutOfFuel"
| "WaitForSignature select GetSignatureStatus (Suc fuel) commitment maxWaitTime =
     bind GetSignatureStatus (\<lambda>statuses.
     let again = bind (select maxWaitTime 1000000000) (\<lambda>c. case c of
           WaitDone \<Rightarrow> fail CtxDone
         | WaitTimeout \<Rightarrow> fail (Errorf STR ''timeout while waiting for transaction: %s'')
         | WaitTick \<Rightarrow> WaitForSignature select GetSignatureStatus fuel commitment maxWaitTime)
     in case statuses of
          Some status # _ \<Rightarrow>
            if st_Err status then fail (Errorf STR ''transaction with signature %s failed: %v'')
            else if confirmed_as commitment status then ret () else again
        | _ \<Rightarrow> again)"

definition Provider_WaitForSignature ::
  "(int \<Rightarrow> int \<Rightarrow> ('w limits_state, wait_case) exec) \<Rightarrow> (string \<Rightarrow> go_error + int) \<Rightarrow> ('w, 'lim) limits_world \<Rightarrow> nat \<Rightarrow>
   ('w, 'tb, 'tx, 'sim, 'lim) Provider \<Rightarrow> nat \<Rightarrow> Signature \<Rightarrow> string \<Rightarrow> int \<Rightarrow> ('w limits_state, unit) exec" where
  "Provider_WaitForSignature select ParseTime env rpc_fuel p fuel sig commitment maxWaitTime =
     WaitForSignature select (MutexRPCClient_GetSignatureStatuses ParseTime env rpc_fuel p True [sig]) fuel commitment maxWaitTime"

text \<open>
  What Go promises of the \<open>select\<close> over the two timers, on a clock \<open>now\<close>: a timer never fires
  early, the goroutine is woken at most \<open>lag\<close> after the first case is ready, and then any case
  that is ready by that time may be taken.
\<close>

definition select_of_timers :: "('s \<Rightarrow> int) \<Rightarrow> int \<Rightarrow> (int \<Rightarrow> int \<Rightarrow> ('s, wait_case) exec) \<Rightarrow> bool" where
  "select_of_timers now lag select \<longleftrightarrow> 0 \<le> lag \<and> (\<forall>a b s s' c. 0 \<le> a \<and> 0 \<le> b \<and> select a b s = (Inr c, s') \<longrightarrow>
     now s' \<le> now s + min a b + lag \<and>
     (c = WaitTimeout \<longrightarrow> now s + a \<le> now s') \<and> (c = WaitTick \<longrightarrow> now s + b \<le> now s'))"

text \<open>An answer that neither confirms the signature nor reports its failure.\<close>

definition undecided :: "string \<Rightarrow> SignatureStatus option list \<Rightarrow> bool" where
  "undecided commitment statuses \<longleftrightarrow>
     (case statuses of Some status # _ \<Rightarrow> \<not> st_Err status \<and> \<not> confirmed_as commitment status | _ \<Rightarrow> True)"

lemma WaitForSignature_undecided:
  assumes "poll s = (Inr statuses, s1)" "undecided commitment statuses"
  shows "WaitForSignature select poll (Suc fuel) commitment maxWaitTime s =
    (case select maxWaitTime 1000000000 s1 of
       (Inl e, s2) \<Rightarrow> (Inl e, s2)
     | (Inr WaitDone, s2) \<Rightarrow> (Inl CtxDone, s2)
     | (Inr WaitTimeout, s2) \<Rightarrow> (Inl (Errorf STR ''timeout while waiting for transaction: %s''), s2)
     | (Inr WaitTick, s2) \<Rightarrow> WaitForSignature select poll fuel commitment maxWaitTime s2)"
  using assms
  by (auto simp: bind_def fail_def Let_def undecided_def split: list.splits option.splits prod.splits sum.splits wait_case.splits)

text \<open>
  C34. \<open>maxWaitTime\<close> bounds the wait only when it is at most about a second. Both timers are
  started again on every round, so as long as the node neither confirms the signature nor
  reports its failure and the context stays open: with a limit above one second (by more than
  the time the goroutine takes to wake up) the call polls for ever, through any number of
  rounds of at least a second each, however far the clock is past the limit; and with a limit
  below one second (by more than that time) it ends with the timeout error in its first round,
  no later than the limit and the wake-up time after the answer of the node.
\<close>

theorem WaitForSignature_outlives_limit:
  assumes timers: "select_of_timers now lag select"
    and open_context: "\<And>s. \<exists>c s'. select maxWaitTime 1000000000 s = (Inr c, s') \<and> c \<noteq> WaitDone"
    and poll: "\<And>s. \<exists>statuses s'. poll s = (Inr statuses, s') \<and> undecided commitment statuses \<and> now s \<le> now s'"
  shows "(1000000000 + lag < maxWaitTime \<longrightarrow>
      fst (WaitForSignature select poll fuel commitment maxWaitTime s) = Inl OutOfFuel \<and>
      now s + int fuel * 1000000000 \<le> now (snd (WaitForSignature select poll fuel commitment maxWaitTime s))) \<and>
    (0 \<le> maxWaitTime \<and> maxWaitTime + lag < 1000000000 \<longrightarrow> (\<exists>s2.
      now s2 \<le> now (snd (poll s)) + maxWaitTime + lag \<and>
      WaitForSignature select poll (Suc fuel) commitment maxWaitTime s =
        (Inl (Errorf STR ''timeout while waiting for transaction: %s''), s2)))"
proof (intro conjI impI)
  assume limit: "1000000000 + lag < maxWaitTime"
  have "fst (WaitForSignature select poll fuel commitment maxWaitTime s) = Inl OutOfFuel \<and>
      now s + int fuel * 1000000000 \<le> now (snd (WaitForSignature select poll fuel commitment maxWaitTime s))"
  proof (induction fuel arbitrary: s)
    case 0
    then show ?case by (simp add: fail_def)
  next
    case (Suc fuel)
    obtain statuses s1 where p: "poll s = (Inr statuses, s1)" "undecided commitment statuses" "now s \<le> now s1"
      using poll by blast
    obtain c s2 where c: "select maxWaitTime 1000000000 s1 = (Inr c, s2)" "c \<noteq> WaitDone" using open_context by blast
    have law: "now s2 \<le> now s1 + min maxWaitTime 1000000000 + lag" "c = WaitTimeout \<longrightarrow> now s1 + maxWaitTime \<le> now s2"
      "c = WaitTick \<longrightarrow> now s1 + 1000000000 \<le> now s2"
      using timers c(1) limit unfolding select_of_timers_def
      by (smt (verit))+
    with limit c(2) timers have tick: "c = WaitTick" by (cases c) auto
    have "WaitForSignature select poll (Suc fuel) commitment maxWaitTime s = WaitForSignature select poll fuel commitment maxWaitTime s2"
      using WaitForSignature_undecided [where poll = poll and s = s and select = select and maxWaitTime = maxWaitTime and fuel = fuel, OF p(1,2)] c(1) tick by simp
    with Suc [of s2] law(3) tick p(3) show ?case by (simp add: algebra_simps)
  qed
  then show "fst (WaitForSignature select poll fuel commitment maxWaitTime s) = Inl OutOfFuel"
    "now s + int fuel * 1000000000 \<le> now (snd (WaitForSignature select poll fuel commitment maxWaitTime s))"
    by simp_all
next
  assume limit: "0 \<le> maxWaitTime \<and> maxWaitTime + lag < 1000000000"
  obtain statuses s1 where p: "poll s = (Inr statuses, s1)" "undecided commitment statuses"
    using poll by blast
  obtain c s2 where c: "select maxWaitTime 1000000000 s1 = (Inr c, s2)" "c \<noteq> WaitDone" using open_context by blast
  have law: "now s2 \<le> now s1 + min maxWaitTime 1000000000 + lag" "c = WaitTick \<longrightarrow> now s1 + 1000000000 \<le> now s2"
    using timers c(1) limit unfolding select_of_timers_def by (smt (verit))+
  with limit c(2) have "c = WaitTimeout" by (cases c) auto
  have "now s2 \<le> now s1 + maxWaitTime + lag" using law(1) by linarith
  with \<open>c = WaitTimeout\<close> WaitForSignature_undecided [where poll = poll and s = s and select = select and maxWaitTime = maxWaitTime and fuel = fuel, OF p] c(1) p
  show "\<exists>s2. now s2 \<le> now (snd (poll s)) + maxWaitTime + lag \<and>
      WaitForSignature select poll (Suc fuel) commitment maxWaitTime s =
        (Inl (Errorf STR ''timeout while waiting for transaction: %s''), s2)"
    by (intro exI [of _ s2]) simp
qed

text \<open>
  A clock that is the state, a goroutine that wakes up a millisecond late, and a node that does
  not know the signature: a limit of thirty seconds is still being waited for after a hundred.
\<close>

definition late_select :: "int \<Rightarrow> int \<Rightarrow> (int, wait_case) exec" where
  "late_select a b = (\<lambda>t. (Inr (if a < b then WaitTimeout else WaitTick), t + min a b + 1000000))"

theorem WaitForSignature_outlives_limit_witness:
  "fst (WaitForSignature late_select (\<lambda>t. (Inr [None], t)) 100 ''confirmed'' 30000000000 0) = Inl OutOfFuel \<and>
   100000000000 \<le> snd (WaitForSignature late_select (\<lambda>t. (Inr [None], t)) 100 ''confirmed'' 30000000000 0)"
proof -
  have timers: "select_of_timers (\<lambda>t. t) 1000000 late_select"
    by (auto simp: select_of_timers_def late_select_def)
  have open_context: "\<exists>c s'. late_select 30000000000 1000000000 s = (Inr c, s') \<and> c \<noteq> WaitDone" for s
    by (simp add: late_select_def)
  from WaitForSignature_outlives_limit [where poll = "\<lambda>t. (Inr [None], t)" and commitment = "''confirmed''" and fuel = 100 and s = 0,
      OF timers open_context]
  show ?thesis by (simp add: undecided_def del: WaitForSignature.simps)
qed

end
