(* ===== verification/Borsh.thy ===== *)
theory Borsh
  imports Prelude
begin

text \<open>
  The borsh encoder and decoder of \<open>gagliardetto/binary\<close>, which the generated code of
  \<open>sendtx/skyline_program\<close> calls field by field. They are outside the repository: a record of
  operations on the encoder's buffer and on the decoder's remaining input, with the documented
  law that decoding what was encoded gives it back. \<open>writes\<close> and \<open>reads\<close> are the shared
  rules by which the law carries over from fields to structs.
\<close>

section \<open>The library\<close>

text \<open>An \<open>int64\<close> is carried as its 64 bits.\<close>

record borsh_lib =
  enc_u8 :: "byte \<Rightarrow> (bytes, unit) exec"
  enc_u16 :: "u16 \<Rightarrow> (bytes, unit) exec"
  enc_u64 :: "u64 \<Rightarrow> (bytes, unit) exec"
  enc_i64 :: "u64 \<Rightarrow> (bytes, unit) exec"
  enc_bool :: "bool \<Rightarrow> (bytes, unit) exec"
  enc_string :: "string \<Rightarrow> (bytes, unit) exec"
  enc_PublicKey :: "PublicKey \<Rightarrow> (bytes, unit) exec"
  enc_PublicKeys :: "PublicKey list \<Rightarrow> (bytes, unit) exec"
  enc_WriteBytes :: "bytes \<Rightarrow> (bytes, unit) exec"
  enc_WriteOption :: "bool \<Rightarrow> (bytes, unit) exec"
  dec_u8 :: "(bytes, byte) exec"
  dec_u16 :: "(bytes, u16) exec"
  dec_u64 :: "(bytes, u64) exec"
  dec_i64 :: "(bytes, u64) exec"
  dec_bool :: "(bytes, bool) exec"
  dec_string :: "(bytes, string) exec"
  dec_PublicKey :: "(bytes, PublicKey) exec"
  dec_PublicKeys :: "(bytes, PublicKey list) exec"
  dec_ReadDiscriminator :: "(bytes, bytes) exec"
  errors_NewField :: "String.literal \<Rightarrow> go_error \<Rightarrow> go_error"
  errors_NewOption :: "String.literal \<Rightarrow> go_error \<Rightarrow> go_error"

text \<open>A field's error is wrapped by \<open>errors.NewField\<close>, an optional's flag by \<open>errors.NewOption\<close>.\<close>

definition on_error :: "(go_error \<Rightarrow> go_error) \<Rightarrow> ('s, 'a) exec \<Rightarrow> ('s, 'a) exec" where
  "on_error g m = (\<lambda>s. case m s of (Inl e, s') \<Rightarrow> (Inl (if stops e then e else g e), s') | (Inr a, s') \<Rightarrow> (Inr a, s'))"

definition field :: "borsh_lib \<Rightarrow> String.literal \<Rightarrow> ('s, 'a) exec \<Rightarrow> ('s, 'a) exec" where
  "field lib name m = on_error (errors_NewField lib name) m"

text \<open>An optional parameter: its flag, then its value.\<close>

definition enc_option ::
  "borsh_lib \<Rightarrow> String.literal \<Rightarrow> ('a \<Rightarrow> (bytes, unit) exec) \<Rightarrow> 'a option \<Rightarrow> (bytes, unit) exec" where
  "enc_option lib name enc x =
     (let flag = (\<lambda>b. on_error (errors_NewOption lib name) (wrapE STR ''error while encoding optionality: %w'' (enc_WriteOption lib b)))
      in case x of None \<Rightarrow> flag False
         | Some v \<Rightarrow> bind (flag True) (\<lambda>_. field lib name (enc v)))"

text \<open>A whole buffer, written by an encoder or read by a decoder.\<close>

definition run_encoder :: "String.literal \<Rightarrow> (bytes, unit) exec \<Rightarrow> go_error + bytes" where
  "run_encoder msg m = (case m [] of (Inl e, _) \<Rightarrow> Inl (wrapped msg e) | (Inr _, buf) \<Rightarrow> Inr buf)"

definition run_decoder :: "String.literal \<Rightarrow> (bytes, 'a) exec \<Rightarrow> bytes \<Rightarrow> go_error + 'a" where
  "run_decoder msg m buf = (case m buf of (Inl e, _) \<Rightarrow> Inl (wrapped msg e) | (Inr a, _) \<Rightarrow> Inr a)"

section \<open>What writes and what reads\<close>

definition writes :: "(bytes, unit) exec \<Rightarrow> bytes \<Rightarrow> bool" where
  "writes m bs \<longleftrightarrow> (\<forall>buf. m buf = (Inr (), buf @ bs))"

definition reads :: "(bytes, 'a) exec \<Rightarrow> bytes \<Rightarrow> 'a \<Rightarrow> bool" where
  "reads m bs a \<longleftrightarrow> (\<forall>rest. m (bs @ rest) = (Inr a, rest))"

definition written :: "(bytes, unit) exec \<Rightarrow> bytes" where
  "written m = snd (m [])"

definition codec :: "('a \<Rightarrow> bool) \<Rightarrow> ('a \<Rightarrow> (bytes, unit) exec) \<Rightarrow> (bytes, 'a) exec \<Rightarrow> bool" where
  "codec fits enc dec \<longleftrightarrow> (\<forall>x. fits x \<longrightarrow> writes (enc x) (written (enc x)) \<and> reads dec (written (enc x)) x)"

text \<open>Borsh counts the elements of strings and vectors in 32 bits.\<close>

definition counted :: "'a list \<Rightarrow> bool" where
  "counted xs \<longleftrightarrow> length xs < 2 ^ 32"

definition borsh_ok :: "borsh_lib \<Rightarrow> bool" where
  "borsh_ok lib \<longleftrightarrow>
     codec (\<lambda>_. True) (enc_u8 lib) (dec_u8 lib) \<and>
     codec (\<lambda>_. True) (enc_u16 lib) (dec_u16 lib) \<and>
     codec (\<lambda>_. True) (enc_u64 lib) (dec_u64 lib) \<and>
     codec (\<lambda>_. True) (enc_i64 lib) (dec_i64 lib) \<and>
     codec (\<lambda>_. True) (enc_bool lib) (dec_bool lib) \<and>
     codec counted (enc_string lib) (dec_string lib) \<and>
     codec (\<lambda>_. True) (enc_PublicKey lib) (dec_PublicKey lib) \<and>
     codec counted (enc_PublicKeys lib) (dec_PublicKeys lib) \<and>
     (\<forall>d. writes (enc_WriteBytes lib d) d) \<and>
     (\<forall>b. writes (enc_WriteOption lib b) [if b then 1 else 0]) \<and>
     (\<forall>d. length d = 8 \<longrightarrow> reads (dec_ReadDiscriminator lib) d d)"

named_theorems writes_rules \<comment> \<open>introduction rules for \<open>writes\<close>\<close>
named_theorems reads_rules \<comment> \<open>introduction rules for \<open>reads\<close>\<close>

lemma writes_ret [writes_rules]: "writes (ret ()) []"
  by (simp add: writes_def ret_def)

lemma writes_bind [writes_rules]: "writes m bs \<Longrightarrow> writes n cs \<Longrightarrow> writes (bind m (\<lambda>_. n)) (bs @ cs)"
  by (simp add: writes_def bind_def)

lemma writes_on_error: "writes m bs \<Longrightarrow> writes (on_error g m) bs"
  by (simp add: writes_def on_error_def)

lemma writes_field [writes_rules]: "writes m bs \<Longrightarrow> writes (field lib name m) bs"
  by (simp add: field_def writes_on_error)

lemma writes_wrapE [writes_rules]: "writes m bs \<Longrightarrow> writes (wrapE msg m) bs"
  by (simp add: writes_def wrapE_def)

lemma reads_ret [reads_rules]: "a = x \<Longrightarrow> reads (ret a) [] x"
  by (simp add: reads_def ret_def)

lemma reads_bind [reads_rules]: "reads m bs a \<Longrightarrow> reads (f a) cs b \<Longrightarrow> reads (bind m f) (bs @ cs) b"
  by (simp add: reads_def bind_def)

lemma reads_field [reads_rules]: "reads m bs a \<Longrightarrow> reads (field lib name m) bs a"
  by (simp add: reads_def field_def on_error_def)

lemma writes_written: "writes m bs \<Longrightarrow> written m = bs"
  by (simp add: writes_def written_def)

lemma codecI:
  assumes "\<And>x. fits x \<Longrightarrow> \<exists>bs. writes (enc x) bs \<and> reads dec bs x"
  shows "codec fits enc dec"
  using assms writes_written by (fastforce simp: codec_def)

lemma codec_writes: "codec fits enc dec \<Longrightarrow> fits x \<Longrightarrow> writes (enc x) (written (enc x))"
  and codec_reads: "codec fits enc dec \<Longrightarrow> fits x \<Longrightarrow> reads dec (written (enc x)) x"
  by (simp_all add: codec_def)

lemma borsh_writes [writes_rules]:
  assumes "borsh_ok lib"
  shows "writes (enc_u8 lib a) (written (enc_u8 lib a))"
    "writes (enc_u16 lib b) (written (enc_u16 lib b))"
    "writes (enc_u64 lib c) (written (enc_u64 lib c))"
    "writes (enc_i64 lib c) (written (enc_i64 lib c))"
    "writes (enc_bool lib d) (written (enc_bool lib d))"
    "counted s \<Longrightarrow> writes (enc_string lib s) (written (enc_string lib s))"
    "writes (enc_PublicKey lib k) (written (enc_PublicKey lib k))"
    "counted ks \<Longrightarrow> writes (enc_PublicKeys lib ks) (written (enc_PublicKeys lib ks))"
    "writes (enc_WriteBytes lib bs) bs"
    "writes (enc_WriteOption lib v) [if v then 1 else 0]"
  using assms by (auto simp: borsh_ok_def intro: codec_writes)

lemma borsh_reads [reads_rules]:
  assumes "borsh_ok lib"
  shows "reads (dec_u8 lib) (written (enc_u8 lib a)) a"
    "reads (dec_u16 lib) (written (enc_u16 lib b)) b"
    "reads (dec_u64 lib) (written (enc_u64 lib c)) c"
    "reads (dec_i64 lib) (written (enc_i64 lib c)) c"
    "reads (dec_bool lib) (written (enc_bool lib d)) d"
    "counted s \<Longrightarrow> reads (dec_string lib) (written (enc_string lib s)) s"
    "reads (dec_PublicKey lib) (written (enc_PublicKey lib k)) k"
    "counted ks \<Longrightarrow> reads (dec_PublicKeys lib) (written (enc_PublicKeys lib ks)) ks"
    "length disc = 8 \<Longrightarrow> reads (dec_ReadDiscriminator lib) disc disc"
  using assms by (auto simp: borsh_ok_def intro: codec_reads)

lemma run_encoder_writes: "writes m bs \<Longrightarrow> run_encoder msg m = Inr bs"
  by (simp add: writes_def run_encoder_def)

lemma run_decoder_reads: "reads m bs a \<Longrightarrow> run_decoder msg m (bs @ rest) = Inr a"
  by (simp add: reads_def run_decoder_def)

text \<open>What a codec gives for whole buffers: the round trip, also in front of other bytes.\<close>

lemma codec_round_trip:
  assumes "codec fits enc dec" "fits x"
  shows "\<exists>bs. run_encoder msg (enc x) = Inr bs \<and> (\<forall>rest. run_decoder msg' dec (bs @ rest) = Inr x)"
  using codec_writes [OF assms] codec_reads [OF assms]
  by (auto simp: run_encoder_writes run_decoder_reads)

section \<open>Plain borsh\<close>

text \<open>An instance: little-endian integers, one-byte flags, vectors behind a 32-bit count.\<close>

definition put :: "bytes \<Rightarrow> (bytes, unit) exec" where
  "put bs = (\<lambda>buf. (Inr (), buf @ bs))"

definition take_bytes :: "nat \<Rightarrow> (bytes, bytes) exec" where
  "take_bytes n = (\<lambda>buf. if length buf < n then (Inl (ExtErr STR ''required bytes missing''), buf)
     else (Inr (take n buf), drop n buf))"

primrec take_keys :: "nat \<Rightarrow> (bytes, PublicKey list) exec" where
  "take_keys 0 = ret []"
| "take_keys (Suc n) = bind (take_bytes 32) (\<lambda>b. bind (take_keys n) (\<lambda>ks. ret (be_word b # ks)))"

definition take_count :: "(bytes, nat) exec" where
  "take_count = bind (take_bytes 4) (\<lambda>b. ret (unat (le_word b :: u32)))"

definition plain_borsh :: borsh_lib where
  "plain_borsh =
     \<lparr>enc_u8 = \<lambda>w. put (le_bytes 1 w), enc_u16 = \<lambda>w. put (le_bytes 2 w), enc_u64 = \<lambda>w. put (le_bytes 8 w),
      enc_i64 = \<lambda>w. put (le_bytes 8 w),
      enc_bool = \<lambda>b. put [if b then 1 else 0],
      enc_string = \<lambda>s. put (le_bytes 4 (of_nat (length s) :: u32) @ str_bytes s),
      enc_PublicKey = \<lambda>k. put (key_bytes k),
      enc_PublicKeys = \<lambda>ks. put (le_bytes 4 (of_nat (length ks) :: u32) @ concat (map key_bytes ks)),
      enc_WriteBytes = put, enc_WriteOption = \<lambda>b. put [if b then 1 else 0],
      dec_u8 = bind (take_bytes 1) (\<lambda>b. ret (le_word b)),
      dec_u16 = bind (take_bytes 2) (\<lambda>b. ret (le_word b)),
      dec_u64 = bind (take_bytes 8) (\<lambda>b. ret (le_word b)),
      dec_i64 = bind (take_bytes 8) (\<lambda>b. ret (le_word b)),
      dec_bool = bind (take_bytes 1) (\<lambda>b. ret (b \<noteq> [0])),
      dec_string = bind take_count (\<lambda>n. bind (take_bytes n) (\<lambda>b. ret (map (\<lambda>w. char_of (unat w)) b))),
      dec_PublicKey = bind (take_bytes 32) (\<lambda>b. ret (be_word b)),
      dec_PublicKeys = bind take_count (\<lambda>n. take_keys n),
      dec_ReadDiscriminator = take_bytes 8,
      errors_NewField = Wrapf, errors_NewOption = Wrapf\<rparr>"

lemma put_codecI: "(\<And>x. fits x \<Longrightarrow> reads dec (f x) x) \<Longrightarrow> codec fits (\<lambda>x. put (f x)) dec"
  by (auto simp: put_def writes_def intro!: codecI)

lemma reads_take_bytes: "length bs = n \<Longrightarrow> reads (take_bytes n) bs bs"
  by (auto simp: reads_def take_bytes_def)

lemma reads_take: "length bs = n \<Longrightarrow> f bs = a \<Longrightarrow> reads (bind (take_bytes n) (\<lambda>b. ret (f b))) bs a"
  by (auto simp: reads_def take_bytes_def bind_def ret_def)

lemma reads_take_keys: "reads (take_keys (length ks)) (concat (map key_bytes ks)) ks"
proof (induction ks)
  case Nil
  then show ?case by (simp add: reads_ret)
next
  case (Cons k ks)
  have "be_word (key_bytes k) = k" by (simp add: key_bytes_def be_word_be_bytes)
  with Cons show ?case
    using reads_take_bytes [of "key_bytes k" 32] by (fastforce simp: reads_def bind_def ret_def)
qed

lemma reads_take_count:
  "counted xs \<Longrightarrow> reads take_count (le_bytes 4 (of_nat (length xs) :: u32)) (length xs)"
  unfolding take_count_def counted_def
  by (rule reads_take) (simp_all add: le_word_le_bytes unsigned_of_nat take_bit_nat_eq_self)

lemma reads_count_bind:
  "counted xs \<Longrightarrow> reads (f (length xs)) bs a \<Longrightarrow>
    reads (bind take_count f) (le_bytes 4 (of_nat (length xs) :: u32) @ bs) a"
  by (rule reads_bind [OF reads_take_count])

lemma char_of_unat [simp]: "char_of (unat (of_char c :: byte)) = c"
proof -
  have less: "(of_char c :: nat) < 256" by simp
  have "(of_char c :: byte) = of_nat (of_char c)" by (simp add: of_nat_of_char)
  with less have "unat (of_char c :: byte) = of_char c" by (simp add: unsigned_of_nat take_bit_nat_eq_self)
  then show ?thesis by simp
qed

lemma chars_of_str_bytes [simp]: "map (\<lambda>w. char_of (unat w)) (str_bytes s) = s"
  by (simp add: str_bytes_def comp_def)

lemma plain_borsh_ok: "borsh_ok plain_borsh"
  unfolding borsh_ok_def plain_borsh_def
  by (auto intro!: put_codecI reads_take reads_take_bytes reads_count_bind reads_take_keys
      simp: le_word_le_bytes key_bytes_def be_word_be_bytes)
    (auto simp: writes_def put_def)

end
