(* ===== verification/Wallet_Keys.thy ===== *)
theory Wallet_Keys
  imports Provider Borsh
begin

text \<open>
  The rest of \<open>wallet\<close>: the key pair of \<open>wallet.go\<close>, the transaction codec of \<open>transaction.go\<close>
  and the balance queries of \<open>utils.go\<close>; and the chain names of \<open>common/data.go\<close>. The ed25519
  keys and the transaction encoding of solana-go are parameters.
\<close>

section \<open>Chains\<close>

definition ChainIDPrime :: string where "ChainIDPrime = ''prime''"
definition ChainIDVector :: string where "ChainIDVector = ''vector''"
definition ChainIDNexus :: string where "ChainIDNexus = ''nexus''"
definition ChainIDPolygon :: string where "ChainIDPolygon = ''polygon''"
definition ChainIDCardano :: string where "ChainIDCardano = ''cardano''"
definition ChainIDSolana :: string where "ChainIDSolana = ''solana''"

section \<open>Keys\<close>

record ('w, 'sk) keys_lib =
  kl_NewRandomPrivateKey :: "('w, 'sk) exec"
  kl_PrivateKeyFromBase58 :: "string \<Rightarrow> go_error + 'sk"
  kl_PublicKey :: "'sk \<Rightarrow> PublicKey"
  kl_Sign :: "'sk \<Rightarrow> bytes \<Rightarrow> go_error + Signature"
  kl_Verify :: "PublicKey \<Rightarrow> bytes \<Rightarrow> Signature \<Rightarrow> bool"
  kl_Validate :: "'sk \<Rightarrow> go_error option"

record 'sk Wallet =
  wl_PublicKey :: PublicKey
  wl_PrivateKey :: 'sk

definition ErrInvalidSignature :: go_error where
  "ErrInvalidSignature = Errorf STR ''invalid signature''"

definition NewWallet :: "('w, 'sk) keys_lib \<Rightarrow> ('w, 'sk Wallet) exec" where
  "NewWallet keys =
     bind (wrapE STR ''failed to generate private key: %w'' (kl_NewRandomPrivateKey keys)) (\<lambda>privateKey.
     ret \<lparr>wl_PublicKey = kl_PublicKey keys privateKey, wl_PrivateKey = privateKey\<rparr>)"

definition NewWalletFromPrivateKey :: "('w, 'sk) keys_lib \<Rightarrow> string \<Rightarrow> go_error + 'sk Wallet" where
  "NewWalletFromPrivateKey keys privateKey =
     (case kl_PrivateKeyFromBase58 keys privateKey of
        Inl err \<Rightarrow> Inl (wrapped STR ''failed to create wallet from private key: %w'' err)
      | Inr key \<Rightarrow> Inr \<lparr>wl_PublicKey = kl_PublicKey keys key, wl_PrivateKey = key\<rparr>)"

definition Wallet_Sign :: "('w, 'sk) keys_lib \<Rightarrow> 'sk Wallet \<Rightarrow> bytes \<Rightarrow> go_error + Signature" where
  "Wallet_Sign keys w payload =
     (case kl_Sign keys (wl_PrivateKey w) payload of
        Inl err \<Rightarrow> Inl (wrapped STR ''failed to sign the payload: %w'' err)
      | Inr signature \<Rightarrow> Inr signature)"

definition VerifySignature :: "('w, 'sk) keys_lib \<Rightarrow> 'sk Wallet \<Rightarrow> bytes \<Rightarrow> Signature \<Rightarrow> go_error option" where
  "VerifySignature keys w payload signature =
     (if \<not> kl_Verify keys (kl_PublicKey keys (wl_PrivateKey w)) payload signature then Some ErrInvalidSignature else None)"

definition GetKeys :: "'sk Wallet \<Rightarrow> 'sk \<times> PublicKey" where
  "GetKeys w = (wl_PrivateKey w, wl_PublicKey w)"

definition ValidatePrivateKey :: "('w, 'sk) keys_lib \<Rightarrow> 'sk Wallet \<Rightarrow> go_error option" where
  "ValidatePrivateKey keys w = kl_Validate keys (wl_PrivateKey w)"

definition IsSolanaAddress :: "solana_lib \<Rightarrow> string \<Rightarrow> bool" where
  "IsSolanaAddress sol address = (case PublicKeyFromAddress sol address of Inl _ \<Rightarrow> False | Inr _ \<Rightarrow> True)"

text \<open>
  The public key of a constructed wallet is that of its private key, so what the wallet signs
  is accepted by its own check and by anyone who checks against the public key it hands out.
\<close>

definition matching_keys :: "('w, 'sk) keys_lib \<Rightarrow> 'sk Wallet \<Rightarrow> bool" where
  "matching_keys keys w \<longleftrightarrow> wl_PublicKey w = kl_PublicKey keys (wl_PrivateKey w)"

lemma matching_keys_constructed:
  "NewWallet keys s = (Inr w, s') \<Longrightarrow> matching_keys keys w"
  "NewWalletFromPrivateKey keys text = Inr w \<Longrightarrow> matching_keys keys w"
  by (auto simp: NewWallet_def NewWalletFromPrivateKey_def matching_keys_def bind_Inr_iff ret_def split: sum.splits)

lemma signature_accepted:
  assumes ed25519: "\<And>k p sig. kl_Sign keys k p = Inr sig \<Longrightarrow> kl_Verify keys (kl_PublicKey keys k) p sig"
    and "matching_keys keys w" "Wallet_Sign keys w payload = Inr sig"
  shows "VerifySignature keys w payload sig = None" "kl_Verify keys (wl_PublicKey w) payload sig"
  using assms by (auto simp: matching_keys_def Wallet_Sign_def VerifySignature_def split: sum.splits)

lemma IsSolanaAddress_ValidateAddress: "IsSolanaAddress sol address \<longleftrightarrow> ValidateAddress sol address True = None"
  by (auto simp: IsSolanaAddress_def ValidateAddress_def PublicKeyFromAddress_def split: sum.splits)

section \<open>Transactions as bytes\<close>

definition MarshalTransaction :: "('tx \<Rightarrow> (bytes, unit) exec) \<Rightarrow> 'tx \<Rightarrow> go_error + bytes" where
  "MarshalTransaction tx_MarshalWithEncoder tx =
     (case tx_MarshalWithEncoder tx [] of (Inl err, _) \<Rightarrow> Inl err | (Inr _, buf) \<Rightarrow> Inr buf)"

definition UnmarshalTransaction :: "(bytes, 'tx) exec \<Rightarrow> bytes \<Rightarrow> go_error + 'tx" where
  "UnmarshalTransaction tx_UnmarshalWithDecoder raw =
     (case tx_UnmarshalWithDecoder raw of (Inl err, _) \<Rightarrow> Inl err | (Inr tx, _) \<Rightarrow> Inr tx)"

text \<open>Bytes behind a transaction are not noticed.\<close>

lemma UnmarshalTransaction_round_trip:
  assumes "codec fits enc dec" "fits tx"
  shows "\<exists>raw. MarshalTransaction enc tx = Inr raw \<and> (\<forall>rest. UnmarshalTransaction dec (raw @ rest) = Inr tx)"
  using assms
  by (auto simp: codec_def writes_def reads_def MarshalTransaction_def UnmarshalTransaction_def)

section \<open>Balances\<close>

text \<open>\<open>SetString\<close> of a big integer in base 10: an optional sign and digits.\<close>

definition big_SetString :: "string \<Rightarrow> int option" where
  "big_SetString s =
     (let (sign, ds) = (case s of c # cs \<Rightarrow> if c = CHR ''-'' then (-1, cs) else if c = CHR ''+'' then (1, cs) else (1, s)
                        | [] \<Rightarrow> (1, s))
      in if ds = [] then None else map_option (\<lambda>n. sign * n) (digits_value ds 0))"

fun strings_Contains :: "string \<Rightarrow> string \<Rightarrow> bool" where
  "strings_Contains s sub \<longleftrightarrow>
     take (length sub) s = sub \<or> (case s of [] \<Rightarrow> False | c # cs \<Rightarrow> strings_Contains cs sub)"

text \<open>
  Each query makes a provider of its own, so no cooldown of an earlier one delays it. The
  balances are a Go map; where the code returns a map together with an error, both are kept.
\<close>

definition with_new_limits :: "('w limits_state, 'a) exec \<Rightarrow> ('w, 'a) exec" where
  "with_new_limits m = (\<lambda>w. case m \<lparr>ls_cooldownUntil = (\<lambda>_. 0), ls_world = w\<rparr> of (r, s) \<Rightarrow> (r, ls_world s))"

definition GetAddressBalanceLamports ::
  "solana_lib \<Rightarrow> string \<Rightarrow> ('w, 'lim) limits_world \<Rightarrow> nat \<Rightarrow>
   (string \<Rightarrow> RPCMethodLimitsConfig option \<Rightarrow> go_error + ('w, 'tb, 'tx, 'sim, 'lim) Provider) \<Rightarrow>
   string \<Rightarrow> string \<Rightarrow> ('w, string \<rightharpoonup> int) exec" where
  "GetAddressBalanceLamports sol AdaTokenName env fuel newProvider addr jsonRPCAddr =
     bind (wrapE STR ''new provider: %w'' (liftR (newProvider jsonRPCAddr None))) (\<lambda>txProvider.
     bind (liftR (PublicKeyFromAddress sol addr)) (\<lambda>pubKey.
     bind (with_new_limits (Provider_GetBalance env fuel txProvider pubKey)) (\<lambda>balance.
     ret [AdaTokenName \<mapsto> uint balance])))"

text \<open>
  The token balance the provider returns is its amount as text: the provider itself refuses the
  nil results that the code would take for a balance of zero.
\<close>

definition GetAddressBalanceWithTokenNameLamports ::
  "solana_lib \<Rightarrow> (go_error \<Rightarrow> string) \<Rightarrow> ('w, 'lim) limits_world \<Rightarrow> nat \<Rightarrow>
   (string \<Rightarrow> RPCMethodLimitsConfig option \<Rightarrow> go_error + ('w, string, 'tx, 'sim, 'lim) Provider) \<Rightarrow>
   string \<Rightarrow> string \<Rightarrow> string \<Rightarrow> ('w, (string \<rightharpoonup> int) \<times> go_error option) exec" where
  "GetAddressBalanceWithTokenNameLamports sol Error env fuel newProvider addr jsonRPCAddr tokenName =
     bind (wrapE STR ''GetAddressBalanceWithTokenName parse address: %w'' (liftR (PublicKeyFromAddress sol addr))) (\<lambda>pubKey.
     bind (wrapE STR ''GetAddressBalanceWithTokenName parse mint address: %w'' (liftR (PublicKeyFromAddress sol tokenName))) (\<lambda>mintPubKey.
     bind (wrapE STR ''GetAddressBalanceWithTokenName find associated token address: %w''
             (liftR (FindAssociatedTokenAddress sol pubKey mintPubKey))) (\<lambda>(ata, _).
     bind (wrapE STR ''new provider: %w'' (liftR (newProvider jsonRPCAddr None))) (\<lambda>txProvider.
     bind (attempt (with_new_limits (Provider_GetTokenAccountBalance env fuel txProvider ata))) (\<lambda>res.
     case res of
       Inl err \<Rightarrow>
         if strings_Contains (Error err) ''could not find account'' then ret ([tokenName \<mapsto> 0], None)
         else ret ([tokenName \<mapsto> 0], Some err)
     | Inr amount \<Rightarrow>
         (case big_SetString amount of
            None \<Rightarrow> ret ([tokenName \<mapsto> 0], Some (Errorf STR ''GetAddressBalanceWithTokenName parse amount: %s''))
          | Some n \<Rightarrow> ret ([tokenName \<mapsto> n], None)))))))"

text \<open>
  A balance other than zero is never reported unless the node gave it, and a balance without an
  error is the node's, or zero where the token account does not exist.
\<close>

lemma token_balance_reported:
  fixes newProvider :: "string \<Rightarrow> RPCMethodLimitsConfig option \<Rightarrow> go_error + ('w, string, 'tx, 'sim, 'lim) Provider"
  assumes "GetAddressBalanceWithTokenNameLamports sol Error env fuel newProvider addr rpc tokenName w = (Inr (balances, err), w')"
  obtains n where "balances = [tokenName \<mapsto> n]"
    "(\<exists>(p :: ('w, string, 'tx, 'sim, 'lim) Provider) ata amount s s'. Provider_GetTokenAccountBalance env fuel p ata s = (Inr amount, s') \<and>
        big_SetString amount = Some n \<and> err = None)
     \<or> n = 0 \<and> (err = None \<longrightarrow> (\<exists>(p :: ('w, string, 'tx, 'sim, 'lim) Provider) ata e s s'. Provider_GetTokenAccountBalance env fuel p ata s = (Inl e, s') \<and>
        strings_Contains (Error e) ''could not find account''))"
proof -
  from assms obtain p :: "('w, string, 'tx, 'sim, 'lim) Provider" and ata r w1 w2 where
    asked: "attempt (with_new_limits (Provider_GetTokenAccountBalance env fuel p ata)) w1 = (Inr r, w2)"
    and reply: "(case r of
        Inl err \<Rightarrow>
          if strings_Contains (Error err) ''could not find account'' then ret ([tokenName \<mapsto> 0], None)
          else ret ([tokenName \<mapsto> 0], Some err)
      | Inr amount \<Rightarrow>
          (case big_SetString amount of
             None \<Rightarrow> ret ([tokenName \<mapsto> 0], Some (Errorf STR ''GetAddressBalanceWithTokenName parse amount: %s''))
           | Some n \<Rightarrow> ret ([tokenName \<mapsto> n], None))) w2 = (Inr (balances, err), w')"
    unfolding GetAddressBalanceWithTokenNameLamports_def by (auto simp: bind_Inr_iff simp del: strings_Contains.simps)
  from asked obtain s s' where call: "Provider_GetTokenAccountBalance env fuel p ata s = (r, s')"
    by (auto simp: attempt_def with_new_limits_def split: prod.splits sum.splits if_splits)
  show thesis
  proof (cases r)
    case (Inl e)
    from reply Inl have "balances = [tokenName \<mapsto> 0]" "err = None \<longrightarrow> strings_Contains (Error e) ''could not find account''"
      by (auto simp: ret_def simp del: strings_Contains.simps split: if_splits)
    with call Inl show thesis by (intro that [of 0]) blast+
  next
    case (Inr amount)
    show thesis
    proof (cases "big_SetString amount")
      case None
      with reply Inr show thesis by (intro that [of 0]) (auto simp: ret_def)
    next
      case (Some n)
      with reply Inr have "balances = [tokenName \<mapsto> n]" "err = None" by (auto simp: ret_def)
      with call Inr Some show thesis by (intro that [of n]) blast+
    qed
  qed
qed

end
