(* ===== verification/Skyline_Types.thy ===== *)
theory Skyline_Types
  imports Borsh
begin

text \<open>
  \<open>sendtx/skyline_program/types.go\<close>: the accounts and events of the on-chain program, and
  their borsh encoding and decoding, field by field in the order of the code. Every struct's
  encoder and decoder form a \<open>codec\<close> when the library's do.
\<close>

section \<open>\<open>BridgeRequestEvent\<close>\<close>

record BridgeRequestEvent =
  bre_Sender :: PublicKey
  bre_Amount :: u64
  bre_Receiver :: string
  bre_DestinationChain :: string
  bre_MintToken :: PublicKey
  bre_BridgeFee :: u64
  bre_OperationFee :: u64
  bre_Value :: u64

definition BridgeRequestEvent_MarshalWithEncoder :: "borsh_lib \<Rightarrow> BridgeRequestEvent \<Rightarrow> (bytes, unit) exec" where
  "BridgeRequestEvent_MarshalWithEncoder lib obj =
     bind (field lib STR ''Sender'' (enc_PublicKey lib (bre_Sender obj))) (\<lambda>_.
     bind (field lib STR ''Amount'' (enc_u64 lib (bre_Amount obj))) (\<lambda>_.
     bind (field lib STR ''Receiver'' (enc_string lib (bre_Receiver obj))) (\<lambda>_.
     bind (field lib STR ''DestinationChain'' (enc_string lib (bre_DestinationChain obj))) (\<lambda>_.
     bind (field lib STR ''MintToken'' (enc_PublicKey lib (bre_MintToken obj))) (\<lambda>_.
     bind (field lib STR ''BridgeFee'' (enc_u64 lib (bre_BridgeFee obj))) (\<lambda>_.
     bind (field lib STR ''OperationFee'' (enc_u64 lib (bre_OperationFee obj))) (\<lambda>_.
     bind (field lib STR ''Value'' (enc_u64 lib (bre_Value obj))) (\<lambda>_.
     ret ()))))))))"

definition BridgeRequestEvent_Marshal :: "borsh_lib \<Rightarrow> BridgeRequestEvent \<Rightarrow> go_error + bytes" where
  "BridgeRequestEvent_Marshal lib obj =
     run_encoder STR ''error while encoding BridgeRequestEvent: %w'' (BridgeRequestEvent_MarshalWithEncoder lib obj)"

definition BridgeRequestEvent_UnmarshalWithDecoder :: "borsh_lib \<Rightarrow> (bytes, BridgeRequestEvent) exec" where
  "BridgeRequestEvent_UnmarshalWithDecoder lib =
     bind (field lib STR ''Sender'' (dec_PublicKey lib)) (\<lambda>sender.
     bind (field lib STR ''Amount'' (dec_u64 lib)) (\<lambda>amount.
     bind (field lib STR ''Receiver'' (dec_string lib)) (\<lambda>receiver.
     bind (field lib STR ''DestinationChain'' (dec_string lib)) (\<lambda>destinationChain.
     bind (field lib STR ''MintToken'' (dec_PublicKey lib)) (\<lambda>mintToken.
     bind (field lib STR ''BridgeFee'' (dec_u64 lib)) (\<lambda>bridgeFee.
     bind (field lib STR ''OperationFee'' (dec_u64 lib)) (\<lambda>operationFee.
     bind (field lib STR ''Value'' (dec_u64 lib)) (\<lambda>val.
     ret \<lparr>bre_Sender = sender, bre_Amount = amount, bre_Receiver = receiver,
       bre_DestinationChain = destinationChain, bre_MintToken = mintToken, bre_BridgeFee = bridgeFee,
       bre_OperationFee = operationFee, bre_Value = val\<rparr>))))))))"

definition BridgeRequestEvent_Unmarshal :: "borsh_lib \<Rightarrow> bytes \<Rightarrow> go_error + BridgeRequestEvent" where
  "BridgeRequestEvent_Unmarshal lib buf =
     run_decoder STR ''error while unmarshaling BridgeRequestEvent: %w'' (BridgeRequestEvent_UnmarshalWithDecoder lib) buf"

definition UnmarshalBridgeRequestEvent :: "borsh_lib \<Rightarrow> bytes \<Rightarrow> go_error + BridgeRequestEvent" where
  "UnmarshalBridgeRequestEvent lib buf = (case BridgeRequestEvent_Unmarshal lib buf of Inl err \<Rightarrow> Inl err | Inr obj \<Rightarrow> Inr obj)"

lemma codec_BridgeRequestEvent:
  assumes "borsh_ok lib"
  shows "codec (\<lambda>x. counted (bre_Receiver x) \<and> counted (bre_DestinationChain x)) (BridgeRequestEvent_MarshalWithEncoder lib) (BridgeRequestEvent_UnmarshalWithDecoder lib)"
  unfolding BridgeRequestEvent_MarshalWithEncoder_def BridgeRequestEvent_UnmarshalWithDecoder_def
  by (rule codecI, intro exI conjI) (rule writes_rules reads_rules assms | simp)+

section \<open>\<open>FeeConfig\<close>\<close>

record FeeConfig =
  fc_MinOperationalFee :: u64
  fc_BridgeFee :: u64
  fc_Treasury :: PublicKey
  fc_Authority :: PublicKey
  fc_Bump :: byte

definition FeeConfig_MarshalWithEncoder :: "borsh_lib \<Rightarrow> FeeConfig \<Rightarrow> (bytes, unit) exec" where
  "FeeConfig_MarshalWithEncoder lib obj =
     bind (field lib STR ''MinOperationalFee'' (enc_u64 lib (fc_MinOperationalFee obj))) (\<lambda>_.
     bind (field lib STR ''BridgeFee'' (enc_u64 lib (fc_BridgeFee obj))) (\<lambda>_.
     bind (field lib STR ''Treasury'' (enc_PublicKey lib (fc_Treasury obj))) (\<lambda>_.
     bind (field lib STR ''Authority'' (enc_PublicKey lib (fc_Authority obj))) (\<lambda>_.
     bind (field lib STR ''Bump'' (enc_u8 lib (fc_Bump obj))) (\<lambda>_.
     ret ())))))"

definition FeeConfig_Marshal :: "borsh_lib \<Rightarrow> FeeConfig \<Rightarrow> go_error + bytes" where
  "FeeConfig_Marshal lib obj =
     run_encoder STR ''error while encoding FeeConfig: %w'' (FeeConfig_MarshalWithEncoder lib obj)"

definition FeeConfig_UnmarshalWithDecoder :: "borsh_lib \<Rightarrow> (bytes, FeeConfig) exec" where
  "FeeConfig_UnmarshalWithDecoder lib =
     bind (field lib STR ''MinOperationalFee'' (dec_u64 lib)) (\<lambda>minOperationalFee.
     bind (field lib STR ''BridgeFee'' (dec_u64 lib)) (\<lambda>bridgeFee.
     bind (field lib STR ''Treasury'' (dec_PublicKey lib)) (\<lambda>treasury.
     bind (field lib STR ''Authority'' (dec_PublicKey lib)) (\<lambda>authority.
     bind (field lib STR ''Bump'' (dec_u8 lib)) (\<lambda>bump.
     ret \<lparr>fc_MinOperationalFee = minOperationalFee, fc_BridgeFee = bridgeFee,
       fc_Treasury = treasury, fc_Authority = authority, fc_Bump = bump\<rparr>)))))"

definition FeeConfig_Unmarshal :: "borsh_lib \<Rightarrow> bytes \<Rightarrow> go_error + FeeConfig" where
  "FeeConfig_Unmarshal lib buf =
     run_decoder STR ''error while unmarshaling FeeConfig: %w'' (FeeConfig_UnmarshalWithDecoder lib) buf"

definition UnmarshalFeeConfig :: "borsh_lib \<Rightarrow> bytes \<Rightarrow> go_error + FeeConfig" where
  "UnmarshalFeeConfig lib buf = (case FeeConfig_Unmarshal lib buf of Inl err \<Rightarrow> Inl err | Inr obj \<Rightarrow> Inr obj)"

lemma codec_FeeConfig:
  assumes "borsh_ok lib"
  shows "codec (\<lambda>x. True) (FeeConfig_MarshalWithEncoder lib) (FeeConfig_UnmarshalWithDecoder lib)"
  unfolding FeeConfig_MarshalWithEncoder_def FeeConfig_UnmarshalWithDecoder_def
  by (rule codecI, intro exI conjI) (rule writes_rules reads_rules assms | simp)+

section \<open>\<open>FeeConfigUpdatedEvent\<close>\<close>

record FeeConfigUpdatedEvent =
  fcu_MinOperationalFee :: u64
  fcu_BridgeFee :: u64
  fcu_Treasury :: PublicKey

definition FeeConfigUpdatedEvent_MarshalWithEncoder :: "borsh_lib \<Rightarrow> FeeConfigUpdatedEvent \<Rightarrow> (bytes, unit) exec" where
  "FeeConfigUpdatedEvent_MarshalWithEncoder lib obj =
     bind (field lib STR ''MinOperationalFee'' (enc_u64 lib (fcu_MinOperationalFee obj))) (\<lambda>_.
     bind (field lib STR ''BridgeFee'' (enc_u64 lib (fcu_BridgeFee obj))) (\<lambda>_.
     bind (field lib STR ''Treasury'' (enc_PublicKey lib (fcu_Treasury obj))) (\<lambda>_.
     ret ())))"

definition FeeConfigUpdatedEvent_Marshal :: "borsh_lib \<Rightarrow> FeeConfigUpdatedEvent \<Rightarrow> go_error + bytes" where
  "FeeConfigUpdatedEvent_Marshal lib obj =
     run_encoder STR ''error while encoding FeeConfigUpdatedEvent: %w'' (FeeConfigUpdatedEvent_MarshalWithEncoder lib obj)"

definition FeeConfigUpdatedEvent_UnmarshalWithDecoder :: "borsh_lib \<Rightarrow> (bytes, FeeConfigUpdatedEvent) exec" where
  "FeeConfigUpdatedEvent_UnmarshalWithDecoder lib =
     bind (field lib STR ''MinOperationalFee'' (dec_u64 lib)) (\<lambda>minOperationalFee.
     bind (field lib STR ''BridgeFee'' (dec_u64 lib)) (\<lambda>bridgeFee.
     bind (field lib STR ''Treasury'' (dec_PublicKey lib)) (\<lambda>treasury.
     ret \<lparr>fcu_MinOperationalFee = minOperationalFee, fcu_BridgeFee = bridgeFee,
       fcu_Treasury = treasury\<rparr>)))"

definition FeeConfigUpdatedEvent_Unmarshal :: "borsh_lib \<Rightarrow> bytes \<Rightarrow> go_error + FeeConfigUpdatedEvent" where
  "FeeConfigUpdatedEvent_Unmarshal lib buf =
     run_decoder STR ''error while unmarshaling FeeConfigUpdatedEvent: %w'' (FeeConfigUpdatedEvent_UnmarshalWithDecoder lib) buf"

definition UnmarshalFeeConfigUpdatedEvent :: "borsh_lib \<Rightarrow> bytes \<Rightarrow> go_error + FeeConfigUpdatedEvent" where
  "UnmarshalFeeConfigUpdatedEvent lib buf = (case FeeConfigUpdatedEvent_Unmarshal lib buf of Inl err \<Rightarrow> Inl err | Inr obj \<Rightarrow> Inr obj)"

lemma codec_FeeConfigUpdatedEvent:
  assumes "borsh_ok lib"
  shows "codec (\<lambda>x. True) (FeeConfigUpdatedEvent_MarshalWithEncoder lib) (FeeConfigUpdatedEvent_UnmarshalWithDecoder lib)"
  unfolding FeeConfigUpdatedEvent_MarshalWithEncoder_def FeeConfigUpdatedEvent_UnmarshalWithDecoder_def
  by (rule codecI, intro exI conjI) (rule writes_rules reads_rules assms | simp)+

section \<open>\<open>HotWalletIncrementEvent\<close>\<close>

record HotWalletIncrementEvent =
  hwi_Sender :: PublicKey
  hwi_Mint :: PublicKey
  hwi_Amount :: u64

definition HotWalletIncrementEvent_MarshalWithEncoder :: "borsh_lib \<Rightarrow> HotWalletIncrementEvent \<Rightarrow> (bytes, unit) exec" where
  "HotWalletIncrementEvent_MarshalWithEncoder lib obj =
     bind (field lib STR ''Sender'' (enc_PublicKey lib (hwi_Sender obj))) (\<lambda>_.
     bind (field lib STR ''Mint'' (enc_PublicKey lib (hwi_Mint obj))) (\<lambda>_.
     bind (field lib STR ''Amount'' (enc_u64 lib (hwi_Amount obj))) (\<lambda>_.
     ret ())))"

definition HotWalletIncrementEvent_Marshal :: "borsh_lib \<Rightarrow> HotWalletIncrementEvent \<Rightarrow> go_error + bytes" where
  "HotWalletIncrementEvent_Marshal lib obj =
     run_encoder STR ''error while encoding HotWalletIncrementEvent: %w'' (HotWalletIncrementEvent_MarshalWithEncoder lib obj)"

definition HotWalletIncrementEvent_UnmarshalWithDecoder :: "borsh_lib \<Rightarrow> (bytes, HotWalletIncrementEvent) exec" where
  "HotWalletIncrementEvent_UnmarshalWithDecoder lib =
     bind (field lib STR ''Sender'' (dec_PublicKey lib)) (\<lambda>sender.
     bind (field lib STR ''Mint'' (dec_PublicKey lib)) (\<lambda>mint.
     bind (field lib STR ''Amount'' (dec_u64 lib)) (\<lambda>amount.
     ret \<lparr>hwi_Sender = sender, hwi_Mint = mint, hwi_Amount = amount\<rparr>)))"

definition HotWalletIncrementEvent_Unmarshal :: "borsh_lib \<Rightarrow> bytes \<Rightarrow> go_error + HotWalletIncrementEvent" where
  "HotWalletIncrementEvent_Unmarshal lib buf =
     run_decoder STR ''error while unmarshaling HotWalletIncrementEvent: %w'' (HotWalletIncrementEvent_UnmarshalWithDecoder lib) buf"

definition UnmarshalHotWalletIncrementEvent :: "borsh_lib \<Rightarrow> bytes \<Rightarrow> go_error + HotWalletIncrementEvent" where
  "UnmarshalHotWalletIncrementEvent lib buf = (case HotWalletIncrementEvent_Unmarshal lib buf of Inl err \<Rightarrow> Inl err | Inr obj \<Rightarrow> Inr obj)"

lemma codec_HotWalletIncrementEvent:
  assumes "borsh_ok lib"
  shows "codec (\<lambda>x. True) (HotWalletIncrementEvent_MarshalWithEncoder lib) (HotWalletIncrementEvent_UnmarshalWithDecoder lib)"
  unfolding HotWalletIncrementEvent_MarshalWithEncoder_def HotWalletIncrementEvent_UnmarshalWithDecoder_def
  by (rule codecI, intro exI conjI) (rule writes_rules reads_rules assms | simp)+

section \<open>\<open>LockUnlockTokenRegisteredEvent\<close>\<close>

record LockUnlockTokenRegisteredEvent =
  lut_TokenId :: u16
  lut_Mint :: PublicKey
  lut_MinBridgingAmount :: u64

definition LockUnlockTokenRegisteredEvent_MarshalWithEncoder :: "borsh_lib \<Rightarrow> LockUnlockTokenRegisteredEvent \<Rightarrow> (bytes, unit) exec" where
  "LockUnlockTokenRegisteredEvent_MarshalWithEncoder lib obj =
     bind (field lib STR ''TokenId'' (enc_u16 lib (lut_TokenId obj))) (\<lambda>_.
     bind (field lib STR ''Mint'' (enc_PublicKey lib (lut_Mint obj))) (\<lambda>_.
     bind (field lib STR ''MinBridgingAmount'' (enc_u64 lib (lut_MinBridgingAmount obj))) (\<lambda>_.
     ret ())))"

definition LockUnlockTokenRegisteredEvent_Marshal :: "borsh_lib \<Rightarrow> LockUnlockTokenRegisteredEvent \<Rightarrow> go_error + bytes" where
  "LockUnlockTokenRegisteredEvent_Marshal lib obj =
     run_encoder STR ''error while encoding LockUnlockTokenRegisteredEvent: %w'' (LockUnlockTokenRegisteredEvent_MarshalWithEncoder lib obj)"

definition LockUnlockTokenRegisteredEvent_UnmarshalWithDecoder :: "borsh_lib \<Rightarrow> (bytes, LockUnlockTokenRegisteredEvent) exec" where
  "LockUnlockTokenRegisteredEvent_UnmarshalWithDecoder lib =
     bind (field lib STR ''TokenId'' (dec_u16 lib)) (\<lambda>tokenId.
     bind (field lib STR ''Mint'' (dec_PublicKey lib)) (\<lambda>mint.
     bind (field lib STR ''MinBridgingAmount'' (dec_u64 lib)) (\<lambda>minBridgingAmount.
     ret \<lparr>lut_TokenId = tokenId, lut_Mint = mint, lut_MinBridgingAmount = minBridgingAmount\<rparr>)))"

definition LockUnlockTokenRegisteredEvent_Unmarshal :: "borsh_lib \<Rightarrow> bytes \<Rightarrow> go_error + LockUnlockTokenRegisteredEvent" where
  "LockUnlockTokenRegisteredEvent_Unmarshal lib buf =
     run_decoder STR ''error while unmarshaling LockUnlockTokenRegisteredEvent: %w'' (LockUnlockTokenRegisteredEvent_UnmarshalWithDecoder lib) buf"

definition UnmarshalLockUnlockTokenRegisteredEvent :: "borsh_lib \<Rightarrow> bytes \<Rightarrow> go_error + LockUnlockTokenRegisteredEvent" where
  "UnmarshalLockUnlockTokenRegisteredEvent lib buf = (case LockUnlockTokenRegisteredEvent_Unmarshal lib buf of Inl err \<Rightarrow> Inl err | Inr obj \<Rightarrow> Inr obj)"

lemma codec_LockUnlockTokenRegisteredEvent:
  assumes "borsh_ok lib"
  shows "codec (\<lambda>x. True) (LockUnlockTokenRegisteredEvent_MarshalWithEncoder lib) (LockUnlockTokenRegisteredEvent_UnmarshalWithDecoder lib)"
  unfolding LockUnlockTokenRegisteredEvent_MarshalWithEncoder_def LockUnlockTokenRegisteredEvent_UnmarshalWithDecoder_def
  by (rule codecI, intro exI conjI) (rule writes_rules reads_rules assms | simp)+

section \<open>\<open>MinBridgingAmountUpdatedEvent\<close>\<close>

record MinBridgingAmountUpdatedEvent =
  mba_TokenId :: u16
  mba_Mint :: PublicKey
  mba_MinBridgingAmount :: u64

definition MinBridgingAmountUpdatedEvent_MarshalWithEncoder :: "borsh_lib \<Rightarrow> MinBridgingAmountUpdatedEvent \<Rightarrow> (bytes, unit) exec" where
  "MinBridgingAmountUpdatedEvent_MarshalWithEncoder lib obj =
     bind (field lib STR ''TokenId'' (enc_u16 lib (mba_TokenId obj))) (\<lambda>_.
     bind (field lib STR ''Mint'' (enc_PublicKey lib (mba_Mint obj))) (\<lambda>_.
     bind (field lib STR ''MinBridgingAmount'' (enc_u64 lib (mba_MinBridgingAmount obj))) (\<lambda>_.
     ret ())))"

definition MinBridgingAmountUpdatedEvent_Marshal :: "borsh_lib \<Rightarrow> MinBridgingAmountUpdatedEvent \<Rightarrow> go_error + bytes" where
  "MinBridgingAmountUpdatedEvent_Marshal lib obj =
     run_encoder STR ''error while encoding MinBridgingAmountUpdatedEvent: %w'' (MinBridgingAmountUpdatedEvent_MarshalWithEncoder lib obj)"

definition MinBridgingAmountUpdatedEvent_UnmarshalWithDecoder :: "borsh_lib \<Rightarrow> (bytes, MinBridgingAmountUpdatedEvent) exec" where
  "MinBridgingAmountUpdatedEvent_UnmarshalWithDecoder lib =
     bind (field lib STR ''TokenId'' (dec_u16 lib)) (\<lambda>tokenId.
     bind (field lib STR ''Mint'' (dec_PublicKey lib)) (\<lambda>mint.
     bind (field lib STR ''MinBridgingAmount'' (dec_u64 lib)) (\<lambda>minBridgingAmount.
     ret \<lparr>mba_TokenId = tokenId, mba_Mint = mint, mba_MinBridgingAmount = minBridgingAmount\<rparr>)))"

definition MinBridgingAmountUpdatedEvent_Unmarshal :: "borsh_lib \<Rightarrow> bytes \<Rightarrow> go_error + MinBridgingAmountUpdatedEvent" where
  "MinBridgingAmountUpdatedEvent_Unmarshal lib buf =
     run_decoder STR ''error while unmarshaling MinBridgingAmountUpdatedEvent: %w'' (MinBridgingAmountUpdatedEvent_UnmarshalWithDecoder lib) buf"

definition UnmarshalMinBridgingAmountUpdatedEvent :: "borsh_lib \<Rightarrow> bytes \<Rightarrow> go_error + MinBridgingAmountUpdatedEvent" where
  "UnmarshalMinBridgingAmountUpdatedEvent lib buf = (case MinBridgingAmountUpdatedEvent_Unmarshal lib buf of Inl err \<Rightarrow> Inl err | Inr obj \<Rightarrow> Inr obj)"

lemma codec_MinBridgingAmountUpdatedEvent:
  assumes "borsh_ok lib"
  shows "codec (\<lambda>x. True) (MinBridgingAmountUpdatedEvent_MarshalWithEncoder lib) (MinBridgingAmountUpdatedEvent_UnmarshalWithDecoder lib)"
  unfolding MinBridgingAmountUpdatedEvent_MarshalWithEncoder_def MinBridgingAmountUpdatedEvent_UnmarshalWithDecoder_def
  by (rule codecI, intro exI conjI) (rule writes_rules reads_rules assms | simp)+

section \<open>\<open>MintBurnTokenRegisteredEvent\<close>\<close>

record MintBurnTokenRegisteredEvent =
  mbt_TokenId :: u16
  mbt_Mint :: PublicKey
  mbt_Name :: string
  mbt_Symbol :: string

definition MintBurnTokenRegisteredEvent_MarshalWithEncoder :: "borsh_lib \<Rightarrow> MintBurnTokenRegisteredEvent \<Rightarrow> (bytes, unit) exec" where
  "MintBurnTokenRegisteredEvent_MarshalWithEncoder lib obj =
     bind (field lib STR ''TokenId'' (enc_u16 lib (mbt_TokenId obj))) (\<lambda>_.
     bind (field lib STR ''Mint'' (enc_PublicKey lib (mbt_Mint obj))) (\<lambda>_.
     bind (field lib STR ''Name'' (enc_string lib (mbt_Name obj))) (\<lambda>_.
     bind (field lib STR ''Symbol'' (enc_string lib (mbt_Symbol obj))) (\<lambda>_.
     ret ()))))"

definition MintBurnTokenRegisteredEvent_Marshal :: "borsh_lib \<Rightarrow> MintBurnTokenRegisteredEvent \<Rightarrow> go_error + bytes" where
  "MintBurnTokenRegisteredEvent_Marshal lib obj =
     run_encoder STR ''error while encoding MintBurnTokenRegisteredEvent: %w'' (MintBurnTokenRegisteredEvent_MarshalWithEncoder lib obj)"

definition MintBurnTokenRegisteredEvent_UnmarshalWithDecoder :: "borsh_lib \<Rightarrow> (bytes, MintBurnTokenRegisteredEvent) exec" where
  "MintBurnTokenRegisteredEvent_UnmarshalWithDecoder lib =
     bind (field lib STR ''TokenId'' (dec_u16 lib)) (\<lambda>tokenId.
     bind (field lib STR ''Mint'' (dec_PublicKey lib)) (\<lambda>mint.
     bind (field lib STR ''Name'' (dec_string lib)) (\<lambda>name.
     bind (field lib STR ''Symbol'' (dec_string lib)) (\<lambda>symbol.
     ret \<lparr>mbt_TokenId = tokenId, mbt_Mint = mint, mbt_Name = name, mbt_Symbol = symbol\<rparr>))))"

definition MintBurnTokenRegisteredEvent_Unmarshal :: "borsh_lib \<Rightarrow> bytes \<Rightarrow> go_error + MintBurnTokenRegisteredEvent" where
  "MintBurnTokenRegisteredEvent_Unmarshal lib buf =
     run_decoder STR ''error while unmarshaling MintBurnTokenRegisteredEvent: %w'' (MintBurnTokenRegisteredEvent_UnmarshalWithDecoder lib) buf"

definition UnmarshalMintBurnTokenRegisteredEvent :: "borsh_lib \<Rightarrow> bytes \<Rightarrow> go_error + MintBurnTokenRegisteredEvent" where
  "UnmarshalMintBurnTokenRegisteredEvent lib buf = (case MintBurnTokenRegisteredEvent_Unmarshal lib buf of Inl err \<Rightarrow> Inl err | Inr obj \<Rightarrow> Inr obj)"

lemma codec_MintBurnTokenRegisteredEvent:
  assumes "borsh_ok lib"
  shows "codec (\<lambda>x. counted (mbt_Name x) \<and> counted (mbt_Symbol x)) (MintBurnTokenRegisteredEvent_MarshalWithEncoder lib) (MintBurnTokenRegisteredEvent_UnmarshalWithDecoder lib)"
  unfolding MintBurnTokenRegisteredEvent_MarshalWithEncoder_def MintBurnTokenRegisteredEvent_UnmarshalWithDecoder_def
  by (rule codecI, intro exI conjI) (rule writes_rules reads_rules assms | simp)+

section \<open>\<open>ProgramConfig\<close>\<close>

record ProgramConfig =
  pcf_VersionString :: string
  pcf_DeployedAt :: u64
  pcf_Authority :: PublicKey

definition ProgramConfig_MarshalWithEncoder :: "borsh_lib \<Rightarrow> ProgramConfig \<Rightarrow> (bytes, unit) exec" where
  "ProgramConfig_MarshalWithEncoder lib obj =
     bind (field lib STR ''VersionString'' (enc_string lib (pcf_VersionString obj))) (\<lambda>_.
     bind (field lib STR ''DeployedAt'' (enc_i64 lib (pcf_DeployedAt obj))) (\<lambda>_.
     bind (field lib STR ''Authority'' (enc_PublicKey lib (pcf_Authority obj))) (\<lambda>_.
     ret ())))"

definition ProgramConfig_Marshal :: "borsh_lib \<Rightarrow> ProgramConfig \<Rightarrow> go_error + bytes" where
  "ProgramConfig_Marshal lib obj =
     run_encoder STR ''error while encoding ProgramConfig: %w'' (ProgramConfig_MarshalWithEncoder lib obj)"

definition ProgramConfig_UnmarshalWithDecoder :: "borsh_lib \<Rightarrow> (bytes, ProgramConfig) exec" where
  "ProgramConfig_UnmarshalWithDecoder lib =
     bind (field lib STR ''VersionString'' (dec_string lib)) (\<lambda>versionString.
     bind (field lib STR ''DeployedAt'' (dec_i64 lib)) (\<lambda>deployedAt.
     bind (field lib STR ''Authority'' (dec_PublicKey lib)) (\<lambda>authority.
     ret \<lparr>pcf_VersionString = versionString, pcf_DeployedAt = deployedAt, pcf_Authority = authority\<rparr>)))"

definition ProgramConfig_Unmarshal :: "borsh_lib \<Rightarrow> bytes \<Rightarrow> go_error + ProgramConfig" where
  "ProgramConfig_Unmarshal lib buf =
     run_decoder STR ''error while unmarshaling ProgramConfig: %w'' (ProgramConfig_UnmarshalWithDecoder lib) buf"

definition UnmarshalProgramConfig :: "borsh_lib \<Rightarrow> bytes \<Rightarrow> go_error + ProgramConfig" where
  "UnmarshalProgramConfig lib buf = (case ProgramConfig_Unmarshal lib buf of Inl err \<Rightarrow> Inl err | Inr obj \<Rightarrow> Inr obj)"

lemma codec_ProgramConfig:
  assumes "borsh_ok lib"
  shows "codec (\<lambda>x. counted (pcf_VersionString x)) (ProgramConfig_MarshalWithEncoder lib) (ProgramConfig_UnmarshalWithDecoder lib)"
  unfolding ProgramConfig_MarshalWithEncoder_def ProgramConfig_UnmarshalWithDecoder_def
  by (rule codecI, intro exI conjI) (rule writes_rules reads_rules assms | simp)+

section \<open>\<open>ProgramVersionUpdatedEvent\<close>\<close>

record ProgramVersionUpdatedEvent =
  pvu_VersionString :: string

definition ProgramVersionUpdatedEvent_MarshalWithEncoder :: "borsh_lib \<Rightarrow> ProgramVersionUpdatedEvent \<Rightarrow> (bytes, unit) exec" where
  "ProgramVersionUpdatedEvent_MarshalWithEncoder lib obj =
     bind (field lib STR ''VersionString'' (enc_string lib (pvu_VersionString obj))) (\<lambda>_.
     ret ())"

definition ProgramVersionUpdatedEvent_Marshal :: "borsh_lib \<Rightarrow> ProgramVersionUpdatedEvent \<Rightarrow> go_error + bytes" where
  "ProgramVersionUpdatedEvent_Marshal lib obj =
     run_encoder STR ''error while encoding ProgramVersionUpdatedEvent: %w'' (ProgramVersionUpdatedEvent_MarshalWithEncoder lib obj)"

definition ProgramVersionUpdatedEvent_UnmarshalWithDecoder :: "borsh_lib \<Rightarrow> (bytes, ProgramVersionUpdatedEvent) exec" where
  "ProgramVersionUpdatedEvent_UnmarshalWithDecoder lib =
     bind (field lib STR ''VersionString'' (dec_string lib)) (\<lambda>versionString.
     ret \<lparr>pvu_VersionString = versionString\<rparr>)"

definition ProgramVersionUpdatedEvent_Unmarshal :: "borsh_lib \<Rightarrow> bytes \<Rightarrow> go_error + ProgramVersionUpdatedEvent" where
  "ProgramVersionUpdatedEvent_Unmarshal lib buf =
     run_decoder STR ''error while unmarshaling ProgramVersionUpdatedEvent: %w'' (ProgramVersionUpdatedEvent_UnmarshalWithDecoder lib) buf"

definition UnmarshalProgramVersionUpdatedEvent :: "borsh_lib \<Rightarrow> bytes \<Rightarrow> go_error + ProgramVersionUpdatedEvent" where
  "UnmarshalProgramVersionUpdatedEvent lib buf = (case ProgramVersionUpdatedEvent_Unmarshal lib buf of Inl err \<Rightarrow> Inl err | Inr obj \<Rightarrow> Inr obj)"

lemma codec_ProgramVersionUpdatedEvent:
  assumes "borsh_ok lib"
  shows "codec (\<lambda>x. counted (pvu_VersionString x)) (ProgramVersionUpdatedEvent_MarshalWithEncoder lib) (ProgramVersionUpdatedEvent_UnmarshalWithDecoder lib)"
  unfolding ProgramVersionUpdatedEvent_MarshalWithEncoder_def ProgramVersionUpdatedEvent_UnmarshalWithDecoder_def
  by (rule codecI, intro exI conjI) (rule writes_rules reads_rules assms | simp)+

section \<open>\<open>TokenIdGuard\<close>\<close>

record TokenIdGuard =
  tig_Mint :: PublicKey
  tig_Bump :: byte

definition TokenIdGuard_MarshalWithEncoder :: "borsh_lib \<Rightarrow> TokenIdGuard \<Rightarrow> (bytes, unit) exec" where
  "TokenIdGuard_MarshalWithEncoder lib obj =
     bind (field lib STR ''Mint'' (enc_PublicKey lib (tig_Mint obj))) (\<lambda>_.
     bind (field lib STR ''Bump'' (enc_u8 lib (tig_Bump obj))) (\<lambda>_.
     ret ()))"

definition TokenIdGuard_Marshal :: "borsh_lib \<Rightarrow> TokenIdGuard \<Rightarrow> go_error + bytes" where
  "TokenIdGuard_Marshal lib obj =
     run_encoder STR ''error while encoding TokenIdGuard: %w'' (TokenIdGuard_MarshalWithEncoder lib obj)"

definition TokenIdGuard_UnmarshalWithDecoder :: "borsh_lib \<Rightarrow> (bytes, TokenIdGuard) exec" where
  "TokenIdGuard_UnmarshalWithDecoder lib =
     bind (field lib STR ''Mint'' (dec_PublicKey lib)) (\<lambda>mint.
     bind (field lib STR ''Bump'' (dec_u8 lib)) (\<lambda>bump.
     ret \<lparr>tig_Mint = mint, tig_Bump = bump\<rparr>))"

definition TokenIdGuard_Unmarshal :: "borsh_lib \<Rightarrow> bytes \<Rightarrow> go_error + TokenIdGuard" where
  "TokenIdGuard_Unmarshal lib buf =
     run_decoder STR ''error while unmarshaling TokenIdGuard: %w'' (TokenIdGuard_UnmarshalWithDecoder lib) buf"

definition UnmarshalTokenIdGuard :: "borsh_lib \<Rightarrow> bytes \<Rightarrow> go_error + TokenIdGuard" where
  "UnmarshalTokenIdGuard lib buf = (case TokenIdGuard_Unmarshal lib buf of Inl err \<Rightarrow> Inl err | Inr obj \<Rightarrow> Inr obj)"

lemma codec_TokenIdGuard:
  assumes "borsh_ok lib"
  shows "codec (\<lambda>x. True) (TokenIdGuard_MarshalWithEncoder lib) (TokenIdGuard_UnmarshalWithDecoder lib)"
  unfolding TokenIdGuard_MarshalWithEncoder_def TokenIdGuard_UnmarshalWithDecoder_def
  by (rule codecI, intro exI conjI) (rule writes_rules reads_rules assms | simp)+

section \<open>\<open>TokenRegistry\<close>\<close>

record TokenRegistry =
  treg_TokenId :: u16
  treg_Mint :: PublicKey
  treg_IsLockUnlock :: bool
  treg_MinBridgingAmount :: u64
  treg_Bump :: byte

definition TokenRegistry_MarshalWithEncoder :: "borsh_lib \<Rightarrow> TokenRegistry \<Rightarrow> (bytes, unit) exec" where
  "TokenRegistry_MarshalWithEncoder lib obj =
     bind (field lib STR ''TokenId'' (enc_u16 lib (treg_TokenId obj))) (\<lambda>_.
     bind (field lib STR ''Mint'' (enc_PublicKey lib (treg_Mint obj))) (\<lambda>_.
     bind (field lib STR ''IsLockUnlock'' (enc_bool lib (treg_IsLockUnlock obj))) (\<lambda>_.
     bind (field lib STR ''MinBridgingAmount'' (enc_u64 lib (treg_MinBridgingAmount obj))) (\<lambda>_.
     bind (field lib STR ''Bump'' (enc_u8 lib (treg_Bump obj))) (\<lambda>_.
     ret ())))))"

definition TokenRegistry_Marshal :: "borsh_lib \<Rightarrow> TokenRegistry \<Rightarrow> go_error + bytes" where
  "TokenRegistry_Marshal lib obj =
     run_encoder STR ''error while encoding TokenRegistry: %w'' (TokenRegistry_MarshalWithEncoder lib obj)"

definition TokenRegistry_UnmarshalWithDecoder :: "borsh_lib \<Rightarrow> (bytes, TokenRegistry) exec" where
  "TokenRegistry_UnmarshalWithDecoder lib =
     bind (field lib STR ''TokenId'' (dec_u16 lib)) (\<lambda>tokenId.
     bind (field lib STR ''Mint'' (dec_PublicKey lib)) (\<lambda>mint.
     bind (field lib STR ''IsLockUnlock'' (dec_bool lib)) (\<lambda>isLockUnlock.
     bind (field lib STR ''MinBridgingAmount'' (dec_u64 lib)) (\<lambda>minBridgingAmount.
     bind (field lib STR ''Bump'' (dec_u8 lib)) (\<lambda>bump.
     ret \<lparr>treg_TokenId = tokenId, treg_Mint = mint, treg_IsLockUnlock = isLockUnlock,
       treg_MinBridgingAmount = minBridgingAmount, treg_Bump = bump\<rparr>)))))"

definition TokenRegistry_Unmarshal :: "borsh_lib \<Rightarrow> bytes \<Rightarrow> go_error + TokenRegistry" where
  "TokenRegistry_Unmarshal lib buf =
     run_decoder STR ''error while unmarshaling TokenRegistry: %w'' (TokenRegistry_UnmarshalWithDecoder lib) buf"

definition UnmarshalTokenRegistry :: "borsh_lib \<Rightarrow> bytes \<Rightarrow> go_error + TokenRegistry" where
  "UnmarshalTokenRegistry lib buf = (case TokenRegistry_Unmarshal lib buf of Inl err \<Rightarrow> Inl err | Inr obj \<Rightarrow> Inr obj)"

lemma codec_TokenRegistry:
  assumes "borsh_ok lib"
  shows "codec (\<lambda>x. True) (TokenRegistry_MarshalWithEncoder lib) (TokenRegistry_UnmarshalWithDecoder lib)"
  unfolding TokenRegistry_MarshalWithEncoder_def TokenRegistry_UnmarshalWithDecoder_def
  by (rule codecI, intro exI conjI) (rule writes_rules reads_rules assms | simp)+

section \<open>\<open>TransactionExecutedEvent\<close>\<close>

record TransactionExecutedEvent =
  txe_BatchId :: u64
  txe_TransferCount :: byte
  txe_Fee :: u64

definition TransactionExecutedEvent_MarshalWithEncoder :: "borsh_lib \<Rightarrow> TransactionExecutedEvent \<Rightarrow> (bytes, unit) exec" where
  "TransactionExecutedEvent_MarshalWithEncoder lib obj =
     bind (field lib STR ''BatchId'' (enc_u64 lib (txe_BatchId obj))) (\<lambda>_.
     bind (field lib STR ''TransferCount'' (enc_u8 lib (txe_TransferCount obj))) (\<lambda>_.
     bind (field lib STR ''Fee'' (enc_u64 lib (txe_Fee obj))) (\<lambda>_.
     ret ())))"

definition TransactionExecutedEvent_Marshal :: "borsh_lib \<Rightarrow> TransactionExecutedEvent \<Rightarrow> go_error + bytes" where
  "TransactionExecutedEvent_Marshal lib obj =
     run_encoder STR ''error while encoding TransactionExecutedEvent: %w'' (TransactionExecutedEvent_MarshalWithEncoder lib obj)"

definition TransactionExecutedEvent_UnmarshalWithDecoder :: "borsh_lib \<Rightarrow> (bytes, TransactionExecutedEvent) exec" where
  "TransactionExecutedEvent_UnmarshalWithDecoder lib =
     bind (field lib STR ''BatchId'' (dec_u64 lib)) (\<lambda>batchId.
     bind (field lib STR ''TransferCount'' (dec_u8 lib)) (\<lambda>transferCount.
     bind (field lib STR ''Fee'' (dec_u64 lib)) (\<lambda>fee.
     ret \<lparr>txe_BatchId = batchId, txe_TransferCount = transferCount, txe_Fee = fee\<rparr>)))"

definition TransactionExecutedEvent_Unmarshal :: "borsh_lib \<Rightarrow> bytes \<Rightarrow> go_error + TransactionExecutedEvent" where
  "TransactionExecutedEvent_Unmarshal lib buf =
     run_decoder STR ''error while unmarshaling TransactionExecutedEvent: %w'' (TransactionExecutedEvent_UnmarshalWithDecoder lib) buf"

definition UnmarshalTransactionExecutedEvent :: "borsh_lib \<Rightarrow> bytes \<Rightarrow> go_error + TransactionExecutedEvent" where
  "UnmarshalTransactionExecutedEvent lib buf = (case TransactionExecutedEvent_Unmarshal lib buf of Inl err \<Rightarrow> Inl err | Inr obj \<Rightarrow> Inr obj)"

lemma codec_TransactionExecutedEvent:
  assumes "borsh_ok lib"
  shows "codec (\<lambda>x. True) (TransactionExecutedEvent_MarshalWithEncoder lib) (TransactionExecutedEvent_UnmarshalWithDecoder lib)"
  unfolding TransactionExecutedEvent_MarshalWithEncoder_def TransactionExecutedEvent_UnmarshalWithDecoder_def
  by (rule codecI, intro exI conjI) (rule writes_rules reads_rules assms | simp)+

section \<open>\<open>ValidatorSet\<close>\<close>

record ValidatorSet =
  vset_Signers :: "PublicKey list"
  vset_Threshold :: byte
  vset_Bump :: byte
  vset_LastBatchId :: u64
  vset_BridgeRequestCount :: u64

definition ValidatorSet_MarshalWithEncoder :: "borsh_lib \<Rightarrow> ValidatorSet \<Rightarrow> (bytes, unit) exec" where
  "ValidatorSet_MarshalWithEncoder lib obj =
     bind (field lib STR ''Signers'' (enc_PublicKeys lib (vset_Signers obj))) (\<lambda>_.
     bind (field lib STR ''Threshold'' (enc_u8 lib (vset_Threshold obj))) (\<lambda>_.
     bind (field lib STR ''Bump'' (enc_u8 lib (vset_Bump obj))) (\<lambda>_.
     bind (field lib STR ''LastBatchId'' (enc_u64 lib (vset_LastBatchId obj))) (\<lambda>_.
     bind (field lib STR ''BridgeRequestCount'' (enc_u64 lib (vset_BridgeRequestCount obj))) (\<lambda>_.
     ret ())))))"

definition ValidatorSet_Marshal :: "borsh_lib \<Rightarrow> ValidatorSet \<Rightarrow> go_error + bytes" where
  "ValidatorSet_Marshal lib obj =
     run_encoder STR ''error while encoding ValidatorSet: %w'' (ValidatorSet_MarshalWithEncoder lib obj)"

definition ValidatorSet_UnmarshalWithDecoder :: "borsh_lib \<Rightarrow> (bytes, ValidatorSet) exec" where
  "ValidatorSet_UnmarshalWithDecoder lib =
     bind (field lib STR ''Signers'' (dec_PublicKeys lib)) (\<lambda>signers.
     bind (field lib STR ''Threshold'' (dec_u8 lib)) (\<lambda>threshold.
     bind (field lib STR ''Bump'' (dec_u8 lib)) (\<lambda>bump.
     bind (field lib STR ''LastBatchId'' (dec_u64 lib)) (\<lambda>lastBatchId.
     bind (field lib STR ''BridgeRequestCount'' (dec_u64 lib)) (\<lambda>bridgeRequestCount.
     ret \<lparr>vset_Signers = signers, vset_Threshold = threshold, vset_Bump = bump,
       vset_LastBatchId = lastBatchId, vset_BridgeRequestCount = bridgeRequestCount\<rparr>)))))"

definition ValidatorSet_Unmarshal :: "borsh_lib \<Rightarrow> bytes \<Rightarrow> go_error + ValidatorSet" where
  "ValidatorSet_Unmarshal lib buf =
     run_decoder STR ''error while unmarshaling ValidatorSet: %w'' (ValidatorSet_UnmarshalWithDecoder lib) buf"

definition UnmarshalValidatorSet :: "borsh_lib \<Rightarrow> bytes \<Rightarrow> go_error + ValidatorSet" where
  "UnmarshalValidatorSet lib buf = (case ValidatorSet_Unmarshal lib buf of Inl err \<Rightarrow> Inl err | Inr obj \<Rightarrow> Inr obj)"

lemma codec_ValidatorSet:
  assumes "borsh_ok lib"
  shows "codec (\<lambda>x. counted (vset_Signers x)) (ValidatorSet_MarshalWithEncoder lib) (ValidatorSet_UnmarshalWithDecoder lib)"
  unfolding ValidatorSet_MarshalWithEncoder_def ValidatorSet_UnmarshalWithDecoder_def
  by (rule codecI, intro exI conjI) (rule writes_rules reads_rules assms | simp)+

section \<open>\<open>ValidatorSetUpdatedEvent\<close>\<close>

record ValidatorSetUpdatedEvent =
  vsu_NewSigners :: "PublicKey list"
  vsu_NewThreshold :: byte
  vsu_BatchId :: u64

definition ValidatorSetUpdatedEvent_MarshalWithEncoder :: "borsh_lib \<Rightarrow> ValidatorSetUpdatedEvent \<Rightarrow> (bytes, unit) exec" where
  "ValidatorSetUpdatedEvent_MarshalWithEncoder lib obj =
     bind (field lib STR ''NewSigners'' (enc_PublicKeys lib (vsu_NewSigners obj))) (\<lambda>_.
     bind (field lib STR ''NewThreshold'' (enc_u8 lib (vsu_NewThreshold obj))) (\<lambda>_.
     bind (field lib STR ''BatchId'' (enc_u64 lib (vsu_BatchId obj))) (\<lambda>_.
     ret ())))"

definition ValidatorSetUpdatedEvent_Marshal :: "borsh_lib \<Rightarrow> ValidatorSetUpdatedEvent \<Rightarrow> go_error + bytes" where
  "ValidatorSetUpdatedEvent_Marshal lib obj =
     run_encoder STR ''error while encoding ValidatorSetUpdatedEvent: %w'' (ValidatorSetUpdatedEvent_MarshalWithEncoder lib obj)"

definition ValidatorSetUpdatedEvent_UnmarshalWithDecoder :: "borsh_lib \<Rightarrow> (bytes, ValidatorSetUpdatedEvent) exec" where
  "ValidatorSetUpdatedEvent_UnmarshalWithDecoder lib =
     bind (field lib STR ''NewSigners'' (dec_PublicKeys lib)) (\<lambda>newSigners.
     bind (field lib STR ''NewThreshold'' (dec_u8 lib)) (\<lambda>newThreshold.
     bind (field lib STR ''BatchId'' (dec_u64 lib)) (\<lambda>batchId.
     ret \<lparr>vsu_NewSigners = newSigners, vsu_NewThreshold = newThreshold, vsu_BatchId = batchId\<rparr>)))"

definition ValidatorSetUpdatedEvent_Unmarshal :: "borsh_lib \<Rightarrow> bytes \<Rightarrow> go_error + ValidatorSetUpdatedEvent" where
  "ValidatorSetUpdatedEvent_Unmarshal lib buf =
     run_decoder STR ''error while unmarshaling ValidatorSetUpdatedEvent: %w'' (ValidatorSetUpdatedEvent_UnmarshalWithDecoder lib) buf"

definition UnmarshalValidatorSetUpdatedEvent :: "borsh_lib \<Rightarrow> bytes \<Rightarrow> go_error + ValidatorSetUpdatedEvent" where
  "UnmarshalValidatorSetUpdatedEvent lib buf = (case ValidatorSetUpdatedEvent_Unmarshal lib buf of Inl err \<Rightarrow> Inl err | Inr obj \<Rightarrow> Inr obj)"

lemma codec_ValidatorSetUpdatedEvent:
  assumes "borsh_ok lib"
  shows "codec (\<lambda>x. counted (vsu_NewSigners x)) (ValidatorSetUpdatedEvent_MarshalWithEncoder lib) (ValidatorSetUpdatedEvent_UnmarshalWithDecoder lib)"
  unfolding ValidatorSetUpdatedEvent_MarshalWithEncoder_def ValidatorSetUpdatedEvent_UnmarshalWithDecoder_def
  by (rule codecI, intro exI conjI) (rule writes_rules reads_rules assms | simp)+

section \<open>\<open>Vault\<close>\<close>

record Vault =
  vlt_Bump :: byte

definition Vault_MarshalWithEncoder :: "borsh_lib \<Rightarrow> Vault \<Rightarrow> (bytes, unit) exec" where
  "Vault_MarshalWithEncoder lib obj =
     bind (field lib STR ''Bump'' (enc_u8 lib (vlt_Bump obj))) (\<lambda>_.
     ret ())"

definition Vault_Marshal :: "borsh_lib \<Rightarrow> Vault \<Rightarrow> go_error + bytes" where
  "Vault_Marshal lib obj =
     run_encoder STR ''error while encoding Vault: %w'' (Vault_MarshalWithEncoder lib obj)"

definition Vault_UnmarshalWithDecoder :: "borsh_lib \<Rightarrow> (bytes, Vault) exec" where
  "Vault_UnmarshalWithDecoder lib =
     bind (field lib STR ''Bump'' (dec_u8 lib)) (\<lambda>bump.
     ret \<lparr>vlt_Bump = bump\<rparr>)"

definition Vault_Unmarshal :: "borsh_lib \<Rightarrow> bytes \<Rightarrow> go_error + Vault" where
  "Vault_Unmarshal lib buf =
     run_decoder STR ''error while unmarshaling Vault: %w'' (Vault_UnmarshalWithDecoder lib) buf"

definition UnmarshalVault :: "borsh_lib \<Rightarrow> bytes \<Rightarrow> go_error + Vault" where
  "UnmarshalVault lib buf = (case Vault_Unmarshal lib buf of Inl err \<Rightarrow> Inl err | Inr obj \<Rightarrow> Inr obj)"

lemma codec_Vault:
  assumes "borsh_ok lib"
  shows "codec (\<lambda>x. True) (Vault_MarshalWithEncoder lib) (Vault_UnmarshalWithDecoder lib)"
  unfolding Vault_MarshalWithEncoder_def Vault_UnmarshalWithDecoder_def
  by (rule codecI, intro exI conjI) (rule writes_rules reads_rules assms | simp)+

end
