(* ===== verification/Skyline_Parsers.thy ===== *)
theory Skyline_Parsers
  imports Skyline_Types
begin

text \<open>
  \<open>sendtx/skyline_program/discriminators.go\<close>, \<open>accounts.go\<close> and \<open>events.go\<close>: the
  discriminators of the on-chain program and the parsers that dispatch on them.
\<close>

section \<open>Discriminators and seeds\<close>

definition Account_FeeConfig :: bytes where "Account_FeeConfig = [143, 52, 146, 187, 219, 123, 76, 155]"
definition Account_ProgramConfig :: bytes where "Account_ProgramConfig = [196, 210, 90, 231, 144, 149, 140, 63]"
definition Account_TokenIdGuard :: bytes where "Account_TokenIdGuard = [176, 49, 94, 91, 195, 131, 192, 192]"
definition Account_TokenRegistry :: bytes where "Account_TokenRegistry = [227, 255, 152, 118, 84, 200, 145, 120]"
definition Account_ValidatorSet :: bytes where "Account_ValidatorSet = [35, 206, 97, 202, 43, 11, 11, 127]"
definition Account_Vault :: bytes where "Account_Vault = [211, 8, 232, 43, 2, 152, 117, 119]"
definition Event_BridgeRequestEvent :: bytes where "Event_BridgeRequestEvent = [162, 122, 193, 76, 126, 59, 162, 143]"
definition Event_FeeConfigUpdatedEvent :: bytes where "Event_FeeConfigUpdatedEvent = [139, 188, 235, 116, 222, 55, 95, 201]"
definition Event_HotWalletIncrementEvent :: bytes where "Event_HotWalletIncrementEvent = [59, 172, 72, 125, 228, 239, 221, 175]"
definition Event_LockUnlockTokenRegisteredEvent :: bytes where "Event_LockUnlockTokenRegisteredEvent = [190, 93, 87, 189, 153, 86, 187, 120]"
definition Event_MinBridgingAmountUpdatedEvent :: bytes where "Event_MinBridgingAmountUpdatedEvent = [129, 249, 169, 118, 98, 59, 181, 131]"
definition Event_MintBurnTokenRegisteredEvent :: bytes where "Event_MintBurnTokenRegisteredEvent = [45, 109, 50, 56, 70, 204, 25, 113]"
definition Event_ProgramVersionUpdatedEvent :: bytes where "Event_ProgramVersionUpdatedEvent = [92, 102, 239, 253, 213, 16, 58, 87]"
definition Event_TransactionExecutedEvent :: bytes where "Event_TransactionExecutedEvent = [138, 185, 121, 218, 65, 145, 254, 24]"
definition Event_ValidatorSetUpdatedEvent :: bytes where "Event_ValidatorSetUpdatedEvent = [92, 126, 111, 2, 195, 25, 244, 136]"
definition Instruction_BridgeRequest :: bytes where "Instruction_BridgeRequest = [174, 128, 16, 189, 59, 127, 134, 232]"
definition Instruction_BridgeTransaction :: bytes where "Instruction_BridgeTransaction = [73, 26, 119, 117, 56, 168, 209, 98]"
definition Instruction_BridgeVsu :: bytes where "Instruction_BridgeVsu = [251, 55, 181, 69, 163, 28, 202, 10]"
definition Instruction_HotWalletIncrement :: bytes where "Instruction_HotWalletIncrement = [60, 140, 196, 63, 147, 195, 18, 90]"
definition Instruction_Initialize :: bytes where "Instruction_Initialize = [175, 175, 109, 31, 13, 152, 155, 237]"
definition Instruction_RegisterLockUnlockToken :: bytes where "Instruction_RegisterLockUnlockToken = [102, 136, 172, 174, 201, 166, 219, 233]"
definition Instruction_RegisterMintBurnToken :: bytes where "Instruction_RegisterMintBurnToken = [20, 106, 92, 113, 59, 41, 253, 128]"
definition Instruction_UpdateFeeConfig :: bytes where "Instruction_UpdateFeeConfig = [104, 184, 103, 242, 88, 151, 107, 20]"
definition Instruction_UpdateMinBridgingAmount :: bytes where "Instruction_UpdateMinBridgingAmount = [154, 223, 132, 123, 178, 94, 16, 41]"
definition Instruction_UpdateProgramVersion :: bytes where "Instruction_UpdateProgramVersion = [235, 132, 215, 225, 213, 43, 43, 38]"
definition FEE_CONFIG_SEED :: bytes where "FEE_CONFIG_SEED = [102, 101, 101, 95, 99, 111, 110, 102, 105, 103]"
definition PROGRAM_CONFIG_SEED :: bytes where "PROGRAM_CONFIG_SEED = [112, 114, 111, 103, 114, 97, 109, 95, 99, 111, 110, 102, 105, 103]"
definition TOKEN_ID_GUARD_SEED :: bytes where "TOKEN_ID_GUARD_SEED = [116, 111, 107, 101, 110, 95, 105, 100, 95, 103, 117, 97, 114, 100]"
definition TOKEN_REGISTRY_SEED :: bytes where "TOKEN_REGISTRY_SEED = [116, 111, 107, 101, 110, 95, 114, 101, 103, 105, 115, 116, 114, 121]"
definition VALIDATOR_SET_SEED :: bytes where "VALIDATOR_SET_SEED = [118, 97, 108, 105, 100, 97, 116, 111, 114, 45, 115, 101, 116]"
definition VAULT_SEED :: bytes where "VAULT_SEED = [118, 97, 117, 108, 116]"

lemmas account_discriminators =
  Account_FeeConfig_def Account_ProgramConfig_def Account_TokenIdGuard_def Account_TokenRegistry_def Account_ValidatorSet_def Account_Vault_def

lemmas event_discriminators =
  Event_BridgeRequestEvent_def Event_FeeConfigUpdatedEvent_def Event_HotWalletIncrementEvent_def Event_LockUnlockTokenRegisteredEvent_def Event_MinBridgingAmountUpdatedEvent_def Event_MintBurnTokenRegisteredEvent_def Event_ProgramVersionUpdatedEvent_def Event_TransactionExecutedEvent_def Event_ValidatorSetUpdatedEvent_def

lemmas instruction_discriminators =
  Instruction_BridgeRequest_def Instruction_BridgeTransaction_def Instruction_BridgeVsu_def Instruction_HotWalletIncrement_def Instruction_Initialize_def Instruction_RegisterLockUnlockToken_def Instruction_RegisterMintBurnToken_def Instruction_UpdateFeeConfig_def Instruction_UpdateMinBridgingAmount_def Instruction_UpdateProgramVersion_def

section \<open>One expected type\<close>

definition parse_discriminated ::
  "borsh_lib \<Rightarrow> bytes \<Rightarrow> String.literal \<Rightarrow> (bytes, 'a) exec \<Rightarrow> bytes \<Rightarrow> go_error + 'a" where
  "parse_discriminated lib expected msg dec data =
     (case dec_ReadDiscriminator lib data of
        (Inl e, _) \<Rightarrow> Inl (wrapped STR ''failed to peek discriminator: %w'' e)
      | (Inr discriminator, rest) \<Rightarrow>
          if discriminator \<noteq> expected then Inl (Errorf STR ''expected discriminator %v, got %s'')
          else run_decoder msg dec rest)"

definition ParseAccount_FeeConfig :: "borsh_lib \<Rightarrow> bytes \<Rightarrow> go_error + FeeConfig" where
  "ParseAccount_FeeConfig lib data =
     parse_discriminated lib Account_FeeConfig STR ''failed to unmarshal account of type FeeConfig: %w''
       (FeeConfig_UnmarshalWithDecoder lib) data"

definition ParseAccount_ProgramConfig :: "borsh_lib \<Rightarrow> bytes \<Rightarrow> go_error + ProgramConfig" where
  "ParseAccount_ProgramConfig lib data =
     parse_discriminated lib Account_ProgramConfig STR ''failed to unmarshal account of type ProgramConfig: %w''
       (ProgramConfig_UnmarshalWithDecoder lib) data"

definition ParseAccount_TokenIdGuard :: "borsh_lib \<Rightarrow> bytes \<Rightarrow> go_error + TokenIdGuard" where
  "ParseAccount_TokenIdGuard lib data =
     parse_discriminated lib Account_TokenIdGuard STR ''failed to unmarshal account of type TokenIdGuard: %w''
       (TokenIdGuard_UnmarshalWithDecoder lib) data"

definition ParseAccount_TokenRegistry :: "borsh_lib \<Rightarrow> bytes \<Rightarrow> go_error + TokenRegistry" where
  "ParseAccount_TokenRegistry lib data =
     parse_discriminated lib Account_TokenRegistry STR ''failed to unmarshal account of type TokenRegistry: %w''
       (TokenRegistry_UnmarshalWithDecoder lib) data"

definition ParseAccount_ValidatorSet :: "borsh_lib \<Rightarrow> bytes \<Rightarrow> go_error + ValidatorSet" where
  "ParseAccount_ValidatorSet lib data =
     parse_discriminated lib Account_ValidatorSet STR ''failed to unmarshal account of type ValidatorSet: %w''
       (ValidatorSet_UnmarshalWithDecoder lib) data"

definition ParseAccount_Vault :: "borsh_lib \<Rightarrow> bytes \<Rightarrow> go_error + Vault" where
  "ParseAccount_Vault lib data =
     parse_discriminated lib Account_Vault STR ''failed to unmarshal account of type Vault: %w''
       (Vault_UnmarshalWithDecoder lib) data"

section \<open>Any account\<close>

datatype any_account =
    Any_FeeConfig FeeConfig
  | Any_ProgramConfig ProgramConfig
  | Any_TokenIdGuard TokenIdGuard
  | Any_TokenRegistry TokenRegistry
  | Any_ValidatorSet ValidatorSet
  | Any_Vault Vault

definition ParseAnyAccount :: "borsh_lib \<Rightarrow> bytes \<Rightarrow> go_error + any_account" where
  "ParseAnyAccount lib data =
     (case dec_ReadDiscriminator lib data of
        (Inl e, _) \<Rightarrow> Inl (wrapped STR ''failed to peek account discriminator: %w'' e)
      | (Inr discriminator, rest) \<Rightarrow>
          if discriminator = Account_FeeConfig then
            map_sum id Any_FeeConfig (run_decoder STR ''failed to unmarshal account as FeeConfig: %w'' (FeeConfig_UnmarshalWithDecoder lib) rest)
          else if discriminator = Account_ProgramConfig then
            map_sum id Any_ProgramConfig (run_decoder STR ''failed to unmarshal account as ProgramConfig: %w'' (ProgramConfig_UnmarshalWithDecoder lib) rest)
          else if discriminator = Account_TokenIdGuard then
            map_sum id Any_TokenIdGuard (run_decoder STR ''failed to unmarshal account as TokenIdGuard: %w'' (TokenIdGuard_UnmarshalWithDecoder lib) rest)
          else if discriminator = Account_TokenRegistry then
            map_sum id Any_TokenRegistry (run_decoder STR ''failed to unmarshal account as TokenRegistry: %w'' (TokenRegistry_UnmarshalWithDecoder lib) rest)
          else if discriminator = Account_ValidatorSet then
            map_sum id Any_ValidatorSet (run_decoder STR ''failed to unmarshal account as ValidatorSet: %w'' (ValidatorSet_UnmarshalWithDecoder lib) rest)
          else if discriminator = Account_Vault then
            map_sum id Any_Vault (run_decoder STR ''failed to unmarshal account as Vault: %w'' (Vault_UnmarshalWithDecoder lib) rest)
          else Inl (Errorf STR ''unknown discriminator: %s''))"

text \<open>What an account of the program holds: its type's discriminator, then its encoding.\<close>

fun account_Marshal :: "borsh_lib \<Rightarrow> any_account \<Rightarrow> go_error + bytes" where
  "account_Marshal lib (Any_FeeConfig x) = FeeConfig_Marshal lib x"
| "account_Marshal lib (Any_ProgramConfig x) = ProgramConfig_Marshal lib x"
| "account_Marshal lib (Any_TokenIdGuard x) = TokenIdGuard_Marshal lib x"
| "account_Marshal lib (Any_TokenRegistry x) = TokenRegistry_Marshal lib x"
| "account_Marshal lib (Any_ValidatorSet x) = ValidatorSet_Marshal lib x"
| "account_Marshal lib (Any_Vault x) = Vault_Marshal lib x"

fun account_discriminator :: "any_account \<Rightarrow> bytes" where
  "account_discriminator (Any_FeeConfig x) = Account_FeeConfig"
| "account_discriminator (Any_ProgramConfig x) = Account_ProgramConfig"
| "account_discriminator (Any_TokenIdGuard x) = Account_TokenIdGuard"
| "account_discriminator (Any_TokenRegistry x) = Account_TokenRegistry"
| "account_discriminator (Any_ValidatorSet x) = Account_ValidatorSet"
| "account_discriminator (Any_Vault x) = Account_Vault"

fun account_fits :: "any_account \<Rightarrow> bool" where
  "account_fits (Any_FeeConfig x) \<longleftrightarrow> True"
| "account_fits (Any_ProgramConfig x) \<longleftrightarrow> counted (pcf_VersionString x)"
| "account_fits (Any_TokenIdGuard x) \<longleftrightarrow> True"
| "account_fits (Any_TokenRegistry x) \<longleftrightarrow> True"
| "account_fits (Any_ValidatorSet x) \<longleftrightarrow> counted (vset_Signers x)"
| "account_fits (Any_Vault x) \<longleftrightarrow> True"

lemmas any_account_defs =
  FeeConfig_Marshal_def ProgramConfig_Marshal_def TokenIdGuard_Marshal_def TokenRegistry_Marshal_def ValidatorSet_Marshal_def Vault_Marshal_def

lemmas any_account_codecs =
  codec_FeeConfig codec_ProgramConfig codec_TokenIdGuard codec_TokenRegistry codec_ValidatorSet codec_Vault


definition ParseEvent_BridgeRequestEvent :: "borsh_lib \<Rightarrow> bytes \<Rightarrow> go_error + BridgeRequestEvent" where
  "ParseEvent_BridgeRequestEvent lib data =
     parse_discriminated lib Event_BridgeRequestEvent STR ''failed to unmarshal event of type BridgeRequestEvent: %w''
       (BridgeRequestEvent_UnmarshalWithDecoder lib) data"

definition ParseEvent_FeeConfigUpdatedEvent :: "borsh_lib \<Rightarrow> bytes \<Rightarrow> go_error + FeeConfigUpdatedEvent" where
  "ParseEvent_FeeConfigUpdatedEvent lib data =
     parse_discriminated lib Event_FeeConfigUpdatedEvent STR ''failed to unmarshal event of type FeeConfigUpdatedEvent: %w''
       (FeeConfigUpdatedEvent_UnmarshalWithDecoder lib) data"

definition ParseEvent_HotWalletIncrementEvent :: "borsh_lib \<Rightarrow> bytes \<Rightarrow> go_error + HotWalletIncrementEvent" where
  "ParseEvent_HotWalletIncrementEvent lib data =
     parse_discriminated lib Event_HotWalletIncrementEvent STR ''failed to unmarshal event of type HotWalletIncrementEvent: %w''
       (HotWalletIncrementEvent_UnmarshalWithDecoder lib) data"

definition ParseEvent_LockUnlockTokenRegisteredEvent :: "borsh_lib \<Rightarrow> bytes \<Rightarrow> go_error + LockUnlockTokenRegisteredEvent" where
  "ParseEvent_LockUnlockTokenRegisteredEvent lib data =
     parse_discriminated lib Event_LockUnlockTokenRegisteredEvent STR ''failed to unmarshal event of type LockUnlockTokenRegisteredEvent: %w''
       (LockUnlockTokenRegisteredEvent_UnmarshalWithDecoder lib) data"

definition ParseEvent_MinBridgingAmountUpdatedEvent :: "borsh_lib \<Rightarrow> bytes \<Rightarrow> go_error + MinBridgingAmountUpdatedEvent" where
  "ParseEvent_MinBridgingAmountUpdatedEvent lib data =
     parse_discriminated lib Event_MinBridgingAmountUpdatedEvent STR ''failed to unmarshal event of type MinBridgingAmountUpdatedEvent: %w''
       (MinBridgingAmountUpdatedEvent_UnmarshalWithDecoder lib) data"

definition ParseEvent_MintBurnTokenRegisteredEvent :: "borsh_lib \<Rightarrow> bytes \<Rightarrow> go_error + MintBurnTokenRegisteredEvent" where
  "ParseEvent_MintBurnTokenRegisteredEvent lib data =
     parse_discriminated lib Event_MintBurnTokenRegisteredEvent STR ''failed to unmarshal event of type MintBurnTokenRegisteredEvent: %w''
       (MintBurnTokenRegisteredEvent_UnmarshalWithDecoder lib) data"

definition ParseEvent_ProgramVersionUpdatedEvent :: "borsh_lib \<Rightarrow> bytes \<Rightarrow> go_error + ProgramVersionUpdatedEvent" where
  "ParseEvent_ProgramVersionUpdatedEvent lib data =
     parse_discriminated lib Event_ProgramVersionUpdatedEvent STR ''failed to unmarshal event of type ProgramVersionUpdatedEvent: %w''
       (ProgramVersionUpdatedEvent_UnmarshalWithDecoder lib) data"

definition ParseEvent_TransactionExecutedEvent :: "borsh_lib \<Rightarrow> bytes \<Rightarrow> go_error + TransactionExecutedEvent" where
  "ParseEvent_TransactionExecutedEvent lib data =
     parse_discriminated lib Event_TransactionExecutedEvent STR ''failed to unmarshal event of type TransactionExecutedEvent: %w''
       (TransactionExecutedEvent_UnmarshalWithDecoder lib) data"

definition ParseEvent_ValidatorSetUpdatedEvent :: "borsh_lib \<Rightarrow> bytes \<Rightarrow> go_error + ValidatorSetUpdatedEvent" where
  "ParseEvent_ValidatorSetUpdatedEvent lib data =
     parse_discriminated lib Event_ValidatorSetUpdatedEvent STR ''failed to unmarshal event of type ValidatorSetUpdatedEvent: %w''
       (ValidatorSetUpdatedEvent_UnmarshalWithDecoder lib) data"

section \<open>Any event\<close>

datatype any_event =
    Any_BridgeRequestEvent BridgeRequestEvent
  | Any_FeeConfigUpdatedEvent FeeConfigUpdatedEvent
  | Any_HotWalletIncrementEvent HotWalletIncrementEvent
  | Any_LockUnlockTokenRegisteredEvent LockUnlockTokenRegisteredEvent
  | Any_MinBridgingAmountUpdatedEvent MinBridgingAmountUpdatedEvent
  | Any_MintBurnTokenRegisteredEvent MintBurnTokenRegisteredEvent
  | Any_ProgramVersionUpdatedEvent ProgramVersionUpdatedEvent
  | Any_TransactionExecutedEvent TransactionExecutedEvent
  | Any_ValidatorSetUpdatedEvent ValidatorSetUpdatedEvent

definition ParseAnyEvent :: "borsh_lib \<Rightarrow> bytes \<Rightarrow> go_error + any_event" where
  "ParseAnyEvent lib data =
     (case dec_ReadDiscriminator lib data of
        (Inl e, _) \<Rightarrow> Inl (wrapped STR ''failed to peek event discriminator: %w'' e)
      | (Inr discriminator, rest) \<Rightarrow>
          if discriminator = Event_BridgeRequestEvent then
            map_sum id Any_BridgeRequestEvent (run_decoder STR ''failed to unmarshal event as BridgeRequestEvent: %w'' (BridgeRequestEvent_UnmarshalWithDecoder lib) rest)
          else if discriminator = Event_FeeConfigUpdatedEvent then
            map_sum id Any_FeeConfigUpdatedEvent (run_decoder STR ''failed to unmarshal event as FeeConfigUpdatedEvent: %w'' (FeeConfigUpdatedEvent_UnmarshalWithDecoder lib) rest)
          else if discriminator = Event_HotWalletIncrementEvent then
            map_sum id Any_HotWalletIncrementEvent (run_decoder STR ''failed to unmarshal event as HotWalletIncrementEvent: %w'' (HotWalletIncrementEvent_UnmarshalWithDecoder lib) rest)
          else if discriminator = Event_LockUnlockTokenRegisteredEvent then
            map_sum id Any_LockUnlockTokenRegisteredEvent (run_decoder STR ''failed to unmarshal event as LockUnlockTokenRegisteredEvent: %w'' (LockUnlockTokenRegisteredEvent_UnmarshalWithDecoder lib) rest)
          else if discriminator = Event_MinBridgingAmountUpdatedEvent then
            map_sum id Any_MinBridgingAmountUpdatedEvent (run_decoder STR ''failed to unmarshal event as MinBridgingAmountUpdatedEvent: %w'' (MinBridgingAmountUpdatedEvent_UnmarshalWithDecoder lib) rest)
          else if discriminator = Event_MintBurnTokenRegisteredEvent then
            map_sum id Any_MintBurnTokenRegisteredEvent (run_decoder STR ''failed to unmarshal event as MintBurnTokenRegisteredEvent: %w'' (MintBurnTokenRegisteredEvent_UnmarshalWithDecoder lib) rest)
          else if discriminator = Event_ProgramVersionUpdatedEvent then
            map_sum id Any_ProgramVersionUpdatedEvent (run_decoder STR ''failed to unmarshal event as ProgramVersionUpdatedEvent: %w'' (ProgramVersionUpdatedEvent_UnmarshalWithDecoder lib) rest)
          else if discriminator = Event_TransactionExecutedEvent then
            map_sum id Any_TransactionExecutedEvent (run_decoder STR ''failed to unmarshal event as TransactionExecutedEvent: %w'' (TransactionExecutedEvent_UnmarshalWithDecoder lib) rest)
          else if discriminator = Event_ValidatorSetUpdatedEvent then
            map_sum id Any_ValidatorSetUpdatedEvent (run_decoder STR ''failed to unmarshal event as ValidatorSetUpdatedEvent: %w'' (ValidatorSetUpdatedEvent_UnmarshalWithDecoder lib) rest)
          else Inl (Errorf STR ''unknown discriminator: %s''))"

text \<open>What an event of the program holds: its type's discriminator, then its encoding.\<close>

fun event_Marshal :: "borsh_lib \<Rightarrow> any_event \<Rightarrow> go_error + bytes" where
  "event_Marshal lib (Any_BridgeRequestEvent x) = BridgeRequestEvent_Marshal lib x"
| "event_Marshal lib (Any_FeeConfigUpdatedEvent x) = FeeConfigUpdatedEvent_Marshal lib x"
| "event_Marshal lib (Any_HotWalletIncrementEvent x) = HotWalletIncrementEvent_Marshal lib x"
| "event_Marshal lib (Any_LockUnlockTokenRegisteredEvent x) = LockUnlockTokenRegisteredEvent_Marshal lib x"
| "event_Marshal lib (Any_MinBridgingAmountUpdatedEvent x) = MinBridgingAmountUpdatedEvent_Marshal lib x"
| "event_Marshal lib (Any_MintBurnTokenRegisteredEvent x) = MintBurnTokenRegisteredEvent_Marshal lib x"
| "event_Marshal lib (Any_ProgramVersionUpdatedEvent x) = ProgramVersionUpdatedEvent_Marshal lib x"
| "event_Marshal lib (Any_TransactionExecutedEvent x) = TransactionExecutedEvent_Marshal lib x"
| "event_Marshal lib (Any_ValidatorSetUpdatedEvent x) = ValidatorSetUpdatedEvent_Marshal lib x"

fun event_discriminator :: "any_event \<Rightarrow> bytes" where
  "event_discriminator (Any_BridgeRequestEvent x) = Event_BridgeRequestEvent"
| "event_discriminator (Any_FeeConfigUpdatedEvent x) = Event_FeeConfigUpdatedEvent"
| "event_discriminator (Any_HotWalletIncrementEvent x) = Event_HotWalletIncrementEvent"
| "event_discriminator (Any_LockUnlockTokenRegisteredEvent x) = Event_LockUnlockTokenRegisteredEvent"
| "event_discriminator (Any_MinBridgingAmountUpdatedEvent x) = Event_MinBridgingAmountUpdatedEvent"
| "event_discriminator (Any_MintBurnTokenRegisteredEvent x) = Event_MintBurnTokenRegisteredEvent"
| "event_discriminator (Any_ProgramVersionUpdatedEvent x) = Event_ProgramVersionUpdatedEvent"
| "event_discriminator (Any_TransactionExecutedEvent x) = Event_TransactionExecutedEvent"
| "event_discriminator (Any_ValidatorSetUpdatedEvent x) = Event_ValidatorSetUpdatedEvent"

fun event_fits :: "any_event \<Rightarrow> bool" where
  "event_fits (Any_BridgeRequestEvent x) \<longleftrightarrow> counted (bre_Receiver x) \<and> counted (bre_DestinationChain x)"
| "event_fits (Any_FeeConfigUpdatedEvent x) \<longleftrightarrow> True"
| "event_fits (Any_HotWalletIncrementEvent x) \<longleftrightarrow> True"
| "event_fits (Any_LockUnlockTokenRegisteredEvent x) \<longleftrightarrow> True"
| "event_fits (Any_MinBridgingAmountUpdatedEvent x) \<longleftrightarrow> True"
| "event_fits (Any_MintBurnTokenRegisteredEvent x) \<longleftrightarrow> counted (mbt_Name x) \<and> counted (mbt_Symbol x)"
| "event_fits (Any_ProgramVersionUpdatedEvent x) \<longleftrightarrow> counted (pvu_VersionString x)"
| "event_fits (Any_TransactionExecutedEvent x) \<longleftrightarrow> True"
| "event_fits (Any_ValidatorSetUpdatedEvent x) \<longleftrightarrow> counted (vsu_NewSigners x)"

lemmas any_event_defs =
  BridgeRequestEvent_Marshal_def FeeConfigUpdatedEvent_Marshal_def HotWalletIncrementEvent_Marshal_def LockUnlockTokenRegisteredEvent_Marshal_def MinBridgingAmountUpdatedEvent_Marshal_def MintBurnTokenRegisteredEvent_Marshal_def ProgramVersionUpdatedEvent_Marshal_def TransactionExecutedEvent_Marshal_def ValidatorSetUpdatedEvent_Marshal_def

lemmas any_event_codecs =
  codec_BridgeRequestEvent codec_FeeConfigUpdatedEvent codec_HotWalletIncrementEvent codec_LockUnlockTokenRegisteredEvent codec_MinBridgingAmountUpdatedEvent codec_MintBurnTokenRegisteredEvent codec_ProgramVersionUpdatedEvent codec_TransactionExecutedEvent codec_ValidatorSetUpdatedEvent

end

