(* ===== verification/Skyline_Instructions.thy ===== *)
theory Skyline_Instructions
  imports Skyline_Parsers Solana_Types
begin

text \<open>
  \<open>sendtx/skyline_program/instructions.go\<close> and \<open>program-id.go\<close>: the builders of the
  on-chain program's instructions. Each writes its discriminator and its parameters, and lists its
  accounts with their writable and signer flags in the order the program reads them.
\<close>

definition ProgramID :: PublicKey where
  "ProgramID = 0xae9259c9db1cce7cc1a666cdf749a70c0814c9cb914a2cad83f4010038960d5a"

definition build_instruction ::
  "borsh_lib \<Rightarrow> bytes \<Rightarrow> (bytes, unit) exec \<Rightarrow> AccountMeta list \<Rightarrow> go_error + Instruction" where
  "build_instruction lib discriminator params accounts =
     (case enc_WriteBytes lib discriminator [] of
        (Inl e, _) \<Rightarrow> Inl (wrapped STR ''failed to write instruction discriminator: %w'' e)
      | (Inr _, buf) \<Rightarrow>
          (case params buf of
             (Inl e, _) \<Rightarrow> Inl e
           | (Inr _, buf) \<Rightarrow> Inr (NewInstruction ProgramID accounts buf)))"

definition NewBridgeRequestInstruction ::
  "borsh_lib \<Rightarrow> u64 \<Rightarrow> string \<Rightarrow> string \<Rightarrow> u64 \<Rightarrow>
   PublicKey \<Rightarrow> PublicKey \<Rightarrow> PublicKey \<Rightarrow> PublicKey \<Rightarrow>
   PublicKey \<Rightarrow> PublicKey \<Rightarrow> PublicKey \<Rightarrow> PublicKey \<Rightarrow>
   PublicKey \<Rightarrow> PublicKey \<Rightarrow> PublicKey \<Rightarrow> PublicKey \<Rightarrow>
   PublicKey \<Rightarrow> PublicKey \<Rightarrow> go_error + Instruction" where
  "NewBridgeRequestInstruction
       lib amountParam receiverParam destinationChainParam feesParam signerAccount validatorSetAccount
       signersAtaAccount vaultAccount vaultAtaAccount mintAccount tokenRegistryAccount
       tokenProgramAccount systemProgramAccount associatedTokenProgramAccount feeConfigAccount
       treasuryAccount eventAuthorityAccount programAccount =
     build_instruction lib Instruction_BridgeRequest
       (bind (field lib STR ''amountParam'' (enc_u64 lib amountParam)) (\<lambda>_.
        bind (field lib STR ''receiverParam'' (enc_string lib receiverParam)) (\<lambda>_.
        bind (field lib STR ''destinationChainParam'' (enc_string lib destinationChainParam)) (\<lambda>_.
        bind (field lib STR ''feesParam'' (enc_u64 lib feesParam)) (\<lambda>_.
        ret ())))))
       [NewAccountMeta signerAccount True True,
        NewAccountMeta validatorSetAccount True False,
        NewAccountMeta signersAtaAccount True False,
        NewAccountMeta vaultAccount True False,
        NewAccountMeta vaultAtaAccount True False,
        NewAccountMeta mintAccount True False,
        NewAccountMeta tokenRegistryAccount False False,
        NewAccountMeta tokenProgramAccount False False,
        NewAccountMeta systemProgramAccount False False,
        NewAccountMeta associatedTokenProgramAccount False False,
        NewAccountMeta feeConfigAccount False False,
        NewAccountMeta treasuryAccount True False,
        NewAccountMeta eventAuthorityAccount False False,
        NewAccountMeta programAccount False False]"

definition NewBridgeTransactionInstruction ::
  "borsh_lib \<Rightarrow> PublicKey \<Rightarrow> PublicKey \<Rightarrow> PublicKey \<Rightarrow>
   PublicKey \<Rightarrow> PublicKey \<Rightarrow> PublicKey \<Rightarrow> PublicKey \<Rightarrow>
   PublicKey \<Rightarrow> PublicKey \<Rightarrow> go_error + Instruction" where
  "NewBridgeTransactionInstruction
       lib payerAccount validatorSetAccount vaultAccount tokenProgramAccount systemProgramAccount
       associatedTokenProgramAccount instructionsAccount eventAuthorityAccount programAccount =
     build_instruction lib Instruction_BridgeTransaction
       (ret ())
       [NewAccountMeta payerAccount True True,
        NewAccountMeta validatorSetAccount True False,
        NewAccountMeta vaultAccount True False,
        NewAccountMeta tokenProgramAccount False False,
        NewAccountMeta systemProgramAccount False False,
        NewAccountMeta associatedTokenProgramAccount False False,
        NewAccountMeta instructionsAccount False False,
        NewAccountMeta eventAuthorityAccount False False,
        NewAccountMeta programAccount False False]"

definition NewBridgeVsuInstruction ::
  "borsh_lib \<Rightarrow> PublicKey list \<Rightarrow> PublicKey list \<Rightarrow> u64 \<Rightarrow>
   PublicKey \<Rightarrow> PublicKey \<Rightarrow> PublicKey \<Rightarrow> go_error + Instruction" where
  "NewBridgeVsuInstruction
       lib addedParam removedParam batchIdParam payerAccount validatorSetAccount systemProgramAccount =
     build_instruction lib Instruction_BridgeVsu
       (bind (field lib STR ''addedParam'' (enc_PublicKeys lib addedParam)) (\<lambda>_.
        bind (field lib STR ''removedParam'' (enc_PublicKeys lib removedParam)) (\<lambda>_.
        bind (field lib STR ''batchIdParam'' (enc_u64 lib batchIdParam)) (\<lambda>_.
        ret ()))))
       [NewAccountMeta payerAccount True True,
        NewAccountMeta validatorSetAccount True False,
        NewAccountMeta systemProgramAccount False False]"

definition NewHotWalletIncrementInstruction ::
  "borsh_lib \<Rightarrow> u64 \<Rightarrow> PublicKey \<Rightarrow> PublicKey \<Rightarrow>
   PublicKey \<Rightarrow> PublicKey \<Rightarrow> PublicKey \<Rightarrow> PublicKey \<Rightarrow>
   PublicKey \<Rightarrow> PublicKey \<Rightarrow> PublicKey \<Rightarrow> PublicKey \<Rightarrow>
   go_error + Instruction" where
  "NewHotWalletIncrementInstruction
       lib amountParam signerAccount signersAtaAccount vaultAccount vaultAtaAccount mintAccount
       tokenProgramAccount systemProgramAccount associatedTokenProgramAccount eventAuthorityAccount
       programAccount =
     build_instruction lib Instruction_HotWalletIncrement
       (bind (field lib STR ''amountParam'' (enc_u64 lib amountParam)) (\<lambda>_.
        ret ()))
       [NewAccountMeta signerAccount True True,
        NewAccountMeta signersAtaAccount True False,
        NewAccountMeta vaultAccount True False,
        NewAccountMeta vaultAtaAccount True False,
        NewAccountMeta mintAccount False False,
        NewAccountMeta tokenProgramAccount False False,
        NewAccountMeta systemProgramAccount False False,
        NewAccountMeta associatedTokenProgramAccount False False,
        NewAccountMeta eventAuthorityAccount False False,
        NewAccountMeta programAccount False False]"

definition NewInitializeInstruction ::
  "borsh_lib \<Rightarrow> PublicKey list \<Rightarrow> u64 option \<Rightarrow> u64 \<Rightarrow>
   u64 \<Rightarrow> PublicKey \<Rightarrow> PublicKey \<Rightarrow> PublicKey \<Rightarrow>
   PublicKey \<Rightarrow> PublicKey \<Rightarrow> PublicKey \<Rightarrow> PublicKey \<Rightarrow>
   PublicKey \<Rightarrow> PublicKey \<Rightarrow> go_error + Instruction" where
  "NewInitializeInstruction
       lib validatorsParam lastIdParam minOperationalFeeParam bridgeFeeParam signerAccount
       validatorSetAccount vaultAccount feeConfigAccount programConfigAccount treasuryAccount
       programAccount programDataAccount systemProgramAccount =
     build_instruction lib Instruction_Initialize
       (bind (field lib STR ''validatorsParam'' (enc_PublicKeys lib validatorsParam)) (\<lambda>_.
        bind (enc_option lib STR ''lastIdParam'' (enc_u64 lib) lastIdParam) (\<lambda>_.
        bind (field lib STR ''minOperationalFeeParam'' (enc_u64 lib minOperationalFeeParam)) (\<lambda>_.
        bind (field lib STR ''bridgeFeeParam'' (enc_u64 lib bridgeFeeParam)) (\<lambda>_.
        ret ())))))
       [NewAccountMeta signerAccount True True,
        NewAccountMeta validatorSetAccount True False,
        NewAccountMeta vaultAccount True False,
        NewAccountMeta feeConfigAccount True False,
        NewAccountMeta programConfigAccount True False,
        NewAccountMeta treasuryAccount False False,
        NewAccountMeta programAccount False False,
        NewAccountMeta programDataAccount False False,
        NewAccountMeta systemProgramAccount False False]"

definition NewRegisterLockUnlockTokenInstruction ::
  "borsh_lib \<Rightarrow> u16 \<Rightarrow> u64 \<Rightarrow> PublicKey \<Rightarrow>
   PublicKey \<Rightarrow> PublicKey \<Rightarrow> PublicKey \<Rightarrow> PublicKey \<Rightarrow>
   PublicKey \<Rightarrow> go_error + Instruction" where
  "NewRegisterLockUnlockTokenInstruction
       lib tokenIdParam minBridgingAmountParam authorityAccount feeConfigAccount mintAccount
       tokenRegistryAccount tokenIdGuardAccount systemProgramAccount =
     build_instruction lib Instruction_RegisterLockUnlockToken
       (bind (field lib STR ''tokenIdParam'' (enc_u16 lib tokenIdParam)) (\<lambda>_.
        bind (field lib STR ''minBridgingAmountParam'' (enc_u64 lib minBridgingAmountParam)) (\<lambda>_.
        ret ())))
       [NewAccountMeta authorityAccount True True,
        NewAccountMeta feeConfigAccount False False,
        NewAccountMeta mintAccount False False,
        NewAccountMeta tokenRegistryAccount True False,
        NewAccountMeta tokenIdGuardAccount True False,
        NewAccountMeta systemProgramAccount False False]"

definition NewRegisterMintBurnTokenInstruction ::
  "borsh_lib \<Rightarrow> u16 \<Rightarrow> byte \<Rightarrow> u64 \<Rightarrow> string \<Rightarrow>
   string \<Rightarrow> string \<Rightarrow> PublicKey \<Rightarrow> PublicKey \<Rightarrow>
   PublicKey \<Rightarrow> PublicKey \<Rightarrow> PublicKey \<Rightarrow> PublicKey \<Rightarrow>
   PublicKey \<Rightarrow> PublicKey \<Rightarrow> PublicKey \<Rightarrow> PublicKey \<Rightarrow>
   PublicKey \<Rightarrow> go_error + Instruction" where
  "NewRegisterMintBurnTokenInstruction
       lib tokenIdParam decimalsParam minBridgingAmountParam nameParam symbolParam uriParam
       authorityAccount feeConfigAccount vaultAccount mintAccount metadataAccount tokenRegistryAccount
       tokenIdGuardAccount tokenProgramAccount metadataProgramAccount systemProgramAccount rentAccount =
     build_instruction lib Instruction_RegisterMintBurnToken
       (bind (field lib STR ''tokenIdParam'' (enc_u16 lib tokenIdParam)) (\<lambda>_.
        bind (field lib STR ''decimalsParam'' (enc_u8 lib decimalsParam)) (\<lambda>_.
        bind (field lib STR ''minBridgingAmountParam'' (enc_u64 lib minBridgingAmountParam)) (\<lambda>_.
        bind (field lib STR ''nameParam'' (enc_string lib nameParam)) (\<lambda>_.
        bind (field lib STR ''symbolParam'' (enc_string lib symbolParam)) (\<lambda>_.
        bind (field lib STR ''uriParam'' (enc_string lib uriParam)) (\<lambda>_.
        ret ())))))))
       [NewAccountMeta authorityAccount True True,
        NewAccountMeta feeConfigAccount False False,
        NewAccountMeta vaultAccount False False,
        NewAccountMeta mintAccount True True,
        NewAccountMeta metadataAccount True False,
        NewAccountMeta tokenRegistryAccount True False,
        NewAccountMeta tokenIdGuardAccount True False,
        NewAccountMeta tokenProgramAccount False False,
        NewAccountMeta metadataProgramAccount False False,
        NewAccountMeta systemProgramAccount False False,
        NewAccountMeta rentAccount False False]"

definition NewUpdateFeeConfigInstruction ::
  "borsh_lib \<Rightarrow> u64 option \<Rightarrow> u64 option \<Rightarrow> bool option \<Rightarrow>
   PublicKey \<Rightarrow> PublicKey \<Rightarrow> PublicKey \<Rightarrow> go_error + Instruction" where
  "NewUpdateFeeConfigInstruction
       lib minOperationalFeeParam bridgeFeeParam updateTreasuryParam authorityAccount feeConfigAccount
       newTreasuryAccount =
     build_instruction lib Instruction_UpdateFeeConfig
       (bind (enc_option lib STR ''minOperationalFeeParam'' (enc_u64 lib) minOperationalFeeParam) (\<lambda>_.
        bind (enc_option lib STR ''bridgeFeeParam'' (enc_u64 lib) bridgeFeeParam) (\<lambda>_.
        bind (enc_option lib STR ''updateTreasuryParam'' (enc_bool lib) updateTreasuryParam) (\<lambda>_.
        ret ()))))
       [NewAccountMeta authorityAccount False True,
        NewAccountMeta feeConfigAccount True False,
        NewAccountMeta newTreasuryAccount False False]"

definition NewUpdateMinBridgingAmountInstruction ::
  "borsh_lib \<Rightarrow> u16 \<Rightarrow> u64 \<Rightarrow> PublicKey \<Rightarrow>
   PublicKey \<Rightarrow> PublicKey \<Rightarrow> go_error + Instruction" where
  "NewUpdateMinBridgingAmountInstruction
       lib tokenIdParam minBridgingAmountParam authorityAccount feeConfigAccount tokenRegistryAccount =
     build_instruction lib Instruction_UpdateMinBridgingAmount
       (bind (field lib STR ''tokenIdParam'' (enc_u16 lib tokenIdParam)) (\<lambda>_.
        bind (field lib STR ''minBridgingAmountParam'' (enc_u64 lib minBridgingAmountParam)) (\<lambda>_.
        ret ())))
       [NewAccountMeta authorityAccount False True,
        NewAccountMeta feeConfigAccount False False,
        NewAccountMeta tokenRegistryAccount True False]"

definition NewUpdateProgramVersionInstruction ::
  "borsh_lib \<Rightarrow> string \<Rightarrow> PublicKey \<Rightarrow> PublicKey \<Rightarrow>
   go_error + Instruction" where
  "NewUpdateProgramVersionInstruction
       lib versionStringParam authorityAccount programConfigAccount =
     build_instruction lib Instruction_UpdateProgramVersion
       (bind (field lib STR ''versionStringParam'' (enc_string lib versionStringParam)) (\<lambda>_.
        ret ()))
       [NewAccountMeta authorityAccount False True,
        NewAccountMeta programConfigAccount True False]"

section \<open>What a built instruction is\<close>

text \<open>The accounts that must sign it.\<close>

definition required_signers :: "Instruction \<Rightarrow> PublicKey list" where
  "required_signers ix = map am_PublicKey (filter am_IsSigner (ix_Accounts ix))"

lemma build_instruction_Inr:
  "build_instruction lib d params accounts = Inr ix \<Longrightarrow> \<exists>data. ix = NewInstruction ProgramID accounts data"
  by (auto simp: build_instruction_def split: prod.splits sum.splits)

lemma build_instruction_writes:
  assumes "borsh_ok lib" "writes params bs"
  shows "build_instruction lib d params accounts = Inr (NewInstruction ProgramID accounts (d @ bs))"
  using borsh_writes(9) [OF assms(1), of d] assms(2) by (simp add: build_instruction_def writes_def)

lemmas instruction_builder_defs =
  NewBridgeRequestInstruction_def NewBridgeTransactionInstruction_def NewBridgeVsuInstruction_def NewHotWalletIncrementInstruction_def NewInitializeInstruction_def NewRegisterLockUnlockTokenInstruction_def NewRegisterMintBurnTokenInstruction_def NewUpdateFeeConfigInstruction_def NewUpdateMinBridgingAmountInstruction_def NewUpdateProgramVersionInstruction_def

end
