(* ===== verification/Skyline_Properties.thy ===== *)
theory Skyline_Properties
  imports Skyline_Instructions
begin

text \<open>
  What the generated code of \<open>sendtx/skyline_program\<close> promises to its callers: every account
  and event that is marshalled behind its discriminator is parsed back, by the parser of its type
  and by the dispatching one; no other type's parser accepts it; and the instructions carry their
  parameters.
\<close>

section \<open>Parsers\<close>

lemma parse_discriminated_reads:
  assumes "borsh_ok lib" "length d = 8" "reads dec bs x"
  shows "parse_discriminated lib d msg dec (d @ bs @ rest) = Inr x"
    and "d' \<noteq> d \<Longrightarrow> parse_discriminated lib d' msg dec' (d @ bs @ rest) =
      Inl (Errorf STR ''expected discriminator %v, got %s'')"
  using borsh_reads(9) [OF assms(1,2)] run_decoder_reads [OF assms(3), of msg rest]
  by (simp_all add: parse_discriminated_def reads_def)

lemma length_Event [simp]:
  "length Event_BridgeRequestEvent = 8"
  "length Event_FeeConfigUpdatedEvent = 8"
  "length Event_HotWalletIncrementEvent = 8"
  "length Event_LockUnlockTokenRegisteredEvent = 8"
  "length Event_MinBridgingAmountUpdatedEvent = 8"
  "length Event_MintBurnTokenRegisteredEvent = 8"
  "length Event_ProgramVersionUpdatedEvent = 8"
  "length Event_TransactionExecutedEvent = 8"
  "length Event_ValidatorSetUpdatedEvent = 8"
  by (simp_all add: event_discriminators)

lemma length_Account [simp]:
  "length Account_FeeConfig = 8"
  "length Account_ProgramConfig = 8"
  "length Account_TokenIdGuard = 8"
  "length Account_TokenRegistry = 8"
  "length Account_ValidatorSet = 8"
  "length Account_Vault = 8"
  by (simp_all add: account_discriminators)

lemma length_event_discriminator: "length (event_discriminator e) = 8"
  by (cases e) simp_all

lemma length_account_discriminator: "length (account_discriminator a) = 8"
  by (cases a) simp_all

text \<open>The encoding of an event or account as a codec: its encoder and its type's decoder.\<close>

lemma marshal_codec:
  assumes "codec fits enc dec" "fits x"
  shows "\<exists>bs. run_encoder msg (enc x) = Inr bs \<and> reads dec bs x"
  using codec_writes [OF assms] codec_reads [OF assms] by (auto simp: run_encoder_writes)

lemma ParseAny_step:
  assumes "borsh_ok lib" "length d = 8"
  shows "dec_ReadDiscriminator lib (d @ bs) = (Inr d, bs)"
  using borsh_reads(9) [OF assms] by (simp add: reads_def)

lemma marshal_parse:
  assumes "codec fits enc dec" "fits x" "\<And>buf. parse (d @ buf) = map_sum id C (run_decoder m dec buf)"
  shows "\<exists>bs. run_encoder msg (enc x) = Inr bs \<and> (\<forall>rest. parse (d @ bs @ rest) = Inr (C x))"
  using marshal_codec [OF assms(1,2), of msg] assms(3) by (auto simp: run_decoder_reads)

text \<open>
  C30. Every event of the program that borsh can hold is marshalled, and the dispatching parser
  reads it back from behind its discriminator, whatever bytes follow.
\<close>

theorem ParseAnyEvent_round_trip:
  assumes "borsh_ok lib" "event_fits e"
  shows "\<exists>bs. event_Marshal lib e = Inr bs \<and> (\<forall>rest. ParseAnyEvent lib (event_discriminator e @ bs @ rest) = Inr e)"
  using assms(2)
  by (cases e; simp add: any_event_defs)
     (rule marshal_parse, rule any_event_codecs [OF assms(1)], simp,
      (simp add: ParseAnyEvent_def ParseAny_step [OF assms(1)]; simp add: event_discriminators))+

theorem ParseAnyEvent_round_trip_witness:
  "ParseAnyEvent plain_borsh (Event_ProgramVersionUpdatedEvent @ [2, 0, 0, 0, 118, 49, 7]) =
     Inr (Any_ProgramVersionUpdatedEvent \<lparr>pvu_VersionString = ''v1''\<rparr>)"
proof -
  let ?e = "Any_ProgramVersionUpdatedEvent \<lparr>pvu_VersionString = ''v1''\<rparr>"
  have "event_Marshal plain_borsh ?e = Inr [2, 0, 0, 0, 118, 49]" by code_simp
  moreover have "event_fits ?e" by (simp add: counted_def)
  ultimately show ?thesis
    using ParseAnyEvent_round_trip [OF plain_borsh_ok, of ?e] by (auto dest!: spec [where x = "[7]"])
qed

lemma ParseAnyAccount_reads:
  assumes "borsh_ok lib" "account_fits a"
  shows "\<exists>bs. account_Marshal lib a = Inr bs \<and> (\<forall>rest. ParseAnyAccount lib (account_discriminator a @ bs @ rest) = Inr a)"
  using assms(2)
  by (cases a; simp add: any_account_defs)
     (rule marshal_parse, rule any_account_codecs [OF assms(1)], simp,
      (simp add: ParseAnyAccount_def ParseAny_step [OF assms(1)]; simp add: account_discriminators))+

lemma ParseAccount_TokenRegistry_other:
  assumes "borsh_ok lib" "\<And>x. a \<noteq> Any_TokenRegistry x"
  shows "ParseAccount_TokenRegistry lib (account_discriminator a @ bs) = Inl (Errorf STR ''expected discriminator %v, got %s'')"
  using assms(2)
  by (cases a; simp add: ParseAccount_TokenRegistry_def parse_discriminated_def ParseAny_step [OF assms(1)];
      simp add: account_discriminators)

lemma ParseAccount_TokenRegistry_own:
  assumes "borsh_ok lib"
  shows "\<exists>bs. account_Marshal lib (Any_TokenRegistry x) = Inr bs \<and>
    (\<forall>rest. ParseAccount_TokenRegistry lib (Account_TokenRegistry @ bs @ rest) = Inr x)"
  using marshal_parse [of _ _ _ x "ParseAccount_TokenRegistry lib" Account_TokenRegistry id, OF codec_TokenRegistry [OF assms]]
  by (auto simp: TokenRegistry_Marshal_def ParseAccount_TokenRegistry_def parse_discriminated_def ParseAny_step [OF assms]
      sum.map_id0)

text \<open>
  C29. Likewise the accounts. And the parser that reads the token registry accepts the accounts of
  its own type alone: an account of any other type of the program put in its place is refused,
  whatever its contents.
\<close>

theorem ParseAnyAccount_round_trip:
  assumes "borsh_ok lib" "account_fits a"
  shows "\<exists>bs. account_Marshal lib a = Inr bs \<and> (\<forall>rest.
    ParseAnyAccount lib (account_discriminator a @ bs @ rest) = Inr a \<and>
    ParseAccount_TokenRegistry lib (account_discriminator a @ bs @ rest) =
      (case a of Any_TokenRegistry x \<Rightarrow> Inr x | _ \<Rightarrow> Inl (Errorf STR ''expected discriminator %v, got %s'')))"
proof -
  obtain bs where bs: "account_Marshal lib a = Inr bs"
    "\<And>rest. ParseAnyAccount lib (account_discriminator a @ bs @ rest) = Inr a"
    using ParseAnyAccount_reads [OF assms] by blast
  have "ParseAccount_TokenRegistry lib (account_discriminator a @ bs @ rest) =
      (case a of Any_TokenRegistry x \<Rightarrow> Inr x | _ \<Rightarrow> Inl (Errorf STR ''expected discriminator %v, got %s''))" for rest
  proof (cases "\<exists>x. a = Any_TokenRegistry x")
    case True
    then obtain x where "a = Any_TokenRegistry x" by blast
    with bs(1) show ?thesis using ParseAccount_TokenRegistry_own [OF assms(1), of x] by auto
  next
    case False
    then show ?thesis using ParseAccount_TokenRegistry_other [OF assms(1), of a] by (cases a) auto
  qed
  with bs show ?thesis by blast
qed

theorem ParseAnyAccount_round_trip_witness:
  "ParseAccount_TokenRegistry plain_borsh (Account_Vault @ [7]) = Inl (Errorf STR ''expected discriminator %v, got %s'')"
proof -
  let ?a = "Any_Vault \<lparr>vlt_Bump = 7\<rparr>"
  have "account_Marshal plain_borsh ?a = Inr [7]" by code_simp
  then show ?thesis
    using ParseAnyAccount_round_trip [OF plain_borsh_ok, of ?a] by (auto dest!: spec [where x = "[]"])
qed

end
