(* ===== verification/Instruction_Config.thy ===== *)
theory Instruction_Config
  imports Wallet_Address Skyline_Parsers Cpi_Events
begin

text \<open>
  \<open>sendtx/instruction.go\<close>: the addresses an instruction needs, set one after the other by
  options on a configuration that the sender keeps and reuses. An option changes the
  configuration, or returns an error and leaves it.
\<close>

section \<open>Instruction types\<close>

type_synonym InstructionType = string

definition InstructionCreateInstruction :: InstructionType where
  "InstructionCreateInstruction = ''create_instruction''"
definition InstructionTypeSOLTransfer :: InstructionType where
  "InstructionTypeSOLTransfer = ''transfer''"
definition InstructionTypeSPLTransfer :: InstructionType where
  "InstructionTypeSPLTransfer = ''spl_transfer''"
definition InstructionTypeBridgingRequest :: InstructionType where
  "InstructionTypeBridgingRequest = ''bridge_request''"
definition InstructionTypeBridgeTransaction :: InstructionType where
  "InstructionTypeBridgeTransaction = ''bridge_transaction''"
definition InstructionTypeBridgeVsu :: InstructionType where
  "InstructionTypeBridgeVsu = ''bridge_vsu''"
definition InstructionTypeHotWalletIncrement :: InstructionType where
  "InstructionTypeHotWalletIncrement = ''hot_wallet_increment''"
definition InstructionTypeInitialize :: InstructionType where
  "InstructionTypeInitialize = ''bridge_initialize''"
definition InstructionTypeRegisterTokensLockUnlock :: InstructionType where
  "InstructionTypeRegisterTokensLockUnlock = ''register_tokens_lock_unlock''"
definition InstructionTypeRegisterTokensMintBurn :: InstructionType where
  "InstructionTypeRegisterTokensMintBurn = ''register_tokens_mint_burn''"
definition InstructionTypeUpdateFeeConfig :: InstructionType where
  "InstructionTypeUpdateFeeConfig = ''update_fee_config''"
definition InstructionTypeUpdateProgramVersion :: InstructionType where
  "InstructionTypeUpdateProgramVersion = ''update_program_version''"
definition InstructionTypeUpdateMinBridgingAmount :: InstructionType where
  "InstructionTypeUpdateMinBridgingAmount = ''update_min_bridging_amount''"

lemmas instruction_type_defs =
  InstructionCreateInstruction_def InstructionTypeSOLTransfer_def InstructionTypeSPLTransfer_def
  InstructionTypeBridgingRequest_def InstructionTypeBridgeTransaction_def InstructionTypeBridgeVsu_def
  InstructionTypeHotWalletIncrement_def InstructionTypeInitialize_def InstructionTypeRegisterTokensLockUnlock_def
  InstructionTypeRegisterTokensMintBurn_def InstructionTypeUpdateFeeConfig_def
  InstructionTypeUpdateProgramVersion_def InstructionTypeUpdateMinBridgingAmount_def

section \<open>The configuration\<close>

record InstructionConfig =
  programKey :: PublicKey
  programDataKey :: PublicKey
  validatorSetPDA :: PublicKey
  vaultPDA :: PublicKey
  feeConfigPDA :: PublicKey
  programConfigPDA :: PublicKey
  tokenRegistryPDA :: PublicKey
  tokenIDGuardPDA :: PublicKey
  metadataPDA :: PublicKey
  eventAuthorityPDA :: PublicKey
  tokenProgramID :: PublicKey
  tokenMetadataProgramID :: PublicKey
  systemProgramID :: PublicKey
  splAssociatedTokenAccountProgramID :: PublicKey
  rentPubkey :: PublicKey

type_synonym InstructionConfigOption = "(InstructionConfig, unit) exec"

fun ApplyOptions :: "InstructionConfigOption list \<Rightarrow> (InstructionConfig, unit) exec" where
  "ApplyOptions [] = ret ()"
| "ApplyOptions (opt # options) = bind opt (\<lambda>_. ApplyOptions options)"

definition NewInstructionConfig :: "solana_lib \<Rightarrow> InstructionConfigOption list \<Rightarrow> go_error + InstructionConfig" where
  "NewInstructionConfig sol options =
     (let cfg = \<lparr>programKey = 0, programDataKey = 0, validatorSetPDA = 0, vaultPDA = 0, feeConfigPDA = 0,
                 programConfigPDA = 0, tokenRegistryPDA = 0, tokenIDGuardPDA = 0, metadataPDA = 0,
                 eventAuthorityPDA = 0,
                 tokenProgramID = sol_TokenProgramID sol, tokenMetadataProgramID = sol_TokenMetadataProgramID sol,
                 systemProgramID = sol_SystemProgramID sol,
                 splAssociatedTokenAccountProgramID = sol_SPLAssociatedTokenAccountProgramID sol,
                 rentPubkey = sol_SysVarRentPubkey sol\<rparr>
      in case ApplyOptions options cfg of (Inl err, _) \<Rightarrow> Inl err | (Inr _, cfg) \<Rightarrow> Inr cfg)"

text \<open>A check that returns only an error, as a step.\<close>

definition check :: "go_error option \<Rightarrow> ('s, unit) exec" where
  "check r = (case r of None \<Rightarrow> ret () | Some err \<Rightarrow> fail err)"

section \<open>The options\<close>

definition derivePDA :: "solana_lib \<Rightarrow> bytes list \<Rightarrow> (InstructionConfig, PublicKey) exec" where
  "derivePDA sol seeds =
     bind (gets programKey) (\<lambda>key.
     bind (wrapE STR ''failed to derive token regirstry PDA: %w'' (liftR (sol_FindProgramAddress sol seeds key))) (\<lambda>(pda, _).
     bind (wrapE STR ''tokenRegistryPDA is invalid: %w'' (check (ValidatePublicKey sol pda True))) (\<lambda>_.
     ret pda)))"

definition WithProgramID :: "solana_lib \<Rightarrow> PublicKey \<Rightarrow> InstructionConfigOption" where
  "WithProgramID sol programID =
     bind (wrapE STR ''invalid program ID: %w'' (check (ValidatePublicKey sol programID True))) (\<lambda>_.
     modify (\<lambda>c. c\<lparr>programKey := programID\<rparr>))"

definition WithProgramDataAccount :: "solana_lib \<Rightarrow> InstructionConfigOption" where
  "WithProgramDataAccount sol =
     bind (gets programKey) (\<lambda>key.
     bind (wrapE STR ''program ID is not set or invalid: %w'' (check (ValidatePublicKey sol key True))) (\<lambda>_.
     bind (wrapE STR ''failed to derive program data PDA: %w''
             (liftR (sol_FindProgramAddress sol [key_bytes key] (sol_BPFLoaderUpgradeableProgramID sol)))) (\<lambda>(programDataPDA, _).
     bind (wrapE STR ''program data PDA is invalid: %w'' (check (ValidatePublicKey sol programDataPDA True))) (\<lambda>_.
     modify (\<lambda>c. c\<lparr>programDataKey := programDataPDA\<rparr>)))))"

definition WithValidatorSetPDA :: "solana_lib \<Rightarrow> InstructionConfigOption" where
  "WithValidatorSetPDA sol =
     bind (wrapE STR ''failed to derive validator set PDA: %w'' (derivePDA sol [VALIDATOR_SET_SEED])) (\<lambda>pda.
     modify (\<lambda>c. c\<lparr>validatorSetPDA := pda\<rparr>))"

definition WithVaultPDA :: "solana_lib \<Rightarrow> InstructionConfigOption" where
  "WithVaultPDA sol =
     bind (wrapE STR ''failed to derive vault PDA: %w'' (derivePDA sol [VAULT_SEED])) (\<lambda>pda.
     modify (\<lambda>c. c\<lparr>vaultPDA := pda\<rparr>))"

definition WithProgramConfigPDA :: "solana_lib \<Rightarrow> InstructionConfigOption" where
  "WithProgramConfigPDA sol =
     bind (wrapE STR ''failed to derive program config PDA: %w'' (derivePDA sol [PROGRAM_CONFIG_SEED])) (\<lambda>pda.
     modify (\<lambda>c. c\<lparr>programConfigPDA := pda\<rparr>))"

definition WithFeeConfigPDA :: "solana_lib \<Rightarrow> InstructionConfigOption" where
  "WithFeeConfigPDA sol =
     bind (wrapE STR ''failed to derive fee config PDA: %w'' (derivePDA sol [FEE_CONFIG_SEED])) (\<lambda>pda.
     modify (\<lambda>c. c\<lparr>feeConfigPDA := pda\<rparr>))"

definition WithTokenRegistryPDA :: "solana_lib \<Rightarrow> u16 \<Rightarrow> InstructionConfigOption" where
  "WithTokenRegistryPDA sol tokenID =
     bind (wrapE STR ''failed to derive token regirstry PDA: %w'' (derivePDA sol [TOKEN_REGISTRY_SEED, le_bytes 2 tokenID])) (\<lambda>pda.
     modify (\<lambda>c. c\<lparr>tokenRegistryPDA := pda\<rparr>))"

definition WithMetadataPDA :: "solana_lib \<Rightarrow> PublicKey \<Rightarrow> InstructionConfigOption" where
  "WithMetadataPDA sol mintAccount =
     bind (gets tokenMetadataProgramID) (\<lambda>programID.
     bind (wrapE STR ''failed to derive metadata PDA: %w''
             (liftR (sol_FindProgramAddress sol [str_bytes ''metadata'', key_bytes programID, key_bytes mintAccount] programID)))
       (\<lambda>(pda, _).
     bind (wrapE STR ''metadata PDA is invalid: %w'' (check (ValidatePublicKey sol pda True))) (\<lambda>_.
     modify (\<lambda>c. c\<lparr>metadataPDA := pda\<rparr>))))"

definition WithEventAuthorityPDA :: "solana_lib \<Rightarrow> InstructionConfigOption" where
  "WithEventAuthorityPDA sol =
     bind (wrapE STR ''failed to derive event authority PDA: %w'' (derivePDA sol [eventAuthoritySeed])) (\<lambda>pda.
     modify (\<lambda>c. c\<lparr>eventAuthorityPDA := pda\<rparr>))"

definition WithTokenIDGuardPDA :: "solana_lib \<Rightarrow> u16 \<Rightarrow> InstructionConfigOption" where
  "WithTokenIDGuardPDA sol tokenID =
     bind (wrapE STR ''failed to derive token ID guard PDA: %w'' (derivePDA sol [TOKEN_ID_GUARD_SEED, le_bytes 2 tokenID])) (\<lambda>pda.
     modify (\<lambda>c. c\<lparr>tokenIDGuardPDA := pda\<rparr>))"

section \<open>What the options set\<close>

text \<open>The address that a program derives from seeds, accepted only when it is not zero.\<close>

definition pda_of :: "solana_lib \<Rightarrow> PublicKey \<Rightarrow> bytes list \<Rightarrow> PublicKey \<Rightarrow> bool" where
  "pda_of sol programID seeds pda \<longleftrightarrow> pda \<noteq> 0 \<and> (\<exists>bump. sol_FindProgramAddress sol seeds programID = Inr (pda, bump))"

lemma check_Inr [simp]: "check r s = (Inr x, t) \<longleftrightarrow> r = None \<and> t = s"
  by (auto simp: check_def ret_def fail_def split: option.splits)

lemma modify_Inr [simp]: "modify g s = (Inr x, t) \<longleftrightarrow> t = g s"
  by (auto simp: modify_def)

lemma gets_Inr [simp]: "gets g s = (Inr x, t) \<longleftrightarrow> x = g s \<and> t = s"
  by (auto simp: gets_def)

lemma liftR_Inr [simp]: "liftR r s = (Inr x, t) \<longleftrightarrow> r = Inr x \<and> t = s"
  by (auto simp: liftR_def)

lemma ret_Inr [simp]: "ret a s = (Inr x, t) \<longleftrightarrow> x = a \<and> t = s"
  by (auto simp: ret_def)

lemma fail_Inr [simp]: "fail e s \<noteq> (Inr x, t)"
  by (simp add: fail_def)

lemmas exec_Inr = bind_Inr_iff wrapE_Inr_iff

lemma derivePDA_Inr:
  "derivePDA sol seeds c = (Inr pda, c') \<Longrightarrow> c' = c \<and> pda_of sol (programKey c) seeds pda"
  by (auto simp: derivePDA_def exec_Inr pda_of_def dest: ValidatePublicKey_None split: prod.splits)

lemma options_Inr:
  "WithProgramID sol p c = (Inr x, c') \<Longrightarrow> p \<noteq> 0 \<and> c' = c\<lparr>programKey := p\<rparr>"
  "WithValidatorSetPDA sol c = (Inr x, c') \<Longrightarrow> \<exists>k. pda_of sol (programKey c) [VALIDATOR_SET_SEED] k \<and> c' = c\<lparr>validatorSetPDA := k\<rparr>"
  "WithVaultPDA sol c = (Inr x, c') \<Longrightarrow> \<exists>k. pda_of sol (programKey c) [VAULT_SEED] k \<and> c' = c\<lparr>vaultPDA := k\<rparr>"
  "WithProgramConfigPDA sol c = (Inr x, c') \<Longrightarrow> \<exists>k. pda_of sol (programKey c) [PROGRAM_CONFIG_SEED] k \<and> c' = c\<lparr>programConfigPDA := k\<rparr>"
  "WithFeeConfigPDA sol c = (Inr x, c') \<Longrightarrow> \<exists>k. pda_of sol (programKey c) [FEE_CONFIG_SEED] k \<and> c' = c\<lparr>feeConfigPDA := k\<rparr>"
  "WithTokenRegistryPDA sol i c = (Inr x, c') \<Longrightarrow>
     \<exists>k. pda_of sol (programKey c) [TOKEN_REGISTRY_SEED, le_bytes 2 i] k \<and> c' = c\<lparr>tokenRegistryPDA := k\<rparr>"
  "WithEventAuthorityPDA sol c = (Inr x, c') \<Longrightarrow> \<exists>k. pda_of sol (programKey c) [eventAuthoritySeed] k \<and> c' = c\<lparr>eventAuthorityPDA := k\<rparr>"
  "WithTokenIDGuardPDA sol i c = (Inr x, c') \<Longrightarrow>
     \<exists>k. pda_of sol (programKey c) [TOKEN_ID_GUARD_SEED, le_bytes 2 i] k \<and> c' = c\<lparr>tokenIDGuardPDA := k\<rparr>"
  by (auto simp: WithProgramID_def WithValidatorSetPDA_def WithVaultPDA_def WithProgramConfigPDA_def
      WithFeeConfigPDA_def WithTokenRegistryPDA_def WithEventAuthorityPDA_def WithTokenIDGuardPDA_def exec_Inr
      dest!: derivePDA_Inr ValidatePublicKey_None)

end
