(* ===== verification/Sendtx.thy ===== *)
theory Sendtx
  imports Instruction_Config Skyline_Instructions Ed25519_Batch
begin

text \<open>
  \<open>sendtx/data.go\<close> and \<open>sendtx/tx_sender.go\<close>: the requests a caller makes and the instructions
  built for them. The sender keeps one \<open>InstructionConfig\<close>, which every build changes; the
  transaction provider is the outside world \<open>'w\<close>. The builders of the system, token, associated
  token and compute budget programs are solana-go's: fields of \<open>sendtx_lib\<close>.
\<close>

section \<open>Data\<close>

definition MaxBridgeTransactionReceivers :: nat where "MaxBridgeTransactionReceivers = 5"
definition BridgeTransactionMaxReceiversComputeUnitLimit :: u32 where
  "BridgeTransactionMaxReceiversComputeUnitLimit = 400000"
definition DefaultComputeUnitLimitPerInstruction :: u32 where "DefaultComputeUnitLimitPerInstruction = 200000"
definition MaxComputeUnitLimit :: u32 where "MaxComputeUnitLimit = 1400000"
definition MaxLoadedAccountsDataSizeBytes :: u32 where "MaxLoadedAccountsDataSizeBytes = 64 * 1024 * 1024"

text \<open>\<open>wallet/token.go\<close>: the two methods of \<open>TokenAmount\<close>, on the encoder they are given.\<close>

definition TokenAmount_MarshalWithEncoder :: "borsh_lib \<Rightarrow> TokenAmount \<Rightarrow> (bytes, unit) exec" where
  "TokenAmount_MarshalWithEncoder lib t =
     bind (enc_u16 lib (ta_TokenID t)) (\<lambda>_. enc_u64 lib (ta_Amount t))"

definition TokenAmount_UnmarshalWithDecoder :: "borsh_lib \<Rightarrow> (bytes, TokenAmount) exec" where
  "TokenAmount_UnmarshalWithDecoder lib =
     bind (dec_u16 lib) (\<lambda>tokenID. bind (dec_u64 lib) (\<lambda>amount.
     ret \<lparr>ta_TokenID = tokenID, ta_Amount = amount\<rparr>))"

lemma codec_TokenAmount:
  assumes "borsh_ok lib"
  shows "codec (\<lambda>_. True) (TokenAmount_MarshalWithEncoder lib) (TokenAmount_UnmarshalWithDecoder lib)"
proof (rule codecI)
  fix x :: TokenAmount
  have "writes (TokenAmount_MarshalWithEncoder lib x) (written (enc_u16 lib (ta_TokenID x)) @ written (enc_u64 lib (ta_Amount x)))"
    unfolding TokenAmount_MarshalWithEncoder_def by (rule writes_rules assms)+
  moreover have "reads (TokenAmount_UnmarshalWithDecoder lib) (written (enc_u16 lib (ta_TokenID x)) @ written (enc_u64 lib (ta_Amount x)) @ []) x"
    unfolding TokenAmount_UnmarshalWithDecoder_def by (rule reads_rules assms | simp)+
  ultimately show "\<exists>bs. writes (TokenAmount_MarshalWithEncoder lib x) bs \<and> reads (TokenAmount_UnmarshalWithDecoder lib) bs x"
    by auto
qed

record ChainConfig =
  MinAmountToBridge :: u64
  MinFeeForBridging :: u64
  MinOperationFeeAmount :: u64
  TreasuryAddress :: PublicKey
  CurrencyTokenID :: u16

record BridgingTxReceiver =
  btr_Address :: string
  btr_TokenAmount :: TokenAmount

record BridgeRequestDto =
  brd_ProgramID :: PublicKey
  brd_DstChainID :: string
  brd_SenderAddr :: string
  brd_Receivers :: "BridgingTxReceiver list"
  brd_BridgingFee :: u64
  brd_OperationFee :: u64

record TransferItem =
  ti_Recipient :: PublicKey
  ti_MintIndex :: byte
  ti_Amount :: u64

record BridgeTransactionDto =
  btd_ProgramID :: PublicKey
  btd_SenderAddr :: string
  btd_Receivers :: "PayloadReceiver list"
  btd_PayloadBytes :: bytes
  btd_SignaturePairs :: "(PublicKey \<times> Signature) list"

record BridgeVSUDto =
  bvd_ProgramID :: PublicKey
  bvd_SenderAddr :: string
  bvd_AddingValidatorAddrs :: "string list"
  bvd_RemovingValidatorAddrs :: "string list"
  bvd_BatchID :: u64

record HotWalletIncrementDto =
  hwd_ProgramID :: PublicKey
  hwd_SenderAddr :: string
  hwd_TokenMint :: string
  hwd_TokenID :: u16
  hwd_Amount :: u64

record InitializeDto =
  ind_ProgramID :: PublicKey
  ind_AuthorityAddr :: string
  ind_Validators :: "string list"
  ind_LastID :: u64

record RegisterTokenLockUnlockDto =
  rld_ProgramID :: PublicKey
  rld_AuthorityAddr :: string
  rld_TokenMint :: string
  rld_TokenID :: u16
  rld_MinBridgingAmount :: u64

record RegisterTokenMintBurnDto =
  rmd_ProgramID :: PublicKey
  rmd_AuthorityAddr :: string
  rmd_TokenMint :: string
  rmd_TokenID :: u16
  rmd_MinBridgingAmount :: u64
  rmd_Decimals :: byte
  rmd_Name :: string
  rmd_Symbol :: string
  rmd_URI :: string

record UpdateFeeConfigDto =
  ufd_ProgramID :: PublicKey
  ufd_AuthorityAddr :: string
  ufd_MinOperationFee :: u64
  ufd_BridgingFee :: u64
  ufd_UpdateTreasury :: bool
  ufd_NewTreasuryAddress :: string

record UpdateProgramVersionDto =
  upd_ProgramID :: PublicKey
  upd_AuthorityAddr :: string
  upd_VersionString :: string

record SOLTransferDto =
  sod_SenderPublicKey :: string
  sod_ReceiverPublicKey :: string
  sod_Amount :: u64

record SPLTransferDto =
  spd_SenderPublicKey :: string
  spd_ReceiverPublicKey :: string
  spd_Amount :: u64
  spd_MintTokenAddress :: string
  spd_TokenDecimals :: byte

record CreateInstructionDto =
  cid_SenderPublicKey :: string
  cid_MintTokenAddress :: string
  cid_ReceiverPublicKey :: string

record UpdateMinBridgingAmountDto =
  umd_ProgramID :: PublicKey
  umd_AuthorityAddr :: string
  umd_TokenID :: u16
  umd_MinBridgingAmount :: u64

text \<open>The \<open>interface{}\<close> argument: a value of one of the types above, or of any other.\<close>

datatype tx_dto =
    Dto_BridgeRequest BridgeRequestDto
  | Dto_BridgeTransaction BridgeTransactionDto
  | Dto_BridgeVSU BridgeVSUDto
  | Dto_HotWalletIncrement HotWalletIncrementDto
  | Dto_Initialize InitializeDto
  | Dto_RegisterTokenLockUnlock RegisterTokenLockUnlockDto
  | Dto_RegisterTokenMintBurn RegisterTokenMintBurnDto
  | Dto_UpdateFeeConfig UpdateFeeConfigDto
  | Dto_UpdateProgramVersion UpdateProgramVersionDto
  | Dto_SOLTransfer SOLTransferDto
  | Dto_SPLTransfer SPLTransferDto
  | Dto_CreateInstruction CreateInstructionDto
  | Dto_UpdateMinBridgingAmount UpdateMinBridgingAmountDto
  | Dto_other

section \<open>The sender and its surroundings\<close>

datatype compute_budget =
    SetComputeUnitLimit u32
  | SetLoadedAccountsDataSizeLimit u32
  | OtherComputeBudget

record sendtx_lib =
  sl_sol :: solana_lib
  sl_borsh :: borsh_lib
  system_NewTransferInstruction :: "u64 \<Rightarrow> PublicKey \<Rightarrow> PublicKey \<Rightarrow> Instruction"
  token_NewTransferInstruction :: "u64 \<Rightarrow> PublicKey \<Rightarrow> PublicKey \<Rightarrow> PublicKey \<Rightarrow> PublicKey list \<Rightarrow> Instruction"
  ata_NewCreateInstruction :: "PublicKey \<Rightarrow> PublicKey \<Rightarrow> PublicKey \<Rightarrow> Instruction"
  cb_NewSetComputeUnitLimitInstruction :: "u32 \<Rightarrow> go_error + Instruction"
  cb_DecodeInstruction :: "AccountMeta list \<Rightarrow> bytes \<Rightarrow> go_error + compute_budget"

text \<open>
  The provider's methods that the sender calls. An account entry may be nil (None);
  \<open>pv_GetProgramAccounts\<close> is given its memcmp filters, offset and bytes.
\<close>

record ('w, 'tx) ITxProvider =
  pv_SendTransaction :: "'tx \<Rightarrow> ('w, Signature) exec"
  pv_GetAccountInfo :: "PublicKey \<Rightarrow> ('w, bytes option) exec"
  pv_GetProgramAccounts :: "PublicKey \<Rightarrow> (nat \<times> bytes) list \<Rightarrow> ('w, KeyedAccount option list) exec"

record ('w, 'tx) TxSender =
  ts_txProvider :: "('w, 'tx) ITxProvider"
  ts_chainConfig :: ChainConfig

record 'w sender_state =
  ss_instructionConfig :: InstructionConfig
  ss_world :: 'w

text \<open>
  The error of the configuration without options is dropped; \<open>NewTxSender\<close> would leave a nil
  configuration, which is shown not to happen.
\<close>

definition NewTxSender ::
  "solana_lib \<Rightarrow> ('w, 'tx) ITxProvider \<Rightarrow> ChainConfig \<Rightarrow> 'w \<Rightarrow> ('w, 'tx) TxSender \<times> 'w sender_state option" where
  "NewTxSender sol txProvider chainConfig w =
     (\<lparr>ts_txProvider = txProvider, ts_chainConfig = chainConfig\<rparr>,
      case NewInstructionConfig sol [] of
        Inl _ \<Rightarrow> None | Inr instrCfg \<Rightarrow> Some \<lparr>ss_instructionConfig = instrCfg, ss_world = w\<rparr>)"

lemma NewTxSender_configured: "\<exists>s. snd (NewTxSender sol txProvider chainConfig w) = Some s \<and> ss_world s = w"
  by (simp add: NewTxSender_def NewInstructionConfig_def ret_def Let_def)

definition on_config :: "(InstructionConfig, 'a) exec \<Rightarrow> ('w sender_state, 'a) exec" where
  "on_config m = focus ss_instructionConfig (\<lambda>c s. s\<lparr>ss_instructionConfig := c\<rparr>) m"

definition on_provider :: "('w, 'a) exec \<Rightarrow> ('w sender_state, 'a) exec" where
  "on_provider m = focus ss_world (\<lambda>w s. s\<lparr>ss_world := w\<rparr>) m"

text \<open>The options of one build, under the message the code wraps their error in.\<close>

definition apply_options :: "InstructionConfigOption list \<Rightarrow> ('w sender_state, InstructionConfig) exec" where
  "apply_options opts =
     bind (wrapE STR ''failed to apply additional config options: %w'' (on_config (ApplyOptions opts))) (\<lambda>_.
     gets ss_instructionConfig)"

definition checkFees :: "ChainConfig \<Rightarrow> u64 \<Rightarrow> u64 \<Rightarrow> go_error option" where
  "checkFees config bridgingFee operationFee =
     (if bridgingFee < MinFeeForBridging config then Some (Errorf STR ''bridging fee is less than: %d'')
      else if operationFee < MinOperationFeeAmount config then Some (Errorf STR ''operation fee is less than: %d'')
      else None)"

definition requireBridgeProgramID :: "PublicKey \<Rightarrow> go_error option" where
  "requireBridgeProgramID programID =
     (if programID = 0 then Some (Errorf STR ''bridge program ID is required'') else None)"

definition withProgramID :: "Instruction \<Rightarrow> PublicKey \<Rightarrow> go_error + Instruction" where
  "withProgramID instruction programID = Inr (NewInstruction programID (ix_Accounts instruction) (ix_Data instruction))"

text \<open>The key of an address that was validated, and a list of them, under the messages of the code.\<close>

definition parse_key :: "sendtx_lib \<Rightarrow> String.literal \<Rightarrow> string \<Rightarrow> ('s, PublicKey) exec" where
  "parse_key lib msg addr = wrapE msg (liftR (PublicKeyFromAddress (sl_sol lib) addr))"

fun parse_keys :: "sendtx_lib \<Rightarrow> String.literal \<Rightarrow> String.literal \<Rightarrow> string list \<Rightarrow> ('s, PublicKey list) exec" where
  "parse_keys lib invalid failed [] = ret []"
| "parse_keys lib invalid failed (addr # rest) =
     bind (wrapE invalid (check (ValidateAddress (sl_sol lib) addr True))) (\<lambda>_.
     bind (parse_key lib failed addr) (\<lambda>key.
     bind (parse_keys lib invalid failed rest) (\<lambda>keys. ret (key # keys))))"

section \<open>Reading accounts\<close>

definition GetProgramConfig ::
  "sendtx_lib \<Rightarrow> ('w, 'tx) TxSender \<Rightarrow> PublicKey \<Rightarrow> ('w sender_state, ProgramConfig) exec" where
  "GetProgramConfig lib txSnd programID =
     bind (check (requireBridgeProgramID programID)) (\<lambda>_.
     bind (wrapE STR ''failed to derive program config PDA: %w''
             (liftR (sol_FindProgramAddress (sl_sol lib) [PROGRAM_CONFIG_SEED] programID))) (\<lambda>(programConfigPDA, _).
     bind (wrapE STR ''get program config account: %w''
             (on_provider (pv_GetAccountInfo (ts_txProvider txSnd) programConfigPDA))) (\<lambda>info.
     case info of
       None \<Rightarrow> fail (Errorf STR ''program config account not found at %s'')
     | Some raw \<Rightarrow>
         if raw = [] then fail (Errorf STR ''program config account at %s has empty data'')
         else wrapE STR ''decode program config: %w'' (liftR (ParseAccount_ProgramConfig (sl_borsh lib) raw)))))"

fun registry_loop ::
  "borsh_lib \<Rightarrow> KeyedAccount option list \<Rightarrow> (u16 \<Rightarrow> TokenRegistry option) \<Rightarrow> go_error + (u16 \<Rightarrow> TokenRegistry option)" where
  "registry_loop lib [] registeredTokens = Inr registeredTokens"
| "registry_loop lib (None # rest) registeredTokens = Inl (Errorf STR ''token registry account entry is nil'')"
| "registry_loop lib (Some account # rest) registeredTokens =
     (case ka_Data account of
        None \<Rightarrow> Inl (Errorf STR ''token registry account %s has empty data'')
      | Some raw \<Rightarrow>
          if raw = [] then Inl (Errorf STR ''token registry account %s has empty data'')
          else (case ParseAccount_TokenRegistry lib raw of
                  Inl e \<Rightarrow> Inl (wrapped STR ''decode token registry %s: %w'' e)
                | Inr registry \<Rightarrow> registry_loop lib rest (registeredTokens(treg_TokenId registry \<mapsto> registry))))"

definition GetAllRegisteredTokens ::
  "sendtx_lib \<Rightarrow> ('w, 'tx) TxSender \<Rightarrow> PublicKey \<Rightarrow> ('w sender_state, u16 \<Rightarrow> TokenRegistry option) exec" where
  "GetAllRegisteredTokens lib txSnd programID =
     bind (check (requireBridgeProgramID programID)) (\<lambda>_.
     bind (wrapE STR ''get token registry accounts: %w''
             (on_provider (pv_GetProgramAccounts (ts_txProvider txSnd) programID [(0, Account_TokenRegistry)]))) (\<lambda>accounts.
     liftR (registry_loop (sl_borsh lib) accounts (\<lambda>_. None))))"

text \<open>\<open>registeredTokens[id].Mint\<close>: a missing key gives the zero registry.\<close>

definition registered_mint :: "(u16 \<Rightarrow> TokenRegistry option) \<Rightarrow> u16 \<Rightarrow> PublicKey" where
  "registered_mint registeredTokens tokenID = (case registeredTokens tokenID of Some r \<Rightarrow> treg_Mint r | None \<Rightarrow> 0)"

end
