(* ===== verification/Sendtx_Builders.thy ===== *)
theory Sendtx_Builders
  imports Sendtx
begin

text \<open>
  \<open>sendtx/tx_sender.go\<close>: the builder of every instruction type, \<open>buildInstructions\<close> and
  \<open>CreateTx\<close>, in the order of the code's checks. \<open>sendtx/tx_options.go\<close> is at the end.
\<close>

section \<open>Bridging requests\<close>

definition receivers_below :: "ChainConfig \<Rightarrow> BridgingTxReceiver list \<Rightarrow> bool" where
  "receivers_below config receivers \<longleftrightarrow>
     list_ex (\<lambda>receiver. ta_Amount (btr_TokenAmount receiver) < MinAmountToBridge config) receivers"

definition buildBridgingRequestInstruction ::
  "sendtx_lib \<Rightarrow> ('w, 'tx) TxSender \<Rightarrow> BridgeRequestDto \<Rightarrow> ('w sender_state, Instruction) exec" where
  "buildBridgingRequestInstruction lib txSnd tx =
     (let sol = sl_sol lib; config = ts_chainConfig txSnd; programID = brd_ProgramID tx in
      bind (check (requireBridgeProgramID programID)) (\<lambda>_.
      bind (wrapE STR ''fees do not meet the minimum requirements: %w''
              (check (checkFees config (brd_BridgingFee tx) (brd_OperationFee tx)))) (\<lambda>_.
      if receivers_below config (brd_Receivers tx)
      then fail (Errorf STR ''amount to bridge is less than the minimum required: %d'')
      else
      bind (wrapE STR ''invalid sender address: %s: %w'' (check (ValidateAddress sol (brd_SenderAddr tx) False))) (\<lambda>_.
      bind (parse_key lib STR ''failed to parse sender pub key from address %s: %w'' (brd_SenderAddr tx)) (\<lambda>senderPubKey.
      bind (wrapE STR ''invalid treasury address %s in chain config: %w''
              (check (ValidatePublicKey sol (TreasuryAddress config) False))) (\<lambda>_.
      case brd_Receivers tx of
        [receiver] \<Rightarrow>
          bind (apply_options [WithProgramID sol programID, WithValidatorSetPDA sol, WithVaultPDA sol,
                  WithTokenRegistryPDA sol (ta_TokenID (btr_TokenAmount receiver)), WithFeeConfigPDA sol,
                  WithEventAuthorityPDA sol]) (\<lambda>cfg.
          bind (wrapE STR ''failed to get all registered tokens: %w'' (GetAllRegisteredTokens lib txSnd programID)) (\<lambda>registeredTokens.
          let tokenMintPublicKey = registered_mint registeredTokens (ta_TokenID (btr_TokenAmount receiver)) in
          bind (wrapE STR ''receiver has an invalid token mint specified: %s: %w''
                  (check (ValidatePublicKey sol tokenMintPublicKey True))) (\<lambda>_.
          bind (wrapE STR ''failed to find sender associated token account for token %s: %w''
                  (liftR (FindAssociatedTokenAddress sol senderPubKey tokenMintPublicKey))) (\<lambda>(senderAta, _).
          bind (wrapE STR ''failed to find vault associated token account for token %s: %w''
                  (liftR (FindAssociatedTokenAddress sol (vaultPDA cfg) tokenMintPublicKey))) (\<lambda>(vaultAta, _).
          bind (wrapE STR ''failed to build bridge request instruction: %w''
                  (liftR (NewBridgeRequestInstruction (sl_borsh lib)
                     (ta_Amount (btr_TokenAmount receiver)) (btr_Address receiver) (brd_DstChainID tx)
                     (brd_BridgingFee tx + brd_OperationFee tx)
                     senderPubKey (validatorSetPDA cfg) senderAta (vaultPDA cfg) vaultAta tokenMintPublicKey
                     (tokenRegistryPDA cfg) (tokenProgramID cfg) (systemProgramID cfg)
                     (splAssociatedTokenAccountProgramID cfg) (feeConfigPDA cfg) (TreasuryAddress config)
                     (eventAuthorityPDA cfg) programID))) (\<lambda>bridgeRequestIx.
          liftR (withProgramID bridgeRequestIx programID)))))))
      | _ \<Rightarrow> fail (Errorf STR ''bridging request must have exactly one receiver, got %d'')))))))"

section \<open>Batches\<close>

text \<open>
  The loop of \<open>deriveBridgeMintsAndTransfers\<close>: the map from mints to their indexes, which are
  bytes, the mints and token IDs in the order they are first seen, and the transfers.
\<close>

fun derive_loop ::
  "sendtx_lib \<Rightarrow> (u16 \<Rightarrow> TokenRegistry option) \<Rightarrow> PayloadReceiver list \<Rightarrow> (PublicKey \<Rightarrow> byte option) \<Rightarrow>
   PublicKey list \<Rightarrow> u16 list \<Rightarrow> TransferItem list \<Rightarrow>
   go_error + PublicKey list \<times> u16 list \<times> TransferItem list" where
  "derive_loop lib registeredTokens [] mintIndex mints tokenIDs transferItems = Inr (mints, tokenIDs, transferItems)"
| "derive_loop lib registeredTokens (receiver # rest) mintIndex mints tokenIDs transferItems =
     (let receiverAddr = pr_Address receiver in
      case ValidateAddress (sl_sol lib) (sol_PublicKey_String (sl_sol lib) receiverAddr) False of
        Some err \<Rightarrow> Inl (wrapped STR ''invalid receiver address: %s: %w'' err)
      | None \<Rightarrow>
          (let tokenID = ta_TokenID (pr_TokenAmount receiver);
               mint = registered_mint registeredTokens tokenID;
               item = (\<lambda>idx. \<lparr>ti_Recipient = receiverAddr, ti_MintIndex = idx, ti_Amount = ta_Amount (pr_TokenAmount receiver)\<rparr>)
           in case mintIndex mint of
                Some idx \<Rightarrow>
                  derive_loop lib registeredTokens rest mintIndex mints tokenIDs (transferItems @ [item idx])
              | None \<Rightarrow>
                  (let idx = of_nat (length mints) in
                   derive_loop lib registeredTokens rest (mintIndex(mint \<mapsto> idx)) (mints @ [mint]) (tokenIDs @ [tokenID])
                     (transferItems @ [item idx]))))"

definition deriveBridgeMintsAndTransfers ::
  "sendtx_lib \<Rightarrow> PayloadReceiver list \<Rightarrow> (u16 \<Rightarrow> TokenRegistry option) \<Rightarrow>
   go_error + PublicKey list \<times> u16 list \<times> TransferItem list" where
  "deriveBridgeMintsAndTransfers lib receivers registeredTokens =
     derive_loop lib registeredTokens receivers (\<lambda>_. None) [] [] []"

text \<open>The three loops of \<open>bridgeTransactionRemainingAccounts\<close> that derive an address each.\<close>

fun registry_metas :: "sendtx_lib \<Rightarrow> PublicKey \<Rightarrow> u16 list \<Rightarrow> go_error + AccountMeta list" where
  "registry_metas lib programID [] = Inr []"
| "registry_metas lib programID (tokenID # rest) =
     (case sol_FindProgramAddress (sl_sol lib) [TOKEN_REGISTRY_SEED, le_bytes 2 tokenID] programID of
        Inl err \<Rightarrow> Inl err
      | Inr (reg, _) \<Rightarrow> map_sum id (\<lambda>out. NewAccountMeta reg False False # out) (registry_metas lib programID rest))"

fun recipient_metas :: "sendtx_lib \<Rightarrow> PublicKey list \<Rightarrow> TransferItem list \<Rightarrow> go_error + AccountMeta list" where
  "recipient_metas lib mints [] = Inr []"
| "recipient_metas lib mints (tr # rest) =
     (if unat (ti_MintIndex tr) \<ge> length mints then Inl (GoPanic STR ''index out of range'')
      else case sol_FindAssociatedTokenAddress (sl_sol lib) (ti_Recipient tr) (mints ! unat (ti_MintIndex tr)) of
        Inl err \<Rightarrow> Inl err
      | Inr (ata, _) \<Rightarrow> map_sum id (\<lambda>out. NewAccountMeta ata True False # out) (recipient_metas lib mints rest))"

fun vault_metas :: "sendtx_lib \<Rightarrow> PublicKey \<Rightarrow> PublicKey list \<Rightarrow> go_error + AccountMeta list" where
  "vault_metas lib vault [] = Inr []"
| "vault_metas lib vault (m # rest) =
     (case sol_FindAssociatedTokenAddress (sl_sol lib) vault m of
        Inl err \<Rightarrow> Inl err
      | Inr (vaultAta, _) \<Rightarrow> map_sum id (\<lambda>out. NewAccountMeta vaultAta True False # out) (vault_metas lib vault rest))"

definition bridgeTransactionRemainingAccounts ::
  "sendtx_lib \<Rightarrow> PublicKey \<Rightarrow> PublicKey \<Rightarrow> PublicKey list \<Rightarrow> u16 list \<Rightarrow> TransferItem list \<Rightarrow>
   go_error + AccountMeta list" where
  "bridgeTransactionRemainingAccounts lib vault programID mints tokenIDs transfers =
     (if length tokenIDs \<noteq> length mints then Inl (Errorf STR ''token ID count %d does not match mint count %d'')
      else case registry_metas lib programID tokenIDs of
        Inl err \<Rightarrow> Inl err
      | Inr registries \<Rightarrow>
          (case recipient_metas lib mints transfers of
             Inl err \<Rightarrow> Inl err
           | Inr recipients \<Rightarrow>
               (case vault_metas lib vault mints of
                  Inl err \<Rightarrow> Inl err
                | Inr vaults \<Rightarrow>
                    Inr (map (\<lambda>m. NewAccountMeta m True False) mints
                         @ map (\<lambda>tr. NewAccountMeta (ti_Recipient tr) False False) transfers
                         @ registries @ recipients @ vaults))))"

definition buildBridgeTransactionInstruction ::
  "sendtx_lib \<Rightarrow> ('w, 'tx) TxSender \<Rightarrow> BridgeTransactionDto \<Rightarrow> ('w sender_state, Instruction list) exec" where
  "buildBridgeTransactionInstruction lib txSnd tx =
     (let sol = sl_sol lib; programID = btd_ProgramID tx in
      bind (check (requireBridgeProgramID programID)) (\<lambda>_.
      bind (wrapE STR ''invalid sender address: %s: %w'' (check (ValidateAddress sol (btd_SenderAddr tx) False))) (\<lambda>_.
      bind (parse_key lib STR ''failed to parse sender public key from address %s: %w'' (btd_SenderAddr tx)) (\<lambda>senderPubKey.
      bind (apply_options [WithProgramID sol programID, WithValidatorSetPDA sol, WithVaultPDA sol,
              WithEventAuthorityPDA sol]) (\<lambda>cfg.
      bind (wrapE STR ''failed to get all registered tokens: %w'' (GetAllRegisteredTokens lib txSnd programID)) (\<lambda>registeredTokens.
      bind (wrapE STR ''failed to derive bridge mints/transfers: %w''
              (liftR (deriveBridgeMintsAndTransfers lib (btd_Receivers tx) registeredTokens)))
        (\<lambda>(mints, tokenIDs, transferItems).
      bind (wrapE STR ''failed to build bridge transaction instruction: %w''
              (liftR (NewBridgeTransactionInstruction (sl_borsh lib)
                 senderPubKey (validatorSetPDA cfg) (vaultPDA cfg) (tokenProgramID cfg) (systemProgramID cfg)
                 (splAssociatedTokenAccountProgramID cfg) (sol_SysVarInstructionsPubkey sol)
                 (eventAuthorityPDA cfg) programID))) (\<lambda>bridgeTxIx.
      bind (wrapE STR ''failed to build bridge transaction remaining accounts: %w''
              (liftR (bridgeTransactionRemainingAccounts lib (vaultPDA cfg) programID mints tokenIDs transferItems)))
        (\<lambda>remainingAccounts.
      let bridgeTxIxFinal = NewInstruction programID (ix_Accounts bridgeTxIx @ remainingAccounts) (ix_Data bridgeTxIx) in
      bind (wrapE STR ''failed to build batched ed25519 instruction: %w''
              (liftR (buildBatchedEd25519Instruction (btd_SignaturePairs tx) (btd_PayloadBytes tx)))) (\<lambda>batchedEd25519Ix.
      let instructions = [batchedEd25519Ix, bridgeTxIxFinal] in
      if length (btd_Receivers tx) = MaxBridgeTransactionReceivers then
        bind (wrapE STR ''failed to build compute unit limit instruction: %w''
                (liftR (cb_NewSetComputeUnitLimitInstruction lib BridgeTransactionMaxReceiversComputeUnitLimit)))
          (\<lambda>computeBudgetIx. ret (computeBudgetIx # instructions))
      else ret instructions))))))))))"

section \<open>Administration\<close>

definition buildBridgeVSUInstruction ::
  "sendtx_lib \<Rightarrow> BridgeVSUDto \<Rightarrow> ('w sender_state, Instruction) exec" where
  "buildBridgeVSUInstruction lib tx =
     (let sol = sl_sol lib; programID = bvd_ProgramID tx in
      bind (check (requireBridgeProgramID programID)) (\<lambda>_.
      bind (wrapE STR ''invalid sender address: %s: %w'' (check (ValidateAddress sol (bvd_SenderAddr tx) True))) (\<lambda>_.
      bind (parse_keys lib STR ''invalid adding validator address %s: %w''
              STR ''failed to parse adding validator public key from address %s: %w'' (bvd_AddingValidatorAddrs tx))
        (\<lambda>addingValidatorPubKeys.
      bind (parse_keys lib STR ''invalid removing validator address %s: %w''
              STR ''failed to parse removing validator public key from address %s: %w'' (bvd_RemovingValidatorAddrs tx))
        (\<lambda>removingValidatorPubKeys.
      bind (parse_key lib STR ''failed to parse sender public key from address %s: %w'' (bvd_SenderAddr tx)) (\<lambda>senderPubKey.
      bind (apply_options [WithProgramID sol programID, WithValidatorSetPDA sol]) (\<lambda>cfg.
      bind (wrapE STR ''failed to build bridge VSU instruction: %w''
              (liftR (NewBridgeVsuInstruction (sl_borsh lib) addingValidatorPubKeys removingValidatorPubKeys
                 (bvd_BatchID tx) senderPubKey (validatorSetPDA cfg) (systemProgramID cfg)))) (\<lambda>bridgeVSUIx.
      liftR (withProgramID bridgeVSUIx programID)))))))))"

definition buildHotWalletIncrementInstruction ::
  "sendtx_lib \<Rightarrow> HotWalletIncrementDto \<Rightarrow> ('w sender_state, Instruction) exec" where
  "buildHotWalletIncrementInstruction lib tx =
     (let sol = sl_sol lib; programID = hwd_ProgramID tx in
      bind (check (requireBridgeProgramID programID)) (\<lambda>_.
      if hwd_Amount tx = 0 then fail (Errorf STR ''amount must be greater than zero'')
      else
      bind (wrapE STR ''invalid sender address: %s: %w'' (check (ValidateAddress sol (hwd_SenderAddr tx) True))) (\<lambda>_.
      bind (parse_key lib STR ''failed to parse sender public key from address %s: %w'' (hwd_SenderAddr tx)) (\<lambda>senderPubKey.
      bind (parse_key lib STR ''failed to parse token mint address: %s: %w'' (hwd_TokenMint tx)) (\<lambda>tokenMintPublicKey.
      bind (if tokenMintPublicKey \<noteq> NATIVE_SOL_MINT
            then wrapE STR ''invalid token mint specified: %s: %w'' (check (ValidatePublicKey sol tokenMintPublicKey True))
            else ret ()) (\<lambda>_.
      bind (apply_options [WithProgramID sol programID, WithVaultPDA sol, WithTokenRegistryPDA sol (hwd_TokenID tx),
              WithEventAuthorityPDA sol]) (\<lambda>cfg.
      bind (wrapE STR ''failed to find sender associated token account for token %s: %w''
              (liftR (FindAssociatedTokenAddress sol senderPubKey tokenMintPublicKey))) (\<lambda>(senderAta, _).
      bind (wrapE STR ''failed to find vault associated token account for token %s: %w''
              (liftR (FindAssociatedTokenAddress sol (vaultPDA cfg) tokenMintPublicKey))) (\<lambda>(vaultAta, _).
      bind (wrapE STR ''failed to build hot wallet increment instruction: %w''
              (liftR (NewHotWalletIncrementInstruction (sl_borsh lib) (hwd_Amount tx)
                 senderPubKey senderAta (vaultPDA cfg) vaultAta tokenMintPublicKey (tokenProgramID cfg)
                 (systemProgramID cfg) (splAssociatedTokenAccountProgramID cfg) (eventAuthorityPDA cfg) programID)))
        (\<lambda>hotWalletIncrementIx.
      liftR (withProgramID hotWalletIncrementIx programID)))))))))))"

definition buildInitializeInstruction ::
  "sendtx_lib \<Rightarrow> ('w, 'tx) TxSender \<Rightarrow> InitializeDto \<Rightarrow> ('w sender_state, Instruction) exec" where
  "buildInitializeInstruction lib txSnd tx =
     (let sol = sl_sol lib; config = ts_chainConfig txSnd; programID = ind_ProgramID tx in
      bind (check (requireBridgeProgramID programID)) (\<lambda>_.
      bind (wrapE STR ''invalid sender address: %s: %w'' (check (ValidateAddress sol (ind_AuthorityAddr tx) True))) (\<lambda>_.
      bind (parse_keys lib STR ''invalid validator address: %s: %w''
              STR ''failed to parse public key from validator address %s: %w'' (ind_Validators tx)) (\<lambda>validatorPubKeys.
      bind (parse_key lib STR ''failed to parse sender public key from address %s: %w'' (ind_AuthorityAddr tx)) (\<lambda>senderPubKey.
      bind (apply_options [WithProgramID sol programID, WithProgramDataAccount sol, WithValidatorSetPDA sol,
              WithVaultPDA sol, WithFeeConfigPDA sol, WithProgramConfigPDA sol]) (\<lambda>cfg.
      bind (wrapE STR ''failed to build initialize instruction: %w''
              (liftR (NewInitializeInstruction (sl_borsh lib) validatorPubKeys (Some (ind_LastID tx))
                 (MinOperationFeeAmount config) (MinFeeForBridging config)
                 senderPubKey (validatorSetPDA cfg) (vaultPDA cfg) (feeConfigPDA cfg) (programConfigPDA cfg)
                 (TreasuryAddress config) (programKey cfg) (programDataKey cfg) (systemProgramID cfg)))) (\<lambda>initializeIx.
      liftR (withProgramID initializeIx programID))))))))"

definition buildRegisterTokenLockUnlockInstruction ::
  "sendtx_lib \<Rightarrow> RegisterTokenLockUnlockDto \<Rightarrow> ('w sender_state, Instruction) exec" where
  "buildRegisterTokenLockUnlockInstruction lib tx =
     (let sol = sl_sol lib; programID = rld_ProgramID tx in
      bind (check (requireBridgeProgramID programID)) (\<lambda>_.
      bind (wrapE STR ''invalid authority address: %s: %w'' (check (ValidateAddress sol (rld_AuthorityAddr tx) True))) (\<lambda>_.
      bind (parse_key lib STR ''failed to parse authority public key from address %s: %w'' (rld_AuthorityAddr tx)) (\<lambda>authorityPubKey.
      bind (parse_key lib STR ''failed to parse token mint address: %s: %w'' (rld_TokenMint tx)) (\<lambda>tokenMintPublicKey.
      bind (wrapE STR ''invalid token mint specified: %s: %w'' (check (ValidatePublicKey sol tokenMintPublicKey True))) (\<lambda>_.
      bind (apply_options [WithProgramID sol programID, WithFeeConfigPDA sol, WithTokenRegistryPDA sol (rld_TokenID tx),
              WithTokenIDGuardPDA sol (rld_TokenID tx)]) (\<lambda>cfg.
      bind (wrapE STR ''failed to build register lock/unlock token instruction: %w''
              (liftR (NewRegisterLockUnlockTokenInstruction (sl_borsh lib) (rld_TokenID tx) (rld_MinBridgingAmount tx)
                 authorityPubKey (feeConfigPDA cfg) tokenMintPublicKey (tokenRegistryPDA cfg) (tokenIDGuardPDA cfg)
                 (systemProgramID cfg)))) (\<lambda>registerLockUnlockIx.
      liftR (withProgramID registerLockUnlockIx programID)))))))))"

definition buildRegisterTokenMintBurnInstruction ::
  "sendtx_lib \<Rightarrow> RegisterTokenMintBurnDto \<Rightarrow> ('w sender_state, Instruction) exec" where
  "buildRegisterTokenMintBurnInstruction lib tx =
     (let sol = sl_sol lib; programID = rmd_ProgramID tx in
      bind (check (requireBridgeProgramID programID)) (\<lambda>_.
      bind (wrapE STR ''invalid authority address: %s: %w'' (check (ValidateAddress sol (rmd_AuthorityAddr tx) True))) (\<lambda>_.
      bind (parse_key lib STR ''failed to parse authority public key from address %s: %w'' (rmd_AuthorityAddr tx)) (\<lambda>authorityPubKey.
      bind (parse_key lib STR ''failed to parse token mint address: %s: %w'' (rmd_TokenMint tx)) (\<lambda>tokenMintPublicKey.
      bind (wrapE STR ''invalid token mint specified: %s: %w'' (check (ValidatePublicKey sol tokenMintPublicKey True))) (\<lambda>_.
      bind (apply_options [WithProgramID sol programID, WithFeeConfigPDA sol, WithVaultPDA sol,
              WithMetadataPDA sol tokenMintPublicKey, WithTokenRegistryPDA sol (rmd_TokenID tx),
              WithTokenIDGuardPDA sol (rmd_TokenID tx)]) (\<lambda>cfg.
      bind (wrapE STR ''failed to build register mint/burn token instruction: %w''
              (liftR (NewRegisterMintBurnTokenInstruction (sl_borsh lib) (rmd_TokenID tx) (rmd_Decimals tx)
                 (rmd_MinBridgingAmount tx) (rmd_Name tx) (rmd_Symbol tx) (rmd_URI tx)
                 authorityPubKey (feeConfigPDA cfg) (vaultPDA cfg) tokenMintPublicKey (metadataPDA cfg)
                 (tokenRegistryPDA cfg) (tokenIDGuardPDA cfg) (tokenProgramID cfg) (tokenMetadataProgramID cfg)
                 (systemProgramID cfg) (rentPubkey cfg)))) (\<lambda>registerMintBurnIx.
      liftR (withProgramID registerMintBurnIx programID)))))))))"

definition buildUpdateFeeConfigInstruction ::
  "sendtx_lib \<Rightarrow> UpdateFeeConfigDto \<Rightarrow> ('w sender_state, Instruction) exec" where
  "buildUpdateFeeConfigInstruction lib tx =
     (let sol = sl_sol lib; programID = ufd_ProgramID tx in
      bind (check (requireBridgeProgramID programID)) (\<lambda>_.
      bind (wrapE STR ''invalid authority address: %s: %w'' (check (ValidateAddress sol (ufd_AuthorityAddr tx) True))) (\<lambda>_.
      bind (parse_key lib STR ''failed to parse authority public key from address %s: %w'' (ufd_AuthorityAddr tx)) (\<lambda>authorityPubKey.
      bind (if ufd_UpdateTreasury tx \<and> ufd_NewTreasuryAddress tx \<noteq> '''' then
              bind (wrapE STR ''invalid new treasury address: %s: %w''
                      (check (ValidateAddress sol (ufd_NewTreasuryAddress tx) True))) (\<lambda>_.
              parse_key lib STR ''failed to parse new treasury public key from address %s: %w'' (ufd_NewTreasuryAddress tx))
            else ret 0) (\<lambda>newTreasuryAcc.
      bind (apply_options [WithProgramID sol programID, WithFeeConfigPDA sol]) (\<lambda>cfg.
      bind (wrapE STR ''failed to build update fee config instruction: %w''
              (liftR (NewUpdateFeeConfigInstruction (sl_borsh lib) (Some (ufd_MinOperationFee tx)) (Some (ufd_BridgingFee tx))
                 (Some (ufd_UpdateTreasury tx)) authorityPubKey (feeConfigPDA cfg) newTreasuryAcc))) (\<lambda>updateFeeConfigIx.
      liftR (withProgramID updateFeeConfigIx programID))))))))"

definition buildUpdateProgramVersionInstruction ::
  "sendtx_lib \<Rightarrow> UpdateProgramVersionDto \<Rightarrow> ('w sender_state, Instruction) exec" where
  "buildUpdateProgramVersionInstruction lib tx =
     (let sol = sl_sol lib; programID = upd_ProgramID tx in
      bind (check (requireBridgeProgramID programID)) (\<lambda>_.
      bind (wrapE STR ''invalid authority address: %s: %w'' (check (ValidateAddress sol (upd_AuthorityAddr tx) True))) (\<lambda>_.
      bind (parse_key lib STR ''failed to parse authority public key from address %s: %w'' (upd_AuthorityAddr tx)) (\<lambda>authorityPubKey.
      bind (apply_options [WithProgramID sol programID, WithProgramConfigPDA sol]) (\<lambda>cfg.
      bind (wrapE STR ''failed to build update program version instruction: %w''
              (liftR (NewUpdateProgramVersionInstruction (sl_borsh lib) (upd_VersionString tx)
                 authorityPubKey (programConfigPDA cfg)))) (\<lambda>updateIx.
      liftR (withProgramID updateIx programID)))))))"

definition buildUpdateMinBridgingAmountInstruction ::
  "sendtx_lib \<Rightarrow> UpdateMinBridgingAmountDto \<Rightarrow> ('w sender_state, Instruction) exec" where
  "buildUpdateMinBridgingAmountInstruction lib tx =
     (let sol = sl_sol lib; programID = umd_ProgramID tx in
      bind (check (requireBridgeProgramID programID)) (\<lambda>_.
      bind (wrapE STR ''invalid authority address: %s: %w'' (check (ValidateAddress sol (umd_AuthorityAddr tx) True))) (\<lambda>_.
      bind (parse_key lib STR ''failed to parse authority public key from address %s: %w'' (umd_AuthorityAddr tx)) (\<lambda>authorityPubKey.
      bind (apply_options [WithProgramID sol programID, WithFeeConfigPDA sol, WithTokenRegistryPDA sol (umd_TokenID tx)]) (\<lambda>cfg.
      bind (wrapE STR ''failed to build update min bridging amount instruction: %w''
              (liftR (NewUpdateMinBridgingAmountInstruction (sl_borsh lib) (umd_TokenID tx) (umd_MinBridgingAmount tx)
                 authorityPubKey (feeConfigPDA cfg) (tokenRegistryPDA cfg)))) (\<lambda>updateMinBridgingAmountIx.
      liftR (withProgramID updateMinBridgingAmountIx programID)))))))"

section \<open>Transfers\<close>

definition buildTransferInstruction :: "sendtx_lib \<Rightarrow> SOLTransferDto \<Rightarrow> ('w sender_state, Instruction) exec" where
  "buildTransferInstruction lib tx =
     bind (parse_key lib STR ''failed to parse sender public key from address %s: %w'' (sod_SenderPublicKey tx)) (\<lambda>senderPubKey.
     bind (parse_key lib STR ''failed to parse receiver public key from address %s: %w'' (sod_ReceiverPublicKey tx)) (\<lambda>receiverPubKey.
     ret (system_NewTransferInstruction lib (sod_Amount tx) senderPubKey receiverPubKey)))"

definition buildSPLTransferInstruction :: "sendtx_lib \<Rightarrow> SPLTransferDto \<Rightarrow> ('w sender_state, Instruction) exec" where
  "buildSPLTransferInstruction lib tx =
     bind (parse_key lib STR ''failed to parse sender public key from address %s: %w'' (spd_SenderPublicKey tx)) (\<lambda>senderPubKey.
     bind (parse_key lib STR ''failed to parse receiver public key from address %s: %w'' (spd_ReceiverPublicKey tx)) (\<lambda>receiverPubKey.
     bind (parse_key lib STR ''failed to parse token mint from address %s: %w'' (spd_MintTokenAddress tx)) (\<lambda>mintTokenAddress.
     bind (wrapE STR ''failed to find source associated token address: %w''
             (liftR (FindAssociatedTokenAddress (sl_sol lib) senderPubKey mintTokenAddress))) (\<lambda>(sourceAta, _).
     bind (wrapE STR ''failed to find destination associated token address: %w''
             (liftR (FindAssociatedTokenAddress (sl_sol lib) receiverPubKey mintTokenAddress))) (\<lambda>(destinationAta, _).
     ret (token_NewTransferInstruction lib (spd_Amount tx) sourceAta destinationAta senderPubKey []))))))"

definition buildCreateInstruction :: "sendtx_lib \<Rightarrow> CreateInstructionDto \<Rightarrow> ('w sender_state, Instruction) exec" where
  "buildCreateInstruction lib tx =
     bind (parse_key lib STR ''failed to parse sender public key from address %s: %w'' (cid_SenderPublicKey tx)) (\<lambda>senderPubKey.
     bind (parse_key lib STR ''failed to parse receiver public key from address %s: %w'' (cid_ReceiverPublicKey tx)) (\<lambda>receiverPubKey.
     bind (parse_key lib STR ''failed to parse token mint from address %s: %w'' (cid_MintTokenAddress tx)) (\<lambda>mintTokenAddress.
     ret (ata_NewCreateInstruction lib senderPubKey receiverPubKey mintTokenAddress))))"

section \<open>All instruction types\<close>

text \<open>One instruction, its error under the message of its case.\<close>

definition one_instruction :: "String.literal \<Rightarrow> ('s, Instruction) exec \<Rightarrow> ('s, Instruction list) exec" where
  "one_instruction msg m = bind (wrapE msg m) (\<lambda>ix. ret [ix])"

definition buildInstructions ::
  "sendtx_lib \<Rightarrow> ('w, 'tx) TxSender \<Rightarrow> InstructionType \<Rightarrow> tx_dto \<Rightarrow> ('w sender_state, Instruction list) exec" where
  "buildInstructions lib txSnd instructionType txDto =
     (if instructionType = InstructionTypeBridgingRequest then
        (case txDto of Dto_BridgeRequest tx \<Rightarrow>
           one_instruction STR ''failed to build bridging request instruction: %w'' (buildBridgingRequestInstruction lib txSnd tx)
         | _ \<Rightarrow> fail (Errorf STR ''expected BridgeRequestDto for type %s, got %T''))
      else if instructionType = InstructionTypeBridgeTransaction then
        (case txDto of Dto_BridgeTransaction tx \<Rightarrow> buildBridgeTransactionInstruction lib txSnd tx
         | _ \<Rightarrow> fail (Errorf STR ''expected BridgeTransactionDto for type %s, got %T''))
      else if instructionType = InstructionTypeBridgeVsu then
        (case txDto of Dto_BridgeVSU tx \<Rightarrow>
           one_instruction STR ''failed to build bridge VSU instruction: %w'' (buildBridgeVSUInstruction lib tx)
         | _ \<Rightarrow> fail (Errorf STR ''expected BridgeVSUDto for type %s, got %T''))
      else if instructionType = InstructionTypeHotWalletIncrement then
        (case txDto of Dto_HotWalletIncrement tx \<Rightarrow>
           one_instruction STR ''failed to build hot wallet increment instruction: %w'' (buildHotWalletIncrementInstruction lib tx)
         | _ \<Rightarrow> fail (Errorf STR ''expected HotWalletIncrementDto for type %s, got %T''))
      else if instructionType = InstructionTypeInitialize then
        (case txDto of Dto_Initialize tx \<Rightarrow>
           one_instruction STR ''failed to build initialize instruction: %w'' (buildInitializeInstruction lib txSnd tx)
         | _ \<Rightarrow> fail (Errorf STR ''expected InitializeDto for type %s, got %T''))
      else if instructionType = InstructionTypeRegisterTokensLockUnlock then
        (case txDto of Dto_RegisterTokenLockUnlock tx \<Rightarrow>
           one_instruction STR ''failed to build register token lock unlock instruction: %w''
             (buildRegisterTokenLockUnlockInstruction lib tx)
         | _ \<Rightarrow> fail (Errorf STR ''expected RegisterTokenLockUnlockDto for type %s, got %T''))
      else if instructionType = InstructionTypeRegisterTokensMintBurn then
        (case txDto of Dto_RegisterTokenMintBurn tx \<Rightarrow>
           one_instruction STR ''failed to build register token mint burn instruction: %w''
             (buildRegisterTokenMintBurnInstruction lib tx)
         | _ \<Rightarrow> fail (Errorf STR ''expected RegisterTokenMintBurnDto for type %s, got %T''))
      else if instructionType = InstructionTypeUpdateFeeConfig then
        (case txDto of Dto_UpdateFeeConfig tx \<Rightarrow>
           one_instruction STR ''failed to build update fee config instruction: %w'' (buildUpdateFeeConfigInstruction lib tx)
         | _ \<Rightarrow> fail (Errorf STR ''expected UpdateFeeConfigDto for type %s, got %T''))
      else if instructionType = InstructionTypeUpdateProgramVersion then
        (case txDto of Dto_UpdateProgramVersion tx \<Rightarrow>
           one_instruction STR ''failed to build update program version instruction: %w''
             (buildUpdateProgramVersionInstruction lib tx)
         | _ \<Rightarrow> fail (Errorf STR ''expected UpdateProgramVersionDto for type %s, got %T''))
      else if instructionType = InstructionTypeSOLTransfer then
        (case txDto of Dto_SOLTransfer tx \<Rightarrow>
           one_instruction STR ''failed to build transfer instruction: %w'' (buildTransferInstruction lib tx)
         | _ \<Rightarrow> fail (Errorf STR ''expected TransferDto for type %s, got %T''))
      else if instructionType = InstructionTypeSPLTransfer then
        (case txDto of Dto_SPLTransfer tx \<Rightarrow>
           one_instruction STR ''failed to build SPL transfer instruction: %w'' (buildSPLTransferInstruction lib tx)
         | _ \<Rightarrow> fail (Errorf STR ''expected SPLTransferDto for type %s, got %T''))
      else if instructionType = InstructionCreateInstruction then
        (case txDto of Dto_CreateInstruction tx \<Rightarrow>
           one_instruction STR ''failed to build create instruction: %w'' (buildCreateInstruction lib tx)
         | _ \<Rightarrow> fail (Errorf STR ''expected CreateInstructionDto for type %s, got %T''))
      else if instructionType = InstructionTypeUpdateMinBridgingAmount then
        (case txDto of Dto_UpdateMinBridgingAmount tx \<Rightarrow>
           one_instruction STR ''failed to build update min bridging amount instruction: %w''
             (buildUpdateMinBridgingAmountInstruction lib tx)
         | _ \<Rightarrow> fail (Errorf STR ''expected UpdateMinBridgingAmountDto for type %s, got %T''))
      else fail (Errorf STR ''unsupported transaction type: %s''))"

section \<open>Transactions\<close>

record TransactionConfig =
  tcf_ComputeUnitLimit :: "u32 option"
  tcf_LoadedAccountsDataSizeLimit :: "u32 option"

definition usesV1Message :: "InstructionType \<Rightarrow> bool" where
  "usesV1Message instructionType \<longleftrightarrow> instructionType = InstructionTypeBridgeTransaction"

definition defaultComputeUnitLimit :: "nat \<Rightarrow> u32" where
  "defaultComputeUnitLimit instructionCount =
     (let maxInstructions = unat (MaxComputeUnitLimit div DefaultComputeUnitLimitPerInstruction) in
      if instructionCount \<ge> maxInstructions then MaxComputeUnitLimit
      else DefaultComputeUnitLimitPerInstruction * of_nat instructionCount)"

text \<open>The data of an instruction is computed when it is built here, so reading it cannot fail.\<close>

fun inline_loop ::
  "sendtx_lib \<Rightarrow> Instruction list \<Rightarrow> Instruction list \<Rightarrow> TransactionConfig \<Rightarrow> go_error + Instruction list \<times> TransactionConfig" where
  "inline_loop lib [] remaining config = Inr (remaining, config)"
| "inline_loop lib (instruction # rest) remaining config =
     (if ix_ProgramID instruction \<noteq> sol_ComputeBudget (sl_sol lib) then inline_loop lib rest (remaining @ [instruction]) config
      else case cb_DecodeInstruction lib (ix_Accounts instruction) (ix_Data instruction) of
        Inl err \<Rightarrow> Inl (wrapped STR ''failed to decode compute budget instruction: %w'' err)
      | Inr (SetComputeUnitLimit units) \<Rightarrow> inline_loop lib rest remaining (config\<lparr>tcf_ComputeUnitLimit := Some units\<rparr>)
      | Inr (SetLoadedAccountsDataSizeLimit n) \<Rightarrow>
          inline_loop lib rest remaining (config\<lparr>tcf_LoadedAccountsDataSizeLimit := Some n\<rparr>)
      | Inr OtherComputeBudget \<Rightarrow> Inl (Errorf STR ''compute budget instruction %T cannot be converted to a v1 transaction config''))"

definition inlineComputeBudget :: "sendtx_lib \<Rightarrow> Instruction list \<Rightarrow> go_error + Instruction list \<times> TransactionConfig" where
  "inlineComputeBudget lib instructions =
     (case inline_loop lib instructions [] \<lparr>tcf_ComputeUnitLimit = None, tcf_LoadedAccountsDataSizeLimit = None\<rparr> of
        Inl err \<Rightarrow> Inl err
      | Inr (remaining, config) \<Rightarrow>
          (let config = (if tcf_ComputeUnitLimit config = None
                         then config\<lparr>tcf_ComputeUnitLimit := Some (defaultComputeUnitLimit (length remaining))\<rparr> else config);
               config = (if tcf_LoadedAccountsDataSizeLimit config = None
                         then config\<lparr>tcf_LoadedAccountsDataSizeLimit := Some MaxLoadedAccountsDataSizeBytes\<rparr> else config)
           in Inr (remaining, config)))"

record createTxOptions =
  cto_addressTables :: "(PublicKey \<times> PublicKey list) list"

text \<open>A nil option is None.\<close>

type_synonym CreateTxOption = "(createTxOptions \<Rightarrow> createTxOptions) option"

definition WithAddressLookupTables :: "(PublicKey \<times> PublicKey list) list \<Rightarrow> CreateTxOption" where
  "WithAddressLookupTables tables = Some (\<lambda>opts. opts\<lparr>cto_addressTables := tables\<rparr>)"

definition applyCreateTxOptions :: "CreateTxOption list \<Rightarrow> createTxOptions" where
  "applyCreateTxOptions opts =
     fold (\<lambda>opt cfg. case opt of None \<Rightarrow> cfg | Some g \<Rightarrow> g cfg) opts \<lparr>cto_addressTables = []\<rparr>"

datatype TransactionOption =
    TransactionAddressTables "(PublicKey \<times> PublicKey list) list"
  | TransactionV1Config TransactionConfig

text \<open>
  The transaction builder of solana-go: the block hash, the fee payer, the instructions and the
  options give a transaction; \<open>SetVersion\<close> makes its message v0.
\<close>

record 'tx tx_builder =
  tb_Build :: "Hash \<Rightarrow> PublicKey \<Rightarrow> Instruction list \<Rightarrow> TransactionOption list \<Rightarrow> go_error + 'tx"
  tb_SetVersionV0 :: "'tx \<Rightarrow> go_error + 'tx"
  tb_Signatures :: "'tx \<Rightarrow> Signature list"

definition CreateTx ::
  "sendtx_lib \<Rightarrow> 'tx tx_builder \<Rightarrow> ('w, 'tx) TxSender \<Rightarrow> PublicKey \<Rightarrow> InstructionType \<Rightarrow> Hash \<Rightarrow> tx_dto \<Rightarrow>
   CreateTxOption list \<Rightarrow> ('w sender_state, 'tx) exec" where
  "CreateTx lib tb txSnd solanaPublicKey instructionType recentBlockHash txDto opts =
     (let cfg = applyCreateTxOptions opts in
      bind (wrapE STR ''failed to prepare bridging request instruction: %w'' (buildInstructions lib txSnd instructionType txDto))
        (\<lambda>instructions.
      bind (if length (cto_addressTables cfg) > 0 then ret (instructions, [TransactionAddressTables (cto_addressTables cfg)])
            else if usesV1Message instructionType then
              bind (wrapE STR ''failed to inline compute budget for %s: %w'' (liftR (inlineComputeBudget lib instructions)))
                (\<lambda>(instructions, v1Config). ret (instructions, [TransactionV1Config v1Config]))
            else ret (instructions, [])) (\<lambda>(instructions, txOpts).
      bind (wrapE STR ''failed to build transaction: %w''
              (liftR (tb_Build tb recentBlockHash solanaPublicKey instructions txOpts))) (\<lambda>tx.
      if length (cto_addressTables cfg) > 0
      then wrapE STR ''failed to set v0 message version: %w'' (liftR (tb_SetVersionV0 tb tx))
      else ret tx))))"

text \<open>The error message reads the transaction's first signature.\<close>

definition SendTx :: "'tx tx_builder \<Rightarrow> ('w, 'tx) TxSender \<Rightarrow> 'tx \<Rightarrow> ('w sender_state, Signature) exec" where
  "SendTx tb txSnd signedTransaction =
     bind (attempt (on_provider (pv_SendTransaction (ts_txProvider txSnd) signedTransaction))) (\<lambda>r.
     case r of
       Inr signature \<Rightarrow> ret signature
     | Inl err \<Rightarrow>
         if tb_Signatures tb signedTransaction = [] then fail (GoPanic STR ''index out of range'')
         else fail (wrapped STR ''failed to send %s transaction: %w'' err))"

section \<open>Lookup tables\<close>

text \<open>The loop of \<open>BridgeTransactionALTAddresses\<close> over the sorted token IDs.\<close>

fun alt_addresses_loop ::
  "sendtx_lib \<Rightarrow> (u16 \<Rightarrow> PublicKey option) \<Rightarrow> u16 list \<Rightarrow> PublicKey list \<Rightarrow> ('w sender_state, PublicKey list) exec" where
  "alt_addresses_loop lib mints [] addresses = ret addresses"
| "alt_addresses_loop lib mints (tokenID # rest) addresses =
     (let mint = (case mints tokenID of None \<Rightarrow> 0 | Some m \<Rightarrow> m) in
      if mint = NATIVE_SOL_MINT then alt_addresses_loop lib mints rest addresses
      else
      bind (wrapE STR ''invalid mint %s: %w'' (check (ValidatePublicKey (sl_sol lib) mint True))) (\<lambda>_.
      bind (wrapE STR ''failed to derive token registry PDA for mint %s: %w''
              (on_config (ApplyOptions [WithTokenRegistryPDA (sl_sol lib) tokenID]))) (\<lambda>_.
      bind (gets ss_instructionConfig) (\<lambda>cfg.
      bind (wrapE STR ''failed to find vault associated token account for mint %s: %w''
              (liftR (FindAssociatedTokenAddress (sl_sol lib) (vaultPDA cfg) mint))) (\<lambda>(vaultATA, _).
      alt_addresses_loop lib mints rest (addresses @ [mint, tokenRegistryPDA cfg, vaultATA]))))))"

text \<open>\<open>tokenIDs\<close> are the keys of the map in any order.\<close>

definition BridgeTransactionALTAddresses ::
  "sendtx_lib \<Rightarrow> PublicKey \<Rightarrow> (u16 \<Rightarrow> PublicKey option) \<Rightarrow> u16 list \<Rightarrow> ('w sender_state, PublicKey list) exec" where
  "BridgeTransactionALTAddresses lib programID mints tokenIDs =
     (let sol = sl_sol lib in
      bind (check (requireBridgeProgramID programID)) (\<lambda>_.
      bind (wrapE STR ''failed to derive skyline program PDAs: %w''
              (on_config (ApplyOptions [WithProgramID sol programID, WithValidatorSetPDA sol, WithVaultPDA sol]))) (\<lambda>_.
      bind (gets ss_instructionConfig) (\<lambda>cfg.
      alt_addresses_loop lib mints (sort tokenIDs)
        [validatorSetPDA cfg, vaultPDA cfg, tokenProgramID cfg, systemProgramID cfg,
         splAssociatedTokenAccountProgramID cfg, sol_SysVarInstructionsPubkey sol]))))"

end
