(* ===== verification/Sendtx_Lemmas.thy ===== *)
theory Sendtx_Lemmas
  imports Sendtx_Builders Cpi_Events
begin

text \<open>
  The helper lemmas of the sender: what a successful build has passed, the mints and transfers of
  a batch, the accounts that are appended to it, and the compute budget of its transaction.
\<close>

section \<open>Steps of a build\<close>

lemma on_config_Inr:
  "on_config m s = (Inr x, s') \<longleftrightarrow>
     (\<exists>c. m (ss_instructionConfig s) = (Inr x, c) \<and> s' = s\<lparr>ss_instructionConfig := c\<rparr>)"
  by (auto simp: on_config_def focus_def split: prod.splits)

lemma on_provider_Inr:
  "on_provider m s = (Inr x, s') \<longleftrightarrow> (\<exists>w. m (ss_world s) = (Inr x, w) \<and> s' = s\<lparr>ss_world := w\<rparr>)"
  by (auto simp: on_provider_def focus_def split: prod.splits)

lemma if_Inr: "(if b then m else n) s = (Inr x, s') \<longleftrightarrow> (b \<and> m s = (Inr x, s')) \<or> (\<not> b \<and> n s = (Inr x, s'))"
  by simp

lemmas build_Inr = exec_Inr on_config_Inr on_provider_Inr if_Inr

lemma parse_key_Inr: "parse_key lib msg addr s = (Inr k, s') \<longleftrightarrow> PublicKeyFromAddress (sl_sol lib) addr = Inr k \<and> s' = s"
  by (auto simp: parse_key_def build_Inr)

lemma apply_options_Inr:
  "apply_options opts s = (Inr cfg, s') \<longleftrightarrow>
     ApplyOptions opts (ss_instructionConfig s) = (Inr (), cfg) \<and> s' = s\<lparr>ss_instructionConfig := cfg\<rparr>"
  by (auto simp: apply_options_def build_Inr)

declare ApplyOptions.simps [simp del]

lemma requireBridgeProgramID_None [simp]: "requireBridgeProgramID p = None \<longleftrightarrow> p \<noteq> 0"
  by (simp add: requireBridgeProgramID_def)

lemma checkFees_None:
  "checkFees config b f = None \<longleftrightarrow> MinFeeForBridging config \<le> b \<and> MinOperationFeeAmount config \<le> f"
  by (auto simp: checkFees_def not_less)

section \<open>Mints and transfers\<close>

text \<open>The mint that the registry gives for a receiver's token, and a list in first-seen order.\<close>

definition receiver_mint :: "(u16 \<Rightarrow> TokenRegistry option) \<Rightarrow> PayloadReceiver \<Rightarrow> PublicKey" where
  "receiver_mint tokens r = registered_mint tokens (ta_TokenID (pr_TokenAmount r))"

definition first_seen :: "'a list \<Rightarrow> 'a list" where
  "first_seen xs = rev (remdups (rev xs))"

lemma first_seen_simps [simp]:
  "first_seen [] = []"
  "first_seen (xs @ [x]) = (if x \<in> set xs then first_seen xs else first_seen xs @ [x])"
  "set (first_seen xs) = set xs" "distinct (first_seen xs)"
  by (auto simp: first_seen_def)

lemma length_first_seen: "length (first_seen xs) \<le> length xs"
  by (simp add: first_seen_def) (metis length_remdups_leq length_rev)

text \<open>An item carries its receiver's address and amount, and points to its receiver's mint.\<close>

definition item_for ::
  "(u16 \<Rightarrow> TokenRegistry option) \<Rightarrow> PublicKey list \<Rightarrow> PayloadReceiver \<Rightarrow> TransferItem \<Rightarrow> bool" where
  "item_for tokens mints r item \<longleftrightarrow> ti_Recipient item = pr_Address r \<and> ti_Amount item = ta_Amount (pr_TokenAmount r) \<and>
     unat (ti_MintIndex item) < length mints \<and> mints ! unat (ti_MintIndex item) = receiver_mint tokens r"

lemma item_for_append: "item_for tokens mints r item \<Longrightarrow> item_for tokens (mints @ ms) r item"
  by (simp add: item_for_def nth_append)

definition index_ok :: "(PublicKey \<Rightarrow> byte option) \<Rightarrow> PublicKey list \<Rightarrow> bool" where
  "index_ok mintIndex mints \<longleftrightarrow>
     (\<forall>m i. mintIndex m = Some i \<longrightarrow> unat i < length mints \<and> mints ! unat i = m) \<and>
     (\<forall>m \<in> set mints. mintIndex m \<noteq> None)"

lemma index_ok_add:
  assumes "index_ok mintIndex mints" "length mints < 256"
  shows "index_ok (mintIndex(m \<mapsto> of_nat (length mints))) (mints @ [m])"
proof -
  have idx: "unat (of_nat (length mints) :: byte) = length mints"
    using assms(2) by (simp add: unsigned_of_nat take_bit_nat_eq_self)
  then have "unat (word_of_nat (length mints) :: byte) = length mints" by simp
  with assms(1) show ?thesis by (auto simp: index_ok_def nth_append less_Suc_eq split: if_splits)
qed

text \<open>The state of the loop after the receivers \<open>seen\<close>.\<close>

definition derive_inv ::
  "(u16 \<Rightarrow> TokenRegistry option) \<Rightarrow> PayloadReceiver list \<Rightarrow> (PublicKey \<Rightarrow> byte option) \<Rightarrow> PublicKey list \<Rightarrow>
   u16 list \<Rightarrow> TransferItem list \<Rightarrow> bool" where
  "derive_inv tokens seen mintIndex mints ids items \<longleftrightarrow>
     mints = first_seen (map (receiver_mint tokens) seen) \<and> map (registered_mint tokens) ids = mints \<and>
     index_ok mintIndex mints \<and> list_all2 (item_for tokens mints) seen items"

abbreviation transfer_item :: "PayloadReceiver \<Rightarrow> byte \<Rightarrow> TransferItem" where
  "transfer_item r idx \<equiv> \<lparr>ti_Recipient = pr_Address r, ti_MintIndex = idx, ti_Amount = ta_Amount (pr_TokenAmount r)\<rparr>"

lemma derive_inv_known:
  assumes inv: "derive_inv tokens seen mintIndex mints ids items" and idx: "mintIndex (receiver_mint tokens r) = Some idx"
  shows "derive_inv tokens (seen @ [r]) mintIndex mints ids (items @ [transfer_item r idx])"
proof -
  have at: "unat idx < length mints" "mints ! unat idx = receiver_mint tokens r"
    using inv idx by (auto simp: derive_inv_def index_ok_def)
  then have "receiver_mint tokens r \<in> set mints" by (metis nth_mem)
  moreover have "item_for tokens mints r (transfer_item r idx)" using at by (simp add: item_for_def)
  ultimately show ?thesis using inv by (auto simp: derive_inv_def list_all2_appendI)
qed

lemma derive_inv_new:
  assumes inv: "derive_inv tokens seen mintIndex mints ids items" and small: "length seen < 256"
    and new: "mintIndex (receiver_mint tokens r) = None"
  shows "derive_inv tokens (seen @ [r]) (mintIndex(receiver_mint tokens r \<mapsto> of_nat (length mints)))
    (mints @ [receiver_mint tokens r]) (ids @ [ta_TokenID (pr_TokenAmount r)])
    (items @ [transfer_item r (of_nat (length mints))])"
proof -
  let ?m = "receiver_mint tokens r"
  have len: "length mints < 256"
    using inv small length_first_seen [of "map (receiver_mint tokens) seen"] by (auto simp: derive_inv_def)
  have "item_for tokens (mints @ [?m]) r (transfer_item r (of_nat (length mints)))"
    using len by (simp add: item_for_def unsigned_of_nat take_bit_nat_eq_self)
  moreover have "list_all2 (item_for tokens (mints @ [?m])) seen items"
    using inv item_for_append by (auto simp: derive_inv_def elim!: list_all2_mono)
  moreover have "?m \<notin> set mints" using inv new unfolding derive_inv_def index_ok_def by blast
  moreover have "?m \<notin> receiver_mint tokens ` set seen"
    using calculation(3) inv by (simp add: derive_inv_def)
  moreover have "index_ok (mintIndex(?m \<mapsto> of_nat (length mints))) (mints @ [?m])"
    using inv len index_ok_add by (auto simp: derive_inv_def)
  ultimately show ?thesis using inv
    by (simp add: derive_inv_def list_all2_appendI receiver_mint_def [symmetric])
qed

lemma derive_loop_Cons:
  assumes "derive_loop lib tokens (r # rest) mintIndex mints ids items = Inr out"
  shows "case mintIndex (receiver_mint tokens r) of
    Some idx \<Rightarrow> derive_loop lib tokens rest mintIndex mints ids (items @ [transfer_item r idx]) = Inr out
  | None \<Rightarrow> derive_loop lib tokens rest (mintIndex(receiver_mint tokens r \<mapsto> of_nat (length mints)))
      (mints @ [receiver_mint tokens r]) (ids @ [ta_TokenID (pr_TokenAmount r)])
      (items @ [transfer_item r (of_nat (length mints))]) = Inr out"
  using assms by (simp add: receiver_mint_def Let_def split: option.splits)

lemma derive_loop_inv:
  assumes "derive_loop lib tokens receivers mintIndex mints ids items = Inr (mints', ids', items')"
    "derive_inv tokens seen mintIndex mints ids items" "length seen + length receivers \<le> 256"
  shows "\<exists>mintIndex'. derive_inv tokens (seen @ receivers) mintIndex' mints' ids' items'"
  using assms
proof (induction receivers arbitrary: seen mintIndex mints ids items)
  case Nil
  then show ?case by auto
next
  case (Cons r rest)
  then have small: "length seen < 256" and len: "length (seen @ [r]) + length rest \<le> 256" by simp_all
  show ?case
  proof (cases "mintIndex (receiver_mint tokens r)")
    case None
    with derive_loop_Cons [OF Cons.prems(1)]
    show ?thesis using Cons.IH [OF _ derive_inv_new [OF Cons.prems(2) small None] len]
      by (simp only: append_assoc append_Cons append_Nil option.case)
  next
    case (Some idx)
    with derive_loop_Cons [OF Cons.prems(1)]
    show ?thesis using Cons.IH [OF _ derive_inv_known [OF Cons.prems(2) Some] len]
      by (simp only: append_assoc append_Cons append_Nil option.case)
  qed
qed

lemma derive_Inr:
  assumes "deriveBridgeMintsAndTransfers lib receivers tokens = Inr (mints, ids, items)" "length receivers \<le> 256"
  shows "mints = first_seen (map (receiver_mint tokens) receivers)" "map (registered_mint tokens) ids = mints"
    "list_all2 (item_for tokens mints) receivers items"
proof -
  have "derive_inv tokens [] (\<lambda>_. None) [] [] []" by (simp add: derive_inv_def index_ok_def)
  from derive_loop_inv [OF _ this] assms obtain mintIndex where "derive_inv tokens receivers mintIndex mints ids items"
    unfolding deriveBridgeMintsAndTransfers_def by fastforce
  then show "mints = first_seen (map (receiver_mint tokens) receivers)" "map (registered_mint tokens) ids = mints"
    "list_all2 (item_for tokens mints) receivers items"
    unfolding derive_inv_def by blast+
qed

section \<open>The accounts appended to a batch\<close>

definition registry_meta :: "sendtx_lib \<Rightarrow> PublicKey \<Rightarrow> u16 \<Rightarrow> AccountMeta \<Rightarrow> bool" where
  "registry_meta lib programID tokenID a \<longleftrightarrow> \<not> am_IsWritable a \<and> \<not> am_IsSigner a \<and>
     (\<exists>bump. sol_FindProgramAddress (sl_sol lib) [TOKEN_REGISTRY_SEED, le_bytes 2 tokenID] programID = Inr (am_PublicKey a, bump))"

definition ata_meta :: "sendtx_lib \<Rightarrow> PublicKey \<Rightarrow> PublicKey \<Rightarrow> AccountMeta \<Rightarrow> bool" where
  "ata_meta lib owner mint a \<longleftrightarrow> am_IsWritable a \<and> \<not> am_IsSigner a \<and>
     (\<exists>bump. sol_FindAssociatedTokenAddress (sl_sol lib) owner mint = Inr (am_PublicKey a, bump))"

lemma map_sum_Inr_iff: "map_sum id g r = Inr y \<longleftrightarrow> (\<exists>x. r = Inr x \<and> y = g x)"
  by (cases r) auto

lemma registry_metas_Inr: "registry_metas lib programID ids = Inr out \<Longrightarrow> list_all2 (registry_meta lib programID) ids out"
  by (induction ids arbitrary: out) (auto simp: map_sum_Inr_iff registry_meta_def split: sum.splits)

lemma vault_metas_Inr: "vault_metas lib vault mints = Inr out \<Longrightarrow> list_all2 (ata_meta lib vault) mints out"
  by (induction mints arbitrary: out) (auto simp: map_sum_Inr_iff ata_meta_def split: sum.splits)

lemma recipient_metas_Inr:
  "recipient_metas lib mints items = Inr out \<Longrightarrow>
    list_all2 (\<lambda>item. ata_meta lib (ti_Recipient item) (mints ! unat (ti_MintIndex item))) items out"
  by (induction items arbitrary: out) (auto simp: map_sum_Inr_iff ata_meta_def split: sum.splits if_splits)

text \<open>What the appended accounts are, stated over the receivers and their registered mints.\<close>

definition batch_accounts ::
  "sendtx_lib \<Rightarrow> PublicKey \<Rightarrow> PublicKey \<Rightarrow> (u16 \<Rightarrow> TokenRegistry option) \<Rightarrow> PayloadReceiver list \<Rightarrow> AccountMeta list \<Rightarrow> bool" where
  "batch_accounts lib vault programID tokens receivers out \<longleftrightarrow>
     (let mints = first_seen (map (receiver_mint tokens) receivers) in
      \<exists>ids registries atas vaults. map (registered_mint tokens) ids = mints \<and>
        list_all2 (registry_meta lib programID) ids registries \<and>
        list_all2 (\<lambda>r. ata_meta lib (pr_Address r) (receiver_mint tokens r)) receivers atas \<and>
        list_all2 (ata_meta lib vault) mints vaults \<and>
        out = map (\<lambda>m. NewAccountMeta m True False) mints
              @ map (\<lambda>r. NewAccountMeta (pr_Address r) False False) receivers @ registries @ atas @ vaults)"

lemma recipients_of_receivers:
  assumes "list_all2 (item_for tokens mints) receivers items"
  shows "map (\<lambda>tr. NewAccountMeta (ti_Recipient tr) False False) items = map (\<lambda>r. NewAccountMeta (pr_Address r) False False) receivers"
    and "list_all2 (\<lambda>item. ata_meta lib (ti_Recipient item) (mints ! unat (ti_MintIndex item))) items atas \<Longrightarrow>
      list_all2 (\<lambda>r. ata_meta lib (pr_Address r) (receiver_mint tokens r)) receivers atas"
  using assms
proof (induction arbitrary: atas rule: list_all2_induct)
  case Nil
  { case 1 then show ?case by simp }
  { case 2 then show ?case by simp }
next
  case (Cons r rs item items)
  { case 1 then show ?case using Cons by (simp add: item_for_def) }
  { case 2 then show ?case using Cons by (auto simp: item_for_def list_all2_Cons1) }
qed

lemma batch_accounts_built:
  assumes derived: "deriveBridgeMintsAndTransfers lib receivers tokens = Inr (mints, ids, items)" "length receivers \<le> 256"
    and out: "bridgeTransactionRemainingAccounts lib vault programID mints ids items = Inr out"
  shows "batch_accounts lib vault programID tokens receivers out"
proof -
  note d = derive_Inr [OF derived]
  from out obtain registries recipients vaults where
    parts: "registry_metas lib programID ids = Inr registries" "recipient_metas lib mints items = Inr recipients"
      "vault_metas lib vault mints = Inr vaults"
    and shape: "out = map (\<lambda>m. NewAccountMeta m True False) mints
              @ map (\<lambda>tr. NewAccountMeta (ti_Recipient tr) False False) items @ registries @ recipients @ vaults"
    by (auto simp: bridgeTransactionRemainingAccounts_def split: if_splits sum.splits)
  show ?thesis
    unfolding batch_accounts_def Let_def d(1) [symmetric] shape recipients_of_receivers(1) [OF d(3)]
    using d(2) registry_metas_Inr [OF parts(1)] vault_metas_Inr [OF parts(3)]
      recipients_of_receivers(2) [OF d(3) recipient_metas_Inr [OF parts(2)]] by blast
qed

section \<open>The compute budget of a batch\<close>

lemma inline_loop_Inr:
  "inline_loop lib ixs rem cfg = Inr (rem', cfg') \<Longrightarrow> rem' = rem @ filter (\<lambda>ix. ix_ProgramID ix \<noteq> sol_ComputeBudget (sl_sol lib)) ixs"
  by (induction ixs arbitrary: rem cfg) (fastforce split: if_splits sum.splits compute_budget.splits)+

lemma inlineComputeBudget_Inr:
  assumes "inlineComputeBudget lib ixs = Inr (rem, cfg)"
  shows "rem = filter (\<lambda>ix. ix_ProgramID ix \<noteq> sol_ComputeBudget (sl_sol lib)) ixs"
    "tcf_ComputeUnitLimit cfg \<noteq> None" "tcf_LoadedAccountsDataSizeLimit cfg \<noteq> None"
  using assms inline_loop_Inr [of lib ixs "[]"]
  by (auto simp: inlineComputeBudget_def Let_def split: sum.splits if_splits)

end
