(* ===== verification/Sendtx_Properties.thy ===== *)
theory Sendtx_Properties
  imports Sendtx_Lemmas Skyline_Properties
begin

text \<open>
  The properties of the sender: what a bridging request that could be built has passed and
  carries, that the accounts of a batch line up with its receivers, that the tracker reads the
  signed payload back out of the batch, and the compute budget of its transaction.
\<close>

section \<open>Bridging requests\<close>

text \<open>The reader of the parameters that \<open>NewBridgeRequestInstruction\<close> writes.\<close>

definition bridge_request_params :: "borsh_lib \<Rightarrow> (bytes, u64 \<times> string \<times> string \<times> u64) exec" where
  "bridge_request_params lib =
     bind (dec_u64 lib) (\<lambda>amount. bind (dec_string lib) (\<lambda>receiver. bind (dec_string lib) (\<lambda>chain.
     bind (dec_u64 lib) (\<lambda>fees. ret (amount, receiver, chain, fees)))))"

lemma bridge_request_instruction:
  assumes "borsh_ok lib" "counted receiver" "counted chain"
    and "NewBridgeRequestInstruction lib amount receiver chain fees a b c d e f g h i j k l m n = Inr ix"
  shows "ix_Accounts ix =
      [NewAccountMeta a True True, NewAccountMeta b True False, NewAccountMeta c True False, NewAccountMeta d True False,
       NewAccountMeta e True False, NewAccountMeta f True False, NewAccountMeta g False False, NewAccountMeta h False False,
       NewAccountMeta i False False, NewAccountMeta j False False, NewAccountMeta k False False, NewAccountMeta l True False,
       NewAccountMeta m False False, NewAccountMeta n False False]"
    and "parse_discriminated lib Instruction_BridgeRequest msg (bridge_request_params lib) (ix_Data ix) =
      Inr (amount, receiver, chain, fees)"
proof -
  let ?bs = "written (enc_u64 lib amount) @ written (enc_string lib receiver) @ written (enc_string lib chain) @
    written (enc_u64 lib fees) @ []"
  have w: "writes (bind (field lib STR ''amountParam'' (enc_u64 lib amount)) (\<lambda>_.
        bind (field lib STR ''receiverParam'' (enc_string lib receiver)) (\<lambda>_.
        bind (field lib STR ''destinationChainParam'' (enc_string lib chain)) (\<lambda>_.
        bind (field lib STR ''feesParam'' (enc_u64 lib fees)) (\<lambda>_. ret ()))))) ?bs"
    by (rule writes_rules assms)+
  have r: "reads (bridge_request_params lib) ?bs (amount, receiver, chain, fees)"
    unfolding bridge_request_params_def by (rule reads_rules assms | simp)+
  show "ix_Accounts ix = [NewAccountMeta a True True, NewAccountMeta b True False, NewAccountMeta c True False, NewAccountMeta d True False,
       NewAccountMeta e True False, NewAccountMeta f True False, NewAccountMeta g False False, NewAccountMeta h False False,
       NewAccountMeta i False False, NewAccountMeta j False False, NewAccountMeta k False False, NewAccountMeta l True False,
       NewAccountMeta m False False, NewAccountMeta n False False]"
    using assms(4) by (auto simp: NewBridgeRequestInstruction_def dest!: build_instruction_Inr)
  have "ix_Data ix = Instruction_BridgeRequest @ ?bs @ []"
    using assms(4) unfolding NewBridgeRequestInstruction_def build_instruction_writes [OF assms(1) w] by auto
  then show "parse_discriminated lib Instruction_BridgeRequest msg (bridge_request_params lib) (ix_Data ix) =
      Inr (amount, receiver, chain, fees)"
    using parse_discriminated_reads(1) [OF assms(1) _ r, of Instruction_BridgeRequest msg "[]"]
    by (simp add: Instruction_BridgeRequest_def)
qed

lemma bridge_request_options:
  assumes "ApplyOptions [WithProgramID sol p, WithValidatorSetPDA sol, WithVaultPDA sol, WithTokenRegistryPDA sol i,
      WithFeeConfigPDA sol, WithEventAuthorityPDA sol] c = (Inr (), cfg)"
  shows "p \<noteq> 0" "pda_of sol p [VALIDATOR_SET_SEED] (validatorSetPDA cfg)" "pda_of sol p [VAULT_SEED] (vaultPDA cfg)"
    "pda_of sol p [TOKEN_REGISTRY_SEED, le_bytes 2 i] (tokenRegistryPDA cfg)"
    "pda_of sol p [FEE_CONFIG_SEED] (feeConfigPDA cfg)" "pda_of sol p [eventAuthoritySeed] (eventAuthorityPDA cfg)"
    "tokenProgramID cfg = tokenProgramID c" "systemProgramID cfg = systemProgramID c"
    "splAssociatedTokenAccountProgramID cfg = splAssociatedTokenAccountProgramID c"
  using assms by (auto simp: ApplyOptions.simps bind_Inr_iff dest!: options_Inr)

lemma FindAssociatedTokenAddress_meta:
  "FindAssociatedTokenAddress (sl_sol lib) owner mint = Inr (k, bump) \<Longrightarrow> ata_meta lib owner mint (NewAccountMeta k True False)"
  by (auto simp: FindAssociatedTokenAddress_def ata_meta_def split: sum.splits option.splits)

lemma single_Inr:
  "(case xs of [x] \<Rightarrow> f x | _ \<Rightarrow> fail e) s = (Inr a, s') \<longleftrightarrow> (\<exists>x. xs = [x] \<and> f x s = (Inr a, s'))"
  by (auto split: list.splits)

lemma buildBridgingRequest_steps:
  assumes "buildBridgingRequestInstruction lib txSnd tx s = (Inr ix, s')"
  shows "\<exists>receiver sender cfg tokens senderAta b1 vaultAta b2 ix0.
    brd_Receivers tx = [receiver] \<and>
    checkFees (ts_chainConfig txSnd) (brd_BridgingFee tx) (brd_OperationFee tx) = None \<and>
    MinAmountToBridge (ts_chainConfig txSnd) \<le> ta_Amount (btr_TokenAmount receiver) \<and>
    PublicKeyFromAddress (sl_sol lib) (brd_SenderAddr tx) = Inr sender \<and> sol_IsOnCurve (sl_sol lib) sender \<and>
    ValidatePublicKey (sl_sol lib) (TreasuryAddress (ts_chainConfig txSnd)) False = None \<and>
    ApplyOptions [WithProgramID (sl_sol lib) (brd_ProgramID tx), WithValidatorSetPDA (sl_sol lib), WithVaultPDA (sl_sol lib),
      WithTokenRegistryPDA (sl_sol lib) (ta_TokenID (btr_TokenAmount receiver)), WithFeeConfigPDA (sl_sol lib),
      WithEventAuthorityPDA (sl_sol lib)] (ss_instructionConfig s) = (Inr (), cfg) \<and>
    GetAllRegisteredTokens lib txSnd (brd_ProgramID tx) (s\<lparr>ss_instructionConfig := cfg\<rparr>) = (Inr tokens, s') \<and>
    ValidatePublicKey (sl_sol lib) (registered_mint tokens (ta_TokenID (btr_TokenAmount receiver))) True = None \<and>
    FindAssociatedTokenAddress (sl_sol lib) sender (registered_mint tokens (ta_TokenID (btr_TokenAmount receiver))) = Inr (senderAta, b1) \<and>
    FindAssociatedTokenAddress (sl_sol lib) (vaultPDA cfg) (registered_mint tokens (ta_TokenID (btr_TokenAmount receiver))) = Inr (vaultAta, b2) \<and>
    NewBridgeRequestInstruction (sl_borsh lib) (ta_Amount (btr_TokenAmount receiver)) (btr_Address receiver) (brd_DstChainID tx)
      (brd_BridgingFee tx + brd_OperationFee tx) sender (validatorSetPDA cfg) senderAta (vaultPDA cfg) vaultAta
      (registered_mint tokens (ta_TokenID (btr_TokenAmount receiver))) (tokenRegistryPDA cfg) (tokenProgramID cfg) (systemProgramID cfg)
      (splAssociatedTokenAccountProgramID cfg) (feeConfigPDA cfg) (TreasuryAddress (ts_chainConfig txSnd))
      (eventAuthorityPDA cfg) (brd_ProgramID tx) = Inr ix0 \<and>
    ix = NewInstruction (brd_ProgramID tx) (ix_Accounts ix0) (ix_Data ix0)"
proof -
  obtain receiver where r: "brd_Receivers tx = [receiver]"
    using assms by (auto simp: buildBridgingRequestInstruction_def Let_def build_Inr single_Inr)
  show ?thesis
    using assms unfolding buildBridgingRequestInstruction_def Let_def r
    by (auto simp: build_Inr parse_key_Inr apply_options_Inr ValidateAddress_None receivers_below_def withProgramID_def not_less
        split: prod.splits)
qed

text \<open>
  C5. When a bridging request is built, it has passed all its checks: the program ID is not
  zero, both fees meet their minimum, there is exactly one receiver, with at least the least
  amount, the sender's address is on the curve, the configured treasury is a valid address on
  the curve, and the mint that the program's registry gives for the receiver's token, read
  during this build, is a valid key. The instruction runs on the requested program and needs
  the sender's signature only; its data are the receiver's amount and address, the chain and
  the sum of the fees as 64-bit numbers; and its accounts are exactly these fourteen, with these
  flags: the sender, the program's validator set, the sender's token account for that mint, the
  program's vault, the vault's token account, the mint, the token's registry entry, the token,
  system and associated token programs, the fee configuration, the treasury, the event authority
  and the program. Every derived address is the one derived for this program and token, whatever
  the sender's configuration was left with by earlier builds.
\<close>

theorem buildBridgingRequest_sound:
  assumes built: "buildBridgingRequestInstruction lib txSnd tx s = (Inr ix, s')" and lib: "borsh_ok (sl_borsh lib)"
    and fits: "counted (brd_DstChainID tx)" "\<And>r. r \<in> set (brd_Receivers tx) \<Longrightarrow> counted (btr_Address r)"
  shows "\<exists>receiver sender validatorSet senderAta vault vaultAta mint registry feeConfig eventAuthority tokens t.
    brd_ProgramID tx \<noteq> 0 \<and> brd_Receivers tx = [receiver] \<and>
    MinFeeForBridging (ts_chainConfig txSnd) \<le> brd_BridgingFee tx \<and>
    MinOperationFeeAmount (ts_chainConfig txSnd) \<le> brd_OperationFee tx \<and>
    MinAmountToBridge (ts_chainConfig txSnd) \<le> ta_Amount (btr_TokenAmount receiver) \<and>
    PublicKeyFromAddress (sl_sol lib) (brd_SenderAddr tx) = Inr sender \<and> sol_IsOnCurve (sl_sol lib) sender \<and>
    ValidatePublicKey (sl_sol lib) (TreasuryAddress (ts_chainConfig txSnd)) False = None \<and>
    TreasuryAddress (ts_chainConfig txSnd) \<noteq> 0 \<and> sol_IsOnCurve (sl_sol lib) (TreasuryAddress (ts_chainConfig txSnd)) \<and>
    ss_world t = ss_world s \<and> GetAllRegisteredTokens lib txSnd (brd_ProgramID tx) t = (Inr tokens, s') \<and>
    mint = registered_mint tokens (ta_TokenID (btr_TokenAmount receiver)) \<and>
    ValidatePublicKey (sl_sol lib) mint True = None \<and> mint \<noteq> 0 \<and>
    pda_of (sl_sol lib) (brd_ProgramID tx) [VALIDATOR_SET_SEED] validatorSet \<and>
    pda_of (sl_sol lib) (brd_ProgramID tx) [VAULT_SEED] vault \<and>
    pda_of (sl_sol lib) (brd_ProgramID tx) [TOKEN_REGISTRY_SEED, le_bytes 2 (ta_TokenID (btr_TokenAmount receiver))] registry \<and>
    pda_of (sl_sol lib) (brd_ProgramID tx) [FEE_CONFIG_SEED] feeConfig \<and>
    pda_of (sl_sol lib) (brd_ProgramID tx) [eventAuthoritySeed] eventAuthority \<and>
    ata_meta lib sender mint (NewAccountMeta senderAta True False) \<and>
    ata_meta lib vault mint (NewAccountMeta vaultAta True False) \<and>
    ix_ProgramID ix = brd_ProgramID tx \<and> required_signers ix = [sender] \<and>
    ix_Accounts ix =
      [NewAccountMeta sender True True, NewAccountMeta validatorSet True False, NewAccountMeta senderAta True False,
       NewAccountMeta vault True False, NewAccountMeta vaultAta True False, NewAccountMeta mint True False,
       NewAccountMeta registry False False, NewAccountMeta (tokenProgramID (ss_instructionConfig s)) False False,
       NewAccountMeta (systemProgramID (ss_instructionConfig s)) False False,
       NewAccountMeta (splAssociatedTokenAccountProgramID (ss_instructionConfig s)) False False,
       NewAccountMeta feeConfig False False, NewAccountMeta (TreasuryAddress (ts_chainConfig txSnd)) True False,
       NewAccountMeta eventAuthority False False, NewAccountMeta (brd_ProgramID tx) False False] \<and>
    parse_discriminated (sl_borsh lib) Instruction_BridgeRequest msg (bridge_request_params (sl_borsh lib)) (ix_Data ix) =
      Inr (ta_Amount (btr_TokenAmount receiver), btr_Address receiver, brd_DstChainID tx, brd_BridgingFee tx + brd_OperationFee tx)"
proof -
  from buildBridgingRequest_steps [OF built] obtain receiver sender cfg tokens senderAta b1 vaultAta b2 ix0 where
    r: "brd_Receivers tx = [receiver]"
    and facts: "checkFees (ts_chainConfig txSnd) (brd_BridgingFee tx) (brd_OperationFee tx) = None"
      "MinAmountToBridge (ts_chainConfig txSnd) \<le> ta_Amount (btr_TokenAmount receiver)"
      "PublicKeyFromAddress (sl_sol lib) (brd_SenderAddr tx) = Inr sender" "sol_IsOnCurve (sl_sol lib) sender"
      "GetAllRegisteredTokens lib txSnd (brd_ProgramID tx) (s\<lparr>ss_instructionConfig := cfg\<rparr>) = (Inr tokens, s')"
    and keys: "ValidatePublicKey (sl_sol lib) (TreasuryAddress (ts_chainConfig txSnd)) False = None"
      "ValidatePublicKey (sl_sol lib) (registered_mint tokens (ta_TokenID (btr_TokenAmount receiver))) True = None"
    and opts: "ApplyOptions [WithProgramID (sl_sol lib) (brd_ProgramID tx), WithValidatorSetPDA (sl_sol lib), WithVaultPDA (sl_sol lib),
      WithTokenRegistryPDA (sl_sol lib) (ta_TokenID (btr_TokenAmount receiver)), WithFeeConfigPDA (sl_sol lib),
      WithEventAuthorityPDA (sl_sol lib)] (ss_instructionConfig s) = (Inr (), cfg)"
    and ata: "FindAssociatedTokenAddress (sl_sol lib) sender (registered_mint tokens (ta_TokenID (btr_TokenAmount receiver))) = Inr (senderAta, b1)"
      "FindAssociatedTokenAddress (sl_sol lib) (vaultPDA cfg) (registered_mint tokens (ta_TokenID (btr_TokenAmount receiver))) = Inr (vaultAta, b2)"
    and ix0: "NewBridgeRequestInstruction (sl_borsh lib) (ta_Amount (btr_TokenAmount receiver)) (btr_Address receiver) (brd_DstChainID tx)
      (brd_BridgingFee tx + brd_OperationFee tx) sender (validatorSetPDA cfg) senderAta (vaultPDA cfg) vaultAta
      (registered_mint tokens (ta_TokenID (btr_TokenAmount receiver))) (tokenRegistryPDA cfg) (tokenProgramID cfg) (systemProgramID cfg)
      (splAssociatedTokenAccountProgramID cfg) (feeConfigPDA cfg) (TreasuryAddress (ts_chainConfig txSnd))
      (eventAuthorityPDA cfg) (brd_ProgramID tx) = Inr ix0"
    and ix: "ix = NewInstruction (brd_ProgramID tx) (ix_Accounts ix0) (ix_Data ix0)"
    by blast
  have "counted (btr_Address receiver)" using fits(2) r by simp
  note data = bridge_request_instruction [OF lib this fits(1) ix0]
  note cfg = bridge_request_options [OF opts]
  have ids: "ix_ProgramID ix = brd_ProgramID tx" "ix_Data ix = ix_Data ix0" "ix_Accounts ix = ix_Accounts ix0"
    "required_signers ix = [sender]"
    by (simp_all add: ix data(1) required_signers_def)
  have "ss_world (s\<lparr>ss_instructionConfig := cfg\<rparr>) = ss_world s" by simp
  note all = this r facts keys cfg(1-6) ids(1,4) ValidatePublicKey_None [OF keys(1), THEN conjunct1]
    ValidatePublicKey_None [OF keys(1), simplified, THEN conjunct2] ValidatePublicKey_None [OF keys(2), THEN conjunct1]
    facts(1) [unfolded checkFees_None, THEN conjunct1] facts(1) [unfolded checkFees_None, THEN conjunct2]
    FindAssociatedTokenAddress_meta [OF ata(1)] FindAssociatedTokenAddress_meta [OF ata(2)]
    data(2) [of msg, folded ids(2)] data(1) [folded ids(3), unfolded cfg(7-9)]
  show ?thesis
    by (rule exI [of _ receiver], rule exI [of _ sender], rule exI [of _ "validatorSetPDA cfg"], rule exI [of _ senderAta],
        rule exI [of _ "vaultPDA cfg"], rule exI [of _ vaultAta],
        rule exI [of _ "registered_mint tokens (ta_TokenID (btr_TokenAmount receiver))"],
        rule exI [of _ "tokenRegistryPDA cfg"], rule exI [of _ "feeConfigPDA cfg"], rule exI [of _ "eventAuthorityPDA cfg"],
        rule exI [of _ tokens], rule exI [of _ "s\<lparr>ss_instructionConfig := cfg\<rparr>"])
      (intro conjI; (rule all refl))
qed

text \<open>A library, a provider and requests to evaluate the sender on.\<close>

definition example_sol :: solana_lib where
  "example_sol =
     \<lparr>sol_PublicKeyFromBase58 = \<lambda>s. if s = '''' then Inl (ExtErr STR ''zero length string'') else Inr (of_nat (length s)),
      sol_PublicKey_String = \<lambda>k. ''key'', sol_IsOnCurve = \<lambda>k. True,
      sol_FindProgramAddress = \<lambda>seeds p. Inr (p + of_nat (length (concat seeds)), 255),
      sol_FindAssociatedTokenAddress = \<lambda>owner mint. Inr (owner + 1000 * mint, 254),
      sol_TokenProgramID = 101, sol_TokenMetadataProgramID = 102, sol_SystemProgramID = 0,
      sol_SPLAssociatedTokenAccountProgramID = 103, sol_SysVarRentPubkey = 104, sol_SysVarInstructionsPubkey = 105,
      sol_BPFLoaderUpgradeableProgramID = 106, sol_ComputeBudget = 107\<rparr>"

definition example_sendtx_lib :: sendtx_lib where
  "example_sendtx_lib =
     \<lparr>sl_sol = example_sol, sl_borsh = plain_borsh,
      system_NewTransferInstruction = \<lambda>n a b. NewInstruction 0 [NewAccountMeta a True True, NewAccountMeta b True False] (le_bytes 8 n),
      token_NewTransferInstruction = \<lambda>n a b owner ks. NewInstruction 101 [NewAccountMeta a True False, NewAccountMeta b True False] (le_bytes 8 n),
      ata_NewCreateInstruction = \<lambda>p w m. NewInstruction 103 [NewAccountMeta p True True] [],
      cb_NewSetComputeUnitLimitInstruction = \<lambda>n. Inr (NewInstruction 107 [] (2 # le_bytes 4 n)),
      cb_DecodeInstruction = \<lambda>accs d. Inr (SetComputeUnitLimit (le_word (drop 1 d)))\<rparr>"

text \<open>Token \<open>1\<close> is registered with the mint \<open>9\<close>, token \<open>2\<close> with \<open>10\<close>.\<close>

definition example_registry :: "u16 \<Rightarrow> PublicKey \<Rightarrow> KeyedAccount option" where
  "example_registry tokenID mint = Some \<lparr>ka_Pubkey = 55,
     ka_Data = Some (Account_TokenRegistry @ le_bytes 2 tokenID @ key_bytes mint @ [1] @ le_bytes 8 (3 :: u64) @ [255])\<rparr>"

definition example_sender :: "(unit, Instruction list) TxSender" where
  "example_sender =
     \<lparr>ts_txProvider = \<lparr>pv_SendTransaction = \<lambda>tx. ret 1, pv_GetAccountInfo = \<lambda>k. ret None,
        pv_GetProgramAccounts = \<lambda>p fs. ret [example_registry 1 9, example_registry 2 10]\<rparr>,
      ts_chainConfig = \<lparr>MinAmountToBridge = 10, MinFeeForBridging = 2, MinOperationFeeAmount = 1, TreasuryAddress = 77,
        CurrencyTokenID = 0\<rparr>\<rparr>"

definition example_sender_state :: "unit sender_state" where
  "example_sender_state =
     \<lparr>ss_instructionConfig = (case NewInstructionConfig example_sol [] of Inr c \<Rightarrow> c | Inl _ \<Rightarrow> undefined), ss_world = ()\<rparr>"

definition example_request :: BridgeRequestDto where
  "example_request =
     \<lparr>brd_ProgramID = 500, brd_DstChainID = ''nexus'', brd_SenderAddr = ''sender'',
      brd_Receivers = [\<lparr>btr_Address = ''0xff'', btr_TokenAmount = \<lparr>ta_TokenID = 1, ta_Amount = 12\<rparr>\<rparr>],
      brd_BridgingFee = 2, brd_OperationFee = 1\<rparr>"

lemma example_request_built:
  "\<exists>ix s'. buildBridgingRequestInstruction example_sendtx_lib example_sender example_request example_sender_state = (Inr ix, s')"
proof -
  have "(case fst (buildBridgingRequestInstruction example_sendtx_lib example_sender example_request example_sender_state) of
     Inr ix \<Rightarrow> True | Inl _ \<Rightarrow> False) = True"
    by code_simp
  then show ?thesis
    by (cases "buildBridgingRequestInstruction example_sendtx_lib example_sender example_request example_sender_state")
       (auto split: sum.splits)
qed

theorem buildBridgingRequest_sound_witness:
  "\<exists>ix s'. buildBridgingRequestInstruction example_sendtx_lib example_sender example_request example_sender_state = (Inr ix, s') \<and>
    required_signers ix = [6] \<and>
    parse_discriminated plain_borsh Instruction_BridgeRequest STR '''' (bridge_request_params plain_borsh) (ix_Data ix) =
      Inr (12, ''0xff'', ''nexus'', 3)"
proof -
  obtain ix s' where built:
    "buildBridgingRequestInstruction example_sendtx_lib example_sender example_request example_sender_state = (Inr ix, s')"
    using example_request_built by blast
  have sol: "sl_sol example_sendtx_lib = example_sol" "sl_borsh example_sendtx_lib = plain_borsh"
    by (simp_all add: example_sendtx_lib_def)
  have "PublicKeyFromAddress example_sol ''sender'' = Inr 6"
    by (simp add: PublicKeyFromAddress_def example_sol_def)
  moreover have "counted (brd_DstChainID example_request)" "\<And>r. r \<in> set (brd_Receivers example_request) \<Longrightarrow> counted (btr_Address r)"
    by (auto simp: example_request_def counted_def)
  ultimately show ?thesis
    using buildBridgingRequest_sound [OF built, unfolded sol, OF plain_borsh_ok, of "STR ''''"] built
    by (fastforce simp: example_request_def)
qed

section \<open>Batches\<close>

lemma buildBridgeTransaction_steps:
  assumes "buildBridgeTransactionInstruction lib txSnd tx s = (Inr ixs, s')"
  shows "\<exists>sender cfg c tokens t t' mints ids items bix out ed.
    PublicKeyFromAddress (sl_sol lib) (btd_SenderAddr tx) = Inr sender \<and> sol_IsOnCurve (sl_sol lib) sender \<and>
    ApplyOptions [WithProgramID (sl_sol lib) (btd_ProgramID tx), WithValidatorSetPDA (sl_sol lib), WithVaultPDA (sl_sol lib),
      WithEventAuthorityPDA (sl_sol lib)] c = (Inr (), cfg) \<and>
    GetAllRegisteredTokens lib txSnd (btd_ProgramID tx) t = (Inr tokens, t') \<and>
    deriveBridgeMintsAndTransfers lib (btd_Receivers tx) tokens = Inr (mints, ids, items) \<and>
    NewBridgeTransactionInstruction (sl_borsh lib) sender (validatorSetPDA cfg) (vaultPDA cfg) (tokenProgramID cfg)
      (systemProgramID cfg) (splAssociatedTokenAccountProgramID cfg) (sol_SysVarInstructionsPubkey (sl_sol lib))
      (eventAuthorityPDA cfg) (btd_ProgramID tx) = Inr bix \<and>
    bridgeTransactionRemainingAccounts lib (vaultPDA cfg) (btd_ProgramID tx) mints ids items = Inr out \<and>
    buildBatchedEd25519Instruction (btd_SignaturePairs tx) (btd_PayloadBytes tx) = Inr ed \<and>
    (\<exists>pre. ixs = pre @ [ed, NewInstruction (btd_ProgramID tx) (ix_Accounts bix @ out) (ix_Data bix)] \<and>
      (if length (btd_Receivers tx) = 5
       then \<exists>cb. cb_NewSetComputeUnitLimitInstruction lib 400000 = Inr cb \<and> pre = [cb] else pre = []))"
  using assms unfolding buildBridgeTransactionInstruction_def Let_def MaxBridgeTransactionReceivers_def
    BridgeTransactionMaxReceiversComputeUnitLimit_def
  by (auto simp: build_Inr parse_key_Inr apply_options_Inr ValidateAddress_None split: prod.splits)
    (intro exI conjI; (assumption | rule refl | simp))+

lemma batch_options:
  assumes "ApplyOptions [WithProgramID sol p, WithValidatorSetPDA sol, WithVaultPDA sol, WithEventAuthorityPDA sol] c = (Inr (), cfg)"
  shows "p \<noteq> 0" "pda_of sol p [VALIDATOR_SET_SEED] (validatorSetPDA cfg)" "pda_of sol p [VAULT_SEED] (vaultPDA cfg)"
    "pda_of sol p [eventAuthoritySeed] (eventAuthorityPDA cfg)"
  using assms by (auto simp: ApplyOptions.simps bind_Inr_iff dest!: options_Inr)

lemma no_signers_list_all2:
  "list_all2 P xs out \<Longrightarrow> (\<And>x a. P x a \<Longrightarrow> \<not> am_IsSigner a) \<Longrightarrow> filter am_IsSigner out = []"
  by (induction rule: list_all2_induct) auto

lemma registry_no_signers: "list_all2 (registry_meta lib p) ids out \<Longrightarrow> filter am_IsSigner out = []"
  by (erule no_signers_list_all2) (simp add: registry_meta_def)

lemma ata_no_signers: "list_all2 (\<lambda>x. ata_meta lib (f x) (g x)) xs out \<Longrightarrow> filter am_IsSigner out = []"
  by (erule no_signers_list_all2) (simp add: ata_meta_def)

lemma batch_accounts_no_signers: "batch_accounts lib vault programID tokens receivers out \<Longrightarrow> filter am_IsSigner out = []"
  by (auto simp: batch_accounts_def Let_def comp_def registry_no_signers ata_no_signers [of lib "\<lambda>_. vault" "\<lambda>m. m"]
      ata_no_signers [of lib pr_Address])

lemma bridge_transaction_instruction:
  assumes "NewBridgeTransactionInstruction lib a b c d e f g h i = Inr ix"
  shows "ix_Accounts ix =
    [NewAccountMeta a True True, NewAccountMeta b True False, NewAccountMeta c True False, NewAccountMeta d False False,
     NewAccountMeta e False False, NewAccountMeta f False False, NewAccountMeta g False False, NewAccountMeta h False False,
     NewAccountMeta i False False]"
  using assms by (auto simp: NewBridgeTransactionInstruction_def dest!: build_instruction_Inr)

text \<open>
  C8. A batch that could be built for at most 256 receivers ends in the Ed25519 instruction and
  the batch instruction, which runs on the requested program and needs the sender's signature
  only. Behind its nine fixed accounts come, with no gap: the registered mints of the receivers'
  tokens, each once and in the order they are first seen; every receiver; a token registry for
  each mint; every receiver's token account for the mint of its own token; and the vault's token
  account for each mint. The indexes the code carries between the two loops never mix them up.
\<close>

theorem buildBridgeTransaction_accounts:
  assumes built: "buildBridgeTransactionInstruction lib txSnd tx s = (Inr ixs, s')"
    and few: "length (btd_Receivers tx) \<le> 256"
  shows "\<exists>pre ed batch sender vault tokens t t'. ixs = pre @ [ed, batch] \<and>
    ix_ProgramID ed = Ed25519ProgramID \<and> ix_ProgramID batch = btd_ProgramID tx \<and>
    PublicKeyFromAddress (sl_sol lib) (btd_SenderAddr tx) = Inr sender \<and> sol_IsOnCurve (sl_sol lib) sender \<and>
    required_signers batch = [sender] \<and>
    pda_of (sl_sol lib) (btd_ProgramID tx) [VAULT_SEED] vault \<and> ix_Accounts batch ! 2 = NewAccountMeta vault True False \<and>
    GetAllRegisteredTokens lib txSnd (btd_ProgramID tx) t = (Inr tokens, t') \<and>
    batch_accounts lib vault (btd_ProgramID tx) tokens (btd_Receivers tx) (drop 9 (ix_Accounts batch))"
proof -
  from buildBridgeTransaction_steps [OF built] obtain sender cfg c tokens t t' mints ids items bix out ed pre where
    sender: "PublicKeyFromAddress (sl_sol lib) (btd_SenderAddr tx) = Inr sender" "sol_IsOnCurve (sl_sol lib) sender"
    and opts: "ApplyOptions [WithProgramID (sl_sol lib) (btd_ProgramID tx), WithValidatorSetPDA (sl_sol lib),
      WithVaultPDA (sl_sol lib), WithEventAuthorityPDA (sl_sol lib)] c = (Inr (), cfg)"
    and tokens: "GetAllRegisteredTokens lib txSnd (btd_ProgramID tx) t = (Inr tokens, t')"
    and derived: "deriveBridgeMintsAndTransfers lib (btd_Receivers tx) tokens = Inr (mints, ids, items)"
    and bix: "NewBridgeTransactionInstruction (sl_borsh lib) sender (validatorSetPDA cfg) (vaultPDA cfg) (tokenProgramID cfg)
      (systemProgramID cfg) (splAssociatedTokenAccountProgramID cfg) (sol_SysVarInstructionsPubkey (sl_sol lib))
      (eventAuthorityPDA cfg) (btd_ProgramID tx) = Inr bix"
    and out: "bridgeTransactionRemainingAccounts lib (vaultPDA cfg) (btd_ProgramID tx) mints ids items = Inr out"
    and ed: "buildBatchedEd25519Instruction (btd_SignaturePairs tx) (btd_PayloadBytes tx) = Inr ed"
    and ixs: "ixs = pre @ [ed, NewInstruction (btd_ProgramID tx) (ix_Accounts bix @ out) (ix_Data bix)]"
    by blast
  note layout = batch_accounts_built [OF derived few out]
  note fixed = bridge_transaction_instruction [OF bix]
  have "ix_ProgramID ed = Ed25519ProgramID" using ed by (auto simp: build_Inr_iff)
  moreover have "required_signers (NewInstruction (btd_ProgramID tx) (ix_Accounts bix @ out) (ix_Data bix)) = [sender]"
    using batch_accounts_no_signers [OF layout] by (simp add: required_signers_def fixed)
  ultimately show ?thesis
    using ixs sender tokens batch_options(3) [OF opts] layout
    by (intro exI [of _ pre] exI [of _ ed] exI [of _ "NewInstruction (btd_ProgramID tx) (ix_Accounts bix @ out) (ix_Data bix)"]
        exI [of _ sender] exI [of _ "vaultPDA cfg"] exI [of _ tokens] exI [of _ t] exI [of _ t']) (simp add: fixed)
qed

definition example_batch :: BridgeTransactionDto where
  "example_batch =
     \<lparr>btd_ProgramID = 500, btd_SenderAddr = ''sender'',
      btd_Receivers = [\<lparr>pr_Address = 21, pr_TokenAmount = \<lparr>ta_TokenID = 2, ta_Amount = 5\<rparr>\<rparr>,
        \<lparr>pr_Address = 22, pr_TokenAmount = \<lparr>ta_TokenID = 1, ta_Amount = 6\<rparr>\<rparr>,
        \<lparr>pr_Address = 23, pr_TokenAmount = \<lparr>ta_TokenID = 2, ta_Amount = 7\<rparr>\<rparr>],
      btd_PayloadBytes = [1, 2, 3], btd_SignaturePairs = [(31, 41), (32, 42)]\<rparr>"

lemma example_batch_built:
  "\<exists>ixs s'. buildBridgeTransactionInstruction example_sendtx_lib example_sender example_batch example_sender_state = (Inr ixs, s')"
proof -
  have "(case fst (buildBridgeTransactionInstruction example_sendtx_lib example_sender example_batch example_sender_state) of
     Inr ixs \<Rightarrow> True | Inl _ \<Rightarrow> False) = True"
    by code_simp
  then show ?thesis
    by (cases "buildBridgeTransactionInstruction example_sendtx_lib example_sender example_batch example_sender_state")
       (auto split: sum.splits)
qed

theorem buildBridgeTransaction_accounts_witness:
  "\<exists>ixs s' batch vault tokens.
     buildBridgeTransactionInstruction example_sendtx_lib example_sender example_batch example_sender_state = (Inr ixs, s') \<and>
     batch = last ixs \<and> required_signers batch = [6] \<and>
     batch_accounts example_sendtx_lib vault 500 tokens (btd_Receivers example_batch) (drop 9 (ix_Accounts batch))"
proof -
  obtain ixs s' where built:
    "buildBridgeTransactionInstruction example_sendtx_lib example_sender example_batch example_sender_state = (Inr ixs, s')"
    using example_batch_built by blast
  have few: "length (btd_Receivers example_batch) \<le> 256" and ids: "btd_ProgramID example_batch = 500" "btd_SenderAddr example_batch = ''sender''"
    by (simp_all add: example_batch_def)
  have "PublicKeyFromAddress (sl_sol example_sendtx_lib) ''sender'' = Inr 6"
    by (simp add: PublicKeyFromAddress_def example_sol_def example_sendtx_lib_def)
  then show ?thesis
    using buildBridgeTransaction_accounts [OF built few] built unfolding ids by fastforce
qed

section \<open>From the sender to the tracker\<close>

text \<open>
  Compiled instructions name their program by its index among the account keys; \<open>builder_ok\<close> is
  what the transaction builder promises about them.
\<close>

definition compiled :: "PublicKey list \<Rightarrow> Instruction list \<Rightarrow> CompiledInstruction list \<Rightarrow> bool" where
  "compiled keys ixs cis \<longleftrightarrow> list_all2 (\<lambda>ix ci. unat (ci_ProgramIDIndex ci) < length keys \<and>
     keys ! unat (ci_ProgramIDIndex ci) = ix_ProgramID ix \<and> ci_Data ci = ix_Data ix) ixs cis"

definition builder_ok :: "'tx tx_builder \<Rightarrow> ('tx \<Rightarrow> PublicKey list) \<Rightarrow> ('tx \<Rightarrow> CompiledInstruction list) \<Rightarrow> bool" where
  "builder_ok tb keys cis \<longleftrightarrow>
     (\<forall>h payer ixs opts t. tb_Build tb h payer ixs opts = Inr t \<longrightarrow> compiled (keys t) ixs (cis t)) \<and>
     (\<forall>t t'. tb_SetVersionV0 tb t = Inr t' \<longrightarrow> keys t' = keys t \<and> cis t' = cis t)"

text \<open>The instructions that are sent: with lookup tables all, else those that the v1 header leaves.\<close>

lemma CreateTx_batch_steps:
  assumes "CreateTx lib tb txSnd payer InstructionTypeBridgeTransaction hash (Dto_BridgeTransaction dto) opts s = (Inr t, s')"
    and "builder_ok tb keys cis"
  shows "\<exists>ixs s1 sent. buildBridgeTransactionInstruction lib txSnd dto s = (Inr ixs, s1) \<and> compiled (keys t) sent (cis t) \<and>
    (sent = ixs \<or> (\<exists>cfg. inlineComputeBudget lib ixs = Inr (sent, cfg)))"
  using assms unfolding CreateTx_def Let_def buildInstructions_def
  by (auto simp: build_Inr instruction_type_defs usesV1Message_def builder_ok_def split: prod.splits if_splits) blast+

lemma compiled_last_two:
  assumes "compiled keys (pre @ [ed, batch]) cis"
  shows "\<exists>i. Suc i < length cis \<and> length cis = Suc (Suc i) \<and>
    unat (ci_ProgramIDIndex (cis ! i)) < length keys \<and> keys ! unat (ci_ProgramIDIndex (cis ! i)) = ix_ProgramID ed \<and>
    ci_Data (cis ! i) = ix_Data ed \<and>
    unat (ci_ProgramIDIndex (cis ! Suc i)) < length keys \<and> keys ! unat (ci_ProgramIDIndex (cis ! Suc i)) = ix_ProgramID batch"
  using assms unfolding compiled_def list_all2_conv_all_nth
  by (intro exI [of _ "length pre"]) (auto simp: nth_append dest: spec [of _ "length pre"] spec [of _ "Suc (length pre)"])

lemma buildBridgeTransaction_end:
  assumes "buildBridgeTransactionInstruction lib txSnd tx s = (Inr ixs, s')"
  shows "\<exists>pre ed batch. ixs = pre @ [ed, batch] \<and> ix_ProgramID ed = Ed25519ProgramID \<and> ix_ProgramID batch = btd_ProgramID tx \<and>
    buildBatchedEd25519Instruction (btd_SignaturePairs tx) (btd_PayloadBytes tx) = Inr ed \<and>
    (if length (btd_Receivers tx) = 5
     then \<exists>cb. cb_NewSetComputeUnitLimitInstruction lib 400000 = Inr cb \<and> pre = [cb] else pre = [])"
  using buildBridgeTransaction_steps [OF assms]
  by (elim exE conjE) (intro exI conjI, assumption, simp add: build_Inr_iff, simp, simp, assumption)

lemma batch_keeps_end:
  assumes "sol_ComputeBudget (sl_sol lib) \<noteq> ix_ProgramID ed" "sol_ComputeBudget (sl_sol lib) \<noteq> ix_ProgramID batch"
    and "sent = pre @ [ed, batch] \<or> (\<exists>cfg. inlineComputeBudget lib (pre @ [ed, batch]) = Inr (sent, cfg))"
  shows "\<exists>pre'. sent = pre' @ [ed, batch]"
  using assms by (auto dest!: inlineComputeBudget_Inr(1))

text \<open>
  C6. The two ends of the bridge agree: in every transaction that \<open>CreateTx\<close> makes for a batch,
  with lookup tables or as a v1 message with its compute budget moved into the header, the last
  instruction runs on the batch's program, and for an event of that instruction with the batch's
  ID the tracker finds exactly the payload the validators signed.
\<close>

theorem CreateTx_batch_read_by_tracker:
  assumes created: "CreateTx lib tb txSnd payer InstructionTypeBridgeTransaction hash (Dto_BridgeTransaction dto) opts s = (Inr t, s')"
    and builder: "builder_ok tb keys cis"
    and payload: "dec (btd_PayloadBytes dto) = Inr payload" "length (btd_PayloadBytes dto) < 65536"
    and budget: "sol_ComputeBudget (sl_sol lib) \<noteq> Ed25519ProgramID" "sol_ComputeBudget (sl_sol lib) \<noteq> btd_ProgramID dto"
  shows "\<exists>i. length (cis t) = Suc i \<and> keys t ! unat (ci_ProgramIDIndex (cis t ! i)) = btd_ProgramID dto \<and>
    findBatchPayloadAtInstruction dec (cis t) (keys t) (int i) (sp_BatchID payload) = Inr payload"
proof -
  from CreateTx_batch_steps [OF created builder] obtain ixs s1 sent where
    built: "buildBridgeTransactionInstruction lib txSnd dto s = (Inr ixs, s1)" and sent: "compiled (keys t) sent (cis t)"
      "sent = ixs \<or> (\<exists>cfg. inlineComputeBudget lib ixs = Inr (sent, cfg))"
    by blast
  from buildBridgeTransaction_end [OF built] obtain pre ed batch where
    ixs: "ixs = pre @ [ed, batch]" and ids: "ix_ProgramID ed = Ed25519ProgramID" "ix_ProgramID batch = btd_ProgramID dto"
    and ed: "buildBatchedEd25519Instruction (btd_SignaturePairs dto) (btd_PayloadBytes dto) = Inr ed"
    by blast
  have "\<exists>pre'. sent = pre' @ [ed, batch]"
    by (rule batch_keeps_end) (use budget ids sent(2) ixs in simp_all)
  then obtain i where i: "Suc i < length (cis t)" "length (cis t) = Suc (Suc i)"
    "unat (ci_ProgramIDIndex (cis t ! i)) < length (keys t)" "keys t ! unat (ci_ProgramIDIndex (cis t ! i)) = Ed25519ProgramID"
    "ci_Data (cis t ! i) = ix_Data ed" "keys t ! unat (ci_ProgramIDIndex (cis t ! Suc i)) = btd_ProgramID dto"
    using compiled_last_two sent(1) ids by metis
  show ?thesis
    using findBatchPayload_built [where dec = dec and p = payload and i = i and ins = "cis t" and keys = "keys t",
        OF ed payload(2,1) i(1,5,3,4)] i(2,6) by blast
qed

text \<open>A builder whose transactions are the instructions themselves, each program a key of its own.\<close>

definition example_builder :: "Instruction list tx_builder" where
  "example_builder =
     \<lparr>tb_Build = \<lambda>h payer ixs opts. if length ixs < 65536 then Inr ixs else Inl (ExtErr STR ''too large''),
      tb_SetVersionV0 = Inr, tb_Signatures = \<lambda>t. []\<rparr>"

definition example_keys :: "Instruction list \<Rightarrow> PublicKey list" where
  "example_keys ixs = map ix_ProgramID ixs"

definition example_cis :: "Instruction list \<Rightarrow> CompiledInstruction list" where
  "example_cis ixs = map (\<lambda>i. \<lparr>ci_ProgramIDIndex = if length ixs < 65536 then of_nat i else 0, ci_Accounts = [], ci_Data = ix_Data (ixs ! i)\<rparr>)
     [0..<length ixs]"

lemma example_builder_ok: "builder_ok example_builder example_keys example_cis"
  by (auto simp: builder_ok_def example_builder_def compiled_def list_all2_conv_all_nth example_keys_def example_cis_def
      unsigned_of_nat take_bit_nat_eq_self split: if_splits)

lemma buildInstructions_batch:
  "buildInstructions lib txSnd InstructionTypeBridgeTransaction (Dto_BridgeTransaction dto) = buildBridgeTransactionInstruction lib txSnd dto"
  by (simp add: buildInstructions_def instruction_type_defs)

lemma CreateTx_v1:
  assumes "buildBridgeTransactionInstruction lib txSnd dto s = (Inr ixs, s')" "inlineComputeBudget lib ixs = Inr (sent, cfg)"
    "tb_Build tb hash payer sent [TransactionV1Config cfg] = Inr t"
  shows "CreateTx lib tb txSnd payer InstructionTypeBridgeTransaction hash (Dto_BridgeTransaction dto) [] s = (Inr t, s')"
  using assms
  by (simp add: CreateTx_def Let_def buildInstructions_batch applyCreateTxOptions_def usesV1Message_def exec_defs)

lemma example_inline: "\<exists>sent cfg. inlineComputeBudget example_sendtx_lib ixs = Inr (sent, cfg)"
proof -
  have "\<exists>out. inline_loop example_sendtx_lib ixs rem cfg = Inr out" for rem cfg
    by (induction ixs arbitrary: rem cfg) (auto simp: example_sendtx_lib_def)
  from this [of "[]" "\<lparr>tcf_ComputeUnitLimit = None, tcf_LoadedAccountsDataSizeLimit = None\<rparr>"]
  obtain rem cfg where
    "inline_loop example_sendtx_lib ixs [] \<lparr>tcf_ComputeUnitLimit = None, tcf_LoadedAccountsDataSizeLimit = None\<rparr> = Inr (rem, cfg)"
    by auto
  then show ?thesis by (simp add: inlineComputeBudget_def Let_def)
qed

lemma example_batch_created:
  "\<exists>t s'. CreateTx example_sendtx_lib example_builder example_sender 6 InstructionTypeBridgeTransaction 0
     (Dto_BridgeTransaction example_batch) [] example_sender_state = (Inr t, s')"
proof -
  obtain ixs s' where built:
    "buildBridgeTransactionInstruction example_sendtx_lib example_sender example_batch example_sender_state = (Inr ixs, s')"
    using example_batch_built by blast
  obtain sent cfg where inlined: "inlineComputeBudget example_sendtx_lib ixs = Inr (sent, cfg)"
    using example_inline by blast
  have "length ixs = 2"
    using buildBridgeTransaction_steps [OF built] by (auto simp: example_batch_def)
  then have "length sent < 65536"
    using inlineComputeBudget_Inr(1) [OF inlined] length_filter_le [of "\<lambda>ix. ix_ProgramID ix \<noteq> sol_ComputeBudget (sl_sol example_sendtx_lib)" ixs]
    by simp
  then have "tb_Build example_builder 0 6 sent [TransactionV1Config cfg] = Inr sent"
    by (simp add: example_builder_def)
  from CreateTx_v1 [OF built inlined this] show ?thesis by blast
qed

definition example_payload :: SolanaPayload where
  "example_payload = \<lparr>sp_Blockhash = 0, sp_Receivers = [], sp_FeeAmount = 1, sp_BatchID = 7\<rparr>"

theorem CreateTx_batch_read_by_tracker_witness:
  "\<exists>t s' i. CreateTx example_sendtx_lib example_builder example_sender 6 InstructionTypeBridgeTransaction 0
      (Dto_BridgeTransaction example_batch) [] example_sender_state = (Inr t, s') \<and>
    findBatchPayloadAtInstruction (\<lambda>b. Inr example_payload) (example_cis t) (example_keys t) (int i) 7 = Inr example_payload"
proof -
  obtain t s' where created: "CreateTx example_sendtx_lib example_builder example_sender 6 InstructionTypeBridgeTransaction 0
     (Dto_BridgeTransaction example_batch) [] example_sender_state = (Inr t, s')"
    using example_batch_created by blast
  have "length (btd_PayloadBytes example_batch) < 65536" by (simp add: example_batch_def)
  moreover have "sol_ComputeBudget (sl_sol example_sendtx_lib) \<noteq> Ed25519ProgramID"
    "sol_ComputeBudget (sl_sol example_sendtx_lib) \<noteq> btd_ProgramID example_batch"
    by (simp_all add: example_sendtx_lib_def example_sol_def Ed25519ProgramID_def example_batch_def)
  moreover have "sp_BatchID example_payload = 7" by (simp add: example_payload_def)
  ultimately show ?thesis
    using CreateTx_batch_read_by_tracker [OF created example_builder_ok, of "\<lambda>b. Inr example_payload" example_payload] created
    by auto
qed

section \<open>The compute budget of a batch\<close>

text \<open>What the builder of the compute budget program promises: its instruction decodes to its limit.\<close>

definition compute_budget_ok :: "sendtx_lib \<Rightarrow> bool" where
  "compute_budget_ok lib \<longleftrightarrow> (\<forall>n ix. cb_NewSetComputeUnitLimitInstruction lib n = Inr ix \<longrightarrow>
     ix_ProgramID ix = sol_ComputeBudget (sl_sol lib) \<and>
     cb_DecodeInstruction lib (ix_Accounts ix) (ix_Data ix) = Inr (SetComputeUnitLimit n))"

lemma defaultComputeUnitLimit_2: "defaultComputeUnitLimit 2 = 400000"
  by (simp add: defaultComputeUnitLimit_def MaxComputeUnitLimit_def DefaultComputeUnitLimitPerInstruction_def unat_div)

text \<open>
  C40. The v1 message of a batch carries exactly the Ed25519 instruction and the batch
  instruction, next to each other, no compute budget instruction is left in it, and its header
  sets both limits. The compute unit limit is 400000 for every number of receivers: the
  instruction that the code adds for five of them asks for what two instructions get anyway.
\<close>

theorem batch_compute_budget:
  assumes built: "buildBridgeTransactionInstruction lib txSnd tx s = (Inr ixs, s')"
    and inlined: "inlineComputeBudget lib ixs = Inr (sent, cfg)" and lib: "compute_budget_ok lib"
    and budget: "sol_ComputeBudget (sl_sol lib) \<noteq> Ed25519ProgramID" "sol_ComputeBudget (sl_sol lib) \<noteq> btd_ProgramID tx"
  shows "\<exists>ed batch. sent = [ed, batch] \<and> ix_ProgramID ed = Ed25519ProgramID \<and> ix_ProgramID batch = btd_ProgramID tx \<and>
    cfg = \<lparr>tcf_ComputeUnitLimit = Some 400000, tcf_LoadedAccountsDataSizeLimit = Some (64 * 1024 * 1024)\<rparr>"
proof -
  from buildBridgeTransaction_end [OF built] obtain pre ed batch where
    ixs: "ixs = pre @ [ed, batch]" and ids: "ix_ProgramID ed = Ed25519ProgramID" "ix_ProgramID batch = btd_ProgramID tx"
    and pre: "if length (btd_Receivers tx) = 5
       then \<exists>cb. cb_NewSetComputeUnitLimitInstruction lib 400000 = Inr cb \<and> pre = [cb] else pre = []"
    by blast
  have "inline_loop lib ixs [] \<lparr>tcf_ComputeUnitLimit = None, tcf_LoadedAccountsDataSizeLimit = None\<rparr> =
    Inr ([ed, batch], \<lparr>tcf_ComputeUnitLimit = (if length (btd_Receivers tx) = 5 then Some 400000 else None),
      tcf_LoadedAccountsDataSizeLimit = None\<rparr>)"
    using pre lib budget ids unfolding ixs compute_budget_ok_def by (auto split: if_splits)
  then show ?thesis
    using inlined ids
    by (auto simp: inlineComputeBudget_def Let_def defaultComputeUnitLimit_2 [simplified numeral_2_eq_2] numeral_2_eq_2
        MaxLoadedAccountsDataSizeBytes_def split: if_splits)
qed

theorem batch_compute_budget_witness:
  "\<exists>ixs s' sent cfg. buildBridgeTransactionInstruction example_sendtx_lib example_sender example_batch example_sender_state = (Inr ixs, s') \<and>
     inlineComputeBudget example_sendtx_lib ixs = Inr (sent, cfg) \<and> tcf_ComputeUnitLimit cfg = Some 400000"
proof -
  obtain ixs s' where built:
    "buildBridgeTransactionInstruction example_sendtx_lib example_sender example_batch example_sender_state = (Inr ixs, s')"
    using example_batch_built by blast
  obtain sent cfg where inlined: "inlineComputeBudget example_sendtx_lib ixs = Inr (sent, cfg)"
    using example_inline by blast
  have "compute_budget_ok example_sendtx_lib"
    by (simp add: compute_budget_ok_def example_sendtx_lib_def example_sol_def le_word_le_bytes del: le_bytes.simps)
  moreover have "sol_ComputeBudget (sl_sol example_sendtx_lib) \<noteq> Ed25519ProgramID"
    "sol_ComputeBudget (sl_sol example_sendtx_lib) \<noteq> btd_ProgramID example_batch"
    by (simp_all add: example_sendtx_lib_def example_sol_def Ed25519ProgramID_def example_batch_def)
  ultimately show ?thesis
    using batch_compute_budget [OF built inlined] built inlined by fastforce
qed

section \<open>Sending\<close>

text \<open>A transaction without signatures, which \<open>CreateTx\<close> returns, panics when it cannot be sent.\<close>

lemma SendTx_unsigned_panics:
  assumes "pv_SendTransaction (ts_txProvider txSnd) tx (ss_world s) = (Inl err, w)" "\<not> stops err" "tb_Signatures tb tx = []"
  shows "SendTx tb txSnd tx s = (Inl (GoPanic STR ''index out of range''), s\<lparr>ss_world := w\<rparr>)"
  using assms by (simp add: SendTx_def on_provider_def exec_defs)

text \<open>Fees that each meet their minimum can still wrap around when they are added.\<close>

lemma fees_wrap:
  assumes "config = \<lparr>MinAmountToBridge = 10, MinFeeForBridging = 2, MinOperationFeeAmount = 1, TreasuryAddress = 77, CurrencyTokenID = 0\<rparr>"
  shows "checkFees config (2 ^ 64 - 1) 1 = None \<and> (2 ^ 64 - 1 :: u64) + 1 = 0"
  using assms by (simp add: checkFees_def)

end
