(* ===== verification/Lookup_Tables.thy ===== *)
theory Lookup_Tables
  imports Wallet_Address
begin

text \<open>
  \<open>wallet/alt_admin.go\<close> and \<open>wallet/lookup_table.go\<close>: the instructions of the address lookup
  table program, and the resolver that caches table contents. The fetcher is the outside world
  \<open>'w\<close>: \<open>fetch\<close> gives the addresses of a table, None for a nil state.
\<close>

section \<open>The instructions\<close>

definition AddressLookupTableProgramID :: PublicKey where
  "AddressLookupTableProgramID = 0x0277a6af97339b7ac88d1892c90446f50002309266f62e53c118244982000000"

definition altIxCreate :: u32 where "altIxCreate = 0"
definition altIxFreeze :: u32 where "altIxFreeze = 1"
definition altIxExtend :: u32 where "altIxExtend = 2"
definition altIxDeactivate :: u32 where "altIxDeactivate = 3"
definition altIxClose :: u32 where "altIxClose = 4"
definition ExtendLookupTableMaxPerIx :: nat where "ExtendLookupTableMaxPerIx = 20"

definition DeriveAddressLookupTableAddress :: "solana_lib \<Rightarrow> PublicKey \<Rightarrow> u64 \<Rightarrow> go_error + PublicKey \<times> byte" where
  "DeriveAddressLookupTableAddress sol authority recentSlot =
     sol_FindProgramAddress sol [key_bytes authority, le_bytes 8 recentSlot] AddressLookupTableProgramID"

definition NewCreateInstruction :: "solana_lib \<Rightarrow> PublicKey \<Rightarrow> PublicKey \<Rightarrow> u64 \<Rightarrow> go_error + Instruction \<times> PublicKey" where
  "NewCreateInstruction sol authority payer recentSlot =
     (case DeriveAddressLookupTableAddress sol authority recentSlot of
        Inl err \<Rightarrow> Inl (wrapped STR ''failed to derive ALT address: %w'' err)
      | Inr (altAddress, bump) \<Rightarrow>
          Inr (NewInstruction AddressLookupTableProgramID
                 [NewAccountMeta altAddress True False, NewAccountMeta authority False True,
                  NewAccountMeta payer True True, NewAccountMeta (sol_SystemProgramID sol) False False]
                 (le_bytes 4 altIxCreate @ le_bytes 8 recentSlot @ [bump]),
               altAddress))"

definition NewFreezeInstruction :: "PublicKey \<Rightarrow> PublicKey \<Rightarrow> Instruction" where
  "NewFreezeInstruction altAddress authority =
     NewInstruction AddressLookupTableProgramID
       [NewAccountMeta altAddress True False, NewAccountMeta authority False True] (le_bytes 4 altIxFreeze)"

definition NewDeactivateInstruction :: "PublicKey \<Rightarrow> PublicKey \<Rightarrow> Instruction" where
  "NewDeactivateInstruction altAddress authority =
     NewInstruction AddressLookupTableProgramID
       [NewAccountMeta altAddress True False, NewAccountMeta authority False True] (le_bytes 4 altIxDeactivate)"

definition NewCloseInstruction :: "PublicKey \<Rightarrow> PublicKey \<Rightarrow> PublicKey \<Rightarrow> Instruction" where
  "NewCloseInstruction altAddress authority recipient =
     NewInstruction AddressLookupTableProgramID
       [NewAccountMeta altAddress True False, NewAccountMeta authority False True, NewAccountMeta recipient True False]
       (le_bytes 4 altIxClose)"

definition buildExtendLookupTableInstruction ::
  "solana_lib \<Rightarrow> PublicKey \<Rightarrow> PublicKey \<Rightarrow> PublicKey \<Rightarrow> PublicKey list \<Rightarrow> Instruction" where
  "buildExtendLookupTableInstruction sol altAddress authority payer addresses =
     NewInstruction AddressLookupTableProgramID
       [NewAccountMeta altAddress True False, NewAccountMeta authority False True,
        NewAccountMeta payer True True, NewAccountMeta (sol_SystemProgramID sol) False False]
       (le_bytes 4 altIxExtend @ le_bytes 8 (of_nat (length addresses) :: u64) @ concat (map key_bytes addresses))"

text \<open>The loop that leaves out the keys seen, and the loop over the chunks.\<close>

fun unseen_loop :: "PublicKey list \<Rightarrow> PublicKey set \<Rightarrow> PublicKey list \<Rightarrow> PublicKey list" where
  "unseen_loop [] seen toAdd = toAdd"
| "unseen_loop (key # rest) seen toAdd =
     (if key \<in> seen then unseen_loop rest seen toAdd else unseen_loop rest (insert key seen) (toAdd @ [key]))"

function chunks_loop :: "(PublicKey list \<Rightarrow> Instruction) \<Rightarrow> PublicKey list \<Rightarrow> nat \<Rightarrow> Instruction list" where
  "chunks_loop build toAdd start =
     (if start < length toAdd then
        (let end = (if start + ExtendLookupTableMaxPerIx > length toAdd then length toAdd else start + ExtendLookupTableMaxPerIx)
         in build (slice_of start (end - start) toAdd) # chunks_loop build toAdd (start + ExtendLookupTableMaxPerIx))
      else [])"
  by pat_completeness auto
termination
  by (relation "measure (\<lambda>(build, toAdd, start). length toAdd - start)") (auto simp: ExtendLookupTableMaxPerIx_def)

declare chunks_loop.simps [simp del]

definition NewExtendInstructions ::
  "solana_lib \<Rightarrow> (PublicKey \<Rightarrow> ('w, PublicKey list option) exec) option \<Rightarrow> PublicKey \<Rightarrow> PublicKey \<Rightarrow> PublicKey \<Rightarrow>
   PublicKey list \<Rightarrow> ('w, Instruction list) exec" where
  "NewExtendInstructions sol fetcher altAddress authority payer addresses =
     (case fetcher of
        None \<Rightarrow> fail (Errorf STR ''ALTAdmin was constructed without a fetcher; extend requires one'')
      | Some fetch \<Rightarrow>
          bind (wrapE STR ''failed to fetch address lookup table %s: %w'' (fetch altAddress)) (\<lambda>state.
          let seen = (case state of None \<Rightarrow> {} | Some entries \<Rightarrow> set entries);
              toAdd = unseen_loop addresses seen []
          in if toAdd = [] then ret []
             else ret (chunks_loop (buildExtendLookupTableInstruction sol altAddress authority payer) toAdd 0)))"

section \<open>The resolver\<close>

record 'w resolver_state =
  rs_cache :: "PublicKey \<Rightarrow> PublicKey list option"
  rs_world :: 'w

definition on_fetcher :: "('w, 'a) exec \<Rightarrow> ('w resolver_state, 'a) exec" where
  "on_fetcher m = focus rs_world (\<lambda>w s. s\<lparr>rs_world := w\<rparr>) m"

fun cached_loop ::
  "(PublicKey \<Rightarrow> PublicKey list option) \<Rightarrow> PublicKey list \<Rightarrow> (PublicKey \<Rightarrow> PublicKey list option) \<Rightarrow> PublicKey list \<Rightarrow>
   (PublicKey \<Rightarrow> PublicKey list option) \<times> PublicKey list" where
  "cached_loop cache [] out missing = (out, missing)"
| "cached_loop cache (addr # rest) out missing =
     (case cache addr of
        Some entries \<Rightarrow> cached_loop cache rest (out(addr \<mapsto> entries)) missing
      | None \<Rightarrow> cached_loop cache rest out (missing @ [addr]))"

fun fetch_loop ::
  "(PublicKey \<Rightarrow> ('w, PublicKey list option) exec) \<Rightarrow> PublicKey list \<Rightarrow> (PublicKey \<Rightarrow> PublicKey list option) \<Rightarrow>
   (PublicKey \<Rightarrow> PublicKey list option) \<Rightarrow>
   ('w resolver_state, (PublicKey \<Rightarrow> PublicKey list option) \<times> (PublicKey \<Rightarrow> PublicKey list option)) exec" where
  "fetch_loop fetch [] fetched out = ret (fetched, out)"
| "fetch_loop fetch (addr # rest) fetched out =
     bind (wrapE STR ''failed to fetch address lookup table %s: %w'' (on_fetcher (fetch addr))) (\<lambda>state.
     case state of
       None \<Rightarrow> fail (Errorf STR ''address lookup table %s not found'')
     | Some entries \<Rightarrow> fetch_loop fetch rest (fetched(addr \<mapsto> entries)) (out(addr \<mapsto> entries)))"

definition Resolve ::
  "(PublicKey \<Rightarrow> ('w, PublicKey list option) exec) \<Rightarrow> PublicKey list \<Rightarrow>
   ('w resolver_state, PublicKey \<Rightarrow> PublicKey list option) exec" where
  "Resolve fetch addresses =
     bind (gets (\<lambda>s. cached_loop (rs_cache s) addresses (\<lambda>_. None) [])) (\<lambda>(out, missing).
     if missing = [] then ret out
     else
       bind (fetch_loop fetch missing (\<lambda>_. None) out) (\<lambda>(fetched, out).
       bind (modify (\<lambda>s. s\<lparr>rs_cache := rs_cache s ++ fetched\<rparr>)) (\<lambda>_. ret out)))"

definition Preload ::
  "(PublicKey \<Rightarrow> ('w, PublicKey list option) exec) \<Rightarrow> PublicKey list \<Rightarrow> ('w resolver_state, unit) exec" where
  "Preload fetch addresses = bind (Resolve fetch addresses) (\<lambda>_. ret ())"

definition Invalidate :: "PublicKey list \<Rightarrow> ('w resolver_state, unit) exec" where
  "Invalidate addresses =
     modify (\<lambda>s. if addresses = [] then s\<lparr>rs_cache := (\<lambda>_. None)\<rparr>
       else s\<lparr>rs_cache := (\<lambda>a. if a \<in> set addresses then None else rs_cache s a)\<rparr>)"

section \<open>Extending a table\<close>

lemma remdups_snoc: "remdups (xs @ [x]) = remdups (filter (\<lambda>y. y \<noteq> x) xs) @ [x]"
  by (induction xs) auto

text \<open>A list in first-seen order, without the elements of a set.\<close>

definition unseen :: "'a set \<Rightarrow> 'a list \<Rightarrow> 'a list" where
  "unseen seen xs = rev (remdups (rev (filter (\<lambda>x. x \<notin> seen) xs)))"

lemma unseen_props: "distinct (unseen seen xs)" "set (unseen seen xs) = set xs - seen"
  by (auto simp: unseen_def)

lemma unseen_Cons:
  "unseen seen (x # xs) = (if x \<in> seen then unseen seen xs else x # unseen (insert x seen) xs)"
proof -
  have "filter (\<lambda>y. y \<noteq> x) (filter (\<lambda>y. y \<notin> seen) (rev xs)) = filter (\<lambda>y. y \<notin> insert x seen) (rev xs)"
    unfolding filter_filter by (rule filter_cong) auto
  then show ?thesis by (simp add: unseen_def rev_filter [symmetric] remdups_snoc)
qed

lemma unseen_loop_eq: "unseen_loop keys seen toAdd = toAdd @ unseen seen keys"
  by (induction keys arbitrary: seen toAdd) (auto simp: unseen_Cons, simp add: unseen_def)

text \<open>The chunks are the list in pieces of at most 20, none empty.\<close>

function pieces :: "nat \<Rightarrow> 'a list \<Rightarrow> 'a list list" where
  "pieces n xs = (if xs = [] \<or> n = 0 then [] else take n xs # pieces n (drop n xs))"
  by pat_completeness auto
termination by (relation "measure (\<lambda>(n, xs). length xs)") auto

declare pieces.simps [simp del]

lemma pieces_props:
  assumes "0 < n"
  shows "concat (pieces n xs) = xs \<and> (\<forall>p \<in> set (pieces n xs). p \<noteq> [] \<and> length p \<le> n)"
  using assms
proof (induction n xs rule: pieces.induct)
  case (1 n xs)
  then show ?case by (subst (1 2) pieces.simps) auto
qed

lemma chunks_loop_eq: "chunks_loop build toAdd start = map build (pieces ExtendLookupTableMaxPerIx (drop start toAdd))"
proof (induction build toAdd start rule: chunks_loop.induct)
  case (1 build toAdd start)
  show ?case
  proof (cases "start < length toAdd")
    case True
    let ?n = "ExtendLookupTableMaxPerIx"
    have "slice_of start ((if start + ?n > length toAdd then length toAdd else start + ?n) - start) toAdd = take ?n (drop start toAdd)"
      by (simp add: slice_of_def)
    with 1 [OF True refl] True show ?thesis
      by (subst chunks_loop.simps, subst pieces.simps) (simp add: Let_def add.commute ExtendLookupTableMaxPerIx_def)
  next
    case False
    then show ?thesis by (subst chunks_loop.simps, subst pieces.simps) simp
  qed
qed

text \<open>
  C27. Extending a table asks for exactly the requested addresses that the table does not hold
  yet, each once and in the order they were given, in instructions of one to twenty addresses,
  whose data are their count and keys; when there is none, no instruction is made.
\<close>

theorem NewExtendInstructions_adds_missing:
  assumes "NewExtendInstructions sol (Some fetch) altAddress authority payer addresses w = (Inr ixs, w')"
  shows "\<exists>state chunks. fetch altAddress w = (Inr state, w') \<and>
    concat chunks = unseen (case state of None \<Rightarrow> {} | Some entries \<Rightarrow> set entries) addresses \<and>
    (\<forall>c \<in> set chunks. c \<noteq> [] \<and> length c \<le> 20) \<and>
    ixs = map (buildExtendLookupTableInstruction sol altAddress authority payer) chunks"
proof -
  obtain state where state: "fetch altAddress w = (Inr state, w')"
    and ixs: "ixs = (let toAdd = unseen (case state of None \<Rightarrow> {} | Some entries \<Rightarrow> set entries) addresses in
      if toAdd = [] then [] else chunks_loop (buildExtendLookupTableInstruction sol altAddress authority payer) toAdd 0)"
    using assms
    by (auto simp: NewExtendInstructions_def Let_def bind_Inr_iff wrapE_Inr_iff unseen_loop_eq ret_def split: if_splits)
  let ?toAdd = "unseen (case state of None \<Rightarrow> {} | Some entries \<Rightarrow> set entries) addresses"
  have "ixs = map (buildExtendLookupTableInstruction sol altAddress authority payer) (pieces 20 ?toAdd)"
    using ixs by (auto simp: Let_def chunks_loop_eq ExtendLookupTableMaxPerIx_def pieces.simps [of 20 "[]"])
  with state pieces_props [of 20 ?toAdd] show ?thesis
    by (intro exI [of _ state] exI [of _ "pieces 20 ?toAdd"]) simp
qed

theorem NewExtendInstructions_adds_missing_witness:
  "\<forall>sol. \<exists>chunks. concat chunks = [5, 6] \<and>
    fst (NewExtendInstructions sol (Some (\<lambda>a. ret (Some [7, 8]))) 1 2 3 [5, 7, 6, 5] ()) =
      Inr (map (buildExtendLookupTableInstruction sol 1 2 3) chunks)"
proof
  fix sol
  have "\<exists>ixs. NewExtendInstructions sol (Some (\<lambda>a. ret (Some [7, 8]))) 1 2 3 [5, 7, 6, 5] () = (Inr ixs, ())"
    by (simp add: NewExtendInstructions_def Let_def exec_defs)
  then obtain ixs where run: "NewExtendInstructions sol (Some (\<lambda>a. ret (Some [7, 8]))) 1 2 3 [5, 7, 6, 5] () = (Inr ixs, ())"
    by blast
  have "unseen {7, 8} [5, 7, 6, 5 :: PublicKey] = [5, 6]" by (simp add: unseen_def)
  with NewExtendInstructions_adds_missing [OF run] run
  show "\<exists>chunks. concat chunks = [5, 6] \<and>
    fst (NewExtendInstructions sol (Some (\<lambda>a. ret (Some [7, 8]))) 1 2 3 [5, 7, 6, 5] ()) =
      Inr (map (buildExtendLookupTableInstruction sol 1 2 3) chunks)"
    by (auto simp: ret_def)
qed

section \<open>Resolving tables\<close>

lemma cached_loop_eq:
  "cached_loop cache as out missing = (out ++ cache |` set as, missing @ filter (\<lambda>a. cache a = None) as)"
proof (induction as arbitrary: out missing)
  case (Cons a as)
  then show ?case
    by (cases "cache a") (auto simp: fun_eq_iff map_add_def restrict_map_def split: option.splits)
qed simp

lemma on_fetcher_run: "on_fetcher m s = (r, s') \<longleftrightarrow> (\<exists>w'. m (rs_world s) = (r, w') \<and> s' = s\<lparr>rs_world := w'\<rparr>)"
  by (auto simp: on_fetcher_def focus_def split: prod.splits)

lemma fetch_loop_Inr:
  "fetch_loop fetch as fetched out s = (Inr (fetched', out'), s') \<Longrightarrow>
     \<exists>m. dom m = set as \<and> fetched' = fetched ++ m \<and> out' = out ++ m \<and> rs_cache s' = rs_cache s \<and>
       (\<forall>a \<in> set as. \<exists>w w'. fetch a w = (Inr (m a), w'))"
proof (induction as arbitrary: fetched out s)
  case (Cons a as)
  then obtain entries s1 where fetch: "on_fetcher (fetch a) s = (Inr (Some entries), s1)"
    and rest: "fetch_loop fetch as (fetched(a \<mapsto> entries)) (out(a \<mapsto> entries)) s1 = (Inr (fetched', out'), s')"
    by (auto simp: bind_Inr_iff wrapE_Inr_iff fail_def split: option.splits)
  from Cons.IH [OF rest] obtain m where m: "dom m = set as" "fetched' = fetched(a \<mapsto> entries) ++ m"
    "out' = out(a \<mapsto> entries) ++ m" "rs_cache s' = rs_cache s1" "\<forall>b \<in> set as. \<exists>w w'. fetch b w = (Inr (m b), w')"
    by blast
  from fetch have s1: "rs_cache s1 = rs_cache s" "\<exists>w w'. fetch a w = (Inr (Some entries), w')"
    by (auto simp: on_fetcher_run)
  have put: "(f(a \<mapsto> entries)) ++ m = f ++ ([a \<mapsto> entries] ++ m)" for f :: "PublicKey \<Rightarrow> PublicKey list option"
    by (simp add: map_add_assoc [symmetric])
  have asked: "\<exists>w w'. fetch b w = (Inr (([a \<mapsto> entries] ++ m) b), w')" if "b \<in> set (a # as)" for b
  proof (cases "b \<in> set as")
    case True
    with m(1) have "([a \<mapsto> entries] ++ m) b = m b" by (auto simp: map_add_def split: option.splits)
    with True m(5) show ?thesis by simp
  next
    case False
    with m(1) that have "([a \<mapsto> entries] ++ m) b = Some entries" "b = a" by (auto simp: map_add_def split: option.splits)
    with s1(2) show ?thesis by simp
  qed
  have "dom ([a \<mapsto> entries] ++ m) = set (a # as)" using m(1) by auto
  moreover have "fetched' = fetched ++ ([a \<mapsto> entries] ++ m)" "out' = out ++ ([a \<mapsto> entries] ++ m)"
    "rs_cache s' = rs_cache s"
    unfolding m(2-4) s1(1) by (rule put refl)+
  ultimately show ?case using asked by blast
qed (simp add: ret_def)

lemma fetch_loop_Inl:
  "fetch_loop fetch as fetched out s = (Inl e, s') \<Longrightarrow> rs_cache s' = rs_cache s \<and>
     (\<exists>a \<in> set as. \<exists>w w'. fetch a w = (Inr None, w') \<or> (\<exists>err. fetch a w = (Inl err, w')))"
proof (induction as arbitrary: fetched out s)
  case (Cons a as)
  obtain r w' where run: "fetch a (rs_world s) = (r, w')" by fastforce
  then have node: "on_fetcher (fetch a) s = (r, s\<lparr>rs_world := w'\<rparr>)" by (simp add: on_fetcher_run)
  show ?case
  proof (cases "\<exists>entries. r = Inr (Some entries)")
    case True
    then obtain entries where r: "r = Inr (Some entries)" by blast
    with Cons.prems node have "fetch_loop fetch as (fetched(a \<mapsto> entries)) (out(a \<mapsto> entries)) (s\<lparr>rs_world := w'\<rparr>) = (Inl e, s')"
      by (simp add: bind_def wrapE_def)
    from Cons.IH [OF this] show ?thesis by auto
  next
    case False
    then have "r = Inr None \<or> (\<exists>err. r = Inl err)" by (cases r) (auto simp: not_None_eq [symmetric] simp del: not_None_eq)
    with Cons.prems node have "rs_cache s' = rs_cache s" by (auto simp: bind_def wrapE_def fail_def)
    with run \<open>r = Inr None \<or> _\<close> show ?thesis by auto
  qed
qed (simp add: ret_def)

text \<open>The map that a resolve returns, and the cache that it leaves.\<close>

lemma Resolve_Inr:
  assumes "Resolve fetch as s = (Inr out, s')"
  shows "dom out = set as" "rs_cache s' = rs_cache s ++ out"
    "\<And>a. a \<in> set as \<Longrightarrow> rs_cache s a = None \<Longrightarrow> \<exists>w w'. fetch a w = (Inr (out a), w')"
    "\<And>a entries. a \<in> set as \<Longrightarrow> rs_cache s a = Some entries \<Longrightarrow> out a = Some entries"
    "(\<forall>a \<in> set as. rs_cache s a \<noteq> None) \<Longrightarrow> s' = s"
proof -
  let ?missing = "filter (\<lambda>a. rs_cache s a = None) as"
  have "\<exists>m. dom m = set ?missing \<and> out = rs_cache s |` set as ++ m \<and> rs_cache s' = rs_cache s ++ m \<and>
      (\<forall>a \<in> set ?missing. \<exists>w w'. fetch a w = (Inr (m a), w')) \<and> (?missing = [] \<longrightarrow> s' = s)"
  proof (cases "?missing = []")
    case True
    with assms show ?thesis
      by (intro exI [of _ Map.empty]) (auto simp: Resolve_def bind_Inr_iff cached_loop_eq gets_def ret_def)
  next
    case False
    with assms obtain fetched s1 where loop: "fetch_loop fetch ?missing (\<lambda>_. None) (rs_cache s |` set as) s = (Inr (fetched, out), s1)"
      and s': "s' = s1\<lparr>rs_cache := rs_cache s1 ++ fetched\<rparr>"
      by (auto simp: Resolve_def bind_Inr_iff cached_loop_eq gets_def ret_def modify_def simp del: filter_empty_conv)
    from fetch_loop_Inr [OF loop] obtain m where "dom m = set ?missing" "fetched = m" "out = rs_cache s |` set as ++ m"
      "rs_cache s1 = rs_cache s" "\<forall>a \<in> set ?missing. \<exists>w w'. fetch a w = (Inr (m a), w')"
      by (auto simp del: set_filter)
    with s' False show ?thesis by (intro exI [of _ m]) (simp del: filter_empty_conv set_filter)
  qed
  then obtain m where m: "dom m = {a \<in> set as. rs_cache s a = None}" "out = rs_cache s |` set as ++ m"
    "rs_cache s' = rs_cache s ++ m" "\<forall>a \<in> set ?missing. \<exists>w w'. fetch a w = (Inr (m a), w')" "?missing = [] \<longrightarrow> s' = s"
    by auto
  have miss: "m a = None \<longleftrightarrow> a \<notin> set as \<or> rs_cache s a \<noteq> None" for a
    using arg_cong [OF m(1), of "\<lambda>A. a \<in> A"] by auto
  have at: "out a = (if a \<in> set as then (case rs_cache s a of None \<Rightarrow> m a | Some es \<Rightarrow> Some es) else None)" for a
    using miss [of a] by (auto simp: m(2) map_add_def restrict_map_def split: option.splits)
  show "dom out = set as" using m(1) by (auto simp: at dom_def set_eq_iff split: option.splits if_splits)
  show "rs_cache s' = rs_cache s ++ out"
  proof
    show "rs_cache s' a = (rs_cache s ++ out) a" for a
      using miss [of a] by (auto simp: m(3) map_add_def at split: option.splits)
  qed
  show "a \<in> set as \<Longrightarrow> rs_cache s a = None \<Longrightarrow> \<exists>w w'. fetch a w = (Inr (out a), w')" for a
    using m(4) by (simp add: at)
  show "a \<in> set as \<Longrightarrow> rs_cache s a = Some entries \<Longrightarrow> out a = Some entries" for a entries
    by (simp add: at)
  show "(\<forall>a \<in> set as. rs_cache s a \<noteq> None) \<Longrightarrow> s' = s" using m(5) by simp
qed

lemma Resolve_Inl:
  assumes "Resolve fetch as s = (Inl e, s')"
  shows "rs_cache s' = rs_cache s \<and> (\<exists>a \<in> set as. rs_cache s a = None \<and>
    (\<exists>w w'. fetch a w = (Inr None, w') \<or> (\<exists>err. fetch a w = (Inl err, w'))))"
proof -
  let ?missing = "filter (\<lambda>a. rs_cache s a = None) as"
  from assms have "fetch_loop fetch ?missing (\<lambda>_. None) (rs_cache s |` set as) s = (Inl e, s')"
    by (auto simp: Resolve_def bind_def cached_loop_eq gets_def ret_def modify_def
        simp del: filter_empty_conv split: if_splits prod.splits sum.splits)
  from fetch_loop_Inl [OF this] show ?thesis by auto
qed

lemma Resolve_cached:
  assumes "\<forall>a \<in> set as. rs_cache s a \<noteq> None"
  shows "Resolve fetch as s = (Inr (rs_cache s |` set as), s)"
  using assms by (simp add: Resolve_def bind_def cached_loop_eq gets_def ret_def)

text \<open>
  C20. Resolving lookup tables returns an entry for exactly the addresses asked for: the cached
  one where there is one, and otherwise the one that the fetcher answered with. All of them are
  then in the cache, so that a later resolve of any of them asks no fetcher and returns the
  same, until they are invalidated; what was cached before stays. A resolve fails only when the
  fetcher fails or finds nothing for an address that is not cached, and then leaves the cache as
  it was. Invalidating addresses, or all of them with an empty list, makes a later resolve of
  them take what the fetcher then has, and leaves the other entries where they are.
\<close>

theorem Resolve_keeps_cache:
  assumes "Resolve fetch addresses s = (r, s')"
  shows "case r of
      Inl e \<Rightarrow> rs_cache s' = rs_cache s \<and> (\<exists>a \<in> set addresses. rs_cache s a = None \<and>
        (\<exists>w w'. fetch a w = (Inr None, w') \<or> (\<exists>err. fetch a w = (Inl err, w'))))
    | Inr out \<Rightarrow> dom out = set addresses \<and>
        (\<forall>a \<in> set addresses. case rs_cache s a of
            Some entries \<Rightarrow> out a = Some entries
          | None \<Rightarrow> \<exists>w w'. fetch a w = (Inr (out a), w')) \<and>
        rs_cache s \<subseteq>\<^sub>m rs_cache s' \<and> rs_cache s' = rs_cache s ++ out \<and>
        (\<forall>fetch' as. set as \<subseteq> set addresses \<longrightarrow> Resolve fetch' as s' = (Inr (out |` set as), s')) \<and>
        (\<forall>fetch' as bs t out'. Resolve fetch' bs (snd (Invalidate as s')) = (Inr out', t) \<longrightarrow>
           (\<forall>a \<in> set bs. as = [] \<or> a \<in> set as \<longrightarrow> (\<exists>w w'. fetch' a w = (Inr (out' a), w')))) \<and>
        (\<forall>fetch' as bs. as \<noteq> [] \<and> set bs \<subseteq> set addresses - set as \<longrightarrow>
           fst (Resolve fetch' bs (snd (Invalidate as s'))) = Inr (out |` set bs))"
proof (cases r)
  case (Inl e)
  with Resolve_Inl assms show ?thesis by simp
next
  case (Inr out)
  note res = Resolve_Inr [OF assms [unfolded Inr]]
  have le: "rs_cache s \<subseteq>\<^sub>m rs_cache s'"
    using res(1,4) by (fastforce simp: map_le_def res(2) map_add_def split: option.splits)
  have cached: "rs_cache s' a = out a \<and> out a \<noteq> None" if "a \<in> set addresses" for a
    using that res(1) by (auto simp: res(2) map_add_def split: option.splits)
  have again: "Resolve fetch' as s' = (Inr (out |` set as), s')" if "set as \<subseteq> set addresses" for fetch' as
  proof -
    have at: "rs_cache s' a = out a \<and> out a \<noteq> None" if "a \<in> set as" for a
      using that \<open>set as \<subseteq> set addresses\<close> cached by blast
    then have "rs_cache s' |` set as = out |` set as" by (auto simp: restrict_map_def fun_eq_iff)
    with Resolve_cached [of as s' fetch'] at show ?thesis by simp
  qed
  have "fst (Resolve fetch' bs (snd (Invalidate as s'))) = Inr (out |` set bs)"
    if "as \<noteq> []" "set bs \<subseteq> set addresses - set as" for fetch' as bs
  proof -
    let ?t = "snd (Invalidate as s')"
    have at: "rs_cache ?t a = out a \<and> out a \<noteq> None" if "a \<in> set bs" for a
      using cached [of a] that \<open>as \<noteq> []\<close> \<open>set bs \<subseteq> _\<close> by (auto simp: Invalidate_def modify_def)
    then have "rs_cache ?t |` set bs = out |` set bs" by (auto simp: restrict_map_def fun_eq_iff)
    with Resolve_cached [of bs ?t fetch'] at show ?thesis by simp
  qed
  moreover have "\<exists>w w'. fetch' a w = (Inr (out' a), w')"
    if "Resolve fetch' bs (snd (Invalidate as s')) = (Inr out', t)" "a \<in> set bs" "as = [] \<or> a \<in> set as" for fetch' as bs t out' a
    using Resolve_Inr(3) [OF that(1,2)] that(3) by (auto simp: Invalidate_def modify_def)
  moreover have "case rs_cache s a of Some entries \<Rightarrow> out a = Some entries | None \<Rightarrow> \<exists>w w'. fetch a w = (Inr (out a), w')"
    if "a \<in> set addresses" for a
    using res(3,4) [OF that] by (simp split: option.splits)
  ultimately show ?thesis using res(1,2) le again Inr by simp
qed

text \<open>Table 1 is cached; table 2 is fetched, once, and the next resolve of both needs no fetcher.\<close>

theorem Resolve_keeps_cache_witness:
  "\<exists>s'. Resolve (\<lambda>a. ret (Some [a + 5])) [1, 2] \<lparr>rs_cache = [1 \<mapsto> [7]], rs_world = ()\<rparr> =
      (Inr [1 \<mapsto> [7], 2 \<mapsto> [7]], s') \<and>
    Resolve (\<lambda>a. fail (Errorf STR ''no connection'')) [2] s' = (Inr [2 \<mapsto> [7]], s')"
proof -
  let ?s = "\<lparr>rs_cache = [1 \<mapsto> [7 :: PublicKey]], rs_world = ()\<rparr>"
  obtain s' where run: "Resolve (\<lambda>a. ret (Some [a + 5])) [1, 2] ?s = (Inr [1 \<mapsto> [7], 2 \<mapsto> [7]], s')"
    by (simp add: Resolve_def cached_loop_eq exec_defs on_fetcher_def restrict_map_def fun_eq_iff)
  have "[1 \<mapsto> [7 :: PublicKey], 2 \<mapsto> [7]] |` set [2] = [2 \<mapsto> [7]]" by (auto simp: restrict_map_def fun_eq_iff)
  with Resolve_keeps_cache [OF run] run show ?thesis by (intro exI [of _ s']) simp
qed

end
