(* ===== verification/Chain_Simulator.thy ===== *)
theory Chain_Simulator
  imports Tracker Wallet_Address Skyline_Instructions
begin

text \<open>
  \<open>tracker/internal/trackertest/chain_simulator.go\<close>: the simulated chain the tracker's tests run
  against, as a state machine whose operations produce slots, blocks and transactions of the
  tracked program, and the queries that answer the tracker. The locks make every operation
  atomic. Signing and compiling a transaction is solana-go's, the random numbers and the clock
  are the outside world: the fields of \<open>sim_env\<close>. A failed \<open>require\<close> ends the test: a panic.
\<close>

section \<open>Data\<close>

definition defaultSlotDuration :: int where "defaultSlotDuration = 166 * 1000000"
definition defaultHistorySlots :: u64 where "defaultHistorySlots = 200"
definition genesisSlot :: u64 where "genesisSlot = 340000000"
definition genesisBlockHeight :: u64 where "genesisBlockHeight = 320000000"
definition sim_eventName :: string where "sim_eventName = ''HotWalletIncrementEvent''"

record SimConfig =
  scf_SlotDuration :: int
  scf_EmptySlotEvery :: u64
  scf_TxEvery :: u64
  scf_RPCLatency :: int
  scf_HistorySlots :: u64
  scf_HistoryTxCount :: int

definition DefaultConfig :: SimConfig where
  "DefaultConfig = \<lparr>scf_SlotDuration = defaultSlotDuration, scf_EmptySlotEvery = 7, scf_TxEvery = 3,
     scf_RPCLatency = 2 * 1000000, scf_HistorySlots = defaultHistorySlots, scf_HistoryTxCount = 0\<rparr>"

record SimBlock =
  bl_Slot :: u64
  bl_Height :: u64
  bl_Hash :: Hash
  bl_parentSlot :: u64
  bl_parentHash :: Hash
  bl_signatures :: "Signature list"
  bl_blockTime :: int

text \<open>The inner instructions as a client decodes them; nil is None.\<close>

record SimTx =
  stx_Signature :: Signature
  stx_Slot :: u64
  stx_Event :: HotWalletIncrementEvent
  stx_ProducedAt :: int
  stx_raw :: bytes
  stx_logs :: "string list"
  stx_innerInstructions :: "InnerInstruction list option"

record SignatureQuery =
  sq_Before :: Signature
  sq_Until :: Signature
  sq_Limit :: int
  sq_Returned :: nat
  sq_OldestReturned :: Signature
  sq_ErrorCode :: int

text \<open>A Go map that counts reads 0 for a missing key; the nil sets are empty.\<close>

record 'g ChainSimulator =
  cs_cfg :: SimConfig
  cs_programID :: PublicKey
  cs_payer :: PublicKey
  cs_mint :: PublicKey
  cs_headSlot :: u64
  cs_headBlockHeight :: u64
  cs_blocks :: "u64 \<Rightarrow> SimBlock option"
  cs_slotsWithBlocks :: "u64 list"
  cs_txsBySignature :: "Signature \<Rightarrow> SimTx option"
  cs_programTxs :: "SimTx list"
  cs_blocksProduced :: u64
  cs_pendingSkips :: u64
  cs_txsPaused :: bool
  cs_forgottenBeforeSlot :: u64
  cs_forgottenSignatures :: "Signature set"
  cs_refusedOnce :: "Signature set"
  cs_callCounts :: "string \<Rightarrow> int"
  cs_signatureQueries :: "SignatureQuery list"
  cs_world :: 'g

record ('g, 'tx) sim_env =
  se_sol :: solana_lib
  se_borsh :: borsh_lib
  se_Uint64 :: "'g \<Rightarrow> u64 \<times> 'g"
  se_Now :: "'g \<Rightarrow> int \<times> 'g"
  se_NewTransaction :: "Instruction list \<Rightarrow> Hash \<Rightarrow> PublicKey \<Rightarrow> go_error + 'tx"
  se_Sign :: "PublicKey \<Rightarrow> 'tx \<Rightarrow> go_error + 'tx"
  se_MarshalBinary :: "'tx \<Rightarrow> go_error + bytes"
  se_Signatures :: "'tx \<Rightarrow> Signature list"
  se_AccountKeys :: "'tx \<Rightarrow> PublicKey list"

text \<open>\<open>require.NoError\<close>, and reading the outside world.\<close>

definition require_ok :: "go_error + 'a \<Rightarrow> ('s, 'a) exec" where
  "require_ok r = (case r of Inl e \<Rightarrow> fail (if stops e then e else GoPanic STR ''require.NoError'') | Inr a \<Rightarrow> ret a)"

definition sim_read :: "('g \<Rightarrow> 'a \<times> 'g) \<Rightarrow> ('g ChainSimulator, 'a) exec" where
  "sim_read f = (\<lambda>s. let (a, g) = f (cs_world s) in (Inr a, s\<lparr>cs_world := g\<rparr>))"

section \<open>Transactions of the program\<close>

text \<open>\<open>byte(v >> (8*i))\<close>, the lowest byte first.\<close>

definition appendUint64LE :: "bytes \<Rightarrow> u64 \<Rightarrow> bytes" where
  "appendUint64LE dst v = dst @ map (\<lambda>i. ucast (drop_bit (8 * i) v)) [0..<8]"

definition blockhashForSlot :: "u64 \<Rightarrow> Hash" where
  "blockhashForSlot slot =
     be_word ((map (\<lambda>i. ucast (drop_bit (8 * (i mod 8)) slot)) [0..<32])[8 := ucast (slot mod 251)])"

definition sim_eventIxTag :: bytes where
  "sim_eventIxTag = appendUint64LE [] 0x1d9acb512ea545e4"

definition encodeEventLogPayload ::
  "borsh_lib \<Rightarrow> string \<Rightarrow> (bytes, unit) exec \<Rightarrow> ('s, bytes) exec" where
  "encodeEventLogPayload lib name encode_event =
     (let discriminant = Sum256 (str_bytes (''event:'' @ name)) in
      case bind (enc_WriteBytes lib (take 8 discriminant)) (\<lambda>_. encode_event) [] of
        (Inl e, _) \<Rightarrow> require_ok (Inl e)
      | (Inr _, buf) \<Rightarrow> ret buf)"

text \<open>The index of the first occurrence, or a failed test.\<close>

fun key_index :: "PublicKey list \<Rightarrow> PublicKey \<Rightarrow> nat \<Rightarrow> nat option" where
  "key_index [] key i = None"
| "key_index (k # ks) key i = (if k = key then Some i else key_index ks key (i + 1))"

definition accountKeyIndex :: "PublicKey list \<Rightarrow> PublicKey \<Rightarrow> ('s, u16) exec" where
  "accountKeyIndex keys key =
     (case key_index keys key 0 of
        Some i \<Rightarrow> ret (of_nat i)
      | None \<Rightarrow> fail (GoPanic STR ''account key not found''))"

definition sim_eventAuthority :: "('g, 'tx) sim_env \<Rightarrow> PublicKey \<Rightarrow> ('s, PublicKey) exec" where
  "sim_eventAuthority env programID =
     bind (require_ok (sol_FindProgramAddress (se_sol env) [str_bytes ''__event_authority''] programID)) (\<lambda>(pda, _). ret pda)"

definition programIxAccounts :: "('g, 'tx) sim_env \<Rightarrow> ('g ChainSimulator, AccountMeta list) exec" where
  "programIxAccounts env =
     bind (gets (\<lambda>s. s)) (\<lambda>s.
     bind (sim_eventAuthority env (cs_programID s)) (\<lambda>auth.
     ret [\<lparr>am_PublicKey = cs_payer s, am_IsWritable = True, am_IsSigner = True\<rparr>,
          \<lparr>am_PublicKey = cs_mint s, am_IsWritable = False, am_IsSigner = False\<rparr>,
          \<lparr>am_PublicKey = auth, am_IsWritable = False, am_IsSigner = False\<rparr>,
          \<lparr>am_PublicKey = cs_programID s, am_IsWritable = False, am_IsSigner = False\<rparr>]))"

text \<open>The log lines, which nothing of the tracker reads, name the program by its base58 text.\<close>

definition sim_logs :: "string \<Rightarrow> string list" where
  "sim_logs p =
     [''Program '' @ p @ '' invoke [1]'', ''Program log: Instruction: DepositToHotWallet'', ''Program '' @ p @ '' invoke [2]'',
      ''Program '' @ p @ '' consumed 2000 of 170000 compute units'', ''Program '' @ p @ '' success'',
      ''Program '' @ p @ '' consumed 31337 of 200000 compute units'', ''Program '' @ p @ '' success'']"

definition buildProgramTx :: "('g, 'tx) sim_env \<Rightarrow> SimBlock \<Rightarrow> ('g ChainSimulator, SimTx) exec" where
  "buildProgramTx env block =
     bind (gets (\<lambda>s. s)) (\<lambda>s.
     bind (sim_read (se_Uint64 env)) (\<lambda>n.
     let event = \<lparr>hwi_Sender = cs_payer s, hwi_Mint = cs_mint s, hwi_Amount = n mod 1000000 + 1\<rparr>;
         ixData = appendUint64LE [0x7a, 0x11, 0x03, 0x9c, 0x22, 0x5f, 0x1b, 0x0d] (hwi_Amount event) in
     bind (programIxAccounts env) (\<lambda>accounts.
     let instructions = [NewInstruction (sol_ComputeBudget (se_sol env)) [] [0x02, 0x40, 0x0d, 0x03, 0x00],
                         NewInstruction (cs_programID s) accounts ixData] in
     bind (require_ok (se_NewTransaction env instructions (bl_Hash block) (cs_payer s))) (\<lambda>unsigned.
     bind (require_ok (se_Sign env (cs_payer s) unsigned)) (\<lambda>tx.
     bind (require_ok (se_MarshalBinary env tx)) (\<lambda>raw.
     case se_Signatures env tx of
       [] \<Rightarrow> fail (GoPanic STR ''require.NotEmpty'')
     | signature # _ \<Rightarrow>
         bind (encodeEventLogPayload (se_borsh env) sim_eventName (HotWalletIncrementEvent_MarshalWithEncoder (se_borsh env) event))
           (\<lambda>eventPayload.
         bind (sim_read (se_Now env)) (\<lambda>now.
         bind (sim_eventAuthority env (cs_programID s)) (\<lambda>auth.
         bind (accountKeyIndex (se_AccountKeys env tx) (cs_programID s)) (\<lambda>programIndex.
         bind (accountKeyIndex (se_AccountKeys env tx) auth) (\<lambda>authorityIndex.
         ret \<lparr>stx_Signature = signature, stx_Slot = bl_Slot block, stx_Event = event, stx_ProducedAt = now, stx_raw = raw,
              stx_logs = sim_logs (sol_PublicKey_String (se_sol env) (cs_programID s)),
              stx_innerInstructions = Some [\<lparr>ii_Index = 1, ii_Instructions =
                [\<lparr>ci_ProgramIDIndex = programIndex, ci_Accounts = [authorityIndex],
                  ci_Data = sim_eventIxTag @ eventPayload\<rparr>]\<rparr>]\<rparr>)))))))))))"

section \<open>Producing slots\<close>

datatype blockPolicy = policyConfigured | policyBlock | policyEmpty

definition txCountFromConfig :: int where "txCountFromConfig = -1"

text \<open>The block of the slot the chain has just moved to, on the last block before it.\<close>

definition next_block :: "('g, 'tx) sim_env \<Rightarrow> ('g ChainSimulator, SimBlock) exec" where
  "next_block env =
     bind (modify (\<lambda>s. s\<lparr>cs_headBlockHeight := cs_headBlockHeight s + 1, cs_blocksProduced := cs_blocksProduced s + 1\<rparr>)) (\<lambda>_.
     bind (sim_read (se_Now env)) (\<lambda>now.
     bind (gets (\<lambda>s. s)) (\<lambda>s.
     let parent = (if cs_slotsWithBlocks s = [] then cs_headSlot s - 1 else last (cs_slotsWithBlocks s)) in
     ret \<lparr>bl_Slot = cs_headSlot s, bl_Height = cs_headBlockHeight s, bl_Hash = blockhashForSlot (cs_headSlot s),
          bl_parentSlot = parent, bl_parentHash = blockhashForSlot parent, bl_signatures = [], bl_blockTime = now\<rparr>)))"

text \<open>A transaction is recorded in its block and in both indexes of the chain.\<close>

definition add_tx :: "SimBlock \<Rightarrow> SimTx \<Rightarrow> ('g ChainSimulator, SimBlock) exec" where
  "add_tx block tx =
     bind (modify (\<lambda>s. s\<lparr>cs_txsBySignature := (cs_txsBySignature s)(stx_Signature tx \<mapsto> tx), cs_programTxs := cs_programTxs s @ [tx]\<rparr>)) (\<lambda>_.
     ret (block\<lparr>bl_signatures := bl_signatures block @ [stx_Signature tx]\<rparr>))"

definition add_block :: "SimBlock \<Rightarrow> ('g ChainSimulator, unit) exec" where
  "add_block block =
     modify (\<lambda>s. s\<lparr>cs_blocks := (cs_blocks s)(bl_Slot block \<mapsto> block), cs_slotsWithBlocks := cs_slotsWithBlocks s @ [bl_Slot block]\<rparr>)"

fun add_txs :: "('g, 'tx) sim_env \<Rightarrow> nat \<Rightarrow> SimBlock \<Rightarrow> ('g ChainSimulator, SimBlock) exec" where
  "add_txs env 0 block = ret block"
| "add_txs env (Suc n) block =
     bind (buildProgramTx env block) (\<lambda>tx. bind (add_tx block tx) (\<lambda>block. add_txs env n block))"

text \<open>Whether the slot the chain has moved to carries no block; a pending skip is used up.\<close>

definition slot_stays_empty :: "blockPolicy \<Rightarrow> ('g ChainSimulator, bool) exec" where
  "slot_stays_empty policy =
     (case policy of
        policyEmpty \<Rightarrow> ret True
      | policyBlock \<Rightarrow> ret False
      | policyConfigured \<Rightarrow>
          bind (gets (\<lambda>s. s)) (\<lambda>s.
          if cs_pendingSkips s > 0
          then bind (modify (\<lambda>s. s\<lparr>cs_pendingSkips := cs_pendingSkips s - 1\<rparr>)) (\<lambda>_. ret True)
          else ret (scf_EmptySlotEvery (cs_cfg s) > 0 \<and> cs_headSlot s mod scf_EmptySlotEvery (cs_cfg s) = 0)))"

definition advanceSlot :: "('g, 'tx) sim_env \<Rightarrow> blockPolicy \<Rightarrow> int \<Rightarrow> ('g ChainSimulator, unit) exec" where
  "advanceSlot env policy txCount =
     bind (modify (\<lambda>s. s\<lparr>cs_headSlot := cs_headSlot s + 1\<rparr>)) (\<lambda>_.
     bind (slot_stays_empty policy) (\<lambda>empty.
     if empty then ret ()
     else
     bind (next_block env) (\<lambda>block.
     bind (gets (\<lambda>s. s)) (\<lambda>s.
     let txsInBlock =
           (if txCount = txCountFromConfig
            then (if scf_TxEvery (cs_cfg s) > 0 \<and> \<not> cs_txsPaused s \<and> cs_blocksProduced s mod scf_TxEvery (cs_cfg s) = 0
                  then 1 else 0)
            else txCount) in
     bind (add_txs env (nat txsInBlock) block) (\<lambda>block. add_block block)))))"

definition advanceWithPolicy :: "('g, 'tx) sim_env \<Rightarrow> blockPolicy \<Rightarrow> ('g ChainSimulator, unit) exec" where
  "advanceWithPolicy env policy = advanceSlot env policy txCountFromConfig"

definition advance :: "('g, 'tx) sim_env \<Rightarrow> ('g ChainSimulator, unit) exec" where
  "advance env = advanceWithPolicy env policyConfigured"

primrec repeat_exec :: "nat \<Rightarrow> ('s, unit) exec \<Rightarrow> ('s, unit) exec" where
  "repeat_exec 0 m = ret ()"
| "repeat_exec (Suc n) m = bind m (\<lambda>_. repeat_exec n m)"

definition ProduceSlotsWithBlocks :: "('g, 'tx) sim_env \<Rightarrow> u64 \<Rightarrow> ('g ChainSimulator, unit) exec" where
  "ProduceSlotsWithBlocks env n = repeat_exec (unat n) (advanceWithPolicy env policyBlock)"

definition ProduceEmptySlots :: "('g, 'tx) sim_env \<Rightarrow> u64 \<Rightarrow> ('g ChainSimulator, unit) exec" where
  "ProduceEmptySlots env n = repeat_exec (unat n) (advanceWithPolicy env policyEmpty)"

definition ProduceSlots :: "('g, 'tx) sim_env \<Rightarrow> u64 \<Rightarrow> ('g ChainSimulator, unit) exec" where
  "ProduceSlots env n = repeat_exec (unat n) (advance env)"

definition CurrentHeadSlot :: "'g ChainSimulator \<Rightarrow> u64" where
  "CurrentHeadSlot s = cs_headSlot s"

text \<open>The ticks of the clock that \<open>Start\<close> sees before the test ends.\<close>

definition Start :: "('g, 'tx) sim_env \<Rightarrow> nat \<Rightarrow> ('g ChainSimulator, unit) exec" where
  "Start env ticks = repeat_exec ticks (advance env)"

definition ProduceSlotWithTransactions :: "('g, 'tx) sim_env \<Rightarrow> int \<Rightarrow> ('g ChainSimulator, u64) exec" where
  "ProduceSlotWithTransactions env n = bind (advanceSlot env policyBlock n) (\<lambda>_. gets CurrentHeadSlot)"

definition produceSlotWithModifiedTx :: "('g, 'tx) sim_env \<Rightarrow> (SimTx \<Rightarrow> SimTx) \<Rightarrow> ('g ChainSimulator, u64) exec" where
  "produceSlotWithModifiedTx env modify_tx =
     bind (modify (\<lambda>s. s\<lparr>cs_headSlot := cs_headSlot s + 1\<rparr>)) (\<lambda>_.
     bind (next_block env) (\<lambda>block.
     bind (buildProgramTx env block) (\<lambda>tx.
     bind (add_tx block (modify_tx tx)) (\<lambda>block.
     bind (add_block block) (\<lambda>_. gets cs_headSlot)))))"

definition ProduceSlotWithPoisonTx :: "('g, 'tx) sim_env \<Rightarrow> ('g ChainSimulator, u64) exec" where
  "ProduceSlotWithPoisonTx env =
     produceSlotWithModifiedTx env (\<lambda>tx. tx\<lparr>stx_logs := [], stx_innerInstructions := Some []\<rparr>)"

definition ProduceSlotWithTxWithoutInnerInstructions :: "('g, 'tx) sim_env \<Rightarrow> ('g ChainSimulator, u64) exec" where
  "ProduceSlotWithTxWithoutInnerInstructions env =
     produceSlotWithModifiedTx env (\<lambda>tx. tx\<lparr>stx_innerInstructions := None\<rparr>)"

definition ProducedTxCount :: "'g ChainSimulator \<Rightarrow> int" where
  "ProducedTxCount s = int (length (cs_programTxs s))"

text \<open>
  The history a new simulator starts with. With \<open>EmptySlotEvery\<close> 1 no block is ever produced and
  the loop does not end when transactions are asked for, so it runs on fuel.
\<close>

fun history_loop :: "('g, 'tx) sim_env \<Rightarrow> SimConfig \<Rightarrow> nat \<Rightarrow> u64 \<Rightarrow> ('g ChainSimulator, unit) exec" where
  "history_loop env cfg 0 slots = fail OutOfFuel"
| "history_loop env cfg (Suc fuel) slots =
     bind (gets ProducedTxCount) (\<lambda>count.
     if slots < scf_HistorySlots cfg \<or> count < scf_HistoryTxCount cfg
     then bind (advance env) (\<lambda>_. history_loop env cfg fuel (slots + 1))
     else ret ())"

text \<open>\<open>payer\<close> and \<open>mint\<close> are the keys of two new wallets, \<open>g\<close> the seeded generator and the clock.\<close>

definition genesis_chain :: "SimConfig \<Rightarrow> PublicKey \<Rightarrow> PublicKey \<Rightarrow> 'g \<Rightarrow> 'g ChainSimulator" where
  "genesis_chain cfg payer mint g =
     \<lparr>cs_cfg = cfg, cs_programID = ProgramID, cs_payer = payer, cs_mint = mint, cs_headSlot = genesisSlot,
      cs_headBlockHeight = genesisBlockHeight, cs_blocks = (\<lambda>_. None), cs_slotsWithBlocks = [],
      cs_txsBySignature = (\<lambda>_. None), cs_programTxs = [], cs_blocksProduced = 0, cs_pendingSkips = 0, cs_txsPaused = False,
      cs_forgottenBeforeSlot = 0, cs_forgottenSignatures = {}, cs_refusedOnce = {}, cs_callCounts = (\<lambda>_. 0),
      cs_signatureQueries = [], cs_world = g\<rparr>"

definition NewChainSimulator ::
  "('g, 'tx) sim_env \<Rightarrow> nat \<Rightarrow> SimConfig \<Rightarrow> PublicKey \<Rightarrow> PublicKey \<Rightarrow> 'g \<Rightarrow> go_error + 'g ChainSimulator" where
  "NewChainSimulator env fuel cfg payer mint g =
     (if scf_TxEvery cfg = 0 \<and> scf_HistoryTxCount cfg > 0 then Inl (GoPanic STR ''require.False'')
      else case history_loop env cfg fuel 0 (genesis_chain cfg payer mint g) of
        (Inl e, _) \<Rightarrow> Inl e
      | (Inr _, s) \<Rightarrow> Inr s)"

section \<open>Scripting the chain\<close>

definition PauseTransactions :: "'g ChainSimulator \<Rightarrow> 'g ChainSimulator" where
  "PauseTransactions s = s\<lparr>cs_txsPaused := True\<rparr>"

definition ResumeTransactions :: "'g ChainSimulator \<Rightarrow> 'g ChainSimulator" where
  "ResumeTransactions s = s\<lparr>cs_txsPaused := False\<rparr>"

definition ForgetSignaturesBeforeSlot :: "u64 \<Rightarrow> 'g ChainSimulator \<Rightarrow> 'g ChainSimulator" where
  "ForgetSignaturesBeforeSlot slot s = s\<lparr>cs_forgottenBeforeSlot := slot\<rparr>"

definition ForgetSignature :: "Signature \<Rightarrow> 'g ChainSimulator \<Rightarrow> 'g ChainSimulator" where
  "ForgetSignature signature s = s\<lparr>cs_forgottenSignatures := insert signature (cs_forgottenSignatures s)\<rparr>"

definition RefuseCursorOnce :: "Signature \<Rightarrow> 'g ChainSimulator \<Rightarrow> 'g ChainSimulator" where
  "RefuseCursorOnce signature s = s\<lparr>cs_refusedOnce := insert signature (cs_refusedOnce s)\<rparr>"

definition SkipNextSlots :: "u64 \<Rightarrow> 'g ChainSimulator \<Rightarrow> 'g ChainSimulator" where
  "SkipNextSlots n s = s\<lparr>cs_pendingSkips := cs_pendingSkips s + n\<rparr>"

section \<open>What the chain answers\<close>

definition GenesisSlot :: u64 where "GenesisSlot = genesisSlot"

definition sim_ProgramID :: "'g ChainSimulator \<Rightarrow> PublicKey" where
  "sim_ProgramID s = cs_programID s"

definition RPCCallCounts :: "'g ChainSimulator \<Rightarrow> string \<Rightarrow> int" where
  "RPCCallCounts s = cs_callCounts s"

definition SignatureQueries :: "'g ChainSimulator \<Rightarrow> SignatureQuery list" where
  "SignatureQueries s = cs_signatureQueries s"

definition ProducedTxsFromSlot :: "'g ChainSimulator \<Rightarrow> u64 \<Rightarrow> SimTx list" where
  "ProducedTxsFromSlot s fromSlot = filter (\<lambda>tx. stx_Slot tx \<ge> fromSlot) (cs_programTxs s)"

definition BlockAt :: "'g ChainSimulator \<Rightarrow> u64 \<Rightarrow> SimBlock option" where
  "BlockAt s slot = cs_blocks s slot"

text \<open>The transactions the node still answers for.\<close>

definition visibleProgramTxs :: "'g ChainSimulator \<Rightarrow> SimTx list" where
  "visibleProgramTxs s =
     (if cs_forgottenBeforeSlot s = 0 \<and> cs_forgottenSignatures s = {} then cs_programTxs s
      else filter (\<lambda>tx. \<not> stx_Slot tx < cs_forgottenBeforeSlot s \<and> stx_Signature tx \<notin> cs_forgottenSignatures s) (cs_programTxs s))"

fun sim_blocks_loop :: "u64 \<Rightarrow> u64 \<Rightarrow> u64 list \<Rightarrow> u64 list" where
  "sim_blocks_loop startSlot end_slot [] = []"
| "sim_blocks_loop startSlot end_slot (slot # rest) =
     (if slot < startSlot then sim_blocks_loop startSlot end_slot rest
      else if slot > end_slot then []
      else slot # sim_blocks_loop startSlot end_slot rest)"

definition sim_getBlocks :: "'g ChainSimulator \<Rightarrow> u64 \<Rightarrow> u64 option \<Rightarrow> u64 list" where
  "sim_getBlocks s startSlot endSlot =
     (let end_slot = (case endSlot of Some e \<Rightarrow> if e < cs_headSlot s then e else cs_headSlot s | None \<Rightarrow> cs_headSlot s)
      in sim_blocks_loop startSlot end_slot (cs_slotsWithBlocks s))"

definition sim_getBlockHeight :: "'g ChainSimulator \<Rightarrow> u64" where
  "sim_getBlockHeight s = cs_headBlockHeight s"

definition sim_getTransaction :: "'g ChainSimulator \<Rightarrow> Signature \<Rightarrow> SimTx option" where
  "sim_getTransaction s signature = cs_txsBySignature s signature"

fun indexOfSignature :: "SimTx list \<Rightarrow> Signature \<Rightarrow> nat option" where
  "indexOfSignature [] signature = None"
| "indexOfSignature (tx # txs) signature =
     (if stx_Signature tx = signature then Some 0 else map_option Suc (indexOfSignature txs signature))"

definition signatureNotFoundError :: go_error where
  "signatureNotFoundError = RPCErr (-32020)"

definition recordSignatureQuery :: "SignatureQuery \<Rightarrow> ('g ChainSimulator, unit) exec" where
  "recordSignatureQuery query = modify (\<lambda>s. s\<lparr>cs_signatureQueries := cs_signatureQueries s @ [query]\<rparr>)"

definition FailedNotFound :: "SignatureQuery \<Rightarrow> bool" where
  "FailedNotFound q \<longleftrightarrow> sq_ErrorCode q = -32020"

text \<open>A cursor that is refused once: the refusal is used up by the answer.\<close>

fun refused_cursor :: "Signature list \<Rightarrow> ('g ChainSimulator, unit) exec" where
  "refused_cursor [] = ret ()"
| "refused_cursor (cursor # rest) =
     bind (gets cs_refusedOnce) (\<lambda>refused.
     if cursor \<in> refused \<and> cursor \<noteq> 0
     then bind (modify (\<lambda>s. s\<lparr>cs_refusedOnce := cs_refusedOnce s - {cursor}\<rparr>)) (\<lambda>_. fail signatureNotFoundError)
     else refused_cursor rest)"

text \<open>The page: from \<open>end - 1\<close> down to \<open>start\<close>, while it is shorter than the limit.\<close>

fun page_loop :: "SimTx list \<Rightarrow> nat \<Rightarrow> int \<Rightarrow> nat \<Rightarrow> TransactionSignature list \<Rightarrow> TransactionSignature list" where
  "page_loop visible start limit 0 result = result"
| "page_loop visible start limit (Suc i) result =
     (if i \<ge> start \<and> int (length result) < limit
      then page_loop visible start limit i
             (result @ [\<lparr>ts_Signature = stx_Signature (visible ! i), ts_Slot = stx_Slot (visible ! i)\<rparr>])
      else result)"

definition sim_getSignaturesForAddress ::
  "PublicKey \<Rightarrow> Signature \<Rightarrow> Signature \<Rightarrow> int \<Rightarrow> ('g ChainSimulator, TransactionSignature list) exec" where
  "sim_getSignaturesForAddress address before until limit =
     bind (gets cs_programID) (\<lambda>programID.
     if address \<noteq> programID then ret []
     else
     bind (refused_cursor [before, until]) (\<lambda>_.
     bind (gets visibleProgramTxs) (\<lambda>visible.
     bind (if before \<noteq> 0
           then (case indexOfSignature visible before of None \<Rightarrow> fail signatureNotFoundError | Some index \<Rightarrow> ret index)
           else ret (length visible)) (\<lambda>end_index.
     bind (if until \<noteq> 0
           then (case indexOfSignature visible until of None \<Rightarrow> fail signatureNotFoundError | Some index \<Rightarrow> ret (index + 1))
           else ret 0) (\<lambda>start_index.
     ret (page_loop visible start_index limit end_index []))))))"

end
