(* ===== verification/Simulator_Rpc.thy ===== *)
theory Simulator_Rpc
  imports Chain_Simulator Rpc_Limits
begin

text \<open>
  \<open>tracker/internal/trackertest/rpc_server.go\<close> and \<open>helpers.go\<close>: the JSON-RPC surface of the
  simulated chain, the subscriber that collects events and the limits the tests use. A request
  carries its parameters as the JSON values they are; a response is its result, the code of a
  JSON-RPC error, or an HTTP status.
\<close>

section \<open>Requests\<close>

definition maxSignaturesPerQuery :: int where "maxSignaturesPerQuery = 1000"
definition sim_rpcErrCodeTxNotFound :: int where "sim_rpcErrCodeTxNotFound = -32020"
definition rpcErrCodeBlockNotAvailable :: int where "rpcErrCodeBlockNotAvailable = -32004"
definition rpcErrCodeMethodNotFound :: int where "rpcErrCodeMethodNotFound = -32601"
definition rpcErrCodeInvalidParams :: int where "rpcErrCodeInvalidParams = -32602"

text \<open>
  A parameter: a number, the text of a key or of a signature, the options of a signature query
  (an absent cursor is zero), or another object.
\<close>

datatype json_param =
    JNum u64
  | JKey PublicKey
  | JSig Signature
  | JSigOpts Signature Signature "int option"
  | JObject

record jsonRPCRequest =
  jq_Method :: string
  jq_Params :: "json_param list"

text \<open>\<open>unmarshalParam\<close>, for each type it is asked for.\<close>

definition unmarshalParam :: "(json_param \<Rightarrow> 'a option) \<Rightarrow> jsonRPCRequest \<Rightarrow> nat \<Rightarrow> go_error + 'a" where
  "unmarshalParam as_value request index =
     (if length (jq_Params request) \<le> index then Inl (RPCErr rpcErrCodeInvalidParams)
      else case as_value (jq_Params request ! index) of
        None \<Rightarrow> Inl (ExtErr STR ''json: cannot unmarshal'')
      | Some a \<Rightarrow> Inr a)"

fun as_number :: "json_param \<Rightarrow> u64 option" where
  "as_number (JNum n) = Some n"
| "as_number _ = None"

fun as_key :: "json_param \<Rightarrow> PublicKey option" where
  "as_key (JKey k) = Some k"
| "as_key _ = None"

fun as_signature :: "json_param \<Rightarrow> Signature option" where
  "as_signature (JSig s) = Some s"
| "as_signature _ = None"

fun as_options :: "json_param \<Rightarrow> (Signature \<times> Signature \<times> int option) option" where
  "as_options (JSigOpts before until limit) = Some (before, until, limit)"
| "as_options JObject = Some (0, 0, None)"
| "as_options _ = None"

section \<open>Answers\<close>

record SimBlockResult = GetBlockResult +
  gb_PreviousBlockhash :: Hash
  gb_ParentSlot :: u64
  gb_Signatures :: "Signature list"
  gb_BlockTime :: int

record SimTransactionResult =
  str_slot :: u64
  str_blockTime :: int
  str_err :: bool
  str_fee :: u64
  str_preBalances :: "u64 list"
  str_postBalances :: "u64 list"
  str_innerInstructions :: "InnerInstruction list option"
  str_logMessages :: "string list"
  str_transaction :: bytes

datatype sim_result =
    RNumber u64
  | RSlots "u64 list"
  | RBlock SimBlockResult
  | RSignatures "TransactionSignature list"
  | RTransaction "SimTransactionResult option"

definition handleGetBlocks :: "jsonRPCRequest \<Rightarrow> ('g ChainSimulator, sim_result) exec" where
  "handleGetBlocks request =
     bind (liftR (unmarshalParam as_number request 0)) (\<lambda>startSlot.
     let endSlot = (if length (jq_Params request) > 1 then as_number (jq_Params request ! 1) else None) in
     bind (gets (\<lambda>s. sim_getBlocks s startSlot endSlot)) (\<lambda>slots. ret (RSlots slots)))"

definition handleGetBlock :: "jsonRPCRequest \<Rightarrow> ('g ChainSimulator, sim_result) exec" where
  "handleGetBlock request =
     bind (liftR (unmarshalParam as_number request 0)) (\<lambda>slot.
     bind (gets (\<lambda>s. BlockAt s slot)) (\<lambda>found.
     case found of
       None \<Rightarrow> fail (RPCErr rpcErrCodeBlockNotAvailable)
     | Some block \<Rightarrow>
         ret (RBlock \<lparr>gb_Blockhash = bl_Hash block, gb_BlockHeight = Some (bl_Height block),
           gb_PreviousBlockhash = bl_parentHash block, gb_ParentSlot = bl_parentSlot block,
           gb_Signatures = bl_signatures block, gb_BlockTime = bl_blockTime block\<rparr>)))"

definition handleGetSignaturesForAddress :: "jsonRPCRequest \<Rightarrow> ('g ChainSimulator, sim_result) exec" where
  "handleGetSignaturesForAddress request =
     bind (liftR (unmarshalParam as_key request 0)) (\<lambda>address.
     bind (if length (jq_Params request) > 1 then liftR (unmarshalParam as_options request 1) else ret (0, 0, None))
       (\<lambda>(before, until, opt_limit).
     let limit = (case opt_limit of Some l \<Rightarrow> l | None \<Rightarrow> maxSignaturesPerQuery);
         query = \<lparr>sq_Before = before, sq_Until = until, sq_Limit = limit, sq_Returned = 0, sq_OldestReturned = 0, sq_ErrorCode = 0\<rparr> in
     bind (attempt (sim_getSignaturesForAddress address before until limit)) (\<lambda>r.
     case r of
       Inl err \<Rightarrow>
         (case errors_As_RPCError err of
            Some code \<Rightarrow> bind (recordSignatureQuery (query\<lparr>sq_ErrorCode := code\<rparr>)) (\<lambda>_. fail err)
          | None \<Rightarrow> fail err)
     | Inr signatures \<Rightarrow>
         bind (recordSignatureQuery (query\<lparr>sq_Returned := length signatures,
                 sq_OldestReturned := (if signatures = [] then 0 else ts_Signature (last signatures))\<rparr>)) (\<lambda>_.
         ret (RSignatures signatures)))))"

definition handleGetTransaction :: "jsonRPCRequest \<Rightarrow> ('g ChainSimulator, sim_result) exec" where
  "handleGetTransaction request =
     bind (liftR (unmarshalParam as_signature request 0)) (\<lambda>signature.
     bind (gets (\<lambda>s. sim_getTransaction s signature)) (\<lambda>found.
     ret (RTransaction (map_option (\<lambda>tx.
       \<lparr>str_slot = stx_Slot tx, str_blockTime = stx_ProducedAt tx, str_err = False, str_fee = 5000,
        str_preBalances = [1000000000, 0], str_postBalances = [999995000, 0],
        str_innerInstructions = stx_innerInstructions tx, str_logMessages = stx_logs tx, str_transaction = stx_raw tx\<rparr>) found))))"

definition dispatch :: "jsonRPCRequest \<Rightarrow> ('g ChainSimulator, sim_result) exec" where
  "dispatch request =
     (if jq_Method request = ''getSlot'' then bind (gets CurrentHeadSlot) (\<lambda>n. ret (RNumber n))
      else if jq_Method request = ''getBlockHeight'' then bind (gets sim_getBlockHeight) (\<lambda>n. ret (RNumber n))
      else if jq_Method request = ''getBlocks'' then handleGetBlocks request
      else if jq_Method request = ''getBlock'' then handleGetBlock request
      else if jq_Method request = ''getSignaturesForAddress'' then handleGetSignaturesForAddress request
      else if jq_Method request = ''getTransaction'' then handleGetTransaction request
      else fail (RPCErr rpcErrCodeMethodNotFound))"

text \<open>
  The handler of the server, None for a body that does not decode; what the client makes of the
  response: the result, the code of the error, or the HTTP status. The artificial latency and a
  result that does not marshal are left out.
\<close>

definition handleRPC :: "jsonRPCRequest option \<Rightarrow> ('g ChainSimulator, sim_result) exec" where
  "handleRPC decoded =
     (case decoded of
        None \<Rightarrow> fail (HTTPErr 400)
      | Some request \<Rightarrow>
          bind (modify (\<lambda>s. s\<lparr>cs_callCounts := (cs_callCounts s)(jq_Method request := cs_callCounts s (jq_Method request) + 1)\<rparr>)) (\<lambda>_.
          bind (attempt (dispatch request)) (\<lambda>r.
          case r of
            Inr result \<Rightarrow> ret result
          | Inl err \<Rightarrow> (case errors_As_RPCError err of Some code \<Rightarrow> fail (RPCErr code) | None \<Rightarrow> fail (HTTPErr 500)))))"

section \<open>The other test doubles\<close>

text \<open>\<open>CollectingSubscriber\<close> is the list of the events it was given.\<close>

definition Collecting_AddEvent :: "'ev EventNotification \<Rightarrow> ('ev EventNotification list, unit) exec" where
  "Collecting_AddEvent event = modify (\<lambda>collected. collected @ [event])"

definition Collecting_Events :: "'ev EventNotification list \<Rightarrow> 'ev EventNotification list" where
  "Collecting_Events collected = collected"

text \<open>\<open>SyncBuffer\<close>, the buffer behind the log of a test.\<close>

definition SyncBuffer_Write :: "bytes \<Rightarrow> (bytes, nat) exec" where
  "SyncBuffer_Write p = bind (modify (\<lambda>buf. buf @ p)) (\<lambda>_. ret (length p))"

definition SyncBuffer_String :: "bytes \<Rightarrow> bytes" where
  "SyncBuffer_String buf = buf"

definition RPCMethodLimits :: RPCMethodLimitsConfig where
  "RPCMethodLimits =
     \<lparr>lc_GlobalRPSLimit = 300 div 10, lc_GetBalance = 300, lc_GetTokenAccountBalance = 300, lc_GetAccountInfo = 300,
      lc_GetProgramAccounts = 300, lc_GetLatestBlockhash = 300, lc_GetSlot = 300, lc_SendTransaction = 300,
      lc_GetSignatureStatuses = 300, lc_SimulateTransaction = 300, lc_RequestAirdrop = 300, lc_GetTransaction = 300,
      lc_GetSignaturesForAddress = 300, lc_GetBlocks = 300, lc_GetBlock = 300, lc_GetBlockHeight = 300\<rparr>"

definition ProductionRPCMethodLimits :: RPCMethodLimitsConfig where
  "ProductionRPCMethodLimits =
     \<lparr>lc_GlobalRPSLimit = 7, lc_GetBalance = 38, lc_GetTokenAccountBalance = 40, lc_GetAccountInfo = 40,
      lc_GetProgramAccounts = 10, lc_GetLatestBlockhash = 40, lc_GetSlot = 40, lc_SendTransaction = 20,
      lc_GetSignatureStatuses = 10, lc_SimulateTransaction = 40, lc_RequestAirdrop = 40, lc_GetTransaction = 10,
      lc_GetSignaturesForAddress = 10, lc_GetBlocks = 40, lc_GetBlock = 20, lc_GetBlockHeight = 40\<rparr>"

text \<open>
  \<open>ProductionRPCMethodLimits\<close> is meant to be the configuration the client falls back to. It is but
  for one method: the fallback allows 6 calls of \<open>getBlock\<close> in a window, this one 20.
\<close>

lemma ProductionRPCMethodLimits_GetBlock:
  "ProductionRPCMethodLimits = default_RPCMethodLimitsConfig\<lparr>lc_GetBlock := 20\<rparr>"
  "ProductionRPCMethodLimits \<noteq> default_RPCMethodLimitsConfig"
  by (simp_all add: ProductionRPCMethodLimits_def default_RPCMethodLimitsConfig_def)

end
