(* ===== verification/Simulator_Invariant.thy ===== *)
theory Simulator_Invariant
  imports Simulator_Rpc
begin

text \<open>
  The simulated chain stays well formed whatever it is scripted to do: its slots with blocks
  ascend up to the head, blocks are numbered without a gap, and its transactions are listed in
  the order of their slots, each in the block of its slot.
\<close>

section \<open>What a slot adds\<close>

text \<open>Reading the outside world and building a transaction leave the chain alone.\<close>

definition same_chain :: "'g ChainSimulator \<Rightarrow> 'g ChainSimulator \<Rightarrow> bool" where
  "same_chain s s' \<longleftrightarrow> (\<exists>g. s' = s\<lparr>cs_world := g\<rparr>)"

lemma same_chain_refl [simp]: "same_chain s s"
  unfolding same_chain_def by (rule exI [of _ "cs_world s"]) simp

lemma keeps_same_chain_world: "same_chain s s' \<Longrightarrow> same_chain s (s'\<lparr>cs_world := g\<rparr>)"
  by (auto simp: same_chain_def)

lemma keeps_sim_read [keeps_rules]: "keeps (same_chain s) (sim_read f)"
  by (auto simp: keeps_def sim_read_def same_chain_def split: prod.splits)

lemma keeps_require_ok [keeps_rules]: "keeps P (require_ok r)"
  unfolding require_ok_def by (intro keeps_rules)

lemma keeps_accountKeyIndex [keeps_rules]: "keeps P (accountKeyIndex keys key)"
  unfolding accountKeyIndex_def by (intro keeps_rules)

lemma keeps_sim_eventAuthority [keeps_rules]: "keeps P (sim_eventAuthority env p)"
  unfolding sim_eventAuthority_def by (intro keeps_rules) (auto intro: keeps_rules)

lemma keeps_encodeEventLogPayload [keeps_rules]: "keeps P (encodeEventLogPayload lib name m)"
  unfolding encodeEventLogPayload_def Let_def by (auto intro: keeps_rules split: prod.splits sum.splits)

lemma keeps_buildProgramTx: "keeps (same_chain s) (buildProgramTx env block)"
  unfolding buildProgramTx_def programIxAccounts_def Let_def
  by (intro keeps_rules) (auto intro!: keeps_rules split: list.split)

lemma buildProgramTx_Inr:
  assumes "buildProgramTx env block s = (Inr tx, s')"
  shows "same_chain s s'" "stx_Slot tx = bl_Slot block"
proof -
  show "same_chain s s'" using keepsD [OF keeps_buildProgramTx _ assms] by simp
  show "stx_Slot tx = bl_Slot block"
    using assms unfolding buildProgramTx_def Let_def
    by (auto simp: bind_Inr_iff) (auto simp: bind_Inr_iff ret_def fail_def split: list.split_asm)
qed

text \<open>The chain with one more block and its transactions.\<close>

definition with_block :: "SimBlock \<Rightarrow> SimTx list \<Rightarrow> 'g ChainSimulator \<Rightarrow> 'g ChainSimulator" where
  "with_block b txs s = s\<lparr>cs_headBlockHeight := bl_Height b, cs_blocksProduced := cs_blocksProduced s + 1,
     cs_blocks := (cs_blocks s)(bl_Slot b \<mapsto> b), cs_slotsWithBlocks := cs_slotsWithBlocks s @ [bl_Slot b],
     cs_txsBySignature := (cs_txsBySignature s)(map (\<lambda>tx. (stx_Signature tx)) txs [\<mapsto>] txs),
     cs_programTxs := cs_programTxs s @ txs\<rparr>"

definition block_of :: "'g ChainSimulator \<Rightarrow> SimBlock \<Rightarrow> SimTx list \<Rightarrow> bool" where
  "block_of s b txs \<longleftrightarrow> bl_Slot b = cs_headSlot s \<and> bl_Height b = cs_headBlockHeight s + 1 \<and>
     bl_Hash b = blockhashForSlot (bl_Slot b) \<and> bl_signatures b = map stx_Signature txs \<and>
     bl_parentHash b = blockhashForSlot (bl_parentSlot b) \<and>
     bl_parentSlot b = (if cs_slotsWithBlocks s = [] then cs_headSlot s - 1 else last (cs_slotsWithBlocks s)) \<and>
     (\<forall>tx \<in> set txs. stx_Slot tx = bl_Slot b)"

text \<open>The transactions of a block are added one by one to the list it starts with.\<close>

definition with_txs :: "SimTx list \<Rightarrow> 'g ChainSimulator \<Rightarrow> 'g ChainSimulator" where
  "with_txs txs s = s\<lparr>cs_txsBySignature := (cs_txsBySignature s)(map stx_Signature txs [\<mapsto>] txs),
     cs_programTxs := cs_programTxs s @ txs\<rparr>"

lemma add_txs_Inr:
  assumes "add_txs env n block s = (Inr block', s')"
  shows "\<exists>txs g. s' = (with_txs txs s)\<lparr>cs_world := g\<rparr> \<and> length txs = n \<and> (\<forall>tx \<in> set txs. stx_Slot tx = bl_Slot block) \<and>
    block' = block\<lparr>bl_signatures := bl_signatures block @ map stx_Signature txs\<rparr>"
  using assms
proof (induction n arbitrary: block s)
  case 0
  then show ?case by (intro exI [of _ "[]"] exI [of _ "cs_world s"]) (simp add: ret_def with_txs_def)
next
  case (Suc n)
  from Suc.prems obtain tx s1 where built: "buildProgramTx env block s = (Inr tx, s1)"
    and rest: "add_txs env n (block\<lparr>bl_signatures := bl_signatures block @ [stx_Signature tx]\<rparr>) (with_txs [tx] s1) = (Inr block', s')"
    by (auto simp: bind_Inr_iff add_tx_def modify_def ret_def with_txs_def)
  obtain g where s1: "s1 = s\<lparr>cs_world := g\<rparr>" using buildProgramTx_Inr(1) [OF built] by (auto simp: same_chain_def)
  from Suc.IH [OF rest] obtain txs g' where ih: "s' = (with_txs txs (with_txs [tx] s1))\<lparr>cs_world := g'\<rparr>" "length txs = n"
    "\<forall>x \<in> set txs. stx_Slot x = bl_Slot block"
    "block' = block\<lparr>bl_signatures := bl_signatures block @ [stx_Signature tx] @ map stx_Signature txs\<rparr>" by auto
  then show ?case
    using buildProgramTx_Inr(2) [OF built]
    by (intro exI [of _ "tx # txs"] exI [of _ g']) (simp add: s1 with_txs_def)
qed

lemma next_block_Inr:
  assumes "next_block env s = (Inr b, s')"
  shows "block_of s b [] \<and> (\<exists>g. s' = s\<lparr>cs_headBlockHeight := bl_Height b, cs_blocksProduced := cs_blocksProduced s + 1, cs_world := g\<rparr>)"
proof -
  obtain now g where "se_Now env (cs_world s) = (now, g)" by (cases "se_Now env (cs_world s)")
  with assms show ?thesis
    by (intro conjI exI [of _ g]) (auto simp: next_block_def bind_def modify_def gets_def sim_read_def ret_def block_of_def Let_def)
qed

lemma add_block_txs:
  assumes "block_of s b []" "\<forall>tx \<in> set txs. stx_Slot tx = bl_Slot b"
  shows "block_of s (b\<lparr>bl_signatures := bl_signatures b @ map stx_Signature txs\<rparr>) txs"
  using assms by (simp add: block_of_def)

text \<open>
  A slot that was produced moves the head by one and is empty, or carries a block with the
  transactions that are listed behind the others. \<open>moved_chain\<close> is what else may change.
\<close>

definition moved_chain :: "'g ChainSimulator \<Rightarrow> 'g ChainSimulator \<Rightarrow> bool" where
  "moved_chain s s' \<longleftrightarrow> (\<exists>skips g. s' = s\<lparr>cs_headSlot := cs_headSlot s + 1, cs_pendingSkips := skips, cs_world := g\<rparr>)"

definition slot_produced :: "'g ChainSimulator \<Rightarrow> 'g ChainSimulator \<Rightarrow> bool" where
  "slot_produced s s' \<longleftrightarrow> (\<exists>s1. moved_chain s s1 \<and>
     (s' = s1 \<or> (\<exists>b txs g. block_of s1 b txs \<and> s' = (with_block b txs s1)\<lparr>cs_world := g\<rparr>)))"

lemma with_block_txs: "with_block b txs s =
    (with_txs txs s)\<lparr>cs_headBlockHeight := bl_Height b, cs_blocksProduced := cs_blocksProduced s + 1,
      cs_blocks := (cs_blocks s)(bl_Slot b \<mapsto> b), cs_slotsWithBlocks := cs_slotsWithBlocks s @ [bl_Slot b]\<rparr>"
  by (simp add: with_block_def with_txs_def)

lemma same_skips [simp]: "\<exists>skips. s = s\<lparr>cs_pendingSkips := skips\<rparr>"
  by (rule exI [of _ "cs_pendingSkips s"]) simp

lemma slot_stays_empty_Inr:
  assumes "slot_stays_empty policy s = (Inr e, s')"
  shows "\<exists>skips. s' = s\<lparr>cs_pendingSkips := skips\<rparr>"
  using assms by (auto simp: slot_stays_empty_def bind_def gets_def modify_def ret_def split: blockPolicy.splits if_split_asm)

lemma advanceSlot_Inr:
  assumes "advanceSlot env policy n s = (Inr (), s')"
  shows "slot_produced s s'"
proof -
  let ?s = "s\<lparr>cs_headSlot := cs_headSlot s + 1\<rparr>"
  from assms obtain e s1 where e: "slot_stays_empty policy ?s = (Inr e, s1)"
    by (auto simp: advanceSlot_def bind_Inr_iff modify_def)
  then obtain skips where "s1 = ?s\<lparr>cs_pendingSkips := skips\<rparr>" using slot_stays_empty_Inr by blast
  then have moved: "moved_chain s s1"
    unfolding moved_chain_def by (intro exI [of _ skips] exI [of _ "cs_world s"]) simp
  show ?thesis
  proof (cases e)
    case True
    with assms e have "s' = s1" by (simp add: advanceSlot_def bind_def modify_def ret_def)
    with moved show ?thesis by (auto simp: slot_produced_def)
  next
    case False
    with assms e obtain b s2 k b' s3 where b: "next_block env s1 = (Inr b, s2)" and txs: "add_txs env k b s2 = (Inr b', s3)"
      and s': "add_block b' s3 = (Inr (), s')"
      by (auto simp: advanceSlot_def bind_Inr_iff modify_def gets_def Let_def)
    obtain g where b1: "block_of s1 b []"
      and s2: "s2 = s1\<lparr>cs_headBlockHeight := bl_Height b, cs_blocksProduced := cs_blocksProduced s1 + 1, cs_world := g\<rparr>"
      using next_block_Inr [OF b] by blast
    obtain ts g' where ts: "s3 = (with_txs ts s2)\<lparr>cs_world := g'\<rparr>" "\<forall>tx \<in> set ts. stx_Slot tx = bl_Slot b"
      "b' = b\<lparr>bl_signatures := bl_signatures b @ map stx_Signature ts\<rparr>"
      using add_txs_Inr [OF txs] by blast
    have "block_of s1 b' ts" using add_block_txs [OF b1 ts(2)] ts(3) by simp
    moreover have "s' = (with_block b' ts s1)\<lparr>cs_world := g'\<rparr>"
      by (rule ChainSimulator.equality)
        (use s' in \<open>auto simp: add_block_def modify_def ts s2 with_block_txs with_txs_def\<close>)
    ultimately show ?thesis using moved unfolding slot_produced_def by blast
  qed
qed

lemma produceSlotWithModifiedTx_Inr:
  assumes "produceSlotWithModifiedTx env f s = (Inr r, s')" "\<And>tx. stx_Slot (f tx) = stx_Slot tx"
  shows "slot_produced s s'"
proof -
  let ?s = "s\<lparr>cs_headSlot := cs_headSlot s + 1\<rparr>"
  from assms(1) obtain b s2 tx s3 where b: "next_block env ?s = (Inr b, s2)" and tx: "buildProgramTx env b s2 = (Inr tx, s3)"
    and s': "add_block (b\<lparr>bl_signatures := bl_signatures b @ [stx_Signature (f tx)]\<rparr>) (with_txs [f tx] s3) = (Inr (), s')"
    by (auto simp: produceSlotWithModifiedTx_def bind_Inr_iff modify_def gets_def add_tx_def ret_def with_txs_def)
  obtain g where b1: "block_of ?s b []"
    and s2: "s2 = ?s\<lparr>cs_headBlockHeight := bl_Height b, cs_blocksProduced := cs_blocksProduced ?s + 1, cs_world := g\<rparr>"
    using next_block_Inr [OF b] by blast
  obtain g' where s3: "s3 = s2\<lparr>cs_world := g'\<rparr>" using buildProgramTx_Inr(1) [OF tx] by (auto simp: same_chain_def)
  let ?b = "b\<lparr>bl_signatures := bl_signatures b @ map stx_Signature [f tx]\<rparr>"
  have "\<forall>x \<in> set [f tx]. stx_Slot x = bl_Slot b" using buildProgramTx_Inr(2) [OF tx] assms(2) by simp
  from add_block_txs [OF b1 this] have "block_of ?s ?b [f tx]" .
  moreover have "s' = (with_block ?b [f tx] ?s)\<lparr>cs_world := g'\<rparr>"
    by (rule ChainSimulator.equality)
      (use s' in \<open>auto simp: add_block_def modify_def s2 s3 with_block_txs with_txs_def\<close>)
  moreover have "moved_chain s ?s"
    unfolding moved_chain_def by (intro exI [of _ "cs_pendingSkips s"] exI [of _ "cs_world s"]) simp
  ultimately show ?thesis unfolding slot_produced_def by blast
qed

section \<open>Well-formed chains\<close>

definition chain_ok :: "'g ChainSimulator \<Rightarrow> bool" where
  "chain_ok s \<longleftrightarrow>
     sorted_wrt (<) (cs_slotsWithBlocks s) \<and> (\<forall>x \<in> set (cs_slotsWithBlocks s). x \<le> cs_headSlot s) \<and>
     dom (cs_blocks s) = set (cs_slotsWithBlocks s) \<and>
     (\<forall>i < length (cs_slotsWithBlocks s). \<exists>b. cs_blocks s (cs_slotsWithBlocks s ! i) = Some b \<and>
        bl_Slot b = cs_slotsWithBlocks s ! i \<and> bl_Hash b = blockhashForSlot (bl_Slot b) \<and>
        bl_Height b = genesisBlockHeight + of_nat (Suc i) \<and> (\<forall>j. i = Suc j \<longrightarrow> bl_parentSlot b = cs_slotsWithBlocks s ! j)) \<and>
     cs_headBlockHeight s = genesisBlockHeight + of_nat (length (cs_slotsWithBlocks s)) \<and>
     sorted_wrt (\<lambda>x y. stx_Slot x \<le> stx_Slot y) (cs_programTxs s) \<and>
     (\<forall>tx \<in> set (cs_programTxs s). \<exists>b. cs_blocks s (stx_Slot tx) = Some b \<and> stx_Signature tx \<in> set (bl_signatures b)) \<and>
     dom (cs_txsBySignature s) = stx_Signature ` set (cs_programTxs s) \<and>
     (\<forall>sig tx. cs_txsBySignature s sig = Some tx \<longrightarrow> tx \<in> set (cs_programTxs s) \<and> stx_Signature tx = sig)"

lemma chain_okD:
  assumes "chain_ok s"
  shows "sorted_wrt (<) (cs_slotsWithBlocks s)" "x \<in> set (cs_slotsWithBlocks s) \<Longrightarrow> x \<le> cs_headSlot s"
    and "dom (cs_blocks s) = set (cs_slotsWithBlocks s)"
    and "i < length (cs_slotsWithBlocks s) \<Longrightarrow> \<exists>b. cs_blocks s (cs_slotsWithBlocks s ! i) = Some b \<and>
        bl_Slot b = cs_slotsWithBlocks s ! i \<and> bl_Hash b = blockhashForSlot (bl_Slot b) \<and>
        bl_Height b = genesisBlockHeight + of_nat (Suc i) \<and> (\<forall>j. i = Suc j \<longrightarrow> bl_parentSlot b = cs_slotsWithBlocks s ! j)"
    and "cs_headBlockHeight s = genesisBlockHeight + of_nat (length (cs_slotsWithBlocks s))"
    and "sorted_wrt (\<lambda>x y. stx_Slot x \<le> stx_Slot y) (cs_programTxs s)"
    and "tx \<in> set (cs_programTxs s) \<Longrightarrow> \<exists>b. cs_blocks s (stx_Slot tx) = Some b \<and> stx_Signature tx \<in> set (bl_signatures b)"
    and "dom (cs_txsBySignature s) = stx_Signature ` set (cs_programTxs s)"
    and "cs_txsBySignature s sig = Some tx \<Longrightarrow> tx \<in> set (cs_programTxs s) \<and> stx_Signature tx = sig"
proof -
  note ok = assms [unfolded chain_ok_def]
  show "sorted_wrt (<) (cs_slotsWithBlocks s)" "dom (cs_blocks s) = set (cs_slotsWithBlocks s)"
    "cs_headBlockHeight s = genesisBlockHeight + of_nat (length (cs_slotsWithBlocks s))"
    "sorted_wrt (\<lambda>x y. stx_Slot x \<le> stx_Slot y) (cs_programTxs s)"
    "dom (cs_txsBySignature s) = stx_Signature ` set (cs_programTxs s)"
    using ok by simp_all
  show "x \<in> set (cs_slotsWithBlocks s) \<Longrightarrow> x \<le> cs_headSlot s" using ok by simp
  show "i < length (cs_slotsWithBlocks s) \<Longrightarrow> \<exists>b. cs_blocks s (cs_slotsWithBlocks s ! i) = Some b \<and>
        bl_Slot b = cs_slotsWithBlocks s ! i \<and> bl_Hash b = blockhashForSlot (bl_Slot b) \<and>
        bl_Height b = genesisBlockHeight + of_nat (Suc i) \<and> (\<forall>j. i = Suc j \<longrightarrow> bl_parentSlot b = cs_slotsWithBlocks s ! j)"
    using ok by (elim conjE) (erule allE [of _ i], erule impE, assumption, assumption)
  show "tx \<in> set (cs_programTxs s) \<Longrightarrow> \<exists>b. cs_blocks s (stx_Slot tx) = Some b \<and> stx_Signature tx \<in> set (bl_signatures b)"
    using ok by simp
  show "cs_txsBySignature s sig = Some tx \<Longrightarrow> tx \<in> set (cs_programTxs s) \<and> stx_Signature tx = sig" using ok by simp
qed

lemma chain_ok_genesis: "chain_ok (genesis_chain cfg payer mint g)"
  by (simp add: chain_ok_def genesis_chain_def)

text \<open>It does not look at the script, the queries and the outside world.\<close>

lemma chain_ok_cong:
  assumes "cs_slotsWithBlocks s' = cs_slotsWithBlocks s" "cs_headSlot s' = cs_headSlot s" "cs_blocks s' = cs_blocks s"
    "cs_headBlockHeight s' = cs_headBlockHeight s" "cs_programTxs s' = cs_programTxs s"
    "cs_txsBySignature s' = cs_txsBySignature s"
  shows "chain_ok s' = chain_ok s"
  unfolding chain_ok_def assms ..

text \<open>Lookup after the transactions of a block were entered.\<close>

lemma txs_entered:
  "dom (m(map f txs [\<mapsto>] txs)) = dom m \<union> f ` set txs"
  "(m(map f txs [\<mapsto>] txs)) k = Some tx \<Longrightarrow> m k = Some tx \<or> (tx \<in> set txs \<and> f tx = k)"
proof -
  show "dom (m(map f txs [\<mapsto>] txs)) = dom m \<union> f ` set txs" by (simp add: dom_map_upds) blast
  show "(m(map f txs [\<mapsto>] txs)) k = Some tx \<Longrightarrow> m k = Some tx \<or> (tx \<in> set txs \<and> f tx = k)"
    by (induction txs arbitrary: m) (force split: if_splits)+
qed

lemma chain_ok_moved:
  assumes "chain_ok s" "moved_chain s s'" "Suc (unat (cs_headSlot s)) < 2 ^ 64"
  shows "chain_ok s'" "cs_headSlot s < cs_headSlot s'" "unat (cs_headSlot s') = Suc (unat (cs_headSlot s))"
proof -
  have un: "unat (cs_headSlot s + 1) = Suc (unat (cs_headSlot s))"
    using assms(3) by (simp add: unat_plus_if')
  then have lt: "cs_headSlot s < cs_headSlot s + 1" by (simp add: word_less_nat_alt)
  obtain skips g where s': "s' = s\<lparr>cs_headSlot := cs_headSlot s + 1, cs_pendingSkips := skips, cs_world := g\<rparr>"
    using assms(2) by (auto simp: moved_chain_def)
  then show "cs_headSlot s < cs_headSlot s'" "unat (cs_headSlot s') = Suc (unat (cs_headSlot s))" using lt un by simp_all
  have "\<forall>x \<in> set (cs_slotsWithBlocks s). x \<le> cs_headSlot s + 1"
    using chain_okD(2) [OF assms(1)] lt by (meson less_imp_le order_trans)
  with assms(1) show "chain_ok s'" unfolding chain_ok_def s' by simp
qed

lemma chain_ok_with_block:
  assumes ok: "chain_ok s" and b: "block_of s b txs" and new: "\<forall>x \<in> set (cs_slotsWithBlocks s). x < cs_headSlot s"
  shows "chain_ok ((with_block b txs s)\<lparr>cs_world := g\<rparr>)"
proof -
  let ?slots = "cs_slotsWithBlocks s"
  have head: "bl_Slot b = cs_headSlot s" "bl_Hash b = blockhashForSlot (bl_Slot b)" "bl_signatures b = map stx_Signature txs"
    "bl_Height b = cs_headBlockHeight s + 1" "\<forall>tx \<in> set txs. stx_Slot tx = bl_Slot b"
    "?slots \<noteq> [] \<longrightarrow> bl_parentSlot b = last ?slots"
    using b by (auto simp: block_of_def)
  have fresh: "cs_headSlot s \<notin> set ?slots" using new by blast
  have txs: "sorted_wrt (\<lambda>x y. stx_Slot x \<le> stx_Slot y) (cs_programTxs s @ txs)"
  proof -
    have le: "stx_Slot x \<le> cs_headSlot s" if "x \<in> set (cs_programTxs s)" for x
    proof -
      from chain_okD(7) [OF ok that] have "stx_Slot x \<in> dom (cs_blocks s)" by blast
      then show ?thesis using chain_okD(2,3) [OF ok] head(1) by simp
    qed
    have "sorted_wrt (\<lambda>x y. stx_Slot x \<le> stx_Slot y) txs"
      using head(5) by (simp add: sorted_wrt_iff_nth_less)
    with chain_okD(6) [OF ok] le head(1,5) show ?thesis by (auto simp: sorted_wrt_append)
  qed
  have blocks: "\<exists>b'. ((cs_blocks s)(bl_Slot b \<mapsto> b)) ((?slots @ [bl_Slot b]) ! i) = Some b' \<and> bl_Slot b' = (?slots @ [bl_Slot b]) ! i \<and>
      bl_Hash b' = blockhashForSlot (bl_Slot b') \<and> bl_Height b' = genesisBlockHeight + of_nat (Suc i) \<and>
      (\<forall>j. i = Suc j \<longrightarrow> bl_parentSlot b' = (?slots @ [bl_Slot b]) ! j)" if "i < Suc (length ?slots)" for i
  proof (cases "i = length ?slots")
    case True
    have "bl_parentSlot b = (?slots @ [bl_Slot b]) ! j" if "i = Suc j" for j
      using head(6) True that by (cases ?slots rule: rev_cases) (auto simp: nth_append)
    moreover note chain_okD(5) [OF ok]
    ultimately show ?thesis using True head by simp
  next
    case False
    with that have i: "i < length ?slots" by simp
    then have "(?slots ! i) \<noteq> bl_Slot b" using fresh head(1) nth_mem by metis
    moreover from chain_okD(4) [OF ok i] obtain b' where "cs_blocks s (?slots ! i) = Some b'" "bl_Slot b' = ?slots ! i"
      "bl_Hash b' = blockhashForSlot (bl_Slot b')" "bl_Height b' = genesisBlockHeight + of_nat (Suc i)"
      "\<forall>j. i = Suc j \<longrightarrow> bl_parentSlot b' = ?slots ! j" by blast
    ultimately show ?thesis using i by (auto simp: nth_append)
  qed
  have found: "\<exists>b'. ((cs_blocks s)(bl_Slot b \<mapsto> b)) (stx_Slot tx) = Some b' \<and> stx_Signature tx \<in> set (bl_signatures b')"
    if "tx \<in> set (cs_programTxs s) \<union> set txs" for tx
  proof (cases "stx_Slot tx = bl_Slot b")
    case True
    then have "tx \<in> set txs"
      using that chain_okD(3) [OF ok] chain_okD(7) [OF ok] fresh head(1) by (metis Un_iff domI)
    with True head(3) show ?thesis by simp
  next
    case False
    with that head(5) have "tx \<in> set (cs_programTxs s)" by blast
    with chain_okD(7) [OF ok] False show ?thesis by simp
  qed
  let ?s' = "(with_block b txs s)\<lparr>cs_world := g\<rparr>"
  have fields: "cs_slotsWithBlocks ?s' = ?slots @ [bl_Slot b]" "cs_headSlot ?s' = cs_headSlot s"
    "cs_blocks ?s' = (cs_blocks s)(bl_Slot b \<mapsto> b)" "cs_headBlockHeight ?s' = bl_Height b"
    "cs_programTxs ?s' = cs_programTxs s @ txs"
    "cs_txsBySignature ?s' = (cs_txsBySignature s)(map stx_Signature txs [\<mapsto>] txs)"
    by (simp_all add: with_block_def)
  show ?thesis
    unfolding chain_ok_def fields
  proof (intro conjI)
    show "sorted_wrt (<) (?slots @ [bl_Slot b])" "\<forall>x \<in> set (?slots @ [bl_Slot b]). x \<le> cs_headSlot s"
      "dom ((cs_blocks s)(bl_Slot b \<mapsto> b)) = set (?slots @ [bl_Slot b])"
      "bl_Height b = genesisBlockHeight + of_nat (length (?slots @ [bl_Slot b]))"
      using chain_okD(1,3,5) [OF ok] new head by (auto simp: sorted_wrt_append less_imp_le)
    show "dom ((cs_txsBySignature s)(map stx_Signature txs [\<mapsto>] txs)) = stx_Signature ` set (cs_programTxs s @ txs)"
      using chain_okD(8) [OF ok] by (simp add: txs_entered image_Un Un_commute)
    show "\<forall>sig tx. ((cs_txsBySignature s)(map stx_Signature txs [\<mapsto>] txs)) sig = Some tx \<longrightarrow>
        tx \<in> set (cs_programTxs s @ txs) \<and> stx_Signature tx = sig"
      using chain_okD(9) [OF ok] txs_entered(2) [of "cs_txsBySignature s" stx_Signature txs] by auto
    show "\<forall>tx \<in> set (cs_programTxs s @ txs). \<exists>b'. ((cs_blocks s)(bl_Slot b \<mapsto> b)) (stx_Slot tx) = Some b' \<and>
        stx_Signature tx \<in> set (bl_signatures b')"
      using found by simp
  qed (use txs blocks in \<open>simp_all only: length_append_singleton, blast\<close>)
qed

lemma chain_ok_slot:
  assumes "chain_ok s" "slot_produced s s'" "Suc (unat (cs_headSlot s)) < 2 ^ 64"
  shows "chain_ok s' \<and> unat (cs_headSlot s') = Suc (unat (cs_headSlot s))"
proof -
  obtain s1 where s1: "moved_chain s s1" "s' = s1 \<or> (\<exists>b txs g. block_of s1 b txs \<and> s' = (with_block b txs s1)\<lparr>cs_world := g\<rparr>)"
    using assms(2) by (auto simp: slot_produced_def)
  note moved = chain_ok_moved [OF assms(1) s1(1) assms(3)]
  have "\<forall>x \<in> set (cs_slotsWithBlocks s1). x < cs_headSlot s1"
  proof -
    have "cs_slotsWithBlocks s1 = cs_slotsWithBlocks s" using s1(1) by (auto simp: moved_chain_def)
    with chain_okD(2) [OF assms(1)] moved(2) show ?thesis by (metis le_less_trans)
  qed
  with s1(2) moved show ?thesis by (auto simp: chain_ok_with_block) (auto simp: with_block_def)
qed

section \<open>Scripts\<close>

text \<open>Everything a test does to a simulated chain, requests of the tracker included.\<close>

datatype chain_op =
    SlotsWithBlocks u64
  | EmptySlots u64
  | Slots u64
  | Ticks nat
  | SlotWithTransactions int
  | PoisonSlot
  | SlotWithoutInnerInstructions
  | Pause
  | Resume
  | ForgetBefore u64
  | Forget Signature
  | RefuseOnce Signature
  | SkipNext u64
  | Request "jsonRPCRequest option"

fun run_op :: "('g, 'tx) sim_env \<Rightarrow> chain_op \<Rightarrow> ('g ChainSimulator, unit) exec" where
  "run_op env (SlotsWithBlocks n) = ProduceSlotsWithBlocks env n"
| "run_op env (EmptySlots n) = ProduceEmptySlots env n"
| "run_op env (Slots n) = ProduceSlots env n"
| "run_op env (Ticks n) = Start env n"
| "run_op env (SlotWithTransactions n) = bind (ProduceSlotWithTransactions env n) (\<lambda>_. ret ())"
| "run_op env PoisonSlot = bind (ProduceSlotWithPoisonTx env) (\<lambda>_. ret ())"
| "run_op env SlotWithoutInnerInstructions = bind (ProduceSlotWithTxWithoutInnerInstructions env) (\<lambda>_. ret ())"
| "run_op env Pause = modify PauseTransactions"
| "run_op env Resume = modify ResumeTransactions"
| "run_op env (ForgetBefore slot) = modify (ForgetSignaturesBeforeSlot slot)"
| "run_op env (Forget sig) = modify (ForgetSignature sig)"
| "run_op env (RefuseOnce sig) = modify (RefuseCursorOnce sig)"
| "run_op env (SkipNext n) = modify (SkipNextSlots n)"
| "run_op env (Request r) = bind (attempt (handleRPC r)) (\<lambda>_. ret ())"

fun op_slots :: "chain_op \<Rightarrow> nat" where
  "op_slots (SlotsWithBlocks n) = unat n"
| "op_slots (EmptySlots n) = unat n"
| "op_slots (Slots n) = unat n"
| "op_slots (Ticks n) = n"
| "op_slots (SlotWithTransactions n) = 1"
| "op_slots PoisonSlot = 1"
| "op_slots SlotWithoutInnerInstructions = 1"
| "op_slots _ = 0"

text \<open>A request leaves the chain alone, whatever it is answered.\<close>

definition only_answered :: "'g ChainSimulator \<Rightarrow> 'g ChainSimulator \<Rightarrow> bool" where
  "only_answered s s' \<longleftrightarrow> s'\<lparr>cs_refusedOnce := cs_refusedOnce s, cs_callCounts := cs_callCounts s,
     cs_signatureQueries := cs_signatureQueries s\<rparr> = s"

lemma only_answered_upd:
  "only_answered s s"
  "only_answered s s' \<Longrightarrow> only_answered s (s'\<lparr>cs_refusedOnce := r\<rparr>)"
  "only_answered s s' \<Longrightarrow> only_answered s (s'\<lparr>cs_callCounts := c\<rparr>)"
  "only_answered s s' \<Longrightarrow> only_answered s (s'\<lparr>cs_signatureQueries := q\<rparr>)"
  by (simp_all add: only_answered_def)

lemma only_answeredD:
  assumes "only_answered s s'"
  shows "cs_slotsWithBlocks s' = cs_slotsWithBlocks s" "cs_headSlot s' = cs_headSlot s" "cs_blocks s' = cs_blocks s"
    "cs_headBlockHeight s' = cs_headBlockHeight s" "cs_programTxs s' = cs_programTxs s"
    "cs_txsBySignature s' = cs_txsBySignature s" "visibleProgramTxs s' = visibleProgramTxs s" "cs_programID s' = cs_programID s"
proof -
  note eq = assms [unfolded only_answered_def]
  show "cs_slotsWithBlocks s' = cs_slotsWithBlocks s" "cs_headSlot s' = cs_headSlot s" "cs_blocks s' = cs_blocks s"
    "cs_headBlockHeight s' = cs_headBlockHeight s" "cs_programTxs s' = cs_programTxs s"
    "cs_txsBySignature s' = cs_txsBySignature s" "cs_programID s' = cs_programID s"
    using arg_cong [OF eq, of cs_slotsWithBlocks] arg_cong [OF eq, of cs_headSlot] arg_cong [OF eq, of cs_blocks]
      arg_cong [OF eq, of cs_headBlockHeight] arg_cong [OF eq, of cs_programTxs] arg_cong [OF eq, of cs_txsBySignature]
      arg_cong [OF eq, of cs_programID]
    by simp_all
  show "visibleProgramTxs s' = visibleProgramTxs s"
    using arg_cong [OF eq, of cs_forgottenBeforeSlot] arg_cong [OF eq, of cs_forgottenSignatures]
      arg_cong [OF eq, of cs_programTxs]
    by (simp add: visibleProgramTxs_def)
qed

lemma keeps_refused_cursor [keeps_rules]: "keeps (only_answered s) (refused_cursor cursors)"
proof (induction cursors)
  case (Cons c cs)
  then show ?case by (auto intro!: keeps_rules only_answered_upd)
qed (simp add: keeps_rules)

lemma keeps_sim_getSignatures [keeps_rules]: "keeps (only_answered s) (sim_getSignaturesForAddress a b u l)"
  unfolding sim_getSignaturesForAddress_def by (intro keeps_rules)

lemma keeps_recordSignatureQuery [keeps_rules]: "keeps (only_answered s) (recordSignatureQuery q)"
  unfolding recordSignatureQuery_def by (intro keeps_rules only_answered_upd)

lemma keeps_dispatch [keeps_rules]: "keeps (only_answered s) (dispatch request)"
  unfolding dispatch_def handleGetBlocks_def handleGetBlock_def handleGetSignaturesForAddress_def handleGetTransaction_def Let_def
  by (intro keeps_rules) (auto intro!: keeps_rules)

lemma keeps_handleRPC [keeps_rules]: "keeps (only_answered s) (handleRPC r)"
  unfolding handleRPC_def by (intro keeps_rules only_answered_upd)

lemma repeat_slots:
  assumes "repeat_exec n m s = (Inr (), s')" "\<And>s s'. m s = (Inr (), s') \<Longrightarrow> slot_produced s s'"
    and "chain_ok s" "unat (cs_headSlot s) + n < 2 ^ 64"
  shows "chain_ok s' \<and> unat (cs_headSlot s') = unat (cs_headSlot s) + n"
  using assms(1,3,4)
proof (induction n arbitrary: s)
  case 0
  then show ?case by (simp add: ret_def)
next
  case (Suc n)
  from Suc.prems(1) obtain s1 where s1: "m s = (Inr (), s1)" "repeat_exec n m s1 = (Inr (), s')"
    by (auto simp: bind_Inr_iff)
  have "chain_ok s1 \<and> unat (cs_headSlot s1) = Suc (unat (cs_headSlot s))"
    using chain_ok_slot [OF Suc.prems(2) assms(2) [OF s1(1)]] Suc.prems(3) by simp
  with Suc.IH [OF s1(2)] Suc.prems(3) show ?case by simp
qed

lemma run_op_ok:
  assumes "run_op env op s = (Inr (), s')" "chain_ok s" "unat (cs_headSlot s) + op_slots op < 2 ^ 64"
  shows "chain_ok s' \<and> unat (cs_headSlot s') = unat (cs_headSlot s) + op_slots op"
proof -
  note slots = repeat_slots [OF _ advanceSlot_Inr assms(2)]
  have one: "chain_ok s' \<and> unat (cs_headSlot s') = Suc (unat (cs_headSlot s))" if "slot_produced s s'" "op_slots op = 1"
    using chain_ok_slot [OF assms(2) that(1)] assms(3) that(2) by simp
  have script: "chain_ok s' \<and> unat (cs_headSlot s') = unat (cs_headSlot s)"
    if "run_op env op = modify f" "\<And>s. cs_slotsWithBlocks (f s) = cs_slotsWithBlocks s \<and> cs_headSlot (f s) = cs_headSlot s \<and>
      cs_blocks (f s) = cs_blocks s \<and> cs_headBlockHeight (f s) = cs_headBlockHeight s \<and> cs_programTxs (f s) = cs_programTxs s \<and>
      cs_txsBySignature (f s) = cs_txsBySignature s" for f
    using assms(1,2) that chain_ok_cong [of s' s] by (auto simp: modify_def)
  show ?thesis
  proof (cases op)
    case (Request r)
    then have "keeps (only_answered s) (run_op env op)" by (auto intro!: keeps_rules)
    from keepsD [OF this only_answered_upd(1) assms(1)] have s': "only_answered s s'" .
    have "chain_ok s' = chain_ok s" by (rule chain_ok_cong) (rule only_answeredD [OF s'])+
    with assms(2) Request only_answeredD(2) [OF s'] show ?thesis by simp
  next
    case (SlotWithTransactions n)
    with assms(1) have "advanceSlot env policyBlock n s = (Inr (), s')"
      by (auto simp: ProduceSlotWithTransactions_def bind_Inr_iff gets_def ret_def)
    with one [OF advanceSlot_Inr] SlotWithTransactions show ?thesis by simp
  next
    case PoisonSlot
    with assms(1) obtain r where "ProduceSlotWithPoisonTx env s = (Inr r, s')" by (auto simp: bind_Inr_iff ret_def)
    then have "slot_produced s s'"
      unfolding ProduceSlotWithPoisonTx_def by (rule produceSlotWithModifiedTx_Inr) simp
    with one PoisonSlot show ?thesis by simp
  next
    case SlotWithoutInnerInstructions
    with assms(1) obtain r where "ProduceSlotWithTxWithoutInnerInstructions env s = (Inr r, s')" by (auto simp: bind_Inr_iff ret_def)
    then have "slot_produced s s'"
      unfolding ProduceSlotWithTxWithoutInnerInstructions_def by (rule produceSlotWithModifiedTx_Inr) simp
    with one SlotWithoutInnerInstructions show ?thesis by simp
  qed (use assms(1,3) slots script in \<open>simp_all add: ProduceSlotsWithBlocks_def ProduceEmptySlots_def ProduceSlots_def Start_def advance_def
      advanceWithPolicy_def PauseTransactions_def ResumeTransactions_def ForgetSignaturesBeforeSlot_def ForgetSignature_def
      RefuseCursorOnce_def SkipNextSlots_def\<close>)
qed

fun run_ops :: "('g, 'tx) sim_env \<Rightarrow> chain_op list \<Rightarrow> ('g ChainSimulator, unit) exec" where
  "run_ops env [] = ret ()"
| "run_ops env (op # ops) = bind (run_op env op) (\<lambda>_. run_ops env ops)"

lemma run_ops_ok:
  assumes "run_ops env ops s = (Inr (), s')" "chain_ok s" "unat (cs_headSlot s) + sum_list (map op_slots ops) < 2 ^ 64"
  shows "chain_ok s' \<and> unat (cs_headSlot s') = unat (cs_headSlot s) + sum_list (map op_slots ops)"
  using assms
proof (induction ops arbitrary: s)
  case (Cons op ops)
  from Cons.prems(1) obtain s1 where s1: "run_op env op s = (Inr (), s1)" "run_ops env ops s1 = (Inr (), s')"
    by (auto simp: bind_Inr_iff)
  from run_op_ok [OF s1(1) Cons.prems(2)] Cons.IH [OF s1(2)] Cons.prems(3) show ?case by simp
qed (simp add: ret_def)

text \<open>The history a new simulator has, which is not longer than its fuel.\<close>

lemma history_loop_ok:
  assumes "history_loop env cfg fuel n s = (Inr (), s')" "chain_ok s" "unat (cs_headSlot s) + fuel < 2 ^ 64"
  shows "chain_ok s' \<and> unat (cs_headSlot s') \<le> unat (cs_headSlot s) + fuel"
  using assms
proof (induction fuel arbitrary: n s)
  case 0
  then show ?case by (simp add: fail_def)
next
  case (Suc fuel)
  show ?case
  proof (cases "n < scf_HistorySlots cfg \<or> ProducedTxCount s < scf_HistoryTxCount cfg")
    case True
    with Suc.prems(1) obtain s1 where s1: "advance env s = (Inr (), s1)" "history_loop env cfg fuel (n + 1) s1 = (Inr (), s')"
      by (auto simp: bind_Inr_iff gets_def)
    have "chain_ok s1 \<and> unat (cs_headSlot s1) = Suc (unat (cs_headSlot s))"
      using chain_ok_slot [OF Suc.prems(2) advanceSlot_Inr [OF s1(1) [unfolded advance_def advanceWithPolicy_def]]] Suc.prems(3)
      by simp
    with Suc.IH [OF s1(2)] Suc.prems(3) show ?thesis by simp
  next
    case False
    with Suc.prems show ?thesis by (auto simp: bind_def gets_def ret_def)
  qed
qed

end
