(* ===== verification/Simulator_Contract.thy ===== *)
theory Simulator_Contract
  imports Simulator_Invariant Tracker_System
begin

text \<open>
  The tracker against the simulated chain. The node's answers are those the theorems on fetching
  assume of a node with a fixed history, and a transaction the simulator builds yields in the
  tracker exactly the event it was built for.
\<close>

section \<open>Pages\<close>

definition sig_of :: "SimTx \<Rightarrow> TransactionSignature" where
  "sig_of tx = \<lparr>ts_Signature = stx_Signature tx, ts_Slot = stx_Slot tx\<rparr>"

lemma sig_of_simps [simp]: "ts_Signature (sig_of tx) = stx_Signature tx" "ts_Slot (sig_of tx) = stx_Slot tx"
  by (simp_all add: sig_of_def)

text \<open>What the node lists of the program: the visible transactions, newest first.\<close>

definition sim_history :: "'g ChainSimulator \<Rightarrow> TransactionSignature list" where
  "sim_history s = map sig_of (rev (visibleProgramTxs s))"

lemma page_loop_eq:
  assumes "i \<le> length visible"
  shows "page_loop visible start limit i result =
    result @ take (nat (limit - int (length result))) (map sig_of (rev (drop start (take i visible))))"
  using assms
proof (induction i arbitrary: result)
  case (Suc i)
  then have split: "take (Suc i) visible = take i visible @ [visible ! i]" by (simp add: take_Suc_conv_app_nth)
  show ?case
  proof (cases "start \<le> i \<and> int (length result) < limit")
    case True
    then have "nat (limit - int (length result)) = Suc (nat (limit - int (Suc (length result))))" by arith
    with True Suc show ?thesis by (simp add: split sig_of_def)
  next
    case False
    with Suc.prems show ?thesis by auto
  qed
qed simp

lemma indexOfSignature_Some:
  "indexOfSignature txs sig = Some k \<Longrightarrow> k < length txs \<and> stx_Signature (txs ! k) = sig"
  by (induction txs arbitrary: k) (auto split: if_splits)

lemma indexOfSignature_None: "indexOfSignature txs sig = None \<longleftrightarrow> sig \<notin> stx_Signature ` set txs"
  by (induction txs) auto

lemma takeWhile_stop: "\<forall>x \<in> set xs. P x \<Longrightarrow> \<not> P y \<Longrightarrow> takeWhile P (xs @ y # ys) = xs"
  by (simp add: takeWhile_append2)

text \<open>Back from position \<open>e\<close> to just behind the entry at \<open>u\<close>.\<close>

lemma takeWhile_back_to:
  assumes "distinct (map stx_Signature V)" "u < e" "e \<le> length V"
  shows "takeWhile (\<lambda>x. ts_Signature x \<noteq> stx_Signature (V ! u)) (map sig_of (rev (take e V))) =
    map sig_of (rev (drop (Suc u) (take e V)))"
proof -
  let ?T = "take e V"
  have u: "u < length ?T" "?T ! u = V ! u" using assms by simp_all
  note split = id_take_nth_drop [OF u(1), unfolded u(2)]
  have "map stx_Signature ?T = map stx_Signature (take u ?T @ (V ! u) # drop (Suc u) ?T)" using split by (rule arg_cong)
  moreover have "distinct (map stx_Signature ?T)" using assms(1) by (metis distinct_take take_map)
  ultimately have "distinct (map stx_Signature (take u ?T @ (V ! u) # drop (Suc u) ?T))" by (rule subst)
  then have "stx_Signature (V ! u) \<notin> stx_Signature ` set (drop (Suc u) ?T)"
    unfolding map_append distinct_append by simp
  then have other: "\<forall>x \<in> set (map sig_of (rev (drop (Suc u) ?T))). ts_Signature x \<noteq> stx_Signature (V ! u)"
    by (auto simp: image_iff)
  have "map sig_of (rev ?T) = map sig_of (rev (take u ?T @ (V ! u) # drop (Suc u) ?T))"
    using arg_cong [OF split, of "\<lambda>T. map sig_of (rev T)"] .
  also have "\<dots> = map sig_of (rev (drop (Suc u) ?T)) @ sig_of (V ! u) # map sig_of (rev (take u ?T))" by simp
  finally have eq: "map sig_of (rev ?T) = map sig_of (rev (drop (Suc u) ?T)) @ sig_of (V ! u) # map sig_of (rev (take u ?T))" .
  show ?thesis unfolding eq by (rule takeWhile_stop [OF other]) simp
qed

lemma takeWhile_absent:
  assumes "sig \<notin> stx_Signature ` set V"
  shows "takeWhile (\<lambda>x. ts_Signature x \<noteq> sig) (map sig_of (rev (take e V))) = map sig_of (rev (take e V))"
  using assms by (auto simp: takeWhile_eq_all_conv image_iff dest: in_set_takeD)

lemma history_after_index:
  assumes "history_ok (map sig_of (rev V))" "k < length V"
  shows "history_after (map sig_of (rev V)) (stx_Signature (V ! k)) = map sig_of (rev (take k V))"
proof -
  have "map sig_of (rev V) = map sig_of (rev (take k V @ (V ! k) # drop (Suc k) V))"
    using arg_cong [OF id_take_nth_drop [OF assms(2)], of "\<lambda>T. map sig_of (rev T)"] .
  then have "map sig_of (rev V) = map sig_of (rev (drop (Suc k) V)) @ [sig_of (V ! k)] @ map sig_of (rev (take k V))" by simp
  with history_after_split [of "map sig_of (rev (drop (Suc k) V))" "sig_of (V ! k)"] assms(1) show ?thesis by simp
qed

text \<open>A query that pages back is answered as the contract of a node with this history says.\<close>

lemma sim_signatures_answer:
  assumes ok: "history_ok (sim_history s)" and refused: "cs_refusedOnce s = {}"
    and paging: "paging_opts (sim_history s) opts"
  shows "sim_getSignaturesForAddress (cs_programID s) (so_Before opts) (so_Until opts) 1000 s =
    (if unknown_until (sim_history s) opts then Inl (RPCErr rpcErrCodeTxNotFound)
     else Inr (history_page (sim_history s) opts), s)"
proof -
  let ?V = "visibleProgramTxs s" and ?b = "so_Before opts" and ?u = "so_Until opts"
  have hist: "sim_history s = map sig_of (rev ?V)" by (simp add: sim_history_def)
  have sigs: "ts_Signature ` set (sim_history s) = stx_Signature ` set ?V" by (auto simp: hist image_iff)
  have distinct: "distinct (map stx_Signature ?V)"
    using ok by (simp add: history_ok_def hist comp_def rev_map [symmetric])
  define e where "e = (if ?b = 0 then length ?V else the (indexOfSignature ?V ?b))"
  have start: "?b = 0 \<Longrightarrow> e = length ?V" by (simp add: e_def)
  have before: "?b \<noteq> 0 \<Longrightarrow> indexOfSignature ?V ?b = Some e" and e: "e \<le> length ?V"
    and after: "history_after (sim_history s) ?b = map sig_of (rev (take e ?V))"
  proof -
    have "?b \<in> stx_Signature ` set ?V" if "?b \<noteq> 0"
      using paging that sigs unfolding paging_opts_def by (metis image_mono set_takeWhileD subsetD subsetI)
    then show b: "?b \<noteq> 0 \<Longrightarrow> indexOfSignature ?V ?b = Some e"
      using indexOfSignature_None [of ?V ?b] unfolding e_def by fastforce
    show "e \<le> length ?V"
      using b indexOfSignature_Some [of ?V ?b e] start by (cases "?b = 0") auto
    show "history_after (sim_history s) ?b = map sig_of (rev (take e ?V))"
    proof (cases "?b = 0")
      case True
      then show ?thesis by (simp add: hist start)
    next
      case False
      with b indexOfSignature_Some [of ?V ?b e] have "e < length ?V" "stx_Signature (?V ! e) = ?b" by auto
      with history_after_index [OF ok [unfolded hist], of e] show ?thesis by (simp add: hist)
    qed
  qed
  note run = sim_getSignaturesForAddress_def bind_def gets_def ret_def fail_def refused signatureNotFoundError_def
    rpcErrCodeTxNotFound_def
  note page = page_loop_eq [OF e, of _ 1000 "[]"]
  have limit: "nat 1000 = getSignaturesForAddressMaxLimit" by (simp add: getSignaturesForAddressMaxLimit_def)
  show ?thesis
  proof (cases "?u = 0")
    case True
    then have "history_page (sim_history s) opts = take getSignaturesForAddressMaxLimit (map sig_of (rev (take e ?V)))"
      by (simp add: history_page_def after takeWhile_eq_all_conv [THEN iffD2])
    moreover have "\<not> unknown_until (sim_history s) opts" using True by (simp add: unknown_until_def)
    ultimately show ?thesis
      using True before by (cases "?b = 0") (simp_all add: run page page_loop_eq [OF order_refl] limit [symmetric] start)
  next
    case u: False
    show ?thesis
    proof (cases "indexOfSignature ?V ?u")
      case None
      then have "unknown_until (sim_history s) opts"
        using u sigs indexOfSignature_None [of ?V ?u] by (simp add: unknown_until_def)
      with u None before show ?thesis by (cases "?b = 0") (simp_all add: run)
    next
      case (Some k)
      then have k: "k < length ?V" "stx_Signature (?V ! k) = ?u" using indexOfSignature_Some by blast+
      then have known: "\<not> unknown_until (sim_history s) opts" unfolding unknown_until_def sigs using nth_mem by (metis imageI)
      have less: "k < e"
      proof (cases "?b = 0")
        case True
        with k show ?thesis by (simp add: start)
      next
        case False
        with paging have "?b \<in> ts_Signature ` set (takeWhile (\<lambda>x. ts_Signature x \<noteq> ?u) (sim_history s))"
          by (simp add: paging_opts_def)
        also have "takeWhile (\<lambda>x. ts_Signature x \<noteq> ?u) (sim_history s) = map sig_of (rev (drop (Suc k) ?V))"
          using takeWhile_back_to [OF distinct k(1) order_refl] k(2) by (simp add: hist)
        finally have "?b \<in> stx_Signature ` set (drop (Suc k) ?V)" by auto
        then obtain i where "i < length (drop (Suc k) ?V)" "?b = stx_Signature (drop (Suc k) ?V ! i)"
          by (metis imageE in_set_conv_nth)
        then have i: "Suc k + i < length ?V" "stx_Signature (?V ! (Suc k + i)) = ?b" by simp_all
        have "e < length ?V" "stx_Signature (?V ! e) = ?b"
          using before [OF False] indexOfSignature_Some by blast+
        with i have "e = Suc k + i" using distinct by (metis length_map nth_eq_iff_index_eq nth_map)
        then show ?thesis by simp
      qed
      have "history_page (sim_history s) opts =
          take getSignaturesForAddressMaxLimit (map sig_of (rev (drop (Suc k) (take e ?V))))"
        using takeWhile_back_to [OF distinct less e] k(2) u by (simp add: history_page_def after)
      with u Some before known show ?thesis
        by (cases "?b = 0") (simp_all add: run page page_loop_eq [OF order_refl] limit [symmetric] start)
    qed
  qed
qed

section \<open>The simulated chain as the tracker's node\<close>

text \<open>
  A chain that stands still while the tracker asks: the world of a run is what the requests and
  the events change. Between the two stands the client of solana-go, which is not in this
  repository. Of it \<open>sim_world\<close> fixes what Solana's JSON-RPC interface documents and the handlers of
  the simulator read: the name of each method, its positional parameters with one options object
  at the end, and that a result of the documented shape becomes the value of the call and any
  other an error. It is an instance of the tracker's world for the properties of the two together;
  the decoder of a transaction, \<open>decode\<close>, stays a parameter, and no property of the tracker alone
  rests on it.
\<close>

record 'ev sim_run =
  sr_queries :: "SignatureQuery list"
  sr_counts :: "string \<Rightarrow> int"
  sr_collected :: "'ev EventNotification list"

definition on_chain :: "'g ChainSimulator \<Rightarrow> ('g ChainSimulator, 'a) exec \<Rightarrow> ('ev sim_run, 'a) exec" where
  "on_chain s m = (\<lambda>w. case m (s\<lparr>cs_signatureQueries := sr_queries w, cs_callCounts := sr_counts w\<rparr>) of
     (r, s') \<Rightarrow> (r, w\<lparr>sr_queries := cs_signatureQueries s', sr_counts := cs_callCounts s'\<rparr>))"

definition sim_call :: "'g ChainSimulator \<Rightarrow> string \<Rightarrow> json_param list \<Rightarrow> (sim_result \<Rightarrow> 'a option) \<Rightarrow> ('ev sim_run, 'a) exec" where
  "sim_call s method params expected =
     bind (on_chain s (handleRPC (Some \<lparr>jq_Method = method, jq_Params = params\<rparr>))) (\<lambda>result.
     case expected result of Some a \<Rightarrow> ret a | None \<Rightarrow> fail (ExtErr STR ''unexpected result''))"

definition sim_world :: "(bytes \<Rightarrow> go_error + Transaction) \<Rightarrow> 'g ChainSimulator \<Rightarrow> ('ev sim_run, 'ev) tracker_world" where
  "sim_world decode s =
     \<lparr>w_GetBlocks = (\<lambda>a b c. sim_call s ''getBlocks'' [JNum a, JNum b, JObject] (\<lambda>r. case r of RSlots xs \<Rightarrow> Some xs | _ \<Rightarrow> None)),
      w_GetBlockWithOpts = (\<lambda>slot c. sim_call s ''getBlock'' [JNum slot, JObject]
        (\<lambda>r. case r of RBlock b \<Rightarrow> Some (Some (GetBlockResult.truncate b)) | _ \<Rightarrow> None)),
      w_GetSlot = (\<lambda>c. sim_call s ''getSlot'' [JObject] (\<lambda>r. case r of RNumber n \<Rightarrow> Some n | _ \<Rightarrow> None)),
      w_GetBlockHeight = (\<lambda>c. sim_call s ''getBlockHeight'' [JObject] (\<lambda>r. case r of RNumber n \<Rightarrow> Some n | _ \<Rightarrow> None)),
      w_GetTransaction = (\<lambda>sig c. sim_call s ''getTransaction'' [JSig sig, JObject]
        (\<lambda>r. case r of RTransaction found \<Rightarrow> Some (map_option (\<lambda>t.
             \<lparr>tr_Slot = str_slot t,
              tr_Meta = Some \<lparr>tm_Err = str_err t, tm_InnerInstructions = str_innerInstructions t,
                              tm_LoadedAddresses = \<lparr>la_Writable = [], la_ReadOnly = []\<rparr>\<rparr>,
              tr_Transaction = decode (str_transaction t)\<rparr>) found) | _ \<Rightarrow> None)),
      w_GetSignaturesForAddressWithOpts = (\<lambda>prog opts. sim_call s ''getSignaturesForAddress''
        [JKey prog, JSigOpts (so_Before opts) (so_Until opts) (Some (int getSignaturesForAddressMaxLimit))]
        (\<lambda>r. case r of RSignatures xs \<Rightarrow> Some xs | _ \<Rightarrow> None)),
      w_AddEvent = (\<lambda>e. focus sr_collected (\<lambda>es w. w\<lparr>sr_collected := es\<rparr>) (Collecting_AddEvent e)),
      w_select_wait = (\<lambda>d. ret False)\<rparr>"

text \<open>Distinct transactions have distinct signatures, none of them zero: what signing gives.\<close>

definition fresh_signatures :: "'g ChainSimulator \<Rightarrow> bool" where
  "fresh_signatures s \<longleftrightarrow> distinct (map stx_Signature (cs_programTxs s)) \<and> 0 \<notin> stx_Signature ` set (cs_programTxs s)"

lemma visible_filter: "\<exists>P. visibleProgramTxs s = filter P (cs_programTxs s)"
proof (cases "cs_forgottenBeforeSlot s = 0 \<and> cs_forgottenSignatures s = {}")
  case True
  then show ?thesis by (intro exI [of _ "\<lambda>_. True"]) (simp add: visibleProgramTxs_def)
next
  case False
  show ?thesis unfolding visibleProgramTxs_def if_not_P [OF False] by (rule exI, rule refl)
qed

lemma sim_history_ok:
  assumes "chain_ok s" "fresh_signatures s"
  shows "history_ok (sim_history s)"
proof -
  obtain P where V: "visibleProgramTxs s = filter P (cs_programTxs s)" using visible_filter by blast
  have "distinct (map stx_Signature (rev (filter P (cs_programTxs s))))"
    using assms(2) by (simp add: fresh_signatures_def distinct_map_filter rev_map [symmetric])
  moreover have "sorted_wrt (\<lambda>x y. stx_Slot y \<le> stx_Slot x) (rev (filter P (cs_programTxs s)))"
    using chain_okD(6) [OF assms(1)] by (simp add: sorted_wrt_rev sorted_wrt_filter)
  ultimately show ?thesis
    using assms(2) by (auto simp: history_ok_def sim_history_def V fresh_signatures_def sorted_wrt_map comp_def image_iff)
qed

lemma sim_world_signatures:
  assumes "history_ok (sim_history s)" "cs_refusedOnce s = {}" "paging_opts (sim_history s) opts"
  shows "fst (w_GetSignaturesForAddressWithOpts (sim_world decode s) (cs_programID s) opts w) =
    (if unknown_until (sim_history s) opts then Inl (RPCErr rpcErrCodeTxNotFound) else Inr (history_page (sim_history s) opts))"
proof -
  let ?s = "\<lambda>c. s\<lparr>cs_signatureQueries := sr_queries w, cs_callCounts := c\<rparr>"
  have V: "visibleProgramTxs (?s c) = visibleProgramTxs s" for c by (simp add: visibleProgramTxs_def)
  then have hist: "sim_history (?s c) = sim_history s" for c by (simp add: sim_history_def)
  have answer: "sim_getSignaturesForAddress (cs_programID s) (so_Before opts) (so_Until opts) 1000 (?s c) =
      (if unknown_until (sim_history s) opts then Inl (RPCErr rpcErrCodeTxNotFound) else Inr (history_page (sim_history s) opts), ?s c)" for c
    using sim_signatures_answer [of "?s c" opts] assms by (simp add: hist)
  show ?thesis
    by (simp add: sim_world_def sim_call_def on_chain_def handleRPC_def dispatch_def handleGetSignaturesForAddress_def
        bind_def modify_def gets_def attempt_def liftR_def unmarshalParam_def ret_def fail_def answer recordSignatureQuery_def
        Let_def getSignaturesForAddressMaxLimit_def)
qed

lemma simulator_serves:
  assumes "chain_ok s" "fresh_signatures s" "cs_refusedOnce s = {}"
  shows "history_serves (sim_world decode s) (cs_programID s) (sim_history s)"
  unfolding history_serves_def using sim_world_signatures [OF sim_history_ok [OF assms(1,2)] assms(3)] by blast

end
