(* ===== verification/Simulator_Events.thy ===== *)
theory Simulator_Events
  imports Simulator_Contract Skyline_Properties
begin

text \<open>
  The event of a simulated transaction, from the program's encoder through the inner instruction
  to the tracker's collector and parser. Both sides derive the tag, the discriminator and the
  event authority on their own; here they are shown to agree.
\<close>

section \<open>Agreement of the derivations\<close>

lemma sim_eventIxTag_eq: "sim_eventIxTag = eventIxTagLE"
  by code_simp

lemma sim_eventAuthority_eq:
  "sim_eventAuthority env p s = (Inr auth, s') \<longleftrightarrow>
     s' = s \<and> deriveEventAuthority (sol_FindProgramAddress (se_sol env)) p = Inr auth"
  by (auto simp: sim_eventAuthority_def deriveEventAuthority_def eventAuthoritySeed_def require_ok_def bind_def ret_def fail_def
      split: sum.splits)

lemma key_index_Some:
  "key_index keys key i = Some k \<Longrightarrow> \<exists>j < length keys. k = i + j \<and> keys ! j = key"
proof (induction keys arbitrary: i)
  case (Cons a keys)
  show ?case
  proof (cases "a = key")
    case True
    with Cons.prems show ?thesis by (intro exI [of _ 0]) simp
  next
    case False
    with Cons obtain j where "j < length keys" "k = Suc i + j" "keys ! j = key" by fastforce
    then show ?thesis by (intro exI [of _ "Suc j"]) simp
  qed
qed simp

lemma accountKeyIndex_Inr:
  assumes "accountKeyIndex keys key s = (Inr i, s')" "length keys \<le> 2 ^ 16"
  shows "unat i < length keys \<and> keys ! unat i = key \<and> s' = s"
proof -
  from assms(1) obtain k where k: "key_index keys key 0 = Some k" "i = of_nat k" "s' = s"
    by (auto simp: accountKeyIndex_def ret_def fail_def split: option.splits)
  from key_index_Some [OF k(1)] have "k < length keys" "keys ! k = key" by auto
  with assms(2) k show ?thesis by (simp add: unat_of_nat)
qed

text \<open>The payload is the discriminator the tracker looks for and the encoding of the event.\<close>

lemma encodeEventLogPayload_Inr:
  assumes "borsh_ok lib" "writes enc bs" "encodeEventLogPayload lib name enc s = (Inr payload, s')"
  shows "payload = calculateEventDiscriminant name @ bs \<and> s' = s"
proof -
  have "writes (bind (enc_WriteBytes lib (take 8 (Sum256 (str_bytes (''event:'' @ name))))) (\<lambda>_. enc))
      (calculateEventDiscriminant name @ bs)"
    unfolding calculateEventDiscriminant_def by (rule writes_bind [OF _ assms(2)]) (use assms(1) in \<open>simp add: borsh_ok_def\<close>)
  then show ?thesis
    using assms(3) by (simp add: encodeEventLogPayload_def Let_def writes_def ret_def)
qed

text \<open>What is true of a transaction the simulator has built, whatever its event.\<close>

definition built_tx :: "('g, 'tx) sim_env \<Rightarrow> PublicKey \<Rightarrow> SimTx \<Rightarrow> bool" where
  "built_tx env programID tx \<longleftrightarrow> (\<exists>utx auth programIndex authorityIndex bs.
     se_MarshalBinary env utx = Inr (stx_raw tx) \<and>
     deriveEventAuthority (sol_FindProgramAddress (se_sol env)) programID = Inr auth \<and>
     accountKeyIndex (se_AccountKeys env utx) programID () = (Inr programIndex, ()) \<and>
     accountKeyIndex (se_AccountKeys env utx) auth () = (Inr authorityIndex, ()) \<and>
     reads (HotWalletIncrementEvent_UnmarshalWithDecoder (se_borsh env)) bs (stx_Event tx) \<and>
     stx_innerInstructions tx = Some [\<lparr>ii_Index = 1, ii_Instructions =
       [\<lparr>ci_ProgramIDIndex = programIndex, ci_Accounts = [authorityIndex],
         ci_Data = eventIxTagLE @ calculateEventDiscriminant sim_eventName @ bs\<rparr>]\<rparr>])"

lemma accountKeyIndex_same: "accountKeyIndex keys key s = (Inr i, s') \<Longrightarrow> s' = s \<and> accountKeyIndex keys key u = (Inr i, u)"
  by (auto simp: accountKeyIndex_def ret_def fail_def split: option.splits)

lemma require_ok_Inr: "require_ok r s = (Inr a, s') \<longleftrightarrow> r = Inr a \<and> s' = s"
  by (auto simp: require_ok_def ret_def fail_def split: sum.splits)

lemma list_case_Inr:
  "(case xs of [] \<Rightarrow> fail e | x # _ \<Rightarrow> m x) s = (Inr a, s') \<longleftrightarrow> (\<exists>x ys. xs = x # ys \<and> m x s = (Inr a, s'))"
  by (cases xs) (auto simp: fail_def)

lemma buildProgramTx_built:
  fixes s s' :: "'g ChainSimulator"
  assumes "borsh_ok (se_borsh env)" "buildProgramTx env block s = (Inr tx, s')"
  shows "built_tx env (cs_programID s) tx"
proof -
  obtain n w1 where n: "se_Uint64 env (cs_world s) = (n, w1)" by (cases "se_Uint64 env (cs_world s)")
  let ?e = "\<lparr>hwi_Sender = cs_payer s, hwi_Mint = cs_mint s, hwi_Amount = n mod 1000000 + 1\<rparr> :: HotWalletIncrementEvent"
  let ?bs = "written (HotWalletIncrementEvent_MarshalWithEncoder (se_borsh env) ?e)"
  note codec = codec_HotWalletIncrementEvent [OF assms(1)]
  have writes: "writes (HotWalletIncrementEvent_MarshalWithEncoder (se_borsh env) ?e) ?bs"
    and reads: "reads (HotWalletIncrementEvent_UnmarshalWithDecoder (se_borsh env)) ?bs ?e"
    using codec_writes [OF codec, of ?e] codec_reads [OF codec, of ?e] by simp_all
  note payload = encodeEventLogPayload_Inr [OF assms(1) writes, of sim_eventName]
  from assms(2) obtain utx raw sig p now auth pi ai and s1 s2 s3 s4 s5 s6 :: "'g ChainSimulator" where
    raw: "se_MarshalBinary env utx = Inr raw"
    and p: "encodeEventLogPayload (se_borsh env) sim_eventName (HotWalletIncrementEvent_MarshalWithEncoder (se_borsh env) ?e) s1 = (Inr p, s2)"
    and auth: "sim_eventAuthority env (cs_programID s) s3 = (Inr auth, s4)"
    and pi: "accountKeyIndex (se_AccountKeys env utx) (cs_programID s) s4 = (Inr pi, s5)"
    and ai: "accountKeyIndex (se_AccountKeys env utx) auth s5 = (Inr ai, s6)"
    and tx: "ret \<lparr>stx_Signature = sig, stx_Slot = bl_Slot block, stx_Event = ?e, stx_ProducedAt = now, stx_raw = raw,
              stx_logs = sim_logs (sol_PublicKey_String (se_sol env) (cs_programID s)),
              stx_innerInstructions = Some [\<lparr>ii_Index = 1, ii_Instructions =
                [\<lparr>ci_ProgramIDIndex = pi, ci_Accounts = [ai], ci_Data = sim_eventIxTag @ p\<rparr>]\<rparr>]\<rparr> s6 = (Inr tx, s')"
    unfolding buildProgramTx_def Let_def
    by (auto simp: bind_Inr_iff gets_def sim_read_def n require_ok_Inr list_case_Inr)
  from payload [OF p] sim_eventAuthority_eq [of env "cs_programID s" s3 auth s4] auth
    accountKeyIndex_same [OF pi] accountKeyIndex_same [OF ai] reads raw tx
  show ?thesis unfolding built_tx_def sim_eventIxTag_eq ret_def by fastforce
qed

section \<open>What the tracker makes of it\<close>

text \<open>
  The event types of the program as a tracker is given them, with the decoders the generated
  code has for them.
\<close>

datatype event_type =
    Ty_BridgeRequestEvent | Ty_FeeConfigUpdatedEvent | Ty_HotWalletIncrementEvent | Ty_LockUnlockTokenRegisteredEvent
  | Ty_MinBridgingAmountUpdatedEvent | Ty_MintBurnTokenRegisteredEvent | Ty_ProgramVersionUpdatedEvent
  | Ty_TransactionExecutedEvent | Ty_ValidatorSetUpdatedEvent

fun decode_event :: "borsh_lib \<Rightarrow> event_type \<Rightarrow> bytes \<Rightarrow> go_error + any_event" where
  "decode_event lib Ty_BridgeRequestEvent d = map_sum id Any_BridgeRequestEvent (fst (BridgeRequestEvent_UnmarshalWithDecoder lib d))"
| "decode_event lib Ty_FeeConfigUpdatedEvent d = map_sum id Any_FeeConfigUpdatedEvent (fst (FeeConfigUpdatedEvent_UnmarshalWithDecoder lib d))"
| "decode_event lib Ty_HotWalletIncrementEvent d = map_sum id Any_HotWalletIncrementEvent (fst (HotWalletIncrementEvent_UnmarshalWithDecoder lib d))"
| "decode_event lib Ty_LockUnlockTokenRegisteredEvent d =
     map_sum id Any_LockUnlockTokenRegisteredEvent (fst (LockUnlockTokenRegisteredEvent_UnmarshalWithDecoder lib d))"
| "decode_event lib Ty_MinBridgingAmountUpdatedEvent d =
     map_sum id Any_MinBridgingAmountUpdatedEvent (fst (MinBridgingAmountUpdatedEvent_UnmarshalWithDecoder lib d))"
| "decode_event lib Ty_MintBurnTokenRegisteredEvent d =
     map_sum id Any_MintBurnTokenRegisteredEvent (fst (MintBurnTokenRegisteredEvent_UnmarshalWithDecoder lib d))"
| "decode_event lib Ty_ProgramVersionUpdatedEvent d =
     map_sum id Any_ProgramVersionUpdatedEvent (fst (ProgramVersionUpdatedEvent_UnmarshalWithDecoder lib d))"
| "decode_event lib Ty_TransactionExecutedEvent d = map_sum id Any_TransactionExecutedEvent (fst (TransactionExecutedEvent_UnmarshalWithDecoder lib d))"
| "decode_event lib Ty_ValidatorSetUpdatedEvent d = map_sum id Any_ValidatorSetUpdatedEvent (fst (ValidatorSetUpdatedEvent_UnmarshalWithDecoder lib d))"

definition skyline_events ::
  "borsh_lib \<Rightarrow> (SolanaPayload \<Rightarrow> go_error + bytes) \<Rightarrow> (bytes \<Rightarrow> go_error + SolanaPayload) \<Rightarrow> (event_type, any_event) event_lib" where
  "skyline_events lib marshal unmarshal =
     \<lparr>ReadDiscriminator = (\<lambda>d. case dec_ReadDiscriminator lib d of (Inl e, _) \<Rightarrow> Inl e | (Inr disc, rest) \<Rightarrow> Inr (disc, rest)),
      UnmarshalWithDecoder = (\<lambda>ty d. Some (decode_event lib ty d)),
      as_TransactionExecutedEvent = (\<lambda>ev. case ev of Any_TransactionExecutedEvent x \<Rightarrow> Some (txe_BatchId x) | _ \<Rightarrow> None),
      payload_Marshal = marshal, payload_Unmarshal = unmarshal\<rparr>"

text \<open>A tracker of the simulated program that was given the event the simulator emits.\<close>

definition sim_spec :: "event_type eventSpec" where
  "sim_spec = \<lparr>es_eventType = Ty_HotWalletIncrementEvent, es_name = sim_eventName,
     es_discriminant = calculateEventDiscriminant sim_eventName\<rparr>"

definition tracks_sim :: "(event_type, 'c, 'l) EventTracker \<Rightarrow> ('g, 'tx) sim_env \<Rightarrow> PublicKey \<Rightarrow> bool" where
  "tracks_sim t env programID \<longleftrightarrow>
     (\<exists>specs. map_of (et_trackedPrograms t) programID = Some specs \<and>
        find (\<lambda>e. es_discriminant e = es_discriminant sim_spec) specs = Some sim_spec) \<and>
     (\<exists>auth. et_eventAuthorities t programID = Some auth \<and>
        deriveEventAuthority (sol_FindProgramAddress (se_sol env)) programID = Inr auth)"

text \<open>
  The client of the tracker decodes what the simulator's client has encoded: the account keys of
  the message, of which there are at most 65536.
\<close>

definition decodes_sim :: "('g, 'tx) sim_env \<Rightarrow> (bytes \<Rightarrow> go_error + Transaction) \<Rightarrow> bool" where
  "decodes_sim env decode \<longleftrightarrow> (\<forall>utx raw. se_MarshalBinary env utx = Inr raw \<longrightarrow>
     length (se_AccountKeys env utx) \<le> 2 ^ 16 \<and> (\<exists>ttx. decode raw = Inr ttx \<and> tx_AccountKeys ttx = se_AccountKeys env utx))"

lemma parse_loop_find:
  "parse_loop lib disc d specs =
     (case find (\<lambda>e. es_discriminant e = disc) specs of None \<Rightarrow> Inr None
      | Some spec \<Rightarrow> parse_loop lib disc d [spec])"
  by (induction specs) auto

lemma length_sim_discriminant: "length (calculateEventDiscriminant name) = 8"
  by (simp add: calculateEventDiscriminant_def)

lemma sim_event_reported:
  assumes ok: "borsh_ok (se_borsh env)" "decodes_sim env decode" and track: "tracks_sim t env programID"
    and built: "built_tx env programID tx"
  shows "\<exists>ttx. decode (stx_raw tx) = Inr ttx \<and> (\<forall>meta. tm_InnerInstructions meta = stx_innerInstructions tx \<longrightarrow>
      (\<exists>e. collectTransactionEvents t meta (tx_AccountKeys ttx) = [e] \<and> ee_programID e = programID \<and>
         event_to_report t (skyline_events (se_borsh env) marshal unmarshal) ttx (tx_AccountKeys ttx) e =
           Inr (Some (Any_HotWalletIncrementEvent (stx_Event tx), sim_eventName, 0))))"
proof -
  from built obtain utx auth pi ai bs where raw: "se_MarshalBinary env utx = Inr (stx_raw tx)"
    and auth: "deriveEventAuthority (sol_FindProgramAddress (se_sol env)) programID = Inr auth"
    and keys: "accountKeyIndex (se_AccountKeys env utx) programID () = (Inr pi, ())"
      "accountKeyIndex (se_AccountKeys env utx) auth () = (Inr ai, ())"
    and reads: "reads (HotWalletIncrementEvent_UnmarshalWithDecoder (se_borsh env)) bs (stx_Event tx)"
    and inner: "stx_innerInstructions tx = Some [\<lparr>ii_Index = 1, ii_Instructions =
       [\<lparr>ci_ProgramIDIndex = pi, ci_Accounts = [ai], ci_Data = eventIxTagLE @ calculateEventDiscriminant sim_eventName @ bs\<rparr>]\<rparr>]"
    unfolding built_tx_def by blast
  from ok(2) raw obtain ttx where few: "length (se_AccountKeys env utx) \<le> 2 ^ 16"
    and ttx: "decode (stx_raw tx) = Inr ttx" "tx_AccountKeys ttx = se_AccountKeys env utx"
    unfolding decodes_sim_def by blast
  from track auth obtain specs where specs: "map_of (et_trackedPrograms t) programID = Some specs"
      "find (\<lambda>e. es_discriminant e = es_discriminant sim_spec) specs = Some sim_spec"
    and authority: "et_eventAuthorities t programID = Some auth"
    by (auto simp: tracks_sim_def)
  note index = accountKeyIndex_Inr [OF keys(1) few] accountKeyIndex_Inr [OF keys(2) few]
  let ?e = "\<lparr>ee_programID = programID, ee_data = calculateEventDiscriminant sim_eventName @ bs, ee_topLevelIndex = 1\<rparr>"
  have length: "length (calculateEventDiscriminant sim_eventName @ bs) \<noteq> 0" by (simp add: length_sim_discriminant)
  have collect: "collectTransactionEvents t meta (tx_AccountKeys ttx) = [?e]"
    if "tm_InnerInstructions meta = stx_innerInstructions tx" for meta
    using that index authority length
    by (auto simp: collectTransactionEvents_def inner collectCPIEvents_def ttx(2) Let_def)
  have disc: "dec_ReadDiscriminator (se_borsh env) (calculateEventDiscriminant sim_eventName @ bs) =
      (Inr (calculateEventDiscriminant sim_eventName), bs)"
    using ok(1) length_sim_discriminant [of sim_eventName] by (simp add: borsh_ok_def reads_def)
  have decoded: "fst (HotWalletIncrementEvent_UnmarshalWithDecoder (se_borsh env) bs) = Inr (stx_Event tx)"
    using reads [unfolded reads_def, rule_format, of "[]"] by simp
  have spec: "es_discriminant sim_spec = calculateEventDiscriminant sim_eventName" by (simp add: sim_spec_def)
  have name: "sim_eventName \<noteq> ''TransactionExecutedEvent''" by (simp add: sim_eventName_def)
  have "parse_loop (skyline_events (se_borsh env) marshal unmarshal) (calculateEventDiscriminant sim_eventName) bs specs =
      Inr (Some (Any_HotWalletIncrementEvent (stx_Event tx), sim_eventName))"
    by (subst parse_loop_find) (simp add: specs(2) [unfolded spec] sim_spec_def skyline_events_def decoded)
  then have "event_to_report t (skyline_events (se_borsh env) marshal unmarshal) ttx (tx_AccountKeys ttx) ?e =
      Inr (Some (Any_HotWalletIncrementEvent (stx_Event tx), sim_eventName, 0))"
    using name by (simp add: event_to_report_def parseEvent_def skyline_events_def disc specs(1) event_action_hash_def)
  with ttx(1) collect show ?thesis by (intro exI [of _ ttx]) simp
qed

end
