(* ===== verification/Live_Storage.thy ===== *)
theory Live_Storage
  imports Bolt_Live Tracker_Fetch Tracker_Processing
begin

text \<open>
  Storages that answer: the contract of the interface together with the promise that no read
  fails and no write that is in order. The BoltDB handler is one when the database answers and
  the events can be encoded; a handler of the tracker over such a storage fails only where the
  node does.
\<close>

section \<open>The interface\<close>

locale live_storage_handler = storage_handler st ok view sig_text key_text
  for st :: "('d, 'ev, 'm) StorageHandler" and ok view sig_text key_text +
  assumes push_total: "ok d \<Longrightarrow> \<exists>d'. sh_PushUnprocessedTransactions st pts d = (Inr (), d')"
    and finalize_total: "ok d \<Longrightarrow> as_queue (view d) = p # ps \<Longrightarrow>
      \<exists>d'. sh_FinalizeProcessedTransaction st (tp_TxSignature p) d = (Inr (), d')"
    and set_processed_total: "ok d \<Longrightarrow> \<exists>d'. sh_SetLastProcessedTransaction st p d = (Inr (), d')"
    and set_queried_total: "ok d \<Longrightarrow> \<exists>d'. sh_StoreLatestQueriedTransaction st p d = (Inr (), d')"
    and set_finalized_total: "ok d \<Longrightarrow> \<exists>d'. sh_StoreLatestFinalizedBlockNumber st n d = (Inr (), d')"
    and store_event_total: "ok d \<Longrightarrow> length name < 2 ^ 32 \<Longrightarrow>
      \<exists>d'. sh_StoreEvent st NilTx slot bn sig prog name hash ev d = (Inr (), d')"
    and get_queue_total: "ok d \<Longrightarrow> \<exists>q. sh_GetAllUnprocessedTransactions st d = Inr q"
    and get_processed_total: "ok d \<Longrightarrow> \<exists>p. sh_GetLastProcessedTransaction st d = Inr p"
    and store_block_total: "ok d \<Longrightarrow> \<exists>d'. sh_StoreBlock st NilTx bp d = (Inr (), d')"
    and store_head_total: "ok d \<Longrightarrow> \<exists>d'. sh_StoreLatestBlockPoint st NilTx bp d = (Inr (), d')"
    and get_queried_total: "ok d \<Longrightarrow> \<exists>p. sh_GetLatestQueriedTransaction st d = Inr p"
    and get_head_total: "ok d \<Longrightarrow> \<exists>b. sh_GetLatestBlockPoint st d = Inr b"
    and get_signatures_total: "ok d \<Longrightarrow> \<exists>sigs. sh_GetProcessedTxSignaturesBySlot st slot d = Inr sigs"

text \<open>A BoltDB that answers, with an encoding that takes every block and every event with a name of fair length.\<close>

locale bolt_encoding_handler = bolt_live_handler +
  assumes encodes: "length name < 2 ^ 32 \<Longrightarrow> \<exists>data m v. json_event codec ev = Inr data \<and> unjson_map codec data = Inr m \<and>
    json_EventRecord codec (event_record_of (Signature_String codec) (PublicKey_String codec) i slot bn sig prog name hash m) = Inr v"
    and encodes_block: "\<exists>data. json_BlockPoint codec bp = Inr data"

sublocale bolt_encoding_handler \<subseteq> live: live_storage_handler "BoltStorageHandler api codec" "bolt_ok api codec"
  "bolt_view api codec" "Signature_String codec" "PublicKey_String codec"
proof unfold_locales
  show "\<exists>d'. sh_StoreEvent (BoltStorageHandler api codec) NilTx slot bn sig prog name hash ev d = (Inr (), d')"
    if "bolt_ok api codec d" "length name < 2 ^ 32" for d name slot bn sig prog hash ev
  proof -
    let ?i = "of_nat (Suc (length (as_events (bolt_view api codec d))))"
    from encodes [OF that(2)] obtain data m v where "json_event codec ev = Inr data" "unjson_map codec data = Inr m"
      "json_EventRecord codec (event_record_of (Signature_String codec) (PublicKey_String codec) ?i slot bn sig prog name hash m) = Inr v"
      by blast
    from store_event_live [OF that(1) this] show ?thesis by (simp add: BoltStorageHandler_def)
  qed
  show "\<exists>d'. sh_StoreBlock (BoltStorageHandler api codec) NilTx bp d = (Inr (), d')"
    "\<exists>d'. sh_StoreLatestBlockPoint (BoltStorageHandler api codec) NilTx bp d = (Inr (), d')"
    if "bolt_ok api codec d" for d bp
    using encodes_block [of bp] store_block_live [OF that] store_head_live [OF that] by (auto simp: BoltStorageHandler_def)
qed (simp_all add: BoltStorageHandler_def push_live finalize_live set_processed_live set_queried_live set_finalized_live
    get_queue_live get_processed_live get_queried_live get_head_live get_signatures_live)

text \<open>The in-memory store takes events of every type when it drops their data.\<close>

definition any_codec :: "('ev, unit) store_codec" where
  "any_codec =
     \<lparr>json_BlockPoint = json_BlockPoint mem_codec, unjson_BlockPoint = unjson_BlockPoint mem_codec,
      json_event = (\<lambda>_. Inr []), unjson_map = (\<lambda>_. Inr ()),
      json_EventRecord = mem_json_EventRecord, unjson_EventRecord = mem_unjson_EventRecord,
      Signature_String = Signature_String mem_codec, SignatureFromBase58 = SignatureFromBase58 mem_codec,
      PublicKey_String = PublicKey_String mem_codec\<rparr>"

interpretation any_handler: bolt_encoding_handler mem_api any_codec
proof unfold_locales
  show "\<exists>data m v. json_event any_codec ev = Inr data \<and> unjson_map any_codec data = Inr m \<and>
    json_EventRecord any_codec (event_record_of (Signature_String any_codec) (PublicKey_String any_codec) i slot bn sig prog name hash m) = Inr v"
    if "length name < 2 ^ 32" for name ev i slot bn sig prog hash
  proof -
    have "length name < 2 ^ 64" using that by simp
    then show ?thesis by (simp add: any_codec_def mem_codec_def mem_json_EventRecord_def event_record_of_def)
  qed
qed (auto simp: any_codec_def mem_codec_def mem_record_codec slice_of_def str_bytes_def comp_def)

section \<open>The tracker over such a storage\<close>

context live_storage_handler
begin

lemma report_live:
  fixes x :: "('d, 'w) tracker_state"
  assumes ok: "ok (storage x)" and name: "length name < 2 ^ 32"
    and block: "w_GetBlockWithOpts env slot (et_commitment t) (world x) = (Inr (Some b), w1)" "gb_BlockHeight b = Some h"
    and add: "w_AddEvent env \<lparr>en_SlotNumber = slot, en_BlockNumber = h, en_TxSignature = sig, en_InnerActionHash = hash,
      en_Program = prog, en_EventName = name, en_EventData = parsed\<rparr> w1 = (Inr (), w2)"
  shows "\<exists>x'. report_event t env st slot sig prog (parsed, name, hash) x = (Inr (), x') \<and> world x' = w2"
proof -
  note retry = with_retry_first [where m = "w_GetBlockWithOpts env slot (et_commitment t)" and s = x, OF block(1)]
  obtain d1 where d1: "sh_StoreLatestFinalizedBlockNumber st h (storage x) = (Inr (), d1)" using set_finalized_total [OF ok] by blast
  have "ok d1" using writesD [OF set_finalized [OF ok] d1] by simp
  then obtain d2 where d2: "sh_StoreEvent st NilTx slot h sig prog name hash parsed d1 = (Inr (), d2)"
    using store_event_total name by blast
  show ?thesis
    by (simp add: report_event_def bind_def wrapE_def retry block(2) on_storage_simp on_world_simp d1 add d2 Let_def)
qed

text \<open>A transaction with one event is processed when the node and the subscriber answer.\<close>

lemma processing_live:
  fixes x :: "('d, 'w) tracker_state"
  assumes ok: "ok (storage x)" and queue: "as_queue (view (storage x)) = p # rest"
    and fresh: "tp_TxSignature p \<noteq> tp_TxSignature (as_processed (view (storage x)))"
    and gt: "w_GetTransaction env (tp_TxSignature p) (et_commitment t) (world x) = (Inr (Some resp), w)"
    and meta: "tr_Meta resp = Some meta" "\<not> tm_Err meta" "tm_InnerInstructions meta \<noteq> None" and tx: "tr_Transaction resp = Inr tx"
    and keys: "transactionAccountKeys (tx_AccountKeys tx) (tm_LoadedAddresses meta) = keys"
    and event: "collectTransactionEvents t meta keys = [e]"
      "event_to_report t lib tx keys e = Inr (Some (parsed, name, hash))" "length name < 2 ^ 32"
    and block: "w_GetBlockWithOpts env (tr_Slot resp) (et_commitment t) w = (Inr (Some b), w1)" "gb_BlockHeight b = Some h"
    and add: "w_AddEvent env \<lparr>en_SlotNumber = tr_Slot resp, en_BlockNumber = h, en_TxSignature = tp_TxSignature p,
      en_InnerActionHash = hash, en_Program = ee_programID e, en_EventName = name, en_EventData = parsed\<rparr> w1 = (Inr (), w2)"
    and room: "event_room 1 (view (storage x))"
  shows "\<exists>x'. fetchNextGetFullTxBySignature t env st lib x = (Inr (), x') \<and> world x' = w2 \<and>
    chainHeadSlot x' = chainHeadSlot x \<and> moved (view (storage x)) (view (storage x'))"
proof -
  have "sh_GetAllUnprocessedTransactions st (storage x) = Inr (p # rest)"
    using get_queue_total [OF ok] get_queue [OF ok] queue by metis
  moreover have "sh_GetLastProcessedTransaction st (storage x) = Inr (as_processed (view (storage x)))"
    using get_processed_total [OF ok] get_processed [OF ok] by metis
  moreover obtain x1 where report: "report_event t env st (tr_Slot resp) (tp_TxSignature p) (ee_programID e) (parsed, name, hash)
      (x\<lparr>world := w\<rparr>) = (Inr (), x1)" "world x1 = w2"
  proof -
    have "\<exists>x1. report_event t env st (tr_Slot resp) (tp_TxSignature p) (ee_programID e) (parsed, name, hash)
      (x\<lparr>world := w\<rparr>) = (Inr (), x1) \<and> world x1 = w2"
      by (rule report_live [OF _ event(3) _ block(2) add]) (use ok block(1) in simp_all)
    with that show ?thesis by blast
  qed
  moreover have x1: "ok (storage x1)" "same_queue (view (storage x)) (view (storage x1))" "chainHeadSlot x1 = chainHeadSlot x"
    using report_event_effect [of "x\<lparr>world := w\<rparr>"] ok room report(1) by fastforce+
  then have queue1: "as_queue (view (storage x1)) = p # rest" using queue same_queueD(1) by metis
  then obtain d where d: "sh_FinalizeProcessedTransaction st (tp_TxSignature p) (storage x1) = (Inr (), d)"
    using finalize_total x1(1) by blast
  moreover have "moved (view (storage x)) (view d)"
    using writesD(2) [OF finalize [OF x1(1)] d] moved_same_trans [OF x1(2) moved_finalize] queue1 by simp
  moreover obtain inner where "tm_InnerInstructions meta = Some inner" using meta(3) by blast
  ultimately show ?thesis
    using fresh meta(1,2) x1(3)
    by (simp add: fetchNextGetFullTxBySignature_def bind_def from_storage_def on_world_simp gt tx keys event
        process_emitted_def liftR_def wrapE_def ret_def on_storage_simp Let_def)
qed

text \<open>A poll returns when the node answers: its writes are the only other calls.\<close>

lemma poll_live:
  fixes x :: "('d, 'w) tracker_state"
  assumes ok: "ok (storage x)" and height: "w_GetBlockHeight env CommitmentFinalized (world x) = (Inr h, w1)"
    and fetch: "signaturesForAddressFetcher t env fuel prog lq (x\<lparr>world := w1\<rparr>) = (Inr sigs, x2)"
    and room: "push_room (length sigs) (view (storage x))"
  shows "\<exists>x'. fetchNextGetSignaturesForAddress t env st fuel prog lq x = (Inr (), x') \<and> world x' = world x2 \<and>
    chainHeadSlot x' = chainHeadSlot x"
proof -
  obtain w2 where x2: "x2 = x\<lparr>world := w2\<rparr>" using world_onlyD [OF world_only_fetcher fetch] by auto
  obtain q p ss where reads: "sh_GetAllUnprocessedTransactions st (storage x) = Inr q"
    "sh_GetLastProcessedTransaction st (storage x) = Inr p" "sh_GetProcessedTxSignaturesBySlot st (tp_Slot lq) (storage x) = Inr ss"
    using get_queue_total [OF ok] get_processed_total [OF ok] get_signatures_total [OF ok] by blast
  then obtain known where known: "getQueuedTxSignatures st (tp_Slot lq) (storage x) = Inr known"
    by (simp add: getQueuedTxSignatures_def)
  define new where "new = filter (\<lambda>x. ts_Signature x \<notin> known) sigs"
  note run = fetchNextGetSignaturesForAddress_def bind_def on_world_simp height fetch x2 wrapE_def from_storage_def known new_def [symmetric]
  let ?pts = "new_points t lq new"
  show ?thesis
  proof (cases "new = []")
    case True
    obtain d where "sh_StoreLatestFinalizedBlockNumber st h (storage x) = (Inr (), d)" using set_finalized_total [OF ok] by blast
    with True show ?thesis by (simp add: run on_storage_simp)
  next
    case new: False
    show ?thesis
    proof (cases "?pts = []")
      case True
      let ?p = "\<lparr>tp_TxSignature = ts_Signature (new ! 0), tp_Slot = ts_Slot (new ! 0)\<rparr>"
      obtain d1 where d1: "sh_SetLastProcessedTransaction st ?p (storage x) = (Inr (), d1)" using set_processed_total [OF ok] by blast
      have "ok d1" using writesD [OF set_processed [OF ok] d1] by simp
      then obtain d2 where "sh_StoreLatestQueriedTransaction st ?p d1 = (Inr (), d2)" using set_queried_total by blast
      with new True d1 show ?thesis by (simp add: run on_storage_simp points_loop_new_points Let_def)
    next
      case False
      obtain d1 where d1: "sh_PushUnprocessedTransactions st ?pts (storage x) = (Inr (), d1)" using push_total [OF ok] by blast
      have "length ?pts \<le> length sigs"
        using length_new_points [of t lq new] length_filter_le le_trans unfolding new_def by blast
      then have "push_room (length ?pts) (view (storage x))" using room by (simp add: push_room_def)
      from writesD [OF push [OF ok this] d1] have "ok d1" by simp
      then obtain d2 where "sh_StoreLatestQueriedTransaction st (last ?pts) d1 = (Inr (), d2)" using set_queried_total by blast
      with new False d1 show ?thesis by (simp add: run on_storage_simp points_loop_new_points Let_def)
    qed
  qed
qed

end

end
