(* ===== verification/Simulator_Delivery.thy ===== *)
theory Simulator_Delivery
  imports Simulator_Events Tracker_Properties Live_Storage
begin

text \<open>
  A tracker that runs against the simulated chain: what the chain answers to each of its
  requests, what the subscriber is given when a simulated transaction is processed, and what the
  first poll of a new tracker queues.
\<close>

section \<open>The answers of the chain\<close>

lemma sim_call_collected:
  "sim_call s name params expected w = (r, w') \<Longrightarrow> sr_collected w' = sr_collected w"
  by (auto simp: sim_call_def on_chain_def bind_def ret_def fail_def split: prod.splits sum.splits option.splits)

definition sim_transaction :: "(bytes \<Rightarrow> go_error + Transaction) \<Rightarrow> SimTx \<Rightarrow> GetTransactionResult" where
  "sim_transaction decode tx =
     \<lparr>tr_Slot = stx_Slot tx,
      tr_Meta = Some \<lparr>tm_Err = False, tm_InnerInstructions = stx_innerInstructions tx,
                      tm_LoadedAddresses = \<lparr>la_Writable = [], la_ReadOnly = []\<rparr>\<rparr>,
      tr_Transaction = decode (stx_raw tx)\<rparr>"

lemmas sim_rpc_defs = sim_world_def sim_call_def on_chain_def handleRPC_def dispatch_def unmarshalParam_def
  bind_def modify_def gets_def attempt_def liftR_def ret_def fail_def

lemma sim_world_GetTransaction:
  obtains w' where "w_GetTransaction (sim_world decode s) sig c w = (Inr (map_option (sim_transaction decode) (cs_txsBySignature s sig)), w')"
    "sr_collected w' = sr_collected w"
proof -
  obtain r w' where run: "w_GetTransaction (sim_world decode s) sig c w = (r, w')"
    by (cases "w_GetTransaction (sim_world decode s) sig c w")
  then have "r = Inr (map_option (sim_transaction decode) (cs_txsBySignature s sig))"
    by (auto simp: sim_rpc_defs handleGetTransaction_def sim_getTransaction_def sim_transaction_def [abs_def] option.map_comp comp_def)
  moreover have "sr_collected w' = sr_collected w"
    using run unfolding sim_world_def tracker_world.simps by (rule sim_call_collected)
  ultimately show thesis using run that by blast
qed

lemma sim_world_GetBlock:
  assumes "cs_blocks s slot = Some b"
  obtains w' where "w_GetBlockWithOpts (sim_world decode s) slot c w =
      (Inr (Some \<lparr>gb_Blockhash = bl_Hash b, gb_BlockHeight = Some (bl_Height b)\<rparr>), w')"
    "sr_collected w' = sr_collected w"
proof -
  obtain r w' where run: "w_GetBlockWithOpts (sim_world decode s) slot c w = (r, w')"
    by (cases "w_GetBlockWithOpts (sim_world decode s) slot c w")
  then have "r = Inr (Some \<lparr>gb_Blockhash = bl_Hash b, gb_BlockHeight = Some (bl_Height b)\<rparr>)"
    using assms by (auto simp: sim_rpc_defs handleGetBlock_def BlockAt_def GetBlockResult.truncate_def)
  moreover have "sr_collected w' = sr_collected w"
    using run unfolding sim_world_def tracker_world.simps by (rule sim_call_collected)
  ultimately show thesis using run that by blast
qed

lemma sim_world_AddEvent:
  "w_AddEvent (sim_world decode s) e w = (Inr (), w\<lparr>sr_collected := sr_collected w @ [e]\<rparr>)"
  by (simp add: sim_world_def focus_def Collecting_AddEvent_def modify_def)

lemma sim_world_GetBlockHeight:
  obtains w' where "w_GetBlockHeight (sim_world decode s) c w = (Inr (cs_headBlockHeight s), w')"
    "sr_collected w' = sr_collected w"
proof -
  obtain r w' where run: "w_GetBlockHeight (sim_world decode s) c w = (r, w')"
    by (cases "w_GetBlockHeight (sim_world decode s) c w")
  then have "r = Inr (cs_headBlockHeight s)" by (auto simp: sim_rpc_defs sim_getBlockHeight_def)
  moreover have "sr_collected w' = sr_collected w"
    using run unfolding sim_world_def tracker_world.simps by (rule sim_call_collected)
  ultimately show thesis using run that by blast
qed

text \<open>The slots with blocks are listed in order, all of the range and none outside it.\<close>

lemma sim_blocks_loop_sorted:
  "sorted_wrt (<) slots \<Longrightarrow> sim_blocks_loop a b slots = filter (\<lambda>x. a \<le> x \<and> x \<le> b) slots"
proof (induction slots)
  case (Cons x slots)
  have "filter (\<lambda>y. a \<le> y \<and> y \<le> b) slots = []" if "b < x"
    using that Cons.prems by (fastforce simp: filter_empty_conv)
  with Cons show ?case by auto
qed simp

lemma sim_getBlocks_eq:
  assumes "chain_ok s"
  shows "sim_getBlocks s a (Some b) = filter (\<lambda>x. a \<le> x \<and> x \<le> b) (cs_slotsWithBlocks s)"
    and "sim_getBlocks s a None = filter (\<lambda>x. a \<le> x) (cs_slotsWithBlocks s)"
  using chain_okD(2) [OF assms] unfolding sim_getBlocks_def Let_def sim_blocks_loop_sorted [OF chain_okD(1) [OF assms]]
  by (auto intro!: filter_cong) (meson not_less order_trans)

lemma sim_world_GetBlocks:
  assumes "chain_ok s" "w_GetBlocks (sim_world decode s) a b c w = (Inr slots, w')"
  shows "slots = filter (\<lambda>x. a \<le> x \<and> x \<le> b) (cs_slotsWithBlocks s)"
proof -
  have "sim_getBlocks (s\<lparr>cs_signatureQueries := q, cs_callCounts := n\<rparr>) a (Some b) = sim_getBlocks s a (Some b)" for q n
    by (simp add: sim_getBlocks_def)
  with assms(2) show ?thesis
    unfolding sim_getBlocks_eq(1) [OF assms(1), symmetric]
    by (auto simp: sim_rpc_defs handleGetBlocks_def)
qed

lemma sorted_wrt_less_sorted: "sorted_wrt (<) (xs :: 'a :: linorder list) \<Longrightarrow> sorted xs"
  by (simp add: strict_sorted_imp_sorted)

lemma sim_blocks_between: "chain_ok s \<Longrightarrow> blocks_between (sim_world decode s)"
  unfolding blocks_between_def
proof (intro allI impI)
  fix a b c w slots w' assume ok: "chain_ok s" and "w_GetBlocks (sim_world decode s) a b c w = (Inr slots, w')"
  then have "slots = filter (\<lambda>x. a \<le> x \<and> x \<le> b) (cs_slotsWithBlocks s)" by (rule sim_world_GetBlocks)
  with sorted_wrt_less_sorted [OF chain_okD(1) [OF ok]] show "sorted slots \<and> (\<forall>x \<in> set slots. a \<le> x \<and> x \<le> b)"
    by (simp add: sorted_wrt_filter)
qed

lemma sim_world_other_program:
  assumes "prog \<noteq> cs_programID s"
  shows "fst (w_GetSignaturesForAddressWithOpts (sim_world decode s) prog opts w) = Inr []"
  using assms by (simp add: sim_rpc_defs handleGetSignaturesForAddress_def sim_getSignaturesForAddress_def recordSignatureQuery_def Let_def)

lemma other_program_fetch:
  fixes x x' :: "('d, 'ev sim_run) tracker_state"
  assumes "prog \<noteq> cs_programID s" "signaturesForAddressFetcher t (sim_world decode s) fuel prog lq x = (Inr sigs, x')"
  shows "sigs = []"
  using assms(2)
proof (cases rule: fetcher_Inr_cases)
  case (ok page w)
  then have page: "page = []" using sim_world_other_program [OF assms(1)] by (metis fst_conv sum.inject(2))
  show ?thesis
    using assms(2) unfolding fetcher_first_ok [OF ok] page by (simp add: ret_def getSignaturesForAddressMaxLimit_def appended_of_def)
next
  case (lost e w page w')
  then have False using sim_world_other_program [OF assms(1)] by (metis fst_conv sum.distinct(1))
  then show ?thesis ..
qed

lemma length_sim_history [simp]: "length (sim_history s) = length (visibleProgramTxs s)"
  by (simp add: sim_history_def)

lemma sim_fetches_ok:
  assumes "chain_ok s" "fresh_signatures s" "cs_refusedOnce s = {}"
  shows "fetches_ok t (sim_world decode s :: ('ev sim_run, 'ev) tracker_world) fuel (length (visibleProgramTxs s)) TYPE('d)"
  unfolding fetches_ok_def
proof (intro allI impI)
  fix prog lq sigs and x x' :: "('d, 'ev sim_run) tracker_state"
  assume run: "signaturesForAddressFetcher t (sim_world decode s) fuel prog lq x = (Inr sigs, x')"
  note hist = sim_history_ok [OF assms(1,2)]
  show "distinct (map ts_Signature sigs) \<and> 0 \<notin> ts_Signature ` set sigs \<and> length sigs \<le> length (visibleProgramTxs s)"
  proof (cases "prog = cs_programID s")
    case True
    from fetcher_result [OF history_serves_rpc [OF simulator_serves [OF assms]] hist run [unfolded True]]
    have sigs: "sigs = newer_than lq (sim_history s)" "distinct (map ts_Signature sigs)" by blast+
    with newer_than_subset [of lq "sim_history s"] length_newer_than [of lq "sim_history s"] hist show ?thesis
      unfolding history_ok_def by auto
  next
    case False
    from other_program_fetch [OF this run] show ?thesis by simp
  qed
qed

section \<open>Delivery\<close>

text \<open>Processing that reports one event hands exactly that event to the subscriber.\<close>

definition sim_notification :: "SimBlock \<Rightarrow> PublicKey \<Rightarrow> SimTx \<Rightarrow> any_event EventNotification" where
  "sim_notification b programID tx =
     \<lparr>en_SlotNumber = stx_Slot tx, en_BlockNumber = bl_Height b, en_TxSignature = stx_Signature tx, en_InnerActionHash = 0,
      en_Program = programID, en_EventName = sim_eventName, en_EventData = Any_HotWalletIncrementEvent (stx_Event tx)\<rparr>"

text \<open>The front of the queue is processed: the subscriber gets the event of the transaction.\<close>

lemma sim_processing:
  fixes x :: "('d, any_event sim_run) tracker_state"
  assumes live: "live_storage_handler st ok view sig_text key_text" and ok: "ok (storage x)"
    and queue: "as_queue (view (storage x)) = point_of (sig_of tx) # rest"
    and fresh: "stx_Signature tx \<noteq> tp_TxSignature (as_processed (view (storage x)))"
    and room: "event_room 1 (view (storage x))"
    and found: "cs_txsBySignature s (stx_Signature tx) = Some tx" "cs_blocks s (stx_Slot tx) = Some b"
    and sim: "borsh_ok (se_borsh env)" "decodes_sim env decode" "tracks_sim t env programID" "built_tx env programID tx"
  shows "\<exists>x'. fetchNextGetFullTxBySignature t (sim_world decode s) st (skyline_events (se_borsh env) marshal unmarshal) x = (Inr (), x')
    \<and> sr_collected (world x') = sr_collected (world x) @ [sim_notification b programID tx] \<and> ok (storage x')
    \<and> as_queue (view (storage x')) = rest \<and> as_processed (view (storage x')) = point_of (sig_of tx)
    \<and> length (as_events (view (storage x'))) = Suc (length (as_events (view (storage x))))
    \<and> chainHeadSlot x' = chainHeadSlot x \<and> moved (view (storage x)) (view (storage x'))"
proof -
  let ?lib = "skyline_events (se_borsh env) marshal unmarshal" and ?p = "point_of (sig_of tx)"
  let ?meta = "\<lparr>tm_Err = False, tm_InnerInstructions = stx_innerInstructions tx,
      tm_LoadedAddresses = \<lparr>la_Writable = [], la_ReadOnly = []\<rparr>\<rparr>"
  note handler = live_storage_handler.axioms(1) [OF live]
  obtain w where gt: "w_GetTransaction (sim_world decode s) (tp_TxSignature ?p) (et_commitment t) (world x) =
      (Inr (Some (sim_transaction decode tx)), w)" "sr_collected w = sr_collected (world x)"
    using sim_world_GetTransaction [of decode s "stx_Signature tx" "et_commitment t" "world x"] found(1) by auto
  obtain w1 where block: "w_GetBlockWithOpts (sim_world decode s) (stx_Slot tx) (et_commitment t) w =
      (Inr (Some \<lparr>gb_Blockhash = bl_Hash b, gb_BlockHeight = Some (bl_Height b)\<rparr>), w1)" "sr_collected w1 = sr_collected w"
    using sim_world_GetBlock [OF found(2)] .
  from sim_event_reported [OF sim, of marshal unmarshal] obtain ttx where ttx: "decode (stx_raw tx) = Inr ttx"
    and events: "\<forall>meta. tm_InnerInstructions meta = stx_innerInstructions tx \<longrightarrow>
      (\<exists>e. collectTransactionEvents t meta (tx_AccountKeys ttx) = [e] \<and> ee_programID e = programID \<and>
         event_to_report t ?lib ttx (tx_AccountKeys ttx) e = Inr (Some (Any_HotWalletIncrementEvent (stx_Event tx), sim_eventName, 0)))"
    by blast
  from events [rule_format, of ?meta] obtain e where e: "collectTransactionEvents t ?meta (tx_AccountKeys ttx) = [e]" "ee_programID e = programID"
      "event_to_report t ?lib ttx (tx_AccountKeys ttx) e = Inr (Some (Any_HotWalletIncrementEvent (stx_Event tx), sim_eventName, 0))"
    by auto
  have tx: "tr_Slot (sim_transaction decode tx) = stx_Slot tx" "tr_Meta (sim_transaction decode tx) = Some ?meta"
    "tr_Transaction (sim_transaction decode tx) = Inr ttx" "tm_InnerInstructions ?meta \<noteq> None"
    using sim(4) by (auto simp: sim_transaction_def ttx built_tx_def)
  have keys: "transactionAccountKeys (tx_AccountKeys ttx) (tm_LoadedAddresses ?meta) = tx_AccountKeys ttx"
    by (simp add: transactionAccountKeys_def)
  have fresh': "tp_TxSignature ?p \<noteq> tp_TxSignature (as_processed (view (storage x)))" using fresh by simp
  let ?w2 = "w1\<lparr>sr_collected := sr_collected w1 @ [sim_notification b programID tx]\<rparr>"
  have "\<exists>x'. fetchNextGetFullTxBySignature t (sim_world decode s) st ?lib x = (Inr (), x') \<and> world x' = ?w2
      \<and> chainHeadSlot x' = chainHeadSlot x \<and> moved (view (storage x)) (view (storage x'))"
    by (rule live_storage_handler.processing_live [OF live ok queue fresh' gt(1) tx(2) _ tx(4,3) keys e(1,3) _ _ GetBlockResult.select_convs(2) _ room])
      (simp_all add: tx(1) block(1) sim_world_AddEvent sim_notification_def e(2) sim_eventName_def)
  then obtain x' where run: "fetchNextGetFullTxBySignature t (sim_world decode s) st ?lib x = (Inr (), x')" "world x' = ?w2"
    "chainHeadSlot x' = chainHeadSlot x" "moved (view (storage x)) (view (storage x'))" by blast
  have reports: "reports_of t ?lib ttx (tx_AccountKeys ttx) [e] = [(programID, sim_eventName, 0)]" by (simp add: e(2,3))
  have room': "event_room (length (collectTransactionEvents t ?meta
      (transactionAccountKeys (tx_AccountKeys ttx) (tm_LoadedAddresses ?meta)))) (view (storage x))"
    unfolding keys e(1) using room by simp
  from storage_handler.fetchNextFull_processes [OF handler ok queue fresh' gt(1) tx(2) _ tx(4,3) room' run(1)]
  obtain recs where "ok (storage x')" "as_events (view (storage x')) = as_events (view (storage x)) @ recs"
    "map event_key recs = map (report_key sig_text key_text (stx_Slot tx) (tp_TxSignature ?p)) [(programID, sim_eventName, 0)]"
    "as_queue (view (storage x')) = rest" "as_processed (view (storage x')) = ?p"
    unfolding keys e(1) reports tx(1) Let_def by auto
  moreover from this(3) have "length recs = 1" by (metis length_map length_Cons list.size(3) One_nat_def)
  ultimately show ?thesis
    using run gt(2) block(2) by (intro exI [of _ x']) simp
qed

section \<open>Chains of built transactions\<close>

text \<open>Every operation but those that spoil a transaction on purpose adds built transactions only.\<close>

fun plain_op :: "chain_op \<Rightarrow> bool" where
  "plain_op PoisonSlot = False"
| "plain_op SlotWithoutInnerInstructions = False"
| "plain_op _ = True"

definition chain_built :: "('g, 'tx) sim_env \<Rightarrow> PublicKey \<Rightarrow> 'g ChainSimulator \<Rightarrow> bool" where
  "chain_built env p s \<longleftrightarrow> cs_programID s = p \<and> (\<forall>tx \<in> set (cs_programTxs s). built_tx env p tx)"

lemma chain_built_cong:
  "cs_programID s' = cs_programID s \<Longrightarrow> cs_programTxs s' = cs_programTxs s \<Longrightarrow> chain_built env p s' = chain_built env p s"
  by (simp add: chain_built_def)

lemma keeps_bind_result:
  assumes "keeps P m" "\<And>s a s'. P s \<Longrightarrow> m s = (Inr a, s') \<Longrightarrow> R a" "\<And>a. R a \<Longrightarrow> keeps P (f a)"
  shows "keeps P (bind m f)"
proof (rule keepsI)
  fix s assume P: "P s"
  obtain r s' where run: "m s = (r, s')" by (cases "m s")
  with keepsD [OF assms(1) P] have "P s'" by simp
  with assms(2) [OF P] assms(3) run show "P (snd (bind m f s))"
    by (cases r) (auto simp: bind_def keeps_def)
qed

lemma keeps_built_tx: "keeps (chain_built env p) (buildProgramTx env block)"
proof (rule keepsI)
  fix s assume "chain_built env p s"
  moreover have "same_chain s (snd (buildProgramTx env block s))"
    using keeps_buildProgramTx [of s env block] by (simp add: keeps_def)
  ultimately show "chain_built env p (snd (buildProgramTx env block s))"
    by (auto simp: same_chain_def chain_built_def)
qed

lemma keeps_built_add_txs:
  assumes borsh: "borsh_ok (se_borsh env)"
  shows "keeps (chain_built env p) (add_txs env n block)"
proof (induction n arbitrary: block)
  case (Suc n)
  show ?case unfolding add_txs.simps
  proof (rule keeps_bind_result [OF keeps_built_tx, where R = "built_tx env p"])
    show "built_tx env p tx" if "chain_built env p s" "buildProgramTx env block s = (Inr tx, s')" for s tx s'
      using buildProgramTx_built [OF borsh that(2)] that(1) by (simp add: chain_built_def)
    show "keeps (chain_built env p) (bind (add_tx block tx) (add_txs env n))" if "built_tx env p tx" for tx
      unfolding add_tx_def by (intro keeps_rules Suc.IH) (use that in \<open>auto simp: chain_built_def\<close>)
  qed
qed (simp add: keeps_rules)

lemma keeps_built_read: "keeps (chain_built env p) (sim_read f)"
  by (auto simp: keeps_def sim_read_def chain_built_def split: prod.splits)

lemma keeps_built_slot:
  "keeps (chain_built env p) (slot_stays_empty policy)"
  "keeps (chain_built env p) (next_block env)"
  "keeps (chain_built env p) (add_block block)"
proof -
  show "keeps (chain_built env p) (slot_stays_empty policy)"
    unfolding slot_stays_empty_def by (cases policy; simp; intro keeps_rules) (simp_all add: chain_built_def)
  show "keeps (chain_built env p) (next_block env)"
    unfolding next_block_def Let_def by (intro keeps_rules keeps_built_read) (simp add: chain_built_def)
  show "keeps (chain_built env p) (add_block block)"
    unfolding add_block_def by (intro keeps_rules) (simp add: chain_built_def)
qed

lemma keeps_built_advanceSlot:
  assumes "borsh_ok (se_borsh env)"
  shows "keeps (chain_built env p) (advanceSlot env policy n)"
  unfolding advanceSlot_def Let_def
  by (intro keeps_rules keeps_built_slot keeps_built_add_txs [OF assms]) (simp add: chain_built_def)

lemma keeps_repeat [keeps_rules]: "keeps P m \<Longrightarrow> keeps P (repeat_exec n m)"
  by (induction n) (simp_all add: keeps_rules)

lemma keeps_built_request: "keeps (chain_built env p) (handleRPC r)"
proof (rule keepsI)
  fix s assume built: "chain_built env p s"
  obtain r' s' where run: "handleRPC r s = (r', s')" by (cases "handleRPC r s")
  from keepsD [OF keeps_handleRPC only_answered_upd(1) run] have "only_answered s s'" .
  with built run show "chain_built env p (snd (handleRPC r s))"
    using chain_built_cong [OF only_answeredD(8) only_answeredD(5)] by fastforce
qed

lemma keeps_built_op:
  assumes "borsh_ok (se_borsh env)" "plain_op op"
  shows "keeps (chain_built env p) (run_op env op)"
proof -
  note slot = keeps_built_advanceSlot [OF assms(1)]
  note scripts = PauseTransactions_def ResumeTransactions_def ForgetSignaturesBeforeSlot_def ForgetSignature_def
    RefuseCursorOnce_def SkipNextSlots_def
  note slots = ProduceSlotsWithBlocks_def ProduceEmptySlots_def ProduceSlots_def Start_def advance_def advanceWithPolicy_def
    ProduceSlotWithTransactions_def
  show ?thesis
    using assms(2) by (cases op; simp add: slots; intro keeps_rules slot keeps_built_request) (simp_all add: scripts chain_built_def)
qed

lemma keeps_built_ops:
  assumes "borsh_ok (se_borsh env)" "list_all plain_op ops"
  shows "keeps (chain_built env p) (run_ops env ops)"
  using assms(2) by (induction ops) (auto intro!: keeps_rules keeps_built_op [OF assms(1)])

lemma keeps_built_history:
  assumes "borsh_ok (se_borsh env)"
  shows "keeps (chain_built env p) (history_loop env cfg fuel n)"
proof (induction fuel arbitrary: n)
  case (Suc fuel)
  then show ?case
    unfolding history_loop.simps advance_def advanceWithPolicy_def
    by (intro keeps_rules keeps_built_advanceSlot [OF assms])
qed (simp add: keeps_rules)

section \<open>A whole run\<close>

lemma tx_found:
  assumes "chain_ok s" "fresh_signatures s" "tx \<in> set (cs_programTxs s)"
  shows "cs_txsBySignature s (stx_Signature tx) = Some tx" "\<exists>b. BlockAt s (stx_Slot tx) = Some b"
proof -
  have "stx_Signature tx \<in> dom (cs_txsBySignature s)" using chain_okD(8) [OF assms(1)] assms(3) by simp
  then obtain tx' where tx': "cs_txsBySignature s (stx_Signature tx) = Some tx'" by blast
  from chain_okD(9) [OF assms(1) tx'] have "tx' \<in> set (cs_programTxs s)" "stx_Signature tx' = stx_Signature tx" by auto
  with assms(2,3) have "tx' = tx" by (auto simp: fresh_signatures_def distinct_map inj_on_def)
  with tx' show "cs_txsBySignature s (stx_Signature tx) = Some tx" by simp
  show "\<exists>b. BlockAt s (stx_Slot tx) = Some b" using chain_okD(7) [OF assms(1,3)] by (auto simp: BlockAt_def)
qed

text \<open>What the subscriber is given for a transaction of the chain.\<close>

definition notification_of :: "'g ChainSimulator \<Rightarrow> SimTx \<Rightarrow> any_event EventNotification" where
  "notification_of s tx = sim_notification (the (BlockAt s (stx_Slot tx))) (sim_ProgramID s) tx"

text \<open>Fetching asks for signatures and waits, and leaves the subscriber alone.\<close>

lemma keeps_on_world: "keeps Q m \<Longrightarrow> keeps (\<lambda>x. Q (world x)) (on_world m)"
  by (auto simp: keeps_def on_world_simp split: prod.splits)

lemma keeps_try_again: "keeps P m \<Longrightarrow> keeps P (try_again m)"
  by (simp add: keeps_def)

lemma keeps_sim_call: "keeps (\<lambda>w. sr_collected w = es) (sim_call s name params expected)"
  using sim_call_collected unfolding keeps_def by (metis prod.collapse)

lemma keeps_fetcher:
  assumes "\<And>prog opts. keeps Q (w_GetSignaturesForAddressWithOpts env prog opts)" "\<And>d. keeps Q (w_select_wait env d)"
  shows "keeps (\<lambda>x. Q (world x)) (signaturesForAddressFetcher t env fuel prog lq)"
proof -
  have helper: "keeps Q (getSignaturesForAddressHelper t env prog before until)" for before until
    unfolding getSignaturesForAddressHelper_def Let_def by (rule assms(1))
  have retry: "keeps (\<lambda>x. Q (world x)) (with_retry t env (getSignaturesForAddressHelper t env prog before until))" for before until
    unfolding with_retry_def ExecuteWithRetry_caller by (intro keeps_rules keeps_try_again keeps_on_world helper assms(2))
  have pages: "keeps (\<lambda>x. Q (world x)) (catch_up_pages t env prog lq cnf until fuel before sigs)" for cnf until before sigs
    by (induction fuel arbitrary: before sigs) (auto intro!: keeps_rules retry simp: Let_def)
  show ?thesis
    unfolding signaturesForAddressFetcher_def catchUpLoop_def
    by (intro keeps_rules keeps_on_world helper) (auto intro!: keeps_rules keeps_on_world helper pages split: prod.split)
qed

lemma sim_fetch_collected:
  fixes x x' :: "('d, 'ev sim_run) tracker_state"
  assumes "signaturesForAddressFetcher t (sim_world decode s) fuel prog lq x = (r, x')"
  shows "sr_collected (world x') = sr_collected (world x)"
proof -
  let ?Q = "\<lambda>w :: 'ev sim_run. sr_collected w = sr_collected (world x)"
  have "keeps ?Q (w_GetSignaturesForAddressWithOpts (sim_world decode s) prog opts)" "keeps ?Q (w_select_wait (sim_world decode s) d)"
    for prog opts d by (simp_all add: sim_world_def keeps_rules keeps_sim_call)
  from keepsD [OF keeps_fetcher [OF this] _ assms] show ?thesis by simp
qed

lemma newer_than_zero: "history_ok hist \<Longrightarrow> newer_than zero_TxPoint hist = hist"
  by (auto simp: newer_than_def zero_TxPoint_def takeWhile_eq_all_conv history_ok_def)

lemma newer_than_newest: "hist \<noteq> [] \<Longrightarrow> tp_TxSignature lq = ts_Signature (hd hist) \<Longrightarrow> newer_than lq hist = []"
  by (cases hist) (auto simp: newer_than_def)

text \<open>A poll of the chain's program returns nil and has its full effect on the store.\<close>

lemma sim_poll:
  fixes x :: "('d, any_event sim_run) tracker_state"
  assumes live: "live_storage_handler st ok view sig_text key_text"
    and chain: "chain_ok s" "fresh_signatures s" "cs_refusedOnce s = {}" "visibleProgramTxs s = cs_programTxs s"
    and ok: "ok (storage x)" and room: "push_room (length (cs_programTxs s)) (view (storage x))"
    and fuel: "length (cs_programTxs s) div getSignaturesForAddressMaxLimit \<le> fuel"
  shows "\<exists>x' h. fetchNextGetSignaturesForAddress t (sim_world decode s) st fuel (sim_ProgramID s) lq x = (Inr (), x')
    \<and> sr_collected (world x') = sr_collected (world x) \<and> ok (storage x') \<and> chainHeadSlot x' = chainHeadSlot x
    \<and> view (storage x') = spec_signatures t lq h (filter (\<lambda>y. ts_Signature y \<notin> known_signatures sig_text (tp_Slot lq) (view (storage x)))
        (newer_than lq (sim_history s))) (view (storage x))"
proof -
  note serves = simulator_serves [OF chain(1-3), of decode] and hist = sim_history_ok [OF chain(1,2)]
  obtain w1 where height: "w_GetBlockHeight (sim_world decode s) CommitmentFinalized (world x) = (Inr (cs_headBlockHeight s), w1)"
      "sr_collected w1 = sr_collected (world x)"
    using sim_world_GetBlockHeight .
  have "length (sim_history s) div getSignaturesForAddressMaxLimit \<le> fuel" using fuel by (simp add: chain(4))
  from fetcher_total [OF serves hist this, of t lq "x\<lparr>world := w1\<rparr>"] obtain x2
    where fetch: "signaturesForAddressFetcher t (sim_world decode s) fuel (sim_ProgramID s) lq (x\<lparr>world := w1\<rparr>) =
      (Inr (newer_than lq (sim_history s)), x2)"
    unfolding sim_ProgramID_def by blast
  have room': "push_room (length (sim_history s)) (view (storage x))" using room by (simp add: chain(4))
  then have "push_room (length (newer_than lq (sim_history s))) (view (storage x))"
    using length_newer_than [of lq "sim_history s"] by (simp add: push_room_def)
  from live_storage_handler.poll_live [OF live ok height(1) fetch this] obtain x'
    where run: "fetchNextGetSignaturesForAddress t (sim_world decode s) st fuel (sim_ProgramID s) lq x = (Inr (), x')"
      and w: "world x' = world x2" "chainHeadSlot x' = chainHeadSlot x" by blast
  have collected: "sr_collected (world x2) = sr_collected w1" using sim_fetch_collected [OF fetch] by simp
  from storage_handler.fetchNext_history [OF live_storage_handler.axioms(1) [OF live] ok
      history_serves_rpc [OF serves, folded sim_ProgramID_def] hist room' run]
  show ?thesis using run w collected height(2) by auto
qed

text \<open>What the first poll of a new tracker makes of the store: the transactions from its start slot on are queued.\<close>

definition new_store :: "'m abs_store \<Rightarrow> bool" where
  "new_store v \<longleftrightarrow> as_queue v = [] \<and> as_processed v = zero_TxPoint \<and> as_queried v = zero_TxPoint \<and> as_events v = []"

abbreviation tx_point :: "SimTx \<Rightarrow> TxPoint" where
  "tx_point tx \<equiv> point_of (sig_of tx)"

lemma first_poll_store:
  assumes chain: "chain_ok s" "fresh_signatures s" "visibleProgramTxs s = cs_programTxs s" and new: "new_store v"
    and v': "v' = spec_signatures t zero_TxPoint h (filter (\<lambda>y. ts_Signature y \<notin> known_signatures sig_text (tp_Slot zero_TxPoint) v)
        (newer_than zero_TxPoint (sim_history s))) v"
  shows "as_queue v' = map tx_point (ProducedTxsFromSlot s (et_startFromSlot t))" "as_events v' = []"
    and "if ProducedTxsFromSlot s (et_startFromSlot t) = []
      then as_processed v' = as_queried v' \<and> newer_than (as_queried v') (sim_history s) = []
      else as_processed v' = zero_TxPoint \<and> as_queried v' = tx_point (last (ProducedTxsFromSlot s (et_startFromSlot t)))"
proof -
  let ?hist = "sim_history s" and ?txs = "ProducedTxsFromSlot s (et_startFromSlot t)"
  note hist = sim_history_ok [OF chain(1,2)]
  have "known_signatures sig_text (tp_Slot zero_TxPoint) v = {}"
    using new by (simp add: known_signatures_def new_store_def zero_TxPoint_def)
  then have v': "v' = spec_signatures t zero_TxPoint h ?hist v" using v' newer_than_zero [OF hist] by simp
  have points: "new_points t zero_TxPoint ?hist = map tx_point ?txs"
    by (simp add: new_points_def sim_history_def rev_map chain(3) zero_TxPoint_def ProducedTxsFromSlot_def filter_map comp_def)
  have none: "?hist = [] \<Longrightarrow> ?txs = []"
    by (simp add: sim_history_def chain(3) ProducedTxsFromSlot_def)
  note nonzero = nonzero_points [OF hist order_refl, of t zero_TxPoint, unfolded points]
  show "as_queue v' = map tx_point ?txs" "as_events v' = []"
    using new none nonzero unfolding v' spec_signatures_def spec_push_def new_store_def by (auto simp: points)
  show "if ?txs = [] then as_processed v' = as_queried v' \<and> newer_than (as_queried v') ?hist = []
      else as_processed v' = zero_TxPoint \<and> as_queried v' = tx_point (last ?txs)"
    using new none newer_than_zero [OF hist] newer_than_newest [of ?hist "point_of (hd ?hist)"]
    unfolding v' spec_signatures_def spec_push_def new_store_def by (auto simp: points last_map)
qed

text \<open>The last of these transactions is the newest of the chain.\<close>

lemma newest_produced:
  assumes "chain_ok s" "visibleProgramTxs s = cs_programTxs s" "ProducedTxsFromSlot s slot \<noteq> []"
  shows "newer_than (tx_point (last (ProducedTxsFromSlot s slot))) (sim_history s) = []"
proof -
  have sorted: "sorted (map stx_Slot (cs_programTxs s))" using chain_okD(6) [OF assms(1)] by (simp add: sorted_map)
  have ne: "cs_programTxs s \<noteq> []" using assms(3) by (auto simp: ProducedTxsFromSlot_def)
  then have split: "cs_programTxs s = butlast (cs_programTxs s) @ [last (cs_programTxs s)]" by simp
  obtain tx where tx: "tx \<in> set (cs_programTxs s)" "slot \<le> stx_Slot tx" using assms(3) by (auto simp: ProducedTxsFromSlot_def filter_empty_conv)
  have "stx_Slot tx \<le> stx_Slot (last (cs_programTxs s))"
    using sorted tx(1) by (subst (asm) split, subst (asm) split) (auto simp: sorted_append)
  with tx(2) have "slot \<le> stx_Slot (last (cs_programTxs s))" by simp
  then have "last (ProducedTxsFromSlot s slot) = last (cs_programTxs s)"
    unfolding ProducedTxsFromSlot_def by (subst split) simp
  then show ?thesis using ne by (intro newer_than_newest) (simp_all add: sim_history_def assms(2) hd_map hd_rev)
qed

end
