(* ===== verification/Simulator_Start.thy ===== *)
theory Simulator_Start
  imports Simulator_Delivery
begin

text \<open>
  \<open>Start\<close> of a tracker against the simulated chain: over a storage that answers neither loop
  ever fails, the refresher leaves the queue alone whenever it runs, and every pass of the polling
  loop hands the subscriber the next transaction.
\<close>

section \<open>Steps that succeed\<close>

text \<open>From a state with \<open>P\<close> the step returns a value with \<open>R\<close>, in a state with \<open>P\<close>.\<close>

definition answers :: "('s \<Rightarrow> bool) \<Rightarrow> ('s, 'a) exec \<Rightarrow> ('a \<Rightarrow> bool) \<Rightarrow> bool" where
  "answers P m R \<longleftrightarrow> (\<forall>s. P s \<longrightarrow> (\<exists>a s'. m s = (Inr a, s') \<and> P s' \<and> R a))"

named_theorems answers_rules

lemma answersI: "(\<And>s. P s \<Longrightarrow> \<exists>a s'. m s = (Inr a, s') \<and> P s' \<and> R a) \<Longrightarrow> answers P m R"
  by (simp add: answers_def)

lemma answersD: "answers P m R \<Longrightarrow> P s \<Longrightarrow> \<exists>a s'. m s = (Inr a, s') \<and> P s' \<and> R a"
  by (simp add: answers_def)

lemma answers_weaken: "answers P m R \<Longrightarrow> (\<And>a. R a \<Longrightarrow> R' a) \<Longrightarrow> answers P m R'"
  unfolding answers_def by blast

lemma answers_bind: "answers P m R \<Longrightarrow> (\<And>a. R a \<Longrightarrow> answers P (f a) R') \<Longrightarrow> answers P (bind m f) R'"
  unfolding answers_def bind_def by fastforce

lemma answers_attempt: "answers P m R \<Longrightarrow> answers P (attempt m) (\<lambda>r. \<exists>a. r = Inr a \<and> R a)"
  unfolding answers_def attempt_def by fastforce

lemma answers_ret: "R a \<Longrightarrow> answers P (ret a) R"
  and answers_gets: "(\<And>s. P s \<Longrightarrow> R (f s)) \<Longrightarrow> answers P (gets f) R"
  and answers_modify: "(\<And>s. P s \<Longrightarrow> P (g s)) \<Longrightarrow> answers P (modify g) (\<lambda>_. True)"
  by (simp_all add: answers_def ret_def gets_def modify_def)

lemma answers_on_world: "answers Q m R \<Longrightarrow> answers (\<lambda>x. I (storage x) \<and> Q (world x)) (on_world m) R"
  unfolding answers_def on_world_simp by fastforce

lemma answers_on_storage:
  "(\<And>d. I d \<Longrightarrow> \<exists>a d'. m d = (Inr a, d') \<and> I d') \<Longrightarrow> answers (\<lambda>x. I (storage x) \<and> Q (world x)) (on_storage m) (\<lambda>_. True)"
  unfolding answers_def on_storage_simp by fastforce

lemma answers_with_retry: "answers Q m R \<Longrightarrow> answers (\<lambda>x. I (storage x) \<and> Q (world x)) (with_retry t env m) R"
  unfolding answers_def by (metis (no_types, lifting) with_retry_first tracker_state.select_convs tracker_state.surjective tracker_state.update_convs)

section \<open>The refresher\<close>

text \<open>
  A node whose chain calls are answered: \<open>has\<close> are the slots with a block, \<open>Q\<close> is what the calls
  leave of the outside world.
\<close>

definition node_answers :: "('w \<Rightarrow> bool) \<Rightarrow> ('w, 'ev) tracker_world \<Rightarrow> (u64 \<Rightarrow> bool) \<Rightarrow> bool" where
  "node_answers Q env has \<longleftrightarrow>
     (\<forall>a b c. answers Q (w_GetBlocks env a b c) (\<lambda>slots. \<forall>y \<in> set slots. has y)) \<and>
     (\<forall>y c. has y \<longrightarrow> answers Q (w_GetBlockWithOpts env y c) (\<lambda>r. r \<noteq> None)) \<and>
     (\<forall>c. answers Q (w_GetSlot env c) (\<lambda>_. True)) \<and>
     (\<forall>d. answers Q (w_select_wait env d) (\<lambda>_. True))"

context live_storage_handler
begin

lemma refresh_loop_answers:
  assumes node: "node_answers Q env has" and "\<forall>y \<in> set slots. has y"
  shows "answers (\<lambda>x :: ('d, 'w) tracker_state. ok (storage x) \<and> Q (world x)) (refresh_loop t env st slots bp) (\<lambda>_. True)"
  using assms(2)
proof (induction slots arbitrary: bp)
  case Nil
  then show ?case by (simp add: answers_ret)
next
  case (Cons slot slots)
  have block: "answers Q (w_GetBlockWithOpts env slot CommitmentConfirmed) (\<lambda>r. r \<noteq> None)"
    using node Cons.prems by (simp add: node_answers_def)
  have store: "\<exists>a d'. sh_StoreBlock st NilTx bp d = (Inr a, d') \<and> ok d'" if "ok d" for bp d
    using store_block_total [OF that, of bp] writesD(1) [OF store_block [OF that]] by blast
  have rest: "answers (\<lambda>x :: ('d, 'w) tracker_state. ok (storage x) \<and> Q (world x)) (refresh_loop t env st slots bp) (\<lambda>_. True)" for bp
    using Cons by simp
  show ?case
    unfolding refresh_loop.simps
    by (rule answers_bind [OF answers_gets [where R = "\<lambda>_. True"]], simp)
      (auto intro!: rest answers_bind [OF answers_attempt [OF answers_with_retry [OF block]]]
        answers_bind [OF answers_on_storage [OF store]] answers_bind [OF answers_modify] simp: Let_def)
qed

lemma chainHeadRefreshPass_answers:
  assumes node: "node_answers Q env has" and threshold: "et_blockRoundingThreshold t \<noteq> 0"
  shows "answers (\<lambda>x :: ('d, 'w) tracker_state. ok (storage x) \<and> Q (world x)) (chainHeadRefreshPass ovf t env st) (\<lambda>_. True)"
proof -
  let ?P = "\<lambda>x :: ('d, 'w) tracker_state. ok (storage x) \<and> Q (world x)"
  note calls = node [unfolded node_answers_def]
  have head: "\<exists>a d'. sh_StoreLatestBlockPoint st NilTx bp d = (Inr a, d') \<and> ok d'" if "ok d" for bp d
    using store_head_total [OF that, of bp] writesD(1) [OF store_head [OF that]] by blast
  have unstick: "answers ?P (unstickChainHead t env slots) (\<lambda>_. True)" for slots
    unfolding unstickChainHead_def Let_def
    by (rule answers_bind [OF answers_gets [where R = "\<lambda>_. True"]], simp)
      (use calls in \<open>auto intro!: answers_bind [OF answers_modify] answers_ret
        answers_bind [OF answers_attempt [OF answers_on_world [where R = "\<lambda>_. True"]]]\<close>)
  have select: "answers ?P (liftR (getSlotsToQueryBlocks slots (et_blockRoundingThreshold t))) (\<lambda>sel. set sel \<subseteq> set slots)" for slots
  proof -
    have "subseq (slots_loop (et_blockRoundingThreshold t) slots) slots" by (rule subseq_slots_loop)
    then have "set (slots_loop (et_blockRoundingThreshold t) slots) \<subseteq> set slots" by (metis notin_set_nthsI subseq_conv_nths subsetI)
    with threshold show ?thesis by (simp add: answers_def getSlotsToQueryBlocks_def liftR_def)
  qed
  have blocks: "answers ?P (attempt (on_world (w_GetBlocks env a b c))) (\<lambda>r. \<exists>slots. r = Inr slots \<and> (\<forall>y \<in> set slots. has y))" for a b c
    using calls by (intro answers_attempt answers_on_world) blast
  have loop: "answers ?P (attempt (refresh_loop t env st sel bp)) (\<lambda>r. \<exists>bp. r = Inr bp)" if "\<forall>y \<in> set sel. has y" for sel bp
    using answers_attempt [OF refresh_loop_answers [OF node that]] by simp
  have body: "answers ?P (refreshChainHead ovf t env st) (\<lambda>_. True)"
    unfolding refreshChainHead_def Let_def
  proof (rule answers_bind [OF answers_gets [where R = "\<lambda>_. True"]], simp, rule answers_bind [OF blocks])
    fix startSlot r assume "\<exists>slots. r = Inr slots \<and> (\<forall>y \<in> set slots. has y)"
    then obtain slots where slots: "r = Inr slots" "\<forall>y \<in> set slots. has y" by blast
    have selected: "answers ?P (bind (attempt (refresh_loop t env st sel bp)) f) (\<lambda>_. True)"
      if "set sel \<subseteq> set slots" "\<And>bp. answers ?P (f (Inr bp)) (\<lambda>_. True)" for sel bp f
      by (rule answers_bind [OF loop]) (use that slots(2) in auto)
    show "answers ?P (case r of Inl err \<Rightarrow> ret (0, None) | Inr slotsWithBlocks \<Rightarrow>
        bind (gets latestGetBlocksState) (\<lambda>latest.
        if \<lparr>lg_chainHeadSlot = startSlot, lg_queriedBlocksWithSlotsLen = int (length slotsWithBlocks)\<rparr> = latest
        then unstickChainHead t env slotsWithBlocks
        else bind (modify (\<lambda>s. s\<lparr>latestGetBlocksState :=
            \<lparr>lg_chainHeadSlot = startSlot, lg_queriedBlocksWithSlotsLen = int (length slotsWithBlocks)\<rparr>\<rparr>)) (\<lambda>_.
          if slotsWithBlocks = [] then ret (chainHeadCatchUpWait ovf 0 (et_chainHeadTargetBlockCount t) (et_avgSlotTime t), None)
          else bind (liftR (getSlotsToQueryBlocks slotsWithBlocks (et_blockRoundingThreshold t))) (\<lambda>slotsToQueryBlocks.
            bind (attempt (refresh_loop t env st slotsToQueryBlocks \<lparr>bp_BlockSlot = 0, bp_BlockHash = 0, bp_BlockNumber = 0\<rparr>)) (\<lambda>r.
            case r of Inl err \<Rightarrow> ret (0, Some err) | Inr bp \<Rightarrow>
              if bp_BlockSlot bp > 0 then
                bind (attempt (on_storage (sh_StoreLatestBlockPoint st NilTx bp))) (\<lambda>r.
                ret (chainHeadCatchUpWait ovf (int (length slotsWithBlocks)) (et_chainHeadTargetBlockCount t) (et_avgSlotTime t),
                  case r of Inl err \<Rightarrow> Some err | Inr _ \<Rightarrow> None))
              else ret (chainHeadCatchUpWait ovf (int (length slotsWithBlocks)) (et_chainHeadTargetBlockCount t) (et_avgSlotTime t), None)))))) (\<lambda>_. True)"
      unfolding slots(1) sum.case
      by (rule answers_bind [OF answers_gets [where R = "\<lambda>_. True"]], simp)
        (auto intro!: unstick answers_ret answers_bind [OF answers_modify] answers_bind [OF select] selected
          answers_bind [OF answers_attempt [OF answers_on_storage [OF head]]])
  qed
  show ?thesis
    unfolding chainHeadRefreshPass_def
    by (rule answers_bind [OF body]) (use calls in \<open>auto intro!: answers_ret answers_bind [OF answers_on_world [where R = "\<lambda>_. True"]] split: prod.splits\<close>)
qed

end

section \<open>The simulated chain as such a node\<close>

lemma sim_answers:
  fixes es :: "'e EventNotification list"
  assumes "\<And>(w :: 'e sim_run) r w'. sim_call s name params expected w = (r, w') \<Longrightarrow> r = Inr a" "R a"
  shows "answers (\<lambda>w. sr_collected w = es) (sim_call s name params expected) R"
proof (rule answersI)
  fix w :: "'e sim_run" assume es: "sr_collected w = es"
  obtain r w' where run: "sim_call s name params expected w = (r, w')" by fastforce
  then have "r = Inr a" by (rule assms(1))
  with sim_call_collected [OF run] es run assms(2)
  show "\<exists>a w'. sim_call s name params expected w = (Inr a, w') \<and> sr_collected w' = es \<and> R a" by blast
qed

lemma sim_node_answers:
  assumes "chain_ok s"
  shows "node_answers (\<lambda>w. sr_collected w = es) (sim_world decode s) (\<lambda>y. cs_blocks s y \<noteq> None)"
  unfolding node_answers_def
proof (intro conjI allI impI)
  fix a b c
  let ?slots = "filter (\<lambda>x. a \<le> x \<and> x \<le> b) (cs_slotsWithBlocks s)"
  have slots: "r = Inr ?slots" if run: "w_GetBlocks (sim_world decode s) a b c w = (r, w')" for w r w'
  proof -
    from run have "\<exists>slots. r = Inr slots" by (auto simp: sim_rpc_defs handleGetBlocks_def)
    with sim_world_GetBlocks [OF assms] run show ?thesis by auto
  qed
  show "answers (\<lambda>w. sr_collected w = es) (w_GetBlocks (sim_world decode s) a b c) (\<lambda>slots. \<forall>y \<in> set slots. cs_blocks s y \<noteq> None)"
    unfolding sim_world_def tracker_world.simps
    by (rule sim_answers [OF slots [unfolded sim_world_def tracker_world.simps]]) (use chain_okD(3) [OF assms] in auto)
next
  fix y c assume "cs_blocks s y \<noteq> None"
  then obtain b where "cs_blocks s y = Some b" by blast
  then show "answers (\<lambda>w. sr_collected w = es) (w_GetBlockWithOpts (sim_world decode s) y c) (\<lambda>r. r \<noteq> None)"
    unfolding sim_world_def tracker_world.simps
    by (intro sim_answers) (auto simp: sim_rpc_defs handleGetBlock_def BlockAt_def)
next
  fix c show "answers (\<lambda>w. sr_collected w = es) (w_GetSlot (sim_world decode s) c) (\<lambda>_. True)"
    unfolding sim_world_def tracker_world.simps
    by (rule sim_answers [where a = "cs_headSlot s"]) (auto simp: sim_rpc_defs CurrentHeadSlot_def)
next
  fix d show "answers (\<lambda>w. sr_collected w = es) (w_select_wait (sim_world decode s) d) (\<lambda>_. True)"
    unfolding sim_world_def tracker_world.simps by (rule answers_ret) simp
qed

section \<open>The state after some polls\<close>

text \<open>
  \<open>delivered t s view es k x\<close>: after \<open>k\<close> passes of the polling loop the subscriber, who had \<open>es\<close>,
  has got the first \<open>k - 1\<close> transactions; the others are queued.
\<close>

definition delivered ::
  "('ty, 'c, 'l) EventTracker \<Rightarrow> 'g ChainSimulator \<Rightarrow> ('d \<Rightarrow> 'm abs_store) \<Rightarrow> any_event EventNotification list \<Rightarrow> nat \<Rightarrow>
   ('d, any_event sim_run) tracker_state \<Rightarrow> bool" where
  "delivered t s view es k x \<longleftrightarrow>
     (let txs = ProducedTxsFromSlot s (et_startFromSlot t); v = view (storage x); n = length (cs_programTxs s) in
      case k of
        0 \<Rightarrow> new_store v \<and> push_room (2 * n) v \<and> sr_collected (world x) = es
      | Suc j \<Rightarrow>
          as_queue v = map tx_point (drop j txs) \<and> push_room n v \<and> event_room (length (drop j txs)) v \<and>
          sr_collected (world x) = es @ map (notification_of s) (take j txs) \<and>
          (if drop j txs = [] then tp_TxSignature (as_processed v) = tp_TxSignature (as_queried v) \<and> newer_than (as_queried v) (sim_history s) = []
           else as_queried v = tx_point (last txs) \<and> tp_TxSignature (as_processed v) \<notin> stx_Signature ` set (drop j txs)))"

lemma delivered_same_polling:
  "delivered t s view es k x \<Longrightarrow> same_polling (view (storage x)) (view (storage x')) \<Longrightarrow>
   sr_collected (world x') = sr_collected (world x) \<Longrightarrow> delivered t s view es k x'"
  by (drule same_pollingD) (auto simp: delivered_def Let_def new_store_def push_room_def event_room_def split: nat.splits if_splits)

text \<open>What a pass of the polling loop comes to.\<close>

context live_storage_handler
begin

lemma polling_pass_processes:
  fixes x :: "('d, 'w) tracker_state"
  assumes ok: "ok (storage x)"
    and "tp_TxSignature (as_queried (view (storage x))) \<noteq> tp_TxSignature (as_processed (view (storage x)))"
    and "fetchNextGetFullTxBySignature t env st lib x = (Inr (), x')"
  shows "transactionPollingPass t env st lib fuel x = (Inr (), x')"
proof -
  have "sh_GetLastProcessedTransaction st (storage x) = Inr (as_processed (view (storage x)))"
    "sh_GetLatestQueriedTransaction st (storage x) = Inr (as_queried (view (storage x)))"
    using get_processed_total [OF ok] get_processed [OF ok] get_queried_total [OF ok] get_queried [OF ok] by metis+
  with assms(2,3) show ?thesis by (simp add: transactionPollingPass_def bind_def attempt_def from_storage_def ret_def)
qed

lemma polling_pass_polls:
  fixes x :: "('d, 'w) tracker_state"
  assumes ok: "ok (storage x)" and "map fst (et_trackedPrograms t) = [prog]"
    and "tp_TxSignature (as_queried (view (storage x))) = tp_TxSignature (as_processed (view (storage x)))"
    and "fetchNextGetSignaturesForAddress t env st fuel prog (as_queried (view (storage x))) x = (Inr (), x')"
  shows "transactionPollingPass t env st lib fuel x = (Inr (), x')"
proof -
  have "sh_GetLastProcessedTransaction st (storage x) = Inr (as_processed (view (storage x)))"
    "sh_GetLatestQueriedTransaction st (storage x) = Inr (as_queried (view (storage x)))"
    using get_processed_total [OF ok] get_processed [OF ok] get_queried_total [OF ok] get_queried [OF ok] by metis+
  with assms(2-4) show ?thesis by (simp add: transactionPollingPass_def bind_def attempt_def from_storage_def ret_def)
qed

end

lemma delivered_first:
  assumes chain: "chain_ok s" "fresh_signatures s" "visibleProgramTxs s = cs_programTxs s"
    and before: "delivered t s view es 0 x"
    and after: "view (storage x') = spec_signatures t zero_TxPoint h
        (filter (\<lambda>y. ts_Signature y \<notin> known_signatures sig_text (tp_Slot zero_TxPoint) (view (storage x)))
          (newer_than zero_TxPoint (sim_history s))) (view (storage x))"
    and collected: "sr_collected (world x') = sr_collected (world x)"
  shows "delivered t s view es 1 x'"
proof -
  let ?txs = "ProducedTxsFromSlot s (et_startFromSlot t)" and ?v = "view (storage x)" and ?v' = "view (storage x')"
  let ?new = "filter (\<lambda>y. ts_Signature y \<notin> known_signatures sig_text (tp_Slot zero_TxPoint) ?v) (newer_than zero_TxPoint (sim_history s))"
  have new: "new_store ?v" and room: "push_room (2 * length (cs_programTxs s)) ?v" and es: "sr_collected (world x) = es"
    using before by (simp_all add: delivered_def Let_def)
  note store = first_poll_store [OF chain new after]
  have "length ?new \<le> length (cs_programTxs s)"
    using length_filter_le length_newer_than [of zero_TxPoint "sim_history s"] by (metis chain(3) le_trans length_sim_history)
  then have "push_room (length (cs_programTxs s)) ?v'"
    using room spec_signatures_counts [of t zero_TxPoint h ?new ?v] by (simp add: push_room_def after)
  moreover have "length ?txs \<le> length (cs_programTxs s)" by (simp add: ProducedTxsFromSlot_def)
  then have "event_room (length ?txs) ?v'" using room by (simp add: event_room_def store(2) push_room_def)
  moreover have "0 \<notin> stx_Signature ` set ?txs"
    using chain(2) by (auto simp: fresh_signatures_def ProducedTxsFromSlot_def)
  ultimately show ?thesis
    using store es collected by (auto simp: delivered_def Let_def zero_TxPoint_def split: if_splits)
qed

lemma moved_counts:
  "moved v v' \<Longrightarrow> as_popped v' + length (as_queue v') = as_popped v + length (as_queue v) \<and> as_queried v' = as_queried v"
  unfolding moved_def by (auto dest: same_queueD simp: spec_finalize_def)

lemma delivered_next:
  assumes chain: "chain_ok s" "fresh_signatures s" "visibleProgramTxs s = cs_programTxs s"
    and before: "delivered t s view es (Suc j) x" and rest: "drop j (ProducedTxsFromSlot s (et_startFromSlot t)) = tx # rest"
    and after: "as_queue (view (storage x')) = map tx_point rest" "as_processed (view (storage x')) = tx_point tx"
      "length (as_events (view (storage x'))) = Suc (length (as_events (view (storage x))))"
      "sr_collected (world x') = sr_collected (world x) @ [notification_of s tx]"
      "moved (view (storage x)) (view (storage x'))"
  shows "delivered t s view es (Suc (Suc j)) x'"
proof -
  let ?txs = "ProducedTxsFromSlot s (et_startFromSlot t)" and ?v = "view (storage x)" and ?v' = "view (storage x')"
  have drop: "drop (Suc j) ?txs = rest" using rest by (metis drop_Suc list.sel(3) tl_drop)
  have j: "j < length ?txs" "?txs ! j = tx" using rest by (auto simp: drop_eq_Nil2 nth_via_drop intro: ccontr)
  then have take: "take (Suc j) ?txs = take j ?txs @ [tx]" by (simp add: take_Suc_conv_app_nth)
  have v: "as_queue ?v = tx_point tx # map tx_point rest" "push_room (length (cs_programTxs s)) ?v"
    "event_room (Suc (length rest)) ?v" "sr_collected (world x) = es @ map (notification_of s) (take j ?txs)"
    "as_queried ?v = tx_point (last ?txs)"
    using before by (simp_all add: delivered_def Let_def rest del: length_drop drop_eq_Nil)
  note counts = moved_counts [OF after(5)]
  have "distinct (map stx_Signature ?txs)"
    using chain(2) by (simp add: fresh_signatures_def ProducedTxsFromSlot_def distinct_map_filter)
  then have "distinct (map stx_Signature (tx # rest))" using rest by (metis distinct_drop drop_map)
  then have fresh: "stx_Signature tx \<notin> stx_Signature ` set rest" by simp
  have last: "last ?txs = tx" if "rest = []"
    using rest that j(1) by (metis append_take_drop_id last_snoc)
  have "newer_than (tx_point (last ?txs)) (sim_history s) = []"
    using j(1) by (intro newest_produced [OF chain(1,3)]) auto
  with v after(1-4) counts fresh last show ?thesis
    by (auto simp: delivered_def Let_def drop take push_room_def event_room_def simp del: length_drop drop_eq_Nil)
qed

lemma delivered_idle:
  assumes before: "delivered t s view es (Suc j) x" and rest: "drop j (ProducedTxsFromSlot s (et_startFromSlot t)) = []"
    and after: "view (storage x') = (view (storage x))\<lparr>as_finalized := h\<rparr>" "sr_collected (world x') = sr_collected (world x)"
  shows "delivered t s view es (Suc (Suc j)) x'"
  using before rest after by (simp add: delivered_def Let_def push_room_def event_room_def)

text \<open>A pass of the polling loop returns nil and delivers the next transaction, if there is one.\<close>

lemma polling_pass_delivers:
  fixes x :: "('d, any_event sim_run) tracker_state"
  assumes live: "live_storage_handler st ok view sig_text key_text"
    and chain: "chain_ok s" "fresh_signatures s" "cs_refusedOnce s = {}" "visibleProgramTxs s = cs_programTxs s"
      "chain_built env (sim_ProgramID s) s"
    and sim: "borsh_ok (se_borsh env)" "decodes_sim env decode" "tracks_sim t env (sim_ProgramID s)"
    and tracked: "map fst (et_trackedPrograms t) = [sim_ProgramID s]"
    and fuel: "length (cs_programTxs s) div getSignaturesForAddressMaxLimit \<le> fuel"
    and ok: "ok (storage x)" and before: "delivered t s view es k x"
  shows "\<exists>x'. transactionPollingPass t (sim_world decode s) st (skyline_events (se_borsh env) marshal unmarshal) fuel x = (Inr (), x')
    \<and> delivered t s view es (Suc k) x' \<and> ok (storage x') \<and> chainHeadSlot x' = chainHeadSlot x
    \<and> as_head (view (storage x')) = as_head (view (storage x)) \<and> as_blocks (view (storage x')) = as_blocks (view (storage x))"
proof (cases "k = 0 \<or> drop (k - 1) (ProducedTxsFromSlot s (et_startFromSlot t)) = []")
  case True
  let ?v = "view (storage x)" and ?lq = "as_queried (view (storage x))"
  have idle: "tp_TxSignature ?lq = tp_TxSignature (as_processed ?v)" and room: "push_room (length (cs_programTxs s)) ?v"
    using before True by (auto simp: delivered_def Let_def new_store_def push_room_def split: nat.splits)
  from sim_poll [OF live chain(1-4) ok room fuel, of t decode ?lq] obtain x' h
    where poll: "fetchNextGetSignaturesForAddress t (sim_world decode s) st fuel (sim_ProgramID s) ?lq x = (Inr (), x')"
      and x': "sr_collected (world x') = sr_collected (world x)" "ok (storage x')" "chainHeadSlot x' = chainHeadSlot x"
      and v': "view (storage x') = spec_signatures t ?lq h (filter (\<lambda>y. ts_Signature y \<notin> known_signatures sig_text (tp_Slot ?lq) ?v)
        (newer_than ?lq (sim_history s))) ?v"
    by blast
  note run = live_storage_handler.polling_pass_polls [OF live ok tracked idle poll]
  have "delivered t s view es (Suc k) x'"
  proof (cases k)
    case 0
    then have "?lq = zero_TxPoint" using before by (simp add: delivered_def Let_def new_store_def)
    from delivered_first [OF chain(1,2,4) before [unfolded 0] v' [unfolded this] x'(1)] 0 show ?thesis by simp
  next
    case (Suc j)
    with True have rest: "drop j (ProducedTxsFromSlot s (et_startFromSlot t)) = []" by simp
    then have "newer_than ?lq (sim_history s) = []" using before Suc by (simp add: delivered_def Let_def)
    then have "view (storage x') = ?v\<lparr>as_finalized := h\<rparr>" by (simp add: v' spec_signatures_def)
    from delivered_idle [OF before [unfolded Suc] rest this x'(1)] Suc show ?thesis by simp
  qed
  with run x'(2,3) spec_signatures_head show ?thesis unfolding v' by (intro exI [of _ x']) (simp add: v')
next
  case False
  then obtain j tx rest where k: "k = Suc j" and rest: "drop j (ProducedTxsFromSlot s (et_startFromSlot t)) = tx # rest"
    by (cases k; cases "drop (k - 1) (ProducedTxsFromSlot s (et_startFromSlot t))") auto
  let ?v = "view (storage x)"
  have mem: "set (tx # rest) \<subseteq> set (ProducedTxsFromSlot s (et_startFromSlot t))" using set_drop_subset rest by metis
  then have tx: "tx \<in> set (cs_programTxs s)" by (simp add: ProducedTxsFromSlot_def)
  obtain b where b: "BlockAt s (stx_Slot tx) = Some b" using tx_found(2) [OF chain(1,2) tx] ..
  have built: "built_tx env (sim_ProgramID s) tx" using chain(5) tx by (simp add: chain_built_def)
  have v: "as_queue ?v = tx_point tx # map tx_point rest" "event_room 1 ?v" "stx_Signature tx \<noteq> tp_TxSignature (as_processed ?v)"
    and cursor: "as_queried ?v = tx_point (last (ProducedTxsFromSlot s (et_startFromSlot t)))"
      "tp_TxSignature (as_processed ?v) \<notin> stx_Signature ` set (tx # rest)"
    using before by (auto simp: delivered_def Let_def k rest event_room_def simp del: length_drop drop_eq_Nil)
  from sim_processing [OF live ok v(1,3,2) tx_found(1) [OF chain(1,2) tx] b [unfolded BlockAt_def] sim built, of marshal unmarshal]
  obtain x' where x': "fetchNextGetFullTxBySignature t (sim_world decode s) st (skyline_events (se_borsh env) marshal unmarshal) x = (Inr (), x')"
    "sr_collected (world x') = sr_collected (world x) @ [notification_of s tx]" "ok (storage x')"
    "as_queue (view (storage x')) = map tx_point rest" "as_processed (view (storage x')) = tx_point tx"
    "length (as_events (view (storage x'))) = Suc (length (as_events ?v))" "chainHeadSlot x' = chainHeadSlot x"
    "moved ?v (view (storage x'))"
    by (auto simp: notification_of_def b)
  have "last (ProducedTxsFromSlot s (et_startFromSlot t)) \<in> set (tx # rest)"
    using rest by (metis append_take_drop_id last_append last_in_set list.distinct(1))
  then have "tp_TxSignature (as_queried ?v) \<noteq> tp_TxSignature (as_processed ?v)"
    using cursor by (metis image_eqI sig_of_simps(1) sig_point_of)
  note run = live_storage_handler.polling_pass_processes [OF live ok this x'(1)]
  from delivered_next [OF chain(1,2,4) before [unfolded k] rest x'(4,5,6,2,8)] run x'(3,7) moved_head [OF x'(8)] k
  show ?thesis by (intro exI [of _ x']) simp
qed

section \<open>Any order of the passes\<close>

lemma refresh_pass_delivers:
  fixes x :: "('d, any_event sim_run) tracker_state"
  assumes live: "live_storage_handler st ok view sig_text key_text" and chain: "chain_ok s"
    and conf: "head_config_ok t" "et_blockRoundingThreshold t \<noteq> 0" "no_slot_overflow t (chainHeadSlot x)"
    and ok: "ok (storage x)" "head_inv (chainHeadSlot x) (view (storage x))" and before: "delivered t s view es k x"
  shows "\<exists>goes_on x'. chainHeadRefreshPass ovf t (sim_world decode s) st x = (Inr goes_on, x') \<and> delivered t s view es k x'
    \<and> ok (storage x') \<and> head_inv (chainHeadSlot x') (view (storage x'))
    \<and> chainHeadSlot x' \<le> chainHeadSlot x + et_chainHeadSlotOffset t"
proof -
  note node = sim_node_answers [OF chain, of "sr_collected (world x)" decode]
  from answersD [OF live_storage_handler.chainHeadRefreshPass_answers [OF live node conf(2), of ovf], of x] ok(1)
  obtain goes_on x' where run: "chainHeadRefreshPass ovf t (sim_world decode s) st x = (Inr goes_on, x')"
    and collected: "sr_collected (world x') = sr_collected (world x)" by auto
  from storage_handler.chainHeadRefreshPass_effect [OF live_storage_handler.axioms(1) [OF live] ok sim_blocks_between [OF chain] conf(1,3) run]
  show ?thesis using run delivered_same_polling [OF before _ collected] by blast
qed

abbreviation polls :: "goroutine list \<Rightarrow> nat" where
  "polls schedule \<equiv> count_list schedule RunTransactionPolling"

lemma run_loops_delivers:
  fixes x :: "('d, any_event sim_run) tracker_state"
  assumes live: "live_storage_handler st ok view sig_text key_text"
    and chain: "chain_ok s" "fresh_signatures s" "cs_refusedOnce s = {}" "visibleProgramTxs s = cs_programTxs s"
      "chain_built env (sim_ProgramID s) s"
    and sim: "borsh_ok (se_borsh env)" "decodes_sim env decode" "tracks_sim t env (sim_ProgramID s)"
    and tracked: "map fst (et_trackedPrograms t) = [sim_ProgramID s]" "head_config_ok t" "et_blockRoundingThreshold t \<noteq> 0"
    and fuel: "length (cs_programTxs s) div getSignaturesForAddressMaxLimit \<le> fuel"
    and "ok (storage x)" "head_inv (chainHeadSlot x) (view (storage x))" "delivered t s view es k x"
    and "unat (chainHeadSlot x) + length schedule * unat (et_chainHeadSlotOffset t) < 2 ^ 64"
  shows "\<exists>x'. run_loops ovf t (sim_world decode s) st (skyline_events (se_borsh env) marshal unmarshal) fuel refreshing schedule x = (Inr (), x')
    \<and> delivered t s view es (k + polls schedule) x' \<and> ok (storage x')"
  using assms(14-)
proof (induction schedule arbitrary: refreshing k x)
  case Nil
  then show ?case by (simp add: ret_def)
next
  case (Cons g schedule)
  let ?loops = "run_loops ovf t (sim_world decode s) st (skyline_events (se_borsh env) marshal unmarshal) fuel"
  show ?case
  proof (cases g)
    case RunTransactionPolling
    from polling_pass_delivers [OF live chain sim tracked(1) fuel Cons.prems(1,3), of marshal unmarshal] obtain x1
      where run: "transactionPollingPass t (sim_world decode s) st (skyline_events (se_borsh env) marshal unmarshal) fuel x = (Inr (), x1)"
        and x1: "delivered t s view es (Suc k) x1" "ok (storage x1)" "chainHeadSlot x1 = chainHeadSlot x"
          "as_head (view (storage x1)) = as_head (view (storage x))" "as_blocks (view (storage x1)) = as_blocks (view (storage x))"
      by blast
    have inv: "head_inv (chainHeadSlot x1) (view (storage x1))" using Cons.prems(2) by (simp add: head_inv_def x1(3-5))
    have room: "unat (chainHeadSlot x1) + length schedule * unat (et_chainHeadSlotOffset t) < 2 ^ 64" using Cons.prems(4) by (simp add: x1(3))
    from Cons.IH [OF x1(2) inv x1(1) room, of refreshing] run RunTransactionPolling show ?thesis by (simp add: bind_def attempt_def)
  next
    case RunChainHeadRefresh
    show ?thesis
    proof (cases refreshing)
      case False
      have "unat (chainHeadSlot x) + length schedule * unat (et_chainHeadSlotOffset t) < 2 ^ 64" using Cons.prems(4) by simp
      from Cons.IH [OF Cons.prems(1-3) this, of refreshing] False RunChainHeadRefresh show ?thesis by simp
    next
      case True
      have "no_slot_overflow t (chainHeadSlot x)" using Cons.prems(4) by (simp add: no_slot_overflow_def)
      from refresh_pass_delivers [OF live chain(1) tracked(2,3) this Cons.prems(1-3), of ovf decode] obtain goes_on x1
        where run: "chainHeadRefreshPass ovf t (sim_world decode s) st x = (Inr goes_on, x1)"
          and x1: "delivered t s view es k x1" "ok (storage x1)" "head_inv (chainHeadSlot x1) (view (storage x1))"
            "chainHeadSlot x1 \<le> chainHeadSlot x + et_chainHeadSlotOffset t" by blast
      have "unat (chainHeadSlot x1) \<le> unat (chainHeadSlot x) + unat (et_chainHeadSlotOffset t)"
        using x1(4) unfolding word_le_nat_alt unat_word_ariths(1) by (meson le_trans mod_less_eq_dividend)
      then have "unat (chainHeadSlot x1) + length schedule * unat (et_chainHeadSlotOffset t) < 2 ^ 64" using Cons.prems(4) by simp
      from Cons.IH [OF x1(2,3,1) this, of goes_on] run True RunChainHeadRefresh show ?thesis by (simp add: bind_def attempt_def)
    qed
  qed
qed

lemma initialize_new:
  assumes "live_storage_handler st ok view sig_text key_text" "ok (storage x)" "as_head (view (storage x)) = None"
  shows "initialize st x = (Inr (), x)"
proof -
  have "sh_GetLatestBlockPoint st (storage x) = Inr None"
    using live_storage_handler.get_head_total [OF assms(1,2)] storage_handler.get_head [OF live_storage_handler.axioms(1) [OF assms(1)] assms(2)]
      assms(3) by metis
  then show ?thesis by (simp add: initialize_def bind_def from_storage_def ret_def)
qed

end
