(* ===== verification/Simulator_Properties.thy ===== *)
theory Simulator_Properties
  imports Simulator_Start
begin

text \<open>
  The properties of the simulated chain and of a tracker that runs against it, with a small
  signing client as the instance of the parameters.
\<close>

section \<open>The instance\<close>

text \<open>
  A transaction is its account keys and its block hash, which is also its signature; its bytes
  are the keys in borsh. A program address is one above its program.
\<close>

definition plain_sol :: solana_lib where
  "plain_sol =
     \<lparr>sol_PublicKeyFromBase58 = (\<lambda>s. Inr 0), sol_PublicKey_String = (\<lambda>k. ''''), sol_IsOnCurve = (\<lambda>k. True),
      sol_FindProgramAddress = (\<lambda>seeds p. Inr (p + 1, 255)), sol_FindAssociatedTokenAddress = (\<lambda>a b. Inr (a + b, 255)),
      sol_TokenProgramID = 11, sol_TokenMetadataProgramID = 12, sol_SystemProgramID = 0,
      sol_SPLAssociatedTokenAccountProgramID = 13, sol_SysVarRentPubkey = 14, sol_SysVarInstructionsPubkey = 15,
      sol_BPFLoaderUpgradeableProgramID = 16, sol_ComputeBudget = 17\<rparr>"

definition plain_env :: "(nat, PublicKey list \<times> Hash) sim_env" where
  "plain_env =
     \<lparr>se_sol = plain_sol, se_borsh = plain_borsh, se_Uint64 = (\<lambda>g. (of_nat g, Suc g)), se_Now = (\<lambda>g. (int g, g)),
      se_NewTransaction = (\<lambda>ixs hash payer.
        Inr (payer # concat (map (\<lambda>ix. map am_PublicKey (ix_Accounts ix)) ixs) @ map ix_ProgramID ixs, hash)),
      se_Sign = (\<lambda>key tx. Inr tx),
      se_MarshalBinary = (\<lambda>(keys, hash). if length keys \<le> 2 ^ 16 then Inr (written (enc_PublicKeys plain_borsh keys))
        else Inl (ExtErr STR ''too many keys'')),
      se_Signatures = (\<lambda>(keys, hash). [ucast hash]), se_AccountKeys = fst\<rparr>"

definition plain_decode :: "bytes \<Rightarrow> go_error + Transaction" where
  "plain_decode raw = map_sum id (\<lambda>keys. \<lparr>tx_AccountKeys = keys, tx_Instructions = []\<rparr>) (fst (dec_PublicKeys plain_borsh raw))"

lemma plain_decodes: "decodes_sim plain_env plain_decode"
  unfolding decodes_sim_def
proof (intro allI impI)
  fix utx raw assume "se_MarshalBinary plain_env utx = Inr raw"
  then have keys: "length (fst utx) \<le> 2 ^ 16" "raw = written (enc_PublicKeys plain_borsh (fst utx))"
    by (auto simp: plain_env_def split: prod.splits if_splits)
  then have "counted (fst utx)" by (simp add: counted_def)
  moreover have "codec counted (enc_PublicKeys plain_borsh) (dec_PublicKeys plain_borsh)"
    using plain_borsh_ok by (simp add: borsh_ok_def)
  ultimately have "reads (dec_PublicKeys plain_borsh) raw (fst utx)" using codec_reads keys(2) by metis
  then have "dec_PublicKeys plain_borsh raw = (Inr (fst utx), [])" unfolding reads_def by (metis append_Nil2)
  with keys(1) show "length (se_AccountKeys plain_env utx) \<le> 2 ^ 16 \<and>
      (\<exists>ttx. plain_decode raw = Inr ttx \<and> tx_AccountKeys ttx = se_AccountKeys plain_env utx)"
    by (simp add: plain_env_def plain_decode_def)
qed

lemma key_index_in: "key \<in> set keys \<Longrightarrow> \<exists>k. key_index keys key i = Some k"
  by (induction keys arbitrary: i) auto

lemma plain_build:
  "\<exists>tx. buildProgramTx plain_env block s = (Inr tx, s\<lparr>cs_world := Suc (cs_world s)\<rparr>) \<and>
     stx_Signature tx = ucast (bl_Hash block) \<and> stx_Slot tx = bl_Slot block"
proof -
  let ?e = "\<lparr>hwi_Sender = cs_payer s, hwi_Mint = cs_mint s, hwi_Amount = of_nat (cs_world s) mod 1000000 + 1\<rparr> :: HotWalletIncrementEvent"
  let ?enc = "HotWalletIncrementEvent_MarshalWithEncoder plain_borsh ?e"
  let ?keys = "[cs_payer s, cs_payer s, cs_mint s, cs_programID s + 1, cs_programID s, 17, cs_programID s]"
  have "writes ?enc (written ?enc)" using codec_writes [OF codec_HotWalletIncrementEvent [OF plain_borsh_ok], of ?e] by simp
  then have payload: "\<exists>p. encodeEventLogPayload plain_borsh sim_eventName ?enc x = (Inr p, x)" for x :: "nat ChainSimulator"
    using plain_borsh_ok writes_bind [of "enc_WriteBytes plain_borsh d" d ?enc "written ?enc" for d]
    by (auto simp: encodeEventLogPayload_def Let_def writes_def borsh_ok_def ret_def)
  obtain p where p: "encodeEventLogPayload plain_borsh sim_eventName ?enc (s\<lparr>cs_world := Suc (cs_world s)\<rparr>) =
      (Inr p, s\<lparr>cs_world := Suc (cs_world s)\<rparr>)"
    using payload by blast
  obtain i where i: "key_index ?keys (cs_programID s) 0 = Some i"
    using key_index_in [of "cs_programID s" ?keys 0] by (auto simp del: key_index.simps)
  obtain j where j: "key_index ?keys (cs_programID s + 1) 0 = Some j"
    using key_index_in [of "cs_programID s + 1" ?keys 0] by (auto simp del: key_index.simps)
  show ?thesis
    using p i j
    by (simp add: buildProgramTx_def programIxAccounts_def sim_eventAuthority_def accountKeyIndex_def require_ok_def sim_read_def
        bind_def gets_def ret_def plain_env_def plain_sol_def NewInstruction_def Let_def del: key_index.simps)
qed

text \<open>A chain with a transaction in every slot; it starts with one slot.\<close>

definition plain_cfg :: SimConfig where
  "plain_cfg = DefaultConfig\<lparr>scf_EmptySlotEvery := 0, scf_TxEvery := 1, scf_HistorySlots := 1\<rparr>"

definition plain_signature :: "nat \<Rightarrow> Signature" where
  "plain_signature i = ucast (blockhashForSlot (genesisSlot + of_nat i))"

definition plain_chain :: "nat \<Rightarrow> nat ChainSimulator \<Rightarrow> bool" where
  "plain_chain n s \<longleftrightarrow> cs_cfg s = plain_cfg \<and> cs_pendingSkips s = 0 \<and> \<not> cs_txsPaused s \<and> cs_refusedOnce s = {} \<and>
     cs_forgottenBeforeSlot s = 0 \<and> cs_forgottenSignatures s = {} \<and> cs_programID s = ProgramID \<and>
     cs_headSlot s = genesisSlot + of_nat n \<and>
     map stx_Slot (cs_programTxs s) = map (\<lambda>i. genesisSlot + of_nat i) [1..<Suc n] \<and>
     map stx_Signature (cs_programTxs s) = map plain_signature [1..<Suc n]"

lemma plain_advance:
  assumes "plain_chain n s"
  shows "\<exists>s'. advance plain_env s = (Inr (), s') \<and> plain_chain (Suc n) s'"
proof -
  have cfg: "scf_EmptySlotEvery (cs_cfg s) = 0" "scf_TxEvery (cs_cfg s) = 1"
    using assms by (simp_all add: plain_chain_def plain_cfg_def)
  let ?s = "s\<lparr>cs_headSlot := cs_headSlot s + 1, cs_headBlockHeight := cs_headBlockHeight s + 1,
      cs_blocksProduced := cs_blocksProduced s + 1\<rparr>"
  obtain b where b: "next_block plain_env (s\<lparr>cs_headSlot := cs_headSlot s + 1\<rparr>) = (Inr b, ?s)"
    "bl_Slot b = cs_headSlot s + 1" "bl_Hash b = blockhashForSlot (cs_headSlot s + 1)"
    by (simp add: next_block_def bind_def modify_def sim_read_def gets_def ret_def plain_env_def Let_def)
  obtain tx where tx: "buildProgramTx plain_env b ?s = (Inr tx, ?s\<lparr>cs_world := Suc (cs_world ?s)\<rparr>)"
    "stx_Signature tx = ucast (bl_Hash b)" "stx_Slot tx = bl_Slot b"
    using plain_build [of b ?s] by blast
  have empty: "slot_stays_empty policyConfigured (s\<lparr>cs_headSlot := cs_headSlot s + 1\<rparr>) = (Inr False, s\<lparr>cs_headSlot := cs_headSlot s + 1\<rparr>)"
    using assms cfg by (simp add: slot_stays_empty_def bind_def gets_def ret_def plain_chain_def)
  let ?b = "b\<lparr>bl_signatures := bl_signatures b @ [stx_Signature tx]\<rparr>"
  let ?s' = "?s\<lparr>cs_world := Suc (cs_world ?s), cs_txsBySignature := (cs_txsBySignature s)(stx_Signature tx \<mapsto> tx),
      cs_programTxs := cs_programTxs s @ [tx], cs_blocks := (cs_blocks s)(bl_Slot b \<mapsto> ?b),
      cs_slotsWithBlocks := cs_slotsWithBlocks s @ [bl_Slot b]\<rparr>"
  have "\<not> cs_txsPaused s" using assms by (simp add: plain_chain_def)
  with cfg have "advance plain_env s = (Inr (), ?s')"
    by (simp add: advance_def advanceWithPolicy_def advanceSlot_def bind_def modify_def gets_def ret_def empty b(1) tx(1) Let_def
        txCountFromConfig_def add_tx_def add_block_def)
  moreover have "plain_chain (Suc n) ?s'"
    using assms by (simp add: plain_chain_def plain_signature_def b(2,3) tx(2,3) ac_simps)
  ultimately show ?thesis by blast
qed

lemma plain_start:
  "\<exists>s0. NewChainSimulator plain_env 2 plain_cfg 1 2 0 = Inr s0 \<and> plain_chain 1 s0"
proof -
  have "plain_chain 0 (genesis_chain plain_cfg 1 2 0)" by (simp add: plain_chain_def genesis_chain_def)
  then obtain s1 where s1: "advance plain_env (genesis_chain plain_cfg 1 2 0) = (Inr (), s1)" "plain_chain 1 s1"
    using plain_advance by force
  have "NewChainSimulator plain_env 2 plain_cfg 1 2 0 = Inr s1"
    by (simp add: NewChainSimulator_def eval_nat_numeral bind_def gets_def ret_def plain_cfg_def DefaultConfig_def ProducedTxCount_def
        s1(1) [unfolded plain_cfg_def DefaultConfig_def, simplified])
  with s1(2) show ?thesis by blast
qed

lemma plain_run:
  "plain_chain n s \<Longrightarrow> \<exists>s'. run_ops plain_env (replicate k (Ticks 1)) s = (Inr (), s') \<and> plain_chain (n + k) s'"
proof (induction k arbitrary: n s)
  case (Suc k)
  obtain s1 where "advance plain_env s = (Inr (), s1)" "plain_chain (Suc n) s1" using plain_advance [OF Suc.prems] by blast
  with Suc.IH [of "Suc n" s1] show ?case by (auto simp: bind_def Start_def ret_def)
qed (simp add: ret_def)

lemma plain_fresh:
  assumes "plain_chain 2 s"
  shows "fresh_signatures s" "visibleProgramTxs s = cs_programTxs s" "cs_refusedOnce s = {}"
proof -
  have "map plain_signature [1..<Suc 2] = [0x1fd431400000000aafd43140000000001fd43140000000001fd431400000000, 0x2fd431400000000abfd43140000000002fd43140000000002fd431400000000]" by code_simp
  then have "distinct (map plain_signature [1..<Suc 2])" "0 \<notin> set (map plain_signature [1..<Suc 2])" by simp_all
  with assms show "fresh_signatures s" by (simp add: plain_chain_def fresh_signatures_def flip: set_map)
  show "visibleProgramTxs s = cs_programTxs s" "cs_refusedOnce s = {}"
    using assms by (simp_all add: plain_chain_def visibleProgramTxs_def)
qed

lemma plain_two:
  obtains s0 s where "NewChainSimulator plain_env 2 plain_cfg 1 2 0 = Inr s0" "run_ops plain_env [Ticks 1] s0 = (Inr (), s)"
    "plain_chain 2 s" "chain_ok s"
proof -
  obtain s0 where s0: "NewChainSimulator plain_env 2 plain_cfg 1 2 0 = Inr s0" "plain_chain 1 s0" using plain_start by blast
  have "replicate 1 (Ticks 1) = [Ticks 1]" "1 + 1 = (2 :: nat)" by simp_all
  with plain_run [OF s0(2), of 1] obtain s where s: "run_ops plain_env [Ticks 1] s0 = (Inr (), s)" "plain_chain 2 s" by metis
  from s0(1) have "history_loop plain_env plain_cfg 2 0 (genesis_chain plain_cfg 1 2 0) = (Inr (), s0)"
    by (auto simp: NewChainSimulator_def split: if_splits prod.splits sum.splits)
  from history_loop_ok [OF this chain_ok_genesis] have "chain_ok s0" "unat (cs_headSlot s0) \<le> unat genesisSlot + 2"
    by (simp_all add: genesis_chain_def genesisSlot_def)
  with run_ops_ok [OF s(1)] have "chain_ok s" by (simp add: genesisSlot_def)
  with s0(1) s that show thesis by blast
qed

text \<open>A tracker of the chain's program that starts at its second slot, with a new store.\<close>

definition plain_tracker :: "(event_type, unit, unit) EventTracker" where
  "plain_tracker =
     \<lparr>et_client = ((), None), et_trackedPrograms = [(ProgramID, [sim_spec])], et_eventAuthorities = [ProgramID \<mapsto> ProgramID + 1],
      et_commitment = CommitmentFinalized, et_pollTime = 500000000, et_startFromSlot = genesisSlot + 2,
      et_chainHeadSlotOffset = 80, et_chainHeadTargetBlockCount = 30, et_avgSlotTime = 166000000, et_blockRoundingThreshold = 10\<rparr>"

definition plain_state :: "(mem_db, any_event sim_run) tracker_state" where
  "plain_state = \<lparr>chainHeadSlot = genesisSlot + 2, latestGetBlocksState = \<lparr>lg_chainHeadSlot = genesisSlot + 2, lg_queriedBlocksWithSlotsLen = 0\<rparr>,
     storage = mem_new, world = \<lparr>sr_queries = [], sr_counts = (\<lambda>_. 0), sr_collected = []\<rparr>\<rparr>"

abbreviation event_codec :: "(any_event, unit) store_codec" where
  "event_codec \<equiv> any_codec"

abbreviation any_storage :: "(mem_db, any_event, unit) StorageHandler" where
  "any_storage \<equiv> BoltStorageHandler mem_api event_codec"

lemmas any_live = any_handler.live.live_storage_handler_axioms

lemma any_new: "bolt_ok mem_api event_codec mem_new"
  "bolt_view mem_api event_codec mem_new = \<lparr>as_queue = [], as_popped = 0, as_processed = zero_TxPoint, as_queried = zero_TxPoint,
     as_finalized = 0, as_head = None, as_blocks = (\<lambda>_. None), as_numbers = (\<lambda>_. None), as_events = []\<rparr>"
  unfolding bolt_ok_def mem_new_reads using empty_content_ok
  by (auto simp: mem_new_def mem_new_reads [unfolded mem_new_def] bolt_view_def content_view_def queue_in_def queue_head_def queue_tail_def
      number_in_def point_in_def block_in_def events_in_def event_count_def)

lemma plain_tracks: "tracks_sim plain_tracker plain_env ProgramID"
  by (simp add: tracks_sim_def plain_tracker_def plain_env_def plain_sol_def sim_spec_def deriveEventAuthority_def)

section \<open>The chain\<close>

text \<open>
  C13. However a test scripts a simulated chain and whatever the tracker asks of it, the chain
  stays well formed: its slots with blocks ascend up to the head, its blocks are numbered without
  a gap and chained by their parents, every transaction is listed in the order of the slots, in
  the block of its slot and under its signature; every slot moved the head by one; and
  \<open>getBlocks\<close> lists exactly the slots of a range that carry a block.
\<close>

theorem simulator_well_formed:
  assumes "NewChainSimulator env fuel cfg payer mint g = Inr s0" "run_ops env ops s0 = (Inr (), s)"
    and "unat genesisSlot + fuel + sum_list (map op_slots ops) < 2 ^ 64"
  shows "chain_ok s \<and> unat (CurrentHeadSlot s) = unat (CurrentHeadSlot s0) + sum_list (map op_slots ops) \<and>
    (\<forall>a b. sim_getBlocks s a (Some b) = filter (\<lambda>x. a \<le> x \<and> x \<le> b) (cs_slotsWithBlocks s))"
proof -
  from assms(1) have "history_loop env cfg fuel 0 (genesis_chain cfg payer mint g) = (Inr (), s0)"
    by (auto simp: NewChainSimulator_def split: if_splits prod.splits sum.splits)
  from history_loop_ok [OF this chain_ok_genesis] assms(3)
  have s0: "chain_ok s0" "unat (cs_headSlot s0) \<le> unat genesisSlot + fuel" by (simp_all add: genesis_chain_def)
  with run_ops_ok [OF assms(2) s0(1)] assms(3) sim_getBlocks_eq(1) show ?thesis by (auto simp: CurrentHeadSlot_def)
qed

theorem simulator_well_formed_witness:
  "\<exists>s0 s. NewChainSimulator plain_env 2 plain_cfg 1 2 0 = Inr s0 \<and> run_ops plain_env (replicate 5 (Ticks 1)) s0 = (Inr (), s) \<and>
     chain_ok s \<and> unat (CurrentHeadSlot s) = unat (CurrentHeadSlot s0) + 5"
proof -
  obtain s0 where s0: "NewChainSimulator plain_env 2 plain_cfg 1 2 0 = Inr s0" "plain_chain 1 s0" using plain_start by blast
  from plain_run [OF s0(2), of 5] obtain s where s: "run_ops plain_env (replicate 5 (Ticks 1)) s0 = (Inr (), s)" by blast
  have "unat genesisSlot + 2 + sum_list (map op_slots (replicate 5 (Ticks 1))) < 2 ^ 64"
    by (simp add: genesisSlot_def sum_list_replicate)
  from simulator_well_formed [OF s0(1) s this] s0(1) s show ?thesis by (auto simp: sum_list_replicate)
qed

text \<open>
  C9. The simulated node implements what the theorems on the tracker assume of a node: it serves
  the history of its program page by page, newest first, refuses a cursor it does not know, and
  lists blocks in order and in range, so that every invariant of the tracker holds against it.
\<close>

theorem simulator_implements_node:
  fixes st :: "('d, 'ev, 'm) StorageHandler"
  assumes "chain_ok s" "fresh_signatures s" "cs_refusedOnce s = {}"
    and "cursor_writes_succeed st ok" "head_config_ok t" "length (et_trackedPrograms t) \<le> 1 \<or> et_startFromSlot t = 0"
  shows "history_serves (sim_world decode s) (sim_ProgramID s) (map sig_of (rev (visibleProgramTxs s))) \<and>
    history_ok (map sig_of (rev (visibleProgramTxs s))) \<and>
    tracker_setting t (sim_world decode s) st ok fuel (length (visibleProgramTxs s))"
  unfolding tracker_setting_def sim_history_def [symmetric] sim_ProgramID_def
  using assms(4-6) by (intro conjI simulator_serves [OF assms(1-3)] sim_history_ok [OF assms(1,2)] sim_fetches_ok [OF assms(1-3)]
    sim_blocks_between [OF assms(1)])

theorem simulator_implements_node_witness:
  "\<exists>s. plain_chain 2 s \<and>
     tracker_setting plain_tracker (sim_world plain_decode s) any_storage (bolt_ok mem_api event_codec) 0 (length (visibleProgramTxs s))"
proof -
  obtain s where s: "plain_chain 2 s" "chain_ok s" using plain_two by blast
  have "cursor_writes_succeed any_storage (bolt_ok mem_api event_codec)"
    unfolding cursor_writes_succeed_def by (metis fst_conv any_handler.live.set_queried_total)
  moreover have "head_config_ok plain_tracker" "length (et_trackedPrograms plain_tracker) \<le> 1 \<or> et_startFromSlot plain_tracker = 0"
    by (simp_all add: head_config_ok_def plain_tracker_def emptySlotsWithBlocksBackoff_def)
  ultimately show ?thesis using simulator_implements_node [OF s(2) plain_fresh(1,3) [OF s(1)]] s(1) by blast
qed

section \<open>The events\<close>

text \<open>
  C14. A transaction the simulator builds is read back by the tracker as the event it was built
  for: from its inner instructions the tracker of the program collects one event, decodes it to
  the same sender, mint and amount, and reports it with the zero action hash.
\<close>

theorem built_transaction_read_by_tracker:
  assumes "borsh_ok (se_borsh env)" "decodes_sim env decode" "tracks_sim t env (sim_ProgramID s)"
    and "buildProgramTx env block s = (Inr tx, s')"
  shows "\<exists>ttx. decode (stx_raw tx) = Inr ttx \<and>
    (\<forall>meta. tm_InnerInstructions meta = stx_innerInstructions tx \<longrightarrow>
      (\<exists>e. collectTransactionEvents t meta (tx_AccountKeys ttx) = [e] \<and> ee_programID e = sim_ProgramID s \<and>
         event_to_report t (skyline_events (se_borsh env) marshal unmarshal) ttx (tx_AccountKeys ttx) e =
           Inr (Some (Any_HotWalletIncrementEvent (stx_Event tx), sim_eventName, 0))))"
  using sim_event_reported [OF assms(1-3)] buildProgramTx_built [OF assms(1,4)] by (simp add: sim_ProgramID_def)

theorem built_transaction_read_by_tracker_witness:
  "\<exists>tx s' ttx e meta. buildProgramTx plain_env \<lparr>bl_Slot = 7, bl_Height = 3, bl_Hash = 5, bl_parentSlot = 6, bl_parentHash = 4,
       bl_signatures = [], bl_blockTime = 0\<rparr> (genesis_chain plain_cfg 1 2 0) = (Inr tx, s') \<and> plain_decode (stx_raw tx) = Inr ttx \<and>
     stx_Slot tx = 7 \<and> collectTransactionEvents plain_tracker meta (tx_AccountKeys ttx) = [e] \<and> ee_programID e = ProgramID"
proof -
  let ?b = "\<lparr>bl_Slot = 7, bl_Height = 3, bl_Hash = 5, bl_parentSlot = 6, bl_parentHash = 4, bl_signatures = [], bl_blockTime = 0\<rparr>"
  obtain tx s' where tx: "buildProgramTx plain_env ?b (genesis_chain plain_cfg 1 2 0) = (Inr tx, s')" "stx_Slot tx = 7"
    using plain_build [of ?b "genesis_chain plain_cfg 1 2 0"] by auto
  have borsh: "borsh_ok (se_borsh plain_env)" using plain_borsh_ok by (simp add: plain_env_def)
  have prog: "sim_ProgramID (genesis_chain plain_cfg 1 2 (0 :: nat)) = ProgramID" by (simp add: sim_ProgramID_def genesis_chain_def)
  let ?meta = "\<lparr>tm_Err = False, tm_InnerInstructions = stx_innerInstructions tx,
      tm_LoadedAddresses = \<lparr>la_Writable = [], la_ReadOnly = []\<rparr>\<rparr>"
  from built_transaction_read_by_tracker [OF borsh plain_decodes plain_tracks [folded prog] tx(1), of "\<lambda>p. Inr []" "\<lambda>b. Inl (ExtErr STR ''EOF'')"]
  obtain ttx where ttx: "plain_decode (stx_raw tx) = Inr ttx" and events: "\<forall>meta. tm_InnerInstructions meta = stx_innerInstructions tx \<longrightarrow>
      (\<exists>e. collectTransactionEvents plain_tracker meta (tx_AccountKeys ttx) = [e] \<and> ee_programID e = ProgramID)"
    unfolding prog by blast
  have "tm_InnerInstructions ?meta = stx_innerInstructions tx" by simp
  with events obtain e where "collectTransactionEvents plain_tracker ?meta (tx_AccountKeys ttx) = [e]" "ee_programID e = ProgramID" by blast
  with tx ttx show ?thesis by blast
qed

section \<open>The whole run\<close>

text \<open>
  C3. \<open>Start\<close> of a new tracker of a simulated chain, over a storage that answers: in whatever
  order the polling loop and the refresher make their passes, it returns without an error, and after \<open>n + 1\<close>
  passes of the polling loop the subscriber has been given exactly one notification for each of
  the first \<open>n\<close> transactions from the start slot on, in the order of the chain, with its event,
  its signature and the number of its block. So every transaction is delivered once there were
  enough passes; nothing is lost, repeated or reordered, over any number of pages of history,
  and passes after the last transaction deliver nothing more.
\<close>

theorem Start_delivers_chain:
  fixes x :: "('d, any_event sim_run) tracker_state"
  assumes "live_storage_handler st ok view sig_text key_text"
    and "NewChainSimulator env fuel0 cfg payer mint g = Inr s0" "run_ops env ops s0 = (Inr (), s)" "list_all plain_op ops"
    and "unat genesisSlot + fuel0 + sum_list (map op_slots ops) < 2 ^ 64"
    and "fresh_signatures s" "cs_refusedOnce s = {}" "visibleProgramTxs s = cs_programTxs s"
    and "borsh_ok (se_borsh env)" "decodes_sim env decode" "tracks_sim t env (sim_ProgramID s)"
    and "map fst (et_trackedPrograms t) = [sim_ProgramID s]" "head_config_ok t" "et_blockRoundingThreshold t \<noteq> 0"
    and "ok (storage x)" "new_store (view (storage x))" "as_head (view (storage x)) = None"
    and "push_room (2 * length (cs_programTxs s)) (view (storage x))"
    and "length (cs_programTxs s) div getSignaturesForAddressMaxLimit \<le> fuel"
    and "unat (chainHeadSlot x) + length schedule * unat (et_chainHeadSlotOffset t) < 2 ^ 64"
  shows "\<exists>x'. EventTracker_Start ovf t (sim_world decode s) st (skyline_events (se_borsh env) marshal unmarshal) fuel schedule x = (Inr (), x') \<and>
    ok (storage x') \<and> sr_collected (world x') = sr_collected (world x) @
      map (notification_of s) (take (count_list schedule RunTransactionPolling - 1) (ProducedTxsFromSlot s (et_startFromSlot t)))"
proof -
  have hist: "history_loop env cfg fuel0 0 (genesis_chain cfg payer mint g) = (Inr (), s0)"
    using assms(2) by (auto simp: NewChainSimulator_def split: if_splits prod.splits sum.splits)
  from history_loop_ok [OF hist chain_ok_genesis] assms(5)
  have s0: "chain_ok s0" "unat (cs_headSlot s0) \<le> unat genesisSlot + fuel0" by (simp_all add: genesis_chain_def)
  with run_ops_ok [OF assms(3) s0(1)] assms(5) have ok: "chain_ok s" by simp
  have "chain_built env ProgramID (genesis_chain cfg payer mint g)" by (simp add: chain_built_def genesis_chain_def)
  from keepsD [OF keeps_built_history [OF assms(9)] this hist] keepsD [OF keeps_built_ops [OF assms(9,4)] _ assms(3)]
  have "chain_built env ProgramID s" by blast
  then have built: "chain_built env (sim_ProgramID s) s" by (simp add: chain_built_def sim_ProgramID_def)
  have before: "delivered t s view (sr_collected (world x)) 0 x" using assms(16,18) by (simp add: delivered_def Let_def)
  from run_loops_delivers [OF assms(1) ok assms(6-8) built assms(9-14,19,15) head_inv_None [OF assms(17)] before assms(20),
      of ovf marshal unmarshal True] obtain x'
    where run: "run_loops ovf t (sim_world decode s) st (skyline_events (se_borsh env) marshal unmarshal) fuel True schedule x = (Inr (), x')"
      and x': "delivered t s view (sr_collected (world x)) (polls schedule) x'" "ok (storage x')"
    by auto
  from x'(1) have "sr_collected (world x') = sr_collected (world x) @
      map (notification_of s) (take (polls schedule - 1) (ProducedTxsFromSlot s (et_startFromSlot t)))"
    by (cases "polls schedule") (simp_all add: delivered_def Let_def)
  with x'(2) run initialize_new [OF assms(1,15,17)] show ?thesis
    by (simp add: EventTracker_Start_def bind_def attempt_def)
qed

theorem Start_delivers_chain_witness:
  "\<exists>s x'. plain_chain 2 s \<and>
     EventTracker_Start (\<lambda>i. i) plain_tracker (sim_world plain_decode s) any_storage
       (skyline_events plain_borsh (\<lambda>p. Inr []) (\<lambda>b. Inl (ExtErr STR ''EOF''))) 0
       [RunChainHeadRefresh, RunTransactionPolling, RunChainHeadRefresh, RunTransactionPolling, RunTransactionPolling] plain_state = (Inr (), x') \<and>
     map en_TxSignature (sr_collected (world x')) = [plain_signature 2]"
proof -
  obtain s0 s where s0: "NewChainSimulator plain_env 2 plain_cfg 1 2 0 = Inr s0"
    and s: "run_ops plain_env [Ticks 1] s0 = (Inr (), s)" "plain_chain 2 s" using plain_two by blast
  let ?schedule = "[RunChainHeadRefresh, RunTransactionPolling, RunChainHeadRefresh, RunTransactionPolling, RunTransactionPolling]"
  have borsh: "se_borsh plain_env = plain_borsh" by (simp add: plain_env_def)
  have bounds: "unat genesisSlot + 2 + sum_list (map op_slots [Ticks 1]) < 2 ^ 64" by (simp add: genesisSlot_def)
  have two: "map stx_Slot (cs_programTxs s) = [genesisSlot + 1, genesisSlot + 2]"
    "map stx_Signature (cs_programTxs s) = [plain_signature 1, plain_signature 2]" and prog: "sim_ProgramID s = ProgramID"
    using s(2) by (simp_all add: plain_chain_def sim_ProgramID_def upt_rec flip: numeral_2_eq_2)
  then obtain a b where txs: "cs_programTxs s = [a, b]" "stx_Slot a = genesisSlot + 1" "stx_Slot b = genesisSlot + 2"
    "stx_Signature b = plain_signature 2" by (auto simp: map_eq_Cons_conv)
  have "ProducedTxsFromSlot s (et_startFromSlot plain_tracker) = [b]"
    by (simp add: ProducedTxsFromSlot_def plain_tracker_def txs genesisSlot_def)
  moreover have "push_room (2 * length (cs_programTxs s)) (bolt_view mem_api event_codec (storage plain_state))"
    "new_store (bolt_view mem_api event_codec (storage plain_state))" "bolt_ok mem_api event_codec (storage plain_state)"
    "as_head (bolt_view mem_api event_codec (storage plain_state)) = None"
    "length (cs_programTxs s) div getSignaturesForAddressMaxLimit \<le> 0"
    using any_new by (simp_all add: plain_state_def push_room_def new_store_def txs getSignaturesForAddressMaxLimit_def)
  moreover have "map fst (et_trackedPrograms plain_tracker) = [sim_ProgramID s]" "head_config_ok plain_tracker"
    "et_blockRoundingThreshold plain_tracker \<noteq> 0"
    "unat (chainHeadSlot plain_state) + length ?schedule * unat (et_chainHeadSlotOffset plain_tracker) < 2 ^ 64"
    by (simp_all add: plain_tracker_def prog head_config_ok_def emptySlotsWithBlocksBackoff_def plain_state_def genesisSlot_def)
  moreover note Start_delivers_chain [OF any_live s0 s(1) _ bounds plain_fresh(1,3,2) [OF s(2)],
      of plain_decode plain_tracker plain_state 0 ?schedule "\<lambda>i. i" "\<lambda>p. Inr []" "\<lambda>b. Inl (ExtErr STR ''EOF'')"]
  ultimately obtain x' where "EventTracker_Start (\<lambda>i. i) plain_tracker (sim_world plain_decode s) any_storage
       (skyline_events plain_borsh (\<lambda>p. Inr []) (\<lambda>b. Inl (ExtErr STR ''EOF''))) 0 ?schedule plain_state = (Inr (), x')"
      "sr_collected (world x') = sr_collected (world plain_state) @ [notification_of s b]"
    using plain_borsh_ok plain_decodes plain_tracks by (auto simp: borsh prog)
  with s(2) show ?thesis
    by (intro exI [of _ s] exI [of _ x']) (simp add: plain_state_def notification_of_def sim_notification_def txs(4))
qed

end
