(* ===== verification/Spec2Isabelle.thy ===== *)
theory Spec2Isabelle
  imports Ed25519_Batch Cpi_Events Slot_Selection Retry Storage_Properties Tracker_Properties
    Rpc_Limits_Properties Wallet_Keys Skyline_Properties Sendtx_Properties Lookup_Tables Simulator_Properties
begin

text \<open>
  A model of the Go module \<open>solana-infrastructure\<close>, the Solana side of a bridge: it builds the
  transactions that drive the on-chain skyline program, and it tracks the events the program
  emits. This theory imports all the others and holds no definition of its own.

  \<^bold>\<open>The program.\<close> A sender (\<open>sendtx\<close>) turns a request into instructions of the skyline
  program; the generated package \<open>sendtx/skyline_program\<close> encodes their data and lists their
  accounts. For a batch it puts in front an Ed25519 instruction over the payload the validators
  signed. A provider (\<open>wallet\<close>) sends transactions and reads accounts through an RPC client
  (\<open>common\<close>) that keeps every method below its limit and backs off after a 429 answer. The event
  tracker (\<open>tracker\<close>) runs two loops: one follows the chain head and stores blocks, the other polls
  the signatures of the tracked programs, queues the new transactions, reads the events of the
  front one, hands them to a subscriber and stores them. Its state survives in a BoltDB file
  (\<open>tracker/store\<close>). Its tests run it against a simulated chain behind a JSON-RPC server
  (\<open>tracker/internal/trackertest\<close>). The parts meet where the model joins them: the tracker reads
  the payload out of the very instruction the sender builds, calls the storage through an
  interface that the BoltDB handler is shown to implement, and is run against the simulated chain.

  \<^bold>\<open>Conventions.\<close> An operation with effects is an \<open>exec\<close>, a function from a state to a result and
  a new state; the result is \<open>Inl\<close> of a \<open>go_error\<close> or \<open>Inr\<close> of a value. Wrapped errors, errors of
  a package outside the repository, RPC errors and panics are constructors of \<open>go_error\<close>, and a
  panic is not caught where the code handles an error (\<open>attempt\<close>). Fixed-width integers are words,
  keys, hashes and signatures of solana-go are words of 256 and 512 bits, with 0 for the zero value
  of their types, byte slices are lists, nil pointers are \<open>None\<close>. Packages outside the
  repository are records of operations that the definitions take as an argument, with their documented
  behaviour as the laws of a locale or a predicate, and every such record has a concrete instance
  on which the laws are proved.

  \<^bold>\<open>The theories and the code.\<close>
  \<^item> \<open>Prelude\<close>: the error type, the \<open>exec\<close> form and its rules, the big- and little-endian codecs.
    \<open>Solana_Types\<close>: instructions, compiled instructions, the signed payload
    (\<open>sendtx/data.go\<close>, \<open>wallet/token.go\<close>). \<open>Sha256\<close>: \<open>crypto/sha256\<close>.
  \<^item> \<open>Ed25519_Batch\<close>: \<open>buildBatchedEd25519Instruction\<close> of \<open>sendtx/tx_sender.go\<close> and
    \<open>ExtractSolanaPayloadFromEd25519\<close> of \<open>tracker/payload_parser.go\<close>: the layout byte for byte,
    the exact set of inputs the reader accepts, and the round trip.
  \<^item> \<open>Cpi_Events\<close>: \<open>tracker/cpi_events.go\<close> and the search for a batch's payload: the loops against a
    one-line reference.
  \<^item> \<open>Slot_Selection\<close>, \<open>Retry\<close>: the pure helpers of the refresher in \<open>tracker/tracker.go\<close> and the
    retry loop of \<open>tracker/helpers.go\<close>.
  \<^item> \<open>Bolt_Api\<close>: the interface of bbolt and an in-memory instance on red-black trees. \<open>Bolt_Store\<close>: every method of
    \<open>tracker/store/bolt_storage_handler.go\<close>. \<open>Bolt_Keys\<close>, \<open>Bolt_Refinement\<close>, \<open>Bolt_Queue\<close>,
    \<open>Bolt_Contract\<close>: the content of the database read as an abstract state (\<open>bolt_view\<close>: queue,
    cursors, head, blocks, events) under an invariant (\<open>bolt_ok\<close>), and every method as a
    specification of it. \<open>Bolt_Live\<close>: the methods return nil when nothing goes wrong below them.
  \<^item> \<open>Storage_Interface\<close>: \<open>StorageHandler\<close> as a record and its contract as the locale
    \<open>storage_handler\<close>; \<open>Bolt_Contract\<close> makes the BoltDB handler a sublocale. \<open>Live_Storage\<close>: the locale of
    storages that answer, and the tracker over one. \<open>Storage_Properties\<close>: the properties.
  \<^item> \<open>Tracker_Config\<close>: \<open>tracker/event_specification.go\<close>, the types and \<open>NewEventTracker\<close> of
    \<open>tracker/tracker.go\<close>. \<open>Tracker\<close>: every handler, the passes of the two loops and \<open>Start\<close>. The
    state is \<open>tracker_state\<close>: the slot and the last window of the refresher, the storage, and the
    outside world (node, subscriber, timer) that the operations of \<open>tracker_world\<close> change.
    \<open>Tracker_Polling\<close>, \<open>Tracker_Processing\<close>, \<open>Tracker_Head\<close>: the effect of a handler on the abstract
    storage, whatever fails. \<open>Tracker_Fetch\<close>: paging through the history of a program.
    \<open>Tracker_System\<close>: the step relation of a tracker with restarts, and the invariants of
    every state it reaches. \<open>Tracker_Failures\<close>: what is left of them when any write may fail.
    \<open>Tracker_Properties\<close>: the properties.
  \<^item> \<open>Rpc_Limits\<close>: \<open>common/mutex_rpc_client.go\<close>, its state the end of each method's
    cooldown and the outside world. \<open>Rpc_Transport\<close>: \<open>common/rate_limited_rpc_client.go\<close>.
    \<open>Provider\<close>: \<open>wallet/txprovider.go\<close>. \<open>Wallet_Keys\<close>: \<open>wallet/wallet.go\<close>,
    \<open>transaction.go\<close>, \<open>utils.go\<close> and \<open>common/data.go\<close>. \<open>Wallet_Address\<close>: \<open>wallet/address.go\<close>.
    \<open>Lookup_Tables\<close>: \<open>wallet/alt_admin.go\<close> and \<open>wallet/lookup_table.go\<close>.
  \<^item> \<open>Borsh\<close>: the encoder and decoder of \<open>gagliardetto/binary\<close> as a record with round-trip laws.
    \<open>Skyline_Types\<close>, \<open>Skyline_Parsers\<close>, \<open>Skyline_Instructions\<close>, \<open>Skyline_Properties\<close>: the package
    \<open>sendtx/skyline_program\<close>.
  \<^item> \<open>Instruction_Config\<close>: \<open>sendtx/instruction.go\<close>. \<open>Sendtx\<close>, \<open>Sendtx_Builders\<close>: \<open>sendtx/data.go\<close>,
    \<open>tx_sender.go\<close>, \<open>tx_options.go\<close> and \<open>alt.go\<close>, with the configuration that every build changes
    as the state. \<open>Sendtx_Lemmas\<close>, \<open>Sendtx_Properties\<close>: what a build that succeeds has checked and
    carries.
  \<^item> \<open>Chain_Simulator\<close>, \<open>Simulator_Rpc\<close>: \<open>chain_simulator.go\<close>, \<open>rpc_server.go\<close> and \<open>helpers.go\<close>
    of \<open>tracker/internal/trackertest\<close>. \<open>Simulator_Invariant\<close>: the chain stays well formed under any
    script. \<open>Simulator_Contract\<close>, \<open>Simulator_Events\<close>: its node is one the tracker's theorems assume,
    its events are ones the tracker reads. \<open>Simulator_Delivery\<close>, \<open>Simulator_Start\<close>,
    \<open>Simulator_Properties\<close>: a whole run of \<open>Start\<close> against it.

  \<^bold>\<open>What the properties show.\<close> They are numbered C1 to C40 where they stand. For the tracker: the
  invariants of the queue, the cursors and the head in every reachable state, across failed calls
  and restarts, as long as the writes of the query cursor succeed (C1, C15), and without that, that nothing is
  queued twice (C25); a fetch is complete and duplicate-free and ends (C10, C11, C31); processing
  stores the first events of the front transaction, all of them when it returns nil, and removes it
  exactly then (C4, C36); reported events are genuine (C7, C16, C26); when the head leaves a window that
  repeats, and when it waits (C33); and what is lost where the two writes of a poll come apart, while no newer
  transaction arrives (C35). For the storage: the refinement of the abstract store (C2), opening it
  (C38), the queue over any interleaving of writes that may fail (C19) and without failures (C18), and the
  indexes (C21, C22). For the sender: requests and batches carry what was asked and signed, with exactly
  their accounts (C5, C6, C8, C24, C40), lookup tables grow by what was missing (C27) and are resolved through a
  cache (C20). For the RPC client: results (C17), cooldowns that bind their own method only (C12), quotas
  (C37), and a wait that a limit above a second never ends (C34). For the generated code: round trips
  and disjoint discriminators (C29, C30). For the whole: \<open>Start\<close> against a simulated chain
  delivers every transaction once and in order, in any order of the passes (C3), because the simulator is a node
  as assumed (C9, C13, C14).

  \<^bold>\<open>Bounds and fuel.\<close> Loops over data are structural or have a measure. Four loops that nothing in the code
  bounds run on fuel and give the error \<open>OutOfFuel\<close> when it is used up:
  \<^item> \<open>catch_up_pages\<close>, the paging loop: as much fuel as the history has full pages of 1000 is enough, the
    loop asks for another page only after a full one (C31).
  \<^item> \<open>rpc_limits_loop\<close>: a call that the node answers with 429 \<open>n\<close> times needs \<open>n + 1\<close> rounds; C17 says
    that a result needs more rounds of fuel than there were such answers, and no more than that.
  \<^item> \<open>WaitForSignature\<close> of the provider: no amount is enough for a signature that stays undecided under a
    limit above one second, which is what C34 states.
  \<^item> \<open>history_loop\<close> of the simulator's constructor, which produces slots until a transaction exists; the theorems hold
    for any fuel with which it ends.
  Counters of the store and slots are 64 bits wide; a theorem that needs room for the next push, event or window
  has a hypothesis that says so (\<open>push_room\<close>, \<open>event_room\<close>, \<open>no_slot_overflow\<close>), and where the code wraps without a
  check a lemma shows it (\<open>fees_wrap\<close>, \<open>parseRetryAfter_wraps\<close>).

  \<^bold>\<open>Concurrency.\<close> The passes of the two loops are atomic steps in any order. In the code they
  interleave, but they share no variable, each storage operation is one database transaction, and the lemmas
  \<open>same_polling\<close> and \<open>pass_kept\<close> show that they change disjoint parts of the storage. The resolver and the
  simulator hold their lock over an operation, or over each access of their maps. The RPC client holds one lock per
  method over a whole limited call, and one lock of the client, shared by all methods, over each single request; so
  requests never overlap, and a request of one method can wait for a request of another in flight. The model has one
  request as one step. Its theorems on cooldowns (C12) say that a method does not wait for the cooldown of
  another, not that it never waits for another's request.

  \<^bold>\<open>Idealisations.\<close> A storage that answers (\<open>bolt_live\<close>, \<open>live_storage_handler\<close>), in C3, C18, C21
  and C22, is one whose writes go through, whatever the size of the value; bbolt refuses values above 2 GiB. The
  world of the simulated chain (\<open>sim_world\<close>), in C3 and C9, has Solana's documented JSON-RPC requests and results
  in place of the client of solana-go. The clock of C34 wakes a goroutine within a bound of the first timer.

  \<^bold>\<open>Not modelled.\<close> Logging. The texts of formatted errors beyond their format strings. The
  linter rules of \<open>gorules\<close> and the testify mocks (\<open>wallet/txprovider_mock.go\<close>,
  \<open>tracker/store/test_mocks.go\<close>), which hold no logic of the program: a mock returns what a test
  has set. The generated files without code (\<open>fetchers.go\<close>, \<open>errors.go\<close>, \<open>doc.go\<close>). \<open>Close\<close> of the storage,
  the temporary database and the artificial latency of the test server, the clock behind its ticker,
  \<open>net/http\<close>. Packages outside the repository appear only by the operations the code calls: bbolt, solana-go
  with its signing, compilation and addresses, \<open>gagliardetto/binary\<close>, the limiters, \<open>encoding/json\<close>. Floating-point
  arithmetic is exact on the values the code reaches; its overflowing conversion is a parameter.
\<close>

end
